(* ===== verification/Prelude.thy ===== *)
theory Prelude
  imports Main "HOL-Library.List_Lexorder" "HOL-Library.Char_ord"
begin

text \<open>
  What every component shares: Python exceptions as values, the result type of a call that
  may raise, the collections of simplification rules the component theories fill, and the
  lemmas on lists that stand for what SQL does to a table (a scan with a condition, an
  update with a condition, and the number of rows it touched).
\<close>

section \<open>Exceptions and results\<close>

text \<open>The exception classes the package raises or catches, with the class name where no code
  of the package distinguishes it from \<open>Exception\<close>.\<close>

datatype exc_class =
    ValueError
  | TypeError
  | KeyError
  | RuntimeError
  | OverflowError
  | JSONDecodeError
  | IntegrityError
  | IdempotencyConflict
  | InvalidTransition
  | ApprovalDenied
  | AuthenticationError
  | IndeterminateOutcome
  | ProviderLookupError
  | CancelledError
  | OtherError string

datatype exc = Exc (exc_kind: exc_class) (exc_msg: string)

text \<open>A call returns \<open>Inr\<close> of its value or raises, which is \<open>Inl\<close> of the exception.\<close>

type_synonym 'a res = "exc + 'a"

definition raise_exc :: "exc_class \<Rightarrow> string \<Rightarrow> 'a res" where
  "raise_exc c m = Inl (Exc c m)"

definition res_bind :: "'a res \<Rightarrow> ('a \<Rightarrow> 'b res) \<Rightarrow> 'b res" where
  "res_bind m f = (case m of Inl e \<Rightarrow> Inl e | Inr x \<Rightarrow> f x)"

definition is_ok :: "'a res \<Rightarrow> bool" where
  "is_ok m \<longleftrightarrow> (case m of Inl _ \<Rightarrow> False | Inr _ \<Rightarrow> True)"

named_theorems res_simps \<open>evaluation of calls that may raise\<close>
named_theorems table_simps \<open>scans and updates of the tables\<close>
named_theorems ledger_defs \<open>definitions of the ledger operations\<close>

lemma res_bind_Inl [simp, res_simps]: "res_bind (Inl e) f = Inl e"
  by (simp add: res_bind_def)

lemma res_bind_Inr [simp, res_simps]: "res_bind (Inr x) f = f x"
  by (simp add: res_bind_def)

lemma res_bind_eq_Inr [simp]:
  "res_bind m f = Inr y \<longleftrightarrow> (\<exists>x. m = Inr x \<and> f x = Inr y)"
  by (cases m) auto

lemma res_bind_eq_Inl:
  "res_bind m f = Inl e \<longleftrightarrow> m = Inl e \<or> (\<exists>x. m = Inr x \<and> f x = Inl e)"
  by (cases m) auto

lemma raise_exc_neq_Inr [simp]: "raise_exc c m \<noteq> Inr x"
  by (simp add: raise_exc_def)

lemma Inr_neq_raise_exc [simp]: "Inr x \<noteq> raise_exc c m"
  by (simp add: raise_exc_def)

lemma is_ok_simps [simp]: "is_ok (Inl e) = False" "is_ok (Inr x) = True"
  by (simp_all add: is_ok_def)

lemma is_ok_iff: "is_ok m \<longleftrightarrow> (\<exists>x. m = Inr x)"
  by (cases m) auto

section \<open>First of a list of options\<close>

text \<open>The first error a left-to-right traversal meets.\<close>

fun first_some :: "'a option list \<Rightarrow> 'a option" where
  "first_some [] = None"
| "first_some (None # xs) = first_some xs"
| "first_some (Some x # xs) = Some x"

lemma first_some_None_iff [simp]: "first_some xs = None \<longleftrightarrow> (\<forall>x \<in> set xs. x = None)"
  by (induction xs rule: first_some.induct) auto

lemma first_some_SomeD: "first_some xs = Some x \<Longrightarrow> Some x \<in> set xs"
  by (induction xs rule: first_some.induct) auto

section \<open>Tables\<close>

text \<open>
  A table is the list of its rows in the order they were inserted. An \<open>UPDATE ... WHERE\<close>
  maps over it and reports how many rows the condition selected (the cursor's \<open>rowcount\<close>).
\<close>

definition sql_update :: "('r \<Rightarrow> bool) \<Rightarrow> ('r \<Rightarrow> 'r) \<Rightarrow> 'r list \<Rightarrow> 'r list" where
  "sql_update P f rows = map (\<lambda>r. if P r then f r else r) rows"

definition sql_count :: "('r \<Rightarrow> bool) \<Rightarrow> 'r list \<Rightarrow> nat" where
  "sql_count P rows = length (filter P rows)"

text \<open>\<open>SELECT ... WHERE key = ?\<close> followed by \<open>fetchone()\<close>.\<close>

definition fetch_by :: "('r \<Rightarrow> 'k) \<Rightarrow> 'k \<Rightarrow> 'r list \<Rightarrow> 'r option" where
  "fetch_by key k rows = find (\<lambda>r. key r = k) rows"

lemma fetch_by_Nil [simp, table_simps]: "fetch_by key k [] = None"
  by (simp add: fetch_by_def)

lemma fetch_by_Cons [table_simps]:
  "fetch_by key k (r # rs) = (if key r = k then Some r else fetch_by key k rs)"
  by (simp add: fetch_by_def)

lemma fetch_by_append:
  "fetch_by key k (xs @ ys) = (case fetch_by key k xs of None \<Rightarrow> fetch_by key k ys | Some r \<Rightarrow> Some r)"
  by (induction xs) (auto simp: fetch_by_Cons)

lemma fetch_by_SomeD: "fetch_by key k rows = Some r \<Longrightarrow> r \<in> set rows \<and> key r = k"
  by (induction rows) (auto simp: fetch_by_Cons split: if_splits)

lemma fetch_by_None_iff: "fetch_by key k rows = None \<longleftrightarrow> k \<notin> key ` set rows"
  by (induction rows) (auto simp: fetch_by_Cons)

lemma fetch_by_Some_iff:
  "distinct (map key rows) \<Longrightarrow> fetch_by key k rows = Some r \<longleftrightarrow> r \<in> set rows \<and> key r = k"
  by (induction rows) (auto simp: fetch_by_Cons rev_image_eqI)

lemma fetch_by_sql_update:
  assumes "\<And>r. key (f r) = key r"
  shows "fetch_by key k (sql_update P f rows)
           = map_option (\<lambda>r. if P r then f r else r) (fetch_by key k rows)"
  by (induction rows) (auto simp: sql_update_def fetch_by_Cons assms)

lemma map_sql_update_inv [table_simps]:
  assumes "\<And>r. key (f r) = key r"
  shows "map key (sql_update P f rows) = map key rows"
  by (induction rows) (auto simp: sql_update_def assms)

lemma sql_update_none: "\<forall>r \<in> set rows. \<not> P r \<Longrightarrow> sql_update P f rows = rows"
  by (induction rows) (auto simp: sql_update_def)

lemma sql_count_key:
  assumes "distinct (map key rows)"
  shows "sql_count (\<lambda>r. key r = k \<and> Q r) rows
    = (case fetch_by key k rows of None \<Rightarrow> 0 | Some r \<Rightarrow> if Q r then 1 else 0)"
  using assms
proof (induction rows)
  case Nil
  then show ?case by (simp add: sql_count_def)
next
  case (Cons r rows)
  show ?case
  proof (cases "key r = k")
    case True
    with Cons.prems have "k \<notin> key ` set rows" by auto
    then have "filter (\<lambda>r. key r = k \<and> Q r) rows = []"
      by (auto simp: filter_empty_conv)
    with True show ?thesis by (simp add: sql_count_def fetch_by_Cons)
  next
    case False
    with Cons show ?thesis by (simp add: sql_count_def fetch_by_Cons)
  qed
qed

lemma sql_count_key_le: "distinct (map key rows) \<Longrightarrow> sql_count (\<lambda>r. key r = k \<and> Q r) rows \<le> 1"
  by (simp add: sql_count_key split: option.splits)

lemma sort_key_sorted [simp]: "sorted (map f xs) \<Longrightarrow> sort_key f xs = xs"
  by (rule sort_key_id_if_sorted)

lemma sorted_map_filter: "sorted (map f xs) \<Longrightarrow> sorted (map f (filter P xs))"
  by (induction xs) auto

lemma find_append: "find P (xs @ ys) = (case find P xs of None \<Rightarrow> find P ys | Some x \<Rightarrow> Some x)"
  by (induction xs) auto

end
