(* ===== verification/PyStr.thy ===== *)
theory PyStr
  imports Prelude
begin

text \<open>
  What the package uses of Python's \<open>str\<close>. A Python string is a HOL string whose characters
  are the code points U+0000 to U+00FF; code points beyond them (and lone surrogates) are
  outside the model. Ordering of strings is by code point, the order \<open>sorted\<close> uses.
\<close>

section \<open>Stripping and prefixes\<close>

definition code_point :: "char \<Rightarrow> nat" where
  "code_point c = of_char c"

text \<open>\<open>str.isspace\<close> on the code points of the model.\<close>

definition py_isspace :: "char \<Rightarrow> bool" where
  "py_isspace c \<longleftrightarrow> code_point c \<in> {9, 10, 11, 12, 13, 28, 29, 30, 31, 32, 133, 160}"

definition lstrip :: "string \<Rightarrow> string" where
  "lstrip s = dropWhile py_isspace s"

definition rstrip :: "string \<Rightarrow> string" where
  "rstrip s = rev (dropWhile py_isspace (rev s))"

definition strip :: "string \<Rightarrow> string" where
  "strip s = rstrip (lstrip s)"

fun startswith :: "string \<Rightarrow> string \<Rightarrow> bool" where
  "startswith s [] = True"
| "startswith [] (p # ps) = False"
| "startswith (c # s) (p # ps) = (c = p \<and> startswith s ps)"

lemma startswith_iff: "startswith s p \<longleftrightarrow> (\<exists>t. s = p @ t)"
  by (induction s p rule: startswith.induct) auto

lemma startswith_append [simp]: "startswith (p @ t) p"
  by (auto simp: startswith_iff)

lemma lstrip_stops: "lstrip s = [] \<or> \<not> py_isspace (hd (lstrip s))"
  by (induction s) (auto simp: lstrip_def)

lemma lstrip_id: "s = [] \<or> \<not> py_isspace (hd s) \<Longrightarrow> lstrip s = s"
  by (cases s) (auto simp: lstrip_def)

lemma rstrip_id: "s = [] \<or> \<not> py_isspace (last s) \<Longrightarrow> rstrip s = s"
proof (cases s rule: rev_cases)
  case Nil
  then show ?thesis by (simp add: rstrip_def)
next
  case (snoc t c)
  moreover assume "s = [] \<or> \<not> py_isspace (last s)"
  ultimately show ?thesis by (simp add: rstrip_def)
qed

lemma rstrip_prefix: "\<exists>t. s = rstrip s @ t \<and> (\<forall>c \<in> set t. py_isspace c)"
proof -
  have "rev s = takeWhile py_isspace (rev s) @ dropWhile py_isspace (rev s)" by simp
  then have "s = rev (dropWhile py_isspace (rev s)) @ rev (takeWhile py_isspace (rev s))"
    by (metis rev_append rev_rev_ident)
  then have "s = rstrip s @ rev (takeWhile py_isspace (rev s))"
    by (simp add: rstrip_def)
  moreover have "\<forall>c \<in> set (rev (takeWhile py_isspace (rev s))). py_isspace c"
    by (auto dest: set_takeWhileD)
  ultimately show ?thesis by blast
qed

lemma rstrip_last: "rstrip s = [] \<or> \<not> py_isspace (last (rstrip s))"
  using lstrip_stops [of "rev s"] by (auto simp: rstrip_def lstrip_def last_rev)

lemma strip_hd: "strip s = [] \<or> \<not> py_isspace (hd (strip s))"
proof -
  obtain t where t: "lstrip s = strip s @ t"
    using rstrip_prefix [of "lstrip s"] by (auto simp: strip_def)
  show ?thesis
    using lstrip_stops [of s] t by (cases "strip s") auto
qed

lemma strip_idem [simp]: "strip (strip s) = strip s"
proof -
  have "lstrip (strip s) = strip s"
    using strip_hd by (rule lstrip_id)
  moreover have "rstrip (strip s) = strip s"
    using rstrip_last [of "lstrip s"] by (intro rstrip_id) (simp add: strip_def)
  ultimately show ?thesis by (simp add: strip_def)
qed

lemma set_strip: "set (strip s) \<subseteq> set s"
  by (auto simp: strip_def rstrip_def lstrip_def dest!: set_dropWhileD)

lemma strip_eq_Nil: "strip s = [] \<longleftrightarrow> (\<forall>c \<in> set s. py_isspace c)"
proof -
  have "rstrip t = [] \<longleftrightarrow> (\<forall>c \<in> set t. py_isspace c)" for t by (simp add: rstrip_def)
  moreover have "(\<forall>c \<in> set (lstrip s). py_isspace c) \<longleftrightarrow> (\<forall>c \<in> set s. py_isspace c)"
    unfolding lstrip_def by (metis Un_iff set_append set_takeWhileD takeWhile_dropWhile_id)
  ultimately show ?thesis by (simp add: strip_def)
qed

lemma strip_Nil [simp]: "strip [] = []"
  by (simp add: strip_def lstrip_def rstrip_def)

section \<open>Sorted tuples of stripped, non-empty items\<close>

text \<open>\<open>tuple(sorted({x.strip() for x in xs if x.strip()}))\<close>\<close>

definition sorted_strip_set :: "string list \<Rightarrow> string list" where
  "sorted_strip_set xs = sort (remdups (filter (\<lambda>s. s \<noteq> []) (map strip xs)))"

lemma set_sorted_strip_set: "set (sorted_strip_set xs) = {strip x | x. x \<in> set xs \<and> strip x \<noteq> []}"
  by (auto simp: sorted_strip_set_def)

lemma sorted_sorted_strip_set [simp]: "sorted (sorted_strip_set xs)"
  by (simp add: sorted_strip_set_def)

lemma distinct_sorted_strip_set [simp]: "distinct (sorted_strip_set xs)"
  by (simp add: sorted_strip_set_def)

lemma sort_sorted_strip_set [simp]: "sort (sorted_strip_set xs) = sorted_strip_set xs"
  by (rule sort_key_id_if_sorted) simp

lemma sorted_strip_set_set_eq:
  "set xs = set ys \<Longrightarrow> sorted_strip_set xs = sorted_strip_set ys"
  by (rule sorted_distinct_set_unique) (simp_all add: set_sorted_strip_set)

lemma strip_in_sorted_strip_set: "x \<in> set (sorted_strip_set xs) \<Longrightarrow> strip x = x \<and> x \<noteq> []"
  by (auto simp: set_sorted_strip_set)

lemma sorted_strip_set_idem [simp]: "sorted_strip_set (sorted_strip_set xs) = sorted_strip_set xs"
proof -
  have "map strip (sorted_strip_set xs) = sorted_strip_set xs"
    by (rule map_idI) (simp add: strip_in_sorted_strip_set)
  moreover have "filter (\<lambda>s. s \<noteq> []) (sorted_strip_set xs) = sorted_strip_set xs"
    by (simp add: strip_in_sorted_strip_set)
  ultimately show ?thesis
    by (simp add: sorted_strip_set_def [of "sorted_strip_set xs"] distinct_remdups_id)
qed

section \<open>Decimal and hexadecimal digits\<close>

definition digit_char :: "nat \<Rightarrow> char" where
  "digit_char d = (if d < 10 then char_of (48 + d) else char_of (87 + d))"

fun nat_str :: "nat \<Rightarrow> string" where
  "nat_str n = (if n < 10 then [digit_char n] else nat_str (n div 10) @ [digit_char (n mod 10)])"

declare nat_str.simps [simp del]

text \<open>\<open>str(i)\<close> of an int.\<close>

definition int_str :: "int \<Rightarrow> string" where
  "int_str i = (if i < 0 then CHR ''-'' # nat_str (nat (- i)) else nat_str (nat i))"

text \<open>\<open>{n:0kd}\<close>: at least \<open>k\<close> digits, here exactly the lowest \<open>k\<close>.\<close>

fun padded :: "nat \<Rightarrow> nat \<Rightarrow> string" where
  "padded 0 n = []"
| "padded (Suc k) n = padded k (n div 10) @ [digit_char (n mod 10)]"

definition hex_byte :: "nat \<Rightarrow> string" where
  "hex_byte b = [digit_char (b div 16 mod 16), digit_char (b mod 16)]"

definition is_digit :: "char \<Rightarrow> bool" where
  "is_digit c \<longleftrightarrow> 48 \<le> code_point c \<and> code_point c \<le> 57"

definition digit_val :: "char \<Rightarrow> nat" where
  "digit_val c = code_point c - 48"

definition digits_val :: "string \<Rightarrow> nat" where
  "digits_val s = fold (\<lambda>c acc. 10 * acc + digit_val c) s 0"

lemma code_point_digit_char: "d < 10 \<Longrightarrow> code_point (digit_char d) = 48 + d"
  by (simp add: code_point_def digit_char_def of_char_of)

lemma code_point_hex_char: "d < 16 \<Longrightarrow> code_point (digit_char d) = (if d < 10 then 48 + d else 87 + d)"
  by (simp add: code_point_def digit_char_def of_char_of)

lemma digit_char_inj:
  assumes "d < 16" "e < 16"
  shows "digit_char d = digit_char e \<longleftrightarrow> d = e"
proof
  assume "digit_char d = digit_char e"
  then have "(if d < 10 then 48 + d else 87 + d) = (if e < 10 then 48 + e else 87 + e)"
    by (metis assms code_point_hex_char)
  then show "d = e" by (simp split: if_splits)
qed simp

lemma is_digit_digit_char [simp]: "d < 10 \<Longrightarrow> is_digit (digit_char d)"
  by (simp add: is_digit_def code_point_digit_char)

lemma digit_val_digit_char [simp]: "d < 10 \<Longrightarrow> digit_val (digit_char d) = d"
  by (simp add: digit_val_def code_point_digit_char)

lemma digits_val_snoc [simp]: "digits_val (s @ [c]) = 10 * digits_val s + digit_val c"
  by (simp add: digits_val_def)

lemma digits_val_Nil [simp]: "digits_val [] = 0"
  by (simp add: digits_val_def)

lemma digits_val_single [simp]: "digits_val [c] = digit_val c"
  by (simp add: digits_val_def)

lemma digits_val_nat_str [simp]: "digits_val (nat_str n) = n"
proof (induction n rule: nat_str.induct)
  case (1 n)
  then show ?case by (cases "n < 10") (simp_all add: nat_str.simps [of n])
qed

lemma nat_str_digits: "c \<in> set (nat_str n) \<Longrightarrow> is_digit c"
proof (induction n rule: nat_str.induct)
  case (1 n)
  then show ?case by (cases "n < 10") (auto simp: nat_str.simps [of n])
qed

lemma nat_str_neq_Nil [simp]: "nat_str n \<noteq> []"
  by (subst nat_str.simps) simp

lemma nat_str_inj [simp]: "nat_str m = nat_str n \<longleftrightarrow> m = n"
  by (metis digits_val_nat_str)

text \<open>No leading zero, except for zero itself.\<close>

lemma hd_nat_str: "hd (nat_str n) = CHR ''0'' \<longleftrightarrow> n = 0"
proof (induction n rule: nat_str.induct)
  case (1 n)
  show ?case
  proof (cases "n < 10")
    case True
    have "digit_char 0 = CHR ''0''" by code_simp
    then have "digit_char n = CHR ''0'' \<longleftrightarrow> n = 0"
      using True digit_char_inj [of n 0] by auto
    with True show ?thesis by (simp add: nat_str.simps [of n])
  next
    case False
    with 1 show ?thesis by (simp add: nat_str.simps [of n])
  qed
qed

lemma length_padded [simp]: "length (padded k n) = k"
  by (induction k arbitrary: n) auto

lemma digits_val_padded: "digits_val (padded k n) = n mod 10 ^ k"
proof (induction k arbitrary: n)
  case 0
  then show ?case by simp
next
  case (Suc k)
  have "10 * (n div 10 mod 10 ^ k) + n mod 10 = n mod 10 ^ Suc k"
    by (metis add.commute mod_mult2_eq mult.commute power_Suc)
  with Suc show ?case by simp
qed

lemma set_padded: "c \<in> set (padded k n) \<Longrightarrow> is_digit c"
  by (induction k arbitrary: n) auto

end
