(* ===== verification/Json.thy ===== *)
theory Json
  imports PyStr
begin

text \<open>
  Python's \<open>json.dumps\<close> and \<open>json.loads\<close> with the options the package uses them with.
  \<open>pyval\<close> is the Python value of an \<open>Any\<close> annotation: a float is represented by its
  \<open>repr\<close> (Python prints the shortest text that reads back as the same float, so the text
  determines the value), a dict by its items in insertion order with distinct string keys,
  and any object \<open>json\<close> cannot encode by the name of its class.
\<close>

section \<open>Values\<close>

datatype pyval =
    PNone
  | PBool bool
  | PInt int
  | PFloat string
  | PStr string
  | PList "pyval list"
  | PTuple "pyval list"
  | PDict "(string \<times> pyval) list"
  | PObject string

text \<open>\<open>d.get(k)\<close> and \<open>d[k] = v\<close> on the items of a dict.\<close>

definition dict_get :: "string \<Rightarrow> (string \<times> 'v) list \<Rightarrow> 'v option" where
  "dict_get k kvs = map_of kvs k"

fun dict_set :: "string \<Rightarrow> 'v \<Rightarrow> (string \<times> 'v) list \<Rightarrow> (string \<times> 'v) list" where
  "dict_set k v [] = [(k, v)]"
| "dict_set k v ((k', v') # kvs) =
     (if k' = k then (k, v) # kvs else (k', v') # dict_set k v kvs)"

text \<open>The dict that a list of pairs builds: the last value of a key, at its first position.\<close>

definition dict_of_pairs :: "(string \<times> 'v) list \<Rightarrow> (string \<times> 'v) list" where
  "dict_of_pairs kvs = fold (\<lambda>(k, v) d. dict_set k v d) kvs []"

lemma dict_set_new: "k \<notin> fst ` set kvs \<Longrightarrow> dict_set k v kvs = kvs @ [(k, v)]"
  by (induction k v kvs rule: dict_set.induct) auto

lemma dict_get_set: "dict_get k (dict_set k' v kvs) = (if k = k' then Some v else dict_get k kvs)"
  by (induction k' v kvs rule: dict_set.induct) (auto simp: dict_get_def)

lemma fold_dict_set_distinct:
  "distinct (map fst (acc @ kvs)) \<Longrightarrow> fold (\<lambda>(k, v) d. dict_set k v d) kvs acc = acc @ kvs"
proof (induction kvs arbitrary: acc)
  case (Cons kv kvs)
  obtain k v where kv: "kv = (k, v)" by (cases kv)
  with Cons.prems have "k \<notin> fst ` set acc" by auto
  with Cons.prems kv Cons.IH [of "acc @ [(k, v)]"] show ?case
    by (simp add: dict_set_new)
qed simp

lemma dict_of_pairs_distinct: "distinct (map fst kvs) \<Longrightarrow> dict_of_pairs kvs = kvs"
  using fold_dict_set_distinct [of "[]" kvs] by (simp add: dict_of_pairs_def)

section \<open>Printing\<close>

definition quote_char :: char where "quote_char = CHR 0x22"
definition backslash :: char where "backslash = CHR 0x5C"
definition newline :: char where "newline = CHR 0x0A"
definition apostrophe :: char where "apostrophe = CHR 0x27"

definition quoted :: "string \<Rightarrow> string" where "quoted s = [apostrophe] @ s @ [apostrophe]"

text \<open>The encoder's escapes; \<open>asc\<close> is the option \<open>ensure_ascii\<close>.\<close>

definition escape_char :: "bool \<Rightarrow> char \<Rightarrow> string" where
  "escape_char asc c = (let n = code_point c in
     if n = 34 then [backslash, quote_char]
     else if n = 92 then [backslash, backslash]
     else if n = 8 then [backslash, CHR ''b'']
     else if n = 12 then [backslash, CHR ''f'']
     else if n = 10 then [backslash, CHR ''n'']
     else if n = 13 then [backslash, CHR ''r'']
     else if n = 9 then [backslash, CHR ''t'']
     else if n < 32 \<or> asc \<and> 126 < n then backslash # ''u00'' @ hex_byte n
     else [c])"

definition json_string :: "bool \<Rightarrow> string \<Rightarrow> string" where
  "json_string asc s = quote_char # concat (map (escape_char asc) s) @ [quote_char]"

fun join :: "string \<Rightarrow> string list \<Rightarrow> string" where
  "join sep [] = []"
| "join sep [x] = x"
| "join sep (x # y # xs) = x @ sep @ join sep (y # xs)"

definition order_items :: "bool \<Rightarrow> (string \<times> 'v) list \<Rightarrow> (string \<times> 'v) list" where
  "order_items srt kvs = (if srt then sort_key fst kvs else kvs)"

text \<open>
  \<open>json.dumps(v, ensure_ascii=asc, sort_keys=srt, separators=(isep, ksep), allow_nan=False)\<close>
  where it succeeds; the text of a value it rejects is never used.
\<close>

primrec json_render :: "bool \<Rightarrow> bool \<Rightarrow> string \<Rightarrow> string \<Rightarrow> pyval \<Rightarrow> string" where
  "json_render asc srt isep ksep PNone = ''null''"
| "json_render asc srt isep ksep (PBool b) = (if b then ''true'' else ''false'')"
| "json_render asc srt isep ksep (PInt i) = int_str i"
| "json_render asc srt isep ksep (PFloat s) = s"
| "json_render asc srt isep ksep (PStr s) = json_string asc s"
| "json_render asc srt isep ksep (PList vs) =
     CHR ''['' # join isep (map (json_render asc srt isep ksep) vs) @ '']''"
| "json_render asc srt isep ksep (PTuple vs) =
     CHR ''['' # join isep (map (json_render asc srt isep ksep) vs) @ '']''"
| "json_render asc srt isep ksep (PDict kvs) =
     CHR ''{'' # join isep (map (\<lambda>(k, t). json_string asc k @ ksep @ t)
       (order_items srt (map (map_prod id (json_render asc srt isep ksep)) kvs))) @ ''}''"
| "json_render asc srt isep ksep (PObject n) = []"

definition nonfinite :: "string \<Rightarrow> bool" where
  "nonfinite s \<longleftrightarrow> s \<in> {''nan'', ''inf'', ''-inf''}"

text \<open>The first exception the encoder meets, in the order it visits the value.\<close>

primrec json_error :: "bool \<Rightarrow> pyval \<Rightarrow> exc option" where
  "json_error srt PNone = None"
| "json_error srt (PBool b) = None"
| "json_error srt (PInt i) = None"
| "json_error srt (PFloat s) = (if nonfinite s
     then Some (Exc ValueError (''Out of range float values are not JSON compliant: '' @ s))
     else None)"
| "json_error srt (PStr s) = None"
| "json_error srt (PList vs) = first_some (map (json_error srt) vs)"
| "json_error srt (PTuple vs) = first_some (map (json_error srt) vs)"
| "json_error srt (PDict kvs) =
     first_some (map snd (order_items srt (map (map_prod id (json_error srt)) kvs)))"
| "json_error srt (PObject n) =
     Some (Exc TypeError (''Object of type '' @ n @ '' is not JSON serializable''))"

definition json_dumps :: "bool \<Rightarrow> bool \<Rightarrow> string \<Rightarrow> string \<Rightarrow> pyval \<Rightarrow> string res" where
  "json_dumps asc srt isep ksep v =
     (case json_error srt v of Some e \<Rightarrow> Inl e | None \<Rightarrow> Inr (json_render asc srt isep ksep v))"

text \<open>\<open>json.dumps\<close> with its default \<open>allow_nan\<close>: what is not finite is written in JavaScript's way.\<close>

primrec javascript_floats :: "pyval \<Rightarrow> pyval" where
  "javascript_floats PNone = PNone"
| "javascript_floats (PBool b) = PBool b"
| "javascript_floats (PInt i) = PInt i"
| "javascript_floats (PFloat s) = PFloat (if s = ''nan'' then ''NaN'' else if s = ''inf'' then ''Infinity''
     else if s = ''-inf'' then ''-Infinity'' else s)"
| "javascript_floats (PStr s) = PStr s"
| "javascript_floats (PList vs) = PList (map javascript_floats vs)"
| "javascript_floats (PTuple vs) = PTuple (map javascript_floats vs)"
| "javascript_floats (PDict kvs) = PDict (map (map_prod id javascript_floats) kvs)"
| "javascript_floats (PObject n) = PObject n"

text \<open>\<open>json.dumps(v, ensure_ascii=asc, sort_keys=srt, indent=2)\<close>: every item on a line of its own,
  two blanks deeper than the value it is in.\<close>

definition newline_indent :: "nat \<Rightarrow> string" where
  "newline_indent n = newline # replicate (2 * n) (CHR '' '')"

definition indented_items :: "char \<Rightarrow> nat \<Rightarrow> string list \<Rightarrow> char \<Rightarrow> string" where
  "indented_items opening n items closing =
     (if items = [] then [opening, closing]
      else opening # newline_indent (Suc n) @ join (CHR '','' # newline_indent (Suc n)) items
        @ newline_indent n @ [closing])"

primrec json_indented :: "bool \<Rightarrow> bool \<Rightarrow> pyval \<Rightarrow> nat \<Rightarrow> string" where
  "json_indented asc srt PNone = (\<lambda>n. ''null'')"
| "json_indented asc srt (PBool b) = (\<lambda>n. if b then ''true'' else ''false'')"
| "json_indented asc srt (PInt i) = (\<lambda>n. int_str i)"
| "json_indented asc srt (PFloat s) = (\<lambda>n. s)"
| "json_indented asc srt (PStr s) = (\<lambda>n. json_string asc s)"
| "json_indented asc srt (PList vs) =
     (\<lambda>n. indented_items (CHR ''['') n (map (\<lambda>t. t (Suc n)) (map (json_indented asc srt) vs)) (CHR '']''))"
| "json_indented asc srt (PTuple vs) =
     (\<lambda>n. indented_items (CHR ''['') n (map (\<lambda>t. t (Suc n)) (map (json_indented asc srt) vs)) (CHR '']''))"
| "json_indented asc srt (PDict kvs) =
     (\<lambda>n. indented_items (CHR ''{'') n (map (\<lambda>(k, t). json_string asc k @ '': '' @ t (Suc n))
       (order_items srt (map (map_prod id (json_indented asc srt)) kvs))) (CHR ''}''))"
| "json_indented asc srt (PObject n) = (\<lambda>n. [])"

definition json_dumps_indent :: "bool \<Rightarrow> bool \<Rightarrow> pyval \<Rightarrow> string res" where
  "json_dumps_indent asc srt v =
     (case json_error srt (javascript_floats v) of
        Some e \<Rightarrow> Inl e | None \<Rightarrow> Inr (json_indented asc srt (javascript_floats v) 0))"

text \<open>What \<open>json.loads(json.dumps(v, sort_keys=srt))\<close> is: tuples become lists and, with
  \<open>sort_keys\<close>, items come in key order. \<open>json_roundtrip\<close> below proves it.\<close>

primrec json_norm :: "bool \<Rightarrow> pyval \<Rightarrow> pyval" where
  "json_norm srt PNone = PNone"
| "json_norm srt (PBool b) = PBool b"
| "json_norm srt (PInt i) = PInt i"
| "json_norm srt (PFloat s) = PFloat s"
| "json_norm srt (PStr s) = PStr s"
| "json_norm srt (PList vs) = PList (map (json_norm srt) vs)"
| "json_norm srt (PTuple vs) = PList (map (json_norm srt) vs)"
| "json_norm srt (PDict kvs) = PDict (order_items srt (map (map_prod id (json_norm srt)) kvs))"
| "json_norm srt (PObject n) = PObject n"

section \<open>Parsing\<close>

text \<open>The decoder's grammar. Code points above U+00FF in a \<open>\u\<close> escape are outside the model
  and are treated as an error.\<close>

definition json_ws :: "char \<Rightarrow> bool" where
  "json_ws c \<longleftrightarrow> code_point c \<in> {32, 9, 10, 13}"

definition skip_ws :: "string \<Rightarrow> string" where
  "skip_ws s = dropWhile json_ws s"

definition hex_val :: "char \<Rightarrow> nat option" where
  "hex_val c = (let n = code_point c in
     if 48 \<le> n \<and> n \<le> 57 then Some (n - 48)
     else if 97 \<le> n \<and> n \<le> 102 then Some (n - 87)
     else if 65 \<le> n \<and> n \<le> 70 then Some (n - 55) else None)"

definition hex4 :: "char \<Rightarrow> char \<Rightarrow> char \<Rightarrow> char \<Rightarrow> nat option" where
  "hex4 a b c d = (case (hex_val a, hex_val b, hex_val c, hex_val d) of
     (Some i, Some j, Some k, Some l) \<Rightarrow> Some (((16 * i + j) * 16 + k) * 16 + l) | _ \<Rightarrow> None)"

definition unescape :: "char \<Rightarrow> char option" where
  "unescape e =
     (if e = quote_char then Some quote_char
      else if e = backslash then Some backslash
      else if e = CHR ''/'' then Some (CHR ''/'')
      else if e = CHR ''b'' then Some (char_of (8::nat))
      else if e = CHR ''f'' then Some (char_of (12::nat))
      else if e = CHR ''n'' then Some (char_of (10::nat))
      else if e = CHR ''r'' then Some (char_of (13::nat))
      else if e = CHR ''t'' then Some (char_of (9::nat))
      else None)"

definition cons_fst :: "'a \<Rightarrow> ('a list \<times> 'b) option \<Rightarrow> ('a list \<times> 'b) option" where
  "cons_fst c m = (case m of None \<Rightarrow> None | Some (x, r) \<Rightarrow> Some (c # x, r))"

text \<open>The body of a string, after its opening quote.\<close>

fun parse_str :: "string \<Rightarrow> (string \<times> string) option" where
  "parse_str [] = None"
| "parse_str (c # s) =
     (if c = quote_char then Some ([], s)
      else if c = backslash then
        (case s of [] \<Rightarrow> None
         | e # s' \<Rightarrow>
           if e = CHR ''u'' then
             (case s' of a # b # x # y # s'' \<Rightarrow>
                (case hex4 a b x y of None \<Rightarrow> None
                 | Some n \<Rightarrow> if n < 256 then cons_fst (char_of n) (parse_str s'') else None)
              | _ \<Rightarrow> None)
           else (case unescape e of None \<Rightarrow> None | Some ch \<Rightarrow> cons_fst ch (parse_str s')))
      else if code_point c < 32 then None
      else cons_fst c (parse_str s))"

definition scan_nat :: "string \<Rightarrow> (string \<times> string) option" where
  "scan_nat s = (case s of [] \<Rightarrow> None
     | c # r \<Rightarrow> if c = CHR ''0'' then Some ([c], r)
        else if is_digit c then Some (c # takeWhile is_digit r, dropWhile is_digit r) else None)"

definition scan_frac :: "string \<Rightarrow> string \<times> string" where
  "scan_frac s = (case s of [] \<Rightarrow> ([], [])
     | p # r \<Rightarrow> if p = CHR ''.'' \<and> takeWhile is_digit r \<noteq> []
        then (p # takeWhile is_digit r, dropWhile is_digit r) else ([], s))"

definition scan_sign :: "string \<Rightarrow> string \<times> string" where
  "scan_sign s = (case s of [] \<Rightarrow> ([], [])
     | c # r \<Rightarrow> if c = CHR ''+'' \<or> c = CHR ''-'' then ([c], r) else ([], s))"

definition scan_exp :: "string \<Rightarrow> string \<times> string" where
  "scan_exp s = (case s of [] \<Rightarrow> ([], [])
     | e # r \<Rightarrow> if (e = CHR ''e'' \<or> e = CHR ''E'') \<and> takeWhile is_digit (snd (scan_sign r)) \<noteq> []
        then (e # fst (scan_sign r) @ takeWhile is_digit (snd (scan_sign r)),
              dropWhile is_digit (snd (scan_sign r)))
        else ([], s))"

definition int_of_text :: "bool \<Rightarrow> string \<Rightarrow> int" where
  "int_of_text neg ds = (if neg then - int (digits_val ds) else int (digits_val ds))"

definition scan_number :: "string \<Rightarrow> (pyval \<times> string) option" where
  "scan_number s =
     (let neg = startswith s ''-''; s' = (if neg then tl s else s) in
      case scan_nat s' of None \<Rightarrow> None
      | Some (ip, r) \<Rightarrow>
        (let (fp, r1) = scan_frac r; (ep, r2) = scan_exp r1 in
         Some (if fp = [] \<and> ep = [] then PInt (int_of_text neg ip)
               else PFloat ((if neg then ''-'' else []) @ ip @ fp @ ep), r2)))"

fun parse_value :: "nat \<Rightarrow> string \<Rightarrow> (pyval \<times> string) option"
  and parse_elems :: "nat \<Rightarrow> string \<Rightarrow> (pyval list \<times> string) option"
  and parse_members :: "nat \<Rightarrow> string \<Rightarrow> ((string \<times> pyval) list \<times> string) option" where
  "parse_value 0 s = None"
| "parse_value (Suc n) s =
     (case s of [] \<Rightarrow> None
      | c # r \<Rightarrow>
        if c = quote_char then map_option (\<lambda>(x, r'). (PStr x, r')) (parse_str r)
        else if c = CHR ''{'' then
          (if startswith (skip_ws r) ''}'' then Some (PDict [], tl (skip_ws r))
           else map_option (\<lambda>(kvs, r'). (PDict (dict_of_pairs kvs), r')) (parse_members n (skip_ws r)))
        else if c = CHR ''['' then
          (if startswith (skip_ws r) '']'' then Some (PList [], tl (skip_ws r))
           else map_option (\<lambda>(vs, r'). (PList vs, r')) (parse_elems n (skip_ws r)))
        else if startswith s ''null'' then Some (PNone, drop 4 s)
        else if startswith s ''true'' then Some (PBool True, drop 4 s)
        else if startswith s ''false'' then Some (PBool False, drop 5 s)
        else if startswith s ''NaN'' then Some (PFloat ''nan'', drop 3 s)
        else if startswith s ''Infinity'' then Some (PFloat ''inf'', drop 8 s)
        else if startswith s ''-Infinity'' then Some (PFloat ''-inf'', drop 9 s)
        else scan_number s)"
| "parse_elems 0 s = None"
| "parse_elems (Suc n) s =
     (case parse_value n s of None \<Rightarrow> None
      | Some (v, r) \<Rightarrow>
        if startswith (skip_ws r) '']'' then Some ([v], tl (skip_ws r))
        else if startswith (skip_ws r) '','' then cons_fst v (parse_elems n (skip_ws (tl (skip_ws r))))
        else None)"
| "parse_members 0 s = None"
| "parse_members (Suc n) s =
     (if \<not> startswith s [quote_char] then None
      else case parse_str (tl s) of None \<Rightarrow> None
      | Some (k, r) \<Rightarrow>
        if \<not> startswith (skip_ws r) '':'' then None
        else case parse_value n (skip_ws (tl (skip_ws r))) of None \<Rightarrow> None
        | Some (v, r') \<Rightarrow>
          if startswith (skip_ws r') ''}'' then Some ([(k, v)], tl (skip_ws r'))
          else if startswith (skip_ws r') '',''
          then cons_fst (k, v) (parse_members n (skip_ws (tl (skip_ws r'))))
          else None)"

text \<open>Each nesting level reads at least one character and spends two units of fuel, so twice the
  text's length is enough (\<open>parse_value_fuel\<close> in the theory \<open>Json_Roundtrip\<close>).\<close>

definition json_loads :: "string \<Rightarrow> pyval res" where
  "json_loads s = (case parse_value (Suc (2 * length s)) (skip_ws s) of
     None \<Rightarrow> raise_exc JSONDecodeError ''Expecting value''
   | Some (v, r) \<Rightarrow> if skip_ws r = [] then Inr v else raise_exc JSONDecodeError ''Extra data'')"

end
