(* ===== verification/Json_Roundtrip.thy ===== *)
theory Json_Roundtrip
  imports Json "HOL-Library.Multiset"
begin

text \<open>
  What the package relies on of the JSON text it stores: a stored value reads back as its
  normal form (\<open>json_roundtrip\<close>), so the text determines the value (\<open>json_render_inj\<close>), and
  normal forms are stored and read back unchanged. The parser's fuel is enough.
\<close>

section \<open>Ordered items\<close>

lemma insort_key_map: "insort_key g (f x) (map f xs) = map f (insort_key (\<lambda>a. g (f a)) x xs)"
  by (induction xs) auto

lemma sort_key_map: "sort_key g (map f xs) = map f (sort_key (g \<circ> f) xs)"
  by (induction xs) (simp_all add: insort_key_map comp_def)

lemma order_items_map_prod:
  "order_items srt (map (map_prod id f) kvs) = map (map_prod id f) (order_items srt kvs)"
proof -
  have "fst \<circ> map_prod id f = fst" by (rule ext) (simp add: split_beta)
  then show ?thesis by (simp add: order_items_def sort_key_map)
qed

lemma set_order_items [simp]: "set (order_items srt kvs) = set kvs"
  by (simp add: order_items_def)

lemma distinct_order_items [simp]: "distinct (map fst (order_items srt kvs)) = distinct (map fst kvs)"
proof -
  have "mset (order_items srt kvs) = mset kvs" by (simp add: order_items_def)
  then show ?thesis by (metis mset_eq_imp_distinct_iff mset_map)
qed

lemma order_items_idem [simp]: "order_items srt (order_items srt kvs) = order_items srt kvs"
  by (simp add: order_items_def sort_key_id_if_sorted)

lemma order_items_Nil [simp]: "order_items srt [] = []"
  by (simp add: order_items_def)

lemma order_items_single [simp]: "order_items srt [kv] = [kv]"
  by (simp add: order_items_def)

lemma order_items_eq_Nil [simp]: "order_items srt kvs = [] \<longleftrightarrow> kvs = []"
  by (metis set_empty set_order_items)

text \<open>Two dicts with the same items are ordered the same way.\<close>

lemma order_items_permute:
  assumes "distinct (map fst kvs)" "distinct (map fst kvs')" "set kvs = set kvs'"
  shows "order_items True kvs = order_items True kvs'"
proof -
  have "distinct kvs" "distinct kvs'"
    using assms(1,2) by (simp_all add: distinct_map)
  then have "mset kvs = mset kvs'"
    using assms(3) by (simp add: set_eq_iff_mset_eq_distinct)
  moreover have "inj_on fst (set kvs)"
    using assms(1) by (simp add: distinct_map)
  ultimately show ?thesis
    using assms(1) by (simp add: order_items_def sort_key_inj_key_eq)
qed

section \<open>Well-formed values\<close>

text \<open>Dict keys are distinct, and the text of a finite float is the text of a float literal.\<close>

primrec json_wf :: "pyval \<Rightarrow> bool" where
  "json_wf PNone = True"
| "json_wf (PBool b) = True"
| "json_wf (PInt i) = True"
| "json_wf (PFloat s) = (nonfinite s \<or> scan_number s = Some (PFloat s, []))"
| "json_wf (PStr s) = True"
| "json_wf (PList vs) = (\<forall>b \<in> set (map json_wf vs). b)"
| "json_wf (PTuple vs) = (\<forall>b \<in> set (map json_wf vs). b)"
| "json_wf (PDict kvs) =
     (distinct (map fst kvs) \<and> (\<forall>kb \<in> set (map (map_prod id json_wf) kvs). snd kb))"
| "json_wf (PObject n) = True"

lemma json_error_PList_None [simp]:
  "json_error srt (PList vs) = None \<longleftrightarrow> (\<forall>v \<in> set vs. json_error srt v = None)"
  "json_error srt (PTuple vs) = None \<longleftrightarrow> (\<forall>v \<in> set vs. json_error srt v = None)"
  by auto

lemma json_error_PDict_None [simp]:
  "json_error srt (PDict kvs) = None \<longleftrightarrow> (\<forall>kv \<in> set kvs. json_error srt (snd kv) = None)"
  by (auto simp: order_items_map_prod split_beta)

lemma json_norm_PDict: "json_norm srt (PDict kvs) = PDict (map (map_prod id (json_norm srt)) (order_items srt kvs))"
  by (simp add: order_items_map_prod)

text \<open>Induction over a value, with the values of a dict as the hypotheses of its case.\<close>

lemma pyval_induct [case_names PNone PBool PInt PFloat PStr PList PTuple PDict PObject]:
  assumes "P PNone" "\<And>b. P (PBool b)" "\<And>i. P (PInt i)" "\<And>s. P (PFloat s)" "\<And>s. P (PStr s)"
    and "\<And>vs. (\<And>v. v \<in> set vs \<Longrightarrow> P v) \<Longrightarrow> P (PList vs)"
    and "\<And>vs. (\<And>v. v \<in> set vs \<Longrightarrow> P v) \<Longrightarrow> P (PTuple vs)"
    and "\<And>kvs. (\<And>kv. kv \<in> set kvs \<Longrightarrow> P (snd kv)) \<Longrightarrow> P (PDict kvs)"
    and "\<And>n. P (PObject n)"
  shows "P v"
proof (induction v)
  case (PDict kvs)
  then have "\<And>kv. kv \<in> set kvs \<Longrightarrow> P (snd kv)" by (metis snds.intros surjective_pairing)
  then show ?case by (rule assms(8))
qed (use assms in auto)

lemma map_map_prod_cong:
  "(\<And>kv. kv \<in> set kvs \<Longrightarrow> f (snd kv) = g (snd kv)) \<Longrightarrow> map (map_prod id f) kvs = map (map_prod id g) kvs"
  by (rule map_cong) (auto simp: map_prod_def split_beta)

lemma map_map_prod_comp: "map (map_prod id f) (map (map_prod id g) kvs) = map (map_prod id (f \<circ> g)) kvs"
  by (simp add: map_prod.comp)

lemma map_fst_map_prod [simp]: "map fst (map (map_prod id f) kvs) = map fst kvs"
  by (simp add: comp_def)

lemma json_norm_idem [simp]: "json_norm srt (json_norm srt v) = json_norm srt v"
proof (induction v rule: pyval_induct)
  case (PDict kvs)
  then have "map (map_prod id (json_norm srt \<circ> json_norm srt)) (order_items srt kvs)
      = map (map_prod id (json_norm srt)) (order_items srt kvs)"
    by (intro map_map_prod_cong) simp
  then show ?case
    by (simp only: json_norm_PDict order_items_map_prod order_items_idem map_map_prod_comp)
qed auto

lemma json_wf_PDict [simp]:
  "json_wf (PDict kvs) \<longleftrightarrow> distinct (map fst kvs) \<and> (\<forall>kv \<in> set kvs. json_wf (snd kv))"
  by auto

declare json_wf.simps(8) [simp del] json_norm.simps(8) [simp del] json_error.simps(8) [simp del]
declare json_norm_PDict [simp]

lemma json_wf_norm [simp]: "json_wf v \<Longrightarrow> json_wf (json_norm srt v)"
proof (induction v rule: pyval_induct)
  case (PDict kvs)
  then show ?case by (simp del: map_map)
qed auto

lemma json_error_norm [simp]: "json_error srt v = None \<Longrightarrow> json_error srt (json_norm srt v) = None"
  by (induction v rule: pyval_induct) auto

text \<open>The encoder raises \<open>ValueError\<close> or \<open>TypeError\<close> and nothing else.\<close>

lemma json_error_kind: "json_error srt v = Some e \<Longrightarrow> exc_kind e = ValueError \<or> exc_kind e = TypeError"
proof (induction v rule: pyval_induct)
  case (PDict kvs)
  then have "Some e \<in> set (map snd (order_items srt (map (map_prod id (json_error srt)) kvs)))"
    by (intro first_some_SomeD) (simp add: json_error.simps(8))
  then obtain kv where "kv \<in> set kvs" "json_error srt (snd kv) = Some e" by auto
  with PDict.IH show ?case by blast
qed (auto split: if_splits dest!: first_some_SomeD)

lemma json_render_PDict:
  "json_render asc srt isep ksep (PDict kvs) =
     CHR ''{'' # join isep (map (\<lambda>kv. json_string asc (fst kv) @ ksep @ json_render asc srt isep ksep (snd kv))
       (order_items srt kvs)) @ ''}''"
  by (simp add: order_items_map_prod comp_def split_beta)

declare json_render.simps(8) [simp del]
declare json_render_PDict [simp]

lemma json_render_norm [simp]:
  "json_render asc srt isep ksep (json_norm srt v) = json_render asc srt isep ksep v"
proof (induction v rule: pyval_induct)
  case (PDict kvs)
  then have "map (\<lambda>kv. json_string asc (fst kv) @ ksep @ json_render asc srt isep ksep (snd kv))
        (map (map_prod id (json_norm srt)) (order_items srt kvs))
      = map (\<lambda>kv. json_string asc (fst kv) @ ksep @ json_render asc srt isep ksep (snd kv))
        (order_items srt kvs)"
    by (simp add: split_beta)
  then show ?case by (simp only: json_norm_PDict json_render_PDict order_items_map_prod order_items_idem)
qed (auto simp: comp_def cong: map_cong)

section \<open>Strings\<close>

lemma code_point_inj: "code_point c = code_point d \<longleftrightarrow> c = d"
  by (simp add: code_point_def)

lemma code_point_less [simp]: "code_point c < 256"
  by (simp add: code_point_def)

lemma char_of_code_point [simp]: "char_of (code_point c) = c"
  by (simp add: code_point_def)

lemma code_point_consts [simp]:
  "code_point quote_char = 34" "code_point backslash = 92"
  "code_point (CHR ''b'') = 98" "code_point (CHR ''f'') = 102" "code_point (CHR ''n'') = 110"
  "code_point (CHR ''r'') = 114" "code_point (CHR ''t'') = 116" "code_point (CHR ''u'') = 117"
  "code_point (CHR ''0'') = 48" "code_point (CHR ''/'') = 47"
  by code_simp+

lemma char_eq_code_point: "c = d \<longleftrightarrow> code_point c = code_point d"
  by (simp add: code_point_inj)

lemma hex_val_digit_char: "d < 16 \<Longrightarrow> hex_val (digit_char d) = Some d"
  by (simp add: hex_val_def Let_def code_point_hex_char)

lemma hex4_byte: "n < 256 \<Longrightarrow>
    hex4 (CHR ''0'') (CHR ''0'') (digit_char (n div 16)) (digit_char (n mod 16)) = Some n"
  by (simp add: hex4_def hex_val_digit_char) (simp add: hex_val_def)

lemma parse_str_unicode_escape:
  "n < 256 \<Longrightarrow> parse_str (backslash # ''u00'' @ hex_byte n @ t) = cons_fst (char_of n) (parse_str t)"
  by (simp add: hex_byte_def hex4_byte char_eq_code_point del: char_of_code_point)

lemma unescape_simps [simp]:
  "unescape quote_char = Some quote_char" "unescape backslash = Some backslash"
  "unescape (CHR ''b'') = Some (char_of (8::nat))" "unescape (CHR ''f'') = Some (char_of (12::nat))"
  "unescape (CHR ''n'') = Some (char_of (10::nat))" "unescape (CHR ''r'') = Some (char_of (13::nat))"
  "unescape (CHR ''t'') = Some (char_of (9::nat))"
  by (simp_all add: unescape_def char_eq_code_point)

lemma escape_char_consts [simp]:
  "backslash \<noteq> quote_char" "quote_char \<noteq> backslash" "quote_char \<noteq> CHR ''u''" "backslash \<noteq> CHR ''u''"
  by (simp_all add: char_eq_code_point)

lemma char_of_eq: "code_point c = n \<Longrightarrow> char_of n = c"
  by auto

lemma parse_str_escape_char: "parse_str (escape_char asc c @ t) = cons_fst c (parse_str t)"
proof -
  let ?n = "code_point c"
  consider "?n = 34" | "?n = 92" | "?n = 8" | "?n = 12" | "?n = 10" | "?n = 13" | "?n = 9"
    | "?n \<notin> {34, 92, 8, 12, 10, 13, 9}" "?n < 32 \<or> asc \<and> 126 < ?n"
    | "?n \<notin> {34, 92, 8, 12, 10, 13, 9}" "\<not> (?n < 32 \<or> asc \<and> 126 < ?n)"
    by blast
  then show ?thesis
  proof cases
    case 1
    then have "c = quote_char" by (simp add: char_eq_code_point)
    then show ?thesis by (simp add: escape_char_def Let_def)
  next
    case 2
    then have "c = backslash" by (simp add: char_eq_code_point)
    then show ?thesis by (simp add: escape_char_def Let_def)
  next
    case 8
    then have "escape_char asc c = backslash # ''u00'' @ hex_byte ?n"
      by (auto simp: escape_char_def Let_def)
    then have "parse_str (escape_char asc c @ t) = parse_str (backslash # ''u00'' @ hex_byte ?n @ t)"
      by simp
    also have "\<dots> = cons_fst c (parse_str t)"
      by (subst parse_str_unicode_escape) auto
    finally show ?thesis .
  next
    case 9
    then have "escape_char asc c = [c]" by (auto simp: escape_char_def Let_def)
    moreover have "c \<noteq> quote_char" "c \<noteq> backslash" "\<not> code_point c < 32"
      using 9 by (auto simp: char_eq_code_point)
    ultimately show ?thesis by simp
  qed (auto simp: escape_char_def Let_def char_eq_code_point char_of_eq)
qed

lemma parse_str_escaped:
  "parse_str (concat (map (escape_char asc) s) @ quote_char # rest) = Some (s, rest)"
  by (induction s) (simp_all add: parse_str_escape_char cons_fst_def)

section \<open>Numbers\<close>

lemma json_ws_consts [simp]:
  "\<not> json_ws (CHR '','')" "\<not> json_ws (CHR '']'')" "\<not> json_ws (CHR ''}'')" "\<not> json_ws (CHR '':'')"
  "\<not> json_ws (CHR ''{'')" "\<not> json_ws (CHR ''['')" "\<not> json_ws (CHR ''n'')" "\<not> json_ws (CHR ''t'')"
  "\<not> json_ws (CHR ''f'')" "\<not> json_ws (CHR ''-'')" "\<not> json_ws (CHR ''+'')" "\<not> json_ws (CHR ''.'')"
  "\<not> json_ws (CHR ''e'')" "\<not> json_ws (CHR ''E'')" "json_ws newline" "json_ws (CHR '' '')" "\<not> json_ws quote_char"
  by code_simp+

lemma is_digit_not_ws: "is_digit c \<Longrightarrow> \<not> json_ws c"
  by (auto simp: is_digit_def json_ws_def)

lemma is_digit_not_ws': "json_ws c \<Longrightarrow> \<not> is_digit c"
  using is_digit_not_ws by blast

definition stops :: "string \<Rightarrow> bool" where
  "stops rest \<longleftrightarrow> (case rest of [] \<Rightarrow> True | c # _ \<Rightarrow> json_ws c \<or> c \<in> {CHR '','', CHR '']'', CHR ''}''})"

lemma is_digit_consts [simp]:
  "\<not> is_digit (CHR '','')" "\<not> is_digit (CHR '']'')" "\<not> is_digit (CHR ''}'')" "\<not> is_digit (CHR ''.'')"
  "\<not> is_digit (CHR ''{'')" "\<not> is_digit (CHR ''['')" "\<not> is_digit (CHR ''n'')" "\<not> is_digit (CHR ''t'')"
  "\<not> is_digit (CHR ''f'')" "\<not> is_digit (CHR ''N'')" "\<not> is_digit (CHR ''I'')" "\<not> is_digit (CHR ''-'')"
  "\<not> is_digit quote_char" "is_digit (CHR ''0'')"
  by code_simp+

lemma stops_digits:
  assumes "stops rest"
  shows "takeWhile is_digit (r @ rest) = takeWhile is_digit r"
    and "dropWhile is_digit (r @ rest) = dropWhile is_digit r @ rest"
proof -
  have "takeWhile is_digit rest = []" "dropWhile is_digit rest = rest"
    using assms by (auto simp: stops_def is_digit_not_ws' split: list.splits)
  then show "takeWhile is_digit (r @ rest) = takeWhile is_digit r"
    and "dropWhile is_digit (r @ rest) = dropWhile is_digit r @ rest"
    by (induction r) auto
qed

lemma scan_nat_append:
  "stops rest \<Longrightarrow> scan_nat s = Some (ip, r) \<Longrightarrow> scan_nat (s @ rest) = Some (ip, r @ rest)"
  by (auto simp: scan_nat_def stops_digits split: list.splits if_splits)

lemma scan_frac_append:
  "stops rest \<Longrightarrow> scan_frac (s @ rest) = (fst (scan_frac s), snd (scan_frac s) @ rest)"
  by (cases s) (auto simp: scan_frac_def stops_digits stops_def split: list.splits)

lemma scan_sign_append:
  "stops rest \<Longrightarrow> scan_sign (s @ rest) = (fst (scan_sign s), snd (scan_sign s) @ rest)"
  by (cases s) (auto simp: scan_sign_def stops_def split: list.splits)

lemma scan_exp_append:
  "stops rest \<Longrightarrow> scan_exp (s @ rest) = (fst (scan_exp s), snd (scan_exp s) @ rest)"
  by (cases s) (auto simp: scan_exp_def scan_sign_append stops_digits, auto simp: stops_def split: list.splits)

lemma scan_nat_neq_Nil [simp]: "scan_nat [] = None"
  by (simp add: scan_nat_def)

lemma scan_number_append:
  assumes "stops rest" "scan_number s = Some (v, r)"
  shows "scan_number (s @ rest) = Some (v, r @ rest)"
proof -
  have ne: "s \<noteq> []" using assms(2) by (auto simp: scan_number_def startswith_iff)
  then have neg: "startswith (s @ rest) ''-'' = startswith s ''-''" by (cases s) auto
  have tl: "(if startswith s ''-'' then tl (s @ rest) else s @ rest)
      = (if startswith s ''-'' then tl s else s) @ rest"
    using ne by simp
  from assms(2) obtain ip r0 where n: "scan_nat (if startswith s ''-'' then tl s else s) = Some (ip, r0)"
    by (auto simp: scan_number_def Let_def split: option.splits)
  show ?thesis
    using assms(2) n
    by (auto simp: scan_number_def Let_def neg tl scan_nat_append [OF assms(1) n] scan_frac_append
        scan_exp_append assms(1) split_beta split: if_splits)
qed

lemma scan_number_int_str: "scan_number (int_str i) = Some (PInt i, [])"
proof -
  have scan: "scan_nat (nat_str n) = Some (nat_str n, [])" for n
  proof -
    obtain c r where cr: "nat_str n = c # r" by (cases "nat_str n") auto
    then have dig: "is_digit c" "\<forall>d \<in> set r. is_digit d" using nat_str_digits [of _ n] by auto
    show ?thesis
    proof (cases "n = 0")
      case True
      then show ?thesis by (simp add: nat_str.simps scan_nat_def digit_char_def) code_simp
    next
      case False
      then have "c \<noteq> CHR ''0''" using cr hd_nat_str [of n] by simp
      with cr dig show ?thesis by (simp add: scan_nat_def takeWhile_eq_all_conv dropWhile_eq_Nil_conv)
    qed
  qed
  have nneg: "\<not> startswith (nat_str n) ''-''" for n
    using nat_str_digits [of "CHR ''-''" n] by (auto simp: startswith_iff)
  show ?thesis
    by (auto simp: scan_number_def int_str_def Let_def scan nneg scan_frac_def scan_exp_def int_of_text_def)
qed

lemma scan_number_head:
  assumes "scan_number s = Some x"
  obtains d r where "is_digit d" "s = d # r" | d r where "is_digit d" "s = CHR ''-'' # d # r"
proof (cases "startswith s ''-''")
  case True
  then obtain t where t: "s = CHR ''-'' # t" by (auto simp: startswith_iff)
  with assms obtain d r where "t = d # r" "is_digit d"
    by (auto simp: scan_number_def Let_def scan_nat_def split: option.splits list.splits if_splits)
  with t that(2) show ?thesis by blast
next
  case False
  with assms obtain d r where "s = d # r" "is_digit d"
    by (auto simp: scan_number_def Let_def scan_nat_def split: option.splits list.splits if_splits)
  with that(1) show ?thesis by blast
qed

lemma parse_value_number:
  assumes "scan_number s = Some x"
  shows "parse_value (Suc n) s = Some x"
  using assms
proof (cases rule: scan_number_head)
  case (1 d r)
  then have "d \<noteq> quote_char" "d \<noteq> CHR ''{''" "d \<noteq> CHR ''[''" "d \<noteq> CHR ''n''" "d \<noteq> CHR ''t''"
    "d \<noteq> CHR ''f''" "d \<noteq> CHR ''N''" "d \<noteq> CHR ''I''" "d \<noteq> CHR ''-''"
    by auto
  with 1 assms show ?thesis by simp
next
  case (2 d r)
  then have "d \<noteq> CHR ''I''" by auto
  moreover have "CHR ''-'' \<noteq> quote_char" by (simp add: quote_char_def)
  ultimately show ?thesis using 2 assms by simp
qed

section \<open>A printed value reads back as its normal form\<close>

abbreviation compact :: "bool \<Rightarrow> bool \<Rightarrow> pyval \<Rightarrow> string" where
  "compact asc srt \<equiv> json_render asc srt '','' '':''"

definition value_head :: "string \<Rightarrow> bool" where
  "value_head s \<longleftrightarrow> (case s of [] \<Rightarrow> False
     | c # _ \<Rightarrow> \<not> json_ws c \<and> c \<notin> {CHR '','', CHR '']'', CHR ''}''})"

lemma quote_char_consts [simp]:
  "quote_char \<noteq> CHR '',''" "quote_char \<noteq> CHR '']''" "quote_char \<noteq> CHR ''}''"
  "quote_char \<noteq> CHR ''{''" "quote_char \<noteq> CHR ''[''" "quote_char \<noteq> CHR '':''"
  "CHR ''['' \<noteq> quote_char" "CHR ''{'' \<noteq> quote_char" "CHR ''n'' \<noteq> quote_char"
  "CHR ''t'' \<noteq> quote_char" "CHR ''f'' \<noteq> quote_char"
  by (simp_all add: quote_char_def)

lemma skip_ws_simps [simp]: "skip_ws [] = []" "\<not> json_ws c \<Longrightarrow> skip_ws (c # s) = c # s"
  by (simp_all add: skip_ws_def)

lemma skip_ws_value_head: "value_head s \<Longrightarrow> skip_ws (s @ t) = s @ t"
  by (auto simp: value_head_def split: list.splits)

lemma scan_number_value_head: "scan_number s = Some x \<Longrightarrow> value_head s"
  by (erule scan_number_head) (auto simp: value_head_def is_digit_not_ws)

lemma value_head_not_closing:
  "value_head s \<Longrightarrow> \<not> startswith (s @ t) '']''" "value_head s \<Longrightarrow> \<not> startswith (s @ t) ''}''"
  by (auto simp: value_head_def split: list.splits)

lemma stops_simps [simp]: "stops []" "stops (CHR '','' # s)" "stops (CHR '']'' # s)" "stops (CHR ''}'' # s)"
  by (simp_all add: stops_def)

lemma join_Cons: "join sep (x # xs) = (if xs = [] then x else x @ sep @ join sep xs)"
  by (cases xs) auto

text \<open>White space between the tokens of a text.\<close>

definition blank :: "string \<Rightarrow> bool" where
  "blank w \<longleftrightarrow> (\<forall>c \<in> set w. json_ws c)"

lemma blank_simps [simp]: "blank []" "blank (c # w) \<longleftrightarrow> json_ws c \<and> blank w"
  by (simp_all add: blank_def)

lemma skip_ws_blank: "blank w \<Longrightarrow> skip_ws (w @ s) = skip_ws s"
  by (induction w) (auto simp: skip_ws_def)

lemma stops_blank: "blank w \<Longrightarrow> stops s \<Longrightarrow> stops (w @ s)"
  by (cases w) (auto simp: stops_def)

text \<open>The text is a value's: the parser reads it from any text that goes on with a separator.\<close>

definition reads_as :: "string \<Rightarrow> pyval \<Rightarrow> bool" where
  "reads_as t v \<longleftrightarrow> value_head t
     \<and> (\<forall>n rest. stops rest \<longrightarrow> length t \<le> n \<longrightarrow> parse_value n (t @ rest) = Some (v, rest))"

lemma reads_asD:
  assumes "reads_as t v"
  shows "value_head t" "stops rest \<Longrightarrow> length t \<le> n \<Longrightarrow> parse_value n (t @ rest) = Some (v, rest)"
  using assms by (simp_all add: reads_as_def)

lemma value_head_append: "value_head s \<Longrightarrow> value_head (s @ t)"
  by (auto simp: value_head_def split: list.splits)

lemma reads_asI:
  assumes "value_head t"
    and "\<And>m rest. stops rest \<Longrightarrow> length t \<le> Suc m \<Longrightarrow> parse_value (Suc m) (t @ rest) = Some (v, rest)"
  shows "reads_as t v"
  unfolding reads_as_def
proof (intro conjI allI impI)
  fix n rest assume a: "stops rest" "length t \<le> n"
  with assms(1) obtain m where "n = Suc m" by (cases n) (auto simp: value_head_def)
  with a assms(2) show "parse_value n (t @ rest) = Some (v, rest)" by blast
qed (rule assms(1))

lemma reads_as_number:
  assumes "scan_number t = Some (v, [])"
  shows "reads_as t v"
proof (rule reads_asI)
  fix m rest assume "stops rest"
  then show "parse_value (Suc m) (t @ rest) = Some (v, rest)"
    using parse_value_number [OF scan_number_append [OF _ assms]] by simp
qed (rule scan_number_value_head [OF assms])

lemma reads_as_string: "reads_as (json_string asc s) (PStr s)"
  by (rule reads_asI) (simp_all add: json_string_def parse_str_escaped value_head_def)

text \<open>Items separated by commas and white space.\<close>

lemma parse_elems_items:
  assumes "ts \<noteq> []" "list_all2 reads_as ts vs" "blank w" "blank w'"
    and "length (join (CHR '','' # w) ts) < n"
  shows "parse_elems n (join (CHR '','' # w) ts @ w' @ CHR '']'' # rest) = Some (vs, rest)"
  using assms
proof (induction ts arbitrary: n vs)
  case (Cons t ts)
  obtain m where n: "n = Suc m" using Cons.prems(5) by (cases n) auto
  from Cons.prems(2) obtain v vs' where vs: "vs = v # vs'" "reads_as t v" "list_all2 reads_as ts vs'"
    by (auto simp: list_all2_Cons1)
  show ?case
  proof (cases "ts = []")
    case True
    then have "parse_value m (t @ w' @ CHR '']'' # rest) = Some (v, w' @ CHR '']'' # rest)"
      using Cons.prems n by (intro reads_asD(2) [OF vs(2)] stops_blank) auto
    with True n vs Cons.prems(4) show ?thesis by (simp add: skip_ws_blank)
  next
    case False
    let ?J = "join (CHR '','' # w) ts"
    have "parse_value m (t @ CHR '','' # w @ ?J @ w' @ CHR '']'' # rest)
        = Some (v, CHR '','' # w @ ?J @ w' @ CHR '']'' # rest)"
      using Cons.prems n False by (intro reads_asD(2) [OF vs(2)]) (auto simp: join_Cons)
    moreover have "value_head ?J"
      using vs(3) False by (cases ts) (auto simp: join_Cons list_all2_Cons1 reads_asD(1) value_head_append)
    moreover have "parse_elems m (?J @ w' @ CHR '']'' # rest) = Some (vs', rest)"
      using Cons.prems n False vs(3) by (intro Cons.IH) (auto simp: join_Cons)
    ultimately show ?thesis
      using n False vs(1) Cons.prems(3) by (simp add: join_Cons skip_ws_blank skip_ws_value_head cons_fst_def)
  qed
qed simp

lemma reads_as_array:
  assumes "list_all2 reads_as ts vs" "blank u" "blank w" "blank w'"
  shows "reads_as (CHR ''['' # u @ join (CHR '','' # w) ts @ w' @ '']'') (PList vs)"
proof (rule reads_asI)
  fix m rest
  assume m: "length (CHR ''['' # u @ join (CHR '','' # w) ts @ w' @ '']'') \<le> Suc m"
  show "parse_value (Suc m) ((CHR ''['' # u @ join (CHR '','' # w) ts @ w' @ '']'') @ rest) = Some (PList vs, rest)"
  proof (cases "ts = []")
    case True
    with assms show ?thesis by (simp add: skip_ws_blank)
  next
    case False
    then have head: "value_head (join (CHR '','' # w) ts)"
      using assms(1) by (cases ts) (auto simp: join_Cons list_all2_Cons1 reads_asD(1) value_head_append)
    have "parse_elems m (join (CHR '','' # w) ts @ w' @ CHR '']'' # rest) = Some (vs, rest)"
      using m by (intro parse_elems_items [OF False assms(1,3,4)]) simp
    then show ?thesis
      using head assms(2) by (simp add: skip_ws_blank skip_ws_value_head value_head_not_closing)
  qed
qed (simp add: value_head_def)

abbreviation member_text :: "bool \<Rightarrow> string \<Rightarrow> string \<times> string \<Rightarrow> string" where
  "member_text asc w kt \<equiv> json_string asc (fst kt) @ CHR '':'' # w @ snd kt"

definition member_as :: "string \<times> string \<Rightarrow> string \<times> pyval \<Rightarrow> bool" where
  "member_as kt kv \<longleftrightarrow> fst kt = fst kv \<and> reads_as (snd kt) (snd kv)"

lemma parse_members_items:
  assumes "kts \<noteq> []" "list_all2 member_as kts kvs" "blank w" "blank w'" "blank u"
    and "length (join (CHR '','' # w) (map (member_text asc u) kts)) < n"
  shows "parse_members n (join (CHR '','' # w) (map (member_text asc u) kts) @ w' @ CHR ''}'' # rest) = Some (kvs, rest)"
  using assms
proof (induction kts arbitrary: n kvs)
  case (Cons kt kts)
  obtain m where n: "n = Suc m" using Cons.prems(6) by (cases n) auto
  from Cons.prems(2) obtain k t v kvs' where kvs: "kt = (k, t)" "kvs = (k, v) # kvs'" "reads_as t v" "list_all2 member_as kts kvs'"
    by (cases kt) (auto simp: list_all2_Cons1 member_as_def [of kt] member_as_def [of "(_, _)"])
  show ?case
  proof (cases "kts = []")
    case True
    then have "parse_value m (t @ w' @ CHR ''}'' # rest) = Some (v, w' @ CHR ''}'' # rest)"
      using Cons.prems n kvs(1) by (intro reads_asD(2) [OF kvs(3)] stops_blank) auto
    with True n kvs Cons.prems(4,5) show ?thesis
      by (simp add: json_string_def parse_str_escaped skip_ws_blank skip_ws_value_head reads_asD(1))
  next
    case False
    let ?J = "join (CHR '','' # w) (map (member_text asc u) kts)"
    have "parse_value m (t @ CHR '','' # w @ ?J @ w' @ CHR ''}'' # rest)
        = Some (v, CHR '','' # w @ ?J @ w' @ CHR ''}'' # rest)"
      using Cons.prems n False kvs(1) by (intro reads_asD(2) [OF kvs(3)]) (auto simp: join_Cons)
    moreover have "value_head ?J"
      using False by (cases kts) (auto simp: join_Cons value_head_def json_string_def)
    moreover have "parse_members m (?J @ w' @ CHR ''}'' # rest) = Some (kvs', rest)"
      using Cons.prems n False kvs by (intro Cons.IH) (auto simp: join_Cons)
    ultimately show ?thesis
      using n False kvs(1,2) Cons.prems(3,5) reads_asD(1) [OF kvs(3)]
      by (simp add: join_Cons json_string_def parse_str_escaped skip_ws_blank skip_ws_value_head cons_fst_def)
  qed
qed simp

lemma reads_as_object:
  assumes "list_all2 member_as kts kvs" "distinct (map fst kvs)" "blank v" "blank w" "blank w'" "blank u"
  shows "reads_as (CHR ''{'' # v @ join (CHR '','' # w) (map (member_text asc u) kts) @ w' @ ''}'') (PDict kvs)"
proof (rule reads_asI)
  let ?J = "join (CHR '','' # w) (map (member_text asc u) kts)"
  fix m rest
  assume m: "length (CHR ''{'' # v @ ?J @ w' @ ''}'') \<le> Suc m"
  show "parse_value (Suc m) ((CHR ''{'' # v @ ?J @ w' @ ''}'') @ rest) = Some (PDict kvs, rest)"
  proof (cases "kts = []")
    case True
    with assms show ?thesis by (simp add: skip_ws_blank)
  next
    case False
    then have head: "value_head ?J"
      by (cases kts) (auto simp: join_Cons value_head_def json_string_def)
    have "parse_members m (?J @ w' @ CHR ''}'' # rest) = Some (kvs, rest)"
      using m by (intro parse_members_items [OF False assms(1,4-6)]) simp
    then show ?thesis
      using head assms(2,3) by (simp add: skip_ws_blank skip_ws_value_head value_head_not_closing dict_of_pairs_distinct)
  qed
qed (simp add: value_head_def)

lemma reads_as_scalar:
  "reads_as ''null'' PNone" "reads_as ''true'' (PBool True)" "reads_as ''false'' (PBool False)"
  by (rule reads_asI; simp add: value_head_def)+

lemma list_all2_members:
  "(\<And>kv. kv \<in> set kvs \<Longrightarrow> reads_as (f (snd kv)) (g (snd kv))) \<Longrightarrow>
     list_all2 member_as (map (map_prod id f) kvs) (map (map_prod id g) kvs)"
  by (induction kvs) (auto simp: member_as_def)

lemma render_reads_as: "json_wf v \<Longrightarrow> json_error srt v = None \<Longrightarrow> reads_as (compact asc srt v) (json_norm srt v)"
proof (induction v rule: pyval_induct)
  case (PInt i)
  show ?case by (simp add: reads_as_number scan_number_int_str)
next
  case (PFloat s)
  then show ?case by (auto intro: reads_as_number split: if_splits)
next
  case (PList vs)
  then have "list_all2 reads_as (map (compact asc srt) vs) (map (json_norm srt) vs)"
    by (auto simp: list_all2_conv_all_nth)
  from reads_as_array [OF this, of "[]" "[]" "[]"] show ?case by simp
next
  case (PTuple vs)
  then have "list_all2 reads_as (map (compact asc srt) vs) (map (json_norm srt) vs)"
    by (auto simp: list_all2_conv_all_nth)
  from reads_as_array [OF this, of "[]" "[]" "[]"] show ?case by simp
next
  case (PDict kvs)
  then have "list_all2 member_as (map (map_prod id (compact asc srt)) (order_items srt kvs))
      (map (map_prod id (json_norm srt)) (order_items srt kvs))"
    by (intro list_all2_members) auto
  from reads_as_object [OF this, where v = "[]" and w = "[]" and w' = "[]" and u = "[]" and asc = asc] PDict.prems(1) show ?case
    by (simp add: comp_def split_beta)
qed (simp_all add: reads_as_scalar reads_as_string)

text \<open>\<open>json.loads\<close> of a value's text, with white space around it.\<close>

lemma json_loads_reads_as:
  assumes "reads_as t v" "blank u" "blank w"
  shows "json_loads (u @ t @ w) = Inr v"
proof -
  have "parse_value (Suc (2 * length (u @ t @ w))) (t @ w) = Some (v, w)"
    using stops_blank [OF assms(3), of "[]"] by (intro reads_asD(2) [OF assms(1)]) simp_all
  then show ?thesis
    using assms(2,3) skip_ws_value_head [OF reads_asD(1) [OF assms(1)], of w] skip_ws_blank [OF assms(3), of "[]"]
    by (simp add: json_loads_def skip_ws_blank del: parse_value.simps)
qed

text \<open>\<open>json.loads(json.dumps(v))\<close>.\<close>

theorem json_loads_render:
  assumes "json_wf v" "json_error srt v = None"
  shows "json_loads (compact asc srt v) = Inr (json_norm srt v)"
  using json_loads_reads_as [OF render_reads_as [OF assms], of "[]" "[]"] by simp

corollary json_render_inj:
  assumes "json_wf v" "json_error srt v = None" "json_wf w" "json_error srt w = None"
    and "compact asc srt v = compact asc srt w"
  shows "json_norm srt v = json_norm srt w"
  using json_loads_render [OF assms(1,2), of asc] json_loads_render [OF assms(3,4), of asc] assms(5)
  by simp

section \<open>Indented text\<close>

lemma blank_indent [simp]: "blank (newline_indent n)"
  by (auto simp: newline_indent_def blank_def)

lemma indented_array:
  assumes "list_all2 reads_as ts vs"
  shows "reads_as (indented_items (CHR ''['') n ts (CHR '']'')) (PList vs)"
proof (cases "ts = []")
  case True
  with assms reads_as_array [OF assms, of "[]" "[]" "[]"] show ?thesis by (simp add: indented_items_def)
next
  case False
  with reads_as_array [OF assms blank_indent blank_indent blank_indent] show ?thesis by (simp add: indented_items_def)
qed

lemma indented_object:
  assumes "list_all2 member_as kts kvs" "distinct (map fst kvs)"
  shows "reads_as (indented_items (CHR ''{'') n (map (member_text asc '' '') kts) (CHR ''}'')) (PDict kvs)"
proof (cases "kts = []")
  case True
  with reads_as_object [OF assms, where v = "[]" and w = "[]" and w' = "[]" and u = "[]" and asc = asc] show ?thesis by (simp add: indented_items_def)
next
  case False
  with reads_as_object [OF assms blank_indent blank_indent blank_indent, where u = "'' ''" and asc = asc]
  show ?thesis by (simp add: indented_items_def)
qed

lemma indented_reads_as:
  "json_wf v \<Longrightarrow> json_error srt v = None \<Longrightarrow> reads_as (json_indented asc srt v n) (json_norm srt v)"
proof (induction v arbitrary: n rule: pyval_induct)
  case (PInt i)
  show ?case by (simp add: reads_as_number scan_number_int_str)
next
  case (PFloat s)
  then show ?case by (auto intro: reads_as_number split: if_splits)
next
  case (PList vs)
  then have "list_all2 reads_as (map (\<lambda>t. t (Suc n)) (map (json_indented asc srt) vs)) (map (json_norm srt) vs)"
    by (auto simp: list_all2_conv_all_nth)
  from indented_array [OF this] show ?case by simp
next
  case (PTuple vs)
  then have "list_all2 reads_as (map (\<lambda>t. t (Suc n)) (map (json_indented asc srt) vs)) (map (json_norm srt) vs)"
    by (auto simp: list_all2_conv_all_nth)
  from indented_array [OF this] show ?case by simp
next
  case (PDict kvs)
  then have "list_all2 member_as (map (map_prod id (\<lambda>v. json_indented asc srt v (Suc n))) (order_items srt kvs))
      (map (map_prod id (json_norm srt)) (order_items srt kvs))"
    by (intro list_all2_members) auto
  from indented_object [OF this, where n = n and asc = asc] PDict.prems(1) show ?case
    by (simp add: order_items_map_prod comp_def split_beta)
qed (simp_all add: reads_as_scalar reads_as_string)

text \<open>The text has no control characters but the ends of its lines.\<close>

definition printable :: "string \<Rightarrow> bool" where
  "printable s \<longleftrightarrow> (\<forall>c \<in> set s. 32 \<le> code_point c \<or> c = newline)"

lemma printable_simps [simp]:
  "printable []" "printable (c # s) \<longleftrightarrow> (32 \<le> code_point c \<or> c = newline) \<and> printable s"
  "printable (s @ t) \<longleftrightarrow> printable s \<and> printable t"
  by (auto simp: printable_def)

lemma digits_printable: "\<forall>c \<in> set s. is_digit c \<Longrightarrow> printable s"
  by (auto simp: printable_def is_digit_def)

lemma takeWhile_printable: "printable (takeWhile is_digit s)"
  by (rule digits_printable) (auto dest: set_takeWhileD)

lemma printable_consts [simp]:
  "32 \<le> code_point (CHR ''.'')" "32 \<le> code_point (CHR ''e'')" "32 \<le> code_point (CHR ''E'')"
  "32 \<le> code_point (CHR ''+'')" "32 \<le> code_point (CHR ''-'')" "32 \<le> code_point (CHR '','')"
  "32 \<le> code_point (CHR '':'')" "32 \<le> code_point (CHR '' '')" "32 \<le> code_point (CHR ''['')"
  "32 \<le> code_point (CHR '']'')" "32 \<le> code_point (CHR ''{'')" "32 \<le> code_point (CHR ''}'')"
  "32 \<le> code_point (CHR ''a'')" "32 \<le> code_point (CHR ''l'')" "32 \<le> code_point (CHR ''s'')"
  by code_simp+

lemma scan_number_printable:
  assumes "scan_number s = Some (PFloat t, r)"
  shows "printable t"
proof -
  from assms obtain ip r0 where n: "scan_nat (if startswith s ''-'' then tl s else s) = Some (ip, r0)"
    and t: "t = (if startswith s ''-'' then ''-'' else []) @ ip @ fst (scan_frac r0) @ fst (scan_exp (snd (scan_frac r0)))"
    by (auto simp: scan_number_def Let_def split_beta split: option.splits if_splits)
  have "printable (fst (scan_sign x))" for x by (auto simp: scan_sign_def split: list.splits)
  then have "printable (fst (scan_exp x))" for x
    by (auto simp: scan_exp_def takeWhile_printable split: list.splits)
  moreover have "printable (fst (scan_frac x))" for x by (auto simp: scan_frac_def takeWhile_printable split: list.splits)
  moreover have "printable ip" using n
    by (auto simp: scan_nat_def takeWhile_printable is_digit_def split: list.splits if_splits)
  ultimately show ?thesis by (simp add: t)
qed

lemma json_string_printable: "printable (json_string asc s)"
proof -
  have "printable (escape_char asc c)" for c
    by (auto simp: escape_char_def Let_def hex_byte_def code_point_hex_char)
  then have "printable (concat (map (escape_char asc) s))" by (induction s) auto
  then show ?thesis by (simp add: json_string_def)
qed

lemma join_printable: "printable sep \<Longrightarrow> \<forall>t \<in> set ts. printable t \<Longrightarrow> printable (join sep ts)"
  by (induction sep ts rule: join.induct) auto

lemma indented_items_printable:
  assumes "32 \<le> code_point a" "32 \<le> code_point b" "\<forall>t \<in> set ts. printable t"
  shows "printable (indented_items a n ts b)"
proof -
  have "printable (newline_indent k)" for k by (simp add: newline_indent_def) (simp add: printable_def)
  with assms show ?thesis by (simp add: indented_items_def join_printable)
qed

lemma indented_printable: "json_wf v \<Longrightarrow> json_error srt v = None \<Longrightarrow> printable (json_indented asc srt v n)"
proof (induction v arbitrary: n rule: pyval_induct)
  case (PInt i)
  have "printable (nat_str k)" for k by (intro digits_printable ballI) (rule nat_str_digits)
  then show ?case by (simp add: int_str_def)
next
  case (PFloat s)
  then show ?case using scan_number_printable by (auto split: if_splits)
next
  case (PList vs)
  then show ?case by (auto intro!: indented_items_printable)
next
  case (PTuple vs)
  then show ?case by (auto intro!: indented_items_printable)
next
  case (PDict kvs)
  then show ?case by (auto intro!: indented_items_printable simp: order_items_map_prod json_string_printable)
qed (simp_all add: json_string_printable)

text \<open>Finite values have no floats to respell.\<close>

lemma javascript_floats_id: "json_error srt v = None \<Longrightarrow> javascript_floats v = v"
proof (induction v rule: pyval_induct)
  case (PDict kvs)
  then have "map (map_prod id javascript_floats) kvs = map (map_prod id id) kvs"
    by (intro map_map_prod_cong) auto
  then show ?case by (simp add: prod.map_id0)
qed (auto simp: nonfinite_def map_idI split: if_splits)

text \<open>\<open>json.loads(json.dumps(v, indent=2) + "\n")\<close>.\<close>

theorem json_loads_indented:
  assumes "json_wf v" "json_error srt v = None" "blank w"
  shows "\<exists>t. json_dumps_indent asc srt v = Inr t \<and> printable t \<and> json_loads (t @ w) = Inr (json_norm srt v)"
  using json_loads_reads_as [OF indented_reads_as [OF assms(1,2)], of "[]" w asc 0] indented_printable [OF assms(1,2)] assms
  by (simp add: json_dumps_indent_def javascript_floats_id)

section \<open>The parser's fuel\<close>

lemma length_skip_ws [simp]: "length (skip_ws s) \<le> length s"
  by (simp add: skip_ws_def length_dropWhile_le)

lemma parse_str_shorter: "parse_str s = Some (x, r) \<Longrightarrow> length r < length s"
proof (induction s arbitrary: x r rule: parse_str.induct)
  case (2 c s)
  then show ?case
    by (auto simp: cons_fst_def split: if_splits list.splits option.splits) fastforce+
qed simp

lemma scan_nat_shorter: "scan_nat s = Some (x, r) \<Longrightarrow> length r < length s"
  by (auto simp: scan_nat_def less_Suc_eq_le length_dropWhile_le split: list.splits if_splits)

lemma scan_frac_shorter: "length (snd (scan_frac s)) \<le> length s"
  by (auto simp: scan_frac_def intro: le_SucI length_dropWhile_le split: list.splits)

lemma scan_sign_shorter: "length (snd (scan_sign s)) \<le> length s"
  by (auto simp: scan_sign_def split: list.splits)

lemma scan_exp_shorter: "length (snd (scan_exp s)) \<le> length s"
proof (cases s)
  case (Cons e r)
  have "length (dropWhile is_digit (snd (scan_sign r))) \<le> length r"
    using length_dropWhile_le scan_sign_shorter order_trans by blast
  with Cons show ?thesis by (simp add: scan_exp_def le_SucI)
qed (simp add: scan_exp_def)

lemma scan_number_shorter: "scan_number s = Some (x, r) \<Longrightarrow> length r < length s"
proof -
  assume "scan_number s = Some (x, r)"
  then obtain ip r0 where "scan_nat (if startswith s ''-'' then tl s else s) = Some (ip, r0)"
    and r: "r = snd (scan_exp (snd (scan_frac r0)))"
    by (auto simp: scan_number_def Let_def split_beta split: option.splits)
  from scan_nat_shorter [OF this(1)] have "length r0 < length s" by (auto split: if_splits)
  with r show ?thesis
    using scan_exp_shorter [of "snd (scan_frac r0)"] scan_frac_shorter [of r0] by simp
qed

lemma length_tl_skip_ws: "startswith (skip_ws s) [c] \<Longrightarrow> length (tl (skip_ws s)) < length s"
  using length_skip_ws [of s] by (auto simp: startswith_iff simp del: length_skip_ws)

lemma length_skip_tl_skip: "startswith (skip_ws s) [c] \<Longrightarrow> length (skip_ws (tl (skip_ws s))) < length s"
  using length_tl_skip_ws [of s c] length_skip_ws [of "tl (skip_ws s)"] by simp

lemma cons_fst_eq_Some [simp]:
  "cons_fst c m = Some (xs, r) \<longleftrightarrow> (\<exists>ys. m = Some (ys, r) \<and> xs = c # ys)"
  by (auto simp: cons_fst_def split: option.splits)

lemma skip_ws_le_trans: "length s \<le> n \<Longrightarrow> length (skip_ws s) \<le> n"
  using length_skip_ws order_trans by blast

lemma skip_ws_less_trans: "length s < n \<Longrightarrow> length (skip_ws s) < n"
  using length_skip_ws order_le_less_trans by blast

lemma parse_shorter:
  "(\<forall>s v r. parse_value n s = Some (v, r) \<longrightarrow> length r < length s) \<and>
   (\<forall>s vs r. parse_elems n s = Some (vs, r) \<longrightarrow> length r < length s) \<and>
   (\<forall>s kvs r. parse_members n s = Some (kvs, r) \<longrightarrow> length r < length s)"
proof (induction n)
  case (Suc n)
  then have V: "\<And>s v r. parse_value n s = Some (v, r) \<Longrightarrow> length r < length s"
    and E: "\<And>s v r. parse_elems n s = Some (v, r) \<Longrightarrow> length r < length s"
    and M: "\<And>s v r. parse_members n s = Some (v, r) \<Longrightarrow> length r < length s"
    by blast+
  have skip: "length (skip_ws (tl (skip_ws r))) \<le> length r" for r
    by (rule skip_ws_le_trans) (metis length_skip_ws diff_le_self le_trans length_tl)
  have "length r < length s" if p: "parse_value (Suc n) s = Some (v, r)" for s v r
  proof -
    obtain c t where s: "s = c # t" using p by (cases s) auto
    have "length (skip_ws t) < length s" using s skip_ws_less_trans by simp
    then show ?thesis
      using p s
      by (auto split: if_splits dest!: parse_str_shorter scan_number_shorter E M)
  qed
  moreover have "length r < length s" if p: "parse_elems (Suc n) s = Some (vs, r)" for s vs r
  proof -
    obtain v r1 where v: "parse_value n s = Some (v, r1)"
      using p by (auto split: option.splits)
    have "length (skip_ws r1) < length s" "length (skip_ws (tl (skip_ws r1))) < length s"
      using V [OF v] skip_ws_less_trans skip [of r1] by auto
    then show ?thesis
      using p v by (auto split: if_splits dest!: E)
  qed
  moreover have "length r < length s" if p: "parse_members (Suc n) s = Some (kvs, r)" for s kvs r
  proof -
    obtain k r1 where k: "startswith s [quote_char]" "parse_str (tl s) = Some (k, r1)"
      "startswith (skip_ws r1) '':''"
      using p by (auto split: if_splits option.splits)
    obtain v r2 where v: "parse_value n (skip_ws (tl (skip_ws r1))) = Some (v, r2)"
      using p k by (auto split: option.splits)
    have "length r2 < length s"
      using parse_str_shorter [OF k(2)] V [OF v] skip [of r1] by simp
    then have "length (skip_ws r2) < length s" "length (skip_ws (tl (skip_ws r2))) < length s"
      using skip_ws_less_trans skip [of r2] by auto
    then show ?thesis
      using p k v by (auto split: if_splits dest!: M)
  qed
  ultimately show ?case by blast
qed simp

lemma parse_fuel:
  "(\<forall>m s. 2 * length s < n \<longrightarrow> 2 * length s < m \<longrightarrow> parse_value n s = parse_value m s) \<and>
   (\<forall>m s. 2 * length s + 1 < n \<longrightarrow> 2 * length s + 1 < m \<longrightarrow> parse_elems n s = parse_elems m s) \<and>
   (\<forall>m s. 2 * length s + 1 < n \<longrightarrow> 2 * length s + 1 < m \<longrightarrow> parse_members n s = parse_members m s)"
proof (induction n)
  case (Suc n)
  then have V: "\<And>m s. 2 * length s < n \<Longrightarrow> 2 * length s < m \<Longrightarrow> parse_value n s = parse_value m s"
    and E: "\<And>m s. 2 * length s + 1 < n \<Longrightarrow> 2 * length s + 1 < m \<Longrightarrow> parse_elems n s = parse_elems m s"
    and M: "\<And>m s. 2 * length s + 1 < n \<Longrightarrow> 2 * length s + 1 < m \<Longrightarrow> parse_members n s = parse_members m s"
    by blast+
  have skip: "length (skip_ws (tl (skip_ws r))) \<le> length r" for r
    by (rule skip_ws_le_trans) (metis length_skip_ws diff_le_self le_trans length_tl)
  have v0: "parse_value (Suc n) s = parse_value (Suc m) s"
    if "2 * length s < Suc n" "2 * length s < Suc m" for m s
  proof (cases s)
    case (Cons c t)
    have "length (skip_ws t) < length s" using Cons skip_ws_less_trans by simp
    then have b: "2 * length (skip_ws t) + 1 < n" "2 * length (skip_ws t) + 1 < m"
      using that by linarith+
    then have "parse_members n (skip_ws t) = parse_members m (skip_ws t)"
      and "parse_elems n (skip_ws t) = parse_elems m (skip_ws t)"
      by (intro M E; simp)+
    with Cons show ?thesis by simp
  qed simp
  have v: "parse_value (Suc n) s = parse_value m s" if "2 * length s < Suc n" "2 * length s < m" for m s
    using v0 [of s "m - 1"] that by (cases m) (simp_all del: parse_value.simps)
  have e0: "parse_elems (Suc n) s = parse_elems (Suc m) s"
    if b: "2 * length s + 1 < Suc n" "2 * length s + 1 < Suc m" for m s
  proof -
    have "parse_value n s = parse_value m s" using b by (intro V) auto
    moreover have "parse_elems n (skip_ws (tl (skip_ws r))) = parse_elems m (skip_ws (tl (skip_ws r)))"
      if p: "parse_value m s = Some (v, r)" for v r
    proof -
      have "length r < length s" using parse_shorter [of m] p by blast
      then show ?thesis using b skip [of r] by (intro E; linarith)
    qed
    ultimately show ?thesis by (auto split: option.splits)
  qed
  have e: "parse_elems (Suc n) s = parse_elems m s"
    if "2 * length s + 1 < Suc n" "2 * length s + 1 < m" for m s
    using e0 [of s "m - 1"] that by (cases m) (simp_all del: parse_elems.simps)
  have m0: "parse_members (Suc n) s = parse_members (Suc m) s"
    if b: "2 * length s + 1 < Suc n" "2 * length s + 1 < Suc m" for m s
  proof -
    have str: "length r < length s" if "parse_str (tl s) = Some (k, r)" for k r
      using parse_str_shorter [OF that] by simp
    have v: "parse_value n (skip_ws (tl (skip_ws r))) = parse_value m (skip_ws (tl (skip_ws r)))"
      if "parse_str (tl s) = Some (k, r)" for k r
      using str [OF that] skip [of r] b by (intro V; linarith)
    have "parse_members n (skip_ws (tl (skip_ws r'))) = parse_members m (skip_ws (tl (skip_ws r')))"
      if "parse_str (tl s) = Some (k, r)" "parse_value m (skip_ws (tl (skip_ws r))) = Some (v, r')" for k r v r'
    proof -
      have "length r' < length (skip_ws (tl (skip_ws r)))"
        using parse_shorter [of m] that(2) by blast
      then show ?thesis
        using str [OF that(1)] skip [of r] skip [of r'] b by (intro M; linarith)
    qed
    with v show ?thesis by (auto split: option.splits)
  qed
  have m: "parse_members (Suc n) s = parse_members m s"
    if "2 * length s + 1 < Suc n" "2 * length s + 1 < m" for m s
    using m0 [of s "m - 1"] that by (cases m) (simp_all del: parse_members.simps)
  show ?case by (intro conjI allI impI) (rule v e m; assumption)+
qed simp

theorem parse_value_fuel:
  "2 * length s < n \<Longrightarrow> parse_value n s = parse_value (Suc (2 * length s)) s"
  by (rule parse_fuel [THEN conjunct1, rule_format]) simp_all

end
