(* ===== verification/Sha256.thy ===== *)
theory Sha256
  imports PyStr "HOL-Library.Word"
begin

text \<open>
  \<open>hashlib.sha256\<close> (FIPS 180-4) on bytes, written on 32-bit words, and the encoding of a
  Python string as UTF-8 bytes. No proof of the development unfolds the compression function:
  properties that depend on the hash are stated up to a collision, two different texts with
  the same digest, which the statement exhibits.
\<close>

unbundle bit_operations_syntax

type_synonym u8 = "8 word"
type_synonym u32 = "32 word"

section \<open>Constants and word functions\<close>

text \<open>The round constants and the initial state, in decimal.\<close>

definition sha256_K :: "u32 list" where
  "sha256_K = [
    1116352408, 1899447441, 3049323471, 3921009573, 961987163, 1508970993, 2453635748, 2870763221,
    3624381080, 310598401, 607225278, 1426881987, 1925078388, 2162078206, 2614888103, 3248222580,
    3835390401, 4022224774, 264347078, 604807628, 770255983, 1249150122, 1555081692, 1996064986,
    2554220882, 2821834349, 2952996808, 3210313671, 3336571891, 3584528711, 113926993, 338241895,
    666307205, 773529912, 1294757372, 1396182291, 1695183700, 1986661051, 2177026350, 2456956037,
    2730485921, 2820302411, 3259730800, 3345764771, 3516065817, 3600352804, 4094571909, 275423344,
    430227734, 506948616, 659060556, 883997877, 958139571, 1322822218, 1537002063, 1747873779,
    1955562222, 2024104815, 2227730452, 2361852424, 2428436474, 2756734187, 3204031479, 3329325298]"

definition sha256_H0 :: "u32 list" where
  "sha256_H0 = [1779033703, 3144134277, 1013904242, 2773480762,
                1359893119, 2600822924, 528734635, 1541459225]"

definition rotr :: "nat \<Rightarrow> u32 \<Rightarrow> u32" where
  "rotr n x = (drop_bit n x) OR (push_bit (32 - n) x)"

definition small_sigma0 :: "u32 \<Rightarrow> u32" where
  "small_sigma0 x = rotr 7 x XOR rotr 18 x XOR drop_bit 3 x"

definition small_sigma1 :: "u32 \<Rightarrow> u32" where
  "small_sigma1 x = rotr 17 x XOR rotr 19 x XOR drop_bit 10 x"

definition big_sigma0 :: "u32 \<Rightarrow> u32" where
  "big_sigma0 x = rotr 2 x XOR rotr 13 x XOR rotr 22 x"

definition big_sigma1 :: "u32 \<Rightarrow> u32" where
  "big_sigma1 x = rotr 6 x XOR rotr 11 x XOR rotr 25 x"

definition choose3 :: "u32 \<Rightarrow> u32 \<Rightarrow> u32 \<Rightarrow> u32" where
  "choose3 x y z = (x AND y) XOR (NOT x AND z)"

definition majority3 :: "u32 \<Rightarrow> u32 \<Rightarrow> u32 \<Rightarrow> u32" where
  "majority3 x y z = (x AND y) XOR (x AND z) XOR (y AND z)"

section \<open>Compression\<close>

text \<open>The message schedule is built newest word first and reversed at the end.\<close>

fun extend_schedule :: "nat \<Rightarrow> u32 list \<Rightarrow> u32 list" where
  "extend_schedule 0 ws = ws"
| "extend_schedule (Suc n) ws =
     extend_schedule n ((small_sigma1 (ws ! 1) + ws ! 6 + small_sigma0 (ws ! 14) + ws ! 15) # ws)"

definition schedule :: "u32 list \<Rightarrow> u32 list" where
  "schedule block = rev (extend_schedule 48 (rev block))"

fun rounds :: "(u32 \<times> u32) list \<Rightarrow> u32 \<times> u32 \<times> u32 \<times> u32 \<times> u32 \<times> u32 \<times> u32 \<times> u32 \<Rightarrow> u32 list" where
  "rounds [] (a, b, c, d, e, f, g, h) = [a, b, c, d, e, f, g, h]"
| "rounds ((k, w) # kws) (a, b, c, d, e, f, g, h) =
     (let t1 = h + big_sigma1 e + choose3 e f g + k + w;
          t2 = big_sigma0 a + majority3 a b c
      in rounds kws (t1 + t2, a, b, c, d + t1, e, f, g))"

fun compress :: "u32 list \<Rightarrow> u32 list \<Rightarrow> u32 list" where
  "compress [a, b, c, d, e, f, g, h] block =
     map2 (+) [a, b, c, d, e, f, g, h]
       (rounds (zip sha256_K (schedule block)) (a, b, c, d, e, f, g, h))"
| "compress hs block = hs"

section \<open>Padding and blocks\<close>

fun bytes_to_words :: "u8 list \<Rightarrow> u32 list" where
  "bytes_to_words (a # b # c # d # bs) =
     (push_bit 24 (ucast a) OR push_bit 16 (ucast b) OR push_bit 8 (ucast c) OR ucast d)
       # bytes_to_words bs"
| "bytes_to_words _ = []"

fun be_bytes :: "nat \<Rightarrow> nat \<Rightarrow> u8 list" where
  "be_bytes 0 n = []"
| "be_bytes (Suc k) n = be_bytes k (n div 256) @ [word_of_nat (n mod 256)]"

definition pad_message :: "u8 list \<Rightarrow> u8 list" where
  "pad_message msg =
     (let l = length msg; z = (119 - l mod 64) mod 64
      in msg @ 0x80 # replicate z 0 @ be_bytes 8 (8 * l))"

function sha256_blocks :: "u32 list \<Rightarrow> u32 list \<Rightarrow> u32 list" where
  "sha256_blocks hs ws = (if length ws < 16 then hs
     else sha256_blocks (compress hs (take 16 ws)) (drop 16 ws))"
  by pat_completeness auto
termination by (relation "measure (\<lambda>(hs, ws). length ws)") auto

definition sha256_words :: "u8 list \<Rightarrow> u32 list" where
  "sha256_words msg = sha256_blocks sha256_H0 (bytes_to_words (pad_message msg))"

text \<open>Every padded message is a whole number of 64-byte blocks.\<close>

lemma length_be_bytes [simp]: "length (be_bytes k n) = k"
  by (induction k n rule: be_bytes.induct) auto

lemma length_pad_message: "length (pad_message msg) mod 64 = 0"
proof -
  define r where "r = length msg mod 64"
  define q where "q = length msg div 64"
  have l: "length msg = 64 * q + r" and r: "r < 64" by (simp_all add: r_def q_def)
  have "(64 * q + r + 9 + (119 - r) mod 64) mod 64 = 0"
  proof (cases "r \<le> 55")
    case True
    then have "119 - r = 64 + (55 - r)" "55 - r < 64" by auto
    then have "(119 - r) mod 64 = 55 - r" by (metis mod_add_self1 mod_less)
    with True have "64 * q + r + 9 + (119 - r) mod 64 = 64 * (q + 1)" by simp
    then show ?thesis by (metis mod_mult_self1_is_0)
  next
    case False
    with r have "(119 - r) mod 64 = 119 - r" by simp
    with False r have "64 * q + r + 9 + (119 - r) mod 64 = 64 * (q + 2)" by simp
    then show ?thesis by (metis mod_mult_self1_is_0)
  qed
  moreover have "length (pad_message msg) = length msg + 9 + (119 - r) mod 64"
    by (simp add: pad_message_def Let_def r_def)
  ultimately show ?thesis by (simp add: l)
qed

section \<open>Text in, hexadecimal digest out\<close>

text \<open>\<open>str.encode("utf-8")\<close> on the code points of the model.\<close>

definition utf8_char :: "char \<Rightarrow> u8 list" where
  "utf8_char c = (let n = code_point c in
     if n < 128 then [word_of_nat n]
     else [word_of_nat (192 + n div 64), word_of_nat (128 + n mod 64)])"

definition utf8_encode :: "string \<Rightarrow> u8 list" where
  "utf8_encode s = concat (map utf8_char s)"

text \<open>Decoding; bytes of a code point above U+00FF are outside the model and treated as an error.\<close>

fun utf8_decode :: "u8 list \<Rightarrow> string option" where
  "utf8_decode [] = Some []"
| "utf8_decode (b # bs) =
     (if unat b < 128 then map_option ((#) (char_of (unat b))) (utf8_decode bs)
      else case bs of [] \<Rightarrow> None
      | c # cs \<Rightarrow>
          if unat b \<in> {194, 195} \<and> 128 \<le> unat c \<and> unat c < 192
          then map_option ((#) (char_of (64 * (unat b - 192) + (unat c - 128)))) (utf8_decode cs) else None)"

definition word_hex :: "u32 \<Rightarrow> string" where
  "word_hex w = (let n = unat w in
     hex_byte (n div 16777216) @ hex_byte (n div 65536) @ hex_byte (n div 256) @ hex_byte n)"

definition sha256_hexdigest :: "u8 list \<Rightarrow> string" where
  "sha256_hexdigest msg = concat (map word_hex (sha256_words msg))"

text \<open>UTF-8 is injective: equal bytes come from equal texts.\<close>

lemma utf8_char_decode:
  assumes "utf8_char c @ s = utf8_char d @ t"
  shows "c = d \<and> s = t"
proof -
  let ?n = "code_point c" and ?m = "code_point d"
  have n: "?n < 256" "?m < 256" by (simp_all add: code_point_def)
  have inj: "(word_of_nat a :: u8) = word_of_nat b \<longleftrightarrow> a = b" if "a < 256" "b < 256" for a b
    using that by (simp add: word_of_nat_eq_iff take_bit_nat_eq_self)
  consider "?n < 128" "?m < 128" | "?n < 128" "\<not> ?m < 128" | "\<not> ?n < 128" "?m < 128"
    | "\<not> ?n < 128" "\<not> ?m < 128" by blast
  then have "?n = ?m \<and> s = t"
  proof cases
    case 1
    with assms show ?thesis by (simp add: utf8_char_def inj del: of_nat_add)
  next
    case 2
    then have "?n = 192 + ?m div 64" using assms n by (simp add: utf8_char_def Let_def inj del: of_nat_add)
    with 2 show ?thesis by simp
  next
    case 3
    then have "192 + ?n div 64 = ?m" using assms n by (simp add: utf8_char_def Let_def inj del: of_nat_add)
    with 3 show ?thesis by simp
  next
    case 4
    then have "192 + ?n div 64 = 192 + ?m div 64 \<and> 128 + ?n mod 64 = 128 + ?m mod 64 \<and> s = t"
      using assms n by (simp add: utf8_char_def Let_def inj del: of_nat_add)
    then show ?thesis by (metis add_left_cancel div_mod_decomp)
  qed
  then show ?thesis by (simp add: code_point_def)
qed

lemma utf8_char_neq_Nil [simp]: "utf8_char c \<noteq> []"
  by (simp add: utf8_char_def Let_def)

lemma utf8_encode_inj [simp]: "utf8_encode s = utf8_encode t \<longleftrightarrow> s = t"
proof
  show "utf8_encode s = utf8_encode t \<Longrightarrow> s = t"
  proof (induction s arbitrary: t)
    case Nil
    then show ?case by (cases t) (auto simp: utf8_encode_def)
  next
    case (Cons c s)
    then obtain d t' where t: "t = d # t'" by (cases t) (auto simp: utf8_encode_def)
    with Cons.prems have "utf8_char c @ utf8_encode s = utf8_char d @ utf8_encode t'"
      by (simp add: utf8_encode_def)
    from utf8_char_decode [OF this] Cons.IH t show ?case by simp
  qed
qed simp

lemma utf8_decode_char: "utf8_decode (utf8_char c @ bs) = map_option ((#) c) (utf8_decode bs)"
proof -
  let ?n = "code_point c"
  have n: "?n < 256" by (simp add: code_point_def)
  have c: "char_of ?n = c" by (simp add: code_point_def)
  have u: "unat (word_of_nat a :: u8) = a" if "a < 256" for a
    using that by (simp add: unsigned_of_nat take_bit_nat_eq_self)
  show ?thesis
  proof (cases "?n < 128")
    case True
    with n show ?thesis by (simp add: utf8_char_def u c)
  next
    case False
    have "?n div 64 \<in> {2, 3}" using False n by auto
    then have "192 + ?n div 64 \<in> {194, 195}" by auto
    moreover have "64 * (?n div 64) + ?n mod 64 = ?n" by simp
    moreover have "?n mod 64 < 64" by simp
    ultimately show ?thesis using False n
      by (simp add: utf8_char_def Let_def u c del: of_nat_add mult_div_mod_eq div_mult_mod_eq)
  qed
qed

lemma utf8_roundtrip: "utf8_decode (utf8_encode s) = Some s"
  by (induction s) (simp_all add: utf8_encode_def utf8_decode_char del: utf8_decode.simps(2))

lemma length_utf8_encode: "length (utf8_encode s) \<le> 2 * length s"
  by (induction s) (simp_all add: utf8_encode_def utf8_char_def Let_def)

lemma length_compress: "length (compress hs block) \<le> max 8 (length hs)"
proof (cases "(hs, block)" rule: compress.cases)
  case (1 a b c d e f g h)
  then have "compress hs block = map2 (+) hs (rounds (zip sha256_K (schedule block)) (a, b, c, d, e, f, g, h))" by simp
  moreover have "length (map2 (+) hs ws) \<le> 8" for ws :: "u32 list" using 1 by (simp del: zip_Cons)
  ultimately show ?thesis by (simp add: max_def)
qed simp_all

lemma length_sha256_blocks: "length (sha256_blocks hs ws) \<le> max 8 (length hs)"
proof (induction hs ws rule: sha256_blocks.induct)
  case (1 hs ws)
  have "length (compress hs (take 16 ws)) \<le> max 8 (length hs)" by (rule length_compress)
  with 1 show ?case by (subst sha256_blocks.simps) (cases "length ws < 16"; simp del: sha256_blocks.simps compress.simps)
qed

lemma length_hexdigest: "length (sha256_hexdigest msg) \<le> 64"
proof -
  have "length (concat (map word_hex ws)) = 8 * length ws" for ws
    by (induction ws) (simp_all add: word_hex_def hex_byte_def Let_def)
  moreover have "length (sha256_words msg) \<le> 8"
    using length_sha256_blocks [of sha256_H0 "bytes_to_words (pad_message msg)"]
    by (simp add: sha256_words_def sha256_H0_def del: sha256_blocks.simps)
  ultimately show ?thesis by (simp add: sha256_hexdigest_def)
qed

end
