(* ===== verification/Digest.thy ===== *)
theory Digest
  imports Json_Roundtrip Sha256
begin

text \<open>
  The canonical JSON text and its digest (\<open>_json\<close> and \<open>_digest\<close> of the ledger), and the
  fingerprint of a governed request. Two values have the same digest only if their canonical
  values are equal or the two canonical texts collide under SHA-256.
\<close>

section \<open>Canonical text and digest\<close>

definition py_json :: "pyval \<Rightarrow> string res" where
  "py_json v = json_dumps False True '','' '':'' v"

abbreviation canonical_text :: "pyval \<Rightarrow> string" where
  "canonical_text v \<equiv> json_render False True '','' '':'' v"

definition digest_text :: "string \<Rightarrow> string" where
  "digest_text t = ''sha256:'' @ sha256_hexdigest (utf8_encode t)"

definition digest :: "pyval \<Rightarrow> string res" where
  "digest v = res_bind (py_json v) (\<lambda>t. Inr (digest_text t))"

text \<open>Two different texts with the same SHA-256 digest.\<close>

definition sha_collision :: "string \<Rightarrow> string \<Rightarrow> bool" where
  "sha_collision s t \<longleftrightarrow> s \<noteq> t
     \<and> sha256_hexdigest (utf8_encode s) = sha256_hexdigest (utf8_encode t)"

lemma digest_text_eq: "digest_text s = digest_text t \<longleftrightarrow> s = t \<or> sha_collision s t"
  by (auto simp: digest_text_def sha_collision_def)

lemma py_json_eq: "py_json v = (case json_error True v of Some e \<Rightarrow> Inl e | None \<Rightarrow> Inr (canonical_text v))"
  by (simp add: py_json_def json_dumps_def)

lemma py_json_Inr_iff [simp]: "py_json v = Inr t \<longleftrightarrow> json_error True v = None \<and> t = canonical_text v"
  by (auto simp: py_json_eq split: option.splits)

lemma py_json_ok: "json_error True v = None \<Longrightarrow> py_json v = Inr (canonical_text v)"
  by (simp add: py_json_eq)

lemma digest_Inr_iff [simp]:
  "digest v = Inr d \<longleftrightarrow> json_error True v = None \<and> d = digest_text (canonical_text v)"
  by (auto simp: digest_def)

lemma digest_norm: "json_error True v = None \<Longrightarrow> digest (json_norm True v) = digest v"
  by (simp add: digest_def py_json_eq)

lemma digest_inj:
  assumes "digest v = Inr d" "digest w = Inr d" "json_wf v" "json_wf w"
  shows "json_norm True v = json_norm True w \<or> sha_collision (canonical_text v) (canonical_text w)"
proof -
  have "canonical_text v = canonical_text w \<or> sha_collision (canonical_text v) (canonical_text w)"
    using assms(1,2) by (simp add: digest_text_eq [symmetric])
  moreover have "canonical_text v = canonical_text w \<Longrightarrow> json_norm True v = json_norm True w"
    using assms json_render_inj [of v True w False] by simp
  ultimately show ?thesis by blast
qed

section \<open>Request fingerprints\<close>

text \<open>\<open>x or {}\<close> for a dict that may be \<open>None\<close>.\<close>

definition or_empty :: "pyval \<Rightarrow> pyval" where
  "or_empty v = (if v = PNone then PDict [] else v)"

definition str_list :: "string list \<Rightarrow> pyval" where
  "str_list xs = PList (map PStr xs)"

definition opt_str :: "string option \<Rightarrow> pyval" where
  "opt_str s = (case s of None \<Rightarrow> PNone | Some x \<Rightarrow> PStr x)"

definition fingerprint_document ::
  "string \<Rightarrow> string \<Rightarrow> string list \<Rightarrow> string list \<Rightarrow> string \<Rightarrow> string \<Rightarrow> pyval \<Rightarrow> pyval \<Rightarrow> pyval" where
  "fingerprint_document tenant_id actor_id roles evidence action_name risk arguments metadata =
     PDict [
       (''schema'', PStr ''agenttrustops-request-v1''),
       (''tenant_id'', PStr tenant_id),
       (''actor_id'', PStr actor_id),
       (''roles'', str_list (sort roles)),
       (''evidence'', str_list (sort evidence)),
       (''action_name'', PStr action_name),
       (''risk'', PStr risk),
       (''arguments'', arguments),
       (''metadata'', or_empty metadata)]"

definition request_fingerprint ::
  "string \<Rightarrow> string \<Rightarrow> string list \<Rightarrow> string list \<Rightarrow> string \<Rightarrow> string \<Rightarrow> pyval \<Rightarrow> pyval \<Rightarrow> string res" where
  "request_fingerprint tenant_id actor_id roles evidence action_name risk arguments metadata =
     digest (fingerprint_document tenant_id actor_id roles evidence action_name risk arguments metadata)"

lemma json_error_str_list [simp]: "json_error srt (str_list xs) = None"
  by (simp add: str_list_def)

lemma json_wf_str_list [simp]: "json_wf (str_list xs)"
  by (simp add: str_list_def)

lemma json_norm_str_list [simp]: "json_norm srt (str_list xs) = str_list xs"
  by (simp add: str_list_def comp_def)

lemma str_list_inj [simp]: "str_list xs = str_list ys \<longleftrightarrow> xs = ys"
  by (simp add: str_list_def inj_map_eq_map inj_def)

lemma json_error_opt_str [simp]: "json_error srt (opt_str s) = None"
  by (simp add: opt_str_def split: option.splits)

lemma json_wf_opt_str [simp]: "json_wf (opt_str s)"
  by (simp add: opt_str_def split: option.splits)

lemma json_norm_opt_str [simp]: "json_norm srt (opt_str s) = opt_str s"
  by (simp add: opt_str_def split: option.splits)

lemma opt_str_inj [simp]: "opt_str s = opt_str t \<longleftrightarrow> s = t"
  by (auto simp: opt_str_def split: option.splits)

lemma json_wf_or_empty [simp]: "json_wf v \<Longrightarrow> json_wf (or_empty v)"
  by (simp add: or_empty_def)

text \<open>Items of normalised dicts with distinct keys agree key by key.\<close>

lemma json_norm_PDict_get:
  assumes "json_norm True (PDict kvs) = PDict xs" "distinct (map fst kvs)" "(k, v) \<in> set kvs"
  shows "map_of xs k = Some (json_norm True v)"
proof -
  let ?ys = "map (map_prod id (json_norm True)) (order_items True kvs)"
  have "(k, json_norm True v) \<in> set ?ys" using assms(3) by force
  moreover have "distinct (map fst ?ys)" using assms(2) by (simp del: map_map)
  ultimately have "map_of ?ys k = Some (json_norm True v)" by (rule map_of_is_SomeI [rotated])
  with assms(1) show ?thesis by simp
qed

lemma json_norm_PDict_eqD:
  assumes "json_norm True (PDict kvs) = json_norm True (PDict kvs')"
    and "distinct (map fst kvs)" "distinct (map fst kvs')" "(k, v) \<in> set kvs" "(k, v') \<in> set kvs'"
  shows "json_norm True v = json_norm True v'"
  using json_norm_PDict_get [OF _ assms(2,4)] json_norm_PDict_get [OF _ assms(3,5)] assms(1)
  by (metis json_norm_PDict option.inject)

lemma fingerprint_document_wf:
  "json_wf arguments \<Longrightarrow> json_wf metadata \<Longrightarrow>
    json_wf (fingerprint_document tenant actor roles evidence name risk arguments metadata)"
  by (simp add: fingerprint_document_def)

end
