(* ===== verification/Timestamps.thy ===== *)
theory Timestamps
  imports PyStr
begin

text \<open>
  The package's clock values: aware UTC \<open>datetime\<close>s, represented by the microseconds since
  0001-01-01T00:00:00+00:00, and their \<open>isoformat()\<close>, the text that is stored in the
  database, compared there by SQL and covered by the event hashes. The civil date is computed
  as \<open>datetime\<close> does. The main result is that comparing the texts compares the times.
\<close>

type_synonym datetime = nat

section \<open>Civil dates\<close>

definition is_leap :: "nat \<Rightarrow> bool" where
  "is_leap y \<longleftrightarrow> y mod 4 = 0 \<and> (y mod 100 \<noteq> 0 \<or> y mod 400 = 0)"

definition days_before_month :: "nat list" where
  "days_before_month = [0, 0, 31, 59, 90, 120, 151, 181, 212, 243, 273, 304, 334]"

definition month_preceding :: "bool \<Rightarrow> nat \<Rightarrow> nat" where
  "month_preceding leap m = days_before_month ! m + (if 2 < m \<and> leap then 1 else 0)"

text \<open>Month and day of the month of the day \<open>n\<close> (from 0) of a year.\<close>

definition month_day :: "bool \<Rightarrow> nat \<Rightarrow> nat \<times> nat" where
  "month_day leap n =
     (let m = (n + 50) div 32;
          m' = (if month_preceding leap m > n then m - 1 else m)
      in (m', n - month_preceding leap m' + 1))"

text \<open>Year, month and day of a day counted from 0001-01-01 (which is day 0).\<close>

definition ymd_of_days :: "nat \<Rightarrow> nat \<times> nat \<times> nat" where
  "ymd_of_days n =
     (let a = n div 146097; r = n mod 146097;
          b = r div 36524; r1 = r mod 36524;
          c = r1 div 1461; r2 = r1 mod 1461;
          e = r2 div 365; r3 = r2 mod 365;
          y = 400 * a + 100 * b + 4 * c + e + 1
      in if e = 4 \<or> b = 4 then (y - 1, 12, 31)
         else (let (m, d) = month_day (e = 3 \<and> (c \<noteq> 24 \<or> b = 3)) r3 in (y, m, d)))"

definition microseconds_per_second :: nat where "microseconds_per_second = 1000000"
definition seconds_per_day :: nat where "seconds_per_day = 86400"

text \<open>\<open>datetime.max\<close> is the last microsecond of the year 9999.\<close>

definition datetime_bound :: nat where
  "datetime_bound = 3652059 * seconds_per_day * microseconds_per_second"

section \<open>Text and arithmetic\<close>

text \<open>\<open>d.isoformat()\<close> for UTC: the microseconds are omitted when they are zero.\<close>

definition isoformat :: "datetime \<Rightarrow> string" where
  "isoformat t =
     (let us = t mod microseconds_per_second;
          s = t div microseconds_per_second;
          (y, m, d) = ymd_of_days (s div seconds_per_day);
          r = s mod seconds_per_day
      in padded 4 y @ ''-'' @ padded 2 m @ ''-'' @ padded 2 d @ ''T'' @
         padded 2 (r div 3600) @ '':'' @ padded 2 (r div 60 mod 60) @ '':'' @ padded 2 (r mod 60) @
         (if us = 0 then [] else ''.'' @ padded 6 us) @ ''+00:00'')"

text \<open>\<open>d + timedelta(seconds=n)\<close>.\<close>

definition add_seconds :: "datetime \<Rightarrow> nat \<Rightarrow> datetime res" where
  "add_seconds t n =
     (if t + n * microseconds_per_second < datetime_bound then Inr (t + n * microseconds_per_second)
      else raise_exc OverflowError ''date value out of range'')"

lemma add_seconds_InrD: "add_seconds t n = Inr u \<Longrightarrow> u = t + n * 1000000 \<and> u < datetime_bound"
  by (auto simp: add_seconds_def microseconds_per_second_def split: if_splits)

section \<open>Dates grow with days\<close>

definition days_before_year :: "nat \<Rightarrow> nat" where
  "days_before_year y = (let k = y - 1 in k * 365 + k div 4 - k div 100 + k div 400)"

lemma year_step:
  assumes "q \<le> p" "B \<Longrightarrow> A" "C \<Longrightarrow> B"
  shows "Suc k * 365 + (if A then Suc p else p) - (if B then Suc q else q) + (if C then Suc r else r)
    = (k * 365 + p - q + r) + 365 + (if A \<and> (\<not> B \<or> C) then 1 else 0)"
  using assms by (cases A; cases B; cases C; simp)

lemma days_before_year_Suc:
  assumes "1 \<le> y"
  shows "days_before_year (Suc y) = days_before_year y + 365 + (if is_leap y then 1 else 0)"
proof -
  obtain k where y: "y = Suc k" using assms by (cases y) auto
  have "k div 100 \<le> k div 4" by (rule div_le_mono2) auto
  moreover have "Suc k mod 100 = 0 \<Longrightarrow> Suc k mod 4 = 0" "Suc k mod 400 = 0 \<Longrightarrow> Suc k mod 100 = 0"
    by presburger+
  ultimately show ?thesis
    unfolding y days_before_year_def is_leap_def Let_def diff_Suc_1 div_Suc [of k]
    by (intro year_step) blast+
qed

lemma days_before_year_mono:
  assumes "1 \<le> y" "y < z"
  shows "days_before_year y + 365 + (if is_leap y then 1 else 0) \<le> days_before_year z"
proof -
  have step: "days_before_year (Suc x) \<le> days_before_year (Suc x + k)" for x k
    by (induction k) (auto simp: days_before_year_Suc)
  obtain k where "z = Suc y + k" using assms(2) less_iff_Suc_add by auto
  with step [of y k] days_before_year_Suc [OF assms(1)] show ?thesis by simp
qed

text \<open>The day of the year: each month is an interval of days.\<close>

definition md_code :: "bool \<Rightarrow> nat \<Rightarrow> nat" where
  "md_code leap n = (case month_day leap n of (m, d) \<Rightarrow> 100 * m + d)"

definition month_start :: "bool \<Rightarrow> nat \<Rightarrow> nat" where
  "month_start leap m = (days_before_month @ [365]) ! m + (if 2 < m \<and> leap then 1 else 0)"

lemma month_start_mono: "i \<le> j \<Longrightarrow> j \<le> 13 \<Longrightarrow> month_start leap i \<le> month_start leap j"
proof -
  have "\<forall>leap \<in> {True, False}. \<forall>i \<in> set [0..<13]. month_start leap i \<le> month_start leap (Suc i)"
    by code_simp
  then have step: "month_start leap i \<le> month_start leap (Suc i)" if "i < 13" for i
    using that by (cases leap) auto
  show "i \<le> j \<Longrightarrow> j \<le> 13 \<Longrightarrow> month_start leap i \<le> month_start leap j"
  proof (induction j)
    case (Suc j)
    then show ?case using step [of j] by (cases "i = Suc j") auto
  qed simp
qed

lemma month_lengths:
  "\<forall>leap \<in> {True, False}. \<forall>m \<in> set [1..<13].
     month_start leap (Suc m) \<le> month_start leap m + 31
     \<and> 32 * m \<le> month_start leap m + 50 \<and> month_start leap (Suc m) + 50 \<le> 32 * (m + 2)
     \<and> month_preceding leap m = month_start leap m
     \<and> (m = 12 \<longrightarrow> month_start leap (Suc m) + 50 \<le> 32 * (m + 1))
     \<and> (m < 12 \<longrightarrow> month_preceding leap (Suc m) = month_start leap (Suc m))"
  by code_simp

lemma month_day_in:
  assumes m: "1 \<le> m" "m \<le> 12" and n: "month_start leap m \<le> n" "n < month_start leap (Suc m)"
  shows "month_day leap n = (m, n - month_start leap m + 1)"
proof -
  have t: "32 * m \<le> month_start leap m + 50" "month_start leap (Suc m) + 50 \<le> 32 * (m + 2)"
    "month_preceding leap m = month_start leap m"
    "m = 12 \<Longrightarrow> month_start leap (Suc m) + 50 \<le> 32 * (m + 1)"
    "m < 12 \<Longrightarrow> month_preceding leap (Suc m) = month_start leap (Suc m)"
    using month_lengths [THEN bspec, of leap, THEN bspec, of m] m by simp_all
  have "32 * m \<le> n + 50" "n + 50 < 32 * (m + 2)" using t(1,2) n by linarith+
  then have "m \<le> (n + 50) div 32" "(n + 50) div 32 < m + 2"
    by (simp_all add: less_eq_div_iff_mult_less_eq div_less_iff_less_mult mult.commute)
  then have "(n + 50) div 32 = m \<or> (n + 50) div 32 = Suc m" by linarith
  then show ?thesis
  proof
    assume "(n + 50) div 32 = m"
    with t n show ?thesis by (simp add: month_day_def Let_def)
  next
    assume d: "(n + 50) div 32 = Suc m"
    have "m \<noteq> 12"
    proof
      assume "m = 12"
      with t(4) n(2) have "n + 50 < 32 * 13" by simp
      then have "(n + 50) div 32 < 13" by (simp add: div_less_iff_less_mult)
      with d \<open>m = 12\<close> show False by simp
    qed
    with m t d n show ?thesis by (simp add: month_day_def Let_def)
  qed
qed

lemma month_exists:
  "1 \<le> k \<Longrightarrow> n < month_start leap (Suc k) \<Longrightarrow>
    \<exists>m. 1 \<le> m \<and> m \<le> k \<and> month_start leap m \<le> n \<and> n < month_start leap (Suc m)"
proof (induction k)
  case (Suc k)
  show ?case
  proof (cases "month_start leap (Suc k) \<le> n")
    case True
    with Suc.prems show ?thesis by (intro exI [of _ "Suc k"]) simp
  next
    case False
    moreover have "month_start leap (Suc 0) = 0" by (simp add: month_start_def days_before_month_def)
    ultimately have "1 \<le> k" by (cases k) auto
    with False Suc.IH show ?thesis by (metis le_SucI not_le_imp_less)
  qed
qed simp

lemma month_day_cases:
  assumes "n < 365 + (if leap then 1 else 0)"
  obtains m where "1 \<le> m" "m \<le> 12" "month_start leap m \<le> n" "n < month_start leap (Suc m)"
    "month_day leap n = (m, n - month_start leap m + 1)" "n - month_start leap m + 1 \<le> 31"
proof -
  have "month_start leap 13 = 365 + (if leap then 1 else 0)"
    by (simp add: month_start_def days_before_month_def)
  then obtain m where m: "1 \<le> m" "m \<le> 12" "month_start leap m \<le> n" "n < month_start leap (Suc m)"
    using month_exists [of 12 n leap] assms by auto
  have "month_start leap (Suc m) \<le> month_start leap m + 31"
    using month_lengths [THEN bspec, of leap, THEN bspec, of m] m(1,2) by simp
  with m have "n - month_start leap m + 1 \<le> 31" by simp
  with m month_day_in [OF m] that show ?thesis by blast
qed

lemma month_day_bounds:
  "n < 365 + (if leap then 1 else 0) \<Longrightarrow> fst (month_day leap n) < 100 \<and> snd (month_day leap n) < 100"
  by (erule month_day_cases) simp

lemma md_code_mono:
  assumes "n < k" "k < 365 + (if leap then 1 else 0)"
  shows "md_code leap n < md_code leap k"
proof -
  from assms have n: "n < 365 + (if leap then 1 else 0)" by simp
  from n obtain i where i: "1 \<le> i" "i \<le> 12" "month_start leap i \<le> n" "n < month_start leap (Suc i)"
    "month_day leap n = (i, n - month_start leap i + 1)" "n - month_start leap i + 1 \<le> 31"
    by (rule month_day_cases)
  from assms(2) obtain j where j: "1 \<le> j" "j \<le> 12" "month_start leap j \<le> k" "k < month_start leap (Suc j)"
    "month_day leap k = (j, k - month_start leap j + 1)"
    by (rule month_day_cases)
  have "\<not> j < i"
    using month_start_mono [of "Suc j" i leap] i(1-3) j(4) assms(1) by auto
  then consider "i = j" | "i < j" by linarith
  then show ?thesis
  proof cases
    case 1
    with i j assms(1) show ?thesis by (simp add: md_code_def)
  next
    case 2
    then have "100 * i + 100 \<le> 100 * j" by simp
    with i(6) show ?thesis by (simp add: md_code_def i(5) j(5))
  qed
qed

lemma month_day_last: "month_day True 365 = (12, 31)"
  by code_simp

text \<open>The year of the four quotients.\<close>

lemma mod_eq_0_top: "(x::nat) = n * q + r \<Longrightarrow> 0 < r \<Longrightarrow> r \<le> n \<Longrightarrow> x mod n = 0 \<longleftrightarrow> r = n"
  by (cases "r = n") auto

lemma year_of_quotients:
  assumes "b \<le> 3" "c \<le> 24" "e \<le> 3" and y: "y = 400 * a + 100 * b + 4 * c + e + 1"
  shows "days_before_year y = 146097 * a + 36524 * b + 1461 * c + 365 * e"
    and "is_leap y \<longleftrightarrow> e = 3 \<and> (c \<noteq> 24 \<or> b = 3)"
proof -
  let ?k = "400 * a + 100 * b + 4 * c + e"
  have "?k div 4 = 100 * a + 25 * b + c"
    by (rule div_nat_eqI) (use assms(1-3) in auto)
  moreover have "?k div 100 = 4 * a + b"
    by (rule div_nat_eqI) (use assms(1-3) in auto)
  moreover have "?k div 400 = a"
    by (rule div_nat_eqI) (use assms(1-3) in auto)
  ultimately show "days_before_year y = 146097 * a + 36524 * b + 1461 * c + 365 * e"
    using assms(1) by (simp add: y days_before_year_def Let_def)
  have "y mod 4 = 0 \<longleftrightarrow> e + 1 = 4"
    by (rule mod_eq_0_top [of _ _ "100 * a + 25 * b + c"]) (use assms in auto)
  moreover have "y mod 100 = 0 \<longleftrightarrow> 4 * c + e + 1 = 100"
    by (rule mod_eq_0_top [of _ _ "4 * a + b"]) (use assms in auto)
  moreover have "y mod 400 = 0 \<longleftrightarrow> 100 * b + 4 * c + e + 1 = 400"
    by (rule mod_eq_0_top [of _ _ a]) (use assms in auto)
  ultimately show "is_leap y \<longleftrightarrow> e = 3 \<and> (c \<noteq> 24 \<or> b = 3)"
    unfolding is_leap_def using assms(1-3) by auto
qed

text \<open>Every day is day \<open>r\<close> of some year \<open>y\<close>.\<close>

lemma ymd_of_days:
  obtains y r where "1 \<le> y" "n = days_before_year y + r" "r < 365 + (if is_leap y then 1 else 0)"
    "ymd_of_days n = (y, fst (month_day (is_leap y) r), snd (month_day (is_leap y) r))"
proof -
  define a where "a = n div 146097"
  define q where "q = n mod 146097"
  define b where "b = q div 36524"
  define q1 where "q1 = q mod 36524"
  define c where "c = q1 div 1461"
  define q2 where "q2 = q1 mod 1461"
  define e where "e = q2 div 365"
  define r where "r = q2 mod 365"
  define y where "y = 400 * a + 100 * b + 4 * c + e + 1"
  note defs = a_def q_def b_def q1_def c_def q2_def e_def r_def
  have n: "n = 146097 * a + q" "q = 36524 * b + q1" "q1 = 1461 * c + q2" "q2 = 365 * e + r"
    by (simp_all add: defs)
  have le: "q < 146097" "q1 < 36524" "q2 < 1461" "r < 365"
    by (simp_all add: q_def q1_def q2_def r_def)
  have bnd: "b \<le> 4" "c \<le> 24" "e \<le> 4" using n le by linarith+
  have ymd: "ymd_of_days n = (if e = 4 \<or> b = 4 then (y - 1, 12, 31)
      else (y, fst (month_day (e = 3 \<and> (c \<noteq> 24 \<or> b = 3)) r), snd (month_day (e = 3 \<and> (c \<noteq> 24 \<or> b = 3)) r)))"
    by (simp add: ymd_of_days_def Let_def split_beta y_def defs)
  show ?thesis
  proof (cases "e = 4 \<or> b = 4")
    case True
    have "days_before_year (y - 1) + 365 = n \<and> is_leap (y - 1) \<and> 1 \<le> y - 1"
    proof (cases "b = 4")
      case True
      then have "q1 = 0" using n le by linarith
      then have z: "c = 0" "e = 0" "r = 0" using n by linarith+
      then have "y - 1 = 400 * a + 100 * 3 + 4 * 24 + 3 + 1" using True by (simp add: y_def)
      from year_of_quotients [OF _ _ _ this] z True n \<open>q1 = 0\<close> y_def show ?thesis by simp
    next
      case False
      with True have e: "e = 4" by simp
      then have "r = 0" using n le by linarith
      have "b \<le> 3" using False bnd by simp
      moreover have "c \<noteq> 24" using n le e \<open>b \<le> 3\<close> by linarith
      moreover have "y - 1 = 400 * a + 100 * b + 4 * c + 3 + 1" using e by (simp add: y_def)
      ultimately show ?thesis
        using year_of_quotients [of b c 3 "y - 1" a] bnd n e \<open>r = 0\<close> by simp
    qed
    with True ymd month_day_last that [of "y - 1" 365] show ?thesis by simp
  next
    case False
    with bnd have b3: "b \<le> 3" "e \<le> 3" by auto
    then show ?thesis
      using year_of_quotients [OF _ bnd(2) _ y_def] ymd False n le that [of y r] by (simp add: y_def)
  qed
qed

section \<open>Texts grow with times\<close>

lemma append_less_append:
  "length xs = length ys \<Longrightarrow> xs @ us < ys @ vs \<longleftrightarrow> xs < ys \<or> xs = ys \<and> us < (vs :: 'a :: linorder list)"
  by (induction xs ys rule: list_induct2) auto

lemma digit_char_less: "d < 10 \<Longrightarrow> e < 10 \<Longrightarrow> digit_char d < digit_char e \<longleftrightarrow> d < e"
  using code_point_digit_char [of d] code_point_digit_char [of e]
  by (simp add: less_char_def code_point_def)

lemma less_iff_div_mod:
  fixes a b n :: nat
  shows "a < b \<longleftrightarrow> a div n < b div n \<or> a div n = b div n \<and> a mod n < b mod n"
proof -
  have less: "x < y" if "x div n < y div n" for x y :: nat
    using that by (meson div_le_mono leD not_le_imp_less)
  have eq: "a div n = b div n \<Longrightarrow> a < b \<longleftrightarrow> a mod n < b mod n"
    by (metis add_less_cancel_left mult_div_mod_eq)
  show ?thesis using less [of a b] less [of b a] eq by (meson not_less_iff_gr_or_eq)
qed

lemma padded_less:
  "a < 10 ^ k \<Longrightarrow> b < 10 ^ k \<Longrightarrow> padded k a < padded k b \<longleftrightarrow> a < b"
proof (induction k arbitrary: a b)
  case (Suc k)
  have ab: "a div 10 < 10 ^ k" "b div 10 < 10 ^ k"
    using Suc.prems by (simp_all add: div_less_iff_less_mult mult.commute)
  have eq: "padded k (a div 10) = padded k (b div 10) \<longleftrightarrow> a div 10 = b div 10"
    using ab by (metis digits_val_padded mod_less)
  have "a < b \<longleftrightarrow> a div 10 < b div 10 \<or> a div 10 = b div 10 \<and> a mod 10 < b mod 10"
    by (rule less_iff_div_mod)
  with Suc.IH [OF ab] eq show ?case
    by (simp add: append_less_append digit_char_less)
qed simp

lemma padded_eq: "a < 10 ^ k \<Longrightarrow> b < 10 ^ k \<Longrightarrow> padded k a = padded k b \<longleftrightarrow> a = b"
  by (metis digits_val_padded mod_less)

definition iso_date :: "nat \<Rightarrow> string" where
  "iso_date n = (case ymd_of_days n of (y, m, d) \<Rightarrow> padded 4 y @ ''-'' @ padded 2 m @ ''-'' @ padded 2 d)"

definition iso_time :: "nat \<Rightarrow> string" where
  "iso_time r = padded 2 (r div 3600) @ '':'' @ padded 2 (r div 60 mod 60) @ '':'' @ padded 2 (r mod 60)"

definition iso_tail :: "nat \<Rightarrow> string" where
  "iso_tail us = (if us = 0 then [] else ''.'' @ padded 6 us) @ ''+00:00''"

lemma isoformat_parts:
  "isoformat t = iso_date (t div microseconds_per_second div seconds_per_day) @ ''T'' @
     iso_time (t div microseconds_per_second mod seconds_per_day) @ iso_tail (t mod microseconds_per_second)"
  by (simp add: isoformat_def iso_date_def iso_time_def iso_tail_def Let_def split_beta)

lemma length_iso [simp]: "length (iso_date n) = 10" "length (iso_time r) = 8"
  by (simp_all add: iso_date_def iso_time_def split_beta del: padded.simps)

lemma iso_date_less:
  assumes "n < k" "k < 3652059"
  shows "iso_date n < iso_date k"
proof -
  obtain y r where y: "1 \<le> y" "n = days_before_year y + r" "r < 365 + (if is_leap y then 1 else 0)"
    "ymd_of_days n = (y, fst (month_day (is_leap y) r), snd (month_day (is_leap y) r))"
    by (rule ymd_of_days)
  obtain z q where z: "1 \<le> z" "k = days_before_year z + q" "q < 365 + (if is_leap z then 1 else 0)"
    "ymd_of_days k = (z, fst (month_day (is_leap z) q), snd (month_day (is_leap z) q))"
    by (rule ymd_of_days)
  have top: "days_before_year 10000 = 3652059" by (simp add: days_before_year_def Let_def)
  have bnd: "x < 10000" if "1 \<le> x" "days_before_year x < 3652059" for x
    using that days_before_year_mono [of 10000 x] top by (cases x "10000 :: nat" rule: linorder_cases) auto
  have yz: "y < 10 ^ 4" "z < 10 ^ 4" using bnd y(1,2) z(1,2) assms by simp_all
  note md = month_day_bounds [OF y(3)] month_day_bounds [OF z(3)]
  have "\<not> z < y" using days_before_year_mono [OF z(1), of y] z(2,3) y(2) assms(1) by auto
  then consider "y < z" | "y = z" by linarith
  then show ?thesis
  proof cases
    case 1
    then show ?thesis
      by (simp add: iso_date_def y(4) z(4) split_beta append_less_append padded_less [OF yz] del: padded.simps)
  next
    case 2
    then have "r < q" using y(2) z(2) assms(1) by simp
    then have "md_code (is_leap y) r < md_code (is_leap y) q" using md_code_mono z(3) 2 by blast
    then have "fst (month_day (is_leap y) r) < fst (month_day (is_leap y) q) \<or>
        fst (month_day (is_leap y) r) = fst (month_day (is_leap y) q) \<and>
        snd (month_day (is_leap y) r) < snd (month_day (is_leap y) q)"
      using md 2 by (auto simp: md_code_def split_beta)
    with 2 md show ?thesis
      by (auto simp: iso_date_def y(4) z(4) split_beta append_less_append padded_less padded_eq
          simp del: padded.simps)
  qed
qed

lemma iso_time_less:
  assumes "r < q" "q < 86400"
  shows "iso_time r < iso_time q"
proof -
  have d: "x div 60 div 60 = x div 3600" for x :: nat by (simp add: div_mult2_eq [symmetric])
  have "r div 3600 < q div 3600 \<or> r div 3600 = q div 3600 \<and>
      (r div 60 mod 60 < q div 60 mod 60 \<or> r div 60 mod 60 = q div 60 mod 60 \<and> r mod 60 < q mod 60)"
    using assms(1) less_iff_div_mod [of r q 60] less_iff_div_mod [of "r div 60" "q div 60" 60]
    unfolding d by auto
  moreover have "r div 3600 < 10 ^ 2" "q div 3600 < 10 ^ 2"
    using assms by (simp_all add: div_less_iff_less_mult)
  moreover have "x mod 60 < 10 ^ 2" for x :: nat
    using mod_less_divisor [of 60 x] by simp
  ultimately show ?thesis
    by (auto simp: iso_time_def append_less_append padded_less padded_eq simp del: padded.simps)
qed

lemma iso_tail_less: "us < vs \<Longrightarrow> vs < 1000000 \<Longrightarrow> iso_tail us < iso_tail vs"
  by (auto simp: iso_tail_def append_less_append padded_less less_char_def simp del: padded.simps)

theorem isoformat_less:
  assumes "t < u" "u < datetime_bound"
  shows "isoformat t < isoformat u"
proof -
  let ?s = "\<lambda>x. x div microseconds_per_second" and ?m = "\<lambda>x. x mod microseconds_per_second"
  have sec: "?s t < ?s u \<or> ?s t = ?s u \<and> ?m t < ?m u"
    using assms(1) less_iff_div_mod by blast
  have day: "?s t < ?s u \<longleftrightarrow> ?s t div seconds_per_day < ?s u div seconds_per_day \<or>
      ?s t div seconds_per_day = ?s u div seconds_per_day \<and> ?s t mod seconds_per_day < ?s u mod seconds_per_day"
    by (rule less_iff_div_mod)
  have bnd: "?s u div seconds_per_day < 3652059" "x mod seconds_per_day < 86400" "?m u < 1000000" for x
    using assms(2)
    by (simp_all add: datetime_bound_def seconds_per_day_def microseconds_per_second_def div_less_iff_less_mult)
  have tl: "?s t mod seconds_per_day < ?s u mod seconds_per_day \<Longrightarrow>
      iso_time (?s t mod seconds_per_day) < iso_time (?s u mod seconds_per_day)"
    by (rule iso_time_less [OF _ bnd(2)])
  show ?thesis
    using sec day iso_date_less [OF _ bnd(1)] tl iso_tail_less [OF _ bnd(3)]
    by (auto simp: isoformat_parts append_less_append)
qed

corollary isoformat_le_iff:
  "t < datetime_bound \<Longrightarrow> u < datetime_bound \<Longrightarrow> isoformat t \<le> isoformat u \<longleftrightarrow> t \<le> u"
  by (cases t u rule: linorder_cases) (auto dest: isoformat_less)

corollary isoformat_inj:
  "t < datetime_bound \<Longrightarrow> u < datetime_bound \<Longrightarrow> isoformat t = isoformat u \<longleftrightarrow> t = u"
  by (metis isoformat_less less_irrefl linorder_neqE_nat)

end
