(* ===== verification/Models.thy ===== *)
theory Models
  imports Digest Timestamps
begin

text \<open>
  The contracts shared by policies, ledgers and actions (\<open>models.py\<close>): the enumerations and
  the frozen dataclasses, each with its \<open>__post_init__\<close>, which validates and normalises the
  fields or raises.
\<close>

section \<open>Enumerations\<close>

datatype PolicyOutcome = ALLOW | DENY | APPROVAL_REQUIRED

fun outcome_value :: "PolicyOutcome \<Rightarrow> string" where
  "outcome_value ALLOW = ''allow''"
| "outcome_value DENY = ''deny''"
| "outcome_value APPROVAL_REQUIRED = ''approval_required''"

datatype ActionStatus =
    CREATED
  | DENIED
  | PENDING_APPROVAL
  | APPROVED
  | REJECTED
  | APPROVAL_EXPIRED
  | EXECUTING
  | UNKNOWN
  | COMPLETED
  | FAILED

fun status_value :: "ActionStatus \<Rightarrow> string" where
  "status_value CREATED = ''created''"
| "status_value DENIED = ''denied''"
| "status_value PENDING_APPROVAL = ''pending_approval''"
| "status_value APPROVED = ''approved''"
| "status_value REJECTED = ''rejected''"
| "status_value APPROVAL_EXPIRED = ''approval_expired''"
| "status_value EXECUTING = ''executing''"
| "status_value UNKNOWN = ''unknown''"
| "status_value COMPLETED = ''completed''"
| "status_value FAILED = ''failed''"

lemma status_value_inj [simp]: "status_value s = status_value t \<longleftrightarrow> s = t"
  by (cases s; cases t; simp)

lemma outcome_value_inj [simp]: "outcome_value s = outcome_value t \<longleftrightarrow> s = t"
  by (cases s; cases t; simp)

text \<open>Statuses are ordered by their stored text, as SQL and \<open>sorted\<close> order them.\<close>

instantiation ActionStatus :: linorder
begin

definition less_eq_ActionStatus :: "ActionStatus \<Rightarrow> ActionStatus \<Rightarrow> bool" where
  "less_eq_ActionStatus s t \<longleftrightarrow> status_value s \<le> status_value t"

definition less_ActionStatus :: "ActionStatus \<Rightarrow> ActionStatus \<Rightarrow> bool" where
  "less_ActionStatus s t \<longleftrightarrow> status_value s < status_value t"

instance
proof
  fix s t u :: ActionStatus
  show "s < t \<longleftrightarrow> s \<le> t \<and> \<not> t \<le> s"
    unfolding less_eq_ActionStatus_def less_ActionStatus_def by (rule less_le_not_le)
  show "s \<le> s" by (simp add: less_eq_ActionStatus_def)
  show "s \<le> t \<Longrightarrow> t \<le> u \<Longrightarrow> s \<le> u"
    unfolding less_eq_ActionStatus_def by (rule order_trans)
  show "s \<le> t \<Longrightarrow> t \<le> s \<Longrightarrow> s = t"
    unfolding less_eq_ActionStatus_def by (metis antisym status_value_inj)
  show "s \<le> t \<or> t \<le> s"
    unfolding less_eq_ActionStatus_def by (rule linear)
qed

end

section \<open>JSON copies\<close>

text \<open>\<open>json.loads(json.dumps(value, sort_keys=True, separators=(",", ":"), allow_nan=False))\<close>,
  with every failure turned into a \<open>ValueError\<close> with the given message.\<close>

definition json_copy :: "string \<Rightarrow> pyval \<Rightarrow> pyval res" where
  "json_copy message value =
     (case res_bind (json_dumps True True '','' '':'' value) json_loads of
        Inl _ \<Rightarrow> raise_exc ValueError message
      | Inr copied \<Rightarrow> Inr copied)"

definition json_object_copy :: "pyval \<Rightarrow> string \<Rightarrow> pyval res" where
  "json_object_copy value field_name =
     (case value of
        PDict _ \<Rightarrow> json_copy (field_name @ '' must be JSON serializable'') value
      | _ \<Rightarrow> raise_exc TypeError (field_name @ '' must be a dictionary''))"

lemma json_copy_eq:
  "json_wf v \<Longrightarrow> json_copy msg v =
     (if json_error True v = None then Inr (json_norm True v) else raise_exc ValueError msg)"
  by (auto simp: json_copy_def json_dumps_def json_loads_render split: option.splits)

section \<open>Contexts\<close>

record ActionExecutionContext =
  xc_run_id :: string
  xc_action_name :: string
  xc_tenant_id :: string
  xc_idempotency_key :: string
  xc_attempt :: int

definition ActionExecutionContext_init ::
  "string \<Rightarrow> string \<Rightarrow> string \<Rightarrow> string \<Rightarrow> int \<Rightarrow> ActionExecutionContext res" where
  "ActionExecutionContext_init run_id action_name tenant_id idempotency_key attempt =
     (if strip run_id = [] then raise_exc ValueError ''run_id cannot be empty''
      else if strip action_name = [] then raise_exc ValueError ''action_name cannot be empty''
      else if strip tenant_id = [] then raise_exc ValueError ''tenant_id cannot be empty''
      else if strip idempotency_key = [] then raise_exc ValueError ''idempotency_key cannot be empty''
      else if attempt < 1 then raise_exc ValueError ''attempt must be at least one''
      else Inr \<lparr>xc_run_id = strip run_id, xc_action_name = strip action_name,
                xc_tenant_id = strip tenant_id, xc_idempotency_key = strip idempotency_key,
                xc_attempt = attempt\<rparr>)"

record ActionContext =
  cx_actor_id :: string
  cx_tenant_id :: string
  cx_roles :: "string list"
  cx_evidence :: "string list"
  cx_metadata :: pyval

definition ActionContext_init ::
  "string \<Rightarrow> string \<Rightarrow> string list \<Rightarrow> string list \<Rightarrow> pyval \<Rightarrow> ActionContext res" where
  "ActionContext_init actor_id tenant_id roles evidence metadata =
     (if strip actor_id = [] then raise_exc ValueError ''actor_id cannot be empty''
      else if strip tenant_id = [] then raise_exc ValueError ''tenant_id cannot be empty''
      else res_bind (json_object_copy metadata ''metadata'') (\<lambda>metadata'.
        Inr \<lparr>cx_actor_id = strip actor_id, cx_tenant_id = strip tenant_id,
             cx_roles = sorted_strip_set roles, cx_evidence = sorted_strip_set evidence,
             cx_metadata = metadata'\<rparr>))"

record VerifiedPrincipal =
  vp_actor_id :: string
  vp_tenant_id :: string
  vp_roles :: "string list"
  vp_auth_source :: string

definition VerifiedPrincipal_init ::
  "string \<Rightarrow> string \<Rightarrow> string list \<Rightarrow> string \<Rightarrow> VerifiedPrincipal res" where
  "VerifiedPrincipal_init actor_id tenant_id roles auth_source =
     (if strip actor_id = [] \<or> strip tenant_id = [] \<or> strip auth_source = []
      then raise_exc ValueError ''verified principal fields cannot be empty''
      else if sorted_strip_set roles = []
      then raise_exc ValueError ''verified principal needs at least one role''
      else Inr \<lparr>vp_actor_id = strip actor_id, vp_tenant_id = strip tenant_id,
                vp_roles = sorted_strip_set roles, vp_auth_source = strip auth_source\<rparr>)"

section \<open>Decisions and results\<close>

record PolicyDecision =
  pd_outcome :: PolicyOutcome
  pd_reason :: string
  pd_policy_version :: string
  pd_facts :: pyval
  pd_policy_digest :: "string option"

definition PolicyDecision_init ::
  "PolicyOutcome \<Rightarrow> string \<Rightarrow> string \<Rightarrow> pyval \<Rightarrow> string option \<Rightarrow> PolicyDecision res" where
  "PolicyDecision_init outcome reason policy_version facts policy_digest =
     (if strip reason = [] then raise_exc ValueError ''policy decision reason cannot be empty''
      else if strip policy_version = [] then raise_exc ValueError ''policy version cannot be empty''
      else if map_option strip policy_digest = Some []
      then raise_exc ValueError ''policy digest cannot be empty''
      else res_bind (json_object_copy facts ''policy facts'') (\<lambda>facts'.
        Inr \<lparr>pd_outcome = outcome, pd_reason = strip reason,
             pd_policy_version = strip policy_version, pd_facts = facts',
             pd_policy_digest = map_option strip policy_digest\<rparr>))"

record ActionResult =
  ar_run_id :: string
  ar_action_name :: string
  ar_status :: ActionStatus
  ar_idempotency_key :: string
  ar_policy_version :: "string option"
  ar_reason :: "string option"
  ar_value :: pyval
  ar_duplicate :: bool
  ar_attempt :: int

definition ActionResult_executed :: "ActionResult \<Rightarrow> bool" where
  "ActionResult_executed r \<longleftrightarrow> ar_status r = COMPLETED"

definition ActionResult_to_dict :: "ActionResult \<Rightarrow> pyval" where
  "ActionResult_to_dict r = PDict [
     (''run_id'', PStr (ar_run_id r)),
     (''action_name'', PStr (ar_action_name r)),
     (''status'', PStr (status_value (ar_status r))),
     (''idempotency_key'', PStr (ar_idempotency_key r)),
     (''policy_version'', opt_str (ar_policy_version r)),
     (''reason'', opt_str (ar_reason r)),
     (''value'', ar_value r),
     (''duplicate'', PBool (ar_duplicate r)),
     (''attempt'', PInt (ar_attempt r))]"

definition ActionResult_to_public_dict :: "ActionResult \<Rightarrow> pyval" where
  "ActionResult_to_public_dict r = PDict [
     (''run_id'', PStr (ar_run_id r)),
     (''action_name'', PStr (ar_action_name r)),
     (''status'', PStr (status_value (ar_status r))),
     (''policy_version'', opt_str (ar_policy_version r)),
     (''reason'', opt_str (ar_reason r)),
     (''value'', ar_value r),
     (''attempt'', PInt (ar_attempt r))]"

section \<open>Properties of the constructors\<close>

lemma json_object_copy_InrD:
  "json_object_copy v f = Inr w \<Longrightarrow> json_wf v \<Longrightarrow>
     \<exists>kvs. v = PDict kvs \<and> json_error True v = None \<and> w = json_norm True v"
  by (auto simp: json_object_copy_def json_copy_eq simp del: json_norm_PDict
      split: pyval.splits if_splits)

lemma VerifiedPrincipal_init_InrD:
  "VerifiedPrincipal_init a t rs s = Inr p \<Longrightarrow>
     strip a \<noteq> [] \<and> strip t \<noteq> [] \<and> strip s \<noteq> [] \<and> sorted_strip_set rs \<noteq> [] \<and>
     p = \<lparr>vp_actor_id = strip a, vp_tenant_id = strip t, vp_roles = sorted_strip_set rs,
          vp_auth_source = strip s\<rparr>"
  by (auto simp: VerifiedPrincipal_init_def split: if_splits)

text \<open>A context does not depend on the order, repetition or padding of its roles and evidence.\<close>

lemma sorted_strip_set_cong:
  assumes "strip ` set xs = strip ` set ys"
  shows "sorted_strip_set xs = sorted_strip_set ys"
proof (rule sorted_distinct_set_unique)
  have "set (sorted_strip_set zs) = {s \<in> strip ` set zs. s \<noteq> []}" for zs
    by (auto simp: set_sorted_strip_set)
  with assms show "set (sorted_strip_set xs) = set (sorted_strip_set ys)" by simp
qed simp_all

lemma ActionContext_init_cong:
  assumes "strip ` set roles = strip ` set roles'" "strip ` set evidence = strip ` set evidence'"
  shows "ActionContext_init a t roles evidence m = ActionContext_init a t roles' evidence' m"
  unfolding ActionContext_init_def sorted_strip_set_cong [OF assms(1)] sorted_strip_set_cong [OF assms(2)]
  by (rule refl)

end
