(* ===== verification/Ledger.thy ===== *)
theory Ledger
  imports Models
begin

text \<open>
  The transactional ledger (\<open>SQLiteActionLedger\<close> of \<open>ledger.py\<close>): its three tables and every
  operation that changes them. A table is the list of its rows in insertion order. An
  operation is a function from the tables to a result and the new tables, or it raises; a
  raising operation leaves the transaction to be rolled back, so it has no new tables. The
  clock readings and the random event ids an operation draws are the argument \<open>env\<close>: the
  i-th reading of the call is \<open>now_at env i\<close>, the i-th id is \<open>uuid_at env i\<close>.

  A JSON column is represented by the value \<open>json.loads\<close> returns for it, which is
  \<open>json_norm True v\<close> for the text \<open>_json\<close> writes for \<open>v\<close> (\<open>json_loads_render\<close>). A time
  column the code parses again is a \<open>datetime\<close>; comparisons SQL does on its text are done on
  \<open>isoformat\<close>.
\<close>

section \<open>Tables\<close>

record run_row =
  r_run_id :: string
  r_tenant_id :: string
  r_actor_id :: string
  r_action_name :: string
  r_risk :: string
  r_idempotency_key :: string
  r_fingerprint :: string
  r_status :: ActionStatus
  r_arguments :: pyval
  r_roles :: "string list"
  r_evidence :: "string list"
  r_metadata :: pyval
  r_policy_version :: "string option"
  r_policy_digest :: "string option"
  r_reason :: "string option"
  r_result :: "pyval option"
  r_execution_owner :: "string option"
  r_lease_expires_at :: "datetime option"
  r_attempt :: nat
  r_duplicate_count :: nat
  r_event_count :: nat
  r_event_head_hash :: "string option"
  r_created_at :: datetime
  r_updated_at :: datetime

record event_row =
  e_seq :: nat
  e_id :: string
  e_run :: string
  e_type :: string
  e_payload :: pyval
  e_prev :: "string option"
  e_hash :: "string option"
  e_created :: string

record approval_row =
  a_run_id :: string
  a_status :: ActionStatus
  a_fingerprint :: string
  a_policy_version :: string
  a_policy_digest :: "string option"
  a_requested_actor :: string
  a_approver_id :: "string option"
  a_approver_auth_source :: "string option"
  a_note :: "string option"
  a_requested_at :: datetime
  a_expires_at :: datetime
  a_decided_at :: "datetime option"

record ledger =
  l_runs :: "run_row list"
  l_events :: "event_row list"
  l_approvals :: "approval_row list"
  l_next_seq :: nat

record env =
  now_at :: "nat \<Rightarrow> datetime"
  uuid_at :: "nat \<Rightarrow> string"

definition empty_ledger :: ledger where
  "empty_ledger = \<lparr>l_runs = [], l_events = [], l_approvals = [], l_next_seq = 1\<rparr>"

abbreviation fetch_run :: "ledger \<Rightarrow> string \<Rightarrow> run_row option" where
  "fetch_run l rid \<equiv> fetch_by r_run_id rid (l_runs l)"

abbreviation fetch_approval :: "ledger \<Rightarrow> string \<Rightarrow> approval_row option" where
  "fetch_approval l rid \<equiv> fetch_by a_run_id rid (l_approvals l)"

text \<open>\<open>SELECT ... FROM action_events WHERE run_id = ? ORDER BY sequence\<close>.\<close>

definition run_events :: "ledger \<Rightarrow> string \<Rightarrow> event_row list" where
  "run_events l rid = sort_key e_seq (filter (\<lambda>e. e_run e = rid) (l_events l))"

definition upd_runs :: "(run_row \<Rightarrow> bool) \<Rightarrow> (run_row \<Rightarrow> run_row) \<Rightarrow> ledger \<Rightarrow> ledger" where
  "upd_runs P f l = l\<lparr>l_runs := sql_update P f (l_runs l)\<rparr>"

definition upd_approvals :: "(approval_row \<Rightarrow> bool) \<Rightarrow> (approval_row \<Rightarrow> approval_row) \<Rightarrow> ledger \<Rightarrow> ledger" where
  "upd_approvals P f l = l\<lparr>l_approvals := sql_update P f (l_approvals l)\<rparr>"

section \<open>Events\<close>

text \<open>\<open>_event_hash\<close>: the digest of the event with the hash of its predecessor.\<close>

definition event_document :: "string \<Rightarrow> string \<Rightarrow> pyval \<Rightarrow> string option \<Rightarrow> string \<Rightarrow> pyval" where
  "event_document run_id event_type payload previous_hash created_at =
     PDict [
       (''run_id'', PStr run_id),
       (''event_type'', PStr event_type),
       (''payload'', payload),
       (''previous_hash'', opt_str previous_hash),
       (''created_at'', PStr created_at)]"

definition event_hash :: "string \<Rightarrow> string \<Rightarrow> pyval \<Rightarrow> string option \<Rightarrow> string \<Rightarrow> string res" where
  "event_hash run_id event_type payload previous_hash created_at =
     digest (event_document run_id event_type payload previous_hash created_at)"

text \<open>\<open>str(row["event_hash"])\<close>, which is the text \<open>None\<close> for a NULL.\<close>

definition str_opt :: "string option \<Rightarrow> string" where
  "str_opt h = (case h of None \<Rightarrow> ''None'' | Some s \<Rightarrow> s)"

definition last_hash :: "ledger \<Rightarrow> string \<Rightarrow> string option" where
  "last_hash l rid = (if run_events l rid = [] then None
     else Some (str_opt (e_hash (last (run_events l rid)))))"

definition new_event ::
  "nat \<Rightarrow> string \<Rightarrow> string \<Rightarrow> string \<Rightarrow> pyval \<Rightarrow> string option \<Rightarrow> string \<Rightarrow> string \<Rightarrow> event_row" where
  "new_event seq event_id rid event_type stored previous_hash h timestamp =
     \<lparr>e_seq = seq, e_id = event_id, e_run = rid, e_type = event_type, e_payload = stored,
      e_prev = previous_hash, e_hash = Some h, e_created = timestamp\<rparr>"

definition anchor_run_row :: "string \<Rightarrow> run_row \<Rightarrow> run_row" where
  "anchor_run_row h r = r\<lparr>r_event_count := Suc (r_event_count r), r_event_head_hash := Some h\<rparr>"

definition append_event ::
  "string \<Rightarrow> string \<Rightarrow> pyval \<Rightarrow> string \<Rightarrow> string \<Rightarrow> ledger \<Rightarrow> ledger res" where
  "append_event rid event_type payload timestamp event_id l =
     res_bind (py_json payload) (\<lambda>_.
     let previous_hash = last_hash l rid; stored = json_norm True payload in
     res_bind (event_hash rid event_type stored previous_hash timestamp) (\<lambda>h.
     if fetch_run l rid = None then raise_exc IntegrityError ''FOREIGN KEY constraint failed''
     else if event_id \<in> set (map e_id (l_events l))
     then raise_exc IntegrityError ''UNIQUE constraint failed: action_events.event_id''
     else
       let l1 = l\<lparr>l_events := l_events l @
                     [new_event (l_next_seq l) event_id rid event_type stored previous_hash h timestamp],
                   l_next_seq := Suc (l_next_seq l)\<rparr>;
           l2 = upd_runs (\<lambda>r. r_run_id r = rid) (anchor_run_row h) l1 in
       if sql_count (\<lambda>r. r_run_id r = rid) (l_runs l1) \<noteq> 1
       then raise_exc KeyError ''run not found while anchoring event chain''
       else Inr l2))"

text \<open>A loop of appends, whose j-th event reads the clock at \<open>i + j\<close> and draws id \<open>k + j\<close>.\<close>

fun append_events ::
  "env \<Rightarrow> nat \<Rightarrow> nat \<Rightarrow> string \<Rightarrow> (string \<times> pyval) list \<Rightarrow> ledger \<Rightarrow> ledger res" where
  "append_events env i k rid [] l = Inr l"
| "append_events env i k rid ((event_type, payload) # evs) l =
     res_bind (append_event rid event_type payload (isoformat (now_at env i)) (uuid_at env k) l)
       (append_events env (Suc i) (Suc k) rid evs)"

end
