(* ===== verification/Ledger_Ops.thy ===== *)
theory Ledger_Ops
  imports Ledger
begin

text \<open>
  The operations of \<open>SQLiteActionLedger\<close> that change the tables, one definition per method,
  with its guards in the order the code checks them.
\<close>

section \<open>Creating a run\<close>

definition create_or_get_run ::
  "env \<Rightarrow> string \<Rightarrow> string \<Rightarrow> string \<Rightarrow> string list \<Rightarrow> string list \<Rightarrow> string \<Rightarrow> string \<Rightarrow> string
    \<Rightarrow> string \<Rightarrow> (string \<times> pyval) list \<Rightarrow> pyval \<Rightarrow> ledger \<Rightarrow> ((run_row \<times> bool) \<times> ledger) res" where
  "create_or_get_run env run_id tenant_id actor_id roles evidence action_name risk
       idempotency_key fingerprint arguments metadata l =
     (let timestamp = now_at env 0 in
      res_bind (py_json (PDict arguments)) (\<lambda>_. res_bind (py_json (or_empty metadata)) (\<lambda>_.
      let new = \<lparr>r_run_id = run_id, r_tenant_id = tenant_id, r_actor_id = actor_id,
            r_action_name = action_name, r_risk = risk, r_idempotency_key = idempotency_key,
            r_fingerprint = fingerprint, r_status = CREATED,
            r_arguments = json_norm True (PDict arguments), r_roles = roles, r_evidence = evidence,
            r_metadata = json_norm True (or_empty metadata),
            r_policy_version = None, r_policy_digest = None, r_reason = None, r_result = None,
            r_execution_owner = None, r_lease_expires_at = None, r_attempt = 0,
            r_duplicate_count = 0, r_event_count = 0, r_event_head_hash = None,
            r_created_at = timestamp, r_updated_at = timestamp\<rparr>;
          ignored = list_ex (\<lambda>r. r_run_id r = run_id \<or>
            (r_tenant_id r = tenant_id \<and> r_action_name r = action_name
              \<and> r_idempotency_key r = idempotency_key)) (l_runs l);
          l1 = (if ignored then l else l\<lparr>l_runs := l_runs l @ [new]\<rparr>) in
      case find (\<lambda>r. r_tenant_id r = tenant_id \<and> r_action_name r = action_name
                   \<and> r_idempotency_key r = idempotency_key) (l_runs l1) of
        None \<Rightarrow> raise_exc RuntimeError ''action run could not be created or loaded''
      | Some row \<Rightarrow>
          if r_fingerprint row \<noteq> fingerprint
          then raise_exc IdempotencyConflict
            ''idempotency key was already used for a different governed request''
          else if ignored then Inr ((row, False), l1)
          else
            res_bind (append_event run_id ''run.created''
              (PDict [(''action_name'', PStr action_name), (''risk'', PStr risk),
                      (''request_fingerprint'', PStr fingerprint)])
              (isoformat timestamp) (uuid_at env 0) l1)
            (\<lambda>l2. Inr ((row, True), l2)))))"

definition record_duplicate :: "string \<Rightarrow> ledger \<Rightarrow> (unit \<times> ledger) res" where
  "record_duplicate run_id l =
     (if sql_count (\<lambda>r. r_run_id r = run_id) (l_runs l) \<noteq> 1
      then raise_exc KeyError ''run not found''
      else Inr ((), upd_runs (\<lambda>r. r_run_id r = run_id)
                     (\<lambda>r. r\<lparr>r_duplicate_count := Suc (r_duplicate_count r)\<rparr>) l))"

section \<open>Policy decisions\<close>

text \<open>\<open>decision.policy_digest or _digest({"policy_version": ...})\<close>.\<close>

definition decision_digest :: "PolicyDecision \<Rightarrow> string res" where
  "decision_digest d = (case pd_policy_digest d of
       None \<Rightarrow> digest (PDict [(''policy_version'', PStr (pd_policy_version d))])
     | Some s \<Rightarrow> if s = [] then digest (PDict [(''policy_version'', PStr (pd_policy_version d))])
                else Inr s)"

fun outcome_status :: "PolicyOutcome \<Rightarrow> ActionStatus" where
  "outcome_status DENY = DENIED"
| "outcome_status APPROVAL_REQUIRED = PENDING_APPROVAL"
| "outcome_status ALLOW = CREATED"

definition policy_checked_payload :: "PolicyDecision \<Rightarrow> string \<Rightarrow> pyval" where
  "policy_checked_payload d dig = PDict [
     (''outcome'', PStr (outcome_value (pd_outcome d))),
     (''policy_version'', PStr (pd_policy_version d)),
     (''policy_digest'', PStr dig),
     (''reason'', PStr (pd_reason d)),
     (''facts'', pd_facts d)]"

definition approval_requested_payload ::
  "PolicyDecision \<Rightarrow> string \<Rightarrow> string \<Rightarrow> datetime \<Rightarrow> pyval" where
  "approval_requested_payload d dig fingerprint expires_at = PDict [
     (''reason'', PStr (pd_reason d)),
     (''policy_version'', PStr (pd_policy_version d)),
     (''policy_digest'', PStr dig),
     (''request_fingerprint'', PStr fingerprint),
     (''expires_at'', PStr (isoformat expires_at))]"

text \<open>The \<open>INSERT INTO approvals\<close> of a pending request.\<close>

definition insert_approval :: "approval_row \<Rightarrow> ledger \<Rightarrow> ledger res" where
  "insert_approval a l =
     (if a_run_id a \<in> set (map a_run_id (l_approvals l))
      then raise_exc IntegrityError ''UNIQUE constraint failed: approvals.run_id''
      else if fetch_run l (a_run_id a) = None
      then raise_exc IntegrityError ''FOREIGN KEY constraint failed''
      else Inr (l\<lparr>l_approvals := l_approvals l @ [a]\<rparr>))"

definition pending_approval_row ::
  "run_row \<Rightarrow> PolicyDecision \<Rightarrow> string \<Rightarrow> datetime \<Rightarrow> datetime \<Rightarrow> approval_row" where
  "pending_approval_row run d dig now expires_at =
     \<lparr>a_run_id = r_run_id run, a_status = PENDING_APPROVAL, a_fingerprint = r_fingerprint run,
      a_policy_version = pd_policy_version d, a_policy_digest = Some dig,
      a_requested_actor = r_actor_id run, a_approver_id = None, a_approver_auth_source = None,
      a_note = None, a_requested_at = now, a_expires_at = expires_at, a_decided_at = None\<rparr>"

definition record_policy_decision ::
  "env \<Rightarrow> string \<Rightarrow> PolicyDecision \<Rightarrow> int \<Rightarrow> ledger \<Rightarrow> (unit \<times> ledger) res" where
  "record_policy_decision env run_id d ttl l =
     (if \<not> (1 \<le> ttl \<and> ttl \<le> 604800)
      then raise_exc ValueError ''approval_ttl_seconds must be between 1 and 604800''
      else res_bind (decision_digest d) (\<lambda>dig.
      let now = now_at env 0 in
      case fetch_run l run_id of
        None \<Rightarrow> raise_exc KeyError ''run not found''
      | Some run \<Rightarrow>
          if r_status run \<noteq> CREATED
          then raise_exc InvalidTransition ''policy can only decide a newly created run''
          else
            let next_status = outcome_status (pd_outcome d);
                l1 = upd_runs (\<lambda>r. r_run_id r = run_id \<and> r_status r = CREATED)
                  (\<lambda>r. r\<lparr>r_status := next_status, r_policy_version := Some (pd_policy_version d),
                       r_policy_digest := Some dig, r_reason := Some (pd_reason d),
                       r_updated_at := now\<rparr>) l in
            res_bind (append_event run_id ''policy.checked'' (policy_checked_payload d dig)
              (isoformat (now_at env 1)) (uuid_at env 0) l1) (\<lambda>l2.
            if next_status = DENIED then
              res_bind (append_event run_id ''run.denied'' (PDict [(''reason'', PStr (pd_reason d))])
                (isoformat (now_at env 2)) (uuid_at env 1) l2) (\<lambda>l3. Inr ((), l3))
            else if next_status = PENDING_APPROVAL then
              res_bind (add_seconds now (nat ttl)) (\<lambda>expires_at.
              res_bind (insert_approval (pending_approval_row run d dig now expires_at) l2) (\<lambda>l3.
              res_bind (append_event run_id ''approval.requested''
                (approval_requested_payload d dig (r_fingerprint run) expires_at)
                (isoformat (now_at env 2)) (uuid_at env 1) l3) (\<lambda>l4. Inr ((), l4))))
            else Inr ((), l2))))"

section \<open>Approvals\<close>

text \<open>The rows \<open>decide_approval\<close> and the expiry write.\<close>

definition expire_approval_row :: "datetime \<Rightarrow> approval_row \<Rightarrow> approval_row" where
  "expire_approval_row now a = a\<lparr>a_status := APPROVAL_EXPIRED, a_decided_at := Some now\<rparr>"

definition expire_run_row :: "datetime \<Rightarrow> run_row \<Rightarrow> run_row" where
  "expire_run_row now r = r\<lparr>r_status := APPROVAL_EXPIRED, r_updated_at := now\<rparr>"

definition decide_approval_row ::
  "datetime \<Rightarrow> ActionStatus \<Rightarrow> VerifiedPrincipal \<Rightarrow> string \<Rightarrow> approval_row \<Rightarrow> approval_row" where
  "decide_approval_row now next_status approver note a =
     a\<lparr>a_status := next_status, a_approver_id := Some (vp_actor_id approver),
       a_approver_auth_source := Some (vp_auth_source approver), a_note := Some note,
       a_decided_at := Some now\<rparr>"

definition decide_run_row :: "datetime \<Rightarrow> ActionStatus \<Rightarrow> string \<Rightarrow> run_row \<Rightarrow> run_row" where
  "decide_run_row now next_status note r =
     r\<lparr>r_status := next_status, r_reason := Some note, r_updated_at := now\<rparr>"

definition approval_expired_payload :: "datetime \<Rightarrow> pyval" where
  "approval_expired_payload t = PDict [(''expires_at'', PStr (isoformat t))]"

definition approval_decided_payload :: "VerifiedPrincipal \<Rightarrow> string \<Rightarrow> run_row \<Rightarrow> pyval" where
  "approval_decided_payload approver note run = PDict [
     (''approver_id'', PStr (vp_actor_id approver)),
     (''auth_source'', PStr (vp_auth_source approver)),
     (''note'', PStr note),
     (''request_fingerprint'', PStr (r_fingerprint run)),
     (''policy_version'', opt_str (r_policy_version run)),
     (''policy_digest'', opt_str (r_policy_digest run))]"

text \<open>Whether the stored approval still describes the run it was requested for.\<close>

definition binding_matches :: "run_row \<Rightarrow> approval_row \<Rightarrow> bool" where
  "binding_matches run a \<longleftrightarrow> r_fingerprint run = a_fingerprint a
     \<and> r_policy_version run = Some (a_policy_version a) \<and> r_policy_digest run = a_policy_digest a"

definition decide_approval ::
  "env \<Rightarrow> string \<Rightarrow> bool \<Rightarrow> VerifiedPrincipal \<Rightarrow> string \<Rightarrow> string list \<Rightarrow> bool \<Rightarrow> ledger
    \<Rightarrow> (bool \<times> ledger) res" where
  "decide_approval env run_id approved approver note required_roles allow_self_approval l =
     (let next_status = (if approved then APPROVED else REJECTED); now = now_at env 0 in
      case (fetch_run l run_id, fetch_approval l run_id) of
        (Some run, Some a) \<Rightarrow>
          if vp_tenant_id approver \<noteq> r_tenant_id run
          then raise_exc ApprovalDenied ''approver belongs to a different tenant''
          else if \<not> list_ex (\<lambda>role. role \<in> set (vp_roles approver)) required_roles
          then raise_exc ApprovalDenied ''approver lacks a required approval role''
          else if \<not> allow_self_approval \<and> vp_actor_id approver = a_requested_actor a
          then raise_exc ApprovalDenied ''self-approval is not permitted''
          else if a_status a \<noteq> PENDING_APPROVAL then Inr (False, l)
          else if r_status run \<noteq> PENDING_APPROVAL
          then raise_exc InvalidTransition ''run and approval states are inconsistent''
          else if a_expires_at a \<le> now then
            res_bind (append_event run_id ''approval.expired'' (approval_expired_payload (a_expires_at a))
              (isoformat (now_at env 1)) (uuid_at env 0)
              (upd_runs (\<lambda>r. r_run_id r = run_id) (expire_run_row now)
                (upd_approvals (\<lambda>a. a_run_id a = run_id) (expire_approval_row now) l)))
              (\<lambda>l'. Inr (False, l'))
          else if \<not> binding_matches run a
          then raise_exc ApprovalDenied ''approval binding no longer matches the governed run''
          else if sql_count (\<lambda>a. a_run_id a = run_id \<and> a_status a = PENDING_APPROVAL) (l_approvals l) \<noteq> 1
          then Inr (False, upd_approvals (\<lambda>a. a_run_id a = run_id \<and> a_status a = PENDING_APPROVAL)
                             (decide_approval_row now next_status approver note) l)
          else
            res_bind (append_event run_id
              (if approved then ''approval.approved'' else ''approval.rejected'')
              (approval_decided_payload approver note run)
              (isoformat (now_at env 1)) (uuid_at env 0)
              (upd_runs (\<lambda>r. r_run_id r = run_id \<and> r_status r = PENDING_APPROVAL)
                (decide_run_row now next_status note)
                (upd_approvals (\<lambda>a. a_run_id a = run_id \<and> a_status a = PENDING_APPROVAL)
                  (decide_approval_row now next_status approver note) l)))
              (\<lambda>l'. Inr (True, l'))
      | _ \<Rightarrow> raise_exc KeyError ''run or approval not found'')"

text \<open>One iteration of the loop of \<open>expire_approvals\<close> over the selected rows.\<close>

definition expire_one ::
  "datetime \<Rightarrow> string \<Rightarrow> string \<Rightarrow> string \<Rightarrow> datetime \<Rightarrow> ledger \<Rightarrow> (bool \<times> ledger) res" where
  "expire_one now timestamp event_id run_id expires_at l =
     (let n_approval = sql_count (\<lambda>a. a_run_id a = run_id \<and> a_status a = PENDING_APPROVAL) (l_approvals l);
          n_run = sql_count (\<lambda>r. r_run_id r = run_id \<and> r_status r = PENDING_APPROVAL) (l_runs l);
          l1 = upd_runs (\<lambda>r. r_run_id r = run_id \<and> r_status r = PENDING_APPROVAL) (expire_run_row now)
                 (upd_approvals (\<lambda>a. a_run_id a = run_id \<and> a_status a = PENDING_APPROVAL)
                   (expire_approval_row now) l) in
      if n_approval = 1 \<and> n_run = 1 then
        res_bind (append_event run_id ''approval.expired'' (approval_expired_payload expires_at)
          timestamp event_id l1) (\<lambda>l2. Inr (True, l2))
      else if n_approval \<noteq> n_run
      then raise_exc InvalidTransition ''run and approval expiration states are inconsistent''
      else Inr (False, l1))"

fun expire_loop ::
  "env \<Rightarrow> datetime \<Rightarrow> nat \<Rightarrow> (string \<times> datetime) list \<Rightarrow> ledger \<Rightarrow> (string list \<times> ledger) res" where
  "expire_loop env now k [] l = Inr ([], l)"
| "expire_loop env now k ((run_id, expires_at) # rows) l =
     res_bind (expire_one now (isoformat (now_at env (Suc k))) (uuid_at env k) run_id expires_at l)
       (\<lambda>(hit, l1). res_bind (expire_loop env now (if hit then Suc k else k) rows l1)
         (\<lambda>(expired, l2). Inr ((if hit then run_id # expired else expired), l2)))"

text \<open>The rows the query of \<open>expire_approvals\<close> selects: the pending requests of pending runs
  whose deadline has passed, of one tenant when a tenant is given.\<close>

definition overdue_approvals :: "datetime \<Rightarrow> string option \<Rightarrow> ledger \<Rightarrow> (string \<times> datetime) list" where
  "overdue_approvals now tenant l =
     map (\<lambda>a. (a_run_id a, a_expires_at a)) (filter (\<lambda>a.
       a_status a = PENDING_APPROVAL \<and> isoformat (a_expires_at a) \<le> isoformat now \<and>
       (case fetch_run l (a_run_id a) of None \<Rightarrow> False
        | Some r \<Rightarrow> r_status r = PENDING_APPROVAL \<and> (case tenant of None \<Rightarrow> True | Some t \<Rightarrow> r_tenant_id r = t)))
       (l_approvals l))"

definition expire_approvals :: "env \<Rightarrow> string option \<Rightarrow> ledger \<Rightarrow> (string list \<times> ledger) res" where
  "expire_approvals env tenant l =
     (let now = now_at env 0 in expire_loop env now 0 (overdue_approvals now tenant l) l)"

section \<open>Executions\<close>

definition lease_expired_reason :: string where
  "lease_expired_reason = ''execution lease expired; provider outcome requires reconciliation''"

definition unknown_run_row :: "datetime \<Rightarrow> run_row \<Rightarrow> run_row" where
  "unknown_run_row now r = r\<lparr>r_status := UNKNOWN, r_reason := Some lease_expired_reason,
     r_execution_owner := None, r_lease_expires_at := None, r_updated_at := now\<rparr>"

text \<open>\<open>_mark_expired_execution_tx\<close>.\<close>

definition mark_expired_execution ::
  "string \<Rightarrow> string \<Rightarrow> string \<Rightarrow> datetime \<Rightarrow> ledger \<Rightarrow> (bool \<times> ledger) res" where
  "mark_expired_execution timestamp event_id run_id now l =
     (let l1 = upd_runs (\<lambda>r. r_run_id r = run_id \<and> r_status r = EXECUTING) (unknown_run_row now) l in
      if sql_count (\<lambda>r. r_run_id r = run_id \<and> r_status r = EXECUTING) (l_runs l) \<noteq> 1
      then Inr (False, l1)
      else res_bind (append_event run_id ''tool.execution.lease_expired''
             (PDict [(''reason'', PStr lease_expired_reason)]) timestamp event_id l1)
             (\<lambda>l2. Inr (True, l2)))"

definition started_payload :: "string \<Rightarrow> nat \<Rightarrow> datetime \<Rightarrow> pyval" where
  "started_payload owner attempt lease_expires_at = PDict [
     (''owner'', PStr owner),
     (''attempt'', PInt (int attempt)),
     (''lease_expires_at'', PStr (isoformat lease_expires_at))]"

definition claim_run_row :: "datetime \<Rightarrow> string \<Rightarrow> datetime \<Rightarrow> run_row \<Rightarrow> run_row" where
  "claim_run_row now owner lease r = r\<lparr>r_status := EXECUTING, r_execution_owner := Some owner,
     r_lease_expires_at := Some lease, r_attempt := Suc (r_attempt r), r_updated_at := now\<rparr>"

definition claimable :: "run_row \<Rightarrow> bool" where
  "claimable r \<longleftrightarrow> (r_status r = CREATED \<or> r_status r = APPROVED) \<and> r_policy_version r \<noteq> None"

definition lease_over :: "datetime \<Rightarrow> run_row \<Rightarrow> bool" where
  "lease_over now r \<longleftrightarrow> r_status r = EXECUTING
     \<and> (case r_lease_expires_at r of None \<Rightarrow> False | Some t \<Rightarrow> t \<le> now)"

definition claim_execution ::
  "env \<Rightarrow> string \<Rightarrow> string \<Rightarrow> int \<Rightarrow> ledger \<Rightarrow> (bool \<times> ledger) res" where
  "claim_execution env run_id owner lease_seconds l =
     (if strip owner = [] then raise_exc ValueError ''execution owner cannot be empty''
      else if \<not> (1 \<le> lease_seconds \<and> lease_seconds \<le> 86400)
      then raise_exc ValueError ''lease_seconds must be between 1 and 86400''
      else
        let now = now_at env 0 in
        res_bind (add_seconds now (nat lease_seconds)) (\<lambda>lease_expires_at.
        case fetch_run l run_id of
          None \<Rightarrow> raise_exc KeyError ''run not found''
        | Some row \<Rightarrow>
            if lease_over now row then
              res_bind (mark_expired_execution (isoformat (now_at env 1)) (uuid_at env 0) run_id now l)
                (\<lambda>(_, l'). Inr (False, l'))
            else
              let l1 = upd_runs (\<lambda>r. r_run_id r = run_id \<and> claimable r)
                         (claim_run_row now owner lease_expires_at) l in
              if sql_count (\<lambda>r. r_run_id r = run_id \<and> claimable r) (l_runs l) \<noteq> 1 then Inr (False, l1)
              else case fetch_run l1 run_id of
                None \<Rightarrow> raise_exc TypeError (quoted ''NoneType'' @ '' object is not subscriptable'')
              | Some row' \<Rightarrow>
                  res_bind (append_events env 1 0 run_id
                    ((if r_status row = APPROVED then [(''run.resumed'', PDict [])] else [])
                      @ [(''tool.execution.started'',
                          started_payload owner (r_attempt row') lease_expires_at)]) l1)
                    (\<lambda>l2. Inr (True, l2))))"

definition heartbeat_execution ::
  "env \<Rightarrow> string \<Rightarrow> string \<Rightarrow> int \<Rightarrow> ledger \<Rightarrow> (bool \<times> ledger) res" where
  "heartbeat_execution env run_id owner lease_seconds l =
     (if strip owner = [] then raise_exc ValueError ''execution owner cannot be empty''
      else if \<not> (1 \<le> lease_seconds \<and> lease_seconds \<le> 86400)
      then raise_exc ValueError ''lease_seconds must be between 1 and 86400''
      else
        let now = now_at env 0;
            held = (\<lambda>r. r_run_id r = run_id \<and> r_status r = EXECUTING \<and> r_execution_owner r = Some owner
              \<and> (case r_lease_expires_at r of None \<Rightarrow> False | Some t \<Rightarrow> isoformat now < isoformat t)) in
        res_bind (add_seconds now (nat lease_seconds)) (\<lambda>expires_at.
        Inr (sql_count held (l_runs l) = 1,
             upd_runs held (\<lambda>r. r\<lparr>r_lease_expires_at := Some expires_at, r_updated_at := now\<rparr>) l)))"

definition finish_run_row ::
  "datetime \<Rightarrow> ActionStatus \<Rightarrow> string option \<Rightarrow> pyval \<Rightarrow> run_row \<Rightarrow> run_row" where
  "finish_run_row now status reason result r = r\<lparr>r_status := status, r_reason := reason,
     r_result := (if result = PNone then None else Some (json_norm True result)),
     r_execution_owner := None, r_lease_expires_at := None, r_updated_at := now\<rparr>"

text \<open>\<open>None if value is None else _json(value)\<close>, as the error it may raise.\<close>

definition result_json :: "pyval \<Rightarrow> unit res" where
  "result_json result = (if result = PNone then Inr () else res_bind (py_json result) (\<lambda>_. Inr ()))"

definition finish_execution ::
  "env \<Rightarrow> string \<Rightarrow> string \<Rightarrow> ActionStatus \<Rightarrow> string option \<Rightarrow> pyval \<Rightarrow> (string \<times> pyval) list
    \<Rightarrow> ledger \<Rightarrow> (unit \<times> ledger) res" where
  "finish_execution env run_id owner status reason result events l =
     res_bind (result_json result) (\<lambda>_.
     let held = (\<lambda>r. r_run_id r = run_id \<and> r_status r = EXECUTING \<and> r_execution_owner r = Some owner) in
     if sql_count held (l_runs l) \<noteq> 1
     then raise_exc InvalidTransition ''execution lease is no longer owned by this worker''
     else res_bind (append_events env 1 0 run_id events
            (upd_runs held (finish_run_row (now_at env 0) status reason result) l))
            (\<lambda>l'. Inr ((), l')))"

definition complete_execution ::
  "env \<Rightarrow> string \<Rightarrow> string \<Rightarrow> pyval \<Rightarrow> ledger \<Rightarrow> (unit \<times> ledger) res" where
  "complete_execution env run_id owner result =
     finish_execution env run_id owner COMPLETED None result
       [(''tool.execution.succeeded'', PDict []), (''run.completed'', PDict [])]"

definition fail_execution ::
  "env \<Rightarrow> string \<Rightarrow> string \<Rightarrow> string \<Rightarrow> ledger \<Rightarrow> (unit \<times> ledger) res" where
  "fail_execution env run_id owner error_type =
     finish_execution env run_id owner FAILED (Some (''tool execution failed: '' @ error_type)) PNone
       [(''tool.execution.failed'', PDict [(''error_type'', PStr error_type)])]"

definition mark_execution_unknown ::
  "env \<Rightarrow> string \<Rightarrow> string \<Rightarrow> string \<Rightarrow> ledger \<Rightarrow> (unit \<times> ledger) res" where
  "mark_execution_unknown env run_id owner error_type =
     (let reason = ''tool execution outcome uncertain: '' @ error_type in
      finish_execution env run_id owner UNKNOWN (Some reason) PNone
       [(''tool.execution.uncertain'',
         PDict [(''error_type'', PStr error_type), (''reason'', PStr reason)])])"

section \<open>Reconciliation\<close>

definition reconcile_run_row ::
  "datetime \<Rightarrow> ActionStatus \<Rightarrow> string \<Rightarrow> pyval \<Rightarrow> run_row \<Rightarrow> run_row" where
  "reconcile_run_row now status reason result r = r\<lparr>r_status := status, r_reason := Some reason,
     r_result := (if result = PNone then None else Some (json_norm True result)),
     r_updated_at := now\<rparr>"

definition reconciled_payload :: "VerifiedPrincipal \<Rightarrow> ActionStatus \<Rightarrow> string \<Rightarrow> pyval" where
  "reconciled_payload operator status note = PDict [
     (''operator_id'', PStr (vp_actor_id operator)),
     (''auth_source'', PStr (vp_auth_source operator)),
     (''outcome'', PStr (status_value status)),
     (''note'', PStr note)]"

definition reconcile_run ::
  "env \<Rightarrow> string \<Rightarrow> ActionStatus \<Rightarrow> string \<Rightarrow> pyval \<Rightarrow> VerifiedPrincipal \<Rightarrow> ledger
    \<Rightarrow> (bool \<times> ledger) res" where
  "reconcile_run env run_id status reason result operator l =
     (if status \<noteq> COMPLETED \<and> status \<noteq> FAILED
      then raise_exc ValueError ''reconciliation status must be completed or failed''
      else res_bind (result_json result) (\<lambda>_.
      case fetch_run l run_id of
        None \<Rightarrow> raise_exc KeyError ''run not found''
      | Some run \<Rightarrow>
          if vp_tenant_id operator \<noteq> r_tenant_id run
          then raise_exc ApprovalDenied ''reconciliation operator belongs to a different tenant''
          else
            let l1 = upd_runs (\<lambda>r. r_run_id r = run_id \<and> r_status r = UNKNOWN)
                       (reconcile_run_row (now_at env 0) status reason result) l in
            if sql_count (\<lambda>r. r_run_id r = run_id \<and> r_status r = UNKNOWN) (l_runs l) \<noteq> 1
            then Inr (False, l1)
            else res_bind (append_event run_id ''run.reconciled'' (reconciled_payload operator status reason)
                   (isoformat (now_at env 1)) (uuid_at env 0) l1) (\<lambda>l2. Inr (True, l2))))"

text \<open>The status a provider outcome must come with; \<open>None\<close> for an unknown outcome.\<close>

definition expected_status :: "string \<Rightarrow> ActionStatus option option" where
  "expected_status outcome =
     (if outcome = ''committed'' then Some (Some COMPLETED)
      else if outcome = ''not_committed'' then Some (Some FAILED)
      else if outcome = ''pending'' then Some None
      else None)"

definition observed_payload ::
  "VerifiedPrincipal \<Rightarrow> string \<Rightarrow> string \<Rightarrow> string \<Rightarrow> string option \<Rightarrow> pyval" where
  "observed_payload operator provider outcome summary reference = PDict ([
     (''operator_id'', PStr (vp_actor_id operator)),
     (''auth_source'', PStr (vp_auth_source operator)),
     (''provider'', PStr provider),
     (''outcome'', PStr outcome),
     (''summary'', PStr summary)]
     @ (case reference of None \<Rightarrow> [] | Some r \<Rightarrow> [(''reference'', PStr r)]))"

definition apply_provider_observation ::
  "env \<Rightarrow> string \<Rightarrow> string \<Rightarrow> string \<Rightarrow> string \<Rightarrow> string option \<Rightarrow> ActionStatus option \<Rightarrow> pyval
    \<Rightarrow> VerifiedPrincipal \<Rightarrow> ledger \<Rightarrow> (bool \<times> ledger) res" where
  "apply_provider_observation env run_id provider outcome summary reference status result operator l =
     (if expected_status outcome \<noteq> Some status
      then raise_exc ValueError ''provider outcome and reconciliation status do not match''
      else if status = None \<and> result \<noteq> PNone
      then raise_exc ValueError ''pending provider observations cannot store a result''
      else res_bind (result_json result) (\<lambda>_.
      case fetch_run l run_id of
        None \<Rightarrow> raise_exc KeyError ''run not found''
      | Some run \<Rightarrow>
          if vp_tenant_id operator \<noteq> r_tenant_id run
          then raise_exc ApprovalDenied ''reconciliation operator belongs to a different tenant''
          else if r_status run \<noteq> UNKNOWN then Inr (False, l)
          else
            res_bind (append_event run_id ''provider.reconciliation.observed''
              (observed_payload operator provider outcome summary reference)
              (isoformat (now_at env 0)) (uuid_at env 0) l) (\<lambda>l1.
            case status of
              None \<Rightarrow> Inr (True, l1)
            | Some st \<Rightarrow>
                let reason = provider @ '' lookup: '' @ summary;
                    l2 = upd_runs (\<lambda>r. r_run_id r = run_id \<and> r_status r = UNKNOWN)
                           (reconcile_run_row (now_at env 1) st reason result) l1 in
                if sql_count (\<lambda>r. r_run_id r = run_id \<and> r_status r = UNKNOWN) (l_runs l1) \<noteq> 1
                then raise_exc InvalidTransition
                  ''provider observation and reconciliation became inconsistent''
                else res_bind (append_event run_id ''run.reconciled'' (reconciled_payload operator st reason)
                       (isoformat (now_at env 2)) (uuid_at env 1) l2) (\<lambda>l3. Inr (True, l3)))))"

section \<open>Recovery\<close>

fun recover_loop ::
  "env \<Rightarrow> datetime \<Rightarrow> nat \<Rightarrow> string list \<Rightarrow> ledger \<Rightarrow> (string list \<times> ledger) res" where
  "recover_loop env now k [] l = Inr ([], l)"
| "recover_loop env now k (run_id # run_ids) l =
     res_bind (mark_expired_execution (isoformat (now_at env (Suc k))) (uuid_at env k) run_id now l)
       (\<lambda>(hit, l1). res_bind (recover_loop env now (if hit then Suc k else k) run_ids l1)
         (\<lambda>(recovered, l2). Inr ((if hit then run_id # recovered else recovered), l2)))"

text \<open>The rows the query of \<open>recover_expired_executions\<close> selects.\<close>

definition overdue_executions :: "datetime \<Rightarrow> string option \<Rightarrow> ledger \<Rightarrow> string list" where
  "overdue_executions now tenant l =
     map r_run_id (filter (\<lambda>r. r_status r = EXECUTING
       \<and> (case r_lease_expires_at r of None \<Rightarrow> False | Some t \<Rightarrow> isoformat t \<le> isoformat now)
       \<and> (case tenant of None \<Rightarrow> True | Some t \<Rightarrow> r_tenant_id r = t)) (l_runs l))"

definition recover_expired_executions ::
  "env \<Rightarrow> string option \<Rightarrow> ledger \<Rightarrow> (string list \<times> ledger) res" where
  "recover_expired_executions env tenant l =
     (let now = now_at env 0 in recover_loop env now 0 (overdue_executions now tenant l) l)"

end
