(* ===== verification/Ledger_View.thy ===== *)
theory Ledger_View
  imports Ledger_Ops
begin

text \<open>
  What an operation does, seen from one run. The view of a run is its row, its events in
  order and its approval. The structural invariant (keys, sequence numbers, references) is
  proved once for each way the operations touch the tables: inserting a run or an approval,
  updating rows of one run, appending an event. Each of them changes the view of one run.
\<close>

section \<open>Views and the structural invariant\<close>

type_synonym run_view = "run_row option \<times> event_row list \<times> approval_row option"

definition view :: "ledger \<Rightarrow> string \<Rightarrow> run_view" where
  "view l rid = (fetch_run l rid, run_events l rid, fetch_approval l rid)"

definition run_key :: "run_row \<Rightarrow> string \<times> string \<times> string" where
  "run_key r = (r_tenant_id r, r_action_name r, r_idempotency_key r)"

definition struct_inv :: "ledger \<Rightarrow> bool" where
  "struct_inv l \<longleftrightarrow> distinct (map r_run_id (l_runs l)) \<and> distinct (map run_key (l_runs l))
     \<and> sorted_wrt (<) (map e_seq (l_events l)) \<and> (\<forall>e \<in> set (l_events l). e_seq e < l_next_seq l)
     \<and> distinct (map e_id (l_events l)) \<and> e_run ` set (l_events l) \<subseteq> r_run_id ` set (l_runs l)
     \<and> distinct (map a_run_id (l_approvals l)) \<and> a_run_id ` set (l_approvals l) \<subseteq> r_run_id ` set (l_runs l)"

text \<open>The new tables differ from the old ones in one run at most.\<close>

definition changes_only :: "string \<Rightarrow> ledger \<Rightarrow> ledger \<Rightarrow> bool" where
  "changes_only rid l l' \<longleftrightarrow> (struct_inv l \<longrightarrow> struct_inv l') \<and> (\<forall>k. k \<noteq> rid \<longrightarrow> view l' k = view l k)"

lemma changes_only_refl [simp]: "changes_only rid l l"
  by (simp add: changes_only_def)

lemma changes_only_trans: "changes_only rid l l' \<Longrightarrow> changes_only rid l' l'' \<Longrightarrow> changes_only rid l l''"
  by (simp add: changes_only_def)

lemma changes_only_struct: "changes_only rid l l' \<Longrightarrow> struct_inv l \<Longrightarrow> struct_inv l'"
  by (simp add: changes_only_def)

lemma changes_only_view: "changes_only rid l l' \<Longrightarrow> k \<noteq> rid \<Longrightarrow> view l' k = view l k"
  by (simp add: changes_only_def)

lemma struct_inv_empty [simp]: "struct_inv empty_ledger"
  by (simp add: struct_inv_def empty_ledger_def)

lemma struct_inv_run_ids: "struct_inv l \<Longrightarrow> distinct (map r_run_id (l_runs l))"
  and struct_inv_approval_ids: "struct_inv l \<Longrightarrow> distinct (map a_run_id (l_approvals l))"
  and struct_inv_keys: "struct_inv l \<Longrightarrow> distinct (map run_key (l_runs l))"
  by (simp_all add: struct_inv_def)

lemma sorted_less_imp_sorted: "sorted_wrt (<) xs \<Longrightarrow> sorted (xs :: nat list)"
  by (simp add: strict_sorted_iff)

lemma run_events_filter: "struct_inv l \<Longrightarrow> run_events l rid = filter (\<lambda>e. e_run e = rid) (l_events l)"
  by (simp add: run_events_def struct_inv_def sorted_less_imp_sorted sorted_map_filter)

lemma fetch_run_id: "fetch_run l rid = Some r \<Longrightarrow> r_run_id r = rid"
  by (auto dest: fetch_by_SomeD)

lemma fetch_approval_id: "fetch_approval l rid = Some a \<Longrightarrow> a_run_id a = rid"
  by (auto dest: fetch_by_SomeD)

lemma fetch_run_mem: "struct_inv l \<Longrightarrow> fetch_run l rid = Some r \<longleftrightarrow> r \<in> set (l_runs l) \<and> r_run_id r = rid"
  by (rule fetch_by_Some_iff) (simp add: struct_inv_def)

lemma fetch_approval_mem:
  "struct_inv l \<Longrightarrow> fetch_approval l rid = Some a \<longleftrightarrow> a \<in> set (l_approvals l) \<and> a_run_id a = rid"
  by (rule fetch_by_Some_iff) (simp add: struct_inv_def)

text \<open>No events and no approval without a run.\<close>

lemma view_no_run:
  assumes "struct_inv l" "fetch_run l rid = None"
  shows "run_events l rid = []" "fetch_approval l rid = None"
proof -
  from assms(2) have "rid \<notin> r_run_id ` set (l_runs l)" by (simp add: fetch_by_None_iff)
  with assms(1) show "run_events l rid = []" "fetch_approval l rid = None"
    by (auto simp: run_events_filter filter_empty_conv fetch_by_None_iff struct_inv_def)
qed

section \<open>Updating rows\<close>

lemma view_upd_runs:
  assumes "\<And>r. r_run_id (f r) = r_run_id r"
  shows "view (upd_runs P f l) k
    = (map_option (\<lambda>r. if P r then f r else r) (fetch_run l k), run_events l k, fetch_approval l k)"
  using fetch_by_sql_update [of r_run_id f k P "l_runs l"] assms
  by (simp add: view_def upd_runs_def run_events_def)

lemma view_upd_approvals:
  assumes "\<And>a. a_run_id (f a) = a_run_id a"
  shows "view (upd_approvals P f l) k
    = (fetch_run l k, run_events l k, map_option (\<lambda>a. if P a then f a else a) (fetch_approval l k))"
  using fetch_by_sql_update [of a_run_id f k P "l_approvals l"] assms
  by (simp add: view_def upd_approvals_def run_events_def)

lemma image_map_eq: "map f xs = map f ys \<Longrightarrow> f ` set xs = f ` set ys"
  by (metis list.set_map)

lemma struct_inv_upd_runs:
  assumes "\<And>r. r_run_id (f r) = r_run_id r" "\<And>r. run_key (f r) = run_key r" "struct_inv l"
  shows "struct_inv (upd_runs P f l)"
proof -
  let ?rs = "sql_update P f (l_runs l)"
  have "map r_run_id ?rs = map r_run_id (l_runs l)" "map run_key ?rs = map run_key (l_runs l)"
    using assms(1,2) by (simp_all add: map_sql_update_inv)
  with assms(3) show ?thesis
    by (simp add: struct_inv_def upd_runs_def image_map_eq [of r_run_id ?rs "l_runs l"])
qed

lemma struct_inv_upd_approvals:
  assumes "\<And>a. a_run_id (f a) = a_run_id a" "struct_inv l"
  shows "struct_inv (upd_approvals P f l)"
proof -
  let ?as = "sql_update P f (l_approvals l)"
  have "map a_run_id ?as = map a_run_id (l_approvals l)"
    using assms(1) by (simp add: map_sql_update_inv)
  with assms(2) show ?thesis
    by (simp add: struct_inv_def upd_approvals_def image_map_eq [of a_run_id ?as "l_approvals l"])
qed

lemma changes_only_upd_runs:
  assumes "\<And>r. r_run_id (f r) = r_run_id r" "\<And>r. run_key (f r) = run_key r" "\<And>r. P r \<Longrightarrow> r_run_id r = rid"
  shows "changes_only rid l (upd_runs P f l)"
proof -
  have "view (upd_runs P f l) k = view l k" if "k \<noteq> rid" for k
  proof (cases "fetch_run l k")
    case (Some r)
    with that assms(3) have "\<not> P r" by (auto dest: fetch_run_id)
    with Some show ?thesis by (simp add: view_upd_runs assms(1)) (simp add: view_def)
  qed (simp add: view_upd_runs assms(1), simp add: view_def)
  then show ?thesis by (simp add: changes_only_def struct_inv_upd_runs assms)
qed

lemma changes_only_upd_approvals:
  assumes "\<And>a. a_run_id (f a) = a_run_id a" "\<And>a. P a \<Longrightarrow> a_run_id a = rid"
  shows "changes_only rid l (upd_approvals P f l)"
proof -
  have "view (upd_approvals P f l) k = view l k" if "k \<noteq> rid" for k
  proof (cases "fetch_approval l k")
    case (Some a)
    with that assms(2) have "\<not> P a" by (auto dest: fetch_approval_id)
    with Some show ?thesis by (simp add: view_upd_approvals assms(1)) (simp add: view_def)
  qed (simp add: view_upd_approvals assms(1), simp add: view_def)
  then show ?thesis by (simp add: changes_only_def struct_inv_upd_approvals assms)
qed

section \<open>Inserting rows\<close>

lemma changes_only_insert_run:
  assumes "r_run_id new = rid" "rid \<notin> r_run_id ` set (l_runs l)" "run_key new \<notin> run_key ` set (l_runs l)"
  shows "changes_only rid l (l\<lparr>l_runs := l_runs l @ [new]\<rparr>)"
  using assms unfolding changes_only_def struct_inv_def view_def run_events_def
  by (auto simp: fetch_by_append fetch_by_Cons split: option.splits)

lemma view_insert_run:
  assumes "struct_inv l" "r_run_id new = rid" "rid \<notin> r_run_id ` set (l_runs l)"
  shows "view (l\<lparr>l_runs := l_runs l @ [new]\<rparr>) rid = (Some new, [], None)"
proof -
  have none: "fetch_run l rid = None" using assms(3) by (simp add: fetch_by_None_iff)
  with view_no_run [OF assms(1) none] assms(2) show ?thesis
    by (simp add: view_def fetch_by_append fetch_by_Cons run_events_def)
qed

lemma insert_approval_InrD:
  assumes "insert_approval a l = Inr l'"
  shows "changes_only (a_run_id a) l l' \<and> fetch_approval l (a_run_id a) = None
    \<and> view l' (a_run_id a) = (fetch_run l (a_run_id a), run_events l (a_run_id a), Some a)"
proof -
  from assms have new: "a_run_id a \<notin> a_run_id ` set (l_approvals l)" "fetch_run l (a_run_id a) \<noteq> None"
    and l': "l' = l\<lparr>l_approvals := l_approvals l @ [a]\<rparr>"
    by (auto simp: insert_approval_def split: if_splits)
  moreover from new(1) have "fetch_approval l (a_run_id a) = None" by (simp add: fetch_by_None_iff)
  moreover from new(2) have "a_run_id a \<in> r_run_id ` set (l_runs l)" by (simp add: fetch_by_None_iff)
  ultimately show ?thesis unfolding l' changes_only_def struct_inv_def view_def run_events_def
    by (auto simp: fetch_by_append fetch_by_Cons split: option.splits)
qed

section \<open>Appending events\<close>

lemma sql_count_fetch_run:
  "struct_inv l \<Longrightarrow> sql_count (\<lambda>r. r_run_id r = rid \<and> Q r) (l_runs l)
    = (case fetch_run l rid of None \<Rightarrow> 0 | Some r \<Rightarrow> if Q r then 1 else 0)"
  by (simp add: sql_count_key struct_inv_run_ids)

lemma sql_count_fetch_approval:
  "struct_inv l \<Longrightarrow> sql_count (\<lambda>a. a_run_id a = rid \<and> Q a) (l_approvals l)
    = (case fetch_approval l rid of None \<Rightarrow> 0 | Some a \<Rightarrow> if Q a then 1 else 0)"
  by (simp add: sql_count_key struct_inv_approval_ids)

lemma sql_count_fetch_run_id:
  "struct_inv l \<Longrightarrow> sql_count (\<lambda>r. r_run_id r = rid) (l_runs l)
    = (case fetch_run l rid of None \<Rightarrow> 0 | Some r \<Rightarrow> 1)"
  using sql_count_fetch_run [of l rid "\<lambda>_. True"] by simp

text \<open>The row an append writes.\<close>

definition appended ::
  "ledger \<Rightarrow> string \<Rightarrow> string \<Rightarrow> pyval \<Rightarrow> string \<Rightarrow> string \<Rightarrow> string \<Rightarrow> event_row" where
  "appended l rid event_type payload timestamp event_id h =
     new_event (l_next_seq l) event_id rid event_type (json_norm True payload) (last_hash l rid) h timestamp"

lemma struct_inv_push_event:
  assumes "struct_inv l" "e_id e \<notin> set (map e_id (l_events l))" "e_seq e = l_next_seq l"
    "e_run e \<in> r_run_id ` set (l_runs l)"
  shows "struct_inv (l\<lparr>l_events := l_events l @ [e], l_next_seq := Suc (l_next_seq l)\<rparr>)"
  using assms unfolding struct_inv_def by (auto simp: sorted_wrt_append less_SucI)

lemma run_events_push_event:
  assumes "struct_inv l" "e_id e \<notin> set (map e_id (l_events l))" "e_seq e = l_next_seq l"
    "e_run e \<in> r_run_id ` set (l_runs l)"
  shows "run_events (l\<lparr>l_events := l_events l @ [e], l_next_seq := Suc (l_next_seq l)\<rparr>) k
    = run_events l k @ (if e_run e = k then [e] else [])"
  using assms(1) struct_inv_push_event [OF assms] by (simp add: run_events_filter)

lemma append_event_InrD:
  assumes "append_event rid event_type payload timestamp event_id l = Inr l'" "struct_inv l"
  shows "\<exists>r h. fetch_run l rid = Some r \<and> json_error True payload = None
    \<and> event_hash rid event_type (json_norm True payload) (last_hash l rid) timestamp = Inr h
    \<and> changes_only rid l l' \<and> l_approvals l' = l_approvals l
    \<and> view l' rid = (Some (anchor_run_row h r),
        run_events l rid @ [appended l rid event_type payload timestamp event_id h], fetch_approval l rid)"
proof -
  from assms(1) obtain h where h: "json_error True payload = None"
      "event_hash rid event_type (json_norm True payload) (last_hash l rid) timestamp = Inr h"
      "fetch_run l rid \<noteq> None" "event_id \<notin> set (map e_id (l_events l))"
    and l': "l' = upd_runs (\<lambda>r. r_run_id r = rid) (anchor_run_row h)
      (l\<lparr>l_events := l_events l @ [appended l rid event_type payload timestamp event_id h],
         l_next_seq := Suc (l_next_seq l)\<rparr>)" (is "_ = upd_runs ?P ?f ?l1")
    unfolding append_event_def appended_def by (auto simp: Let_def split: if_splits)
  let ?e = "appended l rid event_type payload timestamp event_id h"
  from h(3) obtain r where r: "fetch_run l rid = Some r" by auto
  then have e: "e_id ?e \<notin> set (map e_id (l_events l))" "e_seq ?e = l_next_seq l"
      "e_run ?e \<in> r_run_id ` set (l_runs l)" "e_run ?e = rid"
    using h(4) by (auto simp: appended_def new_event_def dest!: fetch_by_SomeD)
  have inv: "r_run_id (?f r) = r_run_id r" "run_key (?f r) = run_key r" for r
    by (simp_all add: anchor_run_row_def run_key_def)
  have "view ?l1 k = view l k" if "k \<noteq> rid" for k
    using that e run_events_push_event [OF assms(2) e(1-3), of k] by (simp add: view_def)
  then have "changes_only rid l ?l1"
    using struct_inv_push_event [OF assms(2) e(1-3)] by (simp add: changes_only_def)
  then have "changes_only rid l l'" unfolding l'
    by (rule changes_only_trans) (auto intro: changes_only_upd_runs simp: inv)
  moreover have "view l' rid = (Some (?f r), run_events l rid @ [?e], fetch_approval l rid)"
    unfolding l' using r e run_events_push_event [OF assms(2) e(1-3), of rid] fetch_run_id [OF r]
    by (simp add: view_upd_runs inv)
  moreover have "l_approvals l' = l_approvals l" by (simp add: l' upd_runs_def)
  ultimately show ?thesis using r h by blast
qed

end
