(* ===== verification/Ledger_Chain.thy ===== *)
theory Ledger_Chain
  imports Ledger_View
begin

text \<open>
  The event chain: verification (\<open>verify_event_chain\<close>), the fact that an append keeps a
  verified chain verified, and what verification is worth. A chain of hashes is an interface
  of its own (\<open>hash_chain\<close>): a link that is injective up to a collision makes the head of a
  chain determine its contents up to a collision. It is interpreted on the ledger's event
  hash, whose injectivity rests on the canonical JSON text being parsed back.
\<close>

section \<open>Verification\<close>

text \<open>The loop of \<open>verify_event_chain\<close>: \<open>Some\<close> of the last hash when every event verifies.\<close>

fun verify_loop :: "string \<Rightarrow> string option \<Rightarrow> event_row list \<Rightarrow> string option option res" where
  "verify_loop rid previous [] = Inr (Some previous)"
| "verify_loop rid previous (e # es) =
     res_bind (py_json (e_payload e)) (\<lambda>_.
     res_bind (event_hash rid (e_type e) (json_norm True (e_payload e)) previous (e_created e)) (\<lambda>expected.
     if e_prev e \<noteq> previous \<or> e_hash e \<noteq> Some expected then Inr None
     else verify_loop rid (Some (str_opt (e_hash e))) es))"

definition verify_event_chain :: "ledger \<Rightarrow> string \<Rightarrow> bool res" where
  "verify_event_chain l rid =
     (case fetch_run l rid of
        None \<Rightarrow> Inr False
      | Some run \<Rightarrow>
          res_bind (verify_loop rid None (run_events l rid)) (\<lambda>verdict.
          Inr (case verdict of
                 None \<Rightarrow> False
               | Some previous \<Rightarrow> r_event_count run = length (run_events l rid)
                   \<and> r_event_head_hash run = previous)))"

lemma verify_loop_append:
  "verify_loop rid p (es @ fs) = res_bind (verify_loop rid p es)
     (\<lambda>v. case v of None \<Rightarrow> Inr None | Some q \<Rightarrow> verify_loop rid q fs)"
proof (induction es arbitrary: p)
  case (Cons e es)
  then show ?case
    by (cases "py_json (e_payload e)";
        cases "event_hash rid (e_type e) (json_norm True (e_payload e)) p (e_created e)";
        simp del: py_json_Inr_iff)
qed simp

text \<open>The head a verified chain ends in, as \<open>_append_event_tx\<close> reads it from the last row.\<close>

definition head_hash :: "event_row list \<Rightarrow> string option" where
  "head_hash es = (if es = [] then None else Some (str_opt (e_hash (last es))))"

lemma last_hash_view: "last_hash l rid = head_hash (run_events l rid)"
  by (simp add: last_hash_def head_hash_def)

lemma verify_loop_head:
  "verify_loop rid p es = Inr (Some q) \<Longrightarrow> q = (if es = [] then p else Some (str_opt (e_hash (last es))))"
  by (induction es arbitrary: p) (fastforce split: if_splits)+

lemma verify_loop_None_head: "verify_loop rid None es = Inr (Some q) \<Longrightarrow> q = head_hash es"
  by (drule verify_loop_head) (simp add: head_hash_def)

text \<open>The chain of a run that verifies, as its view shows it.\<close>

definition chain_ok :: "string \<Rightarrow> run_row \<Rightarrow> event_row list \<Rightarrow> bool" where
  "chain_ok rid r es \<longleftrightarrow> verify_loop rid None es = Inr (Some (r_event_head_hash r))
     \<and> r_event_count r = length es"

lemma verify_event_chain_iff:
  "verify_event_chain l rid = Inr True \<longleftrightarrow> (\<exists>r. fetch_run l rid = Some r \<and> chain_ok rid r (run_events l rid))"
  by (auto simp: verify_event_chain_def chain_ok_def split: option.splits)

lemma chain_ok_Nil: "chain_ok rid r [] \<longleftrightarrow> r_event_head_hash r = None \<and> r_event_count r = 0"
  by (auto simp: chain_ok_def)

lemma chain_ok_cong:
  "r_event_head_hash r' = r_event_head_hash r \<Longrightarrow> r_event_count r' = r_event_count r \<Longrightarrow>
     chain_ok rid r' es = chain_ok rid r es"
  by (simp add: chain_ok_def)

lemma chain_ok_appended:
  assumes "chain_ok rid r es" "run_events l rid = es" "json_error True payload = None"
    "event_hash rid event_type (json_norm True payload) (last_hash l rid) timestamp = Inr h"
  shows "chain_ok rid (anchor_run_row h r) (es @ [appended l rid event_type payload timestamp event_id h])"
proof -
  have "r_event_head_hash r = head_hash es"
    using assms(1) by (simp add: chain_ok_def verify_loop_None_head [of rid es])
  with assms show ?thesis
    by (simp add: chain_ok_def anchor_run_row_def verify_loop_append appended_def new_event_def
        last_hash_view str_opt_def)
qed

section \<open>Hash chains\<close>

text \<open>The head after folding the contents of a chain from a start.\<close>

definition chain_head :: "('h option \<Rightarrow> 'c \<Rightarrow> 'h) \<Rightarrow> 'c list \<Rightarrow> 'h option" where
  "chain_head link cs = fold (\<lambda>c h. Some (link h c)) cs None"

lemma chain_head_snoc: "chain_head link (cs @ [c]) = Some (link (chain_head link cs) c)"
  by (simp add: chain_head_def)

lemma chain_head_Nil [simp]: "chain_head link [] = None"
  by (simp add: chain_head_def)

locale hash_chain =
  fixes link :: "'h option \<Rightarrow> 'c \<Rightarrow> 'h"
    and good :: "'c \<Rightarrow> bool"
    and collides :: "'h option \<Rightarrow> 'c \<Rightarrow> 'h option \<Rightarrow> 'c \<Rightarrow> bool"
  assumes link_inj: "good c \<Longrightarrow> good d \<Longrightarrow> link p c = link q d \<Longrightarrow> (p = q \<and> c = d) \<or> collides p c q d"
begin

text \<open>Two chains with the same head have the same contents, or a link of the one collides with
  a link of the other.\<close>

lemma same_head:
  assumes "chain_head link cs = chain_head link ds" "\<forall>c \<in> set cs. good c" "\<forall>d \<in> set ds. good d"
  shows "cs = ds \<or> (\<exists>i < length cs. \<exists>j < length ds.
    collides (chain_head link (take i cs)) (cs ! i) (chain_head link (take j ds)) (ds ! j))"
  using assms
proof (induction cs arbitrary: ds rule: rev_induct)
  case Nil
  then show ?case by (cases ds rule: rev_cases) (simp_all add: chain_head_snoc)
next
  case (snoc c cs)
  then obtain ds' d where ds: "ds = ds' @ [d]"
    by (cases ds rule: rev_cases) (simp_all add: chain_head_snoc)
  let ?cs = "cs @ [c]"
  from snoc.prems ds have "link (chain_head link cs) c = link (chain_head link ds') d" "good c" "good d"
    by (simp_all add: chain_head_snoc)
  then consider "chain_head link cs = chain_head link ds'" "c = d"
    | "collides (chain_head link cs) c (chain_head link ds') d"
    using link_inj by blast
  then show ?case
  proof cases
    case 1
    with snoc.IH [of ds'] snoc.prems ds consider "cs = ds'"
      | i j where "i < length cs" "j < length ds'"
        "collides (chain_head link (take i cs)) (cs ! i) (chain_head link (take j ds')) (ds' ! j)"
      by auto
    then show ?thesis
    proof cases
      case (2 i j)
      then have "collides (chain_head link (take i ?cs)) (?cs ! i) (chain_head link (take j ds)) (ds ! j)"
        by (simp add: ds nth_append)
      with 2(1,2) show ?thesis unfolding ds by (metis length_append_singleton less_SucI)
    qed (simp add: ds 1)
  next
    case 2
    then have "collides (chain_head link (take (length cs) ?cs)) (?cs ! length cs)
        (chain_head link (take (length ds') ds)) (ds ! length ds')"
      by (simp add: ds)
    then show ?thesis unfolding ds by (metis length_append_singleton lessI)
  qed
qed

end

section \<open>The ledger's chain\<close>

text \<open>What an event adds to the chain: its type, its payload up to the order of keys and its time. The link is the hash
  \<open>_event_hash\<close> computes for it.\<close>

type_synonym event_content = "string \<times> pyval \<times> string"

definition content :: "event_row \<Rightarrow> event_content" where
  "content e = (e_type e, json_norm True (e_payload e), e_created e)"

definition event_text :: "string \<Rightarrow> string option \<Rightarrow> event_content \<Rightarrow> string" where
  "event_text rid previous c = (case c of (t, p, ts) \<Rightarrow> canonical_text (event_document rid t p previous ts))"

definition event_link :: "string \<Rightarrow> string option \<Rightarrow> event_content \<Rightarrow> string" where
  "event_link rid previous c = digest_text (event_text rid previous c)"

definition good_content :: "event_content \<Rightarrow> bool" where
  "good_content c \<longleftrightarrow> (case c of (t, p, ts) \<Rightarrow>
     json_wf p \<and> json_error True p = None \<and> json_norm True p = p)"

lemma event_document_wf:
  "json_wf p \<Longrightarrow> json_wf (event_document rid t p prev ts)"
  by (simp add: event_document_def)

lemma event_document_error:
  "json_error True (event_document rid t p prev ts) = None \<longleftrightarrow> json_error True p = None"
  by (auto simp: event_document_def)

lemma event_hash_eq:
  "json_error True p = None \<Longrightarrow> event_hash rid t p prev ts = Inr (event_link rid prev (t, p, ts))"
  by (simp add: event_hash_def event_link_def event_text_def event_document_error)

lemma event_document_inj:
  assumes "json_norm True (event_document rid t p prev ts) = json_norm True (event_document rid t' p' prev' ts')"
  shows "t = t' \<and> json_norm True p = json_norm True p' \<and> prev = prev' \<and> ts = ts'"
proof -
  let ?d = "\<lambda>t p prev ts. [(''run_id'', PStr rid), (''event_type'', PStr t), (''payload'', p),
    (''previous_hash'', opt_str prev), (''created_at'', PStr ts)]"
  have keys: "distinct (map fst (?d t p prev ts))" for t p prev ts by simp
  have eq: "json_norm True (PDict (?d t p prev ts)) = json_norm True (PDict (?d t' p' prev' ts'))"
    using assms by (simp only: event_document_def)
  note same = json_norm_PDict_eqD [OF eq keys keys]
  have "json_norm True (PStr t) = json_norm True (PStr t')" by (rule same [of "''event_type''"]) simp_all
  moreover have "json_norm True p = json_norm True p'" by (rule same [of "''payload''"]) simp_all
  moreover have "json_norm True (opt_str prev) = json_norm True (opt_str prev')"
    by (rule same [of "''previous_hash''"]) simp_all
  moreover have "json_norm True (PStr ts) = json_norm True (PStr ts')"
    by (rule same [of "''created_at''"]) simp_all
  ultimately show ?thesis by simp
qed

interpretation event_chain: hash_chain "event_link rid" good_content
  "\<lambda>p c q d. sha_collision (event_text rid p c) (event_text rid q d)" for rid
proof
  fix c d :: event_content and p q :: "string option"
  assume good: "good_content c" "good_content d" and eq: "event_link rid p c = event_link rid q d"
  obtain t v ts t' v' ts' where cd: "c = (t, v, ts)" "d = (t', v', ts')"
    by (cases c; cases d) blast
  consider "event_text rid p c = event_text rid q d"
    | "sha_collision (event_text rid p c) (event_text rid q d)"
    using eq by (auto simp: event_link_def digest_text_eq)
  then show "(p = q \<and> c = d) \<or> sha_collision (event_text rid p c) (event_text rid q d)"
  proof cases
    case 1
    then have "json_norm True (event_document rid t v p ts) = json_norm True (event_document rid t' v' q ts')"
      using good json_render_inj [of "event_document rid t v p ts" True "event_document rid t' v' q ts'" False]
      by (simp add: cd event_text_def good_content_def event_document_wf event_document_error)
    then have "t = t' \<and> json_norm True v = json_norm True v' \<and> p = q \<and> ts = ts'"
      by (rule event_document_inj)
    with good show ?thesis by (simp add: cd good_content_def)
  qed simp
qed

text \<open>A verified chain is the fold of its contents.\<close>

lemma verify_loop_chain_head:
  assumes "verify_loop rid None es = Inr (Some q)"
  shows "q = chain_head (event_link rid) (map content es) \<and> (\<forall>e \<in> set es. json_error True (e_payload e) = None)"
  using assms
proof (induction es arbitrary: q rule: rev_induct)
  case (snoc e es)
  then obtain p where p: "verify_loop rid None es = Inr (Some p)" "verify_loop rid p [e] = Inr (Some q)"
    by (auto simp: verify_loop_append simp del: verify_loop.simps split: option.splits)
  then have IH: "p = chain_head (event_link rid) (map content es)"
      "\<forall>e \<in> set es. json_error True (e_payload e) = None"
    using snoc.IH by blast+
  from p(2) have "json_error True (e_payload e) = None" by auto
  with p(2) IH show ?case
    by (auto simp: event_hash_eq content_def [of e] chain_head_snoc str_opt_def split: if_splits)
qed simp

text \<open>The text whose hash the verification compares with the i-th event's.\<close>

definition chain_text :: "string \<Rightarrow> event_row list \<Rightarrow> nat \<Rightarrow> string" where
  "chain_text rid es i = event_text rid (chain_head (event_link rid) (map content (take i es))) (content (es ! i))"

lemma verified_same_head:
  assumes "verify_loop rid None es = Inr (Some q)" "verify_loop rid None fs = Inr (Some q)"
    and wf: "\<forall>e \<in> set es \<union> set fs. json_wf (e_payload e)"
  shows "map content es = map content fs \<or>
    (\<exists>i < length es. \<exists>j < length fs. sha_collision (chain_text rid es i) (chain_text rid fs j))"
proof -
  note chain = verify_loop_chain_head [OF assms(1)] verify_loop_chain_head [OF assms(2)]
  have heads: "chain_head (event_link rid) (map content es) = chain_head (event_link rid) (map content fs)"
    using chain by metis
  have good: "\<forall>c \<in> set (map content es). good_content c" "\<forall>c \<in> set (map content fs). good_content c"
    using chain wf by (auto simp: good_content_def content_def)
  from event_chain.same_head [OF heads good] show ?thesis
    by (auto simp: chain_text_def take_map)
qed

end
