(* ===== verification/Ledger_Replay.thy ===== *)
theory Ledger_Replay
  imports Ledger_Chain "HOL-Library.Sublist"
begin

text \<open>
  The abstract run. A run is a state machine driven by its event types: the lifecycle the
  package documents. Replaying the event log of a run through this machine is the abstract
  specification the tables are shown to implement (in \<open>Ledger_Inv\<close>): the replayed state is the
  status, the attempt count and whether a policy decided, of the stored row.
\<close>

section \<open>The lifecycle\<close>

definition reconciled_status :: "pyval \<Rightarrow> ActionStatus option" where
  "reconciled_status payload = (case payload of
     PDict kvs \<Rightarrow>
       if dict_get ''outcome'' kvs = Some (PStr ''completed'') then Some COMPLETED
       else if dict_get ''outcome'' kvs = Some (PStr ''failed'') then Some FAILED
       else None
   | _ \<Rightarrow> None)"

text \<open>The status after an event, or \<open>None\<close> where the lifecycle has no such event.\<close>

definition status_after :: "string \<Rightarrow> pyval \<Rightarrow> ActionStatus \<Rightarrow> ActionStatus option" where
  "status_after t payload s =
     (case s of
        CREATED \<Rightarrow>
          if t = ''policy.checked'' then Some CREATED
          else if t = ''run.denied'' then Some DENIED
          else if t = ''approval.requested'' then Some PENDING_APPROVAL
          else if t = ''tool.execution.started'' then Some EXECUTING
          else None
      | PENDING_APPROVAL \<Rightarrow>
          if t = ''approval.approved'' then Some APPROVED
          else if t = ''approval.rejected'' then Some REJECTED
          else if t = ''approval.expired'' then Some APPROVAL_EXPIRED
          else None
      | APPROVED \<Rightarrow>
          if t = ''run.resumed'' then Some APPROVED
          else if t = ''tool.execution.started'' then Some EXECUTING
          else None
      | EXECUTING \<Rightarrow>
          if t = ''tool.execution.succeeded'' then Some EXECUTING
          else if t = ''run.completed'' then Some COMPLETED
          else if t = ''tool.execution.failed'' then Some FAILED
          else if t = ''tool.execution.uncertain'' \<or> t = ''tool.execution.lease_expired'' then Some UNKNOWN
          else None
      | UNKNOWN \<Rightarrow>
          if t = ''provider.reconciliation.observed'' then Some UNKNOWN
          else if t = ''run.reconciled'' then reconciled_status payload
          else None
      | _ \<Rightarrow> None)"

record replay_state =
  ps_status :: ActionStatus
  ps_decided :: bool
  ps_attempt :: nat

definition replay_step :: "string \<times> pyval \<Rightarrow> replay_state \<Rightarrow> replay_state option" where
  "replay_step ev st =
     (case status_after (fst ev) (snd ev) (ps_status st) of
        None \<Rightarrow> None
      | Some s \<Rightarrow>
          if fst ev = ''tool.execution.started'' \<and> \<not> ps_decided st then None
          else Some \<lparr>ps_status = s, ps_decided = (ps_decided st \<or> fst ev = ''policy.checked''),
                     ps_attempt = ps_attempt st + (if fst ev = ''tool.execution.started'' then 1 else 0)\<rparr>)"

fun replay_from :: "replay_state \<Rightarrow> (string \<times> pyval) list \<Rightarrow> replay_state option" where
  "replay_from st [] = Some st"
| "replay_from st (ev # evs) = (case replay_step ev st of None \<Rightarrow> None | Some st' \<Rightarrow> replay_from st' evs)"

definition replay :: "(string \<times> pyval) list \<Rightarrow> replay_state option" where
  "replay evs = (case evs of
     [] \<Rightarrow> None
   | (t, _) # rest \<Rightarrow> if t = ''run.created''
       then replay_from \<lparr>ps_status = CREATED, ps_decided = False, ps_attempt = 0\<rparr> rest else None)"

lemma replay_from_append:
  "replay_from st (xs @ ys) = (case replay_from st xs of None \<Rightarrow> None | Some st' \<Rightarrow> replay_from st' ys)"
  by (induction xs arbitrary: st) (auto split: option.splits)

lemma replay_append:
  "replay xs = Some st \<Longrightarrow> replay (xs @ ys) = replay_from st ys"
  by (auto simp: replay_def replay_from_append split: list.splits if_splits)

lemma replay_prefix: "replay (xs @ ys) = Some st' \<Longrightarrow> xs \<noteq> [] \<Longrightarrow> \<exists>st. replay xs = Some st"
  by (auto simp: replay_def replay_from_append split: list.splits if_splits option.splits)

section \<open>What the lifecycle guarantees\<close>

definition terminal :: "ActionStatus \<Rightarrow> bool" where
  "terminal s \<longleftrightarrow> s \<in> {DENIED, REJECTED, APPROVAL_EXPIRED, COMPLETED, FAILED}"

definition started :: "ActionStatus \<Rightarrow> bool" where
  "started s \<longleftrightarrow> s \<in> {EXECUTING, UNKNOWN, COMPLETED, FAILED}"

lemma replay_step_terminal: "terminal (ps_status st) \<Longrightarrow> replay_step ev st = None"
  by (auto simp: terminal_def replay_step_def status_after_def)

lemma replay_from_terminal: "terminal (ps_status st) \<Longrightarrow> replay_from st evs = Some st' \<Longrightarrow> evs = [] \<and> st' = st"
  by (cases evs) (auto simp: replay_step_terminal)

text \<open>Execution starts once, after a policy decided, and only a start leads to the statuses
  that follow it.\<close>

definition lifecycle_ok :: "replay_state \<Rightarrow> bool" where
  "lifecycle_ok st \<longleftrightarrow> ps_attempt st = (if started (ps_status st) then 1 else 0)
     \<and> (started (ps_status st) \<longrightarrow> ps_decided st)"

lemma reconciled_status_cases: "reconciled_status p = Some s \<Longrightarrow> s = COMPLETED \<or> s = FAILED"
  by (auto simp: reconciled_status_def split: pyval.splits if_splits)

lemma lifecycle_step: "replay_step ev st = Some st' \<Longrightarrow> lifecycle_ok st \<Longrightarrow> lifecycle_ok st'"
  by (auto simp: replay_step_def status_after_def lifecycle_ok_def started_def
      dest: reconciled_status_cases split: option.splits ActionStatus.splits if_splits)

lemma lifecycle_from: "replay_from st evs = Some st' \<Longrightarrow> lifecycle_ok st \<Longrightarrow> lifecycle_ok st'"
  by (induction evs arbitrary: st) (auto split: option.splits dest: lifecycle_step)

lemma replay_lifecycle: "replay evs = Some st \<Longrightarrow> lifecycle_ok st"
  by (auto simp: replay_def split: list.splits if_splits elim!: lifecycle_from)
    (auto simp: lifecycle_ok_def started_def)

text \<open>The number of execution starts in a log is the attempt count.\<close>

definition starts :: "(string \<times> pyval) list \<Rightarrow> nat" where
  "starts evs = length (filter (\<lambda>ev. fst ev = ''tool.execution.started'') evs)"

lemma replay_from_starts: "replay_from st evs = Some st' \<Longrightarrow> ps_attempt st' = ps_attempt st + starts evs"
  by (induction evs arbitrary: st) (auto simp: starts_def replay_step_def split: option.splits if_splits)

lemma replay_starts: "replay evs = Some st \<Longrightarrow> starts evs = ps_attempt st"
  by (auto simp: replay_def split: list.splits if_splits dest!: replay_from_starts) (simp add: starts_def)

lemma replay_starts_le: "replay evs = Some st \<Longrightarrow> starts evs \<le> 1"
  using replay_starts [of evs st] replay_lifecycle [of evs st] by (simp add: lifecycle_ok_def split: if_splits)

text \<open>One-step changes of status, and that a log only extends along them.\<close>

inductive status_step :: "ActionStatus \<Rightarrow> ActionStatus \<Rightarrow> bool" where
  deny: "status_step CREATED DENIED"
| request: "status_step CREATED PENDING_APPROVAL"
| start: "status_step CREATED EXECUTING"
| approve: "status_step PENDING_APPROVAL APPROVED"
| reject: "status_step PENDING_APPROVAL REJECTED"
| expire: "status_step PENDING_APPROVAL APPROVAL_EXPIRED"
| resume: "status_step APPROVED EXECUTING"
| complete: "status_step EXECUTING COMPLETED"
| fail: "status_step EXECUTING FAILED"
| lose: "status_step EXECUTING UNKNOWN"
| settle_completed: "status_step UNKNOWN COMPLETED"
| settle_failed: "status_step UNKNOWN FAILED"

inductive_cases status_stepE: "status_step s t"

lemma replay_step_status:
  "replay_step ev st = Some st' \<Longrightarrow> ps_status st' = ps_status st \<or> status_step (ps_status st) (ps_status st')"
  by (auto simp: replay_step_def status_after_def dest!: reconciled_status_cases
      intro: status_step.intros split: option.splits ActionStatus.splits if_splits)

lemma replay_from_status: "replay_from st evs = Some st' \<Longrightarrow> status_step\<^sup>*\<^sup>* (ps_status st) (ps_status st')"
proof (induction evs arbitrary: st)
  case (Cons ev evs)
  then obtain st1 where st1: "replay_step ev st = Some st1" "replay_from st1 evs = Some st'"
    by (auto split: option.splits)
  from replay_step_status [OF st1(1)] Cons.IH [OF st1(2)] show ?case
    by (metis converse_rtranclp_into_rtranclp)
qed simp

end
