(* ===== verification/Ledger_Inv.thy ===== *)
theory Ledger_Inv
  imports Ledger_Replay
begin

text \<open>
  The invariant of the ledger and its preservation by every operation. For each run: its
  event chain verifies, its event log replays to the stored state, its approval agrees with
  it, and an execution owner and a lease exist exactly while it executes. Operations also
  keep the request of a run and only append to its log.
\<close>

section \<open>The invariant\<close>

definition abs_run :: "run_row \<Rightarrow> replay_state" where
  "abs_run r = \<lparr>ps_status = r_status r, ps_decided = (r_policy_version r \<noteq> None), ps_attempt = r_attempt r\<rparr>"

definition log_of :: "event_row list \<Rightarrow> (string \<times> pyval) list" where
  "log_of es = map (\<lambda>e. (e_type e, e_payload e)) es"

definition approval_ok :: "run_row \<Rightarrow> approval_row option \<Rightarrow> bool" where
  "approval_ok r ao \<longleftrightarrow> (case ao of
     None \<Rightarrow> r_status r \<notin> {PENDING_APPROVAL, APPROVED, REJECTED, APPROVAL_EXPIRED}
   | Some a \<Rightarrow> r_status r \<notin> {CREATED, DENIED} \<and> binding_matches r a \<and> a_requested_actor a = r_actor_id r
       \<and> a_status a = (if started (r_status r) then APPROVED else r_status r)
       \<and> (a_status a \<in> {APPROVED, REJECTED} \<longrightarrow> a_approver_id a \<noteq> None \<and> a_decided_at a \<noteq> None))"

definition lease_ok :: "run_row \<Rightarrow> bool" where
  "lease_ok r \<longleftrightarrow> (r_status r = EXECUTING \<longleftrightarrow> r_execution_owner r \<noteq> None)
     \<and> (r_status r = EXECUTING \<longleftrightarrow> r_lease_expires_at r \<noteq> None)"

text \<open>The arguments are a JSON object in normal form, and the JSON columns hold values a digest
  can be taken of.\<close>

definition columns_ok :: "run_row \<Rightarrow> bool" where
  "columns_ok r \<longleftrightarrow> (\<exists>kvs. r_arguments r = PDict kvs) \<and> json_norm True (r_arguments r) = r_arguments r
     \<and> json_error True (r_arguments r) = None \<and> json_error True (r_metadata r) = None
     \<and> (case r_result r of None \<Rightarrow> True | Some v \<Rightarrow> json_error True v = None)"

definition run_inv :: "string \<Rightarrow> run_row \<Rightarrow> event_row list \<Rightarrow> approval_row option \<Rightarrow> bool" where
  "run_inv rid r es ao \<longleftrightarrow> chain_ok rid r es \<and> replay (log_of es) = Some (abs_run r)
     \<and> approval_ok r ao \<and> lease_ok r \<and> columns_ok r"

definition view_inv :: "string \<Rightarrow> run_view \<Rightarrow> bool" where
  "view_inv rid v \<longleftrightarrow> (case v of (None, _, _) \<Rightarrow> True | (Some r, es, ao) \<Rightarrow> run_inv rid r es ao)"

definition ledger_inv :: "ledger \<Rightarrow> bool" where
  "ledger_inv l \<longleftrightarrow> struct_inv l \<and> (\<forall>rid. view_inv rid (view l rid))"

text \<open>The columns of a run that never change after it is created.\<close>

definition request_of ::
  "run_row \<Rightarrow> (string \<times> string \<times> string) \<times> string \<times> string \<times> string \<times> pyval \<times> pyval \<times> string list \<times> string list \<times> datetime"
where
  "request_of r = (run_key r, r_actor_id r, r_risk r, r_fingerprint r, r_arguments r, r_metadata r,
     r_roles r, r_evidence r, r_created_at r)"

definition view_extends :: "run_view \<Rightarrow> run_view \<Rightarrow> bool" where
  "view_extends v v' \<longleftrightarrow> (case v of (None, _, _) \<Rightarrow> True
     | (Some r, es, _) \<Rightarrow> (case v' of (None, _, _) \<Rightarrow> False
         | (Some r', es', _) \<Rightarrow> request_of r' = request_of r \<and> prefix es es'))"

text \<open>A good change: one run at most, keeping the invariant of its view and extending it.\<close>

definition good_change :: "string \<Rightarrow> ledger \<Rightarrow> ledger \<Rightarrow> bool" where
  "good_change rid l l' \<longleftrightarrow> changes_only rid l l' \<and> view_inv rid (view l' rid)
     \<and> view_extends (view l rid) (view l' rid)"

definition good_changes :: "ledger \<Rightarrow> ledger \<Rightarrow> bool" where
  "good_changes l l' \<longleftrightarrow> ledger_inv l' \<and> (\<forall>rid. view_extends (view l rid) (view l' rid))"

lemma view_extends_refl [simp]: "view_extends v v"
  by (auto simp: view_extends_def split: prod.splits option.splits)

lemma view_extends_trans: "view_extends u v \<Longrightarrow> view_extends v w \<Longrightarrow> view_extends u w"
  by (auto simp: view_extends_def split: prod.splits option.splits intro: prefix_order.trans)

lemma good_changes_refl: "ledger_inv l \<Longrightarrow> good_changes l l"
  by (simp add: good_changes_def)

lemma good_changes_trans: "good_changes l l' \<Longrightarrow> good_changes l' l'' \<Longrightarrow> good_changes l l''"
  by (auto simp: good_changes_def intro: view_extends_trans)

lemma good_change_changes: "good_change rid l l' \<Longrightarrow> ledger_inv l \<Longrightarrow> good_changes l l'"
proof -
  assume c: "good_change rid l l'" and inv: "ledger_inv l"
  have "view_inv k (view l' k) \<and> view_extends (view l k) (view l' k)" for k
  proof (cases "k = rid")
    case False
    with c inv show ?thesis
      by (simp add: good_change_def ledger_inv_def changes_only_view [of rid l l' k])
  qed (use c in \<open>simp add: good_change_def\<close>)
  with c inv show ?thesis
    by (simp add: good_changes_def good_change_def ledger_inv_def changes_only_struct)
qed

lemma ledger_inv_struct: "ledger_inv l \<Longrightarrow> struct_inv l"
  by (simp add: ledger_inv_def)

lemma ledger_inv_run: "ledger_inv l \<Longrightarrow> fetch_run l rid = Some r \<Longrightarrow> run_inv rid r (run_events l rid) (fetch_approval l rid)"
  by (auto simp: ledger_inv_def view_inv_def view_def dest!: spec [of _ rid])

lemma ledger_inv_empty [simp]: "ledger_inv empty_ledger"
  by (simp add: ledger_inv_def view_inv_def view_def empty_ledger_def struct_inv_def)

lemma view_eq: "view l rid = (ro, es, ao) \<longleftrightarrow> fetch_run l rid = ro \<and> run_events l rid = es \<and> fetch_approval l rid = ao"
  by (auto simp: view_def)

lemma run_inv_replay: "run_inv rid r es ao \<Longrightarrow> replay (log_of es) = Some (abs_run r)"
  by (simp add: run_inv_def)

lemma run_inv_parts:
  assumes "run_inv rid r es ao"
  shows "chain_ok rid r es" "replay (log_of es) = Some (abs_run r)" "approval_ok r ao" "lease_ok r" "columns_ok r"
  using assms by (simp_all add: run_inv_def)

lemma run_inv_lifecycle: "run_inv rid r es ao \<Longrightarrow> lifecycle_ok (abs_run r)"
  by (blast dest: run_inv_replay replay_lifecycle)

lemma log_of_append [simp]: "log_of (es @ fs) = log_of es @ log_of fs"
  by (simp add: log_of_def)

section \<open>Appending an event after a change of the row\<close>

lemmas row_defs = anchor_run_row_def expire_run_row_def expire_approval_row_def decide_run_row_def
  decide_approval_row_def unknown_run_row_def claim_run_row_def finish_run_row_def
  reconcile_run_row_def

lemma anchor_simps [simp]:
  "abs_run (anchor_run_row h r) = abs_run r" "approval_ok (anchor_run_row h r) ao = approval_ok r ao"
  "lease_ok (anchor_run_row h r) = lease_ok r" "columns_ok (anchor_run_row h r) = columns_ok r"
  "request_of (anchor_run_row h r) = request_of r"
  by (simp_all add: abs_run_def approval_ok_def binding_matches_def lease_ok_def columns_ok_def request_of_def
      run_key_def anchor_run_row_def cong: option.case_cong)

text \<open>What an append leaves: the anchored row and the longer chain, still verified.\<close>

lemma append_event_chain:
  assumes "append_event rid t p ts eid l = Inr l'" "struct_inv l" "fetch_run l rid = Some r"
    "chain_ok rid r (run_events l rid)"
  obtains h e where "changes_only rid l l'" "e_type e = t" "e_payload e = json_norm True p" "e_created e = ts"
    "view l' rid = (Some (anchor_run_row h r), run_events l rid @ [e], fetch_approval l rid)"
    "chain_ok rid (anchor_run_row h r) (run_events l rid @ [e])"
proof -
  from append_event_InrD [OF assms(1,2)] assms(3) obtain h where h: "json_error True p = None"
      "event_hash rid t (json_norm True p) (last_hash l rid) ts = Inr h" "changes_only rid l l'"
      "view l' rid = (Some (anchor_run_row h r), run_events l rid @ [appended l rid t p ts eid h], fetch_approval l rid)"
    by auto
  from chain_ok_appended [OF assms(4) refl h(1,2)] h(3,4) show thesis
    by (intro that [of "appended l rid t p ts eid h"]) (auto simp: appended_def new_event_def)
qed

text \<open>The same with the replayed state of the log, which may lag behind the row within a
  transaction.\<close>

lemma push_event:
  assumes "append_event rid t p ts eid l = Inr l'" "struct_inv l" "view l rid = (Some r, es, ao)"
    "chain_ok rid r es" "replay (log_of es) = Some st" "replay_step (t, json_norm True p) st = Some st'"
  obtains h e where "changes_only rid l l'" "view l' rid = (Some (anchor_run_row h r), es @ [e], ao)"
    "chain_ok rid (anchor_run_row h r) (es @ [e])" "replay (log_of (es @ [e])) = Some st'"
    "e_type e = t" "e_payload e = json_norm True p" "e_created e = ts"
proof -
  from assms(3) have v: "fetch_run l rid = Some r" "run_events l rid = es" "fetch_approval l rid = ao"
    by (simp_all add: view_eq)
  with append_event_chain [OF assms(1,2) v(1)] assms(4) obtain h e where
    "changes_only rid l l'" "e_type e = t" "e_payload e = json_norm True p" "e_created e = ts"
    "view l' rid = (Some (anchor_run_row h r), es @ [e], ao)" "chain_ok rid (anchor_run_row h r) (es @ [e])"
    by metis
  moreover from this have "replay (log_of (es @ [e])) = Some st'"
    using assms(5,6) by (simp add: replay_append log_of_def)
  ultimately show thesis by (intro that)
qed

lemma push_view:
  assumes "append_event rid t p ts eid l = Inr l'" "struct_inv l" "view l rid = (Some r, es, ao)"
    "chain_ok rid r es" "replay (log_of es) = Some st" "replay_step (t, json_norm True p) st = Some st'"
  obtains h e where "changes_only rid l l'" "view l' rid = (Some (anchor_run_row h r), es @ [e], ao)"
    "chain_ok rid (anchor_run_row h r) (es @ [e])" "replay (log_of (es @ [e])) = Some st'"
  using push_event [OF assms] by blast

text \<open>Rows and approvals of one run, updated where a condition holds.\<close>

lemma upd_runs_one:
  assumes "struct_inv l" "\<And>r. r_run_id (f r) = r_run_id r" "\<And>r. run_key (f r) = run_key r"
    "view l rid = (Some r, es, ao)" "Q r"
  shows "changes_only rid l (upd_runs (\<lambda>r. r_run_id r = rid \<and> Q r) f l)"
    and "view (upd_runs (\<lambda>r. r_run_id r = rid \<and> Q r) f l) rid = (Some (f r), es, ao)"
  using assms by (auto intro!: changes_only_upd_runs simp: view_upd_runs view_eq dest: fetch_run_id)

lemma upd_approvals_one:
  assumes "struct_inv l" "\<And>a. a_run_id (f a) = a_run_id a" "view l rid = (ro, es, Some a)" "Q a"
  shows "changes_only rid l (upd_approvals (\<lambda>a. a_run_id a = rid \<and> Q a) f l)"
    and "view (upd_approvals (\<lambda>a. a_run_id a = rid \<and> Q a) f l) rid = (ro, es, Some (f a))"
  using assms by (auto intro!: changes_only_upd_approvals simp: view_upd_approvals view_eq dest: fetch_approval_id)

lemma upd_runs_all:
  assumes "struct_inv l" "\<And>r. r_run_id (f r) = r_run_id r" "\<And>r. run_key (f r) = run_key r"
    "view l rid = (Some r, es, ao)"
  shows "changes_only rid l (upd_runs (\<lambda>r. r_run_id r = rid) f l)"
    and "view (upd_runs (\<lambda>r. r_run_id r = rid) f l) rid = (Some (f r), es, ao)"
  using upd_runs_one [OF assms, of "\<lambda>_. True"] by simp_all

lemma upd_approvals_all:
  assumes "struct_inv l" "\<And>a. a_run_id (f a) = a_run_id a" "view l rid = (ro, es, Some a)"
  shows "changes_only rid l (upd_approvals (\<lambda>a. a_run_id a = rid) f l)"
    and "view (upd_approvals (\<lambda>a. a_run_id a = rid) f l) rid = (ro, es, Some (f a))"
  using upd_approvals_one [OF assms, of "\<lambda>_. True"] by simp_all

lemma sql_count_one_run:
  assumes "struct_inv l" "sql_count (\<lambda>r. r_run_id r = rid \<and> Q r) (l_runs l) = 1"
  obtains r where "fetch_run l rid = Some r" "Q r"
  using assms(2) unfolding sql_count_fetch_run [OF assms(1), of rid Q]
  by (cases "fetch_run l rid") (simp_all split: if_splits)

lemma sql_count_one_approval:
  assumes "struct_inv l" "sql_count (\<lambda>a. a_run_id a = rid \<and> Q a) (l_approvals l) = 1"
  obtains a where "fetch_approval l rid = Some a" "Q a"
  using assms(2) unfolding sql_count_fetch_approval [OF assms(1), of rid Q]
  by (cases "fetch_approval l rid") (simp_all split: if_splits)

lemma sql_update_not_one:
  assumes "distinct (map key rows)" "sql_count (\<lambda>r. key r = k \<and> Q r) rows \<noteq> 1"
  shows "sql_update (\<lambda>r. key r = k \<and> Q r) f rows = rows"
proof -
  from assms have "sql_count (\<lambda>r. key r = k \<and> Q r) rows = 0"
    by (auto simp: sql_count_key split: option.splits if_splits)
  then show ?thesis by (intro sql_update_none) (auto simp: sql_count_def filter_empty_conv)
qed

lemma upd_runs_not_one:
  "struct_inv l \<Longrightarrow> sql_count (\<lambda>r. r_run_id r = rid \<and> Q r) (l_runs l) \<noteq> 1 \<Longrightarrow>
     upd_runs (\<lambda>r. r_run_id r = rid \<and> Q r) f l = l"
  by (simp add: upd_runs_def sql_update_not_one struct_inv_run_ids)

lemma upd_approvals_not_one:
  "struct_inv l \<Longrightarrow> sql_count (\<lambda>a. a_run_id a = rid \<and> Q a) (l_approvals l) \<noteq> 1 \<Longrightarrow>
     upd_approvals (\<lambda>a. a_run_id a = rid \<and> Q a) f l = l"
  by (simp add: upd_approvals_def sql_update_not_one struct_inv_approval_ids)

text \<open>Leaving the tables alone is a good change, and so is a change whose view is described.\<close>

lemma good_change_same [simp]: "ledger_inv l \<Longrightarrow> good_change rid l l"
  by (simp add: good_change_def ledger_inv_def)

lemma good_changeI:
  assumes "changes_only rid l l'" "view l rid = (Some r, es, ao)" "view l' rid = (Some r', es @ es', ao')"
    "request_of r' = request_of r" "run_inv rid r' (es @ es') ao'"
  shows "good_change rid l l'"
  using assms by (simp add: good_change_def view_inv_def view_extends_def)

lemma view_of_run: "fetch_run l rid = Some r \<Longrightarrow> view l rid = (Some r, run_events l rid, fetch_approval l rid)"
  by (simp add: view_def)

text \<open>The usual shape: some columns of the row change, then one event is appended.\<close>

lemma good_change_append:
  assumes "ledger_inv l" "fetch_run l rid = Some r" "changes_only rid l l1"
    "view l1 rid = (Some r1, run_events l rid, ao1)"
    "append_event rid t p ts eid l1 = Inr l'"
    "replay_step (t, json_norm True p) (abs_run r) = Some (abs_run r1)"
    "request_of r1 = request_of r"
    "r_event_count r1 = r_event_count r" "r_event_head_hash r1 = r_event_head_hash r"
    "approval_ok r1 ao1" "lease_ok r1" "columns_ok r1"
  obtains h e where "good_change rid l l'" "view l' rid = (Some (anchor_run_row h r1), run_events l rid @ [e], ao1)"
    "e_type e = t" "e_payload e = json_norm True p" "e_created e = ts"
proof -
  from ledger_inv_run [OF assms(1,2)] have inv: "chain_ok rid r (run_events l rid)"
      "replay (log_of (run_events l rid)) = Some (abs_run r)"
    by (simp_all add: run_inv_def)
  have chain: "chain_ok rid r1 (run_events l rid)" using inv(1) assms(8,9) by (simp add: chain_ok_def)
  have "struct_inv l1" using assms(1,3) by (simp add: changes_only_struct ledger_inv_struct)
  from push_event [OF assms(5) this assms(4) chain inv(2) assms(6)] obtain h e where e:
    "changes_only rid l1 l'" "view l' rid = (Some (anchor_run_row h r1), run_events l rid @ [e], ao1)"
    "chain_ok rid (anchor_run_row h r1) (run_events l rid @ [e])"
    "replay (log_of (run_events l rid @ [e])) = Some (abs_run r1)"
    "e_type e = t" "e_payload e = json_norm True p" "e_created e = ts" .
  have "run_inv rid (anchor_run_row h r1) (run_events l rid @ [e]) ao1"
    using e assms(10-12) by (simp add: run_inv_def)
  moreover have "request_of (anchor_run_row h r1) = request_of r" using assms(7) by simp
  ultimately have "good_change rid l l'"
    using good_changeI [OF changes_only_trans [OF assms(3) e(1)] view_of_run [OF assms(2)] e(2)] by blast
  with e that show thesis by blast
qed

text \<open>Two events after the change, the first of which does not move the replayed state.\<close>

lemma good_change_append2:
  assumes "ledger_inv l" "fetch_run l rid = Some r" "changes_only rid l l1"
    "view l1 rid = (Some r1, run_events l rid, ao1)"
    "append_event rid t p ts eid l1 = Inr l2" "append_event rid t' p' ts' eid' l2 = Inr l'"
    "replay_step (t, json_norm True p) (abs_run r) = Some (abs_run r)"
    "replay_step (t', json_norm True p') (abs_run r) = Some (abs_run r1)"
    "request_of r1 = request_of r"
    "r_event_count r1 = r_event_count r" "r_event_head_hash r1 = r_event_head_hash r"
    "approval_ok r1 ao1" "lease_ok r1" "columns_ok r1"
  shows "good_change rid l l'"
proof -
  note str = ledger_inv_struct [OF assms(1)] and i = run_inv_parts [OF ledger_inv_run [OF assms(1,2)]]
  let ?es = "run_events l rid"
  have chain: "chain_ok rid r1 ?es" using i(1) assms(10,11) by (simp add: chain_ok_def)
  from push_view [OF assms(5) changes_only_struct [OF assms(3) str] assms(4) chain i(2) assms(7)] obtain h e where e:
    "changes_only rid l1 l2" "view l2 rid = (Some (anchor_run_row h r1), ?es @ [e], ao1)"
    "chain_ok rid (anchor_run_row h r1) (?es @ [e])" "replay (log_of (?es @ [e])) = Some (abs_run r)" .
  note c2 = changes_only_trans [OF assms(3) e(1)]
  from push_view [OF assms(6) changes_only_struct [OF c2 str] e(2-4) assms(8)] obtain h' e' where e':
    "changes_only rid l2 l'"
    "view l' rid = (Some (anchor_run_row h' (anchor_run_row h r1)), (?es @ [e]) @ [e'], ao1)"
    "chain_ok rid (anchor_run_row h' (anchor_run_row h r1)) ((?es @ [e]) @ [e'])"
    "replay (log_of ((?es @ [e]) @ [e'])) = Some (abs_run r1)" .
  let ?r2 = "anchor_run_row h' (anchor_run_row h r1)"
  have "run_inv rid ?r2 (?es @ [e, e']) ao1" using e'(3,4) assms(12-14) by (simp add: run_inv_def)
  with good_changeI [OF changes_only_trans [OF c2 e'(1)] view_of_run [OF assms(2)], of ?r2 "[e, e']" ao1] e'(2) assms(9)
  show ?thesis by simp
qed

end
