(* ===== verification/Ledger_Steps.thy ===== *)
theory Ledger_Steps
  imports Ledger_Inv
begin

text \<open>
  Every operation of the ledger is a good change of the run it is about: it keeps the
  invariant, the request of every run and every event already written.
\<close>

lemmas replay_defs = replay_step_def status_after_def abs_run_def

lemma lease_ok_status: "run_inv rid r es ao \<Longrightarrow> r_status r \<noteq> EXECUTING \<Longrightarrow>
    r_execution_owner r = None \<and> r_lease_expires_at r = None"
  by (auto simp: run_inv_def lease_ok_def)

lemma result_json_Inr [simp]: "result_json v = Inr () \<longleftrightarrow> v = PNone \<or> json_error True v = None"
  by (auto simp: result_json_def)

lemma attempt_of_status:
  "run_inv rid r es ao \<Longrightarrow> r_attempt r = (if started (r_status r) then 1 else 0)"
  using run_inv_lifecycle [of rid r es ao] by (simp add: lifecycle_ok_def abs_run_def)

section \<open>Creation\<close>

lemma create_or_get_run_good:
  assumes "create_or_get_run env run_id tenant actor roles evidence name risk key fp args meta l = Inr ((row, b), l')"
    "ledger_inv l"
  shows "good_change run_id l l'"
proof (cases "list_ex (\<lambda>r. r_run_id r = run_id \<or>
    (r_tenant_id r = tenant \<and> r_action_name r = name \<and> r_idempotency_key r = key)) (l_runs l)")
  case True
  then have "l' = l" using assms(1)
    unfolding create_or_get_run_def by (auto simp: Let_def split: option.splits if_splits)
  with assms(2) show ?thesis by simp
next
  case False
  define new where "new = \<lparr>r_run_id = run_id, r_tenant_id = tenant, r_actor_id = actor,
    r_action_name = name, r_risk = risk, r_idempotency_key = key, r_fingerprint = fp, r_status = CREATED,
    r_arguments = json_norm True (PDict args), r_roles = roles, r_evidence = evidence,
    r_metadata = json_norm True (or_empty meta), r_policy_version = None, r_policy_digest = None,
    r_reason = None, r_result = None, r_execution_owner = None, r_lease_expires_at = None,
    r_attempt = 0, r_duplicate_count = 0, r_event_count = 0, r_event_head_hash = None,
    r_created_at = now_at env 0, r_updated_at = now_at env 0\<rparr>"
  define l1 where "l1 = l\<lparr>l_runs := l_runs l @ [new]\<rparr>"
  from False have fresh: "run_id \<notin> r_run_id ` set (l_runs l)" "run_key new \<notin> run_key ` set (l_runs l)"
    by (auto simp: list_ex_iff run_key_def new_def)
  from False assms(1) obtain p where app: "json_error True (PDict args) = None" "json_error True (or_empty meta) = None"
      "append_event run_id ''run.created'' p (isoformat (now_at env 0)) (uuid_at env 0) l1 = Inr l'"
    unfolding create_or_get_run_def l1_def new_def
    by (auto simp: Let_def split: option.splits if_splits)
  have c1: "changes_only run_id l l1" and v1: "view l1 run_id = (Some new, [], None)"
    unfolding l1_def using fresh assms(2)
    by (auto intro!: changes_only_insert_run view_insert_run simp: new_def ledger_inv_def)
  have s1: "struct_inv l1" using c1 assms(2) by (simp add: changes_only_struct ledger_inv_struct)
  from v1 have f1: "fetch_run l1 run_id = Some new" "run_events l1 run_id = []" "fetch_approval l1 run_id = None"
    by (simp_all add: view_eq)
  have chain: "chain_ok run_id new (run_events l1 run_id)" by (simp add: f1 chain_ok_Nil new_def)
  from append_event_chain [OF app(3) s1 f1(1) chain, unfolded f1(2,3) append_Nil] obtain h e where e: "changes_only run_id l1 l'"
      "e_type e = ''run.created''" "view l' run_id = (Some (anchor_run_row h new), [e], None)"
      "chain_ok run_id (anchor_run_row h new) [e]" by blast
  have normal: "json_norm True (json_norm True (PDict args)) = json_norm True (PDict args)"
    by (rule json_norm_idem)
  have columns: "columns_ok (anchor_run_row h new)"
    using app normal unfolding columns_ok_def anchor_run_row_def new_def by (auto simp del: json_norm_PDict intro: json_norm_PDict)
  have "run_inv run_id (anchor_run_row h new) [e] None"
    using e app columns by (simp add: run_inv_def log_of_def replay_def abs_run_def anchor_run_row_def new_def
        approval_ok_def lease_ok_def columns del: json_norm_PDict)
  moreover have "fetch_run l run_id = None" using fresh(1) by (simp add: fetch_by_None_iff)
  ultimately show ?thesis using changes_only_trans [OF c1 e(1)] e(3)
    by (simp add: good_change_def view_inv_def view_extends_def view_def)
qed

lemma good_change_columns:
  assumes "ledger_inv l" "\<And>r. r_run_id (f r) = r_run_id r" "\<And>r. run_key (f r) = run_key r"
    "\<And>r es ao. Q r \<Longrightarrow> run_inv rid r es ao \<Longrightarrow> run_inv rid (f r) es ao"
    "\<And>r. Q r \<Longrightarrow> request_of (f r) = request_of r"
  shows "good_change rid l (upd_runs (\<lambda>r. r_run_id r = rid \<and> Q r) f l)"
proof (cases "\<exists>r. fetch_run l rid = Some r \<and> Q r")
  case True
  then obtain r where r: "fetch_run l rid = Some r" "Q r" by blast
  note u = upd_runs_one [where f = f and Q = Q, OF ledger_inv_struct [OF assms(1)] assms(2,3) view_of_run [OF r(1)] r(2)]
  show ?thesis
    by (rule good_changeI [OF u(1) view_of_run [OF r(1)], where r' = "f r" and es' = "[]"
          and ao' = "fetch_approval l rid"]) (use u(2) r assms ledger_inv_run [OF assms(1) r(1)] in auto)
next
  case False
  then have "sql_count (\<lambda>r. r_run_id r = rid \<and> Q r) (l_runs l) \<noteq> 1"
    using assms(1) by (auto simp: sql_count_fetch_run ledger_inv_struct split: option.splits)
  with assms(1) show ?thesis by (simp add: upd_runs_not_one ledger_inv_struct)
qed

lemma record_duplicate_good:
  assumes "record_duplicate rid l = Inr ((), l')" "ledger_inv l"
  shows "good_change rid l l'"
proof -
  from assms(1) have l': "l' = upd_runs (\<lambda>r. r_run_id r = rid \<and> True)
      (\<lambda>r. r\<lparr>r_duplicate_count := Suc (r_duplicate_count r)\<rparr>) l"
    by (simp add: record_duplicate_def split: if_splits)
  show ?thesis unfolding l' using assms(2)
    by (rule good_change_columns) (auto simp: run_key_def request_of_def run_inv_def chain_ok_def abs_run_def
        approval_ok_def lease_ok_def columns_ok_def binding_matches_def split: option.splits)
qed

lemma heartbeat_execution_good:
  assumes "heartbeat_execution env rid owner secs l = Inr (b, l')" "ledger_inv l"
  shows "good_change rid l l'"
proof -
  from assms(1) obtain t where l': "l' = upd_runs (\<lambda>r. r_run_id r = rid \<and> r_status r = EXECUTING
      \<and> r_execution_owner r = Some owner \<and> (case r_lease_expires_at r of None \<Rightarrow> False
         | Some t \<Rightarrow> isoformat (now_at env 0) < isoformat t))
      (\<lambda>r. r\<lparr>r_lease_expires_at := Some t, r_updated_at := now_at env 0\<rparr>) l"
    by (auto simp: heartbeat_execution_def Let_def split: if_splits)
  show ?thesis unfolding l' using assms(2)
    by (rule good_change_columns) (auto simp: run_key_def request_of_def run_inv_def chain_ok_def abs_run_def
        approval_ok_def lease_ok_def columns_ok_def binding_matches_def split: option.splits)
qed

section \<open>Policy decisions\<close>

lemma record_policy_decision_good:
  assumes "record_policy_decision env rid d ttl l = Inr ((), l')" "ledger_inv l"
  shows "good_change rid l l'"
proof -
  let ?f = "\<lambda>dig r. r\<lparr>r_status := outcome_status (pd_outcome d), r_policy_version := Some (pd_policy_version d),
    r_policy_digest := Some dig, r_reason := Some (pd_reason d), r_updated_at := now_at env 0\<rparr>"
  from assms(1) obtain dig where dig: "1 \<le> ttl \<and> ttl \<le> 604800" "decision_digest d = Inr dig"
    by (auto simp: record_policy_decision_def split: if_splits)
  with assms(1) obtain r where r: "fetch_run l rid = Some r" "r_status r = CREATED"
    by (cases "fetch_run l rid") (auto simp: record_policy_decision_def Let_def split: if_splits)
  from assms(1) dig r obtain l2 where
    app: "append_event rid ''policy.checked'' (policy_checked_payload d dig) (isoformat (now_at env 1))
      (uuid_at env 0) (upd_runs (\<lambda>r. r_run_id r = rid \<and> r_status r = CREATED) (?f dig) l) = Inr l2"
    and rest: "pd_outcome d = DENY \<Longrightarrow> append_event rid ''run.denied'' (PDict [(''reason'', PStr (pd_reason d))])
        (isoformat (now_at env 2)) (uuid_at env 1) l2 = Inr l'"
      "pd_outcome d = ALLOW \<Longrightarrow> l' = l2"
      "pd_outcome d = APPROVAL_REQUIRED \<Longrightarrow> \<exists>t l3. insert_approval (pending_approval_row r d dig (now_at env 0) t) l2 = Inr l3
        \<and> append_event rid ''approval.requested'' (approval_requested_payload d dig (r_fingerprint r) t)
           (isoformat (now_at env 2)) (uuid_at env 1) l3 = Inr l'"
    by (cases "pd_outcome d") (auto simp: record_policy_decision_def Let_def)
  let ?r1 = "?f dig r" and ?es = "run_events l rid" and ?ao = "fetch_approval l rid"
  note inv = run_inv_parts [OF ledger_inv_run [OF assms(2) r(1)]] and str = ledger_inv_struct [OF assms(2)]
  note u = upd_runs_one [where f = "?f dig" and Q = "\<lambda>r. r_status r = CREATED", OF str _ _ view_of_run [OF r(1)] r(2),
      simplified run_key_def run_row.simps, simplified]
  have chain1: "chain_ok rid ?r1 ?es" using inv(1) by (simp add: chain_ok_def)
  let ?st1 = "(abs_run r)\<lparr>ps_decided := True\<rparr>"
  have step1: "replay_step (''policy.checked'', json_norm True (policy_checked_payload d dig)) (abs_run r) = Some ?st1"
    by (simp add: replay_defs r(2))
  from push_view [OF app changes_only_struct [OF u(1) str] u(2) chain1 inv(2) step1] obtain h e where e:
    "changes_only rid (upd_runs (\<lambda>r. r_run_id r = rid \<and> r_status r = CREATED) (?f dig) l) l2"
    "view l2 rid = (Some (anchor_run_row h ?r1), ?es @ [e], ?ao)"
    "chain_ok rid (anchor_run_row h ?r1) (?es @ [e])" "replay (log_of (?es @ [e])) = Some ?st1" .
  have c2: "changes_only rid l l2" and s2: "struct_inv l2"
    using changes_only_trans [OF u(1) e(1)] str by (auto simp: changes_only_struct)
  let ?r2 = "anchor_run_row h ?r1"
  have req: "request_of ?r2 = request_of r" by (simp add: anchor_run_row_def request_of_def run_key_def)
  have ao: "?ao = None" using inv(3) r(2) by (auto simp: approval_ok_def split: option.splits)
  note facts = inv(4,5) r(2) ao
  show ?thesis
  proof (cases "pd_outcome d")
    case ALLOW
    then have "run_inv rid ?r2 (?es @ [e]) ?ao" using e(3,4) facts
      by (simp add: run_inv_def abs_run_def anchor_run_row_def approval_ok_def lease_ok_def columns_ok_def)
    with good_changeI [OF c2 view_of_run [OF r(1)] e(2) req] rest(2) ALLOW show ?thesis by simp
  next
    case DENY
    let ?st2 = "?st1\<lparr>ps_status := DENIED\<rparr>"
    have step2: "replay_step (''run.denied'', json_norm True (PDict [(''reason'', PStr (pd_reason d))])) ?st1 = Some ?st2"
      by (simp add: replay_defs r(2))
    from push_view [OF rest(1) [OF DENY] s2 e(2,3,4) step2] obtain h' e' where e':
      "changes_only rid l2 l'" "view l' rid = (Some (anchor_run_row h' ?r2), (?es @ [e]) @ [e'], ?ao)"
      "chain_ok rid (anchor_run_row h' ?r2) ((?es @ [e]) @ [e'])"
      "replay (log_of ((?es @ [e]) @ [e'])) = Some ?st2" .
    have "run_inv rid (anchor_run_row h' ?r2) (?es @ [e, e']) ?ao" using e'(3,4) facts DENY
      by (simp add: run_inv_def abs_run_def anchor_run_row_def approval_ok_def lease_ok_def columns_ok_def)
    with good_changeI [OF changes_only_trans [OF c2 e'(1)] view_of_run [OF r(1)], of "anchor_run_row h' ?r2" "[e, e']" ?ao]
      e'(2) req show ?thesis by (simp add: request_of_def run_key_def anchor_run_row_def)
  next
    case APPROVAL_REQUIRED
    from rest(3) [OF this] obtain t l3 where l3:
      "insert_approval (pending_approval_row r d dig (now_at env 0) t) l2 = Inr l3"
      "append_event rid ''approval.requested'' (approval_requested_payload d dig (r_fingerprint r) t)
           (isoformat (now_at env 2)) (uuid_at env 1) l3 = Inr l'" by blast
    let ?a = "pending_approval_row r d dig (now_at env 0) t"
    have aid: "a_run_id ?a = rid" using fetch_run_id [OF r(1)] by (simp add: pending_approval_row_def)
    from insert_approval_InrD [OF l3(1)] e(2) aid have ins: "changes_only rid l2 l3"
      "view l3 rid = (Some ?r2, ?es @ [e], Some ?a)" by (simp_all add: view_eq)
    let ?st2 = "?st1\<lparr>ps_status := PENDING_APPROVAL\<rparr>"
    have step2: "replay_step (''approval.requested'', json_norm True (approval_requested_payload d dig (r_fingerprint r) t)) ?st1 = Some ?st2"
      by (simp add: replay_defs r(2))
    from push_view [OF l3(2) changes_only_struct [OF ins(1) s2] ins(2) e(3,4) step2] obtain h' e' where e':
      "changes_only rid l3 l'" "view l' rid = (Some (anchor_run_row h' ?r2), (?es @ [e]) @ [e'], Some ?a)"
      "chain_ok rid (anchor_run_row h' ?r2) ((?es @ [e]) @ [e'])"
      "replay (log_of ((?es @ [e]) @ [e'])) = Some ?st2" .
    have "run_inv rid (anchor_run_row h' ?r2) (?es @ [e, e']) (Some ?a)" using e'(3,4) facts APPROVAL_REQUIRED
      by (simp add: run_inv_def abs_run_def anchor_run_row_def approval_ok_def lease_ok_def columns_ok_def
          binding_matches_def pending_approval_row_def started_def)
    with good_changeI [OF changes_only_trans [OF changes_only_trans [OF c2 ins(1)] e'(1)] view_of_run [OF r(1)],
        of "anchor_run_row h' ?r2" "[e, e']" "Some ?a"] e'(2) req
    show ?thesis by (simp add: request_of_def run_key_def anchor_run_row_def)
  qed
qed

section \<open>Approvals\<close>

text \<open>A pending run, decided or expired together with its approval, then logged.\<close>

lemma pending_change_good:
  assumes inv: "ledger_inv l" and r: "fetch_run l rid = Some r" and a: "fetch_approval l rid = Some a"
    and c: "changes_only rid l l1" "view l1 rid = (Some r1, run_events l rid, Some a1)"
    and app: "append_event rid t p ts eid l1 = Inr l'"
    and st: "r_status r = PENDING_APPROVAL" "status_after t (json_norm True p) PENDING_APPROVAL = Some s"
      "t \<noteq> ''tool.execution.started''" "t \<noteq> ''policy.checked''" "s \<in> {APPROVED, REJECTED, APPROVAL_EXPIRED}"
    and f: "r1 = r\<lparr>r_status := s, r_reason := r_reason r1, r_updated_at := now\<rparr>"
    and g: "a_status a1 = s" "a_fingerprint a1 = a_fingerprint a" "a_policy_version a1 = a_policy_version a"
      "a_policy_digest a1 = a_policy_digest a" "a_requested_actor a1 = a_requested_actor a"
      "a_decided_at a1 = Some now" "s \<in> {APPROVED, REJECTED} \<Longrightarrow> a_approver_id a1 \<noteq> None"
  shows "good_change rid l l'"
proof -
  note i = run_inv_parts [OF ledger_inv_run [OF inv r]]
  have r1: "r_event_count r1 = r_event_count r" "r_event_head_hash r1 = r_event_head_hash r"
    "abs_run r1 = (abs_run r)\<lparr>ps_status := s\<rparr>" "request_of r1 = request_of r" "r_status r1 = s"
    "r_execution_owner r1 = r_execution_owner r" "r_lease_expires_at r1 = r_lease_expires_at r"
    "r_arguments r1 = r_arguments r" "r_metadata r1 = r_metadata r" "r_result r1 = r_result r"
    "r_actor_id r1 = r_actor_id r" "binding_matches r1 x = binding_matches r x" for x
    by (subst f; simp add: abs_run_def request_of_def run_key_def binding_matches_def)+
  have "replay_step (t, json_norm True p) (abs_run r) = Some (abs_run r1)"
    unfolding r1(3) using st by (simp add: replay_step_def abs_run_def)
  moreover have "approval_ok r1 (Some a1)"
    using i(3) a g st r1 by (auto simp: approval_ok_def binding_matches_def started_def)
  moreover have "lease_ok r1" "columns_ok r1" using i(4,5) st r1
    by (auto simp: lease_ok_def columns_ok_def)
  ultimately show ?thesis
    using good_change_append [OF inv r c app _ r1(4,1,2)] by blast
qed

lemma decide_approval_good:
  assumes op: "decide_approval env rid approved approver note roles self l = Inr (b, l')" and inv: "ledger_inv l"
  shows "good_change rid l l'"
proof (cases "l' = l")
  case False
  note str = ledger_inv_struct [OF inv]
  from op obtain r a where ra: "fetch_run l rid = Some r" "fetch_approval l rid = Some a"
    by (auto simp: decide_approval_def Let_def split: option.splits)
  note v = view_of_run [OF ra(1), unfolded ra(2)]
  let ?now = "now_at env 0" and ?s = "if approved then APPROVED else REJECTED"
  from op ra False have pend: "r_status r = PENDING_APPROVAL" "a_status a = PENDING_APPROVAL"
    by (auto simp: decide_approval_def Let_def split: if_splits)
  consider
    (expired) "append_event rid ''approval.expired'' (approval_expired_payload (a_expires_at a))
      (isoformat (now_at env 1)) (uuid_at env 0) (upd_runs (\<lambda>r. r_run_id r = rid) (expire_run_row ?now)
        (upd_approvals (\<lambda>a. a_run_id a = rid) (expire_approval_row ?now) l)) = Inr l'"
  | (decided) "append_event rid (if approved then ''approval.approved'' else ''approval.rejected'')
      (approval_decided_payload approver note r) (isoformat (now_at env 1)) (uuid_at env 0)
      (upd_runs (\<lambda>r. r_run_id r = rid \<and> r_status r = PENDING_APPROVAL) (decide_run_row ?now ?s note)
        (upd_approvals (\<lambda>a. a_run_id a = rid \<and> a_status a = PENDING_APPROVAL)
          (decide_approval_row ?now ?s approver note) l)) = Inr l'"
  proof -
    assume *: "append_event rid ''approval.expired'' (approval_expired_payload (a_expires_at a))
      (isoformat (now_at env 1)) (uuid_at env 0) (upd_runs (\<lambda>r. r_run_id r = rid) (expire_run_row ?now)
        (upd_approvals (\<lambda>a. a_run_id a = rid) (expire_approval_row ?now) l)) = Inr l' \<Longrightarrow> thesis"
      "append_event rid (if approved then ''approval.approved'' else ''approval.rejected'')
      (approval_decided_payload approver note r) (isoformat (now_at env 1)) (uuid_at env 0)
      (upd_runs (\<lambda>r. r_run_id r = rid \<and> r_status r = PENDING_APPROVAL) (decide_run_row ?now ?s note)
        (upd_approvals (\<lambda>a. a_run_id a = rid \<and> a_status a = PENDING_APPROVAL)
          (decide_approval_row ?now ?s approver note) l)) = Inr l' \<Longrightarrow> thesis"
    show thesis using op ra pend False
      by (auto simp: decide_approval_def Let_def sql_count_fetch_approval [OF str] split: if_splits intro: *)
  qed
  then show ?thesis
  proof cases
    case expired
    have ids: "a_run_id (expire_approval_row ?now x) = a_run_id x" for x by (simp add: expire_approval_row_def)
    have idr: "r_run_id (expire_run_row ?now x) = r_run_id x" "run_key (expire_run_row ?now x) = run_key x" for x
      by (simp_all add: expire_run_row_def run_key_def)
    note ua = upd_approvals_all [where f = "expire_approval_row ?now", OF str ids v]
    note ur = upd_runs_all [where f = "expire_run_row ?now", OF changes_only_struct [OF ua(1) str] idr ua(2)]
    show ?thesis
      by (rule pending_change_good [OF inv ra changes_only_trans [OF ua(1) ur(1)] ur(2) expired pend(1),
            where s = APPROVAL_EXPIRED and now = ?now])
        (simp_all add: status_after_def expire_run_row_def expire_approval_row_def)
  next
    case decided
    let ?g = "decide_approval_row ?now ?s approver note" and ?f = "decide_run_row ?now ?s note"
    have ids: "a_run_id (?g x) = a_run_id x" for x by (simp add: decide_approval_row_def)
    have idr: "r_run_id (?f x) = r_run_id x" "run_key (?f x) = run_key x" for x
      by (simp_all add: decide_run_row_def run_key_def)
    note ua = upd_approvals_one [where f = ?g and Q = "\<lambda>a. a_status a = PENDING_APPROVAL", OF str ids v pend(2)]
    note ur = upd_runs_one [where f = ?f and Q = "\<lambda>r. r_status r = PENDING_APPROVAL",
        OF changes_only_struct [OF ua(1) str] idr ua(2) pend(1)]
    show ?thesis
      by (rule pending_change_good [OF inv ra changes_only_trans [OF ua(1) ur(1)] ur(2) decided pend(1),
            where s = ?s and now = ?now])
        (simp_all add: status_after_def decide_run_row_def decide_approval_row_def)
  qed
qed (use inv in simp)

lemma expire_one_shape:
  "(if n = 1 \<and> m = 1 then res_bind x (\<lambda>l2. Inr (True, l2))
    else if n \<noteq> m then raise_exc c msg else Inr (False, l1)) = Inr (b, l') \<Longrightarrow>
   (b \<and> n = 1 \<and> m = 1 \<and> x = Inr l') \<or> (\<not> b \<and> n \<noteq> (1 :: nat) \<and> m \<noteq> 1 \<and> l' = l1)"
  by (auto split: if_splits)

lemma expire_one_good:
  assumes op: "expire_one now ts eid rid t l = Inr (b, l')" and inv: "ledger_inv l"
  shows "good_change rid l l'"
proof (cases b)
  case True
  note str = ledger_inv_struct [OF inv]
  note shape = expire_one_shape [OF op [unfolded expire_one_def Let_def]]
  from shape True have app: "append_event rid ''approval.expired'' (approval_expired_payload t) ts eid
      (upd_runs (\<lambda>r. r_run_id r = rid \<and> r_status r = PENDING_APPROVAL) (expire_run_row now)
        (upd_approvals (\<lambda>a. a_run_id a = rid \<and> a_status a = PENDING_APPROVAL) (expire_approval_row now) l)) = Inr l'"
    by blast
  from shape True have n: "sql_count (\<lambda>a. a_run_id a = rid \<and> a_status a = PENDING_APPROVAL) (l_approvals l) = 1"
     "sql_count (\<lambda>r. r_run_id r = rid \<and> r_status r = PENDING_APPROVAL) (l_runs l) = 1" by blast+
  from sql_count_one_run [OF str n(2)] sql_count_one_approval [OF str n(1)]
  obtain r a where ra: "fetch_run l rid = Some r" "fetch_approval l rid = Some a"
      "r_status r = PENDING_APPROVAL" "a_status a = PENDING_APPROVAL" by metis
  note v = view_of_run [OF ra(1), unfolded ra(2)]
  have ids: "a_run_id (expire_approval_row now x) = a_run_id x" for x by (simp add: expire_approval_row_def)
  have idr: "r_run_id (expire_run_row now x) = r_run_id x" "run_key (expire_run_row now x) = run_key x" for x
    by (simp_all add: expire_run_row_def run_key_def)
  note ua = upd_approvals_one [where f = "expire_approval_row now" and Q = "\<lambda>a. a_status a = PENDING_APPROVAL", OF str ids v ra(4)]
  note ur = upd_runs_one [where f = "expire_run_row now" and Q = "\<lambda>r. r_status r = PENDING_APPROVAL",
      OF changes_only_struct [OF ua(1) str] idr ua(2) ra(3)]
  show ?thesis
    by (rule pending_change_good [OF inv ra(1,2) changes_only_trans [OF ua(1) ur(1)] ur(2) app ra(3),
          where s = APPROVAL_EXPIRED and now = now])
      (simp_all add: status_after_def expire_run_row_def expire_approval_row_def)
next
  case False
  note str = ledger_inv_struct [OF inv]
  from expire_one_shape [OF op [unfolded expire_one_def Let_def]] False
  have n: "sql_count (\<lambda>a. a_run_id a = rid \<and> a_status a = PENDING_APPROVAL) (l_approvals l) \<noteq> 1"
     "sql_count (\<lambda>r. r_run_id r = rid \<and> r_status r = PENDING_APPROVAL) (l_runs l) \<noteq> 1"
    and "l' = upd_runs (\<lambda>r. r_run_id r = rid \<and> r_status r = PENDING_APPROVAL) (expire_run_row now)
                 (upd_approvals (\<lambda>a. a_run_id a = rid \<and> a_status a = PENDING_APPROVAL)
                   (expire_approval_row now) l)"
    by blast+
  with n inv show ?thesis by (simp add: upd_approvals_not_one [OF str] upd_runs_not_one [OF str])
qed

lemma expire_loop_good:
  assumes "expire_loop env now k rows l = Inr (expired, l')" "ledger_inv l"
  shows "good_changes l l'"
  using assms
proof (induction rows arbitrary: k l expired)
  case (Cons row rows)
  obtain rid t where row: "row = (rid, t)" by (cases row)
  from Cons.prems row obtain hit l1 rest where
    one: "expire_one now (isoformat (now_at env (Suc k))) (uuid_at env k) rid t l = Inr (hit, l1)"
    and loop: "expire_loop env now (if hit then Suc k else k) rows l1 = Inr (rest, l')"
    by auto
  have c: "good_changes l l1" using expire_one_good [OF one Cons.prems(2)] Cons.prems(2)
    by (rule good_change_changes)
  then have "ledger_inv l1" by (simp add: good_changes_def)
  from Cons.IH [OF loop this] c show ?case by (rule good_changes_trans [rotated])
qed (simp add: good_changes_refl)

end
