(* ===== verification/Ledger_Steps2.thy ===== *)
theory Ledger_Steps2
  imports Ledger_Steps
begin

text \<open>
  The remaining operations: leases, executions, reconciliation and recovery.
\<close>

section \<open>Executions\<close>

lemma mark_expired_execution_good:
  assumes op: "mark_expired_execution ts eid rid now l = Inr (b, l')" and inv: "ledger_inv l"
  shows "good_change rid l l'"
proof (cases "sql_count (\<lambda>r. r_run_id r = rid \<and> r_status r = EXECUTING) (l_runs l) = 1")
  case True
  note str = ledger_inv_struct [OF inv]
  obtain r where r: "fetch_run l rid = Some r" "r_status r = EXECUTING"
    using sql_count_one_run [OF str True] .
  note i = run_inv_parts [OF ledger_inv_run [OF inv r(1)]]
  let ?f = "unknown_run_row now"
  have idr: "r_run_id (?f x) = r_run_id x" "run_key (?f x) = run_key x" for x
    by (simp_all add: unknown_run_row_def run_key_def)
  note ur = upd_runs_one [where f = ?f and Q = "\<lambda>r. r_status r = EXECUTING", OF str idr view_of_run [OF r(1)] r(2)]
  from op True have app: "append_event rid ''tool.execution.lease_expired'' (PDict [(''reason'', PStr lease_expired_reason)])
      ts eid (upd_runs (\<lambda>r. r_run_id r = rid \<and> r_status r = EXECUTING) ?f l) = Inr l'"
    by (auto simp: mark_expired_execution_def Let_def)
  show ?thesis
    by (rule good_change_append [OF inv r(1) ur(1,2) app])
      (use i(3-5) r(2) in \<open>auto simp: replay_defs unknown_run_row_def request_of_def run_key_def approval_ok_def
        binding_matches_def started_def lease_ok_def columns_ok_def split: option.splits\<close>)
next
  case False
  with op have "l' = upd_runs (\<lambda>r. r_run_id r = rid \<and> r_status r = EXECUTING) (unknown_run_row now) l"
    by (auto simp: mark_expired_execution_def Let_def)
  with inv False show ?thesis by (simp add: upd_runs_not_one ledger_inv_struct)
qed

text \<open>What a call of \<open>claim_execution\<close> did: nothing, an expired lease, or a claim.\<close>

lemma claim_execution_cases:
  assumes op: "claim_execution env rid owner secs l = Inr (b, l')" and str: "struct_inv l"
  obtains (lost) r where "\<not> b" "fetch_run l rid = Some r" "lease_over (now_at env 0) r"
      "mark_expired_execution (isoformat (now_at env 1)) (uuid_at env 0) rid (now_at env 0) l = Inr (True, l')"
  | (refused) r where "\<not> b" "fetch_run l rid = Some r" "\<not> claimable r" "l' = l"
  | (claimed) r lease where "b" "fetch_run l rid = Some r" "claimable r" "strip owner \<noteq> []"
      "add_seconds (now_at env 0) (nat secs) = Inr lease"
      "append_events env 1 0 rid
        ((if r_status r = APPROVED then [(''run.resumed'', PDict [])] else [])
          @ [(''tool.execution.started'', started_payload owner (Suc (r_attempt r)) lease)])
        (upd_runs (\<lambda>r. r_run_id r = rid \<and> claimable r) (claim_run_row (now_at env 0) owner lease) l) = Inr l'"
proof -
  from op obtain lease where lease: "strip owner \<noteq> []" "1 \<le> secs \<and> secs \<le> 86400"
      "add_seconds (now_at env 0) (nat secs) = Inr lease"
    by (auto simp: claim_execution_def Let_def split: if_splits)
  with op obtain r where r: "fetch_run l rid = Some r"
    by (cases "fetch_run l rid") (auto simp: claim_execution_def Let_def)
  let ?f = "claim_run_row (now_at env 0) owner lease"
  let ?l1 = "upd_runs (\<lambda>r. r_run_id r = rid \<and> claimable r) ?f l"
  have count: "sql_count (\<lambda>r. r_run_id r = rid \<and> claimable r) (l_runs l) = (if claimable r then 1 else 0)"
    using r by (simp add: sql_count_fetch_run [OF str])
  show thesis
  proof (cases "lease_over (now_at env 0) r")
    case True
    with r have "sql_count (\<lambda>r. r_run_id r = rid \<and> r_status r = EXECUTING) (l_runs l) = 1"
      by (simp add: sql_count_fetch_run [OF str] lease_over_def)
    with op lease r True show thesis
      by (intro lost) (auto simp: claim_execution_def mark_expired_execution_def Let_def)
  next
    case False
    show thesis
    proof (cases "claimable r")
      case True
      have idr: "r_run_id (?f x) = r_run_id x" "run_key (?f x) = run_key x" for x
        by (simp_all add: claim_run_row_def run_key_def)
      from upd_runs_one(2) [where f = ?f and Q = claimable, OF str idr view_of_run [OF r] True]
      have "fetch_run ?l1 rid = Some (?f r)" by (simp add: view_eq)
      with op lease r False True count show thesis
        by (intro claimed [OF _ r]) (auto simp: claim_execution_def Let_def claim_run_row_def)
    next
      case no: False
      with op lease r False count have "\<not> b" "l' = ?l1" by (auto simp: claim_execution_def Let_def)
      moreover from count no have "?l1 = l" by (simp add: upd_runs_not_one [OF str])
      ultimately show thesis using r no by (intro refused) auto
    qed
  qed
qed

lemma claim_execution_good:
  assumes op: "claim_execution env rid owner secs l = Inr (b, l')" and inv: "ledger_inv l"
  shows "good_change rid l l'"
proof (rule claim_execution_cases [OF op ledger_inv_struct [OF inv]])
  fix r assume "mark_expired_execution (isoformat (now_at env 1)) (uuid_at env 0) rid (now_at env 0) l = Inr (True, l')"
  then show ?thesis using inv by (rule mark_expired_execution_good)
next
  assume "l' = l"
  with inv show ?thesis by simp
next
  fix r lease
  assume r: "fetch_run l rid = Some r" "claimable r"
    and app: "append_events env 1 0 rid
        ((if r_status r = APPROVED then [(''run.resumed'', PDict [])] else [])
          @ [(''tool.execution.started'', started_payload owner (Suc (r_attempt r)) lease)])
        (upd_runs (\<lambda>r. r_run_id r = rid \<and> claimable r) (claim_run_row (now_at env 0) owner lease) l) = Inr l'"
  note str = ledger_inv_struct [OF inv] and i = run_inv_parts [OF ledger_inv_run [OF inv r(1)]]
  let ?f = "claim_run_row (now_at env 0) owner lease" and ?ao = "fetch_approval l rid"
  let ?l1 = "upd_runs (\<lambda>r. r_run_id r = rid \<and> claimable r) ?f l"
  have idr: "r_run_id (?f x) = r_run_id x" "run_key (?f x) = run_key x" for x
    by (simp_all add: claim_run_row_def run_key_def)
  note ur = upd_runs_one [where f = ?f and Q = claimable, OF str idr view_of_run [OF r(1)] r(2)]
  have keep: "r_event_count (?f r) = r_event_count r" "r_event_head_hash (?f r) = r_event_head_hash r"
      "request_of (?f r) = request_of r" "lease_ok (?f r)" "columns_ok (?f r)" "approval_ok (?f r) ?ao"
    using i(3-5) r(2) by (auto simp: claim_run_row_def request_of_def run_key_def lease_ok_def columns_ok_def
        approval_ok_def binding_matches_def claimable_def started_def split: option.splits)
  have step: "replay_step (''tool.execution.started'', json_norm True p) (abs_run r) = Some (abs_run (?f r))" for p
    using r(2) by (auto simp: replay_defs claim_run_row_def claimable_def)
  show ?thesis
  proof (cases "r_status r = APPROVED")
    case False
    with app have app1: "append_event rid ''tool.execution.started'' (started_payload owner (Suc (r_attempt r)) lease)
        (isoformat (now_at env 1)) (uuid_at env 0) ?l1 = Inr l'" by auto
    show ?thesis
      by (rule good_change_append [OF inv r(1) ur app1 step keep(3,1,2,6,4,5)])
  next
    case True
    with app obtain l2 where app1: "append_event rid ''run.resumed'' (PDict []) (isoformat (now_at env 1))
          (uuid_at env 0) ?l1 = Inr l2"
      and app2: "append_event rid ''tool.execution.started'' (started_payload owner (Suc (r_attempt r)) lease)
          (isoformat (now_at env 2)) (uuid_at env 1) l2 = Inr l'"
      by (auto simp: numeral_2_eq_2)
    show ?thesis
      by (rule good_change_append2 [OF inv r(1) ur app1 app2 _ step keep(3,1,2,6,4,5)])
        (use True in \<open>simp add: replay_defs\<close>)
  qed
qed

lemma result_column_ok:
  "result_json v = Inr () \<Longrightarrow>
    (case if v = PNone then None else Some (json_norm True v) of None \<Rightarrow> True | Some w \<Rightarrow> json_error True w = None)"
  by (auto split: option.splits)

text \<open>What a finished execution did.\<close>

lemma finish_execution_cases:
  assumes op: "finish_execution env rid owner s reason result evs l = Inr ((), l')" and str: "struct_inv l"
  obtains r where "result_json result = Inr ()" "fetch_run l rid = Some r" "r_status r = EXECUTING"
    "r_execution_owner r = Some owner"
    "append_events env 1 0 rid evs (upd_runs (\<lambda>r. r_run_id r = rid \<and> r_status r = EXECUTING
       \<and> r_execution_owner r = Some owner) (finish_run_row (now_at env 0) s reason result) l) = Inr l'"
proof -
  from op have c: "result_json result = Inr ()"
    "sql_count (\<lambda>r. r_run_id r = rid \<and> r_status r = EXECUTING \<and> r_execution_owner r = Some owner) (l_runs l) = 1"
    by (auto simp: finish_execution_def Let_def simp del: result_json_Inr split: if_splits)
  from sql_count_one_run [OF str c(2)] obtain r where r: "fetch_run l rid = Some r"
      "r_status r = EXECUTING \<and> r_execution_owner r = Some owner" .
  from op c have "append_events env 1 0 rid evs (upd_runs (\<lambda>r. r_run_id r = rid \<and> r_status r = EXECUTING
       \<and> r_execution_owner r = Some owner) (finish_run_row (now_at env 0) s reason result) l) = Inr l'"
    by (auto simp: finish_execution_def Let_def simp del: result_json_Inr)
  with c(1) r that show thesis by blast
qed

lemma finish_run_row_facts:
  assumes "run_inv rid r es ao" "r_status r = EXECUTING" "result_json result = Inr ()" "s \<in> {COMPLETED, FAILED, UNKNOWN}"
  shows "r_event_count (finish_run_row now s reason result r) = r_event_count r"
    "r_event_head_hash (finish_run_row now s reason result r) = r_event_head_hash r"
    "request_of (finish_run_row now s reason result r) = request_of r"
    "lease_ok (finish_run_row now s reason result r)" "columns_ok (finish_run_row now s reason result r)"
    "approval_ok (finish_run_row now s reason result r) ao"
    "abs_run (finish_run_row now s reason result r) = (abs_run r)\<lparr>ps_status := s\<rparr>"
  using run_inv_parts(3-5) [OF assms(1)] result_column_ok [OF assms(3)] assms(2,4)
  by (auto simp: finish_run_row_def request_of_def run_key_def lease_ok_def columns_ok_def abs_run_def
      approval_ok_def binding_matches_def started_def split: option.splits)

lemma finish_one_event_good:
  assumes op: "finish_execution env rid owner s reason result [(t, p)] l = Inr ((), l')" and inv: "ledger_inv l"
    and s: "s \<in> {COMPLETED, FAILED, UNKNOWN}" "status_after t (json_norm True p) EXECUTING = Some s"
      "t \<noteq> ''tool.execution.started''" "t \<noteq> ''policy.checked''"
  shows "good_change rid l l'"
proof (rule finish_execution_cases [OF op ledger_inv_struct [OF inv]])
  fix r assume r: "fetch_run l rid = Some r" "r_status r = EXECUTING" "r_execution_owner r = Some owner"
    "result_json result = Inr ()"
    and app: "append_events env 1 0 rid [(t, p)] (upd_runs (\<lambda>r. r_run_id r = rid \<and> r_status r = EXECUTING
       \<and> r_execution_owner r = Some owner) (finish_run_row (now_at env 0) s reason result) l) = Inr l'"
  let ?f = "finish_run_row (now_at env 0) s reason result"
  have idr: "r_run_id (?f x) = r_run_id x" "run_key (?f x) = run_key x" for x
    by (simp_all add: finish_run_row_def run_key_def)
  note ur = upd_runs_one [where f = ?f and Q = "\<lambda>r. r_status r = EXECUTING \<and> r_execution_owner r = Some owner",
      OF ledger_inv_struct [OF inv] idr view_of_run [OF r(1)] conjI [OF r(2,3)]]
  note f = finish_run_row_facts [OF ledger_inv_run [OF inv r(1)] r(2,4) s(1), of "now_at env 0" reason]
  have step: "replay_step (t, json_norm True p) (abs_run r) = Some (abs_run (?f r))"
    unfolding f(7) using s(2-4) r(2) by (simp add: replay_step_def abs_run_def)
  from app have app1: "append_event rid t p (isoformat (now_at env 1)) (uuid_at env 0)
    (upd_runs (\<lambda>r. r_run_id r = rid \<and> r_status r = EXECUTING \<and> r_execution_owner r = Some owner) ?f l) = Inr l'"
    by simp
  show ?thesis by (rule good_change_append [OF inv r(1) ur app1 step f(3,1,2,6,4,5)])
qed

lemma fail_execution_good:
  "fail_execution env rid owner err l = Inr ((), l') \<Longrightarrow> ledger_inv l \<Longrightarrow> good_change rid l l'"
  unfolding fail_execution_def by (erule finish_one_event_good) (simp_all add: status_after_def)

lemma mark_execution_unknown_good:
  "mark_execution_unknown env rid owner err l = Inr ((), l') \<Longrightarrow> ledger_inv l \<Longrightarrow> good_change rid l l'"
  unfolding mark_execution_unknown_def Let_def by (erule finish_one_event_good) (simp_all add: status_after_def)

lemma complete_execution_good:
  assumes op: "complete_execution env rid owner result l = Inr ((), l')" and inv: "ledger_inv l"
  shows "good_change rid l l'"
proof (rule finish_execution_cases [OF op [unfolded complete_execution_def] ledger_inv_struct [OF inv]])
  fix r assume r: "fetch_run l rid = Some r" "r_status r = EXECUTING" "r_execution_owner r = Some owner"
    "result_json result = Inr ()"
    and app: "append_events env 1 0 rid [(''tool.execution.succeeded'', PDict []), (''run.completed'', PDict [])]
      (upd_runs (\<lambda>r. r_run_id r = rid \<and> r_status r = EXECUTING \<and> r_execution_owner r = Some owner)
        (finish_run_row (now_at env 0) COMPLETED None result) l) = Inr l'"
  let ?f = "finish_run_row (now_at env 0) COMPLETED None result"
  let ?l1 = "upd_runs (\<lambda>r. r_run_id r = rid \<and> r_status r = EXECUTING \<and> r_execution_owner r = Some owner) ?f l"
  note str = ledger_inv_struct [OF inv]
  have idr: "r_run_id (?f x) = r_run_id x" "run_key (?f x) = run_key x" for x
    by (simp_all add: finish_run_row_def run_key_def)
  note ur = upd_runs_one [where f = ?f and Q = "\<lambda>r. r_status r = EXECUTING \<and> r_execution_owner r = Some owner",
      OF str idr view_of_run [OF r(1)] conjI [OF r(2,3)]]
  have "COMPLETED \<in> {COMPLETED, FAILED, UNKNOWN}" by simp
  note f = finish_run_row_facts [OF ledger_inv_run [OF inv r(1)] r(2,4) this, of "now_at env 0" None]
  from app obtain l2 where app1: "append_event rid ''tool.execution.succeeded'' (PDict []) (isoformat (now_at env 1))
        (uuid_at env 0) ?l1 = Inr l2"
    and app2: "append_event rid ''run.completed'' (PDict []) (isoformat (now_at env 2)) (uuid_at env 1) l2 = Inr l'"
    by (auto simp: numeral_2_eq_2)
  have step1: "replay_step (''tool.execution.succeeded'', json_norm True (PDict [])) (abs_run r) = Some (abs_run r)"
    using r(2) by (simp add: replay_defs)
  have step2: "replay_step (''run.completed'', json_norm True (PDict [])) (abs_run r) = Some (abs_run (?f r))"
    unfolding f(7) using r(2) by (simp add: replay_defs)
  show ?thesis
    by (rule good_change_append2 [OF inv r(1) ur app1 app2 step1 step2 f(3,1,2,6,4,5)])
qed

section \<open>Reconciliation and recovery\<close>

lemma reconcile_run_row_facts:
  assumes "run_inv rid r es ao" "r_status r = UNKNOWN" "result_json result = Inr ()" "s \<in> {COMPLETED, FAILED}"
  shows "r_event_count (reconcile_run_row now s reason result r) = r_event_count r"
    "r_event_head_hash (reconcile_run_row now s reason result r) = r_event_head_hash r"
    "request_of (reconcile_run_row now s reason result r) = request_of r"
    "lease_ok (reconcile_run_row now s reason result r)" "columns_ok (reconcile_run_row now s reason result r)"
    "approval_ok (reconcile_run_row now s reason result r) ao"
    "abs_run (reconcile_run_row now s reason result r) = (abs_run r)\<lparr>ps_status := s\<rparr>"
  using run_inv_parts(3-5) [OF assms(1)] result_column_ok [OF assms(3)] assms(2,4)
  by (auto simp: reconcile_run_row_def request_of_def run_key_def lease_ok_def columns_ok_def abs_run_def
      approval_ok_def binding_matches_def started_def split: option.splits)

lemma reconcile_run_row_ids:
  "r_run_id (reconcile_run_row now s reason result x) = r_run_id x"
  "run_key (reconcile_run_row now s reason result x) = run_key x"
  by (simp_all add: reconcile_run_row_def run_key_def)

lemma reconciled_payload_status:
  assumes "s \<in> {COMPLETED, FAILED}"
  shows "reconciled_status (json_norm True (reconciled_payload op s reason)) = Some s"
proof -
  obtain xs where xs: "json_norm True (reconciled_payload op s reason) = PDict xs"
    by (simp add: reconciled_payload_def json_norm_PDict)
  from json_norm_PDict_get [OF this [unfolded reconciled_payload_def], of "''outcome''" "PStr (status_value s)"]
  have "map_of xs ''outcome'' = Some (PStr (status_value s))" by simp
  with xs assms show ?thesis by (auto simp: reconciled_status_def dict_get_def)
qed

lemma reconciled_step:
  assumes "s \<in> {COMPLETED, FAILED}" "r_status r = UNKNOWN"
  shows "replay_step (''run.reconciled'', json_norm True (reconciled_payload op s reason)) (abs_run r)
    = Some ((abs_run r)\<lparr>ps_status := s\<rparr>)"
  using assms reconciled_payload_status [OF assms(1), of op reason] by (simp add: replay_defs)

lemma reconcile_run_good:
  assumes op: "reconcile_run env rid s reason result operator l = Inr (b, l')" and inv: "ledger_inv l"
  shows "good_change rid l l'"
proof -
  note str = ledger_inv_struct [OF inv]
  let ?f = "reconcile_run_row (now_at env 0) s reason result"
  let ?l1 = "upd_runs (\<lambda>r. r_run_id r = rid \<and> r_status r = UNKNOWN) ?f l"
  from op have s: "s \<in> {COMPLETED, FAILED}" "result_json result = Inr ()"
    by (auto simp: reconcile_run_def simp del: result_json_Inr split: if_splits)
  show ?thesis
  proof (cases "sql_count (\<lambda>r. r_run_id r = rid \<and> r_status r = UNKNOWN) (l_runs l) = 1")
    case True
    obtain r where r: "fetch_run l rid = Some r" "r_status r = UNKNOWN" using sql_count_one_run [OF str True] .
    from op s r True have app: "append_event rid ''run.reconciled'' (reconciled_payload operator s reason)
        (isoformat (now_at env 1)) (uuid_at env 0) ?l1 = Inr l'"
      by (auto simp: reconcile_run_def Let_def simp del: result_json_Inr split: if_splits)
    note ur = upd_runs_one [where f = ?f and Q = "\<lambda>r. r_status r = UNKNOWN",
        OF str reconcile_run_row_ids view_of_run [OF r(1)] r(2)]
    note f = reconcile_run_row_facts [OF ledger_inv_run [OF inv r(1)] r(2) s(2,1), of "now_at env 0" reason]
    show ?thesis
      by (rule good_change_append [OF inv r(1) ur app _ f(3,1,2,6,4,5)])
        (simp only: reconciled_step [OF s(1) r(2)] f(7))
  next
    case False
    with op s have "l' = ?l1"
      by (auto simp: reconcile_run_def Let_def simp del: result_json_Inr split: if_splits option.splits)
    with inv False show ?thesis by (simp add: upd_runs_not_one str)
  qed
qed

lemma apply_provider_observation_good:
  assumes op: "apply_provider_observation env rid prov outc summ ref st result operator l = Inr (b, l')"
    and inv: "ledger_inv l"
  shows "good_change rid l l'"
proof (cases "l' = l")
  case False
  note str = ledger_inv_struct [OF inv]
  from op have pre: "expected_status outc = Some st" "result_json result = Inr ()"
    by (auto simp: apply_provider_observation_def simp del: result_json_Inr split: if_splits)
  from op False obtain r where r: "fetch_run l rid = Some r" "r_status r = UNKNOWN"
    by (auto simp: apply_provider_observation_def simp del: result_json_Inr split: if_splits option.splits)
  from op False pre r obtain l1 where app1: "append_event rid ''provider.reconciliation.observed''
        (observed_payload operator prov outc summ ref) (isoformat (now_at env 0)) (uuid_at env 0) l = Inr l1"
    and rest: "(case st of None \<Rightarrow> Inr (True, l1) | Some s \<Rightarrow>
        let reason = prov @ '' lookup: '' @ summ;
            l2 = upd_runs (\<lambda>r. r_run_id r = rid \<and> r_status r = UNKNOWN)
                   (reconcile_run_row (now_at env 1) s reason result) l1 in
        if sql_count (\<lambda>r. r_run_id r = rid \<and> r_status r = UNKNOWN) (l_runs l1) \<noteq> 1
        then raise_exc InvalidTransition ''provider observation and reconciliation became inconsistent''
        else res_bind (append_event rid ''run.reconciled'' (reconciled_payload operator s reason)
               (isoformat (now_at env 2)) (uuid_at env 1) l2) (\<lambda>l3. Inr (True, l3))) = Inr (b, l')"
    by (auto simp: apply_provider_observation_def simp del: result_json_Inr split: if_splits)
  note i = run_inv_parts [OF ledger_inv_run [OF inv r(1)]]
  let ?es = "run_events l rid" and ?ao = "fetch_approval l rid"
  have step1: "replay_step (''provider.reconciliation.observed'',
      json_norm True (observed_payload operator prov outc summ ref)) (abs_run r) = Some (abs_run r)"
    using r(2) by (simp add: replay_defs)
  from push_view [OF app1 str view_of_run [OF r(1)] i(1,2) step1] obtain h e where e:
    "changes_only rid l l1" "view l1 rid = (Some (anchor_run_row h r), ?es @ [e], ?ao)"
    "chain_ok rid (anchor_run_row h r) (?es @ [e])" "replay (log_of (?es @ [e])) = Some (abs_run r)" .
  have inv1: "run_inv rid (anchor_run_row h r) (?es @ [e]) ?ao" using e(3,4) i(3-5) by (simp add: run_inv_def)
  have one: "good_change rid l l1"
    by (rule good_changeI [OF e(1) view_of_run [OF r(1)] e(2) _ inv1]) simp
  have linv1: "ledger_inv l1" using good_change_changes [OF one inv] by (simp add: good_changes_def)
  have r1: "fetch_run l1 rid = Some (anchor_run_row h r)" "r_status (anchor_run_row h r) = UNKNOWN"
    using e(2) r(2) by (simp_all add: view_eq anchor_run_row_def)
  show ?thesis
  proof (cases st)
    case None
    with rest one show ?thesis by simp
  next
    case (Some s)
    with pre(1) have s: "s \<in> {COMPLETED, FAILED}" by (auto simp: expected_status_def split: if_splits)
    let ?reason = "prov @ '' lookup: '' @ summ"
    let ?f = "reconcile_run_row (now_at env 1) s ?reason result"
    from rest Some have app2: "append_event rid ''run.reconciled'' (reconciled_payload operator s ?reason)
        (isoformat (now_at env 2)) (uuid_at env 1) (upd_runs (\<lambda>r. r_run_id r = rid \<and> r_status r = UNKNOWN) ?f l1) = Inr l'"
      by (auto simp: Let_def split: if_splits)
    note ur = upd_runs_one [where f = ?f and Q = "\<lambda>r. r_status r = UNKNOWN",
        OF ledger_inv_struct [OF linv1] reconcile_run_row_ids view_of_run [OF r1(1)] r1(2)]
    note f = reconcile_run_row_facts [OF ledger_inv_run [OF linv1 r1(1)] r1(2) pre(2) s, of "now_at env 1" ?reason]
    have two: "good_change rid l1 l'"
      by (rule good_change_append [OF linv1 r1(1) ur app2 _ f(3,1,2,6,4,5)]) (simp only: reconciled_step [OF s r1(2)] f(7))
    show ?thesis using one two by (auto simp: good_change_def intro: changes_only_trans view_extends_trans)
  qed
qed (use inv in simp)

lemma recover_loop_good:
  assumes "recover_loop env now k rids l = Inr (recovered, l')" "ledger_inv l"
  shows "good_changes l l'"
  using assms
proof (induction rids arbitrary: k l recovered)
  case (Cons rid rids)
  from Cons.prems obtain hit l1 rest where
    one: "mark_expired_execution (isoformat (now_at env (Suc k))) (uuid_at env k) rid now l = Inr (hit, l1)"
    and loop: "recover_loop env now (if hit then Suc k else k) rids l1 = Inr (rest, l')"
    by auto
  have c: "good_changes l l1" using mark_expired_execution_good [OF one Cons.prems(2)] Cons.prems(2)
    by (rule good_change_changes)
  then have "ledger_inv l1" by (simp add: good_changes_def)
  from Cons.IH [OF loop this] c show ?case by (rule good_changes_trans [rotated])
qed (simp add: good_changes_refl)

lemmas run_op_good = create_or_get_run_good record_duplicate_good record_policy_decision_good
  decide_approval_good claim_execution_good heartbeat_execution_good complete_execution_good
  fail_execution_good mark_execution_unknown_good reconcile_run_good apply_provider_observation_good

end
