(* ===== verification/Ledger_Reach.thy ===== *)
theory Ledger_Reach
  imports Ledger_Steps2
begin

text \<open>
  The ledger as a transition system: any client may call any operation with any arguments, in
  any order. A state machine with an invariant is an interface (\<open>transition_system\<close>); it is
  interpreted on the ledger with the invariant of \<open>Ledger_Inv\<close>, and every lifecycle property is
  a consequence for the reachable ledgers.
\<close>

section \<open>Transition systems\<close>

inductive reach :: "('s \<Rightarrow> bool) \<Rightarrow> ('s \<Rightarrow> 's \<Rightarrow> bool) \<Rightarrow> 's \<Rightarrow> bool" for init step where
  start: "init s \<Longrightarrow> reach init step s"
| step: "reach init step s \<Longrightarrow> step s s' \<Longrightarrow> reach init step s'"

locale transition_system =
  fixes init :: "'s \<Rightarrow> bool" and step :: "'s \<Rightarrow> 's \<Rightarrow> bool"
    and inv :: "'s \<Rightarrow> bool" and extends :: "'s \<Rightarrow> 's \<Rightarrow> bool"
  assumes init_inv: "init s \<Longrightarrow> inv s"
    and step_inv: "inv s \<Longrightarrow> step s s' \<Longrightarrow> inv s'"
    and step_extends: "inv s \<Longrightarrow> step s s' \<Longrightarrow> extends s s'"
    and extends_refl: "extends s s"
    and extends_trans: "extends s t \<Longrightarrow> extends t u \<Longrightarrow> extends s u"
begin

lemma reach_inv: "reach init step s \<Longrightarrow> inv s"
  by (induction rule: reach.induct) (auto intro: init_inv step_inv)

lemma steps_extend:
  assumes "step\<^sup>*\<^sup>* s t" "inv s"
  shows "inv t \<and> extends s t"
  using assms
proof (induction rule: rtranclp_induct)
  case (step t u)
  then show ?case using step_inv step_extends extends_trans by blast
qed (simp add: extends_refl)

lemma reach_steps: "step\<^sup>*\<^sup>* s t \<Longrightarrow> reach init step s \<Longrightarrow> reach init step t"
  by (induction rule: rtranclp_induct) (auto intro: reach.step)

end

section \<open>The ledger\<close>

inductive ledger_step :: "ledger \<Rightarrow> ledger \<Rightarrow> bool" where
  create: "create_or_get_run env rid tenant actor roles evidence name risk key fp args meta l = Inr (x, l')
    \<Longrightarrow> ledger_step l l'"
| duplicate: "record_duplicate rid l = Inr (u, l') \<Longrightarrow> ledger_step l l'"
| policy: "record_policy_decision env rid d ttl l = Inr (u, l') \<Longrightarrow> ledger_step l l'"
| decide: "decide_approval env rid approved approver reason roles self l = Inr (b, l') \<Longrightarrow> ledger_step l l'"
| expire: "expire_approvals env tenant_filter l = Inr (rids, l') \<Longrightarrow> ledger_step l l'"
| claim: "claim_execution env rid owner secs l = Inr (b, l') \<Longrightarrow> ledger_step l l'"
| heartbeat: "heartbeat_execution env rid owner secs l = Inr (b, l') \<Longrightarrow> ledger_step l l'"
| complete: "complete_execution env rid owner result l = Inr (u, l') \<Longrightarrow> ledger_step l l'"
| fail: "fail_execution env rid owner err l = Inr (u, l') \<Longrightarrow> ledger_step l l'"
| unknown: "mark_execution_unknown env rid owner err l = Inr (u, l') \<Longrightarrow> ledger_step l l'"
| recover: "recover_expired_executions env tenant_filter l = Inr (rids, l') \<Longrightarrow> ledger_step l l'"
| reconcile: "reconcile_run env rid status reason result operator l = Inr (b, l') \<Longrightarrow> ledger_step l l'"
| observe: "apply_provider_observation env rid provider outcome summary reference st result operator l = Inr (b, l')
    \<Longrightarrow> ledger_step l l'"

abbreviation reachable :: "ledger \<Rightarrow> bool" where
  "reachable \<equiv> reach (\<lambda>l. l = empty_ledger) ledger_step"

definition views_extend :: "ledger \<Rightarrow> ledger \<Rightarrow> bool" where
  "views_extend l l' \<longleftrightarrow> (\<forall>rid. view_extends (view l rid) (view l' rid))"

lemma ledger_step_good: "ledger_step l l' \<Longrightarrow> ledger_inv l \<Longrightarrow> good_changes l l'"
proof (induction rule: ledger_step.induct)
  case (create env rid tenant actor roles evidence name risk key fp args meta l x l')
  then show ?case by (cases x) (auto intro: good_change_changes run_op_good)
next
  case (expire env tenant_filter l rids l')
  then show ?case by (auto simp: expire_approvals_def Let_def intro: expire_loop_good)
next
  case (recover env tenant_filter l rids l')
  then show ?case by (auto simp: recover_expired_executions_def Let_def intro: recover_loop_good)
qed (auto intro: good_change_changes run_op_good)

interpretation ledger_system: transition_system "\<lambda>l. l = empty_ledger" ledger_step ledger_inv views_extend
proof
  show "l = empty_ledger \<Longrightarrow> ledger_inv l" for l by simp
  show "ledger_inv l \<Longrightarrow> ledger_step l l' \<Longrightarrow> ledger_inv l'" for l l'
    by (auto dest: ledger_step_good simp: good_changes_def)
  show "ledger_inv l \<Longrightarrow> ledger_step l l' \<Longrightarrow> views_extend l l'" for l l'
    by (auto dest: ledger_step_good simp: good_changes_def views_extend_def)
  show "views_extend l l" for l by (simp add: views_extend_def)
  show "views_extend l l' \<Longrightarrow> views_extend l' l'' \<Longrightarrow> views_extend l l''" for l l' l''
    by (auto simp: views_extend_def intro: view_extends_trans)
qed

lemma reachable_inv: "reachable l \<Longrightarrow> ledger_inv l"
  by (rule ledger_system.reach_inv)

lemma reachable_run: "reachable l \<Longrightarrow> fetch_run l rid = Some r \<Longrightarrow>
    run_inv rid r (run_events l rid) (fetch_approval l rid)"
  by (rule ledger_inv_run [OF reachable_inv])

text \<open>How a run may look after any number of operations.\<close>

lemma steps_run:
  assumes "ledger_step\<^sup>*\<^sup>* l l'" "ledger_inv l" "fetch_run l rid = Some r"
  obtains r' es where "fetch_run l' rid = Some r'" "request_of r' = request_of r" "ledger_inv l'"
    "run_events l' rid = run_events l rid @ es" "replay_from (abs_run r) (log_of es) = Some (abs_run r')"
proof -
  from ledger_system.steps_extend [OF assms(1,2)] have inv': "ledger_inv l'"
    and ext: "view_extends (view l rid) (view l' rid)" by (auto simp: views_extend_def)
  from ext assms(3) obtain r' es where r': "fetch_run l' rid = Some r'" "request_of r' = request_of r"
      "run_events l' rid = run_events l rid @ es"
    by (auto simp: view_extends_def view_def prefix_def split: option.splits)
  have "replay (log_of (run_events l rid)) = Some (abs_run r)"
    using ledger_inv_run [OF assms(2,3)] by (rule run_inv_replay)
  from replay_append [OF this, of "log_of es"] run_inv_replay [OF ledger_inv_run [OF inv' r'(1)]] r'(3)
  have "replay_from (abs_run r) (log_of es) = Some (abs_run r')" by simp
  with that r' inv' show thesis by blast
qed

text \<open>A terminal run stays as it is.\<close>

lemma terminal_steps:
  assumes "ledger_step\<^sup>*\<^sup>* l l'" "ledger_inv l" "fetch_run l rid = Some r" "terminal (r_status r)"
  obtains r' where "fetch_run l' rid = Some r'" "request_of r' = request_of r" "r_status r' = r_status r"
    "r_attempt r' = r_attempt r" "run_events l' rid = run_events l rid"
proof -
  from steps_run [OF assms(1-3)] obtain r' es where r':
    "fetch_run l' rid = Some r'" "request_of r' = request_of r" "run_events l' rid = run_events l rid @ es"
    "replay_from (abs_run r) (log_of es) = Some (abs_run r')" by metis
  from replay_from_terminal [OF _ r'(4)] assms(4) have "log_of es = []" "abs_run r' = abs_run r"
    by (auto simp: abs_run_def)
  with r' that show thesis by (auto simp: abs_run_def log_of_def)
qed

end
