(* ===== verification/Ledger_Effects.thy ===== *)
theory Ledger_Effects
  imports Ledger_Reach
begin

text \<open>
  What the operations did when they succeeded, as the row, the approval and the events they
  leave. An append changes only the anchor of the chain in the row.
\<close>

definition same_but_anchor :: "run_row \<Rightarrow> run_row \<Rightarrow> bool" where
  "same_but_anchor r r' \<longleftrightarrow> r' = r\<lparr>r_event_count := r_event_count r', r_event_head_hash := r_event_head_hash r'\<rparr>"

lemma same_but_anchor_refl [simp]: "same_but_anchor r r"
  by (simp add: same_but_anchor_def)

lemma same_but_anchor_step: "same_but_anchor (anchor_run_row h r) r' \<Longrightarrow> same_but_anchor r r'"
  by (cases r; cases r') (simp add: same_but_anchor_def anchor_run_row_def)

lemma same_but_anchor_anchor [simp]: "same_but_anchor r (anchor_run_row h r)"
  by (rule same_but_anchor_step [OF same_but_anchor_refl])

lemma same_but_anchor_columns:
  "same_but_anchor r r' \<Longrightarrow> r_status r' = r_status r \<and> r_execution_owner r' = r_execution_owner r
     \<and> r_lease_expires_at r' = r_lease_expires_at r \<and> r_attempt r' = r_attempt r \<and> r_reason r' = r_reason r
     \<and> r_result r' = r_result r \<and> r_policy_version r' = r_policy_version r \<and> r_policy_digest r' = r_policy_digest r
     \<and> request_of r' = request_of r"
  by (cases r; cases r') (simp add: same_but_anchor_def request_of_def run_key_def)

text \<open>The events of a list of types and payloads, as they are stored.\<close>

definition stored :: "(string \<times> pyval) list \<Rightarrow> (string \<times> pyval) list" where
  "stored evs = map (\<lambda>(t, p). (t, json_norm True p)) evs"

lemma append_event_effect:
  assumes "append_event rid t p ts eid l = Inr l'" "struct_inv l" "fetch_run l rid = Some r"
  obtains r' es where "changes_only rid l l'" "fetch_run l' rid = Some r'" "same_but_anchor r r'"
    "run_events l' rid = run_events l rid @ es" "log_of es = stored [(t, p)]"
    "fetch_approval l' rid = fetch_approval l rid"
proof -
  from append_event_InrD [OF assms(1,2)] assms(3) obtain h where
    "changes_only rid l l'" "view l' rid = (Some (anchor_run_row h r),
       run_events l rid @ [appended l rid t p ts eid h], fetch_approval l rid)" by auto
  then show thesis
    by (intro that [of "anchor_run_row h r" "[appended l rid t p ts eid h]"])
      (simp_all add: view_eq log_of_def stored_def appended_def new_event_def)
qed

lemma append_events_effect:
  assumes "append_events env i k rid evs l = Inr l'" "struct_inv l" "fetch_run l rid = Some r"
  shows "\<exists>r' es. changes_only rid l l' \<and> fetch_run l' rid = Some r' \<and> same_but_anchor r r'
    \<and> run_events l' rid = run_events l rid @ es \<and> log_of es = stored evs
    \<and> fetch_approval l' rid = fetch_approval l rid"
  using assms
proof (induction evs arbitrary: i k l r)
  case (Cons ev evs)
  obtain t p where ev: "ev = (t, p)" by (cases ev)
  from Cons.prems(1) ev obtain l1 where l1:
    "append_event rid t p (isoformat (now_at env i)) (uuid_at env k) l = Inr l1"
    "append_events env (Suc i) (Suc k) rid evs l1 = Inr l'" by auto
  from append_event_InrD [OF l1(1) Cons.prems(2)] Cons.prems(3) obtain h where h: "changes_only rid l l1"
    "view l1 rid = (Some (anchor_run_row h r), run_events l rid @ [appended l rid t p
       (isoformat (now_at env i)) (uuid_at env k) h], fetch_approval l rid)" by auto
  then have v: "fetch_run l1 rid = Some (anchor_run_row h r)" by (simp add: view_eq)
  from Cons.IH [OF l1(2) changes_only_struct [OF h(1) Cons.prems(2)] v] obtain r' es where
    "changes_only rid l1 l'" "fetch_run l' rid = Some r'" "same_but_anchor (anchor_run_row h r) r'"
    "run_events l' rid = run_events l1 rid @ es" "log_of es = stored evs"
    "fetch_approval l' rid = fetch_approval l1 rid" by blast
  with h show ?case using changes_only_trans [OF h(1)] same_but_anchor_step
    by (intro exI [of _ r'] exI [of _ "appended l rid t p (isoformat (now_at env i)) (uuid_at env k) h # es"])
      (auto simp: view_eq ev log_of_def stored_def appended_def new_event_def)
qed (auto simp: stored_def log_of_def)

section \<open>Creation\<close>

lemma create_effect:
  assumes "create_or_get_run env rid tenant actor roles evidence name risk key fp args meta l = Inr ((row, True), l')"
    "struct_inv l"
  shows "\<exists>r. fetch_run l rid = None \<and> fetch_run l' rid = Some r \<and> request_of r = request_of row \<and> r_status r = CREATED
    \<and> run_key r = (tenant, name, key) \<and> r_fingerprint r = fp \<and> r_arguments r = json_norm True (PDict args)"
proof -
  from assms(1) have fresh: "\<not> list_ex (\<lambda>r. r_run_id r = rid \<or>
      (r_tenant_id r = tenant \<and> r_action_name r = name \<and> r_idempotency_key r = key)) (l_runs l)"
    by (auto simp: create_or_get_run_def Let_def split: option.splits if_splits)
  define new where "new = \<lparr>r_run_id = rid, r_tenant_id = tenant, r_actor_id = actor,
    r_action_name = name, r_risk = risk, r_idempotency_key = key, r_fingerprint = fp, r_status = CREATED,
    r_arguments = json_norm True (PDict args), r_roles = roles, r_evidence = evidence,
    r_metadata = json_norm True (or_empty meta), r_policy_version = None, r_policy_digest = None,
    r_reason = None, r_result = None, r_execution_owner = None, r_lease_expires_at = None,
    r_attempt = 0, r_duplicate_count = 0, r_event_count = 0, r_event_head_hash = None,
    r_created_at = now_at env 0, r_updated_at = now_at env 0\<rparr>"
  define l1 where "l1 = l\<lparr>l_runs := l_runs l @ [new]\<rparr>"
  let ?p = "\<lambda>r. r_tenant_id r = tenant \<and> r_action_name r = name \<and> r_idempotency_key r = key"
  have "find ?p (l_runs l) = None" using fresh by (auto simp: find_None_iff list_ex_iff)
  then have found: "find ?p (l_runs l1) = Some new" by (simp add: l1_def new_def find_append)
  from fresh assms(1) found obtain p where app: "row = new"
      "append_event rid ''run.created'' p (isoformat (now_at env 0)) (uuid_at env 0) l1 = Inr l'"
    unfolding create_or_get_run_def l1_def new_def
    by (auto simp: Let_def split: option.splits if_splits)
  from fresh have fresh': "rid \<notin> r_run_id ` set (l_runs l)" "run_key new \<notin> run_key ` set (l_runs l)"
    by (auto simp: list_ex_iff run_key_def new_def)
  have c1: "changes_only rid l l1" and v1: "view l1 rid = (Some new, [], None)"
    unfolding l1_def using fresh' assms(2) by (auto intro!: changes_only_insert_run view_insert_run simp: new_def)
  have f1: "fetch_run l1 rid = Some new" using v1 by (simp add: view_eq)
  show ?thesis
  proof (rule append_event_effect [OF app(2) changes_only_struct [OF c1 assms(2)] f1])
    fix r' assume r': "fetch_run l' rid = Some r'" "same_but_anchor new r'"
    have "fetch_run l rid = None" using fresh'(1) by (simp add: fetch_by_None_iff)
    with r' app(1) same_but_anchor_columns [OF r'(2)] show ?thesis
      by (auto simp: new_def request_of_def run_key_def simp del: json_norm_PDict)
  qed
qed

lemma find_key:
  "find (\<lambda>r. r_tenant_id r = t \<and> r_action_name r = n \<and> r_idempotency_key r = k) rs
    = find (\<lambda>r. run_key r = (t, n, k)) rs"
  by (simp add: run_key_def)

lemma find_by_key:
  "distinct (map run_key rs) \<Longrightarrow> r \<in> set rs \<Longrightarrow> run_key r = k \<Longrightarrow> find (\<lambda>r. run_key r = k) rs = Some r"
  using fetch_by_Some_iff [of run_key rs k r] by (simp add: fetch_by_def)

text \<open>A key in use answers with its run, or with a conflict.\<close>

lemma create_existing:
  assumes "struct_inv l" "r \<in> set (l_runs l)" "run_key r = (tenant, name, key)"
    "json_error True (PDict args) = None" "json_error True meta = None"
  shows "create_or_get_run env rid tenant actor roles evidence name risk key fp args meta l
    = (if fp = r_fingerprint r then Inr ((r, False), l)
       else raise_exc IdempotencyConflict ''idempotency key was already used for a different governed request'')"
proof -
  have keys: "distinct (map run_key (l_runs l))" by (rule struct_inv_keys [OF assms(1)])
  have found: "find (\<lambda>r. r_tenant_id r = tenant \<and> r_action_name r = name \<and> r_idempotency_key r = key) (l_runs l) = Some r"
    unfolding find_key by (rule find_by_key [OF keys assms(2,3)])
  have "list_ex (\<lambda>r. r_run_id r = rid \<or> (r_tenant_id r = tenant \<and> r_action_name r = name
      \<and> r_idempotency_key r = key)) (l_runs l)"
    using assms(2,3) by (auto simp: list_ex_iff run_key_def)
  moreover have "json_error True (or_empty meta) = None" using assms(5) by (simp add: or_empty_def)
  ultimately show ?thesis using found assms(4)
    by (simp add: create_or_get_run_def Let_def py_json_ok)
qed

section \<open>Claims\<close>

lemma claim_execution_effect:
  assumes op: "claim_execution env rid owner secs l = Inr (True, l')" and str: "struct_inv l"
  obtains r r' es lease where "fetch_run l rid = Some r" "claimable r" "fetch_run l' rid = Some r'"
    "same_but_anchor (claim_run_row (now_at env 0) owner lease r) r'"
    "add_seconds (now_at env 0) (nat secs) = Inr lease"
    "run_events l' rid = run_events l rid @ es"
    "log_of es = stored ((if r_status r = APPROVED then [(''run.resumed'', PDict [])] else [])
       @ [(''tool.execution.started'', started_payload owner (Suc (r_attempt r)) lease)])"
proof (rule claim_execution_cases [OF op str])
  fix r lease
  assume r: "fetch_run l rid = Some r" "claimable r" "add_seconds (now_at env 0) (nat secs) = Inr lease"
    and app: "append_events env 1 0 rid
        ((if r_status r = APPROVED then [(''run.resumed'', PDict [])] else [])
          @ [(''tool.execution.started'', started_payload owner (Suc (r_attempt r)) lease)])
        (upd_runs (\<lambda>r. r_run_id r = rid \<and> claimable r) (claim_run_row (now_at env 0) owner lease) l) = Inr l'"
  let ?f = "claim_run_row (now_at env 0) owner lease"
  have idr: "r_run_id (?f x) = r_run_id x" "run_key (?f x) = run_key x" for x
    by (simp_all add: claim_run_row_def run_key_def)
  note ur = upd_runs_one [where f = ?f and Q = claimable, OF str idr view_of_run [OF r(1)] r(2)]
  from ur(2) have v: "fetch_run (upd_runs (\<lambda>r. r_run_id r = rid \<and> claimable r) ?f l) rid = Some (?f r)"
    "run_events (upd_runs (\<lambda>r. r_run_id r = rid \<and> claimable r) ?f l) rid = run_events l rid" by (simp_all add: view_eq)
  from append_events_effect [OF app changes_only_struct [OF ur(1) str] v(1)] r that show thesis
    unfolding v(2) by blast
qed simp_all

section \<open>Decisions\<close>

lemma decide_approval_effect:
  assumes op: "decide_approval env rid approved approver reason roles self l = Inr (True, l')" and str: "struct_inv l"
  obtains r a r' es where "fetch_run l rid = Some r" "fetch_approval l rid = Some a"
    "vp_tenant_id approver = r_tenant_id r" "list_ex (\<lambda>role. role \<in> set (vp_roles approver)) roles"
    "self \<or> vp_actor_id approver \<noteq> a_requested_actor a" "a_status a = PENDING_APPROVAL"
    "r_status r = PENDING_APPROVAL" "now_at env 0 < a_expires_at a" "binding_matches r a"
    "fetch_run l' rid = Some r'"
    "same_but_anchor (decide_run_row (now_at env 0) (if approved then APPROVED else REJECTED) reason r) r'"
    "fetch_approval l' rid = Some (decide_approval_row (now_at env 0) (if approved then APPROVED else REJECTED) approver reason a)"
    "run_events l' rid = run_events l rid @ es"
    "log_of es = stored [(if approved then ''approval.approved'' else ''approval.rejected'', approval_decided_payload approver reason r)]"
proof -
  from op obtain r a where ra: "fetch_run l rid = Some r" "fetch_approval l rid = Some a"
    by (auto simp: decide_approval_def Let_def split: option.splits)
  let ?s = "if approved then APPROVED else REJECTED"
  let ?f = "decide_run_row (now_at env 0) ?s reason" and ?g = "decide_approval_row (now_at env 0) ?s approver reason"
  let ?la = "upd_approvals (\<lambda>a. a_run_id a = rid \<and> a_status a = PENDING_APPROVAL) ?g l"
  let ?l1 = "upd_runs (\<lambda>r. r_run_id r = rid \<and> r_status r = PENDING_APPROVAL) ?f ?la"
  from op ra have c: "vp_tenant_id approver = r_tenant_id r" "list_ex (\<lambda>role. role \<in> set (vp_roles approver)) roles"
      "self \<or> vp_actor_id approver \<noteq> a_requested_actor a" "a_status a = PENDING_APPROVAL" "r_status r = PENDING_APPROVAL"
      "now_at env 0 < a_expires_at a" "binding_matches r a"
    and app: "append_event rid (if approved then ''approval.approved'' else ''approval.rejected'')
      (approval_decided_payload approver reason r) (isoformat (now_at env 1)) (uuid_at env 0) ?l1 = Inr l'"
    by (auto simp: decide_approval_def Let_def split: if_splits)
  have ids: "a_run_id (?g x) = a_run_id x" for x by (simp add: decide_approval_row_def)
  have idr: "r_run_id (?f x) = r_run_id x" "run_key (?f x) = run_key x" for x
    by (simp_all add: decide_run_row_def run_key_def)
  note ua = upd_approvals_one [where f = ?g and Q = "\<lambda>a. a_status a = PENDING_APPROVAL",
      OF str ids view_of_run [OF ra(1), unfolded ra(2)] c(4)]
  note ur = upd_runs_one [where f = ?f and Q = "\<lambda>r. r_status r = PENDING_APPROVAL",
      OF changes_only_struct [OF ua(1) str] idr ua(2) c(5)]
  from ur(2) have v: "fetch_run ?l1 rid = Some (?f r)" "run_events ?l1 rid = run_events l rid"
    "fetch_approval ?l1 rid = Some (?g a)" by (simp_all add: view_eq)
  show thesis
    by (rule append_event_effect [OF app changes_only_struct [OF ur(1) changes_only_struct [OF ua(1) str]] v(1)])
      (use that ra c v in auto)
qed

section \<open>Finished executions\<close>

lemma finish_execution_effect:
  assumes op: "finish_execution env rid owner s reason result evs l = Inr ((), l')" and str: "struct_inv l"
  obtains r r' es where "fetch_run l rid = Some r" "r_status r = EXECUTING" "r_execution_owner r = Some owner"
    "fetch_run l' rid = Some r'" "same_but_anchor (finish_run_row (now_at env 0) s reason result r) r'"
    "run_events l' rid = run_events l rid @ es" "log_of es = stored evs"
proof (rule finish_execution_cases [OF op str])
  fix r assume r: "fetch_run l rid = Some r" "r_status r = EXECUTING" "r_execution_owner r = Some owner"
    and app: "append_events env 1 0 rid evs (upd_runs (\<lambda>r. r_run_id r = rid \<and> r_status r = EXECUTING
       \<and> r_execution_owner r = Some owner) (finish_run_row (now_at env 0) s reason result) l) = Inr l'"
  let ?f = "finish_run_row (now_at env 0) s reason result"
  have idr: "r_run_id (?f x) = r_run_id x" "run_key (?f x) = run_key x" for x
    by (simp_all add: finish_run_row_def run_key_def)
  note ur = upd_runs_one [where f = ?f and Q = "\<lambda>r. r_status r = EXECUTING \<and> r_execution_owner r = Some owner",
      OF str idr view_of_run [OF r(1)] conjI [OF r(2,3)]]
  from ur(2) have v: "fetch_run (upd_runs (\<lambda>r. r_run_id r = rid \<and> r_status r = EXECUTING
       \<and> r_execution_owner r = Some owner) ?f l) rid = Some (?f r)"
    "run_events (upd_runs (\<lambda>r. r_run_id r = rid \<and> r_status r = EXECUTING
       \<and> r_execution_owner r = Some owner) ?f l) rid = run_events l rid" by (simp_all add: view_eq)
  from append_events_effect [OF app changes_only_struct [OF ur(1) str] v(1)] r that show thesis
    unfolding v(2) by blast
qed

section \<open>Reconciliation\<close>

text \<open>An unknown run written with its reconciled outcome and its event.\<close>

lemma reconcile_write_effect:
  assumes str: "struct_inv l" and r: "fetch_run l rid = Some r" "r_status r = UNKNOWN"
    and app: "append_event rid t p ts eid (upd_runs (\<lambda>r. r_run_id r = rid \<and> r_status r = UNKNOWN)
      (reconcile_run_row now s reason result) l) = Inr l'"
  obtains r' es where "fetch_run l' rid = Some r'" "same_but_anchor (reconcile_run_row now s reason result r) r'"
    "run_events l' rid = run_events l rid @ es" "log_of es = stored [(t, p)]"
proof -
  let ?f = "reconcile_run_row now s reason result"
  let ?l1 = "upd_runs (\<lambda>r. r_run_id r = rid \<and> r_status r = UNKNOWN) ?f l"
  note ur = upd_runs_one [where f = ?f and Q = "\<lambda>r. r_status r = UNKNOWN",
      OF str reconcile_run_row_ids view_of_run [OF r(1)] r(2)]
  from ur(2) have v: "fetch_run ?l1 rid = Some (?f r)" "run_events ?l1 rid = run_events l rid" by (simp_all add: view_eq)
  from append_event_effect [OF app changes_only_struct [OF ur(1) str] v(1)] that show thesis unfolding v(2) by blast
qed

lemma reconcile_run_effect:
  assumes op: "reconcile_run env rid s reason result operator l = Inr (True, l')" and str: "struct_inv l"
  obtains r r' es where "fetch_run l rid = Some r" "r_status r = UNKNOWN" "s = COMPLETED \<or> s = FAILED"
    "vp_tenant_id operator = r_tenant_id r" "fetch_run l' rid = Some r'"
    "same_but_anchor (reconcile_run_row (now_at env 0) s reason result r) r'"
    "run_events l' rid = run_events l rid @ es" "log_of es = stored [(''run.reconciled'', reconciled_payload operator s reason)]"
proof -
  from op obtain r where r: "fetch_run l rid = Some r" "s = COMPLETED \<or> s = FAILED" "vp_tenant_id operator = r_tenant_id r"
    by (auto simp: reconcile_run_def simp del: result_json_Inr split: if_splits option.splits)
  from op r have one: "sql_count (\<lambda>r. r_run_id r = rid \<and> r_status r = UNKNOWN) (l_runs l) = 1"
    by (auto simp: reconcile_run_def Let_def simp del: result_json_Inr split: if_splits)
  then have u: "r_status r = UNKNOWN" using r(1) by (simp add: sql_count_fetch_run [OF str] split: if_splits)
  from op r one have app: "append_event rid ''run.reconciled'' (reconciled_payload operator s reason)
        (isoformat (now_at env 1)) (uuid_at env 0) (upd_runs (\<lambda>r. r_run_id r = rid \<and> r_status r = UNKNOWN)
          (reconcile_run_row (now_at env 0) s reason result) l) = Inr l'"
    by (auto simp: reconcile_run_def Let_def simp del: result_json_Inr split: if_splits)
  from reconcile_write_effect [OF str r(1) u app] r u that show thesis by blast
qed

lemma observation_effect:
  assumes op: "apply_provider_observation env rid prov outc summ ref st result operator l = Inr (True, l')"
    and str: "struct_inv l"
  obtains r r' es es' where "fetch_run l rid = Some r" "r_status r = UNKNOWN" "vp_tenant_id operator = r_tenant_id r"
    "expected_status outc = Some st" "fetch_run l' rid = Some r'" "run_events l' rid = run_events l rid @ es @ es'"
    "log_of es = stored [(''provider.reconciliation.observed'', observed_payload operator prov outc summ ref)]"
    "(st = None \<and> es' = [] \<and> same_but_anchor r r')
      \<or> (\<exists>s. st = Some s \<and> r_status r' = s \<and> r_result r' = (if result = PNone then None else Some (json_norm True result))
            \<and> log_of es' = stored [(''run.reconciled'', reconciled_payload operator s (prov @ '' lookup: '' @ summ))])"
proof -
  from op have pre: "expected_status outc = Some st"
    by (auto simp: apply_provider_observation_def simp del: result_json_Inr split: if_splits)
  from op obtain r where r: "fetch_run l rid = Some r" "r_status r = UNKNOWN" "vp_tenant_id operator = r_tenant_id r"
    by (auto simp: apply_provider_observation_def simp del: result_json_Inr split: if_splits option.splits)
  from op pre r obtain l1 where app1: "append_event rid ''provider.reconciliation.observed''
        (observed_payload operator prov outc summ ref) (isoformat (now_at env 0)) (uuid_at env 0) l = Inr l1"
    and rest: "(case st of None \<Rightarrow> Inr (True, l1) | Some s \<Rightarrow>
        let reason = prov @ '' lookup: '' @ summ;
            l2 = upd_runs (\<lambda>r. r_run_id r = rid \<and> r_status r = UNKNOWN)
                   (reconcile_run_row (now_at env 1) s reason result) l1 in
        if sql_count (\<lambda>r. r_run_id r = rid \<and> r_status r = UNKNOWN) (l_runs l1) \<noteq> 1
        then raise_exc InvalidTransition ''provider observation and reconciliation became inconsistent''
        else res_bind (append_event rid ''run.reconciled'' (reconciled_payload operator s reason)
               (isoformat (now_at env 2)) (uuid_at env 1) l2) (\<lambda>l3. Inr (True, l3))) = Inr (True, l')"
    by (auto simp: apply_provider_observation_def simp del: result_json_Inr split: if_splits)
  show thesis
  proof (rule append_event_effect [OF app1 str r(1)])
    fix r1 es assume e: "changes_only rid l l1" "fetch_run l1 rid = Some r1" "same_but_anchor r r1"
      "run_events l1 rid = run_events l rid @ es"
      "log_of es = stored [(''provider.reconciliation.observed'', observed_payload operator prov outc summ ref)]"
    show thesis
    proof (cases st)
      case None
      with rest e r pre that [of r r1 es "[]"] show thesis by simp
    next
      case (Some s)
      let ?reason = "prov @ '' lookup: '' @ summ"
      from rest Some have app2: "append_event rid ''run.reconciled'' (reconciled_payload operator s ?reason)
          (isoformat (now_at env 2)) (uuid_at env 1) (upd_runs (\<lambda>r. r_run_id r = rid \<and> r_status r = UNKNOWN)
            (reconcile_run_row (now_at env 1) s ?reason result) l1) = Inr l'"
        by (auto simp: Let_def split: if_splits)
      have u1: "r_status r1 = UNKNOWN" using same_but_anchor_columns [OF e(3)] r(2) by simp
      show thesis
      proof (rule reconcile_write_effect [OF changes_only_struct [OF e(1) str] e(2) u1 app2])
        fix r' es' assume f: "fetch_run l' rid = Some r'" "same_but_anchor (reconcile_run_row (now_at env 1) s ?reason result r1) r'"
          "run_events l' rid = run_events l1 rid @ es'"
          "log_of es' = stored [(''run.reconciled'', reconciled_payload operator s ?reason)]"
        from same_but_anchor_columns [OF f(2)] have "r_status r' = s" "r_result r' = (if result = PNone then None else Some (json_norm True result))"
          by (simp_all add: reconcile_run_row_def)
        with that [of r r' es es'] r pre f e Some show thesis by simp
      qed
    qed
  qed
qed

end
