(* ===== verification/Ledger_Live.thy ===== *)
theory Ledger_Live
  imports Ledger_Effects
begin

text \<open>
  That operations return: with fresh event ids and values that can be serialised, the only
  ways an operation of a reachable ledger fails are the refusals the code states.
\<close>

definition event_ids :: "ledger \<Rightarrow> string list" where
  "event_ids l = map e_id (l_events l)"

lemma event_ids_upd [simp]: "event_ids (upd_runs P f l) = event_ids l" "event_ids (upd_approvals Q g l) = event_ids l"
  by (simp_all add: event_ids_def upd_runs_def upd_approvals_def)

text \<open>What an append returns, when nothing stands in its way.\<close>

lemma append_event_eq:
  assumes "json_error True p = None" "fetch_run l rid \<noteq> None" "eid \<notin> set (map e_id (l_events l))"
    "distinct (map r_run_id (l_runs l))"
  shows "append_event rid t p ts eid l = Inr (let h = event_link rid (last_hash l rid) (t, json_norm True p, ts) in
    l\<lparr>l_runs := sql_update (\<lambda>r. r_run_id r = rid) (anchor_run_row h) (l_runs l),
      l_events := l_events l @ [appended l rid t p ts eid h], l_next_seq := Suc (l_next_seq l)\<rparr>)"
  using assms sql_count_key [OF assms(4), of rid "\<lambda>_. True"]
  by (auto simp: append_event_def event_hash_eq Let_def upd_runs_def appended_def)

lemma append_event_enabled:
  assumes "json_error True p = None" "fetch_run l rid = Some r" "eid \<notin> set (event_ids l)" "struct_inv l"
  shows "\<exists>l' h. append_event rid t p ts eid l = Inr l' \<and> event_ids l' = event_ids l @ [eid]
    \<and> fetch_run l' rid = Some (anchor_run_row h r) \<and> struct_inv l'"
proof -
  let ?h = "event_link rid (last_hash l rid) (t, json_norm True p, ts)"
  let ?l' = "l\<lparr>l_runs := sql_update (\<lambda>r. r_run_id r = rid) (anchor_run_row ?h) (l_runs l),
      l_events := l_events l @ [appended l rid t p ts eid ?h], l_next_seq := Suc (l_next_seq l)\<rparr>"
  have eq: "append_event rid t p ts eid l = Inr ?l'"
    using assms append_event_eq [where p = p and l = l and rid = rid and eid = eid and t = t and ts = ts]
    by (simp add: event_ids_def Let_def struct_inv_run_ids)
  moreover have "event_ids ?l' = event_ids l @ [eid]" by (simp add: event_ids_def appended_def new_event_def)
  moreover from append_event_InrD [OF eq assms(4)] assms(2,4)
  have "struct_inv ?l'" "\<exists>h. fetch_run ?l' rid = Some (anchor_run_row h r)"
    by (auto simp: view_eq changes_only_struct)
  ultimately show ?thesis by blast
qed

lemma append_events_enabled:
  assumes "\<forall>ev \<in> set evs. json_error True (snd ev) = None" "fetch_run l rid = Some r" "struct_inv l"
    "distinct (event_ids l @ map (uuid_at env) [k ..< k + length evs])"
  shows "\<exists>l' r'. append_events env i k rid evs l = Inr l' \<and> fetch_run l' rid = Some r' \<and> same_but_anchor r r'
    \<and> event_ids l' = event_ids l @ map (uuid_at env) [k ..< k + length evs]"
  using assms
proof (induction evs arbitrary: i k l r)
  case (Cons ev evs)
  obtain t p where ev: "ev = (t, p)" by (cases ev)
  have split: "[k ..< k + length (ev # evs)] = k # [Suc k ..< Suc k + length evs]"
    by (simp add: upt_rec)
  have fresh: "uuid_at env k \<notin> set (event_ids l)" using Cons.prems(4) unfolding split by auto
  from append_event_enabled [OF _ Cons.prems(2) fresh Cons.prems(3), of p t "isoformat (now_at env i)"] Cons.prems(1) ev
  obtain l1 h where l1: "append_event rid t p (isoformat (now_at env i)) (uuid_at env k) l = Inr l1"
      "event_ids l1 = event_ids l @ [uuid_at env k]" "fetch_run l1 rid = Some (anchor_run_row h r)" "struct_inv l1"
    by auto
  have "distinct (event_ids l1 @ map (uuid_at env) [Suc k ..< Suc k + length evs])"
    using Cons.prems(4) unfolding split l1(2) by simp
  moreover have "\<forall>ev \<in> set evs. json_error True (snd ev) = None" using Cons.prems(1) by simp
  ultimately obtain l' r' where l': "append_events env (Suc i) (Suc k) rid evs l1 = Inr l'"
      "fetch_run l' rid = Some r'" "same_but_anchor (anchor_run_row h r) r'"
      "event_ids l' = event_ids l1 @ map (uuid_at env) [Suc k ..< Suc k + length evs]"
    using Cons.IH [where l = l1 and k = "Suc k" and i = "Suc i"] l1(3,4) by blast
  have "append_events env i k rid (ev # evs) l = Inr l'" using l1(1) l'(1) by (simp add: ev)
  moreover have "event_ids l' = event_ids l @ map (uuid_at env) [k ..< k + length (ev # evs)]"
    unfolding split using l'(4) l1(2) by simp
  ultimately show ?case using l'(2) same_but_anchor_step [OF l'(3)] by blast
qed simp

lemma finish_execution_enabled:
  assumes "ledger_inv l" "fetch_run l rid = Some r" "r_status r = EXECUTING" "r_execution_owner r = Some owner"
    "json_error True result = None" "\<forall>ev \<in> set evs. json_error True (snd ev) = None"
    "distinct (event_ids l @ map (uuid_at env) [0 ..< length evs])"
  shows "\<exists>l' r'. finish_execution env rid owner s reason result evs l = Inr ((), l') \<and> fetch_run l' rid = Some r'
    \<and> same_but_anchor (finish_run_row (now_at env 0) s reason result r) r'
    \<and> event_ids l' = event_ids l @ map (uuid_at env) [0 ..< length evs]"
proof -
  note str = ledger_inv_struct [OF assms(1)]
  let ?f = "finish_run_row (now_at env 0) s reason result"
  let ?l1 = "upd_runs (\<lambda>r. r_run_id r = rid \<and> r_status r = EXECUTING \<and> r_execution_owner r = Some owner) ?f l"
  have idr: "r_run_id (?f x) = r_run_id x" "run_key (?f x) = run_key x" for x
    by (simp_all add: finish_run_row_def run_key_def)
  note ur = upd_runs_one [where f = ?f and Q = "\<lambda>r. r_status r = EXECUTING \<and> r_execution_owner r = Some owner",
      OF str idr view_of_run [OF assms(2)] conjI [OF assms(3,4)]]
  have "fetch_run ?l1 rid = Some (?f r)" using ur(2) by (simp add: view_eq)
  from append_events_enabled [OF assms(6) this changes_only_struct [OF ur(1) str], of env 0 1] assms(7)
  obtain l' r' where "append_events env 1 0 rid evs ?l1 = Inr l'" "fetch_run l' rid = Some r'"
      "same_but_anchor (?f r) r'" "event_ids l' = event_ids l @ map (uuid_at env) [0 ..< length evs]" by auto
  moreover have "sql_count (\<lambda>r. r_run_id r = rid \<and> r_status r = EXECUTING \<and> r_execution_owner r = Some owner) (l_runs l) = 1"
    using assms(2-4) by (simp add: sql_count_fetch_run [OF str])
  moreover have "result_json result = Inr ()" using assms(5) by simp
  ultimately show ?thesis by (simp add: finish_execution_def Let_def del: result_json_Inr)
qed

text \<open>A claimable run can be claimed.\<close>

lemma claim_execution_enabled:
  assumes "ledger_inv l" "fetch_run l rid = Some r" "claimable r" "strip owner \<noteq> []" "1 \<le> secs" "secs \<le> 86400"
    "add_seconds (now_at env 0) (nat secs) = Inr lease" "distinct (event_ids l @ map (uuid_at env) [0, 1])"
  shows "\<exists>l' r'. claim_execution env rid owner secs l = Inr (True, l') \<and> fetch_run l' rid = Some r'
    \<and> same_but_anchor (claim_run_row (now_at env 0) owner lease r) r'
    \<and> event_ids l' = event_ids l @ (if r_status r = APPROVED then [uuid_at env 0, uuid_at env 1] else [uuid_at env 0])"
proof -
  note str = ledger_inv_struct [OF assms(1)]
  let ?f = "claim_run_row (now_at env 0) owner lease"
  let ?l1 = "upd_runs (\<lambda>r. r_run_id r = rid \<and> claimable r) ?f l"
  let ?evs = "(if r_status r = APPROVED then [(''run.resumed'', PDict [])] else [])
    @ [(''tool.execution.started'', started_payload owner (Suc (r_attempt r)) lease)]"
  have idr: "r_run_id (?f x) = r_run_id x" "run_key (?f x) = run_key x" for x
    by (simp_all add: claim_run_row_def run_key_def)
  note ur = upd_runs_one [where f = ?f and Q = claimable, OF str idr view_of_run [OF assms(2)] assms(3)]
  have f1: "fetch_run ?l1 rid = Some (?f r)" using ur(2) by (simp add: view_eq)
  have evs: "\<forall>ev \<in> set ?evs. json_error True (snd ev) = None" by (auto simp: started_payload_def)
  have ids: "map (uuid_at env) [0 ..< 0 + length ?evs]
      = (if r_status r = APPROVED then [uuid_at env 0, uuid_at env 1] else [uuid_at env 0])"
    by (simp add: upt_rec)
  have "distinct (event_ids ?l1 @ map (uuid_at env) [0 ..< 0 + length ?evs])"
    unfolding ids using assms(8) by auto
  from append_events_enabled [OF evs f1 changes_only_struct [OF ur(1) str] this, of 1]
  obtain l' r' where l': "append_events env 1 0 rid ?evs ?l1 = Inr l'" "fetch_run l' rid = Some r'"
      "same_but_anchor (?f r) r'"
      "event_ids l' = event_ids l @ (if r_status r = APPROVED then [uuid_at env 0, uuid_at env 1] else [uuid_at env 0])"
    unfolding ids by auto
  have "\<not> lease_over (now_at env 0) r" using assms(3) by (auto simp: claimable_def lease_over_def)
  moreover have "sql_count (\<lambda>r. r_run_id r = rid \<and> claimable r) (l_runs l) = 1"
    using assms(2,3) by (simp add: sql_count_fetch_run [OF str])
  moreover have "r_attempt (?f r) = Suc (r_attempt r)" by (simp add: claim_run_row_def)
  ultimately have "claim_execution env rid owner secs l = Inr (True, l')"
    unfolding claim_execution_def Let_def using assms(2,4-7) l'(1) f1
    by (simp only: if_True if_False not_True_eq_False not_False_eq_True option.case res_bind_Inr conj_absorb
        simp_thms)
  with l'(2-4) show ?thesis by blast
qed

text \<open>An authorised principal can decide a pending approval before its deadline.\<close>

lemma decide_approval_enabled:
  assumes "ledger_inv l" "fetch_run l rid = Some r" "fetch_approval l rid = Some a" "r_status r = PENDING_APPROVAL"
    "vp_tenant_id approver = r_tenant_id r" "list_ex (\<lambda>role. role \<in> set (vp_roles approver)) roles"
    "self \<or> vp_actor_id approver \<noteq> r_actor_id r" "now_at env 0 < a_expires_at a" "uuid_at env 0 \<notin> set (event_ids l)"
  shows "\<exists>l' r'. decide_approval env rid approved approver reason roles self l = Inr (True, l')
    \<and> fetch_run l' rid = Some r' \<and> event_ids l' = event_ids l @ [uuid_at env 0]
    \<and> same_but_anchor (decide_run_row (now_at env 0) (if approved then APPROVED else REJECTED) reason r) r'"
proof -
  note str = ledger_inv_struct [OF assms(1)]
  let ?s = "if approved then APPROVED else REJECTED"
  let ?f = "decide_run_row (now_at env 0) ?s reason" and ?g = "decide_approval_row (now_at env 0) ?s approver reason"
  let ?la = "upd_approvals (\<lambda>a. a_run_id a = rid \<and> a_status a = PENDING_APPROVAL) ?g l"
  let ?l1 = "upd_runs (\<lambda>r. r_run_id r = rid \<and> r_status r = PENDING_APPROVAL) ?f ?la"
  from run_inv_parts(3) [OF ledger_inv_run [OF assms(1,2)]] assms(3,4)
  have a: "a_status a = PENDING_APPROVAL" "binding_matches r a" "a_requested_actor a = r_actor_id r"
    by (auto simp: approval_ok_def started_def)
  have ids: "a_run_id (?g x) = a_run_id x" for x by (simp add: decide_approval_row_def)
  have idr: "r_run_id (?f x) = r_run_id x" "run_key (?f x) = run_key x" for x
    by (simp_all add: decide_run_row_def run_key_def)
  note ua = upd_approvals_one [where f = ?g and Q = "\<lambda>a. a_status a = PENDING_APPROVAL",
      OF str ids view_of_run [OF assms(2), unfolded assms(3)] a(1)]
  note ur = upd_runs_one [where f = ?f and Q = "\<lambda>r. r_status r = PENDING_APPROVAL",
      OF changes_only_struct [OF ua(1) str] idr ua(2) assms(4)]
  have f1: "fetch_run ?l1 rid = Some (?f r)" using ur(2) by (simp add: view_eq)
  have fresh: "uuid_at env 0 \<notin> set (event_ids ?l1)" using assms(9) by simp
  have "json_error True (approval_decided_payload approver reason r) = None" by (simp add: approval_decided_payload_def)
  from append_event_enabled [OF this f1 fresh changes_only_struct [OF ur(1) changes_only_struct [OF ua(1) str]],
      of "if approved then ''approval.approved'' else ''approval.rejected''" "isoformat (now_at env 1)"]
  obtain l' h where l': "append_event rid (if approved then ''approval.approved'' else ''approval.rejected'')
        (approval_decided_payload approver reason r) (isoformat (now_at env 1)) (uuid_at env 0) ?l1 = Inr l'"
      "event_ids l' = event_ids l @ [uuid_at env 0]" "fetch_run l' rid = Some (anchor_run_row h (?f r))"
    by auto
  have "sql_count (\<lambda>a. a_run_id a = rid \<and> a_status a = PENDING_APPROVAL) (l_approvals l) = 1"
    using assms(3) a(1) by (simp add: sql_count_fetch_approval [OF str])
  then have "decide_approval env rid approved approver reason roles self l = Inr (True, l')"
    using assms(2-8) a l'(1) by (auto simp: decide_approval_def Let_def)
  with l'(2,3) same_but_anchor_step [OF same_but_anchor_refl] show ?thesis by blast
qed

text \<open>A request under a fresh key and a fresh id creates its run.\<close>

lemma create_enabled:
  assumes "struct_inv l" "rid \<notin> r_run_id ` set (l_runs l)" "(tenant, name, key) \<notin> run_key ` set (l_runs l)"
    "json_error True (PDict args) = None" "json_error True (or_empty meta) = None" "uuid_at env 0 \<notin> set (event_ids l)"
  shows "\<exists>row l'. create_or_get_run env rid tenant actor roles evidence name risk key fp args meta l = Inr ((row, True), l')
    \<and> event_ids l' = event_ids l @ [uuid_at env 0]"
proof -
  let ?new = "\<lparr>r_run_id = rid, r_tenant_id = tenant, r_actor_id = actor,
    r_action_name = name, r_risk = risk, r_idempotency_key = key, r_fingerprint = fp, r_status = CREATED,
    r_arguments = json_norm True (PDict args), r_roles = roles, r_evidence = evidence,
    r_metadata = json_norm True (or_empty meta), r_policy_version = None, r_policy_digest = None,
    r_reason = None, r_result = None, r_execution_owner = None, r_lease_expires_at = None,
    r_attempt = 0, r_duplicate_count = 0, r_event_count = 0, r_event_head_hash = None,
    r_created_at = now_at env 0, r_updated_at = now_at env 0\<rparr>"
  let ?l1 = "l\<lparr>l_runs := l_runs l @ [?new]\<rparr>"
  let ?p = "\<lambda>r. r_tenant_id r = tenant \<and> r_action_name r = name \<and> r_idempotency_key r = key"
  have fresh: "\<not> list_ex (\<lambda>r. r_run_id r = rid \<or> ?p r) (l_runs l)"
    using assms(2,3) by (auto simp: list_ex_iff run_key_def image_iff)
  then have "find ?p (l_runs l) = None" by (auto simp: find_None_iff list_ex_iff)
  then have found: "find ?p (l_runs ?l1) = Some ?new" by (simp add: find_append)
  have "changes_only rid l ?l1" "view ?l1 rid = (Some ?new, [], None)"
    using assms(1-3) by (auto intro!: changes_only_insert_run view_insert_run simp: run_key_def)
  then have l1: "struct_inv ?l1" "fetch_run ?l1 rid = Some ?new"
    using changes_only_struct [OF _ assms(1)] by (auto simp: view_eq)
  have ids: "event_ids ?l1 = event_ids l" by (simp add: event_ids_def)
  have js: "json_error True (PDict [(''action_name'', PStr name), (''risk'', PStr risk), (''request_fingerprint'', PStr fp)]) = None"
    by simp
  from append_event_enabled [OF js l1(2) _ l1(1), of "uuid_at env 0" "''run.created''" "isoformat (now_at env 0)"] assms(6)
  obtain l' where l': "append_event rid ''run.created'' (PDict [(''action_name'', PStr name), (''risk'', PStr risk),
      (''request_fingerprint'', PStr fp)]) (isoformat (now_at env 0)) (uuid_at env 0) ?l1 = Inr l'"
      "event_ids l' = event_ids l @ [uuid_at env 0]"
    unfolding ids by blast
  have pj: "py_json (PDict args) = Inr (canonical_text (PDict args))" "py_json (or_empty meta) = Inr (canonical_text (or_empty meta))"
    using assms(4,5) by (simp_all add: py_json_ok)
  have "create_or_get_run env rid tenant actor roles evidence name risk key fp args meta l = Inr ((?new, True), l')"
    unfolding create_or_get_run_def Let_def pj res_bind_Inr if_not_P [OF fresh] found option.case l'(1) by simp
  with l'(2) show ?thesis by blast
qed

text \<open>A new run that policy allows can be claimed.\<close>

lemma policy_allow_enabled:
  assumes "ledger_inv l" "fetch_run l rid = Some r" "r_status r = CREATED" "pd_outcome d = ALLOW"
    "1 \<le> ttl" "ttl \<le> 604800" "decision_digest d = Inr dig" "json_error True (pd_facts d) = None"
    "uuid_at env 0 \<notin> set (event_ids l)"
  shows "\<exists>l' r'. record_policy_decision env rid d ttl l = Inr ((), l') \<and> fetch_run l' rid = Some r' \<and> claimable r'
    \<and> event_ids l' = event_ids l @ [uuid_at env 0]"
proof -
  note str = ledger_inv_struct [OF assms(1)]
  let ?f = "\<lambda>r. r\<lparr>r_status := CREATED, r_policy_version := Some (pd_policy_version d),
                       r_policy_digest := Some dig, r_reason := Some (pd_reason d), r_updated_at := now_at env 0\<rparr>"
  let ?l1 = "upd_runs (\<lambda>r. r_run_id r = rid \<and> r_status r = CREATED) ?f l"
  have idr: "r_run_id (?f x) = r_run_id x" "run_key (?f x) = run_key x" for x by (simp_all add: run_key_def)
  note ur = upd_runs_one [where f = ?f and Q = "\<lambda>r. r_status r = CREATED", OF str idr view_of_run [OF assms(2)] assms(3)]
  have f1: "fetch_run ?l1 rid = Some (?f r)" using ur(2) by (simp add: view_eq)
  have js: "json_error True (policy_checked_payload d dig) = None"
    using assms(8) by (simp add: policy_checked_payload_def)
  have ids: "event_ids ?l1 = event_ids l" by simp
  from append_event_enabled [OF js f1 _ changes_only_struct [OF ur(1) str], of "uuid_at env 0" "''policy.checked''"
      "isoformat (now_at env 1)"] assms(9) obtain l' h where
    l': "append_event rid ''policy.checked'' (policy_checked_payload d dig) (isoformat (now_at env 1)) (uuid_at env 0) ?l1 = Inr l'"
      "event_ids l' = event_ids l @ [uuid_at env 0]" "fetch_run l' rid = Some (anchor_run_row h (?f r))"
    unfolding ids by blast
  have "record_policy_decision env rid d ttl l = Inr ((), l')"
    using assms(2-7) l'(1) by (simp add: record_policy_decision_def Let_def)
  with l'(2,3) show ?thesis by (simp add: claimable_def anchor_run_row_def)
qed

text \<open>An unknown run can be reconciled by an operator of its tenant, and a pending answer of its
  provider can be recorded.\<close>

lemma reconcile_run_enabled:
  assumes "ledger_inv l" "fetch_run l rid = Some r" "r_status r = UNKNOWN" "s = COMPLETED \<or> s = FAILED"
    "vp_tenant_id operator = r_tenant_id r" "json_error True result = None" "uuid_at env 0 \<notin> set (event_ids l)"
  shows "\<exists>l'. reconcile_run env rid s reason result operator l = Inr (True, l')"
proof -
  note str = ledger_inv_struct [OF assms(1)]
  let ?f = "reconcile_run_row (now_at env 0) s reason result"
  let ?l1 = "upd_runs (\<lambda>r. r_run_id r = rid \<and> r_status r = UNKNOWN) ?f l"
  note ur = upd_runs_one [where f = ?f and Q = "\<lambda>r. r_status r = UNKNOWN",
      OF str reconcile_run_row_ids view_of_run [OF assms(2)] assms(3)]
  have f1: "fetch_run ?l1 rid = Some (?f r)" using ur(2) by (simp add: view_eq)
  have js: "json_error True (reconciled_payload operator s reason) = None" by (simp add: reconciled_payload_def)
  have ids: "event_ids ?l1 = event_ids l" by simp
  from append_event_enabled [OF js f1 _ changes_only_struct [OF ur(1) str], of "uuid_at env 0" "''run.reconciled''"
      "isoformat (now_at env 1)"] assms(7) obtain l' where
    "append_event rid ''run.reconciled'' (reconciled_payload operator s reason) (isoformat (now_at env 1)) (uuid_at env 0) ?l1 = Inr l'"
    unfolding ids by blast
  moreover have "sql_count (\<lambda>r. r_run_id r = rid \<and> r_status r = UNKNOWN) (l_runs l) = 1"
    using assms(2,3) by (simp add: sql_count_fetch_run [OF str])
  moreover have "result_json result = Inr ()" using assms(6) by simp
  ultimately have "reconcile_run env rid s reason result operator l = Inr (True, l')"
    using assms(2,4,5) by (auto simp: reconcile_run_def Let_def simp del: result_json_Inr)
  then show ?thesis by blast
qed

lemma pending_observation_enabled:
  assumes "ledger_inv l" "fetch_run l rid = Some r" "r_status r = UNKNOWN"
    "vp_tenant_id operator = r_tenant_id r" "uuid_at env 0 \<notin> set (event_ids l)"
  shows "\<exists>l'. apply_provider_observation env rid prov ''pending'' summ ref None PNone operator l = Inr (True, l')"
proof -
  have js: "json_error True (observed_payload operator prov ''pending'' summ ref) = None"
    by (cases ref) (simp_all add: observed_payload_def)
  from append_event_enabled [OF js assms(2,5) ledger_inv_struct [OF assms(1)]] obtain l' where
    "append_event rid ''provider.reconciliation.observed'' (observed_payload operator prov ''pending'' summ ref)
       (isoformat (now_at env 0)) (uuid_at env 0) l = Inr l'" by blast
  moreover have "expected_status ''pending'' = Some None" by (simp add: expected_status_def)
  moreover have "result_json PNone = Inr ()" by (simp add: result_json_def)
  ultimately show ?thesis using assms(2-4) by (simp add: apply_provider_observation_def)
qed

end
