(* ===== verification/Ledger_Demo.thy ===== *)
theory Ledger_Demo
  imports Ledger_Live
begin

text \<open>
  A worked run: one refund request, from its creation over a pending approval, its decision
  and a claimed execution to each way an execution can end. The ledgers are computed by the
  operations themselves (hashes stay symbolic), so they are reachable, and the properties of
  the other theories are exercised on them.
\<close>

definition demo_env :: "nat \<Rightarrow> string list \<Rightarrow> env" where
  "demo_env t ids = \<lparr>now_at = (\<lambda>i. 1000000 * (t + i)), uuid_at = (\<lambda>i. ids ! i)\<rparr>"

definition demo_decision :: "PolicyOutcome \<Rightarrow> PolicyDecision" where
  "demo_decision out = \<lparr>pd_outcome = out, pd_reason = ''amount'', pd_policy_version = ''v1'',
     pd_facts = PDict [], pd_policy_digest = Some ''pd''\<rparr>"

definition demo_approver :: VerifiedPrincipal where
  "demo_approver = \<lparr>vp_actor_id = ''bob'', vp_tenant_id = ''acme'', vp_roles = [''manager''],
     vp_auth_source = ''oidc''\<rparr>"

definition ledger_after :: "('a \<times> ledger) res \<Rightarrow> ledger" where
  "ledger_after x = (case x of Inl _ \<Rightarrow> empty_ledger | Inr (_, l) \<Rightarrow> l)"

lemma ledger_after_Inr: "x = Inr (y, l) \<Longrightarrow> ledger_after x = l"
  by (simp add: ledger_after_def)

definition demo_create :: "((run_row \<times> bool) \<times> ledger) res" where
  "demo_create = create_or_get_run (demo_env 0 [''e1'']) ''r1'' ''acme'' ''alice'' [''agent''] []
     ''refund'' ''high'' ''k1'' ''fp'' [(''amount'', PInt 5)] PNone empty_ledger"

definition demo_request :: "(unit \<times> ledger) res" where
  "demo_request = record_policy_decision (demo_env 10 [''e2'', ''e3'']) ''r1''
     (demo_decision APPROVAL_REQUIRED) 3600 (ledger_after demo_create)"

definition demo_approve :: "(bool \<times> ledger) res" where
  "demo_approve = decide_approval (demo_env 20 [''e4'']) ''r1'' True demo_approver ''fine'' [''manager''] False
     (ledger_after demo_request)"

definition demo_claim :: "(bool \<times> ledger) res" where
  "demo_claim = claim_execution (demo_env 30 [''e5'', ''e6'']) ''r1'' ''w1'' 60 (ledger_after demo_approve)"

definition demo_complete :: "(unit \<times> ledger) res" where
  "demo_complete = complete_execution (demo_env 40 [''e7'', ''e8'']) ''r1'' ''w1'' (PStr ''done'')
     (ledger_after demo_claim)"

definition demo_unknown :: "(unit \<times> ledger) res" where
  "demo_unknown = mark_execution_unknown (demo_env 40 [''e7'', ''e8'']) ''r1'' ''w1'' ''TimeoutError''
     (ledger_after demo_claim)"

lemmas demo_simps = py_json_ok demo_env_def empty_ledger_def fetch_by_Cons append_event_eq sql_update_def sql_count_def
  appended_def new_event_def or_empty_def last_hash_def run_events_def Let_def ledger_after_def upd_runs_def
  upd_approvals_def anchor_run_row_def

lemmas created_simps = demo_create_def create_or_get_run_def demo_simps

lemma demo_created: "is_ok demo_create" "map r_status (l_runs (ledger_after demo_create)) = [CREATED]"
  by (simp_all add: created_simps)

lemmas requested_simps = demo_request_def record_policy_decision_def demo_decision_def decision_digest_def
  policy_checked_payload_def approval_requested_payload_def insert_approval_def pending_approval_row_def
  add_seconds_def datetime_bound_def seconds_per_day_def microseconds_per_second_def

definition demo_pending_ok :: "ledger \<Rightarrow> bool" where
  "demo_pending_ok l \<longleftrightarrow> event_ids l = [''e1'', ''e2'', ''e3''] \<and>
     (case (fetch_run l ''r1'', fetch_approval l ''r1'') of
        (Some r, Some a) \<Rightarrow> r_status r = PENDING_APPROVAL \<and> r_tenant_id r = ''acme'' \<and> r_actor_id r = ''alice''
          \<and> r_policy_version r = Some ''v1'' \<and> a_expires_at a = 3610000000
          \<and> r_action_name r = ''refund'' \<and> r_idempotency_key r = ''k1'' \<and> r_arguments r = PDict [(''amount'', PInt 5)]
      | _ \<Rightarrow> False)"

lemma demo_request_ok: "is_ok demo_request \<and> demo_pending_ok (ledger_after demo_request)"
  by (simp add: created_simps requested_simps demo_pending_ok_def event_ids_def)

section \<open>The demo ledgers are reachable\<close>

lemma ledger_after_ok: "is_ok x \<Longrightarrow> \<exists>y. x = Inr (y, ledger_after x)"
  by (cases x) (auto simp: ledger_after_def)

lemma demo_step:
  "is_ok x \<Longrightarrow> reachable l \<Longrightarrow> (\<And>y l'. x = Inr (y, l') \<Longrightarrow> ledger_step l l') \<Longrightarrow> reachable (ledger_after x)"
  by (cases x) (auto simp: ledger_after_def intro: reach.step)

lemma reachable_create: "reachable (ledger_after demo_create)"
  by (rule demo_step [OF demo_created(1) reach.start [of "\<lambda>l. l = empty_ledger"]])
    (simp, unfold demo_create_def, erule ledger_step.create)

lemma reachable_request: "reachable (ledger_after demo_request)"
  by (rule demo_step [OF conjunct1 [OF demo_request_ok] reachable_create]) (unfold demo_request_def, erule ledger_step.policy)

lemma demo_approved:
  obtains l r where "demo_approve = Inr (True, l)" "reachable l" "fetch_run l ''r1'' = Some r" "r_status r = APPROVED"
    "r_policy_version r = Some ''v1''" "event_ids l = [''e1'', ''e2'', ''e3'', ''e4'']"
    "r_action_name r = ''refund''" "r_arguments r = PDict [(''amount'', PInt 5)]"
proof -
  let ?l = "ledger_after demo_request"
  from demo_request_ok obtain r a where ra: "fetch_run ?l ''r1'' = Some r" "fetch_approval ?l ''r1'' = Some a"
      "event_ids ?l = [''e1'', ''e2'', ''e3'']" "r_status r = PENDING_APPROVAL" "r_tenant_id r = ''acme''"
      "r_actor_id r = ''alice''" "r_policy_version r = Some ''v1''" "a_expires_at a = 3610000000"
      "r_action_name r = ''refund''" "r_arguments r = PDict [(''amount'', PInt 5)]"
    by (auto simp: demo_pending_ok_def split: option.splits)
  have "\<exists>l' r'. demo_approve = Inr (True, l') \<and> fetch_run l' ''r1'' = Some r'
      \<and> event_ids l' = event_ids ?l @ [uuid_at (demo_env 20 [''e4'']) 0]
      \<and> same_but_anchor (decide_run_row (now_at (demo_env 20 [''e4'']) 0) (if True then APPROVED else REJECTED) ''fine'' r) r'"
    unfolding demo_approve_def
    by (rule decide_approval_enabled [OF reachable_inv [OF reachable_request] ra(1,2,4)])
      (simp_all add: ra demo_approver_def demo_env_def)
  then obtain l' r' where l': "demo_approve = Inr (True, l')" "fetch_run l' ''r1'' = Some r'"
      "event_ids l' = event_ids ?l @ [uuid_at (demo_env 20 [''e4'']) 0]"
      "same_but_anchor (decide_run_row (now_at (demo_env 20 [''e4'']) 0) (if True then APPROVED else REJECTED) ''fine'' r) r'"
    by blast
  have "reachable l'" by (rule reach.step [OF reachable_request ledger_step.decide [OF l'(1) [unfolded demo_approve_def]]])
  moreover from same_but_anchor_columns [OF l'(4)] have "r_status r' = APPROVED" "r_policy_version r' = Some ''v1''"
      "r_action_name r' = ''refund''" "r_arguments r' = PDict [(''amount'', PInt 5)]"
    by (simp_all add: decide_run_row_def ra request_of_def run_key_def)
  ultimately show thesis using that l' by (simp add: ra demo_env_def)
qed

lemma demo_owner: "strip ''w1'' \<noteq> []"
  by code_simp

lemma demo_claimed:
  obtains l r where "demo_claim = Inr (True, l)" "reachable l" "fetch_run l ''r1'' = Some r" "r_status r = EXECUTING"
    "r_execution_owner r = Some ''w1''" "event_ids l = [''e1'', ''e2'', ''e3'', ''e4'', ''e5'', ''e6'']"
proof (rule demo_approved)
  fix l r
  assume l: "demo_approve = Inr (True, l)" "reachable l" "fetch_run l ''r1'' = Some r" "r_status r = APPROVED"
    "r_policy_version r = Some ''v1''" "event_ids l = [''e1'', ''e2'', ''e3'', ''e4'']"
  have at: "ledger_after demo_approve = l" by (rule ledger_after_Inr [OF l(1)])
  have lease: "add_seconds (now_at (demo_env 30 [''e5'', ''e6'']) 0) (nat 60) = Inr 90000000"
    by (simp add: add_seconds_def demo_env_def datetime_bound_def seconds_per_day_def microseconds_per_second_def)
  have "\<exists>l' r'. demo_claim = Inr (True, l') \<and> fetch_run l' ''r1'' = Some r'
      \<and> same_but_anchor (claim_run_row (now_at (demo_env 30 [''e5'', ''e6'']) 0) ''w1'' 90000000 r) r'
      \<and> event_ids l' = event_ids l @ (if r_status r = APPROVED then
          [uuid_at (demo_env 30 [''e5'', ''e6'']) 0, uuid_at (demo_env 30 [''e5'', ''e6'']) 1]
          else [uuid_at (demo_env 30 [''e5'', ''e6'']) 0])"
    unfolding demo_claim_def at
    by (rule claim_execution_enabled [OF reachable_inv [OF l(2)] l(3) _ demo_owner _ _ lease])
      (simp_all add: l claimable_def demo_env_def)
  then obtain l' r' where l': "demo_claim = Inr (True, l')" "fetch_run l' ''r1'' = Some r'"
      "same_but_anchor (claim_run_row (now_at (demo_env 30 [''e5'', ''e6'']) 0) ''w1'' 90000000 r) r'"
      "event_ids l' = [''e1'', ''e2'', ''e3'', ''e4'', ''e5'', ''e6'']"
    by (auto simp: l demo_env_def)
  have "reachable l'" by (rule reach.step [OF l(2) ledger_step.claim [OF l'(1) [unfolded demo_claim_def at]]])
  moreover from same_but_anchor_columns [OF l'(3)] have "r_status r' = EXECUTING" "r_execution_owner r' = Some ''w1''"
    by (simp_all add: claim_run_row_def)
  ultimately show thesis using that l' by blast
qed

lemma reachable_claim: "reachable (ledger_after demo_claim)"
  by (rule demo_claimed) (simp add: ledger_after_Inr)

lemma demo_run_claimed:
  obtains r where "fetch_run (ledger_after demo_claim) ''r1'' = Some r" "r_status r = EXECUTING"
    "r_execution_owner r = Some ''w1''"
  by (rule demo_claimed) (simp add: ledger_after_Inr)

lemma demo_claim_ids: "event_ids (ledger_after demo_claim) = [''e1'', ''e2'', ''e3'', ''e4'', ''e5'', ''e6'']"
  by (rule demo_claimed) (simp add: ledger_after_Inr)

section \<open>The two ends of the demo execution\<close>

lemma demo_finish_enabled:
  assumes "length evs \<le> 2" "\<forall>ev \<in> set evs. json_error True (snd ev) = None" "json_error True result = None"
  shows "\<exists>l. finish_execution (demo_env 40 [''e7'', ''e8'']) ''r1'' ''w1'' s reason result evs
      (ledger_after demo_claim) = Inr ((), l) \<and> (\<exists>r. fetch_run l ''r1'' = Some r \<and> r_status r = s)
      \<and> event_ids l = event_ids (ledger_after demo_claim) @ map (uuid_at (demo_env 40 [''e7'', ''e8''])) [0 ..< length evs]"
proof (rule demo_run_claimed)
  fix r assume r: "fetch_run (ledger_after demo_claim) ''r1'' = Some r" "r_status r = EXECUTING"
    "r_execution_owner r = Some ''w1''"
  have "length evs = 0 \<or> length evs = 1 \<or> length evs = 2" using assms(1) by linarith
  then have "distinct (event_ids (ledger_after demo_claim) @ map (uuid_at (demo_env 40 [''e7'', ''e8''])) [0 ..< length evs])"
    by (elim disjE) (simp_all add: demo_claim_ids demo_env_def upt_rec)
  from finish_execution_enabled [OF reachable_inv [OF reachable_claim] r assms(3,2) this, of s reason]
  show ?thesis by (auto simp: finish_run_row_def dest!: same_but_anchor_columns)
qed

lemma demo_completed:
  obtains l r where "demo_complete = Inr ((), l)" "reachable l" "fetch_run l ''r1'' = Some r" "r_status r = COMPLETED"
proof -
  have "\<exists>l. demo_complete = Inr ((), l) \<and> (\<exists>r. fetch_run l ''r1'' = Some r \<and> r_status r = COMPLETED)
      \<and> event_ids l = event_ids (ledger_after demo_claim) @ map (uuid_at (demo_env 40 [''e7'', ''e8'']))
          [0 ..< length [(''tool.execution.succeeded'', PDict []), (''run.completed'', PDict [])]]"
    unfolding demo_complete_def complete_execution_def by (rule demo_finish_enabled) simp_all
  then obtain l r where l: "demo_complete = Inr ((), l)" "fetch_run l ''r1'' = Some r" "r_status r = COMPLETED" by blast
  have "reachable l" by (rule reach.step [OF reachable_claim ledger_step.complete [OF l(1) [unfolded demo_complete_def]]])
  with l that show thesis by blast
qed

lemma demo_lost:
  obtains l r where "demo_unknown = Inr ((), l)" "reachable l" "fetch_run l ''r1'' = Some r" "r_status r = UNKNOWN"
    "event_ids l = [''e1'', ''e2'', ''e3'', ''e4'', ''e5'', ''e6'', ''e7'']"
proof -
  have "\<exists>l. demo_unknown = Inr ((), l) \<and> (\<exists>r. fetch_run l ''r1'' = Some r \<and> r_status r = UNKNOWN)
      \<and> event_ids l = event_ids (ledger_after demo_claim) @ map (uuid_at (demo_env 40 [''e7'', ''e8''])) [0 ..< length [(''tool.execution.uncertain'',
         PDict [(''error_type'', PStr ''TimeoutError''), (''reason'', PStr (''tool execution outcome uncertain: '' @ ''TimeoutError''))])]]"
    unfolding demo_unknown_def mark_execution_unknown_def Let_def by (rule demo_finish_enabled) simp_all
  then obtain l r where l: "demo_unknown = Inr ((), l)" "fetch_run l ''r1'' = Some r" "r_status r = UNKNOWN"
    "event_ids l = [''e1'', ''e2'', ''e3'', ''e4'', ''e5'', ''e6'', ''e7'']"
    by (auto simp: demo_claim_ids demo_env_def)
  have "reachable l" by (rule reach.step [OF reachable_claim ledger_step.unknown [OF l(1) [unfolded demo_unknown_def]]])
  with l that show thesis by blast
qed

lemma demo_claim_completes: "ledger_step\<^sup>*\<^sup>* (ledger_after demo_claim) (ledger_after demo_complete)"
proof (rule demo_completed)
  fix l assume l: "demo_complete = Inr ((), l)"
  have "ledger_step (ledger_after demo_claim) l" by (rule ledger_step.complete [OF l [unfolded demo_complete_def]])
  then show ?thesis by (simp add: ledger_after_Inr [OF l] r_into_rtranclp)
qed

end
