(* ===== verification/Ledger_Props.thy ===== *)
theory Ledger_Props
  imports Ledger_Demo
begin

text \<open>
  What holds of every ledger the operations can reach, with the demo run as the instance on
  which each statement is exercised.
\<close>

section \<open>The event log\<close>

text \<open>C17: in every reachable ledger the event chain of every run verifies: the stored hashes are
  the ones recomputed from the events, and the count and head in the run row are theirs.\<close>

theorem reachable_chains_verify:
  "reachable l \<Longrightarrow> fetch_run l rid = Some r \<Longrightarrow> verify_event_chain l rid = Inr True"
  by (auto simp: verify_event_chain_iff dest: reachable_run run_inv_parts(1))

theorem reachable_chains_verify_witness: "verify_event_chain (ledger_after demo_claim) ''r1'' = Inr True"
proof -
  obtain r where "fetch_run (ledger_after demo_claim) ''r1'' = Some r" by (rule demo_run_claimed)
  then show ?thesis by (rule reachable_chains_verify [OF reachable_claim])
qed

text \<open>C21: the event log determines the run: replaying the log of a run through the documented
  lifecycle gives the status, the attempt count and whether a policy decided, as stored.\<close>

theorem log_replays_to_run:
  "reachable l \<Longrightarrow> fetch_run l rid = Some r \<Longrightarrow> replay (log_of (run_events l rid)) = Some (abs_run r)"
  by (blast dest: reachable_run run_inv_replay)

theorem log_replays_to_run_witness:
  "\<exists>st. replay (log_of (run_events (ledger_after demo_claim) ''r1'')) = Some st \<and> ps_status st = EXECUTING"
proof -
  obtain r where r: "fetch_run (ledger_after demo_claim) ''r1'' = Some r" "r_status r = EXECUTING"
    by (rule demo_run_claimed)
  from log_replays_to_run [OF reachable_claim r(1)] r(2) show ?thesis by (simp add: abs_run_def)
qed

text \<open>C25: history is append-only: whatever operations follow, a run keeps its request (tenant,
  actor, action, risk, key, fingerprint, arguments, metadata, roles, evidence) and every event
  already written, and its status only moves along the lifecycle.\<close>

theorem history_is_append_only:
  assumes "reachable l" "ledger_step\<^sup>*\<^sup>* l l'" "fetch_run l rid = Some r"
  shows "\<exists>r'. fetch_run l' rid = Some r' \<and> request_of r' = request_of r
    \<and> prefix (run_events l rid) (run_events l' rid) \<and> status_step\<^sup>*\<^sup>* (r_status r) (r_status r')"
proof -
  from steps_run [OF assms(2) reachable_inv [OF assms(1)] assms(3)] obtain r' es where r':
    "fetch_run l' rid = Some r'" "request_of r' = request_of r" "run_events l' rid = run_events l rid @ es"
    "replay_from (abs_run r) (log_of es) = Some (abs_run r')" by metis
  from replay_from_status [OF r'(4)] r'(1-3) show ?thesis by (auto simp: abs_run_def prefix_def)
qed

theorem history_is_append_only_witness:
  "prefix (run_events (ledger_after demo_claim) ''r1'') (run_events (ledger_after demo_complete) ''r1'')"
proof -
  obtain r where r: "fetch_run (ledger_after demo_claim) ''r1'' = Some r" by (rule demo_run_claimed)
  from history_is_append_only [OF reachable_claim demo_claim_completes r]
  show ?thesis by blast
qed

text \<open>a denied, rejected, expired, completed or failed run is final: no sequence of
  operations changes its status, its attempt count or its log.\<close>

theorem terminal_runs_are_final:
  assumes "reachable l" "ledger_step\<^sup>*\<^sup>* l l'" "fetch_run l rid = Some r" "terminal (r_status r)"
  shows "\<exists>r'. fetch_run l' rid = Some r' \<and> r_status r' = r_status r \<and> r_attempt r' = r_attempt r
    \<and> run_events l' rid = run_events l rid"
  using terminal_steps [OF assms(2) reachable_inv [OF assms(1)] assms(3,4)] by metis

theorem terminal_runs_are_final_witness:
  "\<exists>l r. fetch_run l ''r1'' = Some r \<and> r_status r = COMPLETED"
proof (rule demo_completed)
  fix l r
  assume l: "reachable l" "fetch_run l ''r1'' = Some r" "r_status r = COMPLETED"
  have "terminal (r_status r)" by (simp add: l(3) terminal_def)
  from terminal_runs_are_final [OF l(1) rtranclp.rtrancl_refl l(2) this] l(3) show ?thesis by auto
qed

section \<open>One execution\<close>

text \<open>At most one execution is ever started for a run: its log holds as many start events as
  its attempt counter says, which is at most one.\<close>

theorem started_at_most_once:
  assumes "reachable l" "fetch_run l rid = Some r"
  shows "starts (log_of (run_events l rid)) = r_attempt r \<and> r_attempt r \<le> 1"
proof -
  from run_inv_replay [OF reachable_run [OF assms]] have "replay (log_of (run_events l rid)) = Some (abs_run r)" .
  from replay_starts [OF this] replay_starts_le [OF this] show ?thesis by (simp add: abs_run_def)
qed

theorem started_at_most_once_witness:
  "starts (log_of (run_events (ledger_after demo_claim) ''r1'')) \<le> 1"
proof -
  obtain r where "fetch_run (ledger_after demo_claim) ''r1'' = Some r" by (rule demo_run_claimed)
  from started_at_most_once [OF reachable_claim this] show ?thesis by simp
qed

lemma reachable_steps: "reachable l \<Longrightarrow> ledger_step\<^sup>*\<^sup>* l l' \<Longrightarrow> reachable l'"
  using ledger_system.reach_steps by blast

text \<open>A run is claimed once: after a claim that returned True, no later claim of the same run
  by any worker returns True, whatever operations happened in between.\<close>

theorem claim_is_exclusive:
  assumes "reachable l" "claim_execution env rid owner secs l = Inr (True, l1)" "ledger_step\<^sup>*\<^sup>* l1 l2"
  shows "claim_execution env' rid owner' secs' l2 \<noteq> Inr (True, l3)"
proof
  assume again: "claim_execution env' rid owner' secs' l2 = Inr (True, l3)"
  have l1: "reachable l1" by (rule reach.step [OF assms(1) ledger_step.claim [OF assms(2)]])
  have l2: "reachable l2" using reachable_steps [OF l1 assms(3)] .
  obtain r lease where r: "fetch_run l1 rid = Some r"
      "same_but_anchor (claim_run_row (now_at env 0) owner lease (the (fetch_run l rid))) r"
    using claim_execution_effect [OF assms(2) ledger_inv_struct [OF reachable_inv [OF assms(1)]]]
    by (metis option.sel)
  have started: "started (r_status r)"
    using same_but_anchor_columns [OF r(2)] by (simp add: claim_run_row_def started_def)
  obtain r2 es where r2: "fetch_run l2 rid = Some r2" "replay_from (abs_run r) (log_of es) = Some (abs_run r2)"
    using steps_run [OF assms(3) reachable_inv [OF l1] r(1)] by metis
  have "r_attempt r = 1" using attempt_of_status [OF reachable_run [OF l1 r(1)]] started by simp
  with replay_from_starts [OF r2(2)] have "r_attempt r2 \<noteq> 0" by (simp add: abs_run_def)
  then have "\<not> claimable r2" using attempt_of_status [OF reachable_run [OF l2 r2(1)]]
    by (auto simp: claimable_def started_def)
  moreover obtain r2' where "fetch_run l2 rid = Some r2'" "claimable r2'"
    using claim_execution_effect [OF again ledger_inv_struct [OF reachable_inv [OF l2]]] by metis
  ultimately show False using r2(1) by simp
qed

theorem claim_is_exclusive_witness:
  "\<exists>l. demo_claim = Inr (True, l) \<and>
     claim_execution (demo_env 50 [''e9'']) ''r1'' ''w2'' 60 l \<noteq> Inr (True, empty_ledger)"
proof (rule demo_claimed)
  fix l assume l: "demo_claim = Inr (True, l)"
  have "reachable (ledger_after demo_approve)"
    by (rule demo_approved) (simp add: ledger_after_Inr)
  from claim_is_exclusive [OF this l [unfolded demo_claim_def] rtranclp.rtrancl_refl]
  show ?thesis using l by blast
qed

text \<open>The runs of one idempotency key of a tenant's action.\<close>

definition runs_for_key :: "string \<times> string \<times> string \<Rightarrow> ledger \<Rightarrow> run_row list" where
  "runs_for_key k l = filter (\<lambda>r. run_key r = k) (l_runs l)"

definition starts_for_key :: "string \<times> string \<times> string \<Rightarrow> ledger \<Rightarrow> nat" where
  "starts_for_key k l = length (filter (\<lambda>e. e_type e = ''tool.execution.started''
     \<and> e_run e \<in> r_run_id ` set (runs_for_key k l)) (l_events l))"

lemma distinct_map_filter_le_one:
  "distinct (map f xs) \<Longrightarrow> length (filter (\<lambda>x. f x = k) xs) \<le> 1"
  by (induction xs) (simp_all add: filter_empty_conv, metis imageI)

lemma runs_for_key_cases:
  assumes "struct_inv l"
  obtains "runs_for_key k l = []" | r where "runs_for_key k l = [r]" "fetch_run l (r_run_id r) = Some r" "run_key r = k"
proof (cases "runs_for_key k l")
  case (Cons r rs)
  have "length (runs_for_key k l) \<le> 1" unfolding runs_for_key_def
    by (rule distinct_map_filter_le_one [OF struct_inv_keys [OF assms]])
  with Cons have one: "runs_for_key k l = [r]" by simp
  then have "r \<in> set (runs_for_key k l)" by simp
  then have "r \<in> set (l_runs l)" "run_key r = k" by (auto simp: runs_for_key_def)
  with one that(2) show thesis by (simp add: fetch_run_mem [OF assms])
qed (rule that(1))

text \<open>An idempotency key executes at most once: over all runs of a tenant's action under one
  key the ledger holds at most one execution start.\<close>

theorem key_starts_at_most_once:
  assumes "reachable l"
  shows "starts_for_key k l \<le> 1"
proof (rule runs_for_key_cases [OF ledger_inv_struct [OF reachable_inv [OF assms]], of k])
  assume "runs_for_key k l = []"
  then show ?thesis by (simp add: starts_for_key_def)
next
  fix r assume r: "runs_for_key k l = [r]" "fetch_run l (r_run_id r) = Some r"
  have "starts_for_key k l = starts (log_of (run_events l (r_run_id r)))"
    by (simp add: starts_for_key_def r(1) starts_def log_of_def filter_map comp_def conj_commute
        run_events_filter [OF ledger_inv_struct [OF reachable_inv [OF assms]]])
  with replay_starts_le [OF run_inv_replay [OF reachable_run [OF assms r(2)]]] show ?thesis by simp
qed

theorem key_starts_at_most_once_witness:
  "starts_for_key (''acme'', ''refund'', ''k1'') (ledger_after demo_claim) \<le> 1"
  by (rule key_starts_at_most_once [OF reachable_claim])

definition lease_lost_message :: string where
  "lease_lost_message = ''execution lease is no longer owned by this worker''"

text \<open>A worker that lost its execution (its lease was recovered, another call settled the
  run) cannot write an outcome: completing, failing or marking it unknown raises
  InvalidTransition, so no change is committed.\<close>

theorem stale_worker_is_fenced:
  assumes "reachable l" "fetch_run l rid = Some r" "r_status r \<noteq> EXECUTING \<or> r_execution_owner r \<noteq> Some owner"
    "json_error True result = None"
  shows "complete_execution env rid owner result l = raise_exc InvalidTransition lease_lost_message
    \<and> fail_execution env rid owner err l = raise_exc InvalidTransition lease_lost_message
    \<and> mark_execution_unknown env rid owner err l = raise_exc InvalidTransition lease_lost_message"
proof -
  have "sql_count (\<lambda>r. r_run_id r = rid \<and> r_status r = EXECUTING \<and> r_execution_owner r = Some owner) (l_runs l) = 0"
    using assms(2,3) by (auto simp: sql_count_fetch_run [OF ledger_inv_struct [OF reachable_inv [OF assms(1)]]])
  then have "result_json v = Inr () \<Longrightarrow> finish_execution env rid owner s reason v evs l
      = raise_exc InvalidTransition lease_lost_message" for s reason v evs
    by (simp add: finish_execution_def Let_def lease_lost_message_def del: result_json_Inr)
  with assms(4) show ?thesis
    by (simp add: complete_execution_def fail_execution_def mark_execution_unknown_def Let_def)
qed

theorem stale_worker_is_fenced_witness:
  "complete_execution (demo_env 60 [''e9'', ''e10'']) ''r1'' ''w2'' PNone (ledger_after demo_claim)
     = raise_exc InvalidTransition lease_lost_message"
proof -
  obtain r where r: "fetch_run (ledger_after demo_claim) ''r1'' = Some r" "r_execution_owner r = Some ''w1''"
    by (rule demo_run_claimed)
  have "r_status r \<noteq> EXECUTING \<or> r_execution_owner r \<noteq> Some ''w2''" using r(2) by simp
  from stale_worker_is_fenced [OF reachable_claim r(1) this, of PNone] show ?thesis by simp
qed

section \<open>Idempotent creation\<close>

text \<open>Creation is idempotent: while a run exists under a key, creating a run under that key
  (serialisable request) returns the existing run, not created, with the tables unchanged, when
  the fingerprint is the same, and raises IdempotencyConflict when it is not.\<close>

theorem create_is_idempotent:
  assumes "reachable l" "r \<in> set (l_runs l)" "run_key r = (tenant, name, key)"
    "json_error True (PDict args) = None" "json_error True meta = None"
  shows "create_or_get_run env rid tenant actor roles evidence name risk key fp args meta l
    = (if fp = r_fingerprint r then Inr ((r, False), l)
       else raise_exc IdempotencyConflict ''idempotency key was already used for a different governed request'')"
  by (rule create_existing [OF ledger_inv_struct [OF reachable_inv [OF assms(1)]] assms(2-5)])

theorem create_is_idempotent_witness:
  "create_or_get_run (demo_env 70 [''e9'']) ''r2'' ''acme'' ''alice'' [''agent''] [] ''refund'' ''high'' ''k1'' ''other''
      [] PNone (ledger_after demo_create)
    = raise_exc IdempotencyConflict ''idempotency key was already used for a different governed request''"
proof -
  have "\<exists>r \<in> set (l_runs (ledger_after demo_create)). run_key r = (''acme'', ''refund'', ''k1'') \<and> r_fingerprint r = ''fp''"
    by (simp add: created_simps run_key_def)
  then obtain r where r: "r \<in> set (l_runs (ledger_after demo_create))" "run_key r = (''acme'', ''refund'', ''k1'')"
      "r_fingerprint r = ''fp''" by blast
  from create_is_idempotent [OF reachable_create r(1,2), of "[]" PNone "demo_env 70 [''e9'']" "''r2''" "''alice''"
      "[''agent'']" "[]" "''high''" "''other''"] r(3) show ?thesis by simp
qed

end
