(* ===== verification/Ledger_Approvals.thy ===== *)
theory Ledger_Approvals
  imports Ledger_Demo
begin

text \<open>
  Approvals: who can decide, what an approval binds, that execution after a request needs an
  approval, and that the tables of runs and of approvals never disagree.
\<close>

section \<open>Deciding\<close>

text \<open>C22: a decision is recorded only for a principal of the run's tenant that holds a required
  role and, unless self-approval is allowed, is not the requesting actor, before the deadline,
  and with the approval still bound to the run's fingerprint, policy version and policy digest;
  the run and the approval then carry the decision and the approver.\<close>

theorem approval_needs_authority:
  assumes "reachable l" "decide_approval env rid approved approver reason roles self l = Inr (True, l')"
  shows "\<exists>r a r' a'. fetch_run l rid = Some r \<and> fetch_approval l rid = Some a
    \<and> vp_tenant_id approver = r_tenant_id r \<and> set roles \<inter> set (vp_roles approver) \<noteq> {}
    \<and> (self \<or> vp_actor_id approver \<noteq> r_actor_id r) \<and> now_at env 0 < a_expires_at a
    \<and> r_status r = PENDING_APPROVAL \<and> binding_matches r a
    \<and> fetch_run l' rid = Some r' \<and> r_status r' = (if approved then APPROVED else REJECTED)
    \<and> fetch_approval l' rid = Some a' \<and> a_status a' = r_status r'
    \<and> a_approver_id a' = Some (vp_actor_id approver)
    \<and> (\<exists>es. run_events l' rid = run_events l rid @ es \<and> log_of es =
        stored [(if approved then ''approval.approved'' else ''approval.rejected'',
                 approval_decided_payload approver reason r)])"
proof -
  note str = ledger_inv_struct [OF reachable_inv [OF assms(1)]]
  show ?thesis
  proof (rule decide_approval_effect [OF assms(2) str])
    fix r a r' es
    assume ra: "fetch_run l rid = Some r" "fetch_approval l rid = Some a"
      and c: "vp_tenant_id approver = r_tenant_id r" "list_ex (\<lambda>role. role \<in> set (vp_roles approver)) roles"
        "self \<or> vp_actor_id approver \<noteq> a_requested_actor a" "now_at env 0 < a_expires_at a"
        "r_status r = PENDING_APPROVAL" "binding_matches r a"
      and e: "fetch_run l' rid = Some r'"
        "same_but_anchor (decide_run_row (now_at env 0) (if approved then APPROVED else REJECTED) reason r) r'"
        "fetch_approval l' rid = Some (decide_approval_row (now_at env 0) (if approved then APPROVED else REJECTED) approver reason a)"
        "run_events l' rid = run_events l rid @ es"
        "log_of es = stored [(if approved then ''approval.approved'' else ''approval.rejected'', approval_decided_payload approver reason r)]"
    have actor: "a_requested_actor a = r_actor_id r"
      using run_inv_parts(3) [OF reachable_run [OF assms(1) ra(1)]] ra(2) by (simp add: approval_ok_def)
    have "r_status r' = (if approved then APPROVED else REJECTED)"
      using same_but_anchor_columns [OF e(2)] by (simp add: decide_run_row_def)
    moreover from c(2) have "set roles \<inter> set (vp_roles approver) \<noteq> {}" by (auto simp: list_ex_iff)
    ultimately show ?thesis using ra c actor e(1,3-5)
      by (rule_tac x = r in exI, rule_tac x = a in exI, rule_tac x = r' in exI) (simp add: decide_approval_row_def)
  qed
qed

theorem approval_needs_authority_witness:
  "\<exists>l r. fetch_run l ''r1'' = Some r \<and> r_status r = APPROVED"
proof (rule demo_approved)
  fix l assume l: "demo_approve = Inr (True, l)"
  from approval_needs_authority [OF reachable_request l [unfolded demo_approve_def]] show ?thesis by auto
qed

text \<open>every refusal is decided before anything is written: a principal of another tenant,
  without a required role, or (without self-approval) the requesting actor gets
  ApprovalDenied, whatever the state of the approval.\<close>

theorem unauthorised_decisions_are_denied:
  assumes "reachable l" "fetch_run l rid = Some r" "fetch_approval l rid = Some a"
    "vp_tenant_id approver \<noteq> r_tenant_id r \<or> set roles \<inter> set (vp_roles approver) = {}
      \<or> (\<not> self \<and> vp_actor_id approver = r_actor_id r)"
  shows "\<exists>m. decide_approval env rid approved approver reason roles self l = raise_exc ApprovalDenied m"
proof -
  have actor: "a_requested_actor a = r_actor_id r"
    using run_inv_parts(3) [OF reachable_run [OF assms(1,2)]] assms(3) by (simp add: approval_ok_def)
  have "set roles \<inter> set (vp_roles approver) = {} \<longleftrightarrow> \<not> list_ex (\<lambda>role. role \<in> set (vp_roles approver)) roles"
    by (auto simp: list_ex_iff)
  with assms(4) consider "vp_tenant_id approver \<noteq> r_tenant_id r"
    | "vp_tenant_id approver = r_tenant_id r" "\<not> list_ex (\<lambda>role. role \<in> set (vp_roles approver)) roles"
    | "vp_tenant_id approver = r_tenant_id r" "list_ex (\<lambda>role. role \<in> set (vp_roles approver)) roles"
      "\<not> self" "vp_actor_id approver = r_actor_id r"
    by blast
  then show ?thesis by cases (use assms(2,3) actor in \<open>simp_all add: decide_approval_def Let_def, blast+\<close>)
qed

definition demo_requester :: VerifiedPrincipal where
  "demo_requester = demo_approver\<lparr>vp_actor_id := ''alice''\<rparr>"

theorem unauthorised_decisions_are_denied_witness:
  "\<exists>m. decide_approval (demo_env 20 [''e4'']) ''r1'' True demo_requester ''mine'' [''manager''] False
    (ledger_after demo_request) = raise_exc ApprovalDenied m"
proof -
  from demo_request_ok obtain r a where ra: "fetch_run (ledger_after demo_request) ''r1'' = Some r"
      "fetch_approval (ledger_after demo_request) ''r1'' = Some a" "r_actor_id r = ''alice''"
    by (auto simp: demo_pending_ok_def split: option.splits)
  have "vp_actor_id demo_requester = r_actor_id r" by (simp add: demo_requester_def ra(3))
  with unauthorised_decisions_are_denied [OF reachable_request ra(1,2)] show ?thesis by blast
qed

section \<open>No execution without the requested approval\<close>

text \<open>What a log that replays says about approvals.\<close>

definition logged :: "string \<Rightarrow> (string \<times> pyval) list \<Rightarrow> bool" where
  "logged t evs \<longleftrightarrow> t \<in> fst ` set evs"

lemma logged_append [simp]: "logged t (xs @ ys) \<longleftrightarrow> logged t xs \<or> logged t ys"
  by (auto simp: logged_def)

lemma logged_Cons [simp]: "logged t (ev # evs) \<longleftrightarrow> t = fst ev \<or> logged t evs"
  by (auto simp: logged_def)

lemma logged_Nil [simp]: "\<not> logged t []"
  by (simp add: logged_def)

lemma starts_logged: "0 < starts evs \<longleftrightarrow> logged ''tool.execution.started'' evs"
  by (force simp: starts_def logged_def filter_empty_conv)

definition approval_logged :: "replay_state \<Rightarrow> (string \<times> pyval) list \<Rightarrow> bool" where
  "approval_logged st evs \<longleftrightarrow>
     (ps_status st = PENDING_APPROVAL \<longrightarrow> logged ''approval.requested'' evs)
     \<and> (ps_status st = CREATED \<longrightarrow> \<not> logged ''approval.requested'' evs)
     \<and> (ps_status st = APPROVED \<longrightarrow> logged ''approval.approved'' evs)
     \<and> (started (ps_status st) \<and> logged ''approval.requested'' evs \<longrightarrow> logged ''approval.approved'' evs)
     \<and> (logged ''approval.approved'' evs \<longrightarrow> ps_status st = APPROVED \<or> started (ps_status st))"

lemma approval_logged_step:
  "replay_step ev st = Some st' \<Longrightarrow> approval_logged st evs \<Longrightarrow> approval_logged st' (evs @ [ev])"
  by (auto simp: replay_step_def status_after_def approval_logged_def started_def
      dest!: reconciled_status_cases split: option.splits ActionStatus.splits if_splits)

lemma approval_logged_from:
  "replay_from st evs = Some st' \<Longrightarrow> approval_logged st pre \<Longrightarrow> approval_logged st' (pre @ evs)"
proof (induction evs arbitrary: st pre)
  case (Cons ev evs)
  then obtain st1 where st1: "replay_step ev st = Some st1" "replay_from st1 evs = Some st'"
    by (auto split: option.splits)
  from Cons.IH [OF st1(2) approval_logged_step [OF st1(1) Cons.prems(2)]] show ?case by simp
qed simp

lemma replay_approval_logged:
  assumes "replay evs = Some st"
  shows "approval_logged st evs"
proof -
  let ?init = "\<lparr>ps_status = CREATED, ps_decided = False, ps_attempt = 0\<rparr>"
  from assms obtain p rest where evs: "evs = (''run.created'', p) # rest" "replay_from ?init rest = Some st"
    by (auto simp: replay_def split: list.splits if_splits)
  have "approval_logged ?init [(''run.created'', p)]" by (simp add: approval_logged_def started_def)
  from approval_logged_from [OF evs(2) this] show ?thesis by (simp add: evs(1))
qed

text \<open>A run whose execution started was decided by a policy, and an approval asked for it was
  granted and still binds it.\<close>

lemma started_run_authorised:
  assumes "ledger_inv l" "fetch_run l rid = Some r" "started (r_status r)"
  shows "r_policy_version r \<noteq> None"
    and "logged ''approval.requested'' (log_of (run_events l rid)) \<Longrightarrow> logged ''approval.approved'' (log_of (run_events l rid))"
    and "fetch_approval l rid = Some a \<Longrightarrow> a_status a = APPROVED \<and> a_approver_id a \<noteq> None \<and> binding_matches r a"
proof -
  note inv = ledger_inv_run [OF assms(1,2)]
  show "r_policy_version r \<noteq> None"
    using run_inv_lifecycle [OF inv] assms(3) by (simp add: lifecycle_ok_def abs_run_def)
  show "logged ''approval.requested'' (log_of (run_events l rid)) \<Longrightarrow> logged ''approval.approved'' (log_of (run_events l rid))"
    using replay_approval_logged [OF run_inv_replay [OF inv]] assms(3) by (simp add: approval_logged_def abs_run_def)
  show "fetch_approval l rid = Some a \<Longrightarrow> a_status a = APPROVED \<and> a_approver_id a \<noteq> None \<and> binding_matches r a"
    using run_inv_parts(3) [OF inv] assms(3) by (auto simp: approval_ok_def)
qed

lemma logged_start_started:
  assumes "ledger_inv l" "fetch_run l rid = Some r" "logged ''tool.execution.started'' (log_of (run_events l rid))"
  shows "started (r_status r)"
proof -
  note inv = ledger_inv_run [OF assms(1,2)]
  have "starts (log_of (run_events l rid)) \<noteq> 0" using assms(3) by (simp add: starts_logged)
  then show ?thesis
    using replay_starts [OF run_inv_replay [OF inv]] attempt_of_status [OF inv] by (auto simp: abs_run_def split: if_splits)
qed

text \<open>When policy asked for an approval, nothing executes without one: a run whose log holds
  an approval request and an execution start also holds an approval, its approval row is
  approved by an identified principal, and binds exactly the fingerprint and policy of the run.\<close>

theorem execution_needs_requested_approval:
  assumes "reachable l" "fetch_run l rid = Some r"
    "logged ''approval.requested'' (log_of (run_events l rid))"
    "logged ''tool.execution.started'' (log_of (run_events l rid))"
  shows "logged ''approval.approved'' (log_of (run_events l rid))
    \<and> (\<forall>a. fetch_approval l rid = Some a \<longrightarrow> a_status a = APPROVED \<and> a_approver_id a \<noteq> None \<and> binding_matches r a)"
proof -
  note inv = reachable_inv [OF assms(1)]
  note st = logged_start_started [OF inv assms(2,4)]
  show ?thesis
    using started_run_authorised(2) [OF inv assms(2) st assms(3)] started_run_authorised(3) [OF inv assms(2) st] by blast
qed

lemma demo_request_logged: "logged ''approval.requested'' (log_of (run_events (ledger_after demo_request) ''r1''))"
  by (simp add: created_simps requested_simps logged_def log_of_def)

lemma demo_request_claims: "ledger_step\<^sup>*\<^sup>* (ledger_after demo_request) (ledger_after demo_claim)"
proof (rule demo_approved, rule demo_claimed)
  fix l1 l2 assume l: "demo_approve = Inr (True, l1)" "demo_claim = Inr (True, l2)"
  have "ledger_step (ledger_after demo_request) l1" by (rule ledger_step.decide [OF l(1) [unfolded demo_approve_def]])
  moreover have "ledger_step l1 l2" using ledger_step.claim [OF l(2) [unfolded demo_claim_def]]
    by (simp only: ledger_after_Inr [OF l(1)])
  ultimately show ?thesis by (simp add: ledger_after_Inr [OF l(2)])
qed

lemma demo_claim_logged:
  "logged ''approval.requested'' (log_of (run_events (ledger_after demo_claim) ''r1''))
   \<and> logged ''tool.execution.started'' (log_of (run_events (ledger_after demo_claim) ''r1''))"
proof -
  from demo_request_ok obtain r0 where "fetch_run (ledger_after demo_request) ''r1'' = Some r0"
    by (auto simp: demo_pending_ok_def split: option.splits)
  from steps_run [OF demo_request_claims reachable_inv [OF reachable_request] this] obtain es where
    "run_events (ledger_after demo_claim) ''r1'' = run_events (ledger_after demo_request) ''r1'' @ es" by metis
  moreover obtain r where r: "fetch_run (ledger_after demo_claim) ''r1'' = Some r" "r_status r = EXECUTING"
    by (rule demo_run_claimed)
  note inv = reachable_run [OF reachable_claim r(1)]
  have "starts (log_of (run_events (ledger_after demo_claim) ''r1'')) \<noteq> 0"
    using replay_starts [OF run_inv_replay [OF inv]] attempt_of_status [OF inv] r(2) by (simp add: abs_run_def started_def)
  ultimately show ?thesis using demo_request_logged starts_logged by simp
qed

theorem execution_needs_requested_approval_witness:
  "logged ''approval.approved'' (log_of (run_events (ledger_after demo_claim) ''r1''))"
proof -
  obtain r where r: "fetch_run (ledger_after demo_claim) ''r1'' = Some r" by (rule demo_run_claimed)
  from execution_needs_requested_approval [OF reachable_claim r] demo_claim_logged show ?thesis by blast
qed

section \<open>Runs and approvals agree\<close>

lemma append_event_raises: "append_event rid t p ts eid l = Inl e \<Longrightarrow> exc_kind e \<in> {ValueError, TypeError, IntegrityError, KeyError}"
  by (auto simp: append_event_def Let_def raise_exc_def event_hash_def digest_def py_json_eq res_bind_eq_Inl
      dest: json_error_kind split: option.splits if_splits)

text \<open>The guards against inconsistent tables never fire: in a reachable ledger deciding an
  approval never raises InvalidTransition, for any principal and arguments.\<close>

theorem decisions_find_consistent_tables:
  assumes "reachable l"
  shows "decide_approval env rid approved approver reason roles self l \<noteq> raise_exc InvalidTransition m"
proof
  assume op: "decide_approval env rid approved approver reason roles self l = raise_exc InvalidTransition m"
  have no: "res_bind (append_event rid t p ts eid l1) (\<lambda>l'. Inr (b, l')) \<noteq> raise_exc InvalidTransition m"
    for t p ts eid l1 and b :: bool
    using append_event_raises [of rid t p ts eid l1 "Exc InvalidTransition m"]
    by (cases "append_event rid t p ts eid l1") (auto simp: raise_exc_def)
  have neq: "raise_exc ApprovalDenied m' \<noteq> raise_exc InvalidTransition m" "raise_exc KeyError m' \<noteq> raise_exc InvalidTransition m" for m'
    by (simp_all add: raise_exc_def)
  from op obtain r a where ra: "fetch_run l rid = Some r" "fetch_approval l rid = Some a"
    by (cases "fetch_run l rid"; cases "fetch_approval l rid") (simp_all add: decide_approval_def Let_def neq)
  have st: "a_status a = PENDING_APPROVAL \<Longrightarrow> r_status r = PENDING_APPROVAL"
    using run_inv_parts(3) [OF reachable_run [OF assms ra(1)]] ra(2) by (auto simp: approval_ok_def split: if_splits)
  show False using op st unfolding decide_approval_def Let_def ra
    by (simp add: no neq split: if_splits)
qed

theorem decisions_find_consistent_tables_witness:
  "decide_approval (demo_env 20 [''e4'']) ''r1'' True demo_approver ''fine'' [''manager''] False
    (ledger_after demo_claim) \<noteq> raise_exc InvalidTransition ''run and approval states are inconsistent''"
  by (rule decisions_find_consistent_tables [OF reachable_claim])

end
