(* ===== verification/Ledger_Integrity.thy ===== *)
theory Ledger_Integrity
  imports Ledger_Demo
begin

text \<open>
  What the hashes are worth: tamper evidence of the event chain, and injectivity of request
  fingerprints, both up to an exhibited SHA-256 collision.
\<close>

section \<open>Tamper evidence\<close>

text \<open>C23: the chain is tamper-evident: if two ledgers (the genuine one and one an attacker
  rewrote) both pass verification for a run and store the same head hash, then their events for
  that run have the same types, payloads and times in the same order, or one of the texts hashed
  for the one log collides with one of the texts hashed for the other.\<close>

theorem chain_is_tamper_evident:
  assumes "verify_event_chain l rid = Inr True" "verify_event_chain l' rid = Inr True"
    "map_option r_event_head_hash (fetch_run l rid) = map_option r_event_head_hash (fetch_run l' rid)"
    "\<forall>e \<in> set (run_events l rid) \<union> set (run_events l' rid). json_wf (e_payload e)"
  shows "map content (run_events l rid) = map content (run_events l' rid)
    \<or> (\<exists>i < length (run_events l rid). \<exists>j < length (run_events l' rid).
         sha_collision (chain_text rid (run_events l rid) i) (chain_text rid (run_events l' rid) j))"
proof -
  from assms(1,2) obtain r r' where r: "fetch_run l rid = Some r" "chain_ok rid r (run_events l rid)"
      "fetch_run l' rid = Some r'" "chain_ok rid r' (run_events l' rid)"
    by (auto simp: verify_event_chain_iff)
  with assms(3) have "verify_loop rid None (run_events l rid) = Inr (Some (r_event_head_hash r))"
    "verify_loop rid None (run_events l' rid) = Inr (Some (r_event_head_hash r))"
    by (simp_all add: chain_ok_def)
  then show ?thesis using assms(4) by (rule verified_same_head)
qed

lemma json_wf_stored:
  "json_wf (PDict kvs) \<Longrightarrow> json_wf (PDict (map (map_prod id (json_norm srt)) (order_items srt kvs)))"
  using json_wf_norm [of "PDict kvs" srt] by (simp only: json_norm_PDict)

lemma demo_events_wf: "\<forall>e \<in> set (run_events (ledger_after demo_create) ''r1''). json_wf (e_payload e)"
  by (simp add: created_simps del: json_wf_PDict map_map) (rule json_wf_stored, simp)

theorem chain_is_tamper_evident_witness:
  "map content (run_events (ledger_after demo_create) ''r1'') = map content (run_events (ledger_after demo_create) ''r1'')"
proof -
  let ?l = "ledger_after demo_create"
  have "fetch_run ?l ''r1'' \<noteq> None" by (simp add: created_simps)
  then obtain r where "fetch_run ?l ''r1'' = Some r" by blast
  then have ok: "verify_event_chain ?l ''r1'' = Inr True"
    by (auto simp: verify_event_chain_iff dest: reachable_run [OF reachable_create] run_inv_parts(1))
  from chain_is_tamper_evident [OF ok ok refl] demo_events_wf show ?thesis by blast
qed

text \<open>An event of an existing log cannot be changed alone: if a row of a verified log of
  one run is replaced by one with a different type, payload or time but the same stored hashes,
  verification fails, or the recomputed text collides with the original one.\<close>

theorem edited_event_is_detected:
  assumes "verify_loop rid None (pre @ e # post) = Inr (Some h)"
    "content e' \<noteq> content e" "e_hash e' = e_hash e" "e_prev e' = e_prev e" "json_wf (e_payload e)" "json_wf (e_payload e')"
  shows "verify_loop rid None (pre @ e' # post) \<noteq> Inr (Some h')
    \<or> sha_collision (event_text rid (e_prev e) (content e)) (event_text rid (e_prev e) (content e'))"
proof (rule disjCI)
  assume nc: "\<not> sha_collision (event_text rid (e_prev e) (content e)) (event_text rid (e_prev e) (content e'))"
  have link: "\<exists>q. e_hash f = Some (event_link rid (e_prev f) (content f)) \<and> good_content (content f)"
    if "verify_loop rid None (pre @ f # post) = Inr (Some k)" "json_wf (e_payload f)" for f k
  proof -
    from that(1) obtain p where p: "verify_loop rid None pre = Inr (Some p)" "verify_loop rid p (f # post) = Inr (Some k)"
      by (auto simp: verify_loop_append simp del: verify_loop.simps split: option.splits)
    from p(2) have err: "json_error True (e_payload f) = None" by auto
    with p(2) that(2) show ?thesis
      by (auto simp: event_hash_eq content_def good_content_def split: if_splits)
  qed
  show "verify_loop rid None (pre @ e' # post) \<noteq> Inr (Some h')"
  proof
    assume "verify_loop rid None (pre @ e' # post) = Inr (Some h')"
    from link [OF this assms(6)] link [OF assms(1,5)] assms(3,4)
    have "event_link rid (e_prev e) (content e) = event_link rid (e_prev e) (content e')"
      "good_content (content e)" "good_content (content e')" by auto
    from event_chain.link_inj [OF this(2,3,1)] assms(2) nc show False by auto
  qed
qed

theorem edited_event_is_detected_witness:
  "\<exists>e. \<forall>h'. verify_loop ''r1'' None [e\<lparr>e_type := ''run.denied''\<rparr>] \<noteq> Inr (Some h')
    \<or> sha_collision (event_text ''r1'' (e_prev e) (content e))
        (event_text ''r1'' (e_prev e) (content (e\<lparr>e_type := ''run.denied''\<rparr>)))"
proof -
  let ?l = "ledger_after demo_create"
  have "fetch_run ?l ''r1'' \<noteq> None" by (simp add: created_simps)
  then obtain r where "fetch_run ?l ''r1'' = Some r" by blast
  then have chain: "chain_ok ''r1'' r (run_events ?l ''r1'')"
    by (auto dest: reachable_run [OF reachable_create] run_inv_parts(1))
  have "\<exists>e. run_events ?l ''r1'' = [e] \<and> e_type e = ''run.created''" by (simp add: created_simps)
  then obtain e where e: "run_events ?l ''r1'' = [e]" "e_type e = ''run.created''" by blast
  have ok: "verify_loop ''r1'' None ([] @ e # []) = Inr (Some (r_event_head_hash r))"
    using chain e(1) by (simp only: chain_ok_def append_Nil)
  have diff: "content (e\<lparr>e_type := ''run.denied''\<rparr>) \<noteq> content e" using e(2) by (simp add: content_def)
  from demo_events_wf e(1) have "json_wf (e_payload e)" by simp
  with edited_event_is_detected [OF ok diff] show ?thesis by (intro exI [of _ e]) simp
qed

section \<open>Request fingerprints\<close>

text \<open>Two requests are the same request when tenant, actor, action and risk agree, the roles and
  the evidence agree as multisets, and arguments and metadata agree as JSON values.\<close>

definition same_request ::
  "string \<Rightarrow> string \<Rightarrow> string list \<Rightarrow> string list \<Rightarrow> string \<Rightarrow> string \<Rightarrow> pyval \<Rightarrow> pyval
    \<Rightarrow> string \<Rightarrow> string \<Rightarrow> string list \<Rightarrow> string list \<Rightarrow> string \<Rightarrow> string \<Rightarrow> pyval \<Rightarrow> pyval \<Rightarrow> bool" where
  "same_request t a rs es n k x m t' a' rs' es' n' k' x' m' \<longleftrightarrow>
     t = t' \<and> a = a' \<and> mset rs = mset rs' \<and> mset es = mset es' \<and> n = n' \<and> k = k'
     \<and> json_norm True x = json_norm True x' \<and> json_norm True (or_empty m) = json_norm True (or_empty m')"

lemma sort_eq_mset: "sort xs = sort ys \<longleftrightarrow> mset xs = mset ys" for xs ys :: "string list"
  by (metis mset_sort properties_for_sort sorted_sort)

lemma fingerprint_document_inj:
  assumes "json_norm True (fingerprint_document t a rs es n k x m) = json_norm True (fingerprint_document t' a' rs' es' n' k' x' m')"
  shows "same_request t a rs es n k x m t' a' rs' es' n' k' x' m'"
proof -
  let ?d = "\<lambda>t a rs es n k x m. [(''schema'', PStr ''agenttrustops-request-v1''), (''tenant_id'', PStr t),
    (''actor_id'', PStr a), (''roles'', str_list (sort rs)), (''evidence'', str_list (sort es)),
    (''action_name'', PStr n), (''risk'', PStr k), (''arguments'', x), (''metadata'', or_empty m)]"
  have keys: "distinct (map fst (?d t a rs es n k x m))" for t a rs es n k x m by simp
  have eq: "json_norm True (PDict (?d t a rs es n k x m)) = json_norm True (PDict (?d t' a' rs' es' n' k' x' m'))"
    using assms by (simp only: fingerprint_document_def)
  note same = json_norm_PDict_eqD [OF eq keys keys]
  have "json_norm True (PStr t) = json_norm True (PStr t')" by (rule same [of "''tenant_id''"]) simp_all
  moreover have "json_norm True (PStr a) = json_norm True (PStr a')" by (rule same [of "''actor_id''"]) simp_all
  moreover have "json_norm True (str_list (sort rs)) = json_norm True (str_list (sort rs'))"
    by (rule same [of "''roles''"]) simp_all
  moreover have "json_norm True (str_list (sort es)) = json_norm True (str_list (sort es'))"
    by (rule same [of "''evidence''"]) simp_all
  moreover have "json_norm True (PStr n) = json_norm True (PStr n')" by (rule same [of "''action_name''"]) simp_all
  moreover have "json_norm True (PStr k) = json_norm True (PStr k')" by (rule same [of "''risk''"]) simp_all
  moreover have "json_norm True x = json_norm True x'" by (rule same [of "''arguments''"]) simp_all
  moreover have "json_norm True (or_empty m) = json_norm True (or_empty m')" by (rule same [of "''metadata''"]) simp_all
  ultimately show ?thesis by (simp add: same_request_def sort_eq_mset)
qed

lemma json_render_PDict_norm:
  "map (map_prod id (json_norm True)) kvs = map (map_prod id (json_norm True)) kvs' \<Longrightarrow>
     canonical_text (PDict kvs) = canonical_text (PDict kvs')"
proof -
  assume eq: "map (map_prod id (json_norm True)) kvs = map (map_prod id (json_norm True)) kvs'"
  have "json_norm True (PDict kvs) = json_norm True (PDict kvs')"
    using arg_cong [OF eq, of "order_items True"] by (simp only: json_norm_PDict order_items_map_prod)
  then show ?thesis by (metis json_render_norm)
qed

text \<open>C24: the fingerprint identifies the request: two serialisable requests have the same
  fingerprint exactly when they are the same request (order and repetition of dict keys, roles
  and evidence aside), unless their canonical texts collide under SHA-256.\<close>

theorem fingerprint_identifies_request:
  assumes "request_fingerprint t a rs es n k x m = Inr f" "request_fingerprint t' a' rs' es' n' k' x' m' = Inr f'"
    "json_wf x" "json_wf m" "json_wf x'" "json_wf m'"
    "\<not> sha_collision (canonical_text (fingerprint_document t a rs es n k x m))
        (canonical_text (fingerprint_document t' a' rs' es' n' k' x' m'))"
  shows "f = f' \<longleftrightarrow> same_request t a rs es n k x m t' a' rs' es' n' k' x' m'"
proof
  assume "f = f'"
  with assms show "same_request t a rs es n k x m t' a' rs' es' n' k' x' m'"
    using digest_inj [of "fingerprint_document t a rs es n k x m" f "fingerprint_document t' a' rs' es' n' k' x' m'"]
    by (intro fingerprint_document_inj) (simp only: request_fingerprint_def fingerprint_document_wf simp_thms)
next
  assume same: "same_request t a rs es n k x m t' a' rs' es' n' k' x' m'"
  have "canonical_text (fingerprint_document t a rs es n k x m) = canonical_text (fingerprint_document t' a' rs' es' n' k' x' m')"
    unfolding fingerprint_document_def using same
    by (intro json_render_PDict_norm) (simp add: same_request_def sort_eq_mset)
  with assms(1,2) show "f = f'" by (simp add: request_fingerprint_def)
qed

theorem fingerprint_identifies_request_witness:
  "request_fingerprint ''acme'' ''alice'' [''a'', ''b''] [] ''refund'' ''high'' (PDict [(''x'', PInt 1)]) PNone
   = request_fingerprint ''acme'' ''alice'' [''b'', ''a''] [] ''refund'' ''high'' (PDict [(''x'', PInt 1)]) (PDict [])"
proof -
  let ?d = "fingerprint_document ''acme'' ''alice'' [''a'', ''b''] [] ''refund'' ''high'' (PDict [(''x'', PInt 1)]) PNone"
  let ?d' = "fingerprint_document ''acme'' ''alice'' [''b'', ''a''] [] ''refund'' ''high'' (PDict [(''x'', PInt 1)]) (PDict [])"
  have "sort [''a'', ''b''] = sort [''b'', ''a'']" by (simp add: sort_eq_mset)
  then have "?d = ?d'" by (simp add: fingerprint_document_def or_empty_def)
  then have nc: "\<not> sha_collision (canonical_text ?d) (canonical_text ?d')" by (simp add: sha_collision_def)
  have ok: "request_fingerprint ''acme'' ''alice'' [''a'', ''b''] [] ''refund'' ''high'' (PDict [(''x'', PInt 1)]) PNone
      = Inr (digest_text (canonical_text ?d))"
    "request_fingerprint ''acme'' ''alice'' [''b'', ''a''] [] ''refund'' ''high'' (PDict [(''x'', PInt 1)]) (PDict [])
      = Inr (digest_text (canonical_text ?d'))"
    by (simp_all add: request_fingerprint_def digest_def py_json_ok fingerprint_document_def or_empty_def)
  have "same_request ''acme'' ''alice'' [''a'', ''b''] [] ''refund'' ''high'' (PDict [(''x'', PInt 1)]) PNone
      ''acme'' ''alice'' [''b'', ''a''] [] ''refund'' ''high'' (PDict [(''x'', PInt 1)]) (PDict [])"
    by (simp add: same_request_def or_empty_def)
  with fingerprint_identifies_request [OF ok _ _ _ _ nc] ok show ?thesis by simp
qed

end
