(* ===== verification/Providers.thy ===== *)
theory Providers
  imports Models
begin

text \<open>
  Provider-side reconciliation contracts (\<open>providers.py\<close>): the lookup a probe receives, the
  observation it returns, and the checks their constructors make.
\<close>

datatype ProviderOutcome = COMMITTED | NOT_COMMITTED | PENDING

fun provider_outcome_value :: "ProviderOutcome \<Rightarrow> string" where
  "provider_outcome_value COMMITTED = ''committed''"
| "provider_outcome_value NOT_COMMITTED = ''not_committed''"
| "provider_outcome_value PENDING = ''pending''"

lemma provider_outcome_value_inj [simp]: "provider_outcome_value o1 = provider_outcome_value o2 \<longleftrightarrow> o1 = o2"
  by (cases o1; cases o2; simp)

text \<open>\<open>_json_copy\<close>.\<close>

definition provider_json_copy :: "pyval \<Rightarrow> pyval res" where
  "provider_json_copy value = json_copy ''provider reconciliation data must be JSON serializable'' value"

record ProviderLookup =
  pl_run_id :: string
  pl_action_name :: string
  pl_tenant_id :: string
  pl_idempotency_key :: string
  pl_arguments :: pyval
  pl_created_at :: "datetime option"

text \<open>The run's time of creation is stored as \<open>isoformat\<close> with an offset, so parsing it back
  succeeds and gives an aware time; it is passed here as the parsed value.\<close>

definition ProviderLookup_init ::
  "string \<Rightarrow> string \<Rightarrow> string \<Rightarrow> string \<Rightarrow> pyval \<Rightarrow> datetime option \<Rightarrow> ProviderLookup res" where
  "ProviderLookup_init run_id action_name tenant_id idempotency_key arguments created_at =
     (if strip run_id = [] then raise_exc ValueError ''run_id cannot be empty''
      else if strip action_name = [] then raise_exc ValueError ''action_name cannot be empty''
      else if strip tenant_id = [] then raise_exc ValueError ''tenant_id cannot be empty''
      else if strip idempotency_key = [] then raise_exc ValueError ''idempotency_key cannot be empty''
      else res_bind (provider_json_copy arguments) (\<lambda>arguments'.
        Inr \<lparr>pl_run_id = run_id, pl_action_name = action_name, pl_tenant_id = tenant_id,
             pl_idempotency_key = idempotency_key, pl_arguments = arguments',
             pl_created_at = created_at\<rparr>))"

record ProviderObservation =
  po_outcome :: ProviderOutcome
  po_summary :: string
  po_reference :: "string option"
  po_safe_result :: pyval

definition ProviderObservation_init ::
  "ProviderOutcome \<Rightarrow> string \<Rightarrow> string option \<Rightarrow> pyval \<Rightarrow> ProviderObservation res" where
  "ProviderObservation_init outcome summary reference safe_result =
     (let summary' = strip summary;
          reference' = (case map_option strip reference of
             None \<Rightarrow> None | Some s \<Rightarrow> if s = [] then None else Some s) in
      if summary' = [] then raise_exc ValueError ''provider observation summary cannot be empty''
      else if 500 < length summary'
      then raise_exc ValueError ''provider observation summary cannot exceed 500 characters''
      else if reference' \<noteq> None \<and> 255 < length (the reference')
      then raise_exc ValueError ''provider reference cannot exceed 255 characters''
      else res_bind (provider_json_copy safe_result) (\<lambda>safe_result'.
        Inr \<lparr>po_outcome = outcome, po_summary = summary', po_reference = reference',
             po_safe_result = safe_result'\<rparr>))"

definition validate_provider_name :: "string \<Rightarrow> string res" where
  "validate_provider_name name =
     (let normalized = strip name in
      if normalized = [] then raise_exc ValueError ''provider probe name cannot be empty''
      else if 100 < length normalized
      then raise_exc ValueError ''provider probe name cannot exceed 100 characters''
      else Inr normalized)"

section \<open>What the constructors guarantee\<close>

definition observation_ok :: "ProviderObservation \<Rightarrow> bool" where
  "observation_ok ob \<longleftrightarrow> strip (po_summary ob) = po_summary ob \<and> po_summary ob \<noteq> [] \<and> length (po_summary ob) \<le> 500
     \<and> (case po_reference ob of None \<Rightarrow> True | Some s \<Rightarrow> s \<noteq> [] \<and> length s \<le> 255)
     \<and> json_error True (po_safe_result ob) = None"

lemma ProviderObservation_init_ok:
  assumes "ProviderObservation_init outcome summary reference safe_result = Inr ob" "json_wf safe_result"
  shows "observation_ok ob \<and> po_outcome ob = outcome \<and> po_safe_result ob = json_norm True safe_result"
  using assms by (auto simp: ProviderObservation_init_def observation_ok_def provider_json_copy_def json_copy_eq Let_def
      split: if_splits option.splits)

lemma validate_provider_name_ok: "validate_provider_name name = Inr n \<Longrightarrow> n = strip name \<and> n \<noteq> [] \<and> length n \<le> 100"
  by (auto simp: validate_provider_name_def Let_def split: if_splits)

end
