(* ===== verification/Runtime.thy ===== *)
theory Runtime
  imports Ledger_Effects Providers
begin

text \<open>
  Governed execution (\<open>runtime.py\<close>). A method of \<open>TrustedAction\<close> runs on a world: the ledger,
  the state of the systems the tool acts on, and the log of the tool calls made. Each ledger
  call is one transaction; what other threads, workers and services do to the ledger between
  two transactions is the argument \<open>o_others\<close> of the schedule, which also gives the clock
  readings and ids of each call. An exception leaves the world as the committed transactions
  left it.
\<close>

section \<open>Worlds and effects\<close>

text \<open>What a keyword argument of the protected function can be.\<close>

datatype arg_value = PlainArg pyval | ContextArg ActionExecutionContext

type_synonym kwargs = "(string \<times> arg_value) list"

text \<open>A call of a protected function: the action, the run and the worker it was made for.\<close>

record tool_call =
  tc_action :: string
  tc_run :: string
  tc_owner :: string
  tc_arguments :: kwargs

record 'w world =
  w_ledger :: ledger
  w_calls :: nat
  w_ext :: 'w
  w_log :: "tool_call list"

record schedule =
  o_env :: "nat \<Rightarrow> env"
  o_others :: "nat \<Rightarrow> ledger \<Rightarrow> ledger"
  o_uuid :: "nat \<Rightarrow> string"

type_synonym ('w, 'a) rt = "'w world \<Rightarrow> 'a res \<times> 'w world"

definition rt_return :: "'a \<Rightarrow> ('w, 'a) rt" where
  "rt_return x w = (Inr x, w)"

definition rt_raise :: "exc_class \<Rightarrow> string \<Rightarrow> ('w, 'a) rt" where
  "rt_raise c m w = (raise_exc c m, w)"

definition rt_lift :: "'a res \<Rightarrow> ('w, 'a) rt" where
  "rt_lift m w = (m, w)"

definition rt_bind :: "('w, 'a) rt \<Rightarrow> ('a \<Rightarrow> ('w, 'b) rt) \<Rightarrow> ('w, 'b) rt" where
  "rt_bind m f w = (case m w of (Inl e, w') \<Rightarrow> (Inl e, w') | (Inr x, w') \<Rightarrow> f x w')"

text \<open>\<open>try: m except E: h\<close>, for the exceptions \<open>caught\<close> selects.\<close>

definition rt_catch :: "('w, 'a) rt \<Rightarrow> (exc \<Rightarrow> bool) \<Rightarrow> (exc \<Rightarrow> ('w, 'a) rt) \<Rightarrow> ('w, 'a) rt" where
  "rt_catch m caught h w = (case m w of
     (Inl e, w') \<Rightarrow> if caught e then h e w' else (Inl e, w')
   | (Inr x, w') \<Rightarrow> (Inr x, w'))"

text \<open>One transaction: the others act, then the operation runs and commits or rolls back.\<close>

definition ledger_call :: "schedule \<Rightarrow> (env \<Rightarrow> ledger \<Rightarrow> ('a \<times> ledger) res) \<Rightarrow> ('w, 'a) rt" where
  "ledger_call orc operation w =
     (let i = w_calls w; l = o_others orc i (w_ledger w) in
      case operation (o_env orc i) l of
        Inl e \<Rightarrow> (Inl e, w\<lparr>w_ledger := l, w_calls := Suc i\<rparr>)
      | Inr (x, l') \<Rightarrow> (Inr x, w\<lparr>w_ledger := l', w_calls := Suc i\<rparr>))"

text \<open>A random id, \<open>prefix + uuid4().hex\<close>.\<close>

definition fresh_id :: "schedule \<Rightarrow> string \<Rightarrow> ('w, string) rt" where
  "fresh_id orc pre w = (Inr (pre @ o_uuid orc (w_calls w)), w)"

definition get_run :: "schedule \<Rightarrow> string \<Rightarrow> ('w, run_row option) rt" where
  "get_run orc run_id = ledger_call orc (\<lambda>_ l. Inr (fetch_run l run_id, l))"

text \<open>The name of an exception class, \<open>type(error).__name__\<close>.\<close>

fun exc_name :: "exc_class \<Rightarrow> string" where
  "exc_name ValueError = ''ValueError''"
| "exc_name TypeError = ''TypeError''"
| "exc_name KeyError = ''KeyError''"
| "exc_name RuntimeError = ''RuntimeError''"
| "exc_name OverflowError = ''OverflowError''"
| "exc_name JSONDecodeError = ''JSONDecodeError''"
| "exc_name IntegrityError = ''IntegrityError''"
| "exc_name IdempotencyConflict = ''IdempotencyConflict''"
| "exc_name InvalidTransition = ''InvalidTransition''"
| "exc_name ApprovalDenied = ''ApprovalDenied''"
| "exc_name AuthenticationError = ''AuthenticationError''"
| "exc_name IndeterminateOutcome = ''IndeterminateOutcome''"
| "exc_name ProviderLookupError = ''ProviderLookupError''"
| "exc_name CancelledError = ''CancelledError''"
| "exc_name (OtherError n) = n"

text \<open>What \<open>except (TypeError, ValueError)\<close> catches: these classes and their subclasses.\<close>

definition value_or_type_error :: "exc \<Rightarrow> bool" where
  "value_or_type_error e \<longleftrightarrow> exc_kind e \<in> {TypeError, ValueError, JSONDecodeError}"

section \<open>Actions\<close>

text \<open>How the protected function ended: it returned, raised \<open>IndeterminateOutcome\<close> (or a
  subclass, named), raised another \<open>Exception\<close>, was cancelled, or was left by another
  \<open>BaseException\<close>.\<close>

datatype tool_result =
    Returned pyval
  | Indeterminate string
  | Failed string
  | Cancelled
  | Aborted string

text \<open>What a policy plug-in did: it decided, or raised an \<open>Exception\<close> of the named class.\<close>

datatype policy_result = Decided PolicyDecision | PolicyRaised string

text \<open>How the runtime sees a policy that returns or raises.\<close>

definition policy_outcome :: "PolicyDecision res \<Rightarrow> policy_result" where
  "policy_outcome m = (case m of Inr d \<Rightarrow> Decided d | Inl e \<Rightarrow> PolicyRaised (exc_name (exc_kind e)))"

text \<open>How the runtime sees a function that returns or raises.\<close>

definition tool_outcome :: "pyval res \<Rightarrow> tool_result" where
  "tool_outcome m =
     (case m of
        Inr v \<Rightarrow> Returned v
      | Inl e \<Rightarrow> if exc_kind e = IndeterminateOutcome then Indeterminate ''IndeterminateOutcome''
          else if exc_kind e = CancelledError then Cancelled else Failed (exc_name (exc_kind e)))"

record 'w TrustedAction =
  ta_function :: "kwargs \<Rightarrow> 'w \<Rightarrow> tool_result \<times> 'w"
  ta_policy :: "string \<Rightarrow> pyval \<Rightarrow> ActionContext \<Rightarrow> policy_result"
  ta_idempotency_key :: "pyval \<Rightarrow> ActionContext \<Rightarrow> string res"
  ta_risk :: string
  ta_name :: string
  ta_lease_seconds :: int
  ta_approval_ttl_seconds :: int
  ta_approval_roles :: "string list"
  ta_reconciliation_roles :: "string list"
  ta_allow_self_approval :: bool
  ta_context_parameter :: "string option"
  ta_is_async :: bool

text \<open>The parameters \<open>inspect.signature\<close> reports of a function.\<close>

datatype parameter_kind = POSITIONAL_ONLY | POSITIONAL_OR_KEYWORD | VAR_POSITIONAL | KEYWORD_ONLY | VAR_KEYWORD

record 'w protected_function =
  pf_name :: string
  pf_body :: "kwargs \<Rightarrow> 'w \<Rightarrow> tool_result \<times> 'w"
  pf_parameters :: "(string \<times> parameter_kind) list"
  pf_is_async :: bool

definition validate_execution_context_parameter ::
  "(string \<times> parameter_kind) list \<Rightarrow> string option \<Rightarrow> string option res" where
  "validate_execution_context_parameter parameters name =
     (case name of
        None \<Rightarrow> Inr None
      | Some n \<Rightarrow>
          let normalized = strip n in
          if normalized = [] then raise_exc ValueError ''execution_context_parameter cannot be empty''
          else case map_of parameters normalized of
            None \<Rightarrow> raise_exc ValueError
              (''protected function has no execution context parameter: '' @ normalized)
          | Some kind \<Rightarrow>
              if kind \<noteq> POSITIONAL_OR_KEYWORD \<and> kind \<noteq> KEYWORD_ONLY
              then raise_exc ValueError ''execution context parameter must accept a keyword value''
              else Inr (Some normalized))"

definition TrustedAction_init ::
  "'w protected_function \<Rightarrow> (string \<Rightarrow> pyval \<Rightarrow> ActionContext \<Rightarrow> policy_result)
    \<Rightarrow> (pyval \<Rightarrow> ActionContext \<Rightarrow> string res) \<Rightarrow> string \<Rightarrow> string option \<Rightarrow> int \<Rightarrow> int \<Rightarrow> string list
    \<Rightarrow> string list \<Rightarrow> bool \<Rightarrow> string option \<Rightarrow> 'w TrustedAction res" where
  "TrustedAction_init f policy key risk name lease_seconds ttl_seconds approval_roles
       reconciliation_roles allow_self context_parameter =
     (let risk' = strip risk;
          name' = strip (case name of None \<Rightarrow> pf_name f | Some n \<Rightarrow> if n = [] then pf_name f else n);
          approvers = sorted_strip_set approval_roles;
          reconcilers = sorted_strip_set reconciliation_roles in
      if risk' = [] then raise_exc ValueError ''risk cannot be empty''
      else if name' = [] then raise_exc ValueError ''action name cannot be empty''
      else if \<not> (1 \<le> lease_seconds \<and> lease_seconds \<le> 86400)
      then raise_exc ValueError ''execution_lease_seconds must be between 1 and 86400''
      else if \<not> (1 \<le> ttl_seconds \<and> ttl_seconds \<le> 604800)
      then raise_exc ValueError ''approval_ttl_seconds must be between 1 and 604800''
      else if approvers = [] \<or> reconcilers = []
      then raise_exc ValueError ''approval and reconciliation roles cannot be empty''
      else res_bind (validate_execution_context_parameter (pf_parameters f) context_parameter) (\<lambda>parameter.
        Inr \<lparr>ta_function = pf_body f, ta_policy = policy, ta_idempotency_key = key, ta_risk = risk',
             ta_name = name', ta_lease_seconds = lease_seconds, ta_approval_ttl_seconds = ttl_seconds,
             ta_approval_roles = approvers, ta_reconciliation_roles = reconcilers,
             ta_allow_self_approval = allow_self, ta_context_parameter = parameter,
             ta_is_async = pf_is_async f\<rparr>))"

text \<open>\<open>_result_from_run\<close>.\<close>

definition result_from_run :: "run_row option \<Rightarrow> bool \<Rightarrow> ActionResult res" where
  "result_from_run run duplicate =
     (case run of
        None \<Rightarrow> raise_exc KeyError ''run not found''
      | Some r \<Rightarrow> Inr \<lparr>ar_run_id = r_run_id r, ar_action_name = r_action_name r, ar_status = r_status r,
            ar_idempotency_key = r_idempotency_key r, ar_policy_version = r_policy_version r,
            ar_reason = r_reason r, ar_value = (case r_result r of None \<Rightarrow> PNone | Some v \<Rightarrow> v),
            ar_duplicate = duplicate, ar_attempt = int (r_attempt r)\<rparr>)"

text \<open>\<open>self._result_from_run(self.ledger.get_run(run_id), duplicate=...)\<close>.\<close>

definition run_result :: "schedule \<Rightarrow> string \<Rightarrow> bool \<Rightarrow> ('w, ActionResult) rt" where
  "run_result orc run_id duplicate =
     rt_bind (get_run orc run_id) (\<lambda>run. rt_lift (result_from_run run duplicate))"

section \<open>Invocation\<close>

text \<open>What the preparation of a call decided: execute the run, or return a result.\<close>

datatype prepared = Execute string | Finished ActionResult

text \<open>The decision recorded when the policy raised or its decision could not be stored.\<close>

definition policy_error_decision :: "string \<Rightarrow> string \<Rightarrow> PolicyDecision res" where
  "policy_error_decision message error_type =
     PolicyDecision_init DENY (message @ error_type) ''policy-error''
       (PDict [(''error_type'', PStr error_type)]) None"

definition evaluate_policy :: "'w TrustedAction \<Rightarrow> pyval \<Rightarrow> ActionContext \<Rightarrow> PolicyDecision res" where
  "evaluate_policy act arguments context =
     (case ta_policy act (ta_name act) arguments context of
        Decided d \<Rightarrow> Inr d
      | PolicyRaised error_type \<Rightarrow> policy_error_decision ''policy evaluation failed: '' error_type)"

text \<open>The decision is recorded; when it cannot be serialised, a denial is recorded instead.\<close>

definition record_decision :: "schedule \<Rightarrow> 'w TrustedAction \<Rightarrow> string \<Rightarrow> PolicyDecision \<Rightarrow> ('w, PolicyDecision) rt" where
  "record_decision orc act run_id decision =
     rt_catch
       (rt_bind (ledger_call orc (\<lambda>env. record_policy_decision env run_id decision (ta_approval_ttl_seconds act)))
          (\<lambda>_. rt_return decision))
       value_or_type_error
       (\<lambda>e. rt_bind (rt_lift (policy_error_decision ''policy decision could not be serialized: ''
                (exc_name (exc_kind e)))) (\<lambda>denial.
            rt_bind (ledger_call orc (\<lambda>env. record_policy_decision env run_id denial (ta_approval_ttl_seconds act)))
              (\<lambda>_. rt_return denial)))"

definition governed_key :: "'w TrustedAction \<Rightarrow> pyval \<Rightarrow> ActionContext \<Rightarrow> string option \<Rightarrow> string res" where
  "governed_key act arguments context override =
     res_bind (case override of Some k \<Rightarrow> Inr k | None \<Rightarrow> ta_idempotency_key act arguments context)
       (\<lambda>k. if strip k = [] then raise_exc ValueError ''idempotency key cannot be empty'' else Inr (strip k))"

text \<open>Whether the arguments name the parameter only the runtime may supply.\<close>

definition supplies_context :: "'w TrustedAction \<Rightarrow> (string \<times> pyval) list \<Rightarrow> bool" where
  "supplies_context act arguments \<longleftrightarrow>
     (case ta_context_parameter act of None \<Rightarrow> False | Some p \<Rightarrow> p \<in> fst ` set arguments)"

text \<open>A key that is already in use: overdue approvals and executions of the tenant are settled
  first, and the stored run is returned as a duplicate.\<close>

definition answer_duplicate :: "schedule \<Rightarrow> string \<Rightarrow> string \<Rightarrow> ('w, prepared) rt" where
  "answer_duplicate orc tenant run_id =
     rt_bind (ledger_call orc (\<lambda>env. expire_approvals env (Some tenant))) (\<lambda>_.
     rt_bind (ledger_call orc (\<lambda>env. recover_expired_executions env (Some tenant))) (\<lambda>_.
     rt_bind (ledger_call orc (\<lambda>_. record_duplicate run_id)) (\<lambda>_.
     rt_bind (run_result orc run_id True) (\<lambda>result. rt_return (Finished result)))))"

text \<open>A new run: the policy decides, and only an allowed run is executed now.\<close>

definition govern_new_run ::
  "schedule \<Rightarrow> 'w TrustedAction \<Rightarrow> ActionContext \<Rightarrow> (string \<times> pyval) list \<Rightarrow> string \<Rightarrow> ('w, prepared) rt" where
  "govern_new_run orc act context arguments run_id =
     rt_bind (rt_lift (evaluate_policy act (PDict arguments) context)) (\<lambda>decision.
     rt_bind (record_decision orc act run_id decision) (\<lambda>recorded.
     if pd_outcome recorded \<noteq> ALLOW
     then rt_bind (run_result orc run_id False) (\<lambda>result. rt_return (Finished result))
     else rt_return (Execute run_id)))"

definition prepare_invoke ::
  "schedule \<Rightarrow> 'w TrustedAction \<Rightarrow> ActionContext \<Rightarrow> (string \<times> pyval) list \<Rightarrow> string option \<Rightarrow> ('w, prepared) rt" where
  "prepare_invoke orc act context arguments override =
     (if supplies_context act arguments
      then rt_raise ValueError ''execution context is supplied only by AgentTrustOps''
      else rt_bind (rt_lift (governed_key act (PDict arguments) context override)) (\<lambda>key.
      rt_bind (rt_lift (request_fingerprint (cx_tenant_id context) (cx_actor_id context) (cx_roles context)
        (cx_evidence context) (ta_name act) (ta_risk act) (PDict arguments) (cx_metadata context))) (\<lambda>fingerprint.
      rt_bind (fresh_id orc ''run_'') (\<lambda>run_id.
      rt_bind (ledger_call orc (\<lambda>env. create_or_get_run env run_id (cx_tenant_id context) (cx_actor_id context)
        (cx_roles context) (cx_evidence context) (ta_name act) (ta_risk act) key fingerprint
        arguments (cx_metadata context))) (\<lambda>(run, created).
      if \<not> created then answer_duplicate orc (cx_tenant_id context) (r_run_id run)
      else govern_new_run orc act context arguments run_id)))))"

section \<open>Execution\<close>

definition arguments_with_execution_context ::
  "schedule \<Rightarrow> 'w TrustedAction \<Rightarrow> string \<Rightarrow> (string \<times> pyval) list \<Rightarrow> ('w, kwargs) rt" where
  "arguments_with_execution_context orc act run_id arguments =
     (let values = map (map_prod id PlainArg) arguments in
      case ta_context_parameter act of
        None \<Rightarrow> rt_return values
      | Some parameter \<Rightarrow>
          rt_bind (get_run orc run_id) (\<lambda>run. case run of
            None \<Rightarrow> rt_raise KeyError ''run not found''
          | Some r \<Rightarrow>
              rt_bind (rt_lift (ActionExecutionContext_init (r_run_id r) (r_action_name r) (r_tenant_id r)
                (r_idempotency_key r) (int (r_attempt r)))) (\<lambda>context.
              rt_return (dict_set parameter (ContextArg context) values))))"

text \<open>The protected call. It acts on the external systems and is noted in the log.\<close>

definition call_function :: "'w TrustedAction \<Rightarrow> string \<Rightarrow> string \<Rightarrow> kwargs \<Rightarrow> ('w, tool_result) rt" where
  "call_function act run_id owner args w =
     (let (outcome, ext) = ta_function act args (w_ext w);
          call = \<lparr>tc_action = ta_name act, tc_run = run_id, tc_owner = owner, tc_arguments = args\<rparr> in
      (Inr outcome, w\<lparr>w_ext := ext, w_log := w_log w @ [call]\<rparr>))"

text \<open>The body of the \<open>try\<close> around the tool: an \<open>Exception\<close> of the preparation of its
  arguments is handled like one of the tool.\<close>

definition run_tool ::
  "schedule \<Rightarrow> 'w TrustedAction \<Rightarrow> string \<Rightarrow> string \<Rightarrow> (string \<times> pyval) list \<Rightarrow> ('w, tool_result) rt" where
  "run_tool orc act run_id owner arguments =
     rt_catch (rt_bind (arguments_with_execution_context orc act run_id arguments) (call_function act run_id owner))
       (\<lambda>_. True) (\<lambda>e. rt_return (Failed (exc_name (exc_kind e))))"

definition mark_unknown :: "schedule \<Rightarrow> string \<Rightarrow> string \<Rightarrow> string \<Rightarrow> ('w, ActionResult) rt" where
  "mark_unknown orc run_id owner error_type =
     rt_bind (ledger_call orc (\<lambda>env. mark_execution_unknown env run_id owner error_type))
       (\<lambda>_. run_result orc run_id False)"

definition settle :: "schedule \<Rightarrow> bool \<Rightarrow> string \<Rightarrow> string \<Rightarrow> tool_result \<Rightarrow> ('w, ActionResult) rt" where
  "settle orc is_async run_id owner outcome =
     (case outcome of
        Cancelled \<Rightarrow>
          if is_async
          then rt_bind (mark_unknown orc run_id owner ''CancelledError'')
                 (\<lambda>_. rt_raise CancelledError ''cancelled'')
          else rt_raise CancelledError ''cancelled''
      | Aborted name \<Rightarrow> rt_raise (OtherError name) ''''
      | Indeterminate name \<Rightarrow> mark_unknown orc run_id owner name
      | Failed name \<Rightarrow>
          rt_bind (ledger_call orc (\<lambda>env. fail_execution env run_id owner name))
            (\<lambda>_. run_result orc run_id False)
      | Returned value \<Rightarrow>
          rt_bind (rt_catch
              (rt_bind (ledger_call orc (\<lambda>env. complete_execution env run_id owner value)) (\<lambda>_. rt_return True))
              value_or_type_error (\<lambda>_. rt_return False)) (\<lambda>stored.
            if stored then run_result orc run_id False
            else mark_unknown orc run_id owner ''ResultSerializationError''))"

text \<open>\<open>_execute\<close> and \<open>_execute_async\<close>, which differ in what they do with a cancellation.\<close>

definition execute :: "schedule \<Rightarrow> 'w TrustedAction \<Rightarrow> bool \<Rightarrow> string \<Rightarrow> (string \<times> pyval) list \<Rightarrow> ('w, ActionResult) rt" where
  "execute orc act is_async run_id arguments =
     rt_bind (fresh_id orc ''worker_'') (\<lambda>owner.
     rt_bind (ledger_call orc (\<lambda>env. claim_execution env run_id owner (ta_lease_seconds act))) (\<lambda>claimed.
     if \<not> claimed then run_result orc run_id True
     else rt_bind (run_tool orc act run_id owner arguments) (settle orc is_async run_id owner)))"

definition run_prepared ::
  "schedule \<Rightarrow> 'w TrustedAction \<Rightarrow> bool \<Rightarrow> (string \<times> pyval) list \<Rightarrow> prepared \<Rightarrow> ('w, ActionResult) rt" where
  "run_prepared orc act is_async arguments p =
     (case p of Finished result \<Rightarrow> rt_return result | Execute run_id \<Rightarrow> execute orc act is_async run_id arguments)"

definition invoke :: "schedule \<Rightarrow> 'w TrustedAction \<Rightarrow> ActionContext \<Rightarrow> (string \<times> pyval) list \<Rightarrow> ('w, ActionResult) rt" where
  "invoke orc act context arguments =
     (if ta_is_async act then rt_raise TypeError (''async trusted actions require '' @ quoted ''await .invoke_async(...)'')
      else rt_bind (prepare_invoke orc act context arguments None) (run_prepared orc act False arguments))"

definition invoke_request ::
  "schedule \<Rightarrow> 'w TrustedAction \<Rightarrow> ActionContext \<Rightarrow> (string \<times> pyval) list \<Rightarrow> string \<Rightarrow> ('w, ActionResult) rt" where
  "invoke_request orc act context arguments key =
     (if ta_is_async act then rt_raise TypeError (''async trusted actions require '' @ quoted ''await .invoke_request_async(...)'')
      else rt_bind (prepare_invoke orc act context arguments (Some key)) (run_prepared orc act False arguments))"

definition invoke_async :: "schedule \<Rightarrow> 'w TrustedAction \<Rightarrow> ActionContext \<Rightarrow> (string \<times> pyval) list \<Rightarrow> ('w, ActionResult) rt" where
  "invoke_async orc act context arguments =
     (if \<not> ta_is_async act then rt_raise TypeError (''sync trusted actions require '' @ quoted ''.invoke(...)'')
      else rt_bind (prepare_invoke orc act context arguments None) (run_prepared orc act True arguments))"

definition invoke_request_async ::
  "schedule \<Rightarrow> 'w TrustedAction \<Rightarrow> ActionContext \<Rightarrow> (string \<times> pyval) list \<Rightarrow> string \<Rightarrow> ('w, ActionResult) rt" where
  "invoke_request_async orc act context arguments key =
     (if \<not> ta_is_async act then rt_raise TypeError (''sync trusted actions require '' @ quoted ''.invoke_request(...)'')
      else rt_bind (prepare_invoke orc act context arguments (Some key)) (run_prepared orc act True arguments))"

text \<open>A trusted action refuses to be called like the function it protects (\<open>__call__\<close>), and the
  decorator \<open>trusted_action\<close> is the constructor with its options given first.\<close>

definition call_directly :: "'w TrustedAction \<Rightarrow> ('w, 'a) rt" where
  "call_directly act =
     (let m = (if ta_is_async act then ''invoke_async'' else ''invoke'') in
      rt_raise TypeError (''trusted actions cannot be called directly; use .'' @ m @ ''(context=..., **arguments)''))"

record action_options =
  ao_name :: "string option"
  ao_lease_seconds :: int
  ao_approval_ttl_seconds :: int
  ao_approval_roles :: "string list"
  ao_reconciliation_roles :: "string list"
  ao_allow_self_approval :: bool
  ao_context_parameter :: "string option"

definition default_options :: action_options where
  "default_options = \<lparr>ao_name = None, ao_lease_seconds = 60, ao_approval_ttl_seconds = 3600,
     ao_approval_roles = [''agenttrustops_approver''], ao_reconciliation_roles = [''agenttrustops_reconciler''],
     ao_allow_self_approval = False, ao_context_parameter = None\<rparr>"

definition trusted_action ::
  "(string \<Rightarrow> pyval \<Rightarrow> ActionContext \<Rightarrow> policy_result) \<Rightarrow> (pyval \<Rightarrow> ActionContext \<Rightarrow> string res) \<Rightarrow> string
    \<Rightarrow> action_options \<Rightarrow> 'w protected_function \<Rightarrow> 'w TrustedAction res" where
  "trusted_action policy key risk opts f =
     TrustedAction_init f policy key risk (ao_name opts) (ao_lease_seconds opts) (ao_approval_ttl_seconds opts)
       (ao_approval_roles opts) (ao_reconciliation_roles opts) (ao_allow_self_approval opts) (ao_context_parameter opts)"

text \<open>The heartbeat thread of a running tool (\<open>_LeaseHeartbeat\<close>): one renewal at each wait that
  times out before the tool ends, until a renewal is refused. It is one of the other clients
  of the ledger while the tool runs.\<close>

primrec renew :: "schedule \<Rightarrow> string \<Rightarrow> string \<Rightarrow> int \<Rightarrow> nat \<Rightarrow> ('w, unit) rt" where
  "renew orc run_id owner lease_seconds 0 = rt_return ()"
| "renew orc run_id owner lease_seconds (Suc ticks) =
     rt_bind (ledger_call orc (\<lambda>env. heartbeat_execution env run_id owner lease_seconds)) (\<lambda>renewed.
     if \<not> renewed then rt_return () else renew orc run_id owner lease_seconds ticks)"

section \<open>Approval, reconciliation and resumption\<close>

text \<open>\<open>approve\<close> and \<open>reject\<close> differ in the decision and in the message about an empty note.\<close>

definition decide ::
  "schedule \<Rightarrow> 'w TrustedAction \<Rightarrow> bool \<Rightarrow> string \<Rightarrow> string \<Rightarrow> VerifiedPrincipal \<Rightarrow> string \<Rightarrow> ('w, ActionResult) rt" where
  "decide orc act approved message run_id approver reason =
     (if strip reason = [] then rt_raise ValueError message
      else rt_bind (ledger_call orc (\<lambda>env. decide_approval env run_id approved approver (strip reason)
               (ta_approval_roles act) (ta_allow_self_approval act))) (\<lambda>decided.
        if \<not> decided then
          rt_bind (get_run orc run_id) (\<lambda>run.
            if map_option r_status run = Some APPROVAL_EXPIRED
            then rt_raise ApprovalDenied ''approval request has expired''
            else rt_raise ValueError ''run is not waiting for approval'')
        else run_result orc run_id False))"

definition approve :: "schedule \<Rightarrow> 'w TrustedAction \<Rightarrow> string \<Rightarrow> VerifiedPrincipal \<Rightarrow> string \<Rightarrow> ('w, ActionResult) rt" where
  "approve orc act = decide orc act True ''approval note is required''"

definition reject :: "schedule \<Rightarrow> 'w TrustedAction \<Rightarrow> string \<Rightarrow> VerifiedPrincipal \<Rightarrow> string \<Rightarrow> ('w, ActionResult) rt" where
  "reject orc act = decide orc act False ''rejection note is required''"

definition has_role :: "string list \<Rightarrow> VerifiedPrincipal \<Rightarrow> bool" where
  "has_role roles p \<longleftrightarrow> list_ex (\<lambda>role. role \<in> set (vp_roles p)) roles"

definition outcome_of_text :: "string \<Rightarrow> ActionStatus option" where
  "outcome_of_text s = (if s = ''completed'' then Some COMPLETED else if s = ''failed'' then Some FAILED else None)"

definition reconcile ::
  "schedule \<Rightarrow> 'w TrustedAction \<Rightarrow> string \<Rightarrow> string \<Rightarrow> VerifiedPrincipal \<Rightarrow> string \<Rightarrow> pyval \<Rightarrow> ('w, ActionResult) rt" where
  "reconcile orc act run_id outcome operator reason result =
     (case outcome_of_text outcome of
        None \<Rightarrow> rt_raise ValueError (''outcome must be '' @ quoted ''completed'' @ '' or '' @ quoted ''failed'')
      | Some status \<Rightarrow>
          if strip reason = [] then rt_raise ValueError ''reconciliation note is required''
          else if \<not> has_role (ta_reconciliation_roles act) operator
          then rt_raise ApprovalDenied ''principal lacks a required reconciliation role''
          else rt_bind (get_run orc run_id) (\<lambda>run. case run of
            None \<Rightarrow> rt_raise KeyError ''run not found''
          | Some r \<Rightarrow>
              if r_action_name r \<noteq> ta_name act then rt_raise ValueError ''run belongs to a different action''
              else if r_tenant_id r \<noteq> vp_tenant_id operator
              then rt_raise ApprovalDenied ''reconciliation operator belongs to a different tenant''
              else rt_bind (ledger_call orc (\<lambda>env. reconcile_run env run_id status (strip reason) result operator)) (\<lambda>done'.
                if \<not> done' then rt_raise ValueError ''run is not waiting for reconciliation''
                else run_result orc run_id False)))"

definition load_reconcilable_run :: "schedule \<Rightarrow> 'w TrustedAction \<Rightarrow> string \<Rightarrow> VerifiedPrincipal \<Rightarrow> ('w, run_row) rt" where
  "load_reconcilable_run orc act run_id operator =
     (if \<not> has_role (ta_reconciliation_roles act) operator
      then rt_raise ApprovalDenied ''principal lacks a required reconciliation role''
      else rt_bind (get_run orc run_id) (\<lambda>run. case run of
        None \<Rightarrow> rt_raise KeyError ''run not found''
      | Some r \<Rightarrow>
          if r_action_name r \<noteq> ta_name act then rt_raise ValueError ''run belongs to a different action''
          else if r_tenant_id r \<noteq> vp_tenant_id operator
          then rt_raise ApprovalDenied ''reconciliation operator belongs to a different tenant''
          else if r_status r \<noteq> UNKNOWN then rt_raise ValueError ''run is not waiting for reconciliation''
          else rt_return r))"

text \<open>A probe looks at the external systems; a failing lookup raises.\<close>

record 'w ProviderProbe =
  pp_name :: string
  pp_lookup :: "ProviderLookup \<Rightarrow> 'w \<Rightarrow> ProviderObservation res \<times> 'w"

definition probe_provider :: "'w ProviderProbe \<Rightarrow> ProviderLookup \<Rightarrow> ('w, ProviderObservation) rt" where
  "probe_provider probe request w =
     (let (observation, ext) = pp_lookup probe request (w_ext w) in (observation, w\<lparr>w_ext := ext\<rparr>))"

definition observed_status :: "ProviderOutcome \<Rightarrow> ActionStatus option" where
  "observed_status outcome = (case outcome of
     PENDING \<Rightarrow> None | COMMITTED \<Rightarrow> Some COMPLETED | NOT_COMMITTED \<Rightarrow> Some FAILED)"

definition observed_result :: "string \<Rightarrow> ProviderObservation \<Rightarrow> pyval" where
  "observed_result provider ob =
     (if po_outcome ob = PENDING then PNone
      else PDict ([(''provider'', PStr provider)]
        @ (case po_reference ob of None \<Rightarrow> [] | Some r \<Rightarrow> [(''provider_reference'', PStr r)])
        @ (if po_safe_result ob = PNone then [] else [(''safe_result'', po_safe_result ob)])))"

definition reconcile_from_provider ::
  "schedule \<Rightarrow> 'w TrustedAction \<Rightarrow> string \<Rightarrow> 'w ProviderProbe \<Rightarrow> VerifiedPrincipal \<Rightarrow> ('w, ActionResult) rt" where
  "reconcile_from_provider orc act run_id probe operator =
     rt_bind (load_reconcilable_run orc act run_id operator) (\<lambda>run.
     rt_bind (rt_lift (validate_provider_name (pp_name probe))) (\<lambda>provider.
     rt_bind (rt_lift (ProviderLookup_init run_id (ta_name act) (r_tenant_id run) (r_idempotency_key run)
       (r_arguments run) (Some (r_created_at run)))) (\<lambda>request.
     rt_bind (probe_provider probe request) (\<lambda>ob.
     rt_bind (ledger_call orc (\<lambda>env. apply_provider_observation env run_id provider
       (provider_outcome_value (po_outcome ob)) (po_summary ob) (po_reference ob)
       (observed_status (po_outcome ob)) (observed_result provider ob) operator))
       (\<lambda>applied. run_result orc run_id (\<not> applied))))))"

definition prepare_resume :: "schedule \<Rightarrow> 'w TrustedAction \<Rightarrow> string \<Rightarrow> ('w, run_row + ActionResult) rt" where
  "prepare_resume orc act run_id =
     rt_bind (get_run orc run_id) (\<lambda>run. case run of
       None \<Rightarrow> rt_raise KeyError ''run not found''
     | Some r \<Rightarrow>
         if r_action_name r \<noteq> ta_name act then rt_raise ValueError ''run belongs to a different action''
         else if r_status r = COMPLETED
         then rt_bind (rt_lift (result_from_run (Some r) True)) (\<lambda>result. rt_return (Inr result))
         else if r_status r \<noteq> APPROVED then rt_raise ValueError ''run must be approved before it can resume''
         else rt_return (Inl r))"

text \<open>The stored arguments, a JSON object, as keyword arguments.\<close>

definition stored_arguments :: "run_row \<Rightarrow> (string \<times> pyval) list" where
  "stored_arguments r = (case r_arguments r of PDict kvs \<Rightarrow> kvs | _ \<Rightarrow> [])"

definition resume_run :: "schedule \<Rightarrow> 'w TrustedAction \<Rightarrow> bool \<Rightarrow> string \<Rightarrow> ('w, ActionResult) rt" where
  "resume_run orc act is_async run_id =
     rt_bind (prepare_resume orc act run_id) (\<lambda>p. case p of
       Inr result \<Rightarrow> rt_return result
     | Inl r \<Rightarrow> execute orc act is_async run_id (stored_arguments r))"

definition resume :: "schedule \<Rightarrow> 'w TrustedAction \<Rightarrow> string \<Rightarrow> ('w, ActionResult) rt" where
  "resume orc act run_id =
     (if ta_is_async act then rt_raise TypeError (''async trusted actions require '' @ quoted ''await .resume_async(...)'')
      else resume_run orc act False run_id)"

definition resume_async :: "schedule \<Rightarrow> 'w TrustedAction \<Rightarrow> string \<Rightarrow> ('w, ActionResult) rt" where
  "resume_async orc act run_id =
     (if \<not> ta_is_async act then rt_raise TypeError (''sync trusted actions require '' @ quoted ''.resume(...)'')
      else resume_run orc act True run_id)"

end
