(* ===== verification/Runtime_Logic.thy ===== *)
theory Runtime_Logic
  imports Runtime Ledger_Approvals
begin

text \<open>
  How the methods of \<open>TrustedAction\<close> change a world. The other clients of the ledger may do
  anything its operations allow (\<open>others_follow_protocol\<close>, a rely condition). A preorder on
  worlds kept by each construct is kept by a method (\<open>world_preorder\<close>); it is interpreted on
  the changes without a tool call and on the changes of the external systems alone.
\<close>

section \<open>The rely condition\<close>

definition others_follow_protocol :: "schedule \<Rightarrow> bool" where
  "others_follow_protocol orc \<longleftrightarrow> (\<forall>i l. ledger_step\<^sup>*\<^sup>* l (o_others orc i l))"

lemma others_steps: "others_follow_protocol orc \<Longrightarrow> ledger_step\<^sup>*\<^sup>* l (o_others orc i l)"
  by (simp add: others_follow_protocol_def)

section \<open>Preorders on worlds\<close>

definition keeps :: "('w world \<Rightarrow> 'w world \<Rightarrow> bool) \<Rightarrow> ('w, 'a) rt \<Rightarrow> bool" where
  "keeps R m \<longleftrightarrow> (\<forall>w. R w (snd (m w)))"

lemma keepsD: "keeps R m \<Longrightarrow> m w = (x, w') \<Longrightarrow> R w w'"
  by (metis keeps_def snd_conv)

lemma keeps_mono: "keeps R m \<Longrightarrow> (\<And>w w'. R w w' \<Longrightarrow> S w w') \<Longrightarrow> keeps S m"
  by (simp add: keeps_def)

locale world_preorder =
  fixes R :: "'w world \<Rightarrow> 'w world \<Rightarrow> bool"
  assumes refl: "R w w" and trans: "R u v \<Longrightarrow> R v w \<Longrightarrow> R u w"
begin

lemma keeps_return: "keeps R (rt_return x)"
  by (simp add: keeps_def rt_return_def refl)

lemma keeps_raise: "keeps R (rt_raise c m)"
  by (simp add: keeps_def rt_raise_def refl)

lemma keeps_lift: "keeps R (rt_lift x)"
  by (simp add: keeps_def rt_lift_def refl)

lemma keeps_fresh_id: "keeps R (fresh_id orc pre)"
  by (simp add: keeps_def fresh_id_def refl)

lemma keeps_bind:
  assumes "keeps R m" "\<And>x. keeps R (f x)"
  shows "keeps R (rt_bind m f)"
  unfolding keeps_def
proof
  fix w
  obtain x w1 where m: "m w = (x, w1)" by (cases "m w")
  have "R w w1" by (rule keepsD [OF assms(1) m])
  then show "R w (snd (rt_bind m f w))"
    using assms(2) trans by (cases x) (auto simp: rt_bind_def m keeps_def)
qed

lemma keeps_catch:
  assumes "keeps R m" "\<And>e. keeps R (h e)"
  shows "keeps R (rt_catch m caught h)"
  unfolding keeps_def
proof
  fix w
  obtain x w1 where m: "m w = (x, w1)" by (cases "m w")
  have "R w w1" by (rule keepsD [OF assms(1) m])
  then show "R w (snd (rt_catch m caught h w))"
    using assms(2) trans by (cases x) (auto simp: rt_catch_def m keeps_def)
qed

lemma keeps_if: "keeps R m \<Longrightarrow> keeps R n \<Longrightarrow> keeps R (if b then m else n)"
  by simp

lemma keeps_option: "keeps R m \<Longrightarrow> (\<And>x. keeps R (f x)) \<Longrightarrow> keeps R (case v of None \<Rightarrow> m | Some x \<Rightarrow> f x)"
  by (cases v) simp_all

lemma keeps_prod: "(\<And>x y. keeps R (f x y)) \<Longrightarrow> keeps R (case v of (x, y) \<Rightarrow> f x y)"
  by (cases v) simp

lemma keeps_sum: "(\<And>x. keeps R (f x)) \<Longrightarrow> (\<And>y. keeps R (g y)) \<Longrightarrow> keeps R (case v of Inl x \<Rightarrow> f x | Inr y \<Rightarrow> g y)"
  by (cases v) simp_all

lemmas keeps_intros = keeps_return keeps_raise keeps_lift keeps_fresh_id keeps_bind keeps_catch keeps_if
  keeps_option keeps_prod keeps_sum

end

text \<open>No tool call and no effect outside: the ledger moved along its operations.\<close>

definition quiet_change :: "'w world \<Rightarrow> 'w world \<Rightarrow> bool" where
  "quiet_change w w' \<longleftrightarrow> ledger_step\<^sup>*\<^sup>* (w_ledger w) (w_ledger w') \<and> w_log w' = w_log w \<and> w_ext w' = w_ext w"

text \<open>No tool call, but possibly an effect outside: a provider lookup.\<close>

definition callless_change :: "'w world \<Rightarrow> 'w world \<Rightarrow> bool" where
  "callless_change w w' \<longleftrightarrow> ledger_step\<^sup>*\<^sup>* (w_ledger w) (w_ledger w') \<and> w_log w' = w_log w"

interpretation quiet: world_preorder quiet_change
  by unfold_locales (auto simp: quiet_change_def)

interpretation callless: world_preorder callless_change
  by unfold_locales (auto simp: callless_change_def)

lemma quiet_callless: "quiet_change w w' \<Longrightarrow> callless_change w w'"
  by (simp add: quiet_change_def callless_change_def)

lemma callless_if_quiet: "keeps quiet_change m \<Longrightarrow> keeps callless_change m"
  by (erule keeps_mono) (rule quiet_callless)

lemma quiet_ledger_call:
  assumes "others_follow_protocol orc" "\<And>env l x l'. operation env l = Inr (x, l') \<Longrightarrow> ledger_step\<^sup>*\<^sup>* l l'"
  shows "keeps quiet_change (ledger_call orc operation :: ('w, 'a) rt)"
  unfolding keeps_def
proof
  fix w :: "'w world"
  let ?l = "o_others orc (w_calls w) (w_ledger w)"
  have step: "ledger_step\<^sup>*\<^sup>* (w_ledger w) ?l" by (rule others_steps [OF assms(1)])
  show "quiet_change w (snd (ledger_call orc operation w))"
    using step assms(2) rtranclp_trans [OF step]
    by (auto simp: ledger_call_def Let_def quiet_change_def split: sum.splits)
qed

lemma quiet_get_run: "others_follow_protocol orc \<Longrightarrow> keeps quiet_change (get_run orc rid)"
  unfolding get_run_def by (rule quiet_ledger_call) auto

lemma quiet_run_result: "others_follow_protocol orc \<Longrightarrow> keeps quiet_change (run_result orc rid duplicate)"
  unfolding run_result_def by (intro quiet.keeps_intros quiet_get_run)

text \<open>Every ledger operation is a step of the ledger.\<close>

lemma quiet_calls:
  assumes "others_follow_protocol orc"
  shows "keeps quiet_change (ledger_call orc (\<lambda>env. create_or_get_run env rid t ac ro ev n ri k fp args meta))"
    and "keeps quiet_change (ledger_call orc (\<lambda>_. record_duplicate rid))"
    and "keeps quiet_change (ledger_call orc (\<lambda>env. record_policy_decision env rid d ttl))"
    and "keeps quiet_change (ledger_call orc (\<lambda>env. decide_approval env rid approved approver reason roles self))"
    and "keeps quiet_change (ledger_call orc (\<lambda>env. expire_approvals env tn))"
    and "keeps quiet_change (ledger_call orc (\<lambda>env. claim_execution env rid owner secs))"
    and "keeps quiet_change (ledger_call orc (\<lambda>env. heartbeat_execution env rid owner secs))"
    and "keeps quiet_change (ledger_call orc (\<lambda>env. complete_execution env rid owner v))"
    and "keeps quiet_change (ledger_call orc (\<lambda>env. fail_execution env rid owner err))"
    and "keeps quiet_change (ledger_call orc (\<lambda>env. mark_execution_unknown env rid owner err))"
    and "keeps quiet_change (ledger_call orc (\<lambda>env. recover_expired_executions env tn))"
    and "keeps quiet_change (ledger_call orc (\<lambda>env. reconcile_run env rid s reason v operator))"
    and "keeps quiet_change (ledger_call orc (\<lambda>env. apply_provider_observation env rid pr oc sm rf st v operator))"
  by (rule quiet_ledger_call [OF assms], rule r_into_rtranclp, erule ledger_step.intros)+

lemmas quiet_intros = quiet.keeps_intros quiet_get_run quiet_run_result quiet_calls

section \<open>Methods without a tool call\<close>

lemma quiet_record_decision:
  assumes "others_follow_protocol orc"
  shows "keeps quiet_change (record_decision orc act rid d)"
  unfolding record_decision_def by (intro quiet_intros assms)

lemma quiet_answer_duplicate:
  assumes "others_follow_protocol orc"
  shows "keeps quiet_change (answer_duplicate orc tenant rid)"
  unfolding answer_duplicate_def by (intro quiet_intros assms)

lemma quiet_govern_new_run:
  assumes "others_follow_protocol orc"
  shows "keeps quiet_change (govern_new_run orc act context arguments rid)"
  unfolding govern_new_run_def by (intro quiet_intros quiet_record_decision assms)

lemma quiet_prepare_invoke:
  assumes "others_follow_protocol orc"
  shows "keeps quiet_change (prepare_invoke orc act context arguments override)"
  unfolding prepare_invoke_def by (intro quiet_intros quiet_answer_duplicate quiet_govern_new_run assms)

lemma quiet_decide:
  assumes "others_follow_protocol orc"
  shows "keeps quiet_change (decide orc act approved message rid approver reason)"
  unfolding decide_def by (intro quiet_intros assms)

lemma quiet_reconcile:
  assumes "others_follow_protocol orc"
  shows "keeps quiet_change (reconcile orc act rid outcome operator reason result)"
  unfolding reconcile_def by (intro quiet_intros assms)

lemma quiet_prepare_resume:
  assumes "others_follow_protocol orc"
  shows "keeps quiet_change (prepare_resume orc act rid)"
  unfolding prepare_resume_def by (intro quiet_intros assms)

lemma quiet_arguments:
  assumes "others_follow_protocol orc"
  shows "keeps quiet_change (arguments_with_execution_context orc act rid arguments)"
  unfolding arguments_with_execution_context_def Let_def by (intro quiet_intros assms)

lemma quiet_mark_unknown:
  assumes "others_follow_protocol orc"
  shows "keeps quiet_change (mark_unknown orc rid owner err)"
  unfolding mark_unknown_def by (intro quiet_intros assms)

lemma quiet_settle:
  assumes "others_follow_protocol orc"
  shows "keeps quiet_change (settle orc is_async rid owner outcome)"
  by (cases outcome) (auto simp: settle_def intro!: quiet_intros quiet_mark_unknown assms)

lemma quiet_renew:
  assumes "others_follow_protocol orc"
  shows "keeps quiet_change (renew orc rid owner secs ticks)"
  by (induction ticks) (auto intro!: quiet_intros assms)

lemma callless_probe: "keeps callless_change (probe_provider probe request)"
  by (auto simp: keeps_def probe_provider_def callless_change_def split: prod.splits)

lemma callless_reconcile_from_provider:
  assumes "others_follow_protocol orc"
  shows "keeps callless_change (reconcile_from_provider orc act rid probe operator)"
proof -
  have load: "keeps callless_change (load_reconcilable_run orc act rid operator)"
    unfolding load_reconcilable_run_def by (intro callless_if_quiet quiet_intros assms)
  show ?thesis unfolding reconcile_from_provider_def
    by (intro callless.keeps_bind callless.keeps_lift load callless_probe callless_if_quiet quiet_run_result quiet_calls(13) assms)
qed

end
