(* ===== verification/Runtime_Exec.thy ===== *)
theory Runtime_Exec
  imports Runtime_Logic
begin

text \<open>
  What an execution of a protected function is allowed by: the claim. The ledger is used
  through an interface (\<open>execution_ledger\<close>): a claim starts a run that was never started, a
  start is never forgotten, and a run has one starting worker. Its interpretation is the
  ledger of this development; the log of the tool calls of a world then stays exclusive.
\<close>

section \<open>The interface a runtime relies on\<close>

locale execution_ledger =
  fixes step :: "'l \<Rightarrow> 'l \<Rightarrow> bool" and inv :: "'l \<Rightarrow> bool"
    and started :: "'l \<Rightarrow> 'k \<Rightarrow> 'o \<Rightarrow> bool" and claim :: "'l \<Rightarrow> 'k \<Rightarrow> 'o \<Rightarrow> 'l \<Rightarrow> bool"
  assumes step_inv: "inv l \<Longrightarrow> step l l' \<Longrightarrow> inv l'"
    and step_started: "inv l \<Longrightarrow> step l l' \<Longrightarrow> started l k w \<Longrightarrow> started l' k w"
    and started_unique: "inv l \<Longrightarrow> started l k w \<Longrightarrow> started l k w' \<Longrightarrow> w = w'"
    and claim_step: "inv l \<Longrightarrow> claim l k w l' \<Longrightarrow> step l l'"
    and claim_fresh: "inv l \<Longrightarrow> claim l k w l' \<Longrightarrow> \<not> started l k w'"
    and claim_starts: "inv l \<Longrightarrow> claim l k w l' \<Longrightarrow> started l' k w"
begin

lemma steps_inv: "step\<^sup>*\<^sup>* l l' \<Longrightarrow> inv l \<Longrightarrow> inv l'"
  by (induction rule: rtranclp_induct) (auto intro: step_inv)

lemma steps_started: "step\<^sup>*\<^sup>* l l' \<Longrightarrow> inv l \<Longrightarrow> started l k w \<Longrightarrow> started l' k w"
  by (induction rule: rtranclp_induct) (auto intro: step_started steps_inv)

lemma claimed_once:
  assumes "inv l" "claim l k w l1" "step\<^sup>*\<^sup>* l1 l2"
  shows "\<not> claim l2 k w' l3"
proof
  assume again: "claim l2 k w' l3"
  have l1: "inv l1" by (rule step_inv [OF assms(1) claim_step [OF assms(1,2)]])
  from steps_started [OF assms(3) l1 claim_starts [OF assms(1,2)]]
    claim_fresh [OF steps_inv [OF assms(3) l1] again] show False by blast
qed

lemma workers_agree:
  assumes "inv l1" "started l1 k w1" "step\<^sup>*\<^sup>* l1 l" "inv l2" "started l2 k w2" "step\<^sup>*\<^sup>* l2 l"
  shows "w1 = w2"
  using started_unique [OF steps_inv [OF assms(3,1)] steps_started [OF assms(3,1,2)] steps_started [OF assms(6,4,5)]] .

lemma claim_not_called:
  assumes "inv l" "step\<^sup>*\<^sup>* l l1" "claim l1 k w l2" "\<forall>(k', w') \<in> set calls. started l k' w'"
  shows "k \<notin> fst ` set calls"
  using claim_fresh [OF steps_inv [OF assms(2,1)] assms(3)] steps_started [OF assms(2,1)] assms(4) by fastforce

end

section \<open>Starts in the ledger\<close>

definition event_owner :: "pyval \<Rightarrow> pyval option" where
  "event_owner payload = (case payload of PDict kvs \<Rightarrow> dict_get ''owner'' kvs | _ \<Rightarrow> None)"

definition started_by :: "ledger \<Rightarrow> string \<Rightarrow> string \<Rightarrow> bool" where
  "started_by l rid owner \<longleftrightarrow> (\<exists>p. (''tool.execution.started'', p) \<in> set (log_of (run_events l rid))
     \<and> event_owner p = Some (PStr owner))"

lemma event_owner_started: "event_owner (json_norm True (started_payload owner n t)) = Some (PStr owner)"
proof -
  obtain xs where xs: "json_norm True (started_payload owner n t) = PDict xs"
    by (simp add: started_payload_def json_norm_PDict)
  from json_norm_PDict_get [OF this [unfolded started_payload_def], of "''owner''" "PStr owner"]
  have "map_of xs ''owner'' = Some (PStr owner)" by simp
  with xs show ?thesis by (simp add: event_owner_def dict_get_def)
qed

lemma started_by_logged: "started_by l rid owner \<Longrightarrow> logged ''tool.execution.started'' (log_of (run_events l rid))"
  by (force simp: started_by_def logged_def)

lemma started_by_run:
  assumes "ledger_inv l" "started_by l rid owner"
  obtains r where "fetch_run l rid = Some r" "started (r_status r)"
proof (cases "fetch_run l rid")
  case None
  with assms show thesis
    using view_no_run [OF ledger_inv_struct [OF assms(1)] None] by (auto simp: started_by_def log_of_def view_eq)
next
  case (Some r)
  with that logged_start_started [OF assms(1) Some started_by_logged [OF assms(2)]] show thesis by blast
qed

lemma starts_unique:
  assumes "starts evs \<le> 1" "(''tool.execution.started'', p) \<in> set evs" "(''tool.execution.started'', q) \<in> set evs"
  shows "p = q"
proof -
  let ?f = "filter (\<lambda>ev. fst ev = ''tool.execution.started'') evs"
  have mem: "(''tool.execution.started'', p) \<in> set ?f" "(''tool.execution.started'', q) \<in> set ?f"
    using assms(2,3) by simp_all
  show ?thesis
  proof (cases ?f)
    case (Cons x xs)
    with assms(1) have "xs = []" by (simp add: starts_def)
    with mem have "(''tool.execution.started'', p) = x" "(''tool.execution.started'', q) = x"
      unfolding Cons by auto
    then show ?thesis by (metis prod.inject)
  qed (use mem in simp)
qed

lemma started_by_unique:
  assumes "ledger_inv l" "started_by l rid o1" "started_by l rid o2"
  shows "o1 = o2"
proof (rule started_by_run [OF assms(1,2)])
  fix r assume "fetch_run l rid = Some r"
  from replay_starts_le [OF run_inv_replay [OF ledger_inv_run [OF assms(1) this]]] starts_unique assms(2,3)
  show ?thesis unfolding started_by_def by (metis option.inject pyval.inject(4))
qed

lemma started_by_extends:
  assumes "ledger_inv l" "views_extend l l'" "started_by l rid owner"
  shows "started_by l' rid owner"
proof (rule started_by_run [OF assms(1,3)])
  fix r assume r: "fetch_run l rid = Some r"
  from assms(2) have "view_extends (view l rid) (view l' rid)" by (simp add: views_extend_def)
  with r have "prefix (run_events l rid) (run_events l' rid)"
    by (auto simp: view_extends_def view_def split: option.splits)
  then have "set (log_of (run_events l rid)) \<subseteq> set (log_of (run_events l' rid))"
    by (auto simp: prefix_def)
  with assms(3) show ?thesis unfolding started_by_def by blast
qed

definition claims :: "ledger \<Rightarrow> string \<Rightarrow> string \<Rightarrow> ledger \<Rightarrow> bool" where
  "claims l rid owner l' \<longleftrightarrow> (\<exists>env secs. claim_execution env rid owner secs l = Inr (True, l'))"

lemma claims_effect:
  assumes "ledger_inv l" "claims l rid owner l'"
  shows "ledger_step l l' \<and> (\<forall>w. \<not> started_by l rid w) \<and> started_by l' rid owner"
proof -
  from assms(2) obtain env secs where op: "claim_execution env rid owner secs l = Inr (True, l')"
    by (auto simp: claims_def)
  show ?thesis
  proof (rule claim_execution_effect [OF op ledger_inv_struct [OF assms(1)]])
    fix r r' es lease
    assume r: "fetch_run l rid = Some r" "claimable r"
      and es: "run_events l' rid = run_events l rid @ es"
        "log_of es = stored ((if r_status r = APPROVED then [(''run.resumed'', PDict [])] else [])
           @ [(''tool.execution.started'', started_payload owner (Suc (r_attempt r)) lease)])"
    have "\<not> started (r_status r)" using r(2) by (auto simp: claimable_def started_def)
    then have "\<not> started_by l rid w" for w
      using started_by_logged logged_start_started [OF assms(1) r(1)] by blast
    moreover have "(''tool.execution.started'', json_norm True (started_payload owner (Suc (r_attempt r)) lease)) \<in> set (log_of es)"
      unfolding es(2) stored_def by simp
    then have "started_by l' rid owner"
      unfolding started_by_def es(1) log_of_append using event_owner_started by auto
    ultimately show ?thesis using ledger_step.claim [OF op] by blast
  qed
qed

interpretation ledger_exec: execution_ledger ledger_step ledger_inv started_by claims
proof
  show "ledger_inv l \<Longrightarrow> ledger_step l l' \<Longrightarrow> ledger_inv l'" for l l'
    by (rule ledger_system.step_inv)
  show "ledger_inv l \<Longrightarrow> ledger_step l l' \<Longrightarrow> started_by l k w \<Longrightarrow> started_by l' k w" for l l' k w
    using started_by_extends ledger_system.step_extends by blast
  show "ledger_inv l \<Longrightarrow> started_by l k w \<Longrightarrow> started_by l k w' \<Longrightarrow> w = w'" for l k w w'
    by (rule started_by_unique)
qed (use claims_effect in blast)+

section \<open>The log of tool calls\<close>

text \<open>The context the runtime hands to a tool for a run.\<close>

definition context_of :: "run_row \<Rightarrow> ActionExecutionContext" where
  "context_of r = \<lparr>xc_run_id = strip (r_run_id r), xc_action_name = strip (r_action_name r),
     xc_tenant_id = strip (r_tenant_id r), xc_idempotency_key = strip (r_idempotency_key r), xc_attempt = 1\<rparr>"

text \<open>The keyword arguments of a call are the request's stored arguments, as JSON, plus possibly
  that context.\<close>

definition carries :: "run_row \<Rightarrow> kwargs \<Rightarrow> bool" where
  "carries r kw \<longleftrightarrow> (\<exists>args. json_norm True (PDict args) = r_arguments r
     \<and> (kw = map (map_prod id PlainArg) args
        \<or> (\<exists>p. kw = dict_set p (ContextArg (context_of r)) (map (map_prod id PlainArg) args))))"

definition governed_call :: "ledger \<Rightarrow> tool_call \<Rightarrow> bool" where
  "governed_call l c \<longleftrightarrow> started_by l (tc_run c) (tc_owner c)
     \<and> (\<exists>r. fetch_run l (tc_run c) = Some r \<and> r_action_name r = tc_action c \<and> carries r (tc_arguments c))"

definition world_ok :: "'w world \<Rightarrow> bool" where
  "world_ok w \<longleftrightarrow> ledger_inv (w_ledger w) \<and> distinct (map tc_run (w_log w))
     \<and> (\<forall>c \<in> set (w_log w). governed_call (w_ledger w) c)"

lemma carries_request:
  assumes "request_of r' = request_of r" "r_run_id r' = r_run_id r"
  shows "carries r' kw = carries r kw"
  using assms by (simp add: carries_def request_of_def run_key_def context_of_def)

lemma governed_call_steps:
  assumes "ledger_step\<^sup>*\<^sup>* l l'" "ledger_inv l" "governed_call l c"
  shows "governed_call l' c"
proof -
  from assms(3) obtain r where r: "fetch_run l (tc_run c) = Some r" "r_action_name r = tc_action c"
    "carries r (tc_arguments c)" "started_by l (tc_run c) (tc_owner c)" by (auto simp: governed_call_def)
  obtain r' where r': "fetch_run l' (tc_run c) = Some r'" "request_of r' = request_of r"
    using steps_run [OF assms(1,2) r(1)] by metis
  have "carries r' (tc_arguments c)"
    using carries_request [OF r'(2)] r(3) by (simp add: fetch_run_id [OF r'(1)] fetch_run_id [OF r(1)])
  moreover have "r_action_name r' = tc_action c" using r'(2) r(2) by (simp add: request_of_def run_key_def)
  ultimately show ?thesis
    using r'(1) ledger_exec.steps_started [OF assms(1,2) r(4)] by (auto simp: governed_call_def)
qed

lemma world_ok_callless:
  assumes "callless_change w w'" "world_ok w"
  shows "world_ok w'"
  using assms ledger_exec.steps_inv governed_call_steps
  by (auto simp: world_ok_def callless_change_def)

text \<open>A run that may be executed with some arguments: they are the ones it was created with.\<close>

definition runs_request :: "'w TrustedAction \<Rightarrow> string \<Rightarrow> (string \<times> pyval) list \<Rightarrow> ledger \<Rightarrow> bool" where
  "runs_request act rid args l \<longleftrightarrow> (\<exists>r. fetch_run l rid = Some r \<and> r_action_name r = ta_name act
     \<and> json_norm True (PDict args) = r_arguments r)"

lemma runs_request_steps:
  assumes "ledger_step\<^sup>*\<^sup>* l l'" "ledger_inv l" "runs_request act rid args l"
  shows "runs_request act rid args l'"
proof -
  from assms(3) obtain r where r: "fetch_run l rid = Some r" "r_action_name r = ta_name act"
    "json_norm True (PDict args) = r_arguments r" by (auto simp: runs_request_def)
  obtain r' where r': "fetch_run l' rid = Some r'" "request_of r' = request_of r"
    using steps_run [OF assms(1,2) r(1)] by metis
  from r'(2) r(2,3) have "r_action_name r' = ta_name act" "json_norm True (PDict args) = r_arguments r'"
    by (simp_all add: request_of_def run_key_def del: json_norm_PDict)
  with r'(1) show ?thesis unfolding runs_request_def by blast
qed

section \<open>Reading a computation\<close>

lemma rt_bind_InrD:
  assumes "rt_bind m f w = (Inr y, w')"
  obtains x w1 where "m w = (Inr x, w1)" "f x w1 = (Inr y, w')"
  using assms by (auto simp: rt_bind_def split: prod.splits sum.splits)

lemma rt_bind_cases:
  assumes "rt_bind m f w = (y, w')"
  obtains (raised) e where "m w = (Inl e, w')" "y = Inl e"
    | (went_on) x w1 where "m w = (Inr x, w1)" "f x w1 = (y, w')"
  using assms by (auto simp: rt_bind_def split: prod.splits sum.splits)

lemma ledger_call_InrD:
  assumes "ledger_call orc operation w = (Inr x, w')"
  obtains l where "l = o_others orc (w_calls w) (w_ledger w)"
    "operation (o_env orc (w_calls w)) l = Inr (x, w_ledger w')" "w_log w' = w_log w" "w_ext w' = w_ext w"
    "w_calls w' = Suc (w_calls w)"
  using assms by (auto simp: ledger_call_def Let_def split: sum.splits)

lemma get_run_InrD:
  assumes "get_run orc rid w = (Inr ro, w')"
  shows "ro = fetch_run (w_ledger w') rid"
  using assms unfolding get_run_def by (auto elim: ledger_call_InrD)

lemma quiet_change_ledger: "quiet_change w w' \<Longrightarrow> ledger_step\<^sup>*\<^sup>* (w_ledger w) (w_ledger w')"
  by (simp add: quiet_change_def)

section \<open>One execution\<close>

lemma world_ok_quiet: "quiet_change w w' \<Longrightarrow> world_ok w \<Longrightarrow> world_ok w'"
  by (rule world_ok_callless [OF quiet_callless])

lemma world_ok_inv: "world_ok w \<Longrightarrow> ledger_inv (w_ledger w)"
  by (simp add: world_ok_def)

lemma world_ok_not_called:
  assumes "world_ok w" "ledger_step\<^sup>*\<^sup>* (w_ledger w) l" "claims l rid owner l'"
  shows "rid \<notin> tc_run ` set (w_log w)"
proof -
  have "\<forall>(k, w') \<in> set (map (\<lambda>c. (tc_run c, tc_owner c)) (w_log w)). started_by (w_ledger w) k w'"
    using assms(1) by (auto simp: world_ok_def governed_call_def)
  from ledger_exec.claim_not_called [OF world_ok_inv [OF assms(1)] assms(2,3) this]
  show ?thesis by (simp add: image_image)
qed

lemma claim_call:
  assumes "others_follow_protocol orc" "world_ok w"
    "ledger_call orc (\<lambda>env. claim_execution env rid owner secs) w = (Inr True, w')"
  shows "started_by (w_ledger w') rid owner \<and> rid \<notin> tc_run ` set (w_log w)"
proof (rule ledger_call_InrD [OF assms(3)])
  fix l assume l: "l = o_others orc (w_calls w) (w_ledger w)"
    and op: "claim_execution (o_env orc (w_calls w)) rid owner secs l = Inr (True, w_ledger w')"
  have steps: "ledger_step\<^sup>*\<^sup>* (w_ledger w) l" unfolding l by (rule others_steps [OF assms(1)])
  have inv: "ledger_inv l" by (rule ledger_exec.steps_inv [OF steps world_ok_inv [OF assms(2)]])
  have "claims l rid owner (w_ledger w')" using op by (auto simp: claims_def)
  with claims_effect [OF inv] world_ok_not_called [OF assms(2) steps] show ?thesis by blast
qed

lemma carries_plain: "json_norm True (PDict args) = r_arguments r \<Longrightarrow> carries r (map (map_prod id PlainArg) args)"
  unfolding carries_def by blast

lemma carries_context:
  "json_norm True (PDict args) = r_arguments r \<Longrightarrow>
     carries r (dict_set p (ContextArg (context_of r)) (map (map_prod id PlainArg) args))"
  unfolding carries_def by blast

lemma execution_context:
  assumes "ActionExecutionContext_init (r_run_id r) (r_action_name r) (r_tenant_id r) (r_idempotency_key r)
      (int (r_attempt r)) = Inr c" "r_attempt r = 1"
  shows "c = context_of r"
  using assms by (auto simp: ActionExecutionContext_init_def context_of_def split: if_splits)

text \<open>What the tool receives, while its run is started.\<close>

lemma arguments_InrD:
  assumes "others_follow_protocol orc" "ledger_inv (w_ledger w)" "runs_request act rid args (w_ledger w)"
    "started_by (w_ledger w) rid owner"
    "arguments_with_execution_context orc act rid args w = (Inr kw, w')"
  shows "governed_call (w_ledger w') \<lparr>tc_action = ta_name act, tc_run = rid, tc_owner = owner, tc_arguments = kw\<rparr>"
proof -
  have steps: "ledger_step\<^sup>*\<^sup>* (w_ledger w) (w_ledger w')"
    by (rule quiet_change_ledger [OF keepsD [OF quiet_arguments [OF assms(1)] assms(5)]])
  have inv': "ledger_inv (w_ledger w')" by (rule ledger_exec.steps_inv [OF steps assms(2)])
  have by': "started_by (w_ledger w') rid owner" by (rule ledger_exec.steps_started [OF steps assms(2,4)])
  from runs_request_steps [OF steps assms(2,3)] obtain r where r: "fetch_run (w_ledger w') rid = Some r"
    "r_action_name r = ta_name act" "json_norm True (PDict args) = r_arguments r" unfolding runs_request_def by blast
  have one: "r_attempt r = 1"
    using attempt_of_status [OF ledger_inv_run [OF inv' r(1)]] logged_start_started [OF inv' r(1) started_by_logged [OF by']]
    by simp
  have "carries r kw"
  proof (cases "ta_context_parameter act")
    case None
    with assms(5) have "kw = map (map_prod id PlainArg) args"
      by (simp add: arguments_with_execution_context_def rt_return_def)
    then show ?thesis using carries_plain [OF r(3)] by simp
  next
    case (Some p)
    with assms(5) obtain ro w1 where g: "get_run orc rid w = (Inr ro, w1)"
      and rest: "(case ro of None \<Rightarrow> rt_raise KeyError ''run not found''
          | Some r \<Rightarrow> rt_bind (rt_lift (ActionExecutionContext_init (r_run_id r) (r_action_name r) (r_tenant_id r)
                (r_idempotency_key r) (int (r_attempt r)))) (\<lambda>context.
              rt_return (dict_set p (ContextArg context) (map (map_prod id PlainArg) args)))) w1 = (Inr kw, w')"
      by (auto simp: arguments_with_execution_context_def Let_def elim: rt_bind_InrD)
    have w1: "w' = w1" and kw: "\<exists>r0 c. ro = Some r0 \<and> ActionExecutionContext_init (r_run_id r0) (r_action_name r0)
        (r_tenant_id r0) (r_idempotency_key r0) (int (r_attempt r0)) = Inr c
        \<and> kw = dict_set p (ContextArg c) (map (map_prod id PlainArg) args)"
      using rest by (auto simp: rt_raise_def rt_lift_def rt_return_def rt_bind_def split: option.splits sum.splits)
    from get_run_InrD [OF g] r(1) w1 have "ro = Some r" by simp
    with kw execution_context one show ?thesis using carries_context [OF r(3)] by auto
  qed
  with r by' show ?thesis by (auto simp: governed_call_def)
qed

lemma run_tool_effect:
  assumes "others_follow_protocol orc" "world_ok w" "runs_request act rid args (w_ledger w)"
    "started_by (w_ledger w) rid owner" "rid \<notin> tc_run ` set (w_log w)"
    "run_tool orc act rid owner args w = (x, w')"
  shows "world_ok w' \<and> ledger_step\<^sup>*\<^sup>* (w_ledger w) (w_ledger w') \<and> (\<exists>outcome. x = Inr outcome)
    \<and> (\<exists>cs. w_log w' = w_log w @ cs \<and> length cs \<le> 1 \<and> tc_run ` set cs \<subseteq> {rid})"
proof -
  obtain y w1 where a: "arguments_with_execution_context orc act rid args w = (y, w1)"
    by (cases "arguments_with_execution_context orc act rid args w")
  note q = keepsD [OF quiet_arguments [OF assms(1)] a]
  show ?thesis
  proof (cases y)
    case (Inl e)
    then have "w' = w1" "\<exists>outcome. x = Inr outcome"
      using assms(6) a by (auto simp: run_tool_def rt_catch_def rt_bind_def rt_return_def)
    with q world_ok_quiet [OF q assms(2)] show ?thesis by (auto simp: quiet_change_def)
  next
    case (Inr kw)
    define call where "call = \<lparr>tc_action = ta_name act, tc_run = rid, tc_owner = owner, tc_arguments = kw\<rparr>"
    obtain outcome ext where f: "ta_function act kw (w_ext w1) = (outcome, ext)" by (cases "ta_function act kw (w_ext w1)")
    have w': "x = Inr outcome" "w' = w1\<lparr>w_ext := ext, w_log := w_log w1 @ [call]\<rparr>"
      using assms(6) a f by (auto simp: Inr run_tool_def rt_catch_def rt_bind_def call_function_def call_def)
    have g: "governed_call (w_ledger w1) call"
      using arguments_InrD [OF assms(1) world_ok_inv [OF assms(2)] assms(3,4) a [unfolded Inr]] by (simp add: call_def)
    have "rid \<notin> tc_run ` set (w_log w1)" using assms(5) q by (simp add: quiet_change_def)
    with world_ok_quiet [OF q assms(2)] g have "world_ok w'"
      by (auto simp: world_ok_def w'(2) call_def)
    with q show ?thesis by (auto simp: w' quiet_change_def call_def)
  qed
qed

text \<open>An execution calls the tool at most once, and keeps the world in order.\<close>

definition calls_at_most_once :: "string \<Rightarrow> 'w world \<Rightarrow> 'w world \<Rightarrow> bool" where
  "calls_at_most_once rid w w' \<longleftrightarrow> ledger_step\<^sup>*\<^sup>* (w_ledger w) (w_ledger w')
     \<and> (\<exists>cs. w_log w' = w_log w @ cs \<and> length cs \<le> 1 \<and> tc_run ` set cs \<subseteq> {rid})"

lemma quiet_calls_at_most_once: "quiet_change w w' \<Longrightarrow> calls_at_most_once rid w w'"
  by (auto simp: quiet_change_def calls_at_most_once_def)

lemma calls_quiet_before: "quiet_change u v \<Longrightarrow> calls_at_most_once rid v w \<Longrightarrow> calls_at_most_once rid u w"
  by (auto simp: quiet_change_def calls_at_most_once_def)

lemma calls_quiet_after: "calls_at_most_once rid u v \<Longrightarrow> quiet_change v w \<Longrightarrow> calls_at_most_once rid u w"
  by (auto simp: quiet_change_def calls_at_most_once_def)

lemma execute_effect:
  assumes "others_follow_protocol orc" "world_ok w" "runs_request act rid args (w_ledger w)"
    "execute orc act is_async rid args w = (x, w')"
  shows "world_ok w' \<and> calls_at_most_once rid w w'"
proof -
  obtain owner where id: "fresh_id orc ''worker_'' w = (Inr owner, w)" by (simp add: fresh_id_def)
  let ?claim = "ledger_call orc (\<lambda>env. claim_execution env rid owner (ta_lease_seconds act))"
  have ex: "execute orc act is_async rid args w = rt_bind ?claim (\<lambda>claimed.
     if \<not> claimed then run_result orc rid True
     else rt_bind (run_tool orc act rid owner args) (settle orc is_async rid owner)) w"
    unfolding execute_def by (simp add: rt_bind_def id)
  have quiet: ?thesis if "quiet_change w w'"
    using quiet_calls_at_most_once [OF that] world_ok_quiet [OF that assms(2)] by blast
  from assms(4) [unfolded ex] show ?thesis
  proof (cases rule: rt_bind_cases)
    case (raised e)
    then show ?thesis by (intro quiet keepsD [OF quiet_calls(6) [OF assms(1)] raised(1)])
  next
    case (went_on claimed w1)
    note q1 = keepsD [OF quiet_calls(6) [OF assms(1)] went_on(1)]
    show ?thesis
    proof (cases claimed)
      case False
      with went_on(2) have "run_result orc rid True w1 = (x, w')" by simp
      from keepsD [OF quiet_run_result [OF assms(1)] this] show ?thesis by (intro quiet quiet.trans [OF q1])
    next
      case True
      with went_on(2) have run: "rt_bind (run_tool orc act rid owner args) (settle orc is_async rid owner) w1 = (x, w')" by simp
      note ok1 = world_ok_quiet [OF q1 assms(2)]
      from claim_call [OF assms(1,2)] went_on(1) True have c: "started_by (w_ledger w1) rid owner" "rid \<notin> tc_run ` set (w_log w1)"
        using q1 by (auto simp: quiet_change_def)
      obtain y w2 where t: "run_tool orc act rid owner args w1 = (y, w2)" by (cases "run_tool orc act rid owner args w1")
      have t2: "world_ok w2" "calls_at_most_once rid w1 w2" "\<exists>outcome. y = Inr outcome"
        using run_tool_effect [OF assms(1) ok1 runs_request_steps [OF quiet_change_ledger [OF q1] world_ok_inv [OF assms(2)] assms(3)] c t]
        by (auto simp: calls_at_most_once_def)
      then obtain outcome where y: "y = Inr outcome" by blast
      have "settle orc is_async rid owner outcome w2 = (x, w')" using run by (simp add: rt_bind_def t y)
      from keepsD [OF quiet_settle [OF assms(1)] this] have q3: "quiet_change w2 w'" .
      show ?thesis
        using world_ok_quiet [OF q3 t2(1)] calls_quiet_after [OF calls_quiet_before [OF q1 t2(2)] q3] by blast
    qed
  qed
qed

end
