(* ===== verification/Runtime_Invoke.thy ===== *)
theory Runtime_Invoke
  imports Runtime_Exec
begin

text \<open>
  The public methods of \<open>TrustedAction\<close>: what each may do to a world, and the worlds any
  sequence of calls of them can reach.
\<close>

section \<open>Preparing a call\<close>

lemma create_call:
  assumes "others_follow_protocol orc" "ledger_inv (w_ledger w)"
    "ledger_call orc (\<lambda>env. create_or_get_run env rid t ac ro ev (ta_name act) ri k fp args meta) w = (Inr (row, True), w')"
  shows "runs_request act rid args (w_ledger w')"
proof (rule ledger_call_InrD [OF assms(3)])
  fix l assume l: "l = o_others orc (w_calls w) (w_ledger w)"
    and op: "create_or_get_run (o_env orc (w_calls w)) rid t ac ro ev (ta_name act) ri k fp args meta l
      = Inr ((row, True), w_ledger w')"
  have "ledger_inv l" unfolding l by (rule ledger_exec.steps_inv [OF others_steps [OF assms(1)] assms(2)])
  from create_effect [OF op ledger_inv_struct [OF this]] show ?thesis
    by (auto simp: runs_request_def run_key_def simp del: json_norm_PDict)
qed

text \<open>A call is executed only when it created its run, the policy decided to allow it, and the
  decision was recorded.\<close>

lemma record_decision_InrD:
  assumes "record_decision orc act rid d w = (Inr d', w')"
  shows "d' = d \<or> pd_outcome d' = DENY"
proof -
  let ?m = "rt_bind (ledger_call orc (\<lambda>env. record_policy_decision env rid d (ta_approval_ttl_seconds act))) (\<lambda>_. rt_return d)"
  obtain y w1 where m: "?m w = (y, w1)" by (cases "?m w")
  show ?thesis
  proof (cases y)
    case (Inr d1)
    with m have "d1 = d" by (auto simp: rt_return_def elim: rt_bind_InrD)
    with m Inr assms show ?thesis by (simp add: record_decision_def rt_catch_def)
  next
    case (Inl e)
    with m assms have "rt_bind (rt_lift (policy_error_decision ''policy decision could not be serialized: ''
          (exc_name (exc_kind e)))) (\<lambda>denial. rt_bind (ledger_call orc (\<lambda>env. record_policy_decision env rid denial
          (ta_approval_ttl_seconds act))) (\<lambda>_. rt_return denial)) w1 = (Inr d', w')"
      by (auto simp: record_decision_def rt_catch_def split: if_splits)
    then show ?thesis
      by (auto simp: policy_error_decision_def rt_lift_def rt_return_def PolicyDecision_init_def
          elim!: rt_bind_InrD split: if_splits option.splits)
  qed
qed

lemma answer_duplicate_InrD: "answer_duplicate orc tenant rid w = (Inr p, w') \<Longrightarrow> \<exists>result. p = Finished result"
  unfolding answer_duplicate_def by (elim rt_bind_InrD) (auto simp: rt_return_def)

lemma govern_new_run_Execute:
  assumes "govern_new_run orc act context args rid w = (Inr (Execute rid'), w')"
  shows "rid' = rid \<and> (\<exists>d. ta_policy act (ta_name act) (PDict args) context = Decided d \<and> pd_outcome d = ALLOW)"
proof -
  from assms obtain d w0 r w1 where d: "rt_lift (evaluate_policy act (PDict args) context) w = (Inr d, w0)"
    "record_decision orc act rid d w0 = (Inr r, w1)"
    and rest: "(if pd_outcome r \<noteq> ALLOW
      then rt_bind (run_result orc rid False) (\<lambda>result. rt_return (Finished result))
      else rt_return (Execute rid)) w1 = (Inr (Execute rid'), w')"
    unfolding govern_new_run_def by (elim rt_bind_InrD)
  from rest have r: "pd_outcome r = ALLOW" "rid' = rid"
    by (auto simp: rt_return_def elim!: rt_bind_InrD split: if_splits)
  from record_decision_InrD [OF d(2)] r(1) have "pd_outcome d = ALLOW" by auto
  with d(1) have "\<exists>d. ta_policy act (ta_name act) (PDict args) context = Decided d \<and> pd_outcome d = ALLOW"
    by (auto simp: evaluate_policy_def policy_error_decision_def PolicyDecision_init_def rt_lift_def
        split: policy_result.splits if_splits option.splits)
  with r show ?thesis by blast
qed

lemma prepare_invoke_InrD:
  assumes "prepare_invoke orc act context args override w = (Inr p, w')"
  obtains rid key fp row created w0 w1 where "\<not> supplies_context act args" "w_ledger w0 = w_ledger w"
    "ledger_call orc (\<lambda>env. create_or_get_run env rid (cx_tenant_id context) (cx_actor_id context)
        (cx_roles context) (cx_evidence context) (ta_name act) (ta_risk act) key fp args (cx_metadata context)) w0
      = (Inr (row, created), w1)"
    "(if \<not> created then answer_duplicate orc (cx_tenant_id context) (r_run_id row)
      else govern_new_run orc act context args rid) w1 = (Inr p, w')"
proof -
  from assms have ns: "\<not> supplies_context act args"
    by (auto simp: prepare_invoke_def rt_raise_def raise_exc_def split: if_splits)
  with assms obtain key w1 fp w2 rid w3 rc w4 where
    k: "rt_lift (governed_key act (PDict args) context override) w = (Inr key, w1)" and
    fp: "rt_lift (request_fingerprint (cx_tenant_id context) (cx_actor_id context) (cx_roles context)
        (cx_evidence context) (ta_name act) (ta_risk act) (PDict args) (cx_metadata context)) w1 = (Inr fp, w2)" and
    rid: "fresh_id orc ''run_'' w2 = (Inr rid, w3)" and
    create: "ledger_call orc (\<lambda>env. create_or_get_run env rid (cx_tenant_id context) (cx_actor_id context)
        (cx_roles context) (cx_evidence context) (ta_name act) (ta_risk act) key fp args (cx_metadata context)) w3
      = (Inr rc, w4)" and
    rest: "(case rc of (run, created) \<Rightarrow> if \<not> created then answer_duplicate orc (cx_tenant_id context) (r_run_id run)
      else govern_new_run orc act context args rid) w4 = (Inr p, w')"
    unfolding prepare_invoke_def if_not_P [OF ns] by (elim rt_bind_InrD)
  obtain row created where rc: "rc = (row, created)" by (cases rc)
  have "w_ledger w3 = w_ledger w" using k fp rid by (simp add: rt_lift_def fresh_id_def)
  from that [OF ns this create [unfolded rc]] rest show thesis by (simp add: rc)
qed

lemma prepare_invoke_Execute:
  assumes "others_follow_protocol orc" "ledger_inv (w_ledger w)"
    "prepare_invoke orc act context args override w = (Inr (Execute rid), w')"
  shows "runs_request act rid args (w_ledger w')
    \<and> (\<exists>d. ta_policy act (ta_name act) (PDict args) context = Decided d \<and> pd_outcome d = ALLOW)
    \<and> \<not> supplies_context act args"
proof (rule prepare_invoke_InrD [OF assms(3)])
  fix rid' key fp row created w0 w1
  assume ns: "\<not> supplies_context act args" and w0: "w_ledger w0 = w_ledger w"
    and create: "ledger_call orc (\<lambda>env. create_or_get_run env rid' (cx_tenant_id context) (cx_actor_id context)
        (cx_roles context) (cx_evidence context) (ta_name act) (ta_risk act) key fp args (cx_metadata context)) w0
      = (Inr (row, created), w1)"
    and rest: "(if \<not> created then answer_duplicate orc (cx_tenant_id context) (r_run_id row)
      else govern_new_run orc act context args rid') w1 = (Inr (Execute rid), w')"
  from rest have c: created using answer_duplicate_InrD by (metis prepared.distinct(1))
  with rest have g: "govern_new_run orc act context args rid' w1 = (Inr (Execute rid), w')" by simp
  note allow = govern_new_run_Execute [OF g]
  have steps1: "ledger_step\<^sup>*\<^sup>* (w_ledger w) (w_ledger w1)"
    using quiet_change_ledger [OF keepsD [OF quiet_calls(1) [OF assms(1)] create]] w0 by simp
  note steps2 = quiet_change_ledger [OF keepsD [OF quiet_govern_new_run [OF assms(1)] g]]
  have "runs_request act rid args (w_ledger w1)"
    using create_call [OF assms(1) _ create [unfolded eqTrueI [OF c]]] assms(2) w0 allow by simp
  from runs_request_steps [OF steps2 ledger_exec.steps_inv [OF steps1 assms(2)] this] allow ns
  show ?thesis by blast
qed

lemma prepare_resume_run:
  assumes "others_follow_protocol orc" "ledger_inv (w_ledger w)"
    "prepare_resume orc act rid w = (Inr (Inl r), w')"
  shows "runs_request act rid (stored_arguments r) (w_ledger w')"
proof -
  from assms(3) obtain ro w1 where g: "get_run orc rid w = (Inr ro, w1)" and rest: "(case ro of
       None \<Rightarrow> rt_raise KeyError ''run not found''
     | Some r \<Rightarrow>
         if r_action_name r \<noteq> ta_name act then rt_raise ValueError ''run belongs to a different action''
         else if r_status r = COMPLETED
         then rt_bind (rt_lift (result_from_run (Some r) True)) (\<lambda>result. rt_return (Inr result))
         else if r_status r \<noteq> APPROVED then rt_raise ValueError ''run must be approved before it can resume''
         else rt_return (Inl r)) w1 = (Inr (Inl r), w')"
    unfolding prepare_resume_def by (rule rt_bind_InrD)
  from rest have r: "ro = Some r" "r_action_name r = ta_name act" "w1 = w'"
    by (auto simp: rt_raise_def rt_return_def rt_lift_def result_from_run_def raise_exc_def elim!: rt_bind_InrD
        split: option.splits if_splits)
  note steps = quiet_change_ledger [OF keepsD [OF quiet_get_run [OF assms(1)] g]]
  have f: "fetch_run (w_ledger w') rid = Some r" using get_run_InrD [OF g] r by simp
  have "columns_ok r"
    using run_inv_parts(5) [OF ledger_inv_run [OF ledger_exec.steps_inv [OF steps assms(2)]]] f r(3) by blast
  then obtain kvs where kvs: "r_arguments r = PDict kvs" "json_norm True (r_arguments r) = r_arguments r"
    by (auto simp: columns_ok_def)
  have "json_norm True (PDict (stored_arguments r)) = r_arguments r"
    using kvs by (simp add: stored_arguments_def del: json_norm_PDict)
  with f r(2) show ?thesis unfolding runs_request_def by blast
qed

section \<open>The methods\<close>

text \<open>What every method keeps: the order of the world, the past of the ledger and of the log,
  and at most one more tool call.\<close>

definition method_ok :: "'w world \<Rightarrow> 'w world \<Rightarrow> bool" where
  "method_ok w w' \<longleftrightarrow> world_ok w' \<and> (\<exists>rid. calls_at_most_once rid w w')"

lemma method_ok_callless: "callless_change w w' \<Longrightarrow> world_ok w \<Longrightarrow> method_ok w w'"
  using world_ok_callless by (auto simp: method_ok_def callless_change_def calls_at_most_once_def)

lemma method_ok_quiet: "quiet_change w w' \<Longrightarrow> world_ok w \<Longrightarrow> method_ok w w'"
  by (rule method_ok_callless [OF quiet_callless])

lemma invoke_body_ok:
  assumes "others_follow_protocol orc" "world_ok w"
    "rt_bind (prepare_invoke orc act context args override) (run_prepared orc act is_async args) w = (x, w')"
  shows "method_ok w w'"
  using assms(3)
proof (cases rule: rt_bind_cases)
  case (raised e)
  show ?thesis by (rule method_ok_quiet [OF keepsD [OF quiet_prepare_invoke [OF assms(1)] raised(1)] assms(2)])
next
  case (went_on p w1)
  note q = keepsD [OF quiet_prepare_invoke [OF assms(1)] went_on(1)]
  show ?thesis
  proof (cases p)
    case (Finished result)
    with went_on(2) have "w' = w1" by (simp add: run_prepared_def rt_return_def)
    with q method_ok_quiet [OF q assms(2)] show ?thesis by simp
  next
    case (Execute rid)
    with went_on(2) have ex: "execute orc act is_async rid args w1 = (x, w')" by (simp add: run_prepared_def)
    have "runs_request act rid args (w_ledger w1)"
      using prepare_invoke_Execute [OF assms(1) world_ok_inv [OF assms(2)] went_on(1) [unfolded Execute]] by blast
    from execute_effect [OF assms(1) world_ok_quiet [OF q assms(2)] this ex] calls_quiet_before [OF q]
    show ?thesis by (auto simp: method_ok_def)
  qed
qed

lemma resume_run_ok:
  assumes "others_follow_protocol orc" "world_ok w" "resume_run orc act is_async rid w = (x, w')"
  shows "method_ok w w'"
  using assms(3) unfolding resume_run_def
proof (cases rule: rt_bind_cases)
  case (raised e)
  show ?thesis by (rule method_ok_quiet [OF keepsD [OF quiet_prepare_resume [OF assms(1)] raised(1)] assms(2)])
next
  case (went_on p w1)
  note q = keepsD [OF quiet_prepare_resume [OF assms(1)] went_on(1)]
  show ?thesis
  proof (cases p)
    case (Inr result)
    with went_on(2) have "w' = w1" by (simp add: rt_return_def)
    with q method_ok_quiet [OF q assms(2)] show ?thesis by simp
  next
    case (Inl r)
    with went_on(2) have ex: "execute orc act is_async rid (stored_arguments r) w1 = (x, w')" by simp
    note args = prepare_resume_run [OF assms(1) world_ok_inv [OF assms(2)] went_on(1) [unfolded Inl]]
    from execute_effect [OF assms(1) world_ok_quiet [OF q assms(2)] args ex] calls_quiet_before [OF q]
    show ?thesis by (auto simp: method_ok_def)
  qed
qed

lemma rt_raise_ok: "world_ok w \<Longrightarrow> rt_raise c m w = (x, w') \<Longrightarrow> method_ok w w'"
  using method_ok_quiet [OF quiet.refl, of w] by (simp add: rt_raise_def)

text \<open>A call of any method, by any action, under any schedule of the other clients.\<close>

inductive world_step :: "'w world \<Rightarrow> 'w world \<Rightarrow> bool" where
  invoke: "others_follow_protocol orc \<Longrightarrow> invoke orc act context args w = (x, w') \<Longrightarrow> world_step w w'"
| invoke_request: "others_follow_protocol orc \<Longrightarrow> invoke_request orc act context args key w = (x, w') \<Longrightarrow> world_step w w'"
| invoke_async: "others_follow_protocol orc \<Longrightarrow> invoke_async orc act context args w = (x, w') \<Longrightarrow> world_step w w'"
| invoke_request_async: "others_follow_protocol orc \<Longrightarrow> invoke_request_async orc act context args key w = (x, w') \<Longrightarrow> world_step w w'"
| approve: "others_follow_protocol orc \<Longrightarrow> approve orc act rid approver reason w = (x, w') \<Longrightarrow> world_step w w'"
| reject: "others_follow_protocol orc \<Longrightarrow> reject orc act rid approver reason w = (x, w') \<Longrightarrow> world_step w w'"
| reconcile: "others_follow_protocol orc \<Longrightarrow> reconcile orc act rid outcome operator reason result w = (x, w') \<Longrightarrow> world_step w w'"
| reconcile_from_provider: "others_follow_protocol orc \<Longrightarrow> reconcile_from_provider orc act rid probe operator w = (x, w') \<Longrightarrow> world_step w w'"
| resume: "others_follow_protocol orc \<Longrightarrow> resume orc act rid w = (x, w') \<Longrightarrow> world_step w w'"
| resume_async: "others_follow_protocol orc \<Longrightarrow> resume_async orc act rid w = (x, w') \<Longrightarrow> world_step w w'"

lemma world_step_ok: "world_step w w' \<Longrightarrow> world_ok w \<Longrightarrow> method_ok w w'"
proof (induction rule: world_step.induct)
  case (invoke orc act ctxt args w x w')
  then show ?case by (cases "ta_is_async act") (auto simp: invoke_def intro: rt_raise_ok invoke_body_ok)
next
  case (invoke_request orc act ctxt args key w x w')
  then show ?case by (cases "ta_is_async act") (auto simp: invoke_request_def intro: rt_raise_ok invoke_body_ok)
next
  case (invoke_async orc act ctxt args w x w')
  then show ?case by (cases "ta_is_async act") (auto simp: invoke_async_def intro: rt_raise_ok invoke_body_ok)
next
  case (invoke_request_async orc act ctxt args key w x w')
  then show ?case by (cases "ta_is_async act") (auto simp: invoke_request_async_def intro: rt_raise_ok invoke_body_ok)
next
  case (approve orc act rid approver reason w x w')
  then show ?case by (auto simp: approve_def intro: method_ok_quiet keepsD [OF quiet_decide])
next
  case (reject orc act rid approver reason w x w')
  then show ?case by (auto simp: reject_def intro: method_ok_quiet keepsD [OF quiet_decide])
next
  case (reconcile orc act rid outcome operator reason result w x w')
  then show ?case by (auto intro: method_ok_quiet keepsD [OF quiet_reconcile])
next
  case (reconcile_from_provider orc act rid probe operator w x w')
  then show ?case by (auto intro: method_ok_callless keepsD [OF callless_reconcile_from_provider])
next
  case (resume orc act rid w x w')
  then show ?case by (cases "ta_is_async act") (auto simp: resume_def intro: rt_raise_ok resume_run_ok)
next
  case (resume_async orc act rid w x w')
  then show ?case by (cases "ta_is_async act") (auto simp: resume_async_def intro: rt_raise_ok resume_run_ok)
qed

text \<open>A world before any call: a reachable ledger and an empty log of calls.\<close>

definition fresh_world :: "'w world \<Rightarrow> bool" where
  "fresh_world w \<longleftrightarrow> reachable (w_ledger w) \<and> w_log w = []"

abbreviation reachable_world :: "'w world \<Rightarrow> bool" where
  "reachable_world \<equiv> reach fresh_world world_step"

definition world_extends :: "'w world \<Rightarrow> 'w world \<Rightarrow> bool" where
  "world_extends w w' \<longleftrightarrow> ledger_step\<^sup>*\<^sup>* (w_ledger w) (w_ledger w') \<and> prefix (w_log w) (w_log w')"

lemma method_ok_extends: "method_ok w w' \<Longrightarrow> world_extends w w'"
  by (auto simp: method_ok_def calls_at_most_once_def world_extends_def)

interpretation worlds: transition_system fresh_world world_step world_ok world_extends
proof
  show "fresh_world w \<Longrightarrow> world_ok w" for w :: "'a world"
    by (auto simp: fresh_world_def world_ok_def intro: reachable_inv)
  show "world_ok w \<Longrightarrow> world_step w w' \<Longrightarrow> world_ok w'" for w w' :: "'a world"
    using world_step_ok by (auto simp: method_ok_def)
  show "world_ok w \<Longrightarrow> world_step w w' \<Longrightarrow> world_extends w w'" for w w' :: "'a world"
    using world_step_ok method_ok_extends by blast
  show "world_extends w w" for w :: "'a world" by (simp add: world_extends_def)
  show "world_extends u v \<Longrightarrow> world_extends v w \<Longrightarrow> world_extends u w" for u v w :: "'a world"
    by (auto simp: world_extends_def intro: rtranclp_trans prefix_order.trans)
qed

lemma reachable_world_ok: "reachable_world w \<Longrightarrow> world_ok w"
  by (rule worlds.reach_inv)

lemma reachable_world_ledger: "reachable_world w \<Longrightarrow> reachable (w_ledger w)"
proof (induction rule: reach.induct)
  case (step w w')
  from world_step_ok [OF step.hyps(2) reachable_world_ok [OF step.hyps(1)]] step.IH show ?case
    by (auto simp: method_ok_def calls_at_most_once_def intro: ledger_system.reach_steps)
qed (simp add: fresh_world_def)

end
