(* ===== verification/Runtime_Results.thy ===== *)
theory Runtime_Results
  imports Runtime_Invoke Ledger_Demo
begin

text \<open>
  What the methods return. An outcome a worker wrote is final where it is terminal, whatever
  the other clients do before the run is read again; and a client that is alone with its
  ledger gets every outcome written.
\<close>

section \<open>Reading a run back\<close>

lemma run_result_InrD:
  assumes "run_result orc rid duplicate w = (Inr res, w')"
  obtains r where "fetch_run (w_ledger w') rid = Some r" "ar_status res = r_status r" "ar_duplicate res = duplicate"
    "ar_run_id res = rid" "ar_value res = (case r_result r of None \<Rightarrow> PNone | Some v \<Rightarrow> v)" "ar_reason res = r_reason r"
proof -
  from assms obtain ro w1 where g: "get_run orc rid w = (Inr ro, w1)"
    and rest: "rt_lift (result_from_run ro duplicate) w1 = (Inr res, w')"
    unfolding run_result_def by (rule rt_bind_InrD)
  from rest obtain r where r: "ro = Some r" "w1 = w'" "result_from_run (Some r) duplicate = Inr res"
    by (auto simp: rt_lift_def result_from_run_def raise_exc_def split: option.splits)
  with get_run_InrD [OF g] have f: "fetch_run (w_ledger w') rid = Some r" by simp
  with r(3) that [OF f] show thesis by (auto simp: result_from_run_def fetch_run_id)
qed

lemma run_result_terminal:
  assumes "others_follow_protocol orc" "ledger_inv (w_ledger w)" "fetch_run (w_ledger w) rid = Some r"
    "terminal (r_status r)" "run_result orc rid duplicate w = (Inr res, w')"
  shows "ar_status res = r_status r \<and> (\<exists>r'. fetch_run (w_ledger w') rid = Some r' \<and> r_status r' = r_status r)"
proof (rule run_result_InrD [OF assms(5)])
  fix r' assume r': "fetch_run (w_ledger w') rid = Some r'" "ar_status res = r_status r'"
  note steps = quiet_change_ledger [OF keepsD [OF quiet_run_result [OF assms(1)] assms(5)]]
  from terminal_steps [OF steps assms(2-4)] obtain r'' where
    "fetch_run (w_ledger w') rid = Some r''" "r_status r'' = r_status r" by metis
  with r' show ?thesis by simp
qed

section \<open>Outcomes\<close>

text \<open>A ledger call that returned ran its operation on a ledger the others left in order.\<close>

lemma ledger_call_inv:
  assumes "others_follow_protocol orc" "ledger_inv (w_ledger w)" "ledger_call orc operation w = (Inr x, w')"
  obtains env l where "operation env l = Inr (x, w_ledger w')" "ledger_inv l" "ledger_step\<^sup>*\<^sup>* (w_ledger w) l"
proof (rule ledger_call_InrD [OF assms(3)])
  fix l assume l: "l = o_others orc (w_calls w) (w_ledger w)"
    and op: "operation (o_env orc (w_calls w)) l = Inr (x, w_ledger w')"
  have steps: "ledger_step\<^sup>*\<^sup>* (w_ledger w) l" unfolding l by (rule others_steps [OF assms(1)])
  show thesis by (rule that [OF op ledger_exec.steps_inv [OF steps assms(2)] steps])
qed

lemma finish_call:
  assumes "others_follow_protocol orc" "ledger_inv (w_ledger w)"
    "ledger_call orc (\<lambda>env. finish_execution env rid owner s reason v evs) w = (Inr (), w')"
  obtains r where "fetch_run (w_ledger w') rid = Some r" "r_status r = s" "r_reason r = reason"
    "r_result r = (if v = PNone then None else Some (json_norm True v))"
    "\<exists>es pre. run_events (w_ledger w') rid = pre @ es \<and> log_of es = stored evs"
proof (rule ledger_call_inv [OF assms])
  fix env l
  assume op: "finish_execution env rid owner s reason v evs l = Inr ((), w_ledger w')" and inv: "ledger_inv l"
  show thesis
  proof (rule finish_execution_effect [OF op ledger_inv_struct [OF inv]])
    fix r r' es
    assume r': "fetch_run (w_ledger w') rid = Some r'" "same_but_anchor (finish_run_row (now_at env 0) s reason v r) r'"
      and es: "run_events (w_ledger w') rid = run_events l rid @ es" "log_of es = stored evs"
    from same_but_anchor_columns [OF r'(2)] r'(1) es show thesis
      by (intro that [of r']) (auto simp: finish_run_row_def)
  qed
qed

lemma complete_is_finish:
  "complete_execution env rid owner v = finish_execution env rid owner COMPLETED None v
     [(''tool.execution.succeeded'', PDict []), (''run.completed'', PDict [])]"
  by (simp add: complete_execution_def fun_eq_iff)

lemma fail_is_finish:
  "fail_execution env rid owner err = finish_execution env rid owner FAILED (Some (''tool execution failed: '' @ err)) PNone
     [(''tool.execution.failed'', PDict [(''error_type'', PStr err)])]"
  by (simp add: fail_execution_def fun_eq_iff)

lemma unknown_is_finish:
  "mark_execution_unknown env rid owner err = finish_execution env rid owner UNKNOWN
     (Some (''tool execution outcome uncertain: '' @ err)) PNone [(''tool.execution.uncertain'',
       PDict [(''error_type'', PStr err), (''reason'', PStr (''tool execution outcome uncertain: '' @ err))])]"
  by (simp only: mark_execution_unknown_def Let_def)

lemmas finishes = complete_is_finish fail_is_finish unknown_is_finish

text \<open>A value that cannot be stored as JSON is refused before anything is written.\<close>

lemma complete_unserializable:
  assumes "json_error True v = Some e"
  shows "\<exists>ex. complete_execution env rid owner v l = Inl ex \<and> value_or_type_error ex"
proof -
  have "v \<noteq> PNone" using assms by auto
  with assms json_error_kind [of True v e] show ?thesis
    by (auto simp: complete_is_finish finish_execution_def result_json_def py_json_eq value_or_type_error_def
        simp del: result_json_Inr)
qed

text \<open>A value that can be stored is never refused for its type.\<close>

lemma append_event_serializable:
  assumes "json_error True p = None" "append_event rid t p ts eid l = Inl e"
  shows "\<not> value_or_type_error e"
  using assms by (auto simp: append_event_def Let_def event_hash_eq raise_exc_def py_json_ok value_or_type_error_def split: if_splits)

lemma append_events_serializable:
  assumes "\<forall>ev \<in> set evs. json_error True (snd ev) = None" "append_events env i k rid evs l = Inl e"
  shows "\<not> value_or_type_error e"
  using assms
proof (induction evs arbitrary: i k l)
  case (Cons ev evs)
  obtain t p where ev: "ev = (t, p)" by (cases ev)
  from Cons.prems ev append_event_serializable [of p] Cons.IH show ?case by (auto simp: res_bind_eq_Inl)
qed simp

lemma finish_serializable:
  assumes "json_error True v = None" "\<forall>ev \<in> set evs. json_error True (snd ev) = None"
    "finish_execution env rid owner s reason v evs l = Inl e"
  shows "\<not> value_or_type_error e"
proof -
  have "result_json v = Inr ()" using assms(1) by simp
  with assms(3) append_events_serializable [OF assms(2)] show ?thesis
    by (auto simp: finish_execution_def Let_def raise_exc_def value_or_type_error_def res_bind_eq_Inl
        simp del: result_json_Inr split: if_splits)
qed

text \<open>An unknown run stays unknown until it is reconciled.\<close>

lemma unknown_from:
  "replay_from st evs = Some st' \<Longrightarrow> ps_status st = UNKNOWN \<Longrightarrow> ps_status st' = UNKNOWN \<or> logged ''run.reconciled'' evs"
proof (induction evs arbitrary: st)
  case (Cons ev evs)
  then obtain st1 where st1: "replay_step ev st = Some st1" "replay_from st1 evs = Some st'"
    by (auto split: option.splits)
  from st1(1) Cons.prems(2) have "ps_status st1 = UNKNOWN \<or> fst ev = ''run.reconciled''"
    by (auto simp: replay_step_def status_after_def split: option.splits if_splits)
  with Cons.IH [OF st1(2)] show ?case by auto
qed simp

lemma unknown_steps:
  assumes "ledger_step\<^sup>*\<^sup>* l l'" "ledger_inv l" "fetch_run l rid = Some r" "r_status r = UNKNOWN"
    "fetch_run l' rid = Some r'"
  shows "r_status r' = UNKNOWN \<or> logged ''run.reconciled'' (log_of (run_events l' rid))"
proof -
  from steps_run [OF assms(1-3)] assms(5) obtain es where
    "run_events l' rid = run_events l rid @ es" "replay_from (abs_run r) (log_of es) = Some (abs_run r')" by (metis option.inject)
  with unknown_from [of "abs_run r" "log_of es"] assms(4) show ?thesis by (auto simp: abs_run_def)
qed

text \<open>What the runtime writes for each way the tool ended; \<open>None\<close> where it writes nothing, or
  writes and raises.\<close>

definition outcome_written :: "tool_result \<Rightarrow> ActionStatus option" where
  "outcome_written outcome = (case outcome of
     Returned v \<Rightarrow> Some (if json_error True v = None then COMPLETED else UNKNOWN)
   | Indeterminate n \<Rightarrow> Some UNKNOWN
   | Failed n \<Rightarrow> Some FAILED
   | Cancelled \<Rightarrow> None
   | Aborted n \<Rightarrow> None)"

definition reports :: "ActionStatus \<Rightarrow> string \<Rightarrow> ActionResult \<Rightarrow> 'w world \<Rightarrow> bool" where
  "reports s rid res w \<longleftrightarrow> ar_status res = s
     \<or> (s = UNKNOWN \<and> logged ''run.reconciled'' (log_of (run_events (w_ledger w) rid)))"

lemma run_result_reports:
  assumes "others_follow_protocol orc" "ledger_inv (w_ledger w)" "fetch_run (w_ledger w) rid = Some r"
    "r_status r = s" "s \<in> {COMPLETED, FAILED, UNKNOWN}" "run_result orc rid duplicate w = (Inr res, w')"
  shows "reports s rid res w'"
proof (cases "s = UNKNOWN")
  case True
  show ?thesis
  proof (rule run_result_InrD [OF assms(6)])
    fix r' assume r': "fetch_run (w_ledger w') rid = Some r'" "ar_status res = r_status r'"
    note steps = quiet_change_ledger [OF keepsD [OF quiet_run_result [OF assms(1)] assms(6)]]
    from unknown_steps [OF steps assms(2,3) _ r'(1)] r'(2) assms(4) True show ?thesis by (auto simp: reports_def)
  qed
next
  case False
  with assms(4,5) have "terminal (r_status r)" by (auto simp: terminal_def)
  from run_result_terminal [OF assms(1-3) this assms(6)] assms(4) show ?thesis by (simp add: reports_def)
qed

lemma finish_then_result:
  assumes "others_follow_protocol orc" "ledger_inv (w_ledger w)" "s \<in> {COMPLETED, FAILED, UNKNOWN}"
    "ledger_call orc (\<lambda>env. finish_execution env rid owner s reason v evs) w = (Inr (), w1)"
    "ledger_step\<^sup>*\<^sup>* (w_ledger w) (w_ledger w1)"
    "run_result orc rid duplicate w1 = (Inr res, w')"
  shows "reports s rid res w'"
proof (rule finish_call [OF assms(1,2,4)])
  fix r assume r: "fetch_run (w_ledger w1) rid = Some r" "r_status r = s"
  show ?thesis by (rule run_result_reports [OF assms(1) ledger_exec.steps_inv [OF assms(5,2)] r assms(3,6)])
qed

lemma mark_unknown_reports:
  assumes "others_follow_protocol orc" "ledger_inv (w_ledger w)" "mark_unknown orc rid owner err w = (Inr res, w')"
  shows "reports UNKNOWN rid res w'"
proof -
  from assms(3) obtain w1 where c: "ledger_call orc (\<lambda>env. mark_execution_unknown env rid owner err) w = (Inr (), w1)"
    and res: "run_result orc rid False w1 = (Inr res, w')"
    unfolding mark_unknown_def by (elim rt_bind_InrD) simp
  note steps = quiet_change_ledger [OF keepsD [OF quiet_calls(10) [OF assms(1)] c]]
  show ?thesis by (rule finish_then_result [OF assms(1,2) _ c [unfolded finishes] steps res]) simp
qed

lemma settle_reports:
  assumes "others_follow_protocol orc" "ledger_inv (w_ledger w)" "settle orc is_async rid owner outcome w = (Inr res, w')"
  shows "\<exists>s. outcome_written outcome = Some s \<and> reports s rid res w'"
proof (cases outcome)
  case (Returned v)
  let ?body = "rt_catch (rt_bind (ledger_call orc (\<lambda>env. complete_execution env rid owner v)) (\<lambda>_. rt_return True))
              value_or_type_error (\<lambda>_. rt_return False)"
  from assms(3) Returned obtain b w1 where t: "?body w = (Inr b, w1)"
    and rest: "(if b then run_result orc rid False else mark_unknown orc rid owner ''ResultSerializationError'') w1 = (Inr res, w')"
    unfolding settle_def by (auto elim: rt_bind_InrD)
  have "keeps quiet_change ?body" by (intro quiet_intros assms(1))
  note steps = quiet_change_ledger [OF keepsD [OF this t]]
  note inv1 = ledger_exec.steps_inv [OF steps assms(2)]
  show ?thesis
  proof (cases "json_error True v")
    case None
    have b
    proof (rule ccontr)
      assume "\<not> b"
      with t obtain e w2 where c: "ledger_call orc (\<lambda>env. complete_execution env rid owner v) w = (Inl e, w2)" "value_or_type_error e"
        by (auto simp: rt_catch_def rt_bind_def rt_return_def split: prod.splits sum.splits if_splits)
      then obtain env l where f: "complete_execution env rid owner v l = Inl e"
        by (auto simp: ledger_call_def Let_def split: sum.splits)
      from finish_serializable [OF None _ f [unfolded finishes]] c(2) show False by simp
    qed
    with t have c: "ledger_call orc (\<lambda>env. complete_execution env rid owner v) w = (Inr (), w1)"
      by (auto simp: rt_catch_def rt_bind_def rt_return_def split: prod.splits sum.splits if_splits)
    from rest \<open>b\<close> have "run_result orc rid False w1 = (Inr res, w')" by simp
    from finish_then_result [OF assms(1,2) _ c [unfolded finishes] steps this] None Returned
    show ?thesis by (simp add: outcome_written_def)
  next
    case (Some e)
    have "\<not> b"
    proof
      assume b
      with t obtain x where "ledger_call orc (\<lambda>env. complete_execution env rid owner v) w = (Inr x, w1)"
        by (auto simp: rt_catch_def rt_bind_def rt_return_def split: prod.splits sum.splits if_splits)
      then obtain env l y where "complete_execution env rid owner v l = Inr y"
        by (auto simp: ledger_call_def Let_def split: sum.splits)
      with complete_unserializable [OF Some, of env rid owner l] show False by auto
    qed
    with rest mark_unknown_reports [OF assms(1) inv1] Some Returned show ?thesis by (simp add: outcome_written_def)
  qed
next
  case (Indeterminate n)
  with assms(3) mark_unknown_reports [OF assms(1,2)] show ?thesis by (auto simp: settle_def outcome_written_def)
next
  case (Failed n)
  with assms(3) obtain w1 where c: "ledger_call orc (\<lambda>env. fail_execution env rid owner n) w = (Inr (), w1)"
    and res: "run_result orc rid False w1 = (Inr res, w')"
    by (auto simp: settle_def elim!: rt_bind_InrD)
  note steps = quiet_change_ledger [OF keepsD [OF quiet_calls(9) [OF assms(1)] c]]
  from finish_then_result [OF assms(1,2) _ c [unfolded finishes] steps res] Failed show ?thesis by (simp add: outcome_written_def)
next
  case Cancelled
  with assms(3) show ?thesis
    by (cases is_async) (auto simp: settle_def rt_raise_def raise_exc_def elim!: rt_bind_InrD)
next
  case (Aborted n)
  with assms(3) show ?thesis by (auto simp: settle_def rt_raise_def raise_exc_def)
qed

section \<open>Alone with the ledger\<close>

definition alone :: "schedule \<Rightarrow> bool" where
  "alone orc \<longleftrightarrow> (\<forall>i l. o_others orc i l = l)"

lemma alone_protocol: "alone orc \<Longrightarrow> others_follow_protocol orc"
  by (simp add: alone_def others_follow_protocol_def)

lemma alone_call:
  assumes "alone orc" "operation (o_env orc (w_calls w)) (w_ledger w) = Inr (x, l')"
  shows "ledger_call orc operation w = (Inr x, w\<lparr>w_ledger := l', w_calls := Suc (w_calls w)\<rparr>)"
  using assms by (simp add: ledger_call_def alone_def Let_def)

lemma alone_get_run:
  "alone orc \<Longrightarrow> get_run orc rid w = (Inr (fetch_run (w_ledger w) rid), w\<lparr>w_calls := Suc (w_calls w)\<rparr>)"
  by (simp add: get_run_def ledger_call_def alone_def Let_def)

lemma alone_context_arguments:
  assumes "alone orc" "ta_context_parameter act = Some p" "fetch_run (w_ledger v) rid = Some r"
    "ActionExecutionContext_init (r_run_id r) (r_action_name r) (r_tenant_id r) (r_idempotency_key r) (int (r_attempt r)) = Inr c"
  shows "arguments_with_execution_context orc act rid args v
    = (Inr (dict_set p (ContextArg c) (map (map_prod id PlainArg) args)), v\<lparr>w_calls := w_calls v + 1\<rparr>)"
  using assms by (simp add: arguments_with_execution_context_def rt_bind_def alone_get_run rt_lift_def rt_return_def)

lemma alone_run_result:
  assumes "alone orc" "fetch_run (w_ledger w) rid = Some r"
  shows "\<exists>res. run_result orc rid duplicate w = (Inr res, w\<lparr>w_calls := Suc (w_calls w)\<rparr>)
    \<and> ar_status res = r_status r \<and> ar_duplicate res = duplicate
    \<and> ar_value res = (case r_result r of None \<Rightarrow> PNone | Some v \<Rightarrow> v)"
  using assms by (simp add: run_result_def rt_bind_def alone_get_run rt_lift_def result_from_run_def)

text \<open>The ids of the events two calls of a schedule may use.\<close>

definition call_ids :: "schedule \<Rightarrow> nat \<Rightarrow> string list" where
  "call_ids orc i = map (uuid_at (o_env orc i)) [0, 1]"

text \<open>A claimable run is executed: the claim succeeds, the tool is called once with the run's
  arguments, and the value it returned is stored and reported.\<close>

lemma execute_enabled_with:
  assumes alone: "alone orc" and inv: "ledger_inv (w_ledger w)"
    and run: "fetch_run (w_ledger w) rid = Some r" "claimable r"
    and given: "\<And>v r1. fetch_run (w_ledger v) rid = Some r1 \<Longrightarrow> run_key r1 = run_key r \<Longrightarrow> r_attempt r1 = 1
        \<Longrightarrow> arguments_with_execution_context orc act rid args v = (Inr kw, v\<lparr>w_calls := w_calls v + n\<rparr>)"
    and act: "1 \<le> ta_lease_seconds act" "ta_lease_seconds act \<le> 86400"
    and owner: "strip (''worker_'' @ o_uuid orc (w_calls w)) \<noteq> []"
    and lease: "add_seconds (now_at (o_env orc (w_calls w)) 0) (nat (ta_lease_seconds act)) = Inr lease"
    and ids: "distinct (event_ids (w_ledger w) @ call_ids orc (w_calls w) @ call_ids orc (Suc (w_calls w) + n))"
    and tool: "ta_function act kw (w_ext w) = (Returned v, ext)" "json_error True v = None"
  shows "\<exists>res w'. execute orc act is_async rid args w = (Inr res, w') \<and> ar_status res = COMPLETED
    \<and> ar_value res = json_norm True v \<and> \<not> ar_duplicate res \<and> w_ext w' = ext
    \<and> w_log w' = w_log w @ [\<lparr>tc_action = ta_name act, tc_run = rid, tc_owner = ''worker_'' @ o_uuid orc (w_calls w),
         tc_arguments = kw\<rparr>]
    \<and> (\<exists>r'. fetch_run (w_ledger w') rid = Some r' \<and> r_status r' = COMPLETED \<and> request_of r' = request_of r)
    \<and> changes_only rid (w_ledger w) (w_ledger w')"
proof -
  define owner' where "owner' = ''worker_'' @ o_uuid orc (w_calls w)"
  note owner = owner [folded owner'_def]
  let ?i = "w_calls w" and ?owner = owner'
  let ?call = "\<lparr>tc_action = ta_name act, tc_run = rid, tc_owner = ?owner, tc_arguments = kw\<rparr>"
  from ids have "distinct (event_ids (w_ledger w) @ map (uuid_at (o_env orc ?i)) [0, 1])"
    by (auto simp: call_ids_def)
  from claim_execution_enabled [OF inv run owner act lease this] obtain l1 r1 where
    c: "claim_execution (o_env orc ?i) rid ?owner (ta_lease_seconds act) (w_ledger w) = Inr (True, l1)"
      "fetch_run l1 rid = Some r1" "same_but_anchor (claim_run_row (now_at (o_env orc ?i) 0) ?owner lease r) r1"
      "event_ids l1 = event_ids (w_ledger w) @ (if r_status r = APPROVED
         then [uuid_at (o_env orc ?i) 0, uuid_at (o_env orc ?i) 1] else [uuid_at (o_env orc ?i) 0])" by metis
  have inv1: "ledger_inv l1" by (rule ledger_system.step_inv [OF inv ledger_step.claim [OF c(1)]])
  from same_but_anchor_columns [OF c(3)] have r1: "r_status r1 = EXECUTING" "r_execution_owner r1 = Some ?owner"
    "run_key r1 = run_key r" "r_attempt r1 = Suc (r_attempt r)" "request_of r1 = request_of r"
    by (simp_all add: claim_run_row_def request_of_def run_key_def)
  have "distinct (event_ids l1 @ map (uuid_at (o_env orc (Suc ?i + n))) [0 ..< length [(''tool.execution.succeeded'', PDict []), (''run.completed'', PDict [])]])"
    using ids c(4) by (auto simp: call_ids_def upt_rec split: if_splits)
  from finish_execution_enabled [OF inv1 c(2) r1(1,2) tool(2) _ this, of COMPLETED None] obtain l2 r2 where
    f: "complete_execution (o_env orc (Suc ?i + n)) rid ?owner v l1 = Inr ((), l2)" "fetch_run l2 rid = Some r2"
      "same_but_anchor (finish_run_row (now_at (o_env orc (Suc ?i + n)) 0) COMPLETED None v r1) r2"
    unfolding finishes by auto
  from same_but_anchor_columns [OF f(3)] have r2: "r_status r2 = COMPLETED"
    "r_result r2 = (if v = PNone then None else Some (json_norm True v))" "request_of r2 = request_of r"
    using r1(5) by (simp_all add: finish_run_row_def request_of_def run_key_def)
  have only: "changes_only rid (w_ledger w) l2"
    using claim_execution_good [OF c(1) inv] complete_execution_good [OF f(1) inv1]
    by (auto simp: good_change_def intro: changes_only_trans)
  define w1 where "w1 = w\<lparr>w_ledger := l1, w_calls := Suc ?i\<rparr>"
  define w2 where "w2 = w1\<lparr>w_calls := w_calls w1 + n, w_ext := ext, w_log := w_log w1 @ [?call]\<rparr>"
  define w3 where "w3 = w2\<lparr>w_ledger := l2, w_calls := Suc (w_calls w2)\<rparr>"
  have first: "r_attempt r = 0"
    using attempt_of_status [OF ledger_inv_run [OF inv run(1)]] run(2) by (auto simp: claimable_def started_def)
  have worker: "fresh_id orc ''worker_'' w = (Inr owner', w)" by (simp add: fresh_id_def owner'_def)
  have claim: "ledger_call orc (\<lambda>env. claim_execution env rid ?owner (ta_lease_seconds act)) w = (Inr True, w1)"
    unfolding w1_def by (rule alone_call [OF alone]) (use c(1) in simp)
  have call: "run_tool orc act rid ?owner args w1 = (Inr (Returned v), w2)"
    using tool(1) given [of w1 r1] c(2) r1(3,4) first
    by (simp add: run_tool_def rt_catch_def rt_bind_def call_function_def w2_def w1_def)
  have complete: "ledger_call orc (\<lambda>env. complete_execution env rid ?owner v) w2 = (Inr (), w3)"
    using alone_call [OF alone, where w = w2 and operation = "\<lambda>env. complete_execution env rid ?owner v"] f(1)
    by (simp add: w3_def w2_def w1_def)
  have "fetch_run (w_ledger w3) rid = Some r2" using f(2) by (simp add: w3_def)
  from alone_run_result [OF alone this, of False] obtain res where
    res: "run_result orc rid False w3 = (Inr res, w3\<lparr>w_calls := Suc (w_calls w3)\<rparr>)" "ar_status res = COMPLETED"
      "\<not> ar_duplicate res" "ar_value res = json_norm True v"
    using r2 by (auto split: if_splits)
  have "settle orc is_async rid ?owner (Returned v) w2 = (Inr res, w3\<lparr>w_calls := Suc (w_calls w3)\<rparr>)"
    by (simp add: settle_def rt_bind_def rt_catch_def complete rt_return_def res(1))
  then have "execute orc act is_async rid args w = (Inr res, w3\<lparr>w_calls := Suc (w_calls w3)\<rparr>)"
    by (simp add: execute_def rt_bind_def worker claim call)
  with res f(2) r2(1,3) only show ?thesis by (simp add: w3_def w2_def w1_def owner'_def)
qed

lemma execute_enabled:
  assumes alone: "alone orc" and inv: "ledger_inv (w_ledger w)"
    and run: "fetch_run (w_ledger w) rid = Some r" "claimable r"
    and act: "ta_context_parameter act = None" "1 \<le> ta_lease_seconds act" "ta_lease_seconds act \<le> 86400"
    and owner: "strip (''worker_'' @ o_uuid orc (w_calls w)) \<noteq> []"
    and lease: "add_seconds (now_at (o_env orc (w_calls w)) 0) (nat (ta_lease_seconds act)) = Inr lease"
    and ids: "distinct (event_ids (w_ledger w) @ call_ids orc (w_calls w) @ call_ids orc (Suc (w_calls w)))"
    and tool: "ta_function act (map (map_prod id PlainArg) args) (w_ext w) = (Returned v, ext)" "json_error True v = None"
  shows "\<exists>res w'. execute orc act is_async rid args w = (Inr res, w') \<and> ar_status res = COMPLETED
    \<and> ar_value res = json_norm True v \<and> \<not> ar_duplicate res \<and> w_ext w' = ext
    \<and> w_log w' = w_log w @ [\<lparr>tc_action = ta_name act, tc_run = rid, tc_owner = ''worker_'' @ o_uuid orc (w_calls w),
         tc_arguments = map (map_prod id PlainArg) args\<rparr>]
    \<and> (\<exists>r'. fetch_run (w_ledger w') rid = Some r' \<and> r_status r' = COMPLETED)"
proof -
  have given: "arguments_with_execution_context orc act rid args v = (Inr (map (map_prod id PlainArg) args), v\<lparr>w_calls := w_calls v + 0\<rparr>)" for v
    by (simp add: arguments_with_execution_context_def act(1) rt_return_def)
  have "distinct (event_ids (w_ledger w) @ call_ids orc (w_calls w) @ call_ids orc (Suc (w_calls w) + 0))" using ids by simp
  from execute_enabled_with [OF alone inv run given act(2,3) owner lease this tool, where is_async = is_async]
  show ?thesis by blast
qed

text \<open>A fresh request that policy allows is executed at once, whichever method \<open>m\<close> brings it.\<close>

lemma invoke_prepared:
  "\<not> ta_is_async act \<Longrightarrow>
     invoke orc act ctxt args w = rt_bind (prepare_invoke orc act ctxt args None) (run_prepared orc act False args) w"
  by (simp add: invoke_def)

lemma invoke_request_prepared:
  "\<not> ta_is_async act \<Longrightarrow>
     invoke_request orc act ctxt args key w = rt_bind (prepare_invoke orc act ctxt args (Some key)) (run_prepared orc act False args) w"
  by (simp add: invoke_request_def)

lemma invoke_enabled_with:
  assumes alone: "alone orc" and inv: "ledger_inv (w_ledger w)"
    and prepared: "m w = rt_bind (prepare_invoke orc act ctxt args override) (run_prepared orc act False args) w"
    and given: "\<not> supplies_context act args"
        "\<And>v r1. fetch_run (w_ledger v) (''run_'' @ o_uuid orc (w_calls w)) = Some r1 \<Longrightarrow> run_key r1 = (cx_tenant_id ctxt, ta_name act, key)
          \<Longrightarrow> r_attempt r1 = 1 \<Longrightarrow> arguments_with_execution_context orc act (''run_'' @ o_uuid orc (w_calls w)) args v
            = (Inr kw, v\<lparr>w_calls := w_calls v + n\<rparr>)"
    and act: "1 \<le> ta_lease_seconds act" "ta_lease_seconds act \<le> 86400"
      "1 \<le> ta_approval_ttl_seconds act" "ta_approval_ttl_seconds act \<le> 604800"
    and key: "governed_key act (PDict args) ctxt override = Inr key"
    and fp: "request_fingerprint (cx_tenant_id ctxt) (cx_actor_id ctxt) (cx_roles ctxt) (cx_evidence ctxt) (ta_name act)
       (ta_risk act) (PDict args) (cx_metadata ctxt) = Inr fp"
    and json: "json_error True (PDict args) = None" "json_error True (or_empty (cx_metadata ctxt)) = None"
    and fresh: "''run_'' @ o_uuid orc (w_calls w) \<notin> r_run_id ` set (l_runs (w_ledger w))"
      "(cx_tenant_id ctxt, ta_name act, key) \<notin> run_key ` set (l_runs (w_ledger w))"
    and policy: "ta_policy act (ta_name act) (PDict args) ctxt = Decided d" "pd_outcome d = ALLOW"
      "decision_digest d = Inr dig" "json_error True (pd_facts d) = None"
    and ids: "distinct (event_ids (w_ledger w) @ concat (map (\<lambda>i. call_ids orc (w_calls w + i)) [0, 1, 2, 3 + n]))"
    and owner: "strip (''worker_'' @ o_uuid orc (w_calls w + 2)) \<noteq> []"
    and lease: "add_seconds (now_at (o_env orc (w_calls w + 2)) 0) (nat (ta_lease_seconds act)) = Inr lease"
    and tool: "ta_function act kw (w_ext w) = (Returned v, ext)" "json_error True v = None"
  shows "\<exists>res w'. m w = (Inr res, w') \<and> ar_status res = COMPLETED
    \<and> ar_value res = json_norm True v \<and> \<not> ar_duplicate res \<and> w_ext w' = ext
    \<and> w_log w' = w_log w @ [\<lparr>tc_action = ta_name act, tc_run = ''run_'' @ o_uuid orc (w_calls w),
         tc_owner = ''worker_'' @ o_uuid orc (w_calls w + 2), tc_arguments = kw\<rparr>]
    \<and> (\<exists>r. fetch_run (w_ledger w') (''run_'' @ o_uuid orc (w_calls w)) = Some r \<and> r_arguments r = json_norm True (PDict args))
    \<and> changes_only (''run_'' @ o_uuid orc (w_calls w)) (w_ledger w) (w_ledger w')"
proof -
  define i where "i = w_calls w"
  define rid where "rid = ''run_'' @ o_uuid orc i"
  have idset: "uuid_at (o_env orc i) 0 \<notin> set (event_ids (w_ledger w))" using ids by (auto simp: call_ids_def i_def)
  from create_enabled [OF ledger_inv_struct [OF inv] fresh(1) [folded i_def, folded rid_def] fresh(2) json idset] obtain row l1 where
    c: "create_or_get_run (o_env orc i) rid (cx_tenant_id ctxt) (cx_actor_id ctxt) (cx_roles ctxt) (cx_evidence ctxt)
        (ta_name act) (ta_risk act) key fp args (cx_metadata ctxt) (w_ledger w) = Inr ((row, True), l1)"
      "event_ids l1 = event_ids (w_ledger w) @ [uuid_at (o_env orc i) 0]" by blast
  have inv1: "ledger_inv l1" by (rule ledger_system.step_inv [OF inv ledger_step.create [OF c(1)]])
  from create_effect [OF c(1) ledger_inv_struct [OF inv]] obtain r1 where r1: "fetch_run l1 rid = Some r1" "r_status r1 = CREATED"
    "run_key r1 = (cx_tenant_id ctxt, ta_name act, key)" "r_arguments r1 = json_norm True (PDict args)" by blast
  have "uuid_at (o_env orc (Suc i)) 0 \<notin> set (event_ids l1)" using ids by (auto simp: call_ids_def c(2) i_def)
  from policy_allow_enabled [OF inv1 r1(1,2) policy(2) act(3,4) policy(3,4) this] obtain l2 r2 where
    p: "record_policy_decision (o_env orc (Suc i)) rid d (ta_approval_ttl_seconds act) l1 = Inr ((), l2)"
      "fetch_run l2 rid = Some r2" "claimable r2" "event_ids l2 = event_ids l1 @ [uuid_at (o_env orc (Suc i)) 0]" by blast
  have inv2: "ledger_inv l2" by (rule ledger_system.step_inv [OF inv1 ledger_step.policy [OF p(1)]])
  define w1 where "w1 = w\<lparr>w_ledger := l1, w_calls := Suc i\<rparr>"
  define w2 where "w2 = w1\<lparr>w_ledger := l2, w_calls := Suc (w_calls w1)\<rparr>"
  have w2: "w_ledger w2 = l2" "w_calls w2 = w_calls w + 2" "w_ext w2 = w_ext w" "w_log w2 = w_log w"
    by (simp_all add: w2_def w1_def i_def)
  have idr: "fresh_id orc ''run_'' w = (Inr rid, w)" by (simp add: fresh_id_def rid_def i_def)
  have create: "ledger_call orc (\<lambda>env. create_or_get_run env rid (cx_tenant_id ctxt) (cx_actor_id ctxt) (cx_roles ctxt)
        (cx_evidence ctxt) (ta_name act) (ta_risk act) key fp args (cx_metadata ctxt)) w = (Inr (row, True), w1)"
    unfolding w1_def i_def by (rule alone_call [OF alone]) (use c(1) in \<open>simp add: i_def\<close>)
  have recorded: "ledger_call orc (\<lambda>env. record_policy_decision env rid d (ta_approval_ttl_seconds act)) w1 = (Inr (), w2)"
    unfolding w2_def by (rule alone_call [OF alone]) (use p(1) in \<open>simp add: w1_def\<close>)
  have decided: "record_decision orc act rid d w1 = (Inr d, w2)"
    by (simp add: record_decision_def rt_catch_def rt_bind_def recorded rt_return_def)
  have "prepare_invoke orc act ctxt args override w = (Inr (Execute rid), w2)"
    using given(1) policy(1,2)
    by (simp add: prepare_invoke_def rt_bind_def rt_lift_def key fp idr create govern_new_run_def
        evaluate_policy_def decided rt_return_def)
  then have inv_eq: "m w = execute orc act False rid args w2"
    unfolding prepared by (simp add: rt_bind_def run_prepared_def)
  have run: "fetch_run (w_ledger w2) rid = Some r2" "ledger_inv (w_ledger w2)" using p(2) inv2 w2 by simp_all
  have ids2: "distinct (event_ids (w_ledger w2) @ call_ids orc (w_calls w2) @ call_ids orc (Suc (w_calls w2) + n))"
    using ids by (auto simp: w2 p(4) c(2) call_ids_def i_def numeral_3_eq_3)
  have r2: "run_key r2 = (cx_tenant_id ctxt, ta_name act, key) \<and> r_arguments r2 = json_norm True (PDict args)"
  proof (rule steps_run [OF _ inv1 r1(1)])
    show "ledger_step\<^sup>*\<^sup>* l1 l2" by (rule r_into_rtranclp) (rule ledger_step.policy [OF p(1)])
    fix r assume "fetch_run l2 rid = Some r" "request_of r = request_of r1"
    then show ?thesis
      using p(2) r1(3,4) by (simp_all add: request_of_def del: json_norm_PDict)
  qed
  have only: "changes_only rid (w_ledger w) (w_ledger w2)"
    using create_or_get_run_good [OF c(1) inv] record_policy_decision_good [OF p(1) inv1]
    by (auto simp: good_change_def w2 intro: changes_only_trans)
  from given(2) r2 have given2: "\<And>v r1. fetch_run (w_ledger v) rid = Some r1 \<Longrightarrow> run_key r1 = run_key r2 \<Longrightarrow> r_attempt r1 = 1
      \<Longrightarrow> arguments_with_execution_context orc act rid args v = (Inr kw, v\<lparr>w_calls := w_calls v + n\<rparr>)"
    by (simp add: rid_def i_def)
  have tool2: "ta_function act kw (w_ext w2) = (Returned v, ext)" using tool(1) w2 by simp
  have "\<exists>res w'. execute orc act False rid args w2 = (Inr res, w') \<and> ar_status res = COMPLETED
    \<and> ar_value res = json_norm True v \<and> \<not> ar_duplicate res \<and> w_ext w' = ext
    \<and> w_log w' = w_log w2 @ [\<lparr>tc_action = ta_name act, tc_run = rid, tc_owner = ''worker_'' @ o_uuid orc (w_calls w2), tc_arguments = kw\<rparr>]
    \<and> (\<exists>r'. fetch_run (w_ledger w') rid = Some r' \<and> r_status r' = COMPLETED \<and> request_of r' = request_of r2)
    \<and> changes_only rid (w_ledger w2) (w_ledger w')"
    by (rule execute_enabled_with [OF alone run(2,1) p(3) _ act(1,2) owner [folded w2(2)] lease [folded w2(2)] ids2 tool2 tool(2)])
      (rule given2)
  then obtain res w' r' where e: "execute orc act False rid args w2 = (Inr res, w')" "ar_status res = COMPLETED"
    "ar_value res = json_norm True v" "\<not> ar_duplicate res" "w_ext w' = ext"
    "w_log w' = w_log w2 @ [\<lparr>tc_action = ta_name act, tc_run = rid, tc_owner = ''worker_'' @ o_uuid orc (w_calls w2), tc_arguments = kw\<rparr>]"
    "fetch_run (w_ledger w') rid = Some r'" "request_of r' = request_of r2" "changes_only rid (w_ledger w2) (w_ledger w')" by blast
  have "r_arguments r' = json_norm True (PDict args)" using e(8) r2 by (simp add: request_of_def del: json_norm_PDict)
  with e changes_only_trans [OF only e(9)] show ?thesis
    unfolding inv_eq rid_def i_def w2(2,4) by (simp del: json_norm_PDict)
qed

lemma invoke_enabled:
  assumes alone: "alone orc" and inv: "ledger_inv (w_ledger w)" and sync: "\<not> ta_is_async act"
    and act: "ta_context_parameter act = None" "1 \<le> ta_lease_seconds act" "ta_lease_seconds act \<le> 86400"
      "1 \<le> ta_approval_ttl_seconds act" "ta_approval_ttl_seconds act \<le> 604800"
    and key: "governed_key act (PDict args) ctxt None = Inr key"
    and fp: "request_fingerprint (cx_tenant_id ctxt) (cx_actor_id ctxt) (cx_roles ctxt) (cx_evidence ctxt) (ta_name act)
       (ta_risk act) (PDict args) (cx_metadata ctxt) = Inr fp"
    and json: "json_error True (PDict args) = None" "json_error True (or_empty (cx_metadata ctxt)) = None"
    and fresh: "''run_'' @ o_uuid orc (w_calls w) \<notin> r_run_id ` set (l_runs (w_ledger w))"
      "(cx_tenant_id ctxt, ta_name act, key) \<notin> run_key ` set (l_runs (w_ledger w))"
    and policy: "ta_policy act (ta_name act) (PDict args) ctxt = Decided d" "pd_outcome d = ALLOW"
      "decision_digest d = Inr dig" "json_error True (pd_facts d) = None"
    and ids: "distinct (event_ids (w_ledger w) @ concat (map (\<lambda>i. call_ids orc (w_calls w + i)) [0, 1, 2, 3]))"
    and owner: "strip (''worker_'' @ o_uuid orc (w_calls w + 2)) \<noteq> []"
    and lease: "add_seconds (now_at (o_env orc (w_calls w + 2)) 0) (nat (ta_lease_seconds act)) = Inr lease"
    and tool: "ta_function act (map (map_prod id PlainArg) args) (w_ext w) = (Returned v, ext)" "json_error True v = None"
  shows "\<exists>res w'. invoke orc act ctxt args w = (Inr res, w') \<and> ar_status res = COMPLETED
    \<and> ar_value res = json_norm True v \<and> \<not> ar_duplicate res \<and> w_ext w' = ext
    \<and> w_log w' = w_log w @ [\<lparr>tc_action = ta_name act, tc_run = ''run_'' @ o_uuid orc (w_calls w),
         tc_owner = ''worker_'' @ o_uuid orc (w_calls w + 2), tc_arguments = map (map_prod id PlainArg) args\<rparr>]"
proof -
  have plain: "\<not> supplies_context act args" by (simp add: supplies_context_def act(1))
  have given: "arguments_with_execution_context orc act rid args v = (Inr (map (map_prod id PlainArg) args), v\<lparr>w_calls := w_calls v + 0\<rparr>)" for rid v
    by (simp add: arguments_with_execution_context_def act(1) rt_return_def)
  have "distinct (event_ids (w_ledger w) @ concat (map (\<lambda>i. call_ids orc (w_calls w + i)) [0, 1, 2, 3 + 0]))" using ids by simp
  from invoke_enabled_with [where m = "invoke orc act ctxt args", OF alone inv invoke_prepared [OF sync] plain given act(2-5) key fp json fresh
      policy this owner lease tool]
  show ?thesis by blast
qed

text \<open>A repeated request is answered from the ledger.\<close>

lemma invoke_duplicate:
  assumes alone: "alone orc" and inv: "ledger_inv (w_ledger w)" and sync: "\<not> ta_is_async act" "\<not> supplies_context act args"
    and key: "governed_key act (PDict args) ctxt None = Inr key"
    and fp: "request_fingerprint (cx_tenant_id ctxt) (cx_actor_id ctxt) (cx_roles ctxt) (cx_evidence ctxt) (ta_name act)
       (ta_risk act) (PDict args) (cx_metadata ctxt) = Inr (r_fingerprint r)"
    and json: "json_error True (PDict args) = None" "json_error True (cx_metadata ctxt) = None"
    and run: "r \<in> set (l_runs (w_ledger w))" "run_key r = (cx_tenant_id ctxt, ta_name act, key)"
    and overdue: "overdue_approvals (now_at (o_env orc (Suc (w_calls w))) 0) (Some (cx_tenant_id ctxt)) (w_ledger w) = []"
      "overdue_executions (now_at (o_env orc (w_calls w + 2)) 0) (Some (cx_tenant_id ctxt)) (w_ledger w) = []"
  shows "\<exists>res w'. invoke orc act ctxt args w = (Inr res, w') \<and> ar_duplicate res \<and> ar_status res = r_status r
    \<and> ar_run_id res = r_run_id r \<and> ar_value res = (case r_result r of None \<Rightarrow> PNone | Some v \<Rightarrow> v)
    \<and> w_log w' = w_log w \<and> w_ext w' = w_ext w"
proof -
  define i where "i = w_calls w"
  define rid where "rid = ''run_'' @ o_uuid orc i"
  let ?l = "w_ledger w"
  let ?l1 = "upd_runs (\<lambda>x. r_run_id x = r_run_id r) (\<lambda>x. x\<lparr>r_duplicate_count := Suc (r_duplicate_count x)\<rparr>) ?l"
  note str = ledger_inv_struct [OF inv]
  have r: "fetch_run ?l (r_run_id r) = Some r" using run(1) by (simp add: fetch_run_mem [OF str])
  have c: "create_or_get_run (o_env orc i) rid (cx_tenant_id ctxt) (cx_actor_id ctxt) (cx_roles ctxt) (cx_evidence ctxt)
        (ta_name act) (ta_risk act) key (r_fingerprint r) args (cx_metadata ctxt) ?l = Inr ((r, False), ?l)"
    by (simp add: create_existing [OF str run json])
  have dup: "record_duplicate (r_run_id r) ?l = Inr ((), ?l1)"
    using r sql_count_fetch_run [OF str, of "r_run_id r" "\<lambda>_. True"] by (simp add: record_duplicate_def)
  have f1: "fetch_run ?l1 (r_run_id r) = Some (r\<lparr>r_duplicate_count := Suc (r_duplicate_count r)\<rparr>)"
    using r by (simp add: upd_runs_def fetch_by_sql_update)
  define w1 where "w1 = w\<lparr>w_ledger := ?l, w_calls := Suc (w_calls w)\<rparr>"
  define w2 where "w2 = w1\<lparr>w_ledger := ?l, w_calls := Suc (w_calls w1)\<rparr>"
  define w3 where "w3 = w2\<lparr>w_ledger := ?l, w_calls := Suc (w_calls w2)\<rparr>"
  define w4 where "w4 = w3\<lparr>w_ledger := ?l1, w_calls := Suc (w_calls w3)\<rparr>"
  note ws = w1_def w2_def w3_def w4_def
  have idr: "fresh_id orc ''run_'' w = (Inr rid, w)" by (simp add: fresh_id_def rid_def i_def)
  have create: "ledger_call orc (\<lambda>env. create_or_get_run env rid (cx_tenant_id ctxt) (cx_actor_id ctxt) (cx_roles ctxt)
        (cx_evidence ctxt) (ta_name act) (ta_risk act) key (r_fingerprint r) args (cx_metadata ctxt)) w = (Inr (r, False), w1)"
    unfolding w1_def by (rule alone_call [OF alone]) (use c in \<open>simp add: i_def\<close>)
  have expire: "ledger_call orc (\<lambda>env. expire_approvals env (Some (cx_tenant_id ctxt))) w1 = (Inr [], w2)"
    unfolding w2_def by (rule alone_call [OF alone]) (use overdue(1) in \<open>simp add: w1_def expire_approvals_def\<close>)
  have recover: "ledger_call orc (\<lambda>env. recover_expired_executions env (Some (cx_tenant_id ctxt))) w2 = (Inr [], w3)"
    unfolding w3_def by (rule alone_call [OF alone]) (use overdue(2) in \<open>simp add: w2_def w1_def recover_expired_executions_def\<close>)
  have count: "ledger_call orc (\<lambda>_. record_duplicate (r_run_id r)) w3 = (Inr (), w4)"
    unfolding w4_def by (rule alone_call [OF alone]) (use dup in \<open>simp add: w3_def\<close>)
  have "fetch_run (w_ledger w4) (r_run_id r) = Some (r\<lparr>r_duplicate_count := Suc (r_duplicate_count r)\<rparr>)"
    using f1 by (simp add: w4_def)
  from alone_run_result [OF alone this, of True] obtain res where
    res: "run_result orc (r_run_id r) True w4 = (Inr res, w4\<lparr>w_calls := Suc (w_calls w4)\<rparr>)" "ar_status res = r_status r"
      "ar_duplicate res" "ar_value res = (case r_result r of None \<Rightarrow> PNone | Some v \<Rightarrow> v)" by auto
  have "ar_run_id res = r_run_id r" using res(1) by (rule run_result_InrD) simp
  moreover have "prepare_invoke orc act ctxt args None w = (Inr (Finished res), w4\<lparr>w_calls := Suc (w_calls w4)\<rparr>)"
    using sync(2)
    by (simp add: prepare_invoke_def rt_bind_def rt_lift_def key fp idr create answer_duplicate_def expire recover count
        res(1) rt_return_def)
  then have "invoke orc act ctxt args w = (Inr res, w4\<lparr>w_calls := Suc (w_calls w4)\<rparr>)"
    using sync(1) by (simp add: invoke_def rt_bind_def run_prepared_def rt_return_def)
  moreover have "w_log w4 = w_log w" "w_ext w4 = w_ext w" by (simp_all add: ws)
  ultimately show ?thesis using res by simp
qed

text \<open>An invocation that called the tool had its arguments allowed by the policy.\<close>

lemma calling_prepared_allowed:
  assumes "others_follow_protocol orc" "reachable (w_ledger w)"
    "rt_bind (prepare_invoke orc act ctxt args key) (run_prepared orc act False args) w = (x, w')"
    "w_log w' \<noteq> w_log w \<or> w_ext w' \<noteq> w_ext w"
  shows "(\<exists>d. ta_policy act (ta_name act) (PDict args) ctxt = Decided d \<and> pd_outcome d = ALLOW) \<and> \<not> supplies_context act args"
proof -
  note q = keepsD [OF quiet_prepare_invoke [OF assms(1)]]
  from assms(3) show ?thesis
  proof (cases rule: rt_bind_cases)
    case (raised e)
    with q [OF raised(1)] assms(4) show ?thesis by (simp add: quiet_change_def)
  next
    case (went_on p w1)
    show ?thesis
    proof (cases p)
      case (Finished result)
      with went_on q [OF went_on(1)] assms(4) show ?thesis by (simp add: run_prepared_def rt_return_def quiet_change_def)
    next
      case (Execute rid)
      from prepare_invoke_Execute [OF assms(1) reachable_inv [OF assms(2)] went_on(1) [unfolded Execute]]
      show ?thesis by blast
    qed
  qed
qed

lemma calling_invocation_allowed:
  assumes "others_follow_protocol orc" "reachable (w_ledger w)" "invoke orc act ctxt args w = (x, w')"
    "w_log w' \<noteq> w_log w \<or> w_ext w' \<noteq> w_ext w"
  shows "(\<exists>d. ta_policy act (ta_name act) (PDict args) ctxt = Decided d \<and> pd_outcome d = ALLOW)
    \<and> \<not> supplies_context act args \<and> \<not> ta_is_async act"
proof -
  have sync: "\<not> ta_is_async act" using assms(3,4) by (auto simp: invoke_def rt_raise_def)
  with assms(3) have "rt_bind (prepare_invoke orc act ctxt args None) (run_prepared orc act False args) w = (x, w')"
    by (simp add: invoke_def)
  from calling_prepared_allowed [OF assms(1,2) this assms(4)] sync show ?thesis by blast
qed

lemma calling_request_allowed:
  assumes "others_follow_protocol orc" "reachable (w_ledger w)" "invoke_request orc act ctxt args key w = (x, w')"
    "w_log w' \<noteq> w_log w \<or> w_ext w' \<noteq> w_ext w"
  shows "\<exists>d. ta_policy act (ta_name act) (PDict args) ctxt = Decided d \<and> pd_outcome d = ALLOW"
proof -
  have "rt_bind (prepare_invoke orc act ctxt args (Some key)) (run_prepared orc act False args) w = (x, w')"
    using assms(3,4) by (auto simp: invoke_request_def rt_raise_def split: if_splits)
  from calling_prepared_allowed [OF assms(1,2) this assms(4)] show ?thesis by blast
qed

end
