(* ===== verification/Runtime_Demo.thy ===== *)
theory Runtime_Demo
  imports Runtime_Results
begin

text \<open>
  The approved demo run resumed by its action: the world in which the properties of the
  runtime are exercised. The tool counts its calls.
\<close>

definition demo_action :: "nat TrustedAction" where
  "demo_action = \<lparr>ta_function = (\<lambda>kw n. (Returned (PStr ''done''), Suc n)),
     ta_policy = (\<lambda>_ _ _. Decided (demo_decision ALLOW)), ta_idempotency_key = (\<lambda>_ _. Inr ''k1''),
     ta_risk = ''high'', ta_name = ''refund'', ta_lease_seconds = 60, ta_approval_ttl_seconds = 3600,
     ta_approval_roles = [''manager''], ta_reconciliation_roles = [''operator''],
     ta_allow_self_approval = False, ta_context_parameter = None, ta_is_async = False\<rparr>"

definition demo_schedule :: schedule where
  "demo_schedule = \<lparr>o_env = (\<lambda>i. demo_env (100 + 10 * i) (if i = 0 then [''f1'', ''f2''] else if i = 1 then [''f3'', ''f4'']
       else if i = 2 then [''f5'', ''f6''] else [''f7'', ''f8''])),
     o_others = (\<lambda>_ l. l), o_uuid = (\<lambda>_. ''9'')\<rparr>"

definition demo_world :: "nat world" where
  "demo_world = \<lparr>w_ledger = ledger_after demo_approve, w_calls = 0, w_ext = 0, w_log = []\<rparr>"

lemma demo_alone: "alone demo_schedule"
  by (simp add: alone_def demo_schedule_def)

lemma demo_worker: "strip (''worker_'' @ o_uuid demo_schedule i) \<noteq> []"
proof -
  have "strip (''worker_'' @ ''9'') \<noteq> []" by code_simp
  then show ?thesis by (simp add: demo_schedule_def)
qed

lemma demo_world_fresh: "fresh_world demo_world"
proof (rule demo_approved)
  fix l assume "demo_approve = Inr (True, l)" "reachable l"
  then show ?thesis by (simp add: fresh_world_def demo_world_def ledger_after_Inr)
qed

definition demo_claiming :: "nat world" where
  "demo_claiming = demo_world\<lparr>w_calls := 1\<rparr>"

lemma demo_claiming_fresh: "fresh_world demo_claiming"
  using demo_world_fresh by (simp add: demo_claiming_def fresh_world_def)

lemma demo_executed:
  obtains res w' r where "execute demo_schedule demo_action False ''r1'' [(''amount'', PInt 5)] demo_claiming = (Inr res, w')"
    "runs_request demo_action ''r1'' [(''amount'', PInt 5)] (w_ledger demo_claiming)"
    "prepare_resume demo_schedule demo_action ''r1'' demo_world = (Inr (Inl r), demo_claiming)"
    "stored_arguments r = [(''amount'', PInt 5)]"
    "ar_status res = COMPLETED" "\<not> ar_duplicate res" "w_ext w' = 1"
    "w_log w' = [\<lparr>tc_action = ''refund'', tc_run = ''r1'', tc_owner = ''worker_9'',
       tc_arguments = [(''amount'', PlainArg (PInt 5))]\<rparr>]"
proof (rule demo_approved)
  fix l r
  assume l: "demo_approve = Inr (True, l)" "reachable l" "fetch_run l ''r1'' = Some r" "r_status r = APPROVED"
    "r_policy_version r = Some ''v1''" "event_ids l = [''e1'', ''e2'', ''e3'', ''e4'']"
    "r_action_name r = ''refund''" "r_arguments r = PDict [(''amount'', PInt 5)]"
  have w1: "w_ledger demo_claiming = l" "w_ledger demo_world = l" "w_calls demo_claiming = 1" "w_log demo_claiming = []" "w_ext demo_claiming = 0"
    by (simp_all add: demo_claiming_def demo_world_def ledger_after_Inr [OF l(1)])
  have args: "stored_arguments r = [(''amount'', PInt 5)]" by (simp add: stored_arguments_def l(8))
  have get: "get_run demo_schedule ''r1'' demo_world = (Inr (Some r), demo_claiming)"
    using alone_get_run [OF demo_alone, of "''r1''" demo_world] l(3) w1(2) by (simp add: demo_claiming_def demo_world_def)
  have prep: "prepare_resume demo_schedule demo_action ''r1'' demo_world = (Inr (Inl r), demo_claiming)"
    by (simp add: prepare_resume_def rt_bind_def get demo_action_def l rt_return_def)
  have req: "runs_request demo_action ''r1'' [(''amount'', PInt 5)] (w_ledger demo_claiming)"
    by (simp add: runs_request_def w1 l demo_action_def)
  have "\<exists>res w'. execute demo_schedule demo_action False ''r1'' [(''amount'', PInt 5)] demo_claiming = (Inr res, w') \<and> ar_status res = COMPLETED
    \<and> ar_value res = json_norm True (PStr ''done'') \<and> \<not> ar_duplicate res \<and> w_ext w' = 1
    \<and> w_log w' = w_log demo_claiming @ [\<lparr>tc_action = ta_name demo_action, tc_run = ''r1'',
         tc_owner = ''worker_'' @ o_uuid demo_schedule (w_calls demo_claiming),
         tc_arguments = map (map_prod id PlainArg) [(''amount'', PInt 5)]\<rparr>]
    \<and> (\<exists>r'. fetch_run (w_ledger w') ''r1'' = Some r' \<and> r_status r' = COMPLETED)"
  proof (rule execute_enabled [where r = r and lease = 170000000])
    show "add_seconds (now_at (o_env demo_schedule (w_calls demo_claiming)) 0) (nat (ta_lease_seconds demo_action)) = Inr 170000000"
      by (simp add: add_seconds_def demo_env_def demo_schedule_def demo_action_def w1 datetime_bound_def
          seconds_per_day_def microseconds_per_second_def)
    show "distinct (event_ids (w_ledger demo_claiming) @ call_ids demo_schedule (w_calls demo_claiming)
        @ call_ids demo_schedule (Suc (w_calls demo_claiming)))"
      unfolding w1 l(6) by (simp add: call_ids_def demo_schedule_def demo_env_def)
    show "strip (''worker_'' @ o_uuid demo_schedule (w_calls demo_claiming)) \<noteq> []" by (rule demo_worker)
  qed (use l w1 demo_alone in \<open>simp_all add: reachable_inv claimable_def demo_action_def\<close>)
  moreover have names: "ta_name demo_action = ''refund''" "\<And>i. o_uuid demo_schedule i = ''9''"
    by (simp_all add: demo_action_def demo_schedule_def)
  ultimately obtain res w' where ex: "execute demo_schedule demo_action False ''r1'' [(''amount'', PInt 5)] demo_claiming = (Inr res, w')"
    "ar_status res = COMPLETED" "\<not> ar_duplicate res" "w_ext w' = 1"
    "w_log w' = [\<lparr>tc_action = ''refund'', tc_run = ''r1'', tc_owner = ''worker_9'', tc_arguments = [(''amount'', PlainArg (PInt 5))]\<rparr>]"
    using w1(4) by auto
  show thesis by (rule that [OF ex(1) req prep args ex(2-5)])
qed

lemma demo_resumed:
  obtains res w' where "resume demo_schedule demo_action ''r1'' demo_world = (Inr res, w')" "reachable_world w'"
    "ar_status res = COMPLETED" "\<not> ar_duplicate res" "w_ext w' = 1"
    "w_log w' = [\<lparr>tc_action = ''refund'', tc_run = ''r1'', tc_owner = ''worker_9'',
       tc_arguments = [(''amount'', PlainArg (PInt 5))]\<rparr>]"
proof (rule demo_executed)
  fix res w' r
  assume ex: "execute demo_schedule demo_action False ''r1'' [(''amount'', PInt 5)] demo_claiming = (Inr res, w')"
    "prepare_resume demo_schedule demo_action ''r1'' demo_world = (Inr (Inl r), demo_claiming)"
    "stored_arguments r = [(''amount'', PInt 5)]"
    and res: "ar_status res = COMPLETED" "\<not> ar_duplicate res" "w_ext w' = 1"
    "w_log w' = [\<lparr>tc_action = ''refund'', tc_run = ''r1'', tc_owner = ''worker_9'',
       tc_arguments = [(''amount'', PlainArg (PInt 5))]\<rparr>]"
  have "ta_is_async demo_action = False" by (simp add: demo_action_def)
  with ex have resumed: "resume demo_schedule demo_action ''r1'' demo_world = (Inr res, w')"
    by (simp add: resume_def resume_run_def rt_bind_def)
  have "reachable_world w'"
    using reach.step [OF reach.start [of fresh_world demo_world world_step, OF demo_world_fresh]
      world_step.resume [OF alone_protocol [OF demo_alone] resumed]] .
  with resumed res that show thesis by blast
qed

section \<open>A fresh request\<close>

definition demo_context :: ActionContext where
  "demo_context = \<lparr>cx_actor_id = ''alice'', cx_tenant_id = ''acme'', cx_roles = [''agent''], cx_evidence = [], cx_metadata = PNone\<rparr>"

definition demo_empty :: "nat world" where
  "demo_empty = \<lparr>w_ledger = empty_ledger, w_calls = 0, w_ext = 0, w_log = []\<rparr>"

lemma demo_key: "governed_key demo_action arguments demo_context None = Inr ''k1''"
proof -
  have "strip ''k1'' = ''k1''" by code_simp
  then show ?thesis by (simp add: governed_key_def demo_action_def)
qed

lemma demo_fingerprint:
  "\<exists>fp. request_fingerprint (cx_tenant_id demo_context) (cx_actor_id demo_context) (cx_roles demo_context)
     (cx_evidence demo_context) (ta_name demo_action) (ta_risk demo_action) (PDict [(''amount'', PInt 5)])
     (cx_metadata demo_context) = Inr fp"
  by (simp add: request_fingerprint_def fingerprint_document_def demo_context_def or_empty_def)

lemma demo_run_ids: "distinct (concat (map (\<lambda>i. call_ids demo_schedule i) [0, 1, 2, 3]))"
  by (simp add: call_ids_def demo_schedule_def demo_env_def)

lemma demo_decision_digest: "decision_digest (demo_decision ALLOW) = Inr ''pd''"
  by (simp add: decision_digest_def demo_decision_def)

lemma demo_lease: "add_seconds (now_at (o_env demo_schedule 2) 0) (nat (ta_lease_seconds demo_action)) = Inr 180000000"
  by (simp add: add_seconds_def demo_env_def demo_schedule_def demo_action_def datetime_bound_def
      seconds_per_day_def microseconds_per_second_def)

lemmas demo_invocation = demo_alone demo_key demo_run_ids demo_decision_digest demo_lease demo_worker

lemma demo_invoked:
  obtains res w' where "invoke demo_schedule demo_action demo_context [(''amount'', PInt 5)] demo_empty = (Inr res, w')"
    "ar_status res = COMPLETED" "w_ext w' = 1" "length (w_log w') = 1"
proof -
  obtain fp where fp: "request_fingerprint (cx_tenant_id demo_context) (cx_actor_id demo_context) (cx_roles demo_context)
     (cx_evidence demo_context) (ta_name demo_action) (ta_risk demo_action) (PDict [(''amount'', PInt 5)])
     (cx_metadata demo_context) = Inr fp" using demo_fingerprint by blast
  have "\<exists>res w'. invoke demo_schedule demo_action demo_context [(''amount'', PInt 5)] demo_empty = (Inr res, w') \<and> ar_status res = COMPLETED
    \<and> ar_value res = json_norm True (PStr ''done'') \<and> \<not> ar_duplicate res \<and> w_ext w' = 1
    \<and> w_log w' = w_log demo_empty @ [\<lparr>tc_action = ta_name demo_action, tc_run = ''run_'' @ o_uuid demo_schedule (w_calls demo_empty),
         tc_owner = ''worker_'' @ o_uuid demo_schedule (w_calls demo_empty + 2),
         tc_arguments = map (map_prod id PlainArg) [(''amount'', PInt 5)]\<rparr>]"
  proof (rule invoke_enabled [OF demo_alone _ _ _ _ _ _ _ demo_key fp, where d = "demo_decision ALLOW" and dig = "''pd''"
        and lease = 180000000])
    show "add_seconds (now_at (o_env demo_schedule (w_calls demo_empty + 2)) 0) (nat (ta_lease_seconds demo_action)) = Inr 180000000"
      using demo_lease by (simp add: demo_empty_def numeral_2_eq_2)
    show "distinct (event_ids (w_ledger demo_empty) @ concat (map (\<lambda>i. call_ids demo_schedule (w_calls demo_empty + i)) [0, 1, 2, 3]))"
      using demo_run_ids by (simp add: demo_empty_def event_ids_def empty_ledger_def)
    show "ledger_inv (w_ledger demo_empty)" by (simp add: demo_empty_def)
  qed (use demo_decision_digest demo_worker in
      \<open>simp_all add: demo_empty_def empty_ledger_def demo_action_def demo_context_def
        demo_decision_def or_empty_def\<close>)
  with that show thesis by (auto simp: demo_empty_def)
qed

section \<open>A repeated request\<close>

definition demo_fp :: string where
  "demo_fp = (case request_fingerprint (cx_tenant_id demo_context) (cx_actor_id demo_context) (cx_roles demo_context)
     (cx_evidence demo_context) (ta_name demo_action) (ta_risk demo_action) (PDict [(''amount'', PInt 5)])
     (cx_metadata demo_context) of Inl _ \<Rightarrow> [] | Inr fp \<Rightarrow> fp)"

lemma demo_fp: "request_fingerprint (cx_tenant_id demo_context) (cx_actor_id demo_context) (cx_roles demo_context)
     (cx_evidence demo_context) (ta_name demo_action) (ta_risk demo_action) (PDict [(''amount'', PInt 5)])
     (cx_metadata demo_context) = Inr demo_fp"
  using demo_fingerprint by (auto simp: demo_fp_def)

definition demo_pending :: "((run_row \<times> bool) \<times> ledger) res" where
  "demo_pending = create_or_get_run (demo_env 0 [''e1'']) ''r1'' ''acme'' ''alice'' [''agent''] []
     ''refund'' ''high'' ''k1'' demo_fp [(''amount'', PInt 5)] PNone empty_ledger"

definition demo_repeated :: "nat world" where
  "demo_repeated = \<lparr>w_ledger = ledger_after demo_pending, w_calls = 0, w_ext = 0, w_log = []\<rparr>"

lemma demo_pending_ok: "is_ok demo_pending \<and> map r_status (l_runs (ledger_after demo_pending)) = [CREATED]
    \<and> map r_fingerprint (l_runs (ledger_after demo_pending)) = [demo_fp]
    \<and> map run_key (l_runs (ledger_after demo_pending)) = [(''acme'', ''refund'', ''k1'')]
    \<and> l_approvals (ledger_after demo_pending) = []"
  by (simp add: demo_pending_def create_or_get_run_def demo_simps run_key_def)

lemma reachable_pending: "reachable (ledger_after demo_pending)"
  by (rule demo_step [OF conjunct1 [OF demo_pending_ok] reach.start [of "\<lambda>l. l = empty_ledger"]])
    (simp, unfold demo_pending_def, erule ledger_step.create)

lemma demo_duplicate:
  obtains res w' where "invoke demo_schedule demo_action demo_context [(''amount'', PInt 5)] demo_repeated = (Inr res, w')"
    "ar_duplicate res" "ar_status res = CREATED"
proof -
  let ?l = "ledger_after demo_pending"
  from demo_pending_ok obtain r where l: "l_runs ?l = [r]" "r_status r = CREATED" "r_fingerprint r = demo_fp"
    "run_key r = (''acme'', ''refund'', ''k1'')" "l_approvals ?l = []" by auto
  have "\<exists>res w'. invoke demo_schedule demo_action demo_context [(''amount'', PInt 5)] demo_repeated = (Inr res, w')
    \<and> ar_duplicate res \<and> ar_status res = r_status r \<and> ar_run_id res = r_run_id r
    \<and> ar_value res = (case r_result r of None \<Rightarrow> PNone | Some v \<Rightarrow> v)
    \<and> w_log w' = w_log demo_repeated \<and> w_ext w' = w_ext demo_repeated"
    by (rule invoke_duplicate [OF demo_alone _ _ _ demo_key demo_fp [folded l(3)]])
      (simp_all add: demo_repeated_def reachable_inv [OF reachable_pending] l demo_action_def supplies_context_def
        demo_context_def overdue_approvals_def overdue_executions_def)
  with l(2) that show thesis by auto
qed

end
