(* ===== verification/Runtime_Props.thy ===== *)
theory Runtime_Props
  imports Runtime_Demo
begin

text \<open>
  What holds of every world the methods of trusted actions can reach, while any other clients
  use the same ledger, and what each method does.
\<close>

section \<open>Tool calls\<close>

text \<open>The tenant, action and idempotency key a call was made for.\<close>

definition call_key :: "ledger \<Rightarrow> tool_call \<Rightarrow> (string \<times> string \<times> string) option" where
  "call_key l c = map_option run_key (fetch_run l (tc_run c))"

lemma world_ok_calls_once:
  assumes "world_ok w"
  shows "distinct (map tc_run (w_log w)) \<and> distinct (map (call_key (w_ledger w)) (w_log w))"
proof -
  from assms have ok: "ledger_inv (w_ledger w)" "distinct (map tc_run (w_log w))"
    "\<forall>c \<in> set (w_log w). governed_call (w_ledger w) c" by (auto simp: world_ok_def)
  have "tc_run c = tc_run c'" if c: "c \<in> set (w_log w)" "c' \<in> set (w_log w)"
      "call_key (w_ledger w) c = call_key (w_ledger w) c'" for c c'
  proof -
    from ok(3) c(1) obtain r where r: "fetch_run (w_ledger w) (tc_run c) = Some r" by (auto simp: governed_call_def)
    from ok(3) c(2) obtain r' where r': "fetch_run (w_ledger w) (tc_run c') = Some r'" by (auto simp: governed_call_def)
    have "run_key r = run_key r'" using c(3) r r' by (simp add: call_key_def)
    moreover have "inj_on run_key (set (l_runs (w_ledger w)))"
      using struct_inv_keys [OF ledger_inv_struct [OF ok(1)]] by (simp add: distinct_map)
    moreover have "r \<in> set (l_runs (w_ledger w))" "r' \<in> set (l_runs (w_ledger w))"
      using fetch_by_SomeD [OF r] fetch_by_SomeD [OF r'] by simp_all
    ultimately have "r = r'" by (metis inj_onD)
    with fetch_run_id [OF r] fetch_run_id [OF r'] show ?thesis by simp
  qed
  moreover have "distinct (w_log w)" "inj_on tc_run (set (w_log w))" using ok(2) by (simp_all add: distinct_map)
  ultimately have "inj_on (call_key (w_ledger w)) (set (w_log w))"
    by (intro inj_onI) (rule inj_onD [of tc_run])
  with ok(2) \<open>distinct (w_log w)\<close> show ?thesis by (simp add: distinct_map)
qed

text \<open>C1: a protected function is called at most once per run and at most once per tenant, action
  and idempotency key, in every world any sequence of method calls reaches, whatever other
  clients of the ledger do between any two transactions.\<close>

theorem tool_called_at_most_once:
  assumes "reachable_world w"
  shows "distinct (map tc_run (w_log w)) \<and> distinct (map (call_key (w_ledger w)) (w_log w))"
  by (rule world_ok_calls_once [OF reachable_world_ok [OF assms]])

theorem tool_called_at_most_once_witness:
  "\<exists>w :: nat world. length (w_log w) = 1 \<and> distinct (map (call_key (w_ledger w)) (w_log w))"
proof (rule demo_resumed)
  fix w' :: "nat world"
  assume "reachable_world w'" and log: "w_log w' = [\<lparr>tc_action = ''refund'', tc_run = ''r1'', tc_owner = ''worker_9'',
       tc_arguments = [(''amount'', PlainArg (PInt 5))]\<rparr>]"
  from tool_called_at_most_once [OF this(1)] log show ?thesis by (intro exI [of _ w']) simp
qed



text \<open>C3: every tool call is authorised: its run was decided by a policy, and where that policy
  asked for an approval, an identified principal granted it for exactly the request and policy
  of the run.\<close>

theorem tool_calls_are_authorised:
  assumes "reachable_world w" "c \<in> set (w_log w)"
  shows "\<exists>r. fetch_run (w_ledger w) (tc_run c) = Some r \<and> r_policy_version r \<noteq> None
    \<and> (logged ''approval.requested'' (log_of (run_events (w_ledger w) (tc_run c)))
        \<longrightarrow> logged ''approval.approved'' (log_of (run_events (w_ledger w) (tc_run c))))
    \<and> (\<forall>a. fetch_approval (w_ledger w) (tc_run c) = Some a
        \<longrightarrow> a_status a = APPROVED \<and> a_approver_id a \<noteq> None \<and> binding_matches r a)"
proof -
  from reachable_world_ok [OF assms(1)] assms(2) have ok: "ledger_inv (w_ledger w)"
    "started_by (w_ledger w) (tc_run c) (tc_owner c)" by (auto simp: world_ok_def governed_call_def)
  obtain r where r: "fetch_run (w_ledger w) (tc_run c) = Some r" "started (r_status r)" by (rule started_by_run [OF ok])
  from started_run_authorised [OF ok(1) r] r(1) show ?thesis by blast
qed

theorem tool_calls_are_authorised_witness:
  "\<exists>(w :: nat world) c r. c \<in> set (w_log w) \<and> fetch_run (w_ledger w) (tc_run c) = Some r \<and> r_policy_version r \<noteq> None"
proof (rule demo_resumed)
  fix w' :: "nat world"
  assume w: "reachable_world w'" "w_log w' = [\<lparr>tc_action = ''refund'', tc_run = ''r1'', tc_owner = ''worker_9'',
       tc_arguments = [(''amount'', PlainArg (PInt 5))]\<rparr>]"
  then have c: "hd (w_log w') \<in> set (w_log w')" by simp
  from tool_calls_are_authorised [OF w(1) c] c show ?thesis by blast
qed

text \<open>C6: what was governed is what is executed: the function of the action a run was created for
  receives exactly the arguments stored with the run (as JSON), extended at most by the
  execution context of that run; so an approval cannot be replayed for other arguments.\<close>

theorem tool_receives_governed_arguments:
  assumes "reachable_world w" "c \<in> set (w_log w)"
  shows "\<exists>r. fetch_run (w_ledger w) (tc_run c) = Some r \<and> r_action_name r = tc_action c \<and> carries r (tc_arguments c)"
  using reachable_world_ok [OF assms(1)] assms(2) by (auto simp: world_ok_def governed_call_def)

theorem tool_receives_governed_arguments_witness:
  "\<exists>(w :: nat world) c r. fetch_run (w_ledger w) ''r1'' = Some r \<and> c \<in> set (w_log w)
     \<and> r_action_name r = ''refund'' \<and> carries r (tc_arguments c)"
proof (rule demo_resumed)
  fix w' :: "nat world"
  assume w: "reachable_world w'" "w_log w' = [\<lparr>tc_action = ''refund'', tc_run = ''r1'', tc_owner = ''worker_9'',
       tc_arguments = [(''amount'', PlainArg (PInt 5))]\<rparr>]"
  then have c: "hd (w_log w') \<in> set (w_log w')" by simp
  from tool_receives_governed_arguments [OF w(1) c] obtain r where "fetch_run (w_ledger w') ''r1'' = Some r"
      "r_action_name r = ''refund''" "carries r (tc_arguments (hd (w_log w')))" by (auto simp: w(2))
  with c show ?thesis by blast
qed

section \<open>Invocations\<close>

lemma settle_not_duplicate:
  assumes "settle orc is_async rid owner outcome w = (Inr res, w')"
  shows "\<not> ar_duplicate res"
proof -
  have r: "run_result orc rid False u = (Inr res, w') \<Longrightarrow> \<not> ar_duplicate res" for u
    by (rule run_result_InrD) auto
  then have m: "mark_unknown orc rid owner err u = (Inr res, w') \<Longrightarrow> \<not> ar_duplicate res" for u err
    unfolding mark_unknown_def by (elim rt_bind_InrD)
  from assms show ?thesis
    by (cases outcome) (auto simp: settle_def rt_raise_def raise_exc_def split: if_splits elim!: rt_bind_InrD dest: r m)
qed

lemma execute_quiet_or_called:
  assumes "others_follow_protocol orc" "execute orc act is_async rid args w = (Inr res, w')"
  shows "(quiet_change w w' \<and> ar_duplicate res) \<or> \<not> ar_duplicate res"
proof -
  from assms(2) obtain owner b w0 w1 where id: "fresh_id orc ''worker_'' w = (Inr owner, w0)"
    and claim: "ledger_call orc (\<lambda>env. claim_execution env rid owner (ta_lease_seconds act)) w0 = (Inr b, w1)"
    and rest: "(if \<not> b then run_result orc rid True
      else rt_bind (run_tool orc act rid owner args) (settle orc is_async rid owner)) w1 = (Inr res, w')"
    unfolding execute_def by (elim rt_bind_InrD)
  have w0: "w0 = w" using id by (simp add: fresh_id_def)
  note q1 = keepsD [OF quiet_calls(6) [OF assms(1)] claim, unfolded w0]
  show ?thesis
  proof (cases b)
    case False
    with rest have r: "run_result orc rid True w1 = (Inr res, w')" by simp
    have "ar_duplicate res" using r by (rule run_result_InrD) simp
    with quiet.trans [OF q1 keepsD [OF quiet_run_result [OF assms(1)] r]] show ?thesis by simp
  next
    case True
    with rest obtain outcome w2 where "settle orc is_async rid owner outcome w2 = (Inr res, w')" by (auto elim: rt_bind_InrD)
    then have "\<not> ar_duplicate res" by (rule settle_not_duplicate)
    then show ?thesis by simp
  qed
qed

text \<open>A result marked as a duplicate had no effect: when \<open>invoke\<close> returns one, no function was
  called, nothing outside changed, and the ledger only moved along its operations.\<close>

theorem duplicates_have_no_effect:
  assumes "others_follow_protocol orc" "invoke orc act ctxt args w = (Inr res, w')" "ar_duplicate res"
  shows "w_log w' = w_log w \<and> w_ext w' = w_ext w \<and> ledger_step\<^sup>*\<^sup>* (w_ledger w) (w_ledger w')"
proof -
  from assms(2) obtain p w1 where p: "prepare_invoke orc act ctxt args None w = (Inr p, w1)"
    and run: "run_prepared orc act False args p w1 = (Inr res, w')"
    by (cases "ta_is_async act") (auto simp: invoke_def rt_raise_def raise_exc_def elim: rt_bind_InrD)
  note q = keepsD [OF quiet_prepare_invoke [OF assms(1)] p]
  have "quiet_change w1 w'"
  proof (cases p)
    case (Finished result)
    with run show ?thesis by (simp add: run_prepared_def rt_return_def quiet.refl)
  next
    case (Execute rid)
    with run have "execute orc act False rid args w1 = (Inr res, w')" by (simp add: run_prepared_def)
    from execute_quiet_or_called [OF assms(1) this] assms(3) show ?thesis by blast
  qed
  from quiet.trans [OF q this] show ?thesis by (simp add: quiet_change_def)
qed

theorem duplicates_have_no_effect_witness:
  "\<exists>w :: nat world. snd (invoke demo_schedule demo_action demo_context [(''amount'', PInt 5)] demo_repeated) = w \<and> w_ext w = 0"
proof (rule demo_duplicate)
  fix res w'
  assume i: "invoke demo_schedule demo_action demo_context [(''amount'', PInt 5)] demo_repeated = (Inr res, w')" "ar_duplicate res"
  from duplicates_have_no_effect [OF alone_protocol [OF demo_alone] i] i(1) show ?thesis by (simp add: demo_repeated_def)
qed

text \<open>Without a recorded decision to allow it no invocation reaches the function: when \<open>invoke\<close>
  called it or changed anything outside, the policy had decided ALLOW for exactly these
  arguments and context, and the caller had not supplied the parameter reserved for the
  execution context.\<close>

theorem only_allowed_invocations_run:
  assumes "others_follow_protocol orc" "reachable (w_ledger w)" "invoke orc act ctxt args w = (x, w')"
    "w_log w' \<noteq> w_log w \<or> w_ext w' \<noteq> w_ext w"
  shows "(\<exists>d. ta_policy act (ta_name act) (PDict args) ctxt = Decided d \<and> pd_outcome d = ALLOW)
    \<and> \<not> supplies_context act args \<and> \<not> ta_is_async act"
  by (rule calling_invocation_allowed [OF assms])

theorem only_allowed_invocations_run_witness:
  "\<exists>d. ta_policy demo_action ''refund'' (PDict [(''amount'', PInt 5)]) demo_context = Decided d \<and> pd_outcome d = ALLOW"
proof (rule demo_invoked)
  fix res w'
  assume i: "invoke demo_schedule demo_action demo_context [(''amount'', PInt 5)] demo_empty = (Inr res, w')" "w_ext w' = 1"
  have "reachable (w_ledger demo_empty)" by (simp add: demo_empty_def reach.start)
  moreover have "w_ext w' \<noteq> w_ext demo_empty" using i(2) by (simp add: demo_empty_def)
  ultimately show ?thesis using only_allowed_invocations_run [OF alone_protocol [OF demo_alone] _ i(1)]
    by (auto simp: demo_action_def)
qed

section \<open>Outcomes\<close>

text \<open>C8: the ledger records what happened to the tool, whatever the other clients do: of an
  execution that returns a result, a returned value that can be stored is reported as completed,
  an ordinary exception as failed, and a provider timeout or a value that cannot be stored is
  never reported as a success or a failure by the worker itself: it stays unknown until it is
  reconciled. A cancelled execution raises.\<close>

theorem executions_report_their_outcome:
  assumes "others_follow_protocol orc" "reachable_world w" "runs_request act rid args (w_ledger w)"
    "execute orc act is_async rid args w = (Inr res, w')"
  shows "ar_duplicate res \<or> (\<exists>w1 outcome w2 s owner. run_tool orc act rid owner args w1 = (Inr outcome, w2)
    \<and> outcome_written outcome = Some s \<and> reports s rid res w')"
proof -
  note ok = reachable_world_ok [OF assms(2)]
  from assms(4) obtain owner b w0 w1 where id: "fresh_id orc ''worker_'' w = (Inr owner, w0)"
    and claim: "ledger_call orc (\<lambda>env. claim_execution env rid owner (ta_lease_seconds act)) w0 = (Inr b, w1)"
    and rest: "(if \<not> b then run_result orc rid True
      else rt_bind (run_tool orc act rid owner args) (settle orc is_async rid owner)) w1 = (Inr res, w')"
    unfolding execute_def by (elim rt_bind_InrD)
  have w0: "w0 = w" using id by (simp add: fresh_id_def)
  note q1 = keepsD [OF quiet_calls(6) [OF assms(1)] claim, unfolded w0]
  note inv1 = world_ok_quiet [OF q1 ok]
  show ?thesis
  proof (cases b)
    case False
    with rest have "run_result orc rid True w1 = (Inr res, w')" by simp
    then have "ar_duplicate res" by (rule run_result_InrD) simp
    then show ?thesis ..
  next
    case True
    with rest obtain outcome w2 where t: "run_tool orc act rid owner args w1 = (Inr outcome, w2)"
      and s: "settle orc is_async rid owner outcome w2 = (Inr res, w')" by (auto elim: rt_bind_InrD)
    from claim_call [OF assms(1) ok] claim w0 True have c: "started_by (w_ledger w1) rid owner" "rid \<notin> tc_run ` set (w_log w1)"
      using q1 by (auto simp: quiet_change_def)
    from run_tool_effect [OF assms(1) inv1 runs_request_steps [OF quiet_change_ledger [OF q1] world_ok_inv [OF ok] assms(3)] c t]
    have "ledger_inv (w_ledger w2)" by (auto simp: world_ok_def)
    from settle_reports [OF assms(1) this s] t show ?thesis by blast
  qed
qed

theorem executions_report_their_outcome_witness:
  "\<exists>(outcome :: tool_result) s. outcome_written outcome = Some s"
proof (rule demo_executed)
  fix res w' r
  assume ex: "execute demo_schedule demo_action False ''r1'' [(''amount'', PInt 5)] demo_claiming = (Inr res, w')"
    "runs_request demo_action ''r1'' [(''amount'', PInt 5)] (w_ledger demo_claiming)" "\<not> ar_duplicate res"
  have "reachable_world demo_claiming" by (rule reach.start) (rule demo_claiming_fresh)
  from executions_report_their_outcome [OF alone_protocol [OF demo_alone] this ex(2,1)] ex(3) show ?thesis by blast
qed

text \<open>C9: a fresh request that policy allows completes: for a client alone with its ledger,
  \<open>invoke\<close> with a key and a run id not in use, a policy that allows, and a function that returns
  a value that can be stored, calls that function exactly once with exactly the arguments, and
  returns COMPLETED with the value.\<close>

theorem allowed_invocation_completes:
  assumes "alone orc" "reachable (w_ledger w)" "\<not> ta_is_async act" "ta_context_parameter act = None"
    "1 \<le> ta_lease_seconds act" "ta_lease_seconds act \<le> 86400"
    "1 \<le> ta_approval_ttl_seconds act" "ta_approval_ttl_seconds act \<le> 604800"
    "governed_key act (PDict args) ctxt None = Inr key"
    "request_fingerprint (cx_tenant_id ctxt) (cx_actor_id ctxt) (cx_roles ctxt) (cx_evidence ctxt) (ta_name act)
       (ta_risk act) (PDict args) (cx_metadata ctxt) = Inr fp"
    "json_error True (PDict args) = None" "json_error True (or_empty (cx_metadata ctxt)) = None"
    "''run_'' @ o_uuid orc (w_calls w) \<notin> r_run_id ` set (l_runs (w_ledger w))"
    "(cx_tenant_id ctxt, ta_name act, key) \<notin> run_key ` set (l_runs (w_ledger w))"
    "ta_policy act (ta_name act) (PDict args) ctxt = Decided d" "pd_outcome d = ALLOW"
    "decision_digest d = Inr dig" "json_error True (pd_facts d) = None"
    "distinct (event_ids (w_ledger w) @ concat (map (\<lambda>i. call_ids orc (w_calls w + i)) [0, 1, 2, 3]))"
    "strip (''worker_'' @ o_uuid orc (w_calls w + 2)) \<noteq> []"
    "add_seconds (now_at (o_env orc (w_calls w + 2)) 0) (nat (ta_lease_seconds act)) = Inr lease"
    "ta_function act (map (map_prod id PlainArg) args) (w_ext w) = (Returned v, ext)" "json_error True v = None"
  shows "\<exists>res w'. invoke orc act ctxt args w = (Inr res, w') \<and> ar_status res = COMPLETED
    \<and> ar_value res = json_norm True v \<and> \<not> ar_duplicate res \<and> w_ext w' = ext
    \<and> w_log w' = w_log w @ [\<lparr>tc_action = ta_name act, tc_run = ''run_'' @ o_uuid orc (w_calls w),
         tc_owner = ''worker_'' @ o_uuid orc (w_calls w + 2), tc_arguments = map (map_prod id PlainArg) args\<rparr>]"
  by (rule invoke_enabled [OF assms(1) reachable_inv [OF assms(2)] assms(3-23)])

theorem allowed_invocation_completes_witness:
  "\<exists>res w'. invoke demo_schedule demo_action demo_context [(''amount'', PInt 5)] demo_empty = (Inr res, w')
     \<and> ar_status res = COMPLETED \<and> w_ext w' = 1"
proof -
  have "\<exists>res w'. invoke demo_schedule demo_action demo_context [(''amount'', PInt 5)] demo_empty = (Inr res, w') \<and> ar_status res = COMPLETED
    \<and> ar_value res = json_norm True (PStr ''done'') \<and> \<not> ar_duplicate res \<and> w_ext w' = 1
    \<and> w_log w' = w_log demo_empty @ [\<lparr>tc_action = ta_name demo_action, tc_run = ''run_'' @ o_uuid demo_schedule (w_calls demo_empty),
         tc_owner = ''worker_'' @ o_uuid demo_schedule (w_calls demo_empty + 2),
         tc_arguments = map (map_prod id PlainArg) [(''amount'', PInt 5)]\<rparr>]"
  proof (rule allowed_invocation_completes [OF demo_alone _ _ _ _ _ _ _ demo_key demo_fp, where d = "demo_decision ALLOW"
        and dig = "''pd''" and lease = 180000000])
    show "add_seconds (now_at (o_env demo_schedule (w_calls demo_empty + 2)) 0) (nat (ta_lease_seconds demo_action)) = Inr 180000000"
      using demo_lease by (simp add: demo_empty_def numeral_2_eq_2)
    show "distinct (event_ids (w_ledger demo_empty) @ concat (map (\<lambda>i. call_ids demo_schedule (w_calls demo_empty + i)) [0, 1, 2, 3]))"
      using demo_run_ids by (simp add: demo_empty_def event_ids_def empty_ledger_def)
    show "reachable (w_ledger demo_empty)" by (simp add: demo_empty_def reach.start)
  qed (use demo_decision_digest demo_worker in
      \<open>simp_all add: demo_empty_def empty_ledger_def demo_action_def demo_context_def demo_decision_def or_empty_def\<close>)
  then show ?thesis by blast
qed

text \<open>C26: a repeated request is answered from the ledger: for a client alone with its ledger,
  \<open>invoke\<close> under a key in use with the same fingerprint, when nothing of the tenant is overdue,
  returns the stored status and value of that run as a duplicate, and calls nothing.\<close>

theorem repeated_invocation_is_answered:
  assumes "alone orc" "reachable (w_ledger w)" "\<not> ta_is_async act" "\<not> supplies_context act args"
    "governed_key act (PDict args) ctxt None = Inr key"
    "request_fingerprint (cx_tenant_id ctxt) (cx_actor_id ctxt) (cx_roles ctxt) (cx_evidence ctxt) (ta_name act)
       (ta_risk act) (PDict args) (cx_metadata ctxt) = Inr (r_fingerprint r)"
    "json_error True (PDict args) = None" "json_error True (cx_metadata ctxt) = None"
    "r \<in> set (l_runs (w_ledger w))" "run_key r = (cx_tenant_id ctxt, ta_name act, key)"
    "overdue_approvals (now_at (o_env orc (Suc (w_calls w))) 0) (Some (cx_tenant_id ctxt)) (w_ledger w) = []"
    "overdue_executions (now_at (o_env orc (w_calls w + 2)) 0) (Some (cx_tenant_id ctxt)) (w_ledger w) = []"
  shows "\<exists>res w'. invoke orc act ctxt args w = (Inr res, w') \<and> ar_duplicate res \<and> ar_status res = r_status r
    \<and> ar_run_id res = r_run_id r \<and> ar_value res = (case r_result r of None \<Rightarrow> PNone | Some v \<Rightarrow> v)
    \<and> w_log w' = w_log w \<and> w_ext w' = w_ext w"
  by (rule invoke_duplicate [OF assms(1) reachable_inv [OF assms(2)] assms(3-12)])

theorem repeated_invocation_is_answered_witness:
  "\<exists>res w'. invoke demo_schedule demo_action demo_context [(''amount'', PInt 5)] demo_repeated = (Inr res, w')
     \<and> ar_duplicate res \<and> ar_status res = CREATED"
proof -
  let ?l = "ledger_after demo_pending"
  from demo_pending_ok obtain r where l: "l_runs ?l = [r]" "r_status r = CREATED" "r_fingerprint r = demo_fp"
    "run_key r = (''acme'', ''refund'', ''k1'')" "l_approvals ?l = []" by auto
  have "\<exists>res w'. invoke demo_schedule demo_action demo_context [(''amount'', PInt 5)] demo_repeated = (Inr res, w')
    \<and> ar_duplicate res \<and> ar_status res = r_status r \<and> ar_run_id res = r_run_id r
    \<and> ar_value res = (case r_result r of None \<Rightarrow> PNone | Some v \<Rightarrow> v)
    \<and> w_log w' = w_log demo_repeated \<and> w_ext w' = w_ext demo_repeated"
    by (rule repeated_invocation_is_answered [OF demo_alone _ _ _ demo_key demo_fp [folded l(3)]])
      (simp_all add: demo_repeated_def reachable_pending l demo_action_def supplies_context_def
        demo_context_def overdue_approvals_def overdue_executions_def)
  with l(2) show ?thesis by auto
qed

end
