(* ===== verification/Runtime_Reconcile.thy ===== *)
theory Runtime_Reconcile
  imports Runtime_Demo
begin

text \<open>
  Settling unknown runs: by an operator, or from what the provider itself says.
\<close>

section \<open>An unknown run\<close>

definition demo_operator :: VerifiedPrincipal where
  "demo_operator = \<lparr>vp_actor_id = ''carol'', vp_tenant_id = ''acme'', vp_roles = [''operator''], vp_auth_source = ''oidc''\<rparr>"

definition demo_uncertain :: "nat world" where
  "demo_uncertain = \<lparr>w_ledger = ledger_after demo_unknown, w_calls = 0, w_ext = 0, w_log = []\<rparr>"

lemma demo_uncertain_run:
  obtains r where "reachable (w_ledger demo_uncertain)" "fetch_run (w_ledger demo_uncertain) ''r1'' = Some r"
    "r_status r = UNKNOWN" "r_tenant_id r = ''acme''" "r_action_name r = ''refund''" "r_idempotency_key r = ''k1''"
    "r_arguments r = PDict [(''amount'', PInt 5)]"
    "event_ids (w_ledger demo_uncertain) = [''e1'', ''e2'', ''e3'', ''e4'', ''e5'', ''e6'', ''e7'']"
proof (rule demo_lost)
  fix l r
  assume l: "demo_unknown = Inr ((), l)" "reachable l" "fetch_run l ''r1'' = Some r" "r_status r = UNKNOWN"
    "event_ids l = [''e1'', ''e2'', ''e3'', ''e4'', ''e5'', ''e6'', ''e7'']"
  from demo_request_ok obtain r0 where r0: "fetch_run (ledger_after demo_request) ''r1'' = Some r0" "r_tenant_id r0 = ''acme''"
    "r_action_name r0 = ''refund''" "r_idempotency_key r0 = ''k1''" "r_arguments r0 = PDict [(''amount'', PInt 5)]"
    by (auto simp: demo_pending_ok_def split: option.splits)
  have "ledger_step\<^sup>*\<^sup>* (ledger_after demo_request) l"
    using demo_request_claims ledger_step.unknown [OF l(1) [unfolded demo_unknown_def]] by (rule rtranclp.rtrancl_into_rtrancl)
  from steps_run [OF this reachable_inv [OF reachable_request] r0(1)] l(3) have "request_of r = request_of r0"
    by (metis option.inject)
  then have "r_tenant_id r = ''acme''" "r_action_name r = ''refund''" "r_idempotency_key r = ''k1''"
    "r_arguments r = PDict [(''amount'', PInt 5)]" using r0(2-5) by (simp_all add: request_of_def run_key_def)
  with l that show thesis by (simp add: demo_uncertain_def ledger_after_Inr)
qed

lemma demo_ids_fresh: "uuid_at (o_env demo_schedule i) 0 \<notin> set [''e1'', ''e2'', ''e3'', ''e4'', ''e5'', ''e6'', ''e7'']"
  by (simp add: demo_schedule_def demo_env_def)

lemma demo_has_role: "has_role (ta_reconciliation_roles demo_action) demo_operator"
  by (simp add: has_role_def demo_action_def demo_operator_def)

section \<open>By an operator\<close>

lemma reconcile_InrD:
  assumes "reconcile orc act rid outcome operator reason result w = (Inr res, w')"
  obtains s r w0 w1 where "outcome_of_text outcome = Some s" "strip reason \<noteq> []"
    "has_role (ta_reconciliation_roles act) operator" "get_run orc rid w = (Inr (Some r), w0)"
    "r_action_name r = ta_name act" "r_tenant_id r = vp_tenant_id operator"
    "ledger_call orc (\<lambda>env. reconcile_run env rid s (strip reason) result operator) w0 = (Inr True, w1)"
    "run_result orc rid False w1 = (Inr res, w')"
proof -
  from assms obtain s where s: "outcome_of_text outcome = Some s" "strip reason \<noteq> []"
    "has_role (ta_reconciliation_roles act) operator"
    by (auto simp: reconcile_def rt_raise_def raise_exc_def split: option.splits if_splits)
  with assms obtain ro w0 where g: "get_run orc rid w = (Inr ro, w0)" and rest: "(case ro of
            None \<Rightarrow> rt_raise KeyError ''run not found''
          | Some r \<Rightarrow>
              if r_action_name r \<noteq> ta_name act then rt_raise ValueError ''run belongs to a different action''
              else if r_tenant_id r \<noteq> vp_tenant_id operator
              then rt_raise ApprovalDenied ''reconciliation operator belongs to a different tenant''
              else rt_bind (ledger_call orc (\<lambda>env. reconcile_run env rid s (strip reason) result operator)) (\<lambda>done'.
                if \<not> done' then rt_raise ValueError ''run is not waiting for reconciliation''
                else run_result orc rid False)) w0 = (Inr res, w')"
    by (auto simp: reconcile_def elim: rt_bind_InrD)
  from rest obtain r where r: "ro = Some r" "r_action_name r = ta_name act" "r_tenant_id r = vp_tenant_id operator"
    by (auto simp: rt_raise_def raise_exc_def split: option.splits if_splits)
  with rest obtain b w1 where b: "ledger_call orc (\<lambda>env. reconcile_run env rid s (strip reason) result operator) w0 = (Inr b, w1)"
    "(if \<not> b then rt_raise ValueError ''run is not waiting for reconciliation'' else run_result orc rid False) w1 = (Inr res, w')"
    by (auto elim: rt_bind_InrD)
  from b(2) have b: "ledger_call orc (\<lambda>env. reconcile_run env rid s (strip reason) result operator) w0 = (Inr True, w1)"
    "run_result orc rid False w1 = (Inr res, w')"
    using b(1) by (auto simp: rt_raise_def raise_exc_def split: if_splits)
  show thesis by (rule that [OF s _ r(2,3) b]) (use g r(1) in simp)
qed

text \<open>C16: only a reconciler settles an unknown run by hand: when \<open>reconcile\<close> returns, the operator
  held a reconciliation role and belonged to the tenant of the run, which belongs to this
  action; a note was given; the outcome was \<open>completed\<close> or \<open>failed\<close>, and it is the status of the
  run now, whatever the other clients did since; the log holds the decision; and the tool was
  not called.\<close>

theorem reconciliation_needs_authority:
  assumes "others_follow_protocol orc" "reachable (w_ledger w)"
    "reconcile orc act rid outcome operator reason result w = (Inr res, w')"
  shows "\<exists>s r. outcome_of_text outcome = Some s \<and> ar_status res = s
    \<and> fetch_run (w_ledger w') rid = Some r \<and> r_status r = s
    \<and> r_tenant_id r = vp_tenant_id operator \<and> r_action_name r = ta_name act
    \<and> set (ta_reconciliation_roles act) \<inter> set (vp_roles operator) \<noteq> {} \<and> strip reason \<noteq> []
    \<and> logged ''run.reconciled'' (log_of (run_events (w_ledger w') rid))
    \<and> w_log w' = w_log w \<and> w_ext w' = w_ext w"
proof (rule reconcile_InrD [OF assms(3)])
  fix s r w0 w1
  assume s: "outcome_of_text outcome = Some s" "strip reason \<noteq> []" "has_role (ta_reconciliation_roles act) operator"
    and g: "get_run orc rid w = (Inr (Some r), w0)" "r_action_name r = ta_name act" "r_tenant_id r = vp_tenant_id operator"
    and c: "ledger_call orc (\<lambda>env. reconcile_run env rid s (strip reason) result operator) w0 = (Inr True, w1)"
    and res: "run_result orc rid False w1 = (Inr res, w')"
  note q0 = keepsD [OF quiet_get_run [OF assms(1)] g(1)]
  note q1 = keepsD [OF quiet_calls(12) [OF assms(1)] c]
  note q2 = keepsD [OF quiet_run_result [OF assms(1)] res]
  have inv0: "ledger_inv (w_ledger w0)"
    by (rule ledger_exec.steps_inv [OF quiet_change_ledger [OF q0] reachable_inv [OF assms(2)]])
  have inv1: "ledger_inv (w_ledger w1)" by (rule ledger_exec.steps_inv [OF quiet_change_ledger [OF q1] inv0])
  have f0: "fetch_run (w_ledger w0) rid = Some r" using get_run_InrD [OF g(1)] by simp
  have "\<exists>r1. fetch_run (w_ledger w1) rid = Some r1 \<and> r_status r1 = s \<and> terminal s
      \<and> logged ''run.reconciled'' (log_of (run_events (w_ledger w1) rid))"
  proof (rule ledger_call_inv [OF assms(1) inv0 c])
    fix env l assume op: "reconcile_run env rid s (strip reason) result operator l = Inr (True, w_ledger w1)" and l: "ledger_inv l"
    show ?thesis
    proof (rule reconcile_run_effect [OF op ledger_inv_struct [OF l]])
      fix ra rb es assume e: "s = COMPLETED \<or> s = FAILED" "fetch_run (w_ledger w1) rid = Some rb"
        "same_but_anchor (reconcile_run_row (now_at env 0) s (strip reason) result ra) rb"
        "run_events (w_ledger w1) rid = run_events l rid @ es"
        "log_of es = stored [(''run.reconciled'', reconciled_payload operator s (strip reason))]"
      from same_but_anchor_columns [OF e(3)] have "r_status rb = s" by (simp add: reconcile_run_row_def)
      moreover have "logged ''run.reconciled'' (log_of es)" unfolding e(5) by (simp add: stored_def)
      ultimately show ?thesis using e(1,2,4) by (auto simp: terminal_def)
    qed
  qed
  then obtain r1 where r1: "fetch_run (w_ledger w1) rid = Some r1" "r_status r1 = s" "terminal (r_status r1)"
    "logged ''run.reconciled'' (log_of (run_events (w_ledger w1) rid))" by blast
  from terminal_steps [OF quiet_change_ledger [OF q2] inv1 r1(1,3)] obtain r2 where
    r2: "fetch_run (w_ledger w') rid = Some r2" "r_status r2 = s"
      "run_events (w_ledger w') rid = run_events (w_ledger w1) rid" using r1(2) by metis
  from steps_run [OF quiet_change_ledger [OF quiet.trans [OF q1 q2]] inv0 f0] r2(1) have "request_of r2 = request_of r"
    by (metis option.inject)
  then have col: "r_tenant_id r2 = vp_tenant_id operator" "r_action_name r2 = ta_name act"
    using g(2,3) by (simp_all add: request_of_def run_key_def)
  have "ar_status res = s" using run_result_terminal [OF assms(1) inv1 r1(1,3) res] r1(2) by simp
  moreover have "set (ta_reconciliation_roles act) \<inter> set (vp_roles operator) \<noteq> {}"
    using s(3) by (auto simp: has_role_def list_ex_iff)
  moreover have "w_log w' = w_log w \<and> w_ext w' = w_ext w" using q0 q1 q2 by (simp add: quiet_change_def)
  ultimately show ?thesis using s(1,2) r2 r1(4) col by auto
qed

lemma demo_reconciled:
  obtains res w' where "reconcile demo_schedule demo_action ''r1'' ''completed'' demo_operator ''ok'' PNone demo_uncertain = (Inr res, w')"
proof (rule demo_uncertain_run)
  fix r
  assume l: "reachable (w_ledger demo_uncertain)" "fetch_run (w_ledger demo_uncertain) ''r1'' = Some r" "r_status r = UNKNOWN"
    "r_tenant_id r = ''acme''" "r_action_name r = ''refund''"
    "event_ids (w_ledger demo_uncertain) = [''e1'', ''e2'', ''e3'', ''e4'', ''e5'', ''e6'', ''e7'']"
  define w0 where "w0 = demo_uncertain\<lparr>w_calls := Suc (w_calls demo_uncertain)\<rparr>"
  have strip: "strip ''ok'' = ''ok''" by code_simp
  have get: "get_run demo_schedule ''r1'' demo_uncertain = (Inr (Some r), w0)"
    by (simp add: alone_get_run [OF demo_alone] l(2) w0_def)
  have "uuid_at (o_env demo_schedule (w_calls w0)) 0 \<notin> set (event_ids (w_ledger demo_uncertain))" unfolding l(6) by (rule demo_ids_fresh)
  with reconcile_run_enabled [OF reachable_inv [OF l(1)] l(2,3), of COMPLETED demo_operator PNone "o_env demo_schedule (w_calls w0)"] l(4)
  obtain l1 where op: "reconcile_run (o_env demo_schedule (w_calls w0)) ''r1'' COMPLETED ''ok'' PNone demo_operator (w_ledger w0) = Inr (True, l1)"
    by (auto simp: demo_operator_def w0_def)
  define w1 where "w1 = w0\<lparr>w_ledger := l1, w_calls := Suc (w_calls w0)\<rparr>"
  have call: "ledger_call demo_schedule (\<lambda>env. reconcile_run env ''r1'' COMPLETED ''ok'' PNone demo_operator) w0 = (Inr True, w1)"
    unfolding w1_def by (rule alone_call [OF demo_alone]) (use op in simp)
  obtain r1 where r1: "fetch_run (w_ledger w1) ''r1'' = Some r1"
  proof (rule reconcile_run_effect [OF op])
    show "struct_inv (w_ledger w0)" using ledger_inv_struct [OF reachable_inv [OF l(1)]] by (simp add: w0_def)
    fix r' assume "fetch_run l1 ''r1'' = Some r'" with that show thesis by (simp add: w1_def)
  qed
  obtain res where res: "run_result demo_schedule ''r1'' False w1 = (Inr res, w1\<lparr>w_calls := Suc (w_calls w1)\<rparr>)"
    using alone_run_result [OF demo_alone r1] by blast
  have "outcome_of_text ''completed'' = Some COMPLETED" by (simp add: outcome_of_text_def)
  moreover have "r_action_name r = ta_name demo_action" "r_tenant_id r = vp_tenant_id demo_operator"
    using l(4,5) by (simp_all add: demo_action_def demo_operator_def)
  ultimately have "reconcile demo_schedule demo_action ''r1'' ''completed'' demo_operator ''ok'' PNone demo_uncertain
      = (Inr res, w1\<lparr>w_calls := Suc (w_calls w1)\<rparr>)"
    using demo_has_role by (simp add: reconcile_def strip rt_bind_def get call res)
  with that show thesis .
qed

theorem reconciliation_needs_authority_witness:
  "\<exists>w r. fetch_run (w_ledger (w :: nat world)) ''r1'' = Some r \<and> r_status r = COMPLETED \<and> w_log w = []"
proof (rule demo_reconciled)
  fix res w'
  assume op: "reconcile demo_schedule demo_action ''r1'' ''completed'' demo_operator ''ok'' PNone demo_uncertain = (Inr res, w')"
  obtain "reachable (w_ledger demo_uncertain)" by (rule demo_uncertain_run)
  from reconciliation_needs_authority [OF alone_protocol [OF demo_alone] this op] show ?thesis
    by (auto simp: outcome_of_text_def demo_uncertain_def)
qed

section \<open>From the provider\<close>

text \<open>The status a provider's answer means for an unknown run.\<close>

definition answered_status :: "ProviderOutcome \<Rightarrow> ActionStatus" where
  "answered_status outcome = (case outcome of COMMITTED \<Rightarrow> COMPLETED | NOT_COMMITTED \<Rightarrow> FAILED | PENDING \<Rightarrow> UNKNOWN)"

lemma expected_of_outcome: "expected_status (provider_outcome_value oc) = Some (observed_status oc)"
  by (cases oc) (simp_all add: expected_status_def observed_status_def)

lemma alone_operation:
  assumes "alone orc" "ledger_call orc operation w = (Inr x, w')"
  shows "operation (o_env orc (w_calls w)) (w_ledger w) = Inr (x, w_ledger w')"
  using assms(2) by (rule ledger_call_InrD) (use assms(1) in \<open>simp add: alone_def\<close>)

lemma load_reconcilable_InrD:
  assumes "alone orc" "load_reconcilable_run orc act rid operator w = (Inr r, w')"
  shows "w_ledger w' = w_ledger w \<and> w_ext w' = w_ext w \<and> fetch_run (w_ledger w) rid = Some r \<and> r_status r = UNKNOWN
    \<and> r_tenant_id r = vp_tenant_id operator \<and> r_action_name r = ta_name act
    \<and> has_role (ta_reconciliation_roles act) operator"
  using assms by (auto simp: load_reconcilable_run_def alone_get_run rt_raise_def raise_exc_def rt_return_def rt_bind_def
      split: option.splits if_splits)

lemma provider_answer_settles:
  assumes "alone orc" "reachable (w_ledger w)"
    "reconcile_from_provider orc act rid probe operator w = (Inr res, w')"
  shows "\<exists>r lookup ob ext. fetch_run (w_ledger w) rid = Some r \<and> r_status r = UNKNOWN
    \<and> r_tenant_id r = vp_tenant_id operator \<and> has_role (ta_reconciliation_roles act) operator
    \<and> pl_run_id lookup = rid \<and> pl_action_name lookup = r_action_name r \<and> pl_tenant_id lookup = r_tenant_id r
    \<and> pl_idempotency_key lookup = r_idempotency_key r \<and> (json_wf (r_arguments r) \<longrightarrow> pl_arguments lookup = r_arguments r)
    \<and> pl_created_at lookup = Some (r_created_at r) \<and> pp_lookup probe lookup (w_ext w) = (Inr ob, ext)
    \<and> ar_status res = answered_status (po_outcome ob) \<and> \<not> ar_duplicate res"
proof -
  from assms(3) obtain r w0 provider w1 lookup w2 ob w3 applied w4 where
    load: "load_reconcilable_run orc act rid operator w = (Inr r, w0)" and
    name: "rt_lift (validate_provider_name (pp_name probe)) w0 = (Inr provider, w1)" and
    look: "rt_lift (ProviderLookup_init rid (ta_name act) (r_tenant_id r) (r_idempotency_key r) (r_arguments r)
      (Some (r_created_at r))) w1 = (Inr lookup, w2)" and
    probe: "probe_provider probe lookup w2 = (Inr ob, w3)" and
    apply': "ledger_call orc (\<lambda>env. apply_provider_observation env rid provider
       (provider_outcome_value (po_outcome ob)) (po_summary ob) (po_reference ob)
       (observed_status (po_outcome ob)) (observed_result provider ob) operator) w3 = (Inr applied, w4)" and
    res: "run_result orc rid (\<not> applied) w4 = (Inr res, w')"
    unfolding reconcile_from_provider_def by (elim rt_bind_InrD)
  from load_reconcilable_InrD [OF assms(1) load] have r: "w_ledger w0 = w_ledger w" "w_ext w0 = w_ext w"
    "fetch_run (w_ledger w) rid = Some r" "r_status r = UNKNOWN" "r_tenant_id r = vp_tenant_id operator"
    "r_action_name r = ta_name act" "has_role (ta_reconciliation_roles act) operator" by simp_all
  have w12: "w1 = w0" "w2 = w1" using name look by (simp_all add: rt_lift_def)
  obtain ext where p: "pp_lookup probe lookup (w_ext w) = (Inr ob, ext)" "w_ledger w3 = w_ledger w"
    using probe w12 r(1,2) by (auto simp: probe_provider_def split: prod.splits)
  have norm: "json_norm True (r_arguments r) = r_arguments r"
    using run_inv_parts(5) [OF reachable_run [OF assms(2) r(3)]] by (simp add: columns_ok_def)
  have lookup: "pl_created_at lookup = Some (r_created_at r)" "pl_run_id lookup = rid" "pl_action_name lookup = ta_name act" "pl_tenant_id lookup = r_tenant_id r"
    "pl_idempotency_key lookup = r_idempotency_key r" "json_wf (r_arguments r) \<longrightarrow> pl_arguments lookup = r_arguments r"
    using look norm by (auto simp: rt_lift_def ProviderLookup_init_def provider_json_copy_def json_copy_eq split: if_splits option.splits)
  note op = alone_operation [OF assms(1) apply', unfolded p(2)]
  have applied: applied
    using op r(3,4) by (auto simp: apply_provider_observation_def Let_def simp del: result_json_Inr split: if_splits option.splits)
  note str = ledger_inv_struct [OF reachable_inv [OF assms(2)]]
  have "\<exists>r'. fetch_run (w_ledger w4) rid = Some r' \<and> r_status r' = answered_status (po_outcome ob)"
  proof (rule observation_effect [OF op [unfolded eqTrueI [OF applied]] str])
    fix ra r' es es' assume e: "fetch_run (w_ledger w) rid = Some ra" "r_status ra = UNKNOWN"
      "fetch_run (w_ledger w4) rid = Some r'"
      "(observed_status (po_outcome ob) = None \<and> es' = [] \<and> same_but_anchor ra r') \<or>
       (\<exists>s. observed_status (po_outcome ob) = Some s \<and> r_status r' = s
          \<and> r_result r' = (if observed_result provider ob = PNone then None else Some (json_norm True (observed_result provider ob)))
          \<and> log_of es' = stored [(''run.reconciled'', reconciled_payload operator s (provider @ '' lookup: '' @ po_summary ob))])"
    show ?thesis
    proof (cases "po_outcome ob")
      case PENDING
      with e(4) have "same_but_anchor ra r'" by (simp add: observed_status_def)
      with same_but_anchor_columns [OF this] e(2,3) PENDING show ?thesis by (simp add: answered_status_def)
    qed (use e(3,4) in \<open>simp_all add: observed_status_def answered_status_def\<close>)
  qed
  then obtain r' where r': "fetch_run (w_ledger w4) rid = Some r'" "r_status r' = answered_status (po_outcome ob)" by blast
  from alone_run_result [OF assms(1) r'(1), of False] res applied r'(2)
  have "ar_status res = answered_status (po_outcome ob)" "\<not> ar_duplicate res" by auto
  with r lookup p(1) show ?thesis by auto
qed

text \<open>C12: a provider lookup settles an unknown run with what the provider says and nothing else:
  when \<open>reconcile_from_provider\<close> returns, for a client alone with its ledger, the run was unknown,
  the principal a reconciler of its tenant, the probe was asked with the stored request (run,
  action, tenant, key and arguments), and the status now is COMPLETED when it answered committed,
  FAILED when not committed, and still UNKNOWN when pending.\<close>

theorem provider_answer_settles_run:
  assumes "alone orc" "reachable (w_ledger w)"
    "reconcile_from_provider orc act rid probe operator w = (Inr res, w')"
  shows "\<exists>r lookup ob ext. fetch_run (w_ledger w) rid = Some r \<and> r_status r = UNKNOWN
    \<and> r_tenant_id r = vp_tenant_id operator \<and> has_role (ta_reconciliation_roles act) operator
    \<and> pl_run_id lookup = rid \<and> pl_action_name lookup = r_action_name r \<and> pl_tenant_id lookup = r_tenant_id r
    \<and> pl_idempotency_key lookup = r_idempotency_key r \<and> (json_wf (r_arguments r) \<longrightarrow> pl_arguments lookup = r_arguments r)
    \<and> pp_lookup probe lookup (w_ext w) = (Inr ob, ext)
    \<and> ar_status res = answered_status (po_outcome ob) \<and> \<not> ar_duplicate res"
  using provider_answer_settles [OF assms] by blast

definition demo_probe :: "nat ProviderProbe" where
  "demo_probe = \<lparr>pp_name = ''bank'', pp_lookup = (\<lambda>_ n. (Inr \<lparr>po_outcome = PENDING, po_summary = ''later'',
     po_reference = None, po_safe_result = PNone\<rparr>, n))\<rparr>"

lemma demo_probed:
  obtains res w' where "reconcile_from_provider demo_schedule demo_action ''r1'' demo_probe demo_operator demo_uncertain = (Inr res, w')"
proof (rule demo_uncertain_run)
  fix r
  assume l: "reachable (w_ledger demo_uncertain)" "fetch_run (w_ledger demo_uncertain) ''r1'' = Some r" "r_status r = UNKNOWN"
    "r_tenant_id r = ''acme''" "r_action_name r = ''refund''" "r_idempotency_key r = ''k1''"
    "r_arguments r = PDict [(''amount'', PInt 5)]"
    "event_ids (w_ledger demo_uncertain) = [''e1'', ''e2'', ''e3'', ''e4'', ''e5'', ''e6'', ''e7'']"
  define w0 where "w0 = demo_uncertain\<lparr>w_calls := Suc (w_calls demo_uncertain)\<rparr>"
  have strip: "strip ''bank'' = ''bank''" "strip ''r1'' \<noteq> []" "strip ''refund'' \<noteq> []" "strip ''acme'' \<noteq> []" "strip ''k1'' \<noteq> []"
    by code_simp+
  have load: "load_reconcilable_run demo_schedule demo_action ''r1'' demo_operator demo_uncertain = (Inr r, w0)"
    using l(2-5) demo_has_role
    by (simp add: load_reconcilable_run_def alone_get_run [OF demo_alone] rt_bind_def rt_return_def w0_def)
      (simp add: demo_action_def demo_operator_def)
  obtain lookup where lookup: "ProviderLookup_init ''r1'' (ta_name demo_action) (r_tenant_id r) (r_idempotency_key r) (r_arguments r)
      (Some (r_created_at r)) = Inr lookup"
    using strip by (simp add: ProviderLookup_init_def l(4,6,7) demo_action_def provider_json_copy_def json_copy_eq)
  have "uuid_at (o_env demo_schedule (w_calls w0)) 0 \<notin> set (event_ids (w_ledger demo_uncertain))" unfolding l(8) by (rule demo_ids_fresh)
  with pending_observation_enabled [OF reachable_inv [OF l(1)] l(2,3), of demo_operator "o_env demo_schedule (w_calls w0)" "''bank''" "''later''" None] l(4)
  obtain l1 where op: "apply_provider_observation (o_env demo_schedule (w_calls w0)) ''r1'' ''bank'' ''pending'' ''later'' None None PNone
      demo_operator (w_ledger w0) = Inr (True, l1)"
    by (auto simp: demo_operator_def w0_def)
  define w1 where "w1 = w0\<lparr>w_ledger := l1, w_calls := Suc (w_calls w0)\<rparr>"
  have call: "ledger_call demo_schedule (\<lambda>env. apply_provider_observation env ''r1'' ''bank'' ''pending'' ''later'' None None PNone
      demo_operator) w0 = (Inr True, w1)"
    unfolding w1_def by (rule alone_call [OF demo_alone]) (use op in simp)
  obtain r1 where r1: "fetch_run (w_ledger w1) ''r1'' = Some r1"
  proof (rule observation_effect [OF op])
    show "struct_inv (w_ledger w0)" using ledger_inv_struct [OF reachable_inv [OF l(1)]] by (simp add: w0_def)
    fix r' assume "fetch_run l1 ''r1'' = Some r'" with that show thesis by (simp add: w1_def)
  qed
  obtain res where res: "run_result demo_schedule ''r1'' False w1 = (Inr res, w1\<lparr>w_calls := Suc (w_calls w1)\<rparr>)"
    using alone_run_result [OF demo_alone r1] by blast
  have probe: "probe_provider demo_probe lookup w0 = (Inr \<lparr>po_outcome = PENDING, po_summary = ''later'',
     po_reference = None, po_safe_result = PNone\<rparr>, w0)" by (simp add: probe_provider_def demo_probe_def)
  have name: "validate_provider_name (pp_name demo_probe) = Inr ''bank''"
    by (simp add: validate_provider_name_def demo_probe_def strip)
  have "reconcile_from_provider demo_schedule demo_action ''r1'' demo_probe demo_operator demo_uncertain
      = (Inr res, w1\<lparr>w_calls := Suc (w_calls w1)\<rparr>)"
    by (simp add: reconcile_from_provider_def rt_bind_def load rt_lift_def name lookup probe observed_status_def
        observed_result_def call res)
  with that show thesis .
qed

theorem provider_answer_settles_run_witness:
  "\<exists>res w'. reconcile_from_provider demo_schedule demo_action ''r1'' demo_probe demo_operator demo_uncertain = (Inr res, w')
     \<and> ar_status res = UNKNOWN"
proof (rule demo_probed)
  fix res w'
  assume op: "reconcile_from_provider demo_schedule demo_action ''r1'' demo_probe demo_operator demo_uncertain = (Inr res, w')"
  obtain "reachable (w_ledger demo_uncertain)" by (rule demo_uncertain_run)
  from provider_answer_settles_run [OF demo_alone this op] have "ar_status res = UNKNOWN"
    by (auto simp: demo_probe_def answered_status_def)
  with op show ?thesis by blast
qed

end
