(* ===== verification/Ledger_Reads.thy ===== *)
theory Ledger_Reads
  imports Ledger_Ops Ledger_Chain
begin

text \<open>
  What the ledger reports (\<open>list_runs\<close>, \<open>events\<close>, \<open>audit_trail\<close>, the counts and the check of all
  chains), and the migration that runs when a ledger is opened. A dict result is the list of
  its items; a run is reported by \<open>decode_run\<close>. A method that reads in several transactions
  takes the ledger it sees in each.
\<close>

section \<open>Runs and events as dicts\<close>

type_synonym pydict = "(string \<times> pyval) list"

definition opt_time :: "datetime option \<Rightarrow> pyval" where
  "opt_time t = (case t of None \<Rightarrow> PNone | Some x \<Rightarrow> PStr (isoformat x))"

definition str_tuple :: "string list \<Rightarrow> pyval" where
  "str_tuple xs = PTuple (map PStr xs)"

definition decode_run :: "run_row \<Rightarrow> pydict" where
  "decode_run r = [
     (''run_id'', PStr (r_run_id r)),
     (''tenant_id'', PStr (r_tenant_id r)),
     (''actor_id'', PStr (r_actor_id r)),
     (''action_name'', PStr (r_action_name r)),
     (''risk'', PStr (r_risk r)),
     (''idempotency_key'', PStr (r_idempotency_key r)),
     (''request_fingerprint'', PStr (r_fingerprint r)),
     (''status'', PStr (status_value (r_status r))),
     (''arguments'', r_arguments r),
     (''roles'', str_tuple (r_roles r)),
     (''evidence'', str_tuple (r_evidence r)),
     (''metadata'', r_metadata r),
     (''policy_version'', opt_str (r_policy_version r)),
     (''policy_digest'', opt_str (r_policy_digest r)),
     (''reason'', opt_str (r_reason r)),
     (''result'', (case r_result r of None \<Rightarrow> PNone | Some v \<Rightarrow> v)),
     (''execution_owner'', opt_str (r_execution_owner r)),
     (''lease_expires_at'', opt_time (r_lease_expires_at r)),
     (''attempt'', PInt (int (r_attempt r))),
     (''duplicate_count'', PInt (int (r_duplicate_count r))),
     (''event_count'', PInt (int (r_event_count r))),
     (''event_head_hash'', opt_str (r_event_head_hash r)),
     (''created_at'', PStr (isoformat (r_created_at r))),
     (''updated_at'', PStr (isoformat (r_updated_at r)))]"

definition event_dict :: "event_row \<Rightarrow> pydict" where
  "event_dict e = [
     (''sequence'', PInt (int (e_seq e))),
     (''event_id'', PStr (e_id e)),
     (''event_type'', PStr (e_type e)),
     (''payload'', e_payload e),
     (''previous_hash'', opt_str (e_prev e)),
     (''event_hash'', opt_str (e_hash e)),
     (''created_at'', PStr (e_created e))]"

definition list_events :: "ledger \<Rightarrow> string \<Rightarrow> pydict list" where
  "list_events l rid = map event_dict (run_events l rid)"

text \<open>\<open>ORDER BY created_at DESC LIMIT ?\<close>, on the text of the column.\<close>

definition newest :: "nat \<Rightarrow> run_row list \<Rightarrow> run_row list" where
  "newest n rows = take n (rev (sort_key (\<lambda>r. isoformat (r_created_at r)) rows))"

definition of_tenant :: "string option \<Rightarrow> run_row \<Rightarrow> bool" where
  "of_tenant tenant r \<longleftrightarrow> (case tenant of None \<Rightarrow> True | Some t \<Rightarrow> r_tenant_id r = t)"

definition list_runs :: "ledger \<Rightarrow> string option \<Rightarrow> ActionStatus option \<Rightarrow> int \<Rightarrow> pydict list res" where
  "list_runs l tenant status limit =
     (if \<not> (1 \<le> limit \<and> limit \<le> 1000) then raise_exc ValueError ''limit must be between 1 and 1000''
      else Inr (map decode_run (newest (nat limit) (filter (\<lambda>r. of_tenant tenant r
        \<and> (case status of None \<Rightarrow> True | Some s \<Rightarrow> r_status r = s)) (l_runs l)))))"

section \<open>Redaction\<close>

text \<open>\<open>{"redacted": True, "digest": _digest(value)}\<close>.\<close>

definition redacted :: "pyval \<Rightarrow> pyval res" where
  "redacted v = res_bind (digest v) (\<lambda>d. Inr (PDict [(''redacted'', PBool True), (''digest'', PStr d)]))"

definition redacted_evidence :: "string list \<Rightarrow> pyval res" where
  "redacted_evidence xs = res_bind (digest (str_tuple xs)) (\<lambda>d. Inr (PDict [(''redacted'', PBool True),
     (''count'', PInt (int (length xs))), (''digest'', PStr d)]))"

text \<open>\<open>None if value is None else\<close> the redaction; a column that holds JSON null also reads as None.\<close>

definition redacted_option :: "pyval option \<Rightarrow> pyval res" where
  "redacted_option v = (case v of None \<Rightarrow> Inr PNone | Some x \<Rightarrow> if x = PNone then Inr PNone else redacted x)"

text \<open>A dict display over \<open>**run\<close>: the keys keep their places and get new values.\<close>

definition dict_update :: "pydict \<Rightarrow> pydict \<Rightarrow> pydict" where
  "dict_update d kvs = fold (\<lambda>(k, v). dict_set k v) kvs d"

definition redacted_run :: "run_row \<Rightarrow> pydict res" where
  "redacted_run r =
     res_bind (digest (PStr (r_actor_id r))) (\<lambda>actor.
     res_bind (digest (PStr (r_idempotency_key r))) (\<lambda>key.
     res_bind (redacted_option (map_option PStr (r_reason r))) (\<lambda>reason.
     res_bind (redacted (r_arguments r)) (\<lambda>arguments.
     res_bind (redacted_evidence (r_evidence r)) (\<lambda>evidence.
     res_bind (redacted (r_metadata r)) (\<lambda>metadata.
     res_bind (redacted_option (r_result r)) (\<lambda>result.
     Inr (dict_update (decode_run r) [
       (''actor_id'', PStr actor), (''idempotency_key'', PStr key), (''reason'', reason),
       (''arguments'', arguments), (''roles'', PTuple []), (''evidence'', evidence),
       (''metadata'', metadata), (''result'', result)]))))))))"

definition sensitive_keys :: "string list" where
  "sensitive_keys = [''note'', ''facts'', ''arguments'', ''result'', ''evidence'', ''approver_id'', ''operator_id'',
     ''auth_source'', ''owner'', ''reason'', ''reference'', ''summary'']"

fun redact_items :: "pydict \<Rightarrow> pydict res" where
  "redact_items [] = Inr []"
| "redact_items ((k, v) # kvs) =
     res_bind (if k \<in> set sensitive_keys then redacted v else Inr v) (\<lambda>v'.
     res_bind (redact_items kvs) (\<lambda>kvs'. Inr ((k, v') # kvs')))"

definition redact_event :: "event_row \<Rightarrow> pydict res" where
  "redact_event e =
     (case e_payload e of
        PDict kvs \<Rightarrow> res_bind (redact_items kvs) (\<lambda>kvs'.
          Inr (dict_update (event_dict e) [(''payload'', PDict kvs')]))
      | _ \<Rightarrow> raise_exc (OtherError ''AttributeError'') ''object has no attribute items'')"

fun redacted_events :: "event_row list \<Rightarrow> pydict list res" where
  "redacted_events [] = Inr []"
| "redacted_events (e # es) =
     res_bind (redact_event e) (\<lambda>d. res_bind (redacted_events es) (\<lambda>ds. Inr (d # ds)))"

section \<open>Verification over several reads\<close>

text \<open>\<open>verify_event_chain\<close> reads the run and its events in two transactions.\<close>

definition verify_event_chain_reads :: "ledger \<Rightarrow> ledger \<Rightarrow> string \<Rightarrow> bool res" where
  "verify_event_chain_reads l1 l2 rid =
     (case fetch_run l1 rid of
        None \<Rightarrow> Inr False
      | Some run \<Rightarrow>
          res_bind (verify_loop rid None (run_events l2 rid)) (\<lambda>verdict.
          Inr (case verdict of
                 None \<Rightarrow> False
               | Some previous \<Rightarrow> r_event_count run = length (run_events l2 rid)
                   \<and> r_event_head_hash run = previous)))"

lemma verify_event_chain_reads_same: "verify_event_chain_reads l l rid = verify_event_chain l rid"
  by (simp add: verify_event_chain_reads_def verify_event_chain_def)

definition may_see_sensitive :: "VerifiedPrincipal option \<Rightarrow> run_row \<Rightarrow> bool" where
  "may_see_sensitive viewer r \<longleftrightarrow> (case viewer of None \<Rightarrow> False
     | Some p \<Rightarrow> vp_tenant_id p = r_tenant_id r \<and> ''agenttrustops_auditor'' \<in> set (vp_roles p))"

text \<open>The ledgers the four reads of \<open>audit_trail\<close> see.\<close>

definition audit_trail ::
  "(nat \<Rightarrow> ledger) \<Rightarrow> string \<Rightarrow> string \<Rightarrow> VerifiedPrincipal option \<Rightarrow> pydict option res" where
  "audit_trail seen backend rid viewer =
     (case fetch_run (seen 0) rid of
        None \<Rightarrow> Inr None
      | Some r \<Rightarrow>
          let sensitive = may_see_sensitive viewer r; es = run_events (seen 1) rid in
          res_bind (if sensitive then Inr (decode_run r) else redacted_run r) (\<lambda>run.
          res_bind (if sensitive then Inr (map event_dict es) else redacted_events es) (\<lambda>events.
          res_bind (verify_event_chain_reads (seen 2) (seen 3) rid) (\<lambda>verified.
          Inr (Some [
            (''run'', PDict run),
            (''events'', PList (map PDict events)),
            (''integrity'', PDict [(''chain_verified'', PBool verified),
               (''mode'', PStr (''sha256_event_chain_'' @ backend)), (''immutable'', PBool False)]),
            (''sensitive_fields_included'', PBool sensitive)])))))"

section \<open>Counts\<close>

text \<open>\<open>GROUP BY\<close> with \<open>COUNT(*)\<close>: the groups in order, with their sizes.\<close>

definition group_counts :: "string list \<Rightarrow> (string \<times> nat) list" where
  "group_counts xs = map (\<lambda>k. (k, count_list xs k)) (sort (remdups xs))"

definition status_counts :: "ledger \<Rightarrow> string option \<Rightarrow> (string \<times> nat) list" where
  "status_counts l tenant = group_counts (map (\<lambda>r. status_value (r_status r)) (filter (of_tenant tenant) (l_runs l)))"

text \<open>\<open>JOIN action_runs USING (run_id)\<close>: a row of another table with the run it belongs to.\<close>

definition run_of_tenant :: "ledger \<Rightarrow> string option \<Rightarrow> string \<Rightarrow> bool" where
  "run_of_tenant l tenant rid \<longleftrightarrow> (case fetch_run l rid of None \<Rightarrow> False | Some r \<Rightarrow> of_tenant tenant r)"

definition event_counts :: "ledger \<Rightarrow> string option \<Rightarrow> (string \<times> nat) list" where
  "event_counts l tenant = group_counts (map e_type (filter (\<lambda>e. run_of_tenant l tenant (e_run e)) (l_events l)))"

definition duplicate_retry_count :: "ledger \<Rightarrow> string option \<Rightarrow> nat" where
  "duplicate_retry_count l tenant = sum_list (map r_duplicate_count (filter (of_tenant tenant) (l_runs l)))"

fun add_approvals :: "datetime \<Rightarrow> approval_row list \<Rightarrow> (string \<times> nat) list \<times> nat \<Rightarrow> (string \<times> nat) list \<times> nat" where
  "add_approvals now [] (counts, expired) = (counts, expired)"
| "add_approvals now (a # as) (counts, expired) =
     (let status = status_value (a_status a);
          n = (case dict_get status counts of None \<Rightarrow> 0 | Some m \<Rightarrow> m) in
      add_approvals now as (dict_set status (Suc n) counts,
        if a_status a = PENDING_APPROVAL \<and> a_expires_at a \<le> now then Suc expired else expired))"

definition approval_counts :: "datetime \<Rightarrow> ledger \<Rightarrow> string option \<Rightarrow> (string \<times> nat) list" where
  "approval_counts now l tenant =
     (let (counts, expired) = add_approvals now
            (filter (\<lambda>a. run_of_tenant l tenant (a_run_id a)) (l_approvals l)) ([], 0) in
      dict_set ''expired_pending'' expired counts)"

text \<open>The check of all chains, with the ledger of the query and of the two reads for each run.\<close>

record chain_report =
  cr_checked :: nat
  cr_invalid :: nat
  cr_invalid_run_ids :: "string list"
  cr_truncated :: bool

fun invalid_chains :: "(nat \<Rightarrow> ledger \<times> ledger) \<Rightarrow> nat \<Rightarrow> string list \<Rightarrow> string list res" where
  "invalid_chains seen i [] = Inr []"
| "invalid_chains seen i (rid # rids) =
     res_bind (verify_event_chain_reads (fst (seen i)) (snd (seen i)) rid) (\<lambda>ok.
     res_bind (invalid_chains seen (Suc i) rids) (\<lambda>bad. Inr (if ok then bad else rid # bad)))"

definition verify_all_event_chains ::
  "ledger \<Rightarrow> (nat \<Rightarrow> ledger \<times> ledger) \<Rightarrow> string option \<Rightarrow> int \<Rightarrow> chain_report res" where
  "verify_all_event_chains l seen tenant limit =
     (if \<not> (1 \<le> limit \<and> limit \<le> 100000) then raise_exc ValueError ''limit must be between 1 and 100000''
      else
        let rids = map r_run_id (newest (nat limit) (filter (of_tenant tenant) (l_runs l))) in
        res_bind (invalid_chains seen 0 rids) (\<lambda>bad.
        Inr \<lparr>cr_checked = length rids, cr_invalid = length bad, cr_invalid_run_ids = bad,
             cr_truncated = (int (length rids) = limit)\<rparr>))"

end
