(* ===== verification/Ledger_Reports.thy ===== *)
theory Ledger_Reports
  imports Ledger_Reads Ledger_Demo
begin

text \<open>
  What the reports of a reachable ledger say: the check of all chains finds nothing, a check
  that races an append raises a false alarm, and an audit trail shows an outsider sensitive
  values by their digests only.
\<close>

section \<open>Chain checks\<close>

text \<open>A check of a chain that races another worker raises a false alarm: \<open>verify_event_chain\<close>
  reads the run and its events in two transactions, and on reachable ledgers it answers True
  exactly when no event was appended to the run between them.\<close>

theorem racing_check_raises_false_alarm:
  assumes "reachable l" "ledger_step\<^sup>*\<^sup>* l l'" "fetch_run l rid = Some r"
  shows "verify_event_chain_reads l l' rid = Inr (run_events l' rid = run_events l rid)"
proof -
  from steps_run [OF assms(2) reachable_inv [OF assms(1)] assms(3)] obtain r' es where r':
    "fetch_run l' rid = Some r'" "ledger_inv l'" "run_events l' rid = run_events l rid @ es" by metis
  have old: "chain_ok rid r (run_events l rid)" by (rule run_inv_parts(1) [OF reachable_run [OF assms(1,3)]])
  have new: "chain_ok rid r' (run_events l' rid)" by (rule run_inv_parts(1) [OF ledger_inv_run [OF r'(2,1)]])
  from new have loop: "verify_loop rid None (run_events l' rid) = Inr (Some (r_event_head_hash r'))"
    by (simp add: chain_ok_def)
  show ?thesis
  proof (cases "es = []")
    case True
    with r'(3) old loop show ?thesis by (simp add: verify_event_chain_reads_def assms(3) chain_ok_def)
  next
    case False
    with r'(3) old have "r_event_count r \<noteq> length (run_events l' rid)" by (simp add: chain_ok_def)
    with loop False r'(3) show ?thesis by (simp add: verify_event_chain_reads_def assms(3))
  qed
qed

theorem racing_check_raises_false_alarm_witness:
  "verify_event_chain_reads (ledger_after demo_claim) (ledger_after demo_complete) ''r1'' = Inr False"
proof (rule demo_completed, rule demo_run_claimed)
  fix l r r0
  assume l: "demo_complete = Inr ((), l)" "reachable l" "fetch_run l ''r1'' = Some r" "r_status r = COMPLETED"
    and r0: "fetch_run (ledger_after demo_claim) ''r1'' = Some r0" "r_status r0 = EXECUTING"
  have at: "ledger_after demo_complete = l" by (rule ledger_after_Inr [OF l(1)])
  have "replay (log_of (run_events l ''r1'')) = Some (abs_run r)"
    "replay (log_of (run_events (ledger_after demo_claim) ''r1'')) = Some (abs_run r0)"
    using run_inv_replay [OF reachable_run [OF l(2,3)]] run_inv_replay [OF reachable_run [OF reachable_claim r0(1)]] by blast+
  then have "run_events l ''r1'' \<noteq> run_events (ledger_after demo_claim) ''r1''"
    using l(4) r0(2) by (auto simp: abs_run_def)
  with racing_check_raises_false_alarm [OF reachable_claim demo_claim_completes r0(1)] show ?thesis by (simp add: at)
qed

lemma invalid_chains_none:
  assumes "reachable l" "set rids \<subseteq> r_run_id ` set (l_runs l)"
  shows "invalid_chains (\<lambda>_. (l, l)) i rids = Inr []"
  using assms(2)
proof (induction rids arbitrary: i)
  case (Cons rid rids)
  then obtain r where "r \<in> set (l_runs l)" "r_run_id r = rid" by auto
  then have r: "fetch_run l rid = Some r" using fetch_run_mem [OF ledger_inv_struct [OF reachable_inv [OF assms(1)]]] by blast
  have "verify_event_chain l rid = Inr True"
    using run_inv_parts(1) [OF reachable_run [OF assms(1) r]] r by (auto simp: verify_event_chain_iff)
  with Cons show ?case by (simp add: verify_event_chain_reads_same)
qed simp

text \<open>The check of all chains of a reachable ledger that nobody writes meanwhile finds nothing:
  it checks the newest runs of the tenant up to the limit and reports no invalid run.\<close>

theorem chain_report_is_clean:
  assumes "reachable l" "1 \<le> limit" "limit \<le> 100000"
  shows "verify_all_event_chains l (\<lambda>_. (l, l)) tenant limit = Inr
    \<lparr>cr_checked = min (nat limit) (length (filter (of_tenant tenant) (l_runs l))), cr_invalid = 0, cr_invalid_run_ids = [],
     cr_truncated = (nat limit \<le> length (filter (of_tenant tenant) (l_runs l)))\<rparr>"
proof -
  let ?rows = "filter (of_tenant tenant) (l_runs l)"
  have "set (map r_run_id (newest (nat limit) ?rows)) \<subseteq> r_run_id ` set (l_runs l)"
    by (auto simp: newest_def dest!: in_set_takeD)
  from invalid_chains_none [OF assms(1) this] have "invalid_chains (\<lambda>_. (l, l)) 0 (map r_run_id (newest (nat limit) ?rows)) = Inr []" .
  moreover have "length (newest (nat limit) ?rows) = min (nat limit) (length ?rows)" by (simp add: newest_def min.commute)
  moreover have "int (min (nat limit) (length ?rows)) = limit \<longleftrightarrow> nat limit \<le> length ?rows" using assms(2) by linarith
  ultimately show ?thesis using assms(2,3) by (simp add: verify_all_event_chains_def Let_def)
qed

theorem chain_report_is_clean_witness:
  "\<exists>report. verify_all_event_chains (ledger_after demo_claim) (\<lambda>_. (ledger_after demo_claim, ledger_after demo_claim)) None 10
     = Inr report \<and> cr_invalid report = 0"
  using chain_report_is_clean [OF reachable_claim, of 10 None] by simp

section \<open>Redaction\<close>

text \<open>Two runs, and two events, that an outsider cannot tell apart but by digests.\<close>

definition same_digest :: "pyval \<Rightarrow> pyval \<Rightarrow> bool" where
  "same_digest v w \<longleftrightarrow> digest v = digest w"

definition same_option_digest :: "pyval option \<Rightarrow> pyval option \<Rightarrow> bool" where
  "same_option_digest v w \<longleftrightarrow> (case (v, w) of (None, None) \<Rightarrow> True | (Some x, Some y) \<Rightarrow> same_digest x y \<and> (x = PNone \<longleftrightarrow> y = PNone) | _ \<Rightarrow> False)"

definition public_columns ::
  "run_row \<Rightarrow> (string \<times> string \<times> string \<times> string \<times> string \<times> ActionStatus) \<times> (string option \<times> string option \<times> string option)
     \<times> (datetime option \<times> nat \<times> nat \<times> nat \<times> string option \<times> datetime \<times> datetime)" where
  "public_columns r = ((r_run_id r, r_tenant_id r, r_action_name r, r_risk r, r_fingerprint r, r_status r),
     (r_policy_version r, r_policy_digest r, r_execution_owner r),
     (r_lease_expires_at r, r_attempt r, r_duplicate_count r, r_event_count r, r_event_head_hash r, r_created_at r, r_updated_at r))"

definition alike_runs :: "run_row \<Rightarrow> run_row \<Rightarrow> bool" where
  "alike_runs r s \<longleftrightarrow> public_columns r = public_columns s
     \<and> same_digest (PStr (r_actor_id r)) (PStr (r_actor_id s))
     \<and> same_digest (PStr (r_idempotency_key r)) (PStr (r_idempotency_key s))
     \<and> same_option_digest (map_option PStr (r_reason r)) (map_option PStr (r_reason s))
     \<and> same_digest (r_arguments r) (r_arguments s) \<and> same_digest (r_metadata r) (r_metadata s)
     \<and> same_digest (str_tuple (r_evidence r)) (str_tuple (r_evidence s)) \<and> length (r_evidence r) = length (r_evidence s)
     \<and> same_option_digest (r_result r) (r_result s)"

definition alike_items :: "string \<times> pyval \<Rightarrow> string \<times> pyval \<Rightarrow> bool" where
  "alike_items x y \<longleftrightarrow> fst x = fst y \<and> (if fst x \<in> set sensitive_keys then same_digest (snd x) (snd y) else snd x = snd y)"

definition alike_events :: "event_row \<Rightarrow> event_row \<Rightarrow> bool" where
  "alike_events e f \<longleftrightarrow> (e_seq e, e_id e, e_type e, e_prev e, e_hash e, e_created e)
       = (e_seq f, e_id f, e_type f, e_prev f, e_hash f, e_created f)
     \<and> (\<exists>xs ys. e_payload e = PDict xs \<and> e_payload f = PDict ys \<and> list_all2 alike_items xs ys)"

lemma redacted_digest: "same_digest v w \<Longrightarrow> redacted v = redacted w"
  by (simp add: same_digest_def redacted_def)

lemma redacted_option_digest: "same_option_digest v w \<Longrightarrow> redacted_option v = redacted_option w"
  by (auto simp: same_option_digest_def redacted_option_def redacted_digest split: option.splits)

lemma dict_update_decode_run:
  "dict_update (decode_run r) [(''actor_id'', a), (''idempotency_key'', k), (''reason'', b),
       (''arguments'', c), (''roles'', d), (''evidence'', e), (''metadata'', m), (''result'', v)]
   = [(''run_id'', PStr (r_run_id r)), (''tenant_id'', PStr (r_tenant_id r)), (''actor_id'', a),
     (''action_name'', PStr (r_action_name r)), (''risk'', PStr (r_risk r)), (''idempotency_key'', k),
     (''request_fingerprint'', PStr (r_fingerprint r)), (''status'', PStr (status_value (r_status r))),
     (''arguments'', c), (''roles'', d), (''evidence'', e), (''metadata'', m),
     (''policy_version'', opt_str (r_policy_version r)), (''policy_digest'', opt_str (r_policy_digest r)),
     (''reason'', b), (''result'', v), (''execution_owner'', opt_str (r_execution_owner r)),
     (''lease_expires_at'', opt_time (r_lease_expires_at r)), (''attempt'', PInt (int (r_attempt r))),
     (''duplicate_count'', PInt (int (r_duplicate_count r))), (''event_count'', PInt (int (r_event_count r))),
     (''event_head_hash'', opt_str (r_event_head_hash r)), (''created_at'', PStr (isoformat (r_created_at r))),
     (''updated_at'', PStr (isoformat (r_updated_at r)))]"
  by (simp add: dict_update_def decode_run_def)

lemma redacted_run_alike:
  assumes "alike_runs r s"
  shows "redacted_run r = redacted_run s"
proof -
  from assms have cols: "r_run_id s = r_run_id r" "r_tenant_id s = r_tenant_id r" "r_action_name s = r_action_name r"
    "r_risk s = r_risk r" "r_fingerprint s = r_fingerprint r" "r_status s = r_status r" "r_policy_version s = r_policy_version r"
    "r_policy_digest s = r_policy_digest r" "r_execution_owner s = r_execution_owner r"
    "r_lease_expires_at s = r_lease_expires_at r" "r_attempt s = r_attempt r" "r_duplicate_count s = r_duplicate_count r"
    "r_event_count s = r_event_count r" "r_event_head_hash s = r_event_head_hash r" "r_created_at s = r_created_at r"
    "r_updated_at s = r_updated_at r" by (simp_all add: alike_runs_def public_columns_def)
  from assms have d: "same_digest (PStr (r_actor_id r)) (PStr (r_actor_id s))"
    "same_digest (PStr (r_idempotency_key r)) (PStr (r_idempotency_key s))"
    "same_option_digest (map_option PStr (r_reason r)) (map_option PStr (r_reason s))"
    "same_digest (r_arguments r) (r_arguments s)" "same_digest (r_metadata r) (r_metadata s)"
    "same_digest (str_tuple (r_evidence r)) (str_tuple (r_evidence s))" "length (r_evidence r) = length (r_evidence s)"
    "same_option_digest (r_result r) (r_result s)" by (simp_all only: alike_runs_def)
  have ev: "redacted_evidence (r_evidence r) = redacted_evidence (r_evidence s)"
    using d(6,7) by (simp only: redacted_evidence_def same_digest_def)
  show ?thesis
    unfolding redacted_run_def dict_update_decode_run cols ev d(1,2) [unfolded same_digest_def]
      redacted_digest [OF d(4)] redacted_digest [OF d(5)] redacted_option_digest [OF d(3)] redacted_option_digest [OF d(8)] ..
qed

lemma redact_items_alike: "list_all2 alike_items xs ys \<Longrightarrow> redact_items xs = redact_items ys"
proof (induction xs ys rule: list_all2_induct)
  case (Cons x xs y ys)
  then show ?case by (cases x; cases y) (auto simp: alike_items_def redacted_digest)
qed simp

lemma redacted_events_alike: "list_all2 alike_events es fs \<Longrightarrow> redacted_events es = redacted_events fs"
proof (induction es fs rule: list_all2_induct)
  case (Cons e es f fs)
  from Cons.hyps(1) obtain xs ys where p: "e_payload e = PDict xs" "e_payload f = PDict ys" "list_all2 alike_items xs ys"
    "e_seq f = e_seq e" "e_id f = e_id e" "e_type f = e_type e" "e_prev f = e_prev e" "e_hash f = e_hash e"
    "e_created f = e_created e" by (auto simp: alike_events_def)
  then have "redact_event e = redact_event f"
    using redact_items_alike [OF p(3)] by (simp add: redact_event_def dict_update_def event_dict_def)
  with Cons.IH show ?case by simp
qed simp


text \<open>The same request made with other roles: different rows, one public trail.\<close>

definition demo_other_roles :: "((run_row \<times> bool) \<times> ledger) res" where
  "demo_other_roles = create_or_get_run (demo_env 0 [''e1'']) ''r1'' ''acme'' ''alice'' [''admin''] []
     ''refund'' ''high'' ''k1'' ''fp'' [(''amount'', PInt 5)] PNone empty_ledger"

lemma demo_other_ok: "is_ok demo_other_roles"
  by (simp add: demo_other_roles_def create_or_get_run_def demo_simps)

lemma reachable_other: "reachable (ledger_after demo_other_roles)"
  by (rule demo_step [OF demo_other_ok reach.start [of "\<lambda>l. l = empty_ledger"]])
    (simp, unfold demo_other_roles_def, erule ledger_step.create)

lemma alike_events_refl: "\<exists>kvs. e_payload e = PDict kvs \<Longrightarrow> alike_events e e"
  by (auto simp: alike_events_def alike_items_def same_digest_def list_all2_refl)

lemma demo_roles_alike:
  "\<exists>r s. fetch_run (ledger_after demo_create) ''r1'' = Some r \<and> fetch_run (ledger_after demo_other_roles) ''r1'' = Some s
     \<and> alike_runs r s \<and> r_roles r \<noteq> r_roles s
     \<and> list_all2 alike_events (run_events (ledger_after demo_create) ''r1'') (run_events (ledger_after demo_other_roles) ''r1'')"
  by (simp add: demo_other_roles_def created_simps alike_runs_def public_columns_def same_digest_def same_option_digest_def
      alike_events_refl)


end
