(* ===== verification/Ledger_Migrate.thy ===== *)
theory Ledger_Migrate
  imports Ledger_Demo
begin

text \<open>
  What opening a ledger does to its rows (\<open>_backfill_v1\<close>, called by \<open>_migrate\<close>): requests and
  approvals of the first schema get their bindings, and events without hashes are chained. A
  text column that the first schema does not have is NULL there, which is the empty string
  here; the code treats the two alike. An approval of the first schema has no expiry column;
  the one it gets is computed from the time of the request.
\<close>

section \<open>The backfill\<close>

fun backfill_runs :: "run_row list \<Rightarrow> ledger \<Rightarrow> ledger res" where
  "backfill_runs [] l = Inr l"
| "backfill_runs (r # rs) l =
     res_bind (request_fingerprint (r_tenant_id r) (r_actor_id r) (r_roles r) (r_evidence r) (r_action_name r)
       (r_risk r) (r_arguments r) (r_metadata r)) (\<lambda>fingerprint.
     backfill_runs rs (upd_runs (\<lambda>x. r_run_id x = r_run_id r) (\<lambda>x. x\<lparr>r_fingerprint := fingerprint\<rparr>) l))"

definition legacy_version :: "string option \<Rightarrow> string" where
  "legacy_version v = (case v of None \<Rightarrow> ''legacy-unresolved'' | Some s \<Rightarrow> if s = [] then ''legacy-unresolved'' else s)"

fun backfill_approvals :: "(approval_row \<times> run_row) list \<Rightarrow> ledger \<Rightarrow> ledger res" where
  "backfill_approvals [] l = Inr l"
| "backfill_approvals ((a, r) # rows) l =
     res_bind (add_seconds (a_requested_at a) 3600) (\<lambda>expires_at.
     backfill_approvals rows (upd_approvals (\<lambda>x. a_run_id x = a_run_id a)
       (\<lambda>x. x\<lparr>a_fingerprint := r_fingerprint r, a_policy_version := legacy_version (r_policy_version r),
             a_policy_digest := r_policy_digest r, a_requested_actor := r_actor_id r, a_expires_at := expires_at\<rparr>) l))"

text \<open>The pairs the query over approvals joined with runs selects.\<close>

definition unbound_approvals :: "ledger \<Rightarrow> (approval_row \<times> run_row) list" where
  "unbound_approvals l = concat (map (\<lambda>a. case fetch_run l (a_run_id a) of None \<Rightarrow> [] | Some r \<Rightarrow> [(a, r)])
     (filter (\<lambda>a. a_fingerprint a = []) (l_approvals l)))"

definition upd_events :: "(event_row \<Rightarrow> bool) \<Rightarrow> (event_row \<Rightarrow> event_row) \<Rightarrow> ledger \<Rightarrow> ledger" where
  "upd_events P f l = l\<lparr>l_events := sql_update P f (l_events l)\<rparr>"

fun rechain :: "string option \<Rightarrow> event_row list \<Rightarrow> ledger \<Rightarrow> (string option \<times> ledger) res" where
  "rechain previous [] l = Inr (previous, l)"
| "rechain previous (e # es) l =
     res_bind (event_hash (e_run e) (e_type e) (e_payload e) previous (e_created e)) (\<lambda>h.
     rechain (Some h) es (upd_events (\<lambda>x. e_seq x = e_seq e) (\<lambda>x. x\<lparr>e_prev := previous, e_hash := Some h\<rparr>) l))"

definition anchor_events :: "string \<Rightarrow> nat \<Rightarrow> string option \<Rightarrow> ledger \<Rightarrow> ledger" where
  "anchor_events rid n head = upd_runs (\<lambda>x. r_run_id x = rid) (\<lambda>x. x\<lparr>r_event_count := n, r_event_head_hash := head\<rparr>)"

fun backfill_chains :: "run_row list \<Rightarrow> ledger \<Rightarrow> ledger res" where
  "backfill_chains [] l = Inr l"
| "backfill_chains (r # rs) l =
     (let es = run_events l (r_run_id r) in
      if \<exists>e \<in> set es. e_hash e = None then
        res_bind (rechain None es l) (\<lambda>(head, l').
        backfill_chains rs (anchor_events (r_run_id r) (length es) head l'))
      else if r_event_count r = 0 \<and> es \<noteq> [] then
        backfill_chains rs (anchor_events (r_run_id r) (length es) (Some (str_opt (e_hash (last es)))) l)
      else backfill_chains rs l)"

definition backfill_v1 :: "ledger \<Rightarrow> ledger res" where
  "backfill_v1 l =
     res_bind (backfill_runs (filter (\<lambda>r. r_fingerprint r = []) (l_runs l)) l) (\<lambda>l1.
     res_bind (backfill_approvals (unbound_approvals l1) l1) (\<lambda>l2.
     backfill_chains (l_runs l2) l2))"

section \<open>Opening a current ledger\<close>

lemma verify_loop_hashes: "verify_loop rid p es = Inr (Some q) \<Longrightarrow> e \<in> set es \<Longrightarrow> e_hash e \<noteq> None"
  by (induction es arbitrary: p) (auto split: if_splits)

lemma backfill_chains_none:
  assumes "\<forall>r \<in> set rs. chain_ok (r_run_id r) r (run_events l (r_run_id r))"
  shows "backfill_chains rs l = Inr l"
  using assms
proof (induction rs)
  case (Cons r rs)
  then have ok: "verify_loop (r_run_id r) None (run_events l (r_run_id r)) = Inr (Some (r_event_head_hash r))"
    "r_event_count r = length (run_events l (r_run_id r))" by (simp_all add: chain_ok_def)
  have "\<not> (\<exists>e \<in> set (run_events l (r_run_id r)). e_hash e = None)" using verify_loop_hashes [OF ok(1)] by blast
  moreover have "\<not> (r_event_count r = 0 \<and> run_events l (r_run_id r) \<noteq> [])" using ok(2) by simp
  ultimately show ?case using Cons by (auto simp: Let_def)
qed simp

lemma reachable_backfill:
  assumes "reachable l" "\<forall>r \<in> set (l_runs l). r_fingerprint r \<noteq> []"
  shows "backfill_v1 l = Inr l"
proof -
  note str = ledger_inv_struct [OF reachable_inv [OF assms(1)]]
  have runs: "filter (\<lambda>r. r_fingerprint r = []) (l_runs l) = []" using assms(2) by (simp add: filter_empty_conv)
  have "a_fingerprint a \<noteq> []" if a: "a \<in> set (l_approvals l)" for a
  proof -
    have fa: "fetch_approval l (a_run_id a) = Some a" using a by (simp add: fetch_approval_mem [OF str])
    from a str have "a_run_id a \<in> r_run_id ` set (l_runs l)" by (auto simp: struct_inv_def)
    then obtain r where r: "r \<in> set (l_runs l)" "r_run_id r = a_run_id a" by auto
    then have fr: "fetch_run l (a_run_id a) = Some r" by (simp add: fetch_run_mem [OF str])
    have "binding_matches r a" using run_inv_parts(3) [OF reachable_run [OF assms(1) fr]] fa by (simp add: approval_ok_def)
    with r(1) assms(2) show ?thesis unfolding binding_matches_def by metis
  qed
  then have approvals: "unbound_approvals l = []" by (auto simp: unbound_approvals_def filter_empty_conv)
  have "chain_ok (r_run_id r) r (run_events l (r_run_id r))" if "r \<in> set (l_runs l)" for r
    using run_inv_parts(1) [OF reachable_run [OF assms(1), of "r_run_id r" r]] that by (simp add: fetch_run_mem [OF str])
  then have "backfill_chains (l_runs l) l = Inr l" by (intro backfill_chains_none) blast
  then show ?thesis by (simp add: backfill_v1_def runs approvals)
qed

text \<open>Opening a ledger of the current schema changes nothing: on a reachable ledger whose runs
  carry a fingerprint, the migration finds no request, no approval and no chain to fill in.\<close>

theorem opening_a_ledger_changes_nothing:
  assumes "reachable l" "\<forall>r \<in> set (l_runs l). r_fingerprint r \<noteq> []"
  shows "backfill_v1 l = Inr l"
  by (rule reachable_backfill [OF assms])

theorem opening_a_ledger_changes_nothing_witness:
  "backfill_v1 (ledger_after demo_create) = Inr (ledger_after demo_create)"
proof -
  have "\<forall>r \<in> set (l_runs (ledger_after demo_create)). r_fingerprint r \<noteq> []" by (simp add: created_simps)
  from opening_a_ledger_changes_nothing [OF reachable_create this] show ?thesis .
qed

section \<open>Chaining old events\<close>

definition same_but_hash :: "event_row \<Rightarrow> event_row \<Rightarrow> bool" where
  "same_but_hash e e' \<longleftrightarrow> e' = e\<lparr>e_prev := e_prev e', e_hash := e_hash e'\<rparr>"

lemma same_but_hash_columns:
  "same_but_hash e e' \<Longrightarrow> e_seq e' = e_seq e \<and> e_run e' = e_run e \<and> e_id e' = e_id e \<and> e_payload e' = e_payload e"
  by (cases e; cases e') (simp add: same_but_hash_def)

lemma same_but_hash_trans: "same_but_hash e e' \<Longrightarrow> same_but_hash e' e'' \<Longrightarrow> same_but_hash e e''"
  by (cases e; cases e'; cases e'') (simp add: same_but_hash_def)

lemma event_hash_norm:
  "event_hash rid t p previous ts = Inr h \<Longrightarrow> event_hash rid t (json_norm True p) previous ts = Inr h"
proof -
  assume h: "event_hash rid t p previous ts = Inr h"
  then have p: "json_error True p = None" by (auto simp: event_hash_def event_document_error)
  have norm: "json_norm True (event_document rid t (json_norm True p) previous ts)
      = json_norm True (event_document rid t p previous ts)"
    by (simp add: event_document_def order_items_map_prod [symmetric] del: map_map)
  have "digest (event_document rid t (json_norm True p) previous ts) = digest (event_document rid t p previous ts)"
    using digest_norm [of "event_document rid t p previous ts"] digest_norm [of "event_document rid t (json_norm True p) previous ts"]
      norm p by (simp add: event_document_error)
  with h show ?thesis by (simp add: event_hash_def)
qed

text \<open>Chaining the events of a run rewrites those events and leaves a chain that verifies.\<close>

lemma rechain_effect:
  assumes "rechain p es l = Inr (q, l')" "distinct (map e_seq es)" "\<forall>e \<in> set es. e_run e = rid \<and> json_error True (e_payload e) = None"
  shows "\<exists>f. l' = l\<lparr>l_events := map f (l_events l)\<rparr> \<and> (\<forall>x. same_but_hash x (f x))
    \<and> (\<forall>x. e_seq x \<notin> e_seq ` set es \<longrightarrow> f x = x) \<and> verify_loop rid p (map f es) = Inr (Some q)"
  using assms
proof (induction es arbitrary: p l)
  case Nil
  then show ?case by (intro exI [of _ id]) (simp add: same_but_hash_def)
next
  case (Cons e es)
  define g where "g = (\<lambda>h (x :: event_row). if e_seq x = e_seq e then x\<lparr>e_prev := p, e_hash := Some h\<rparr> else x)"
  from Cons.prems(1) obtain h where h: "event_hash (e_run e) (e_type e) (e_payload e) p (e_created e) = Inr h"
    "rechain (Some h) es (l\<lparr>l_events := map (g h) (l_events l)\<rparr>) = Inr (q, l')"
    by (auto simp: upd_events_def sql_update_def g_def)
  from Cons.IH [OF h(2)] Cons.prems(2,3) obtain f where f: "l' = l\<lparr>l_events := map f (map (g h) (l_events l))\<rparr>"
    "\<forall>x. same_but_hash x (f x)" "\<forall>x. e_seq x \<notin> e_seq ` set es \<longrightarrow> f x = x" "verify_loop rid (Some h) (map f es) = Inr (Some q)"
    by auto
  have g: "same_but_hash x (g h x)" "e_seq (g h x) = e_seq x" for x by (simp_all add: g_def same_but_hash_def)
  have e: "f (g h e) = e\<lparr>e_prev := p, e_hash := Some h\<rparr>" using f(3) Cons.prems(2) by (simp add: g_def)
  have es: "map (\<lambda>x. f (g h x)) es = map f es" using Cons.prems(2) by (auto simp: g_def) (metis image_eqI)
  have split: "map (\<lambda>x. f (g h x)) (e # es) = e\<lparr>e_prev := p, e_hash := Some h\<rparr> # map f es" by (simp only: list.map e es)
  have "verify_loop rid p (map (\<lambda>x. f (g h x)) (e # es)) = Inr (Some q)"
    unfolding split using f(4) event_hash_norm [OF h(1)] Cons.prems(3) by (simp add: str_opt_def py_json_ok)
  moreover have "\<forall>x. same_but_hash x (f (g h x))" using f(2) g(1) same_but_hash_trans by blast
  moreover have "\<forall>x. e_seq x \<notin> e_seq ` set (e # es) \<longrightarrow> f (g h x) = x" using f(3) by (simp add: g_def)
  moreover have "l' = l\<lparr>l_events := map (\<lambda>x. f (g h x)) (l_events l)\<rparr>" using f(1) by (simp add: comp_def)
  ultimately show ?case by (intro exI [of _ "\<lambda>x. f (g h x)"]) blast
qed

lemma map_events:
  assumes "struct_inv l" "\<And>x. same_but_hash x (f x)"
  shows "struct_inv (l\<lparr>l_events := map f (l_events l)\<rparr>)"
    "run_events (l\<lparr>l_events := map f (l_events l)\<rparr>) rid = map f (run_events l rid)"
proof -
  have cols: "e_seq (f x) = e_seq x" "e_run (f x) = e_run x" "e_id (f x) = e_id x" for x
    using same_but_hash_columns [OF assms(2)] by simp_all
  have maps: "map e_seq (map f xs) = map e_seq xs" "map e_id (map f xs) = map e_id xs" "e_run ` f ` A = e_run ` A" for xs A
    by (simp_all add: cols comp_def image_image)
  show str: "struct_inv (l\<lparr>l_events := map f (l_events l)\<rparr>)"
    using assms(1) by (auto simp: struct_inv_def comp_def cols)
  show "run_events (l\<lparr>l_events := map f (l_events l)\<rparr>) rid = map f (run_events l rid)"
    by (simp add: run_events_filter [OF assms(1)] run_events_filter [OF str] filter_map comp_def cols)
qed

lemma anchor_events_effect:
  assumes "struct_inv l"
  shows "struct_inv (anchor_events rid n h l)" "run_events (anchor_events rid n h l) k = run_events l k"
    "fetch_run (anchor_events rid n h l) k = map_option (\<lambda>r. if k = rid then r\<lparr>r_event_count := n, r_event_head_hash := h\<rparr> else r) (fetch_run l k)"
proof -
  let ?f = "\<lambda>x. x\<lparr>r_event_count := n, r_event_head_hash := h\<rparr>"
  have keys: "r_run_id (?f x) = r_run_id x" "run_key (?f x) = run_key x" for x by (simp_all add: run_key_def)
  show "struct_inv (anchor_events rid n h l)"
    unfolding anchor_events_def by (rule struct_inv_upd_runs [OF keys assms])
  show "run_events (anchor_events rid n h l) k = run_events l k"
    by (simp add: anchor_events_def upd_runs_def run_events_def)
  show "fetch_run (anchor_events rid n h l) k = map_option (\<lambda>r. if k = rid then ?f r else r) (fetch_run l k)"
    by (cases "fetch_run l k") (auto simp: anchor_events_def upd_runs_def fetch_by_sql_update dest: fetch_run_id)
qed

definition payloads_ok :: "ledger \<Rightarrow> bool" where
  "payloads_ok l \<longleftrightarrow> (\<forall>e \<in> set (l_events l). json_error True (e_payload e) = None)"

text \<open>What a step of the migration leaves alone: the runs other than its own.\<close>

definition keeps_runs :: "string set \<Rightarrow> ledger \<Rightarrow> ledger \<Rightarrow> bool" where
  "keeps_runs K l l' \<longleftrightarrow> struct_inv l' \<and> payloads_ok l'
     \<and> (\<forall>k. k \<notin> K \<longrightarrow> fetch_run l' k = fetch_run l k \<and> run_events l' k = run_events l k)"

lemma rechain_run:
  assumes "struct_inv l" "payloads_ok l" "rechain None (run_events l rid) l = Inr (q, l1)"
  shows "keeps_runs {rid} l l1 \<and> fetch_run l1 rid = fetch_run l rid \<and> length (run_events l1 rid) = length (run_events l rid)
    \<and> verify_loop rid None (run_events l1 rid) = Inr (Some q)"
proof -
  let ?es = "run_events l rid"
  have seqs: "distinct (map e_seq (l_events l))" using assms(1) by (simp add: struct_inv_def strict_sorted_iff)
  have es: "?es = filter (\<lambda>e. e_run e = rid) (l_events l)" by (rule run_events_filter [OF assms(1)])
  have "distinct (map e_seq ?es)" unfolding es using seqs by (simp add: distinct_map_filter)
  moreover have "\<forall>e \<in> set ?es. e_run e = rid \<and> json_error True (e_payload e) = None"
    using assms(2) by (auto simp: es payloads_ok_def)
  ultimately obtain f where f: "l1 = l\<lparr>l_events := map f (l_events l)\<rparr>" "\<forall>x. same_but_hash x (f x)"
    "\<forall>x. e_seq x \<notin> e_seq ` set ?es \<longrightarrow> f x = x" "verify_loop rid None (map f ?es) = Inr (Some q)"
    using rechain_effect [OF assms(3)] by blast
  note m = map_events [OF assms(1) spec [OF f(2)]]
  have other: "run_events l1 k = run_events l k" if "k \<noteq> rid" for k
  proof -
    have "f x = x" if x: "x \<in> set (run_events l k)" for x
    proof -
      have "x \<in> set (l_events l)" "e_run x = k" using x by (simp_all add: run_events_filter [OF assms(1)])
      then have "e_seq x \<notin> e_seq ` set ?es"
        using seqs \<open>k \<noteq> rid\<close> by (auto simp: es distinct_map dest!: inj_onD)
      with f(3) show ?thesis by blast
    qed
    then show ?thesis using m(2) [of k] by (simp add: f(1) map_idI)
  qed
  have "e_payload (f x) = e_payload x" for x using f(2) same_but_hash_columns by blast
  then have "payloads_ok l1" using assms(2) by (simp add: payloads_ok_def f(1))
  moreover have "struct_inv l1" "run_events l1 rid = map f ?es" using m by (simp_all add: f(1))
  moreover have "l_runs l1 = l_runs l" by (simp add: f(1))
  ultimately show ?thesis using other f(4) by (simp add: keeps_runs_def)
qed

lemma anchor_keeps:
  assumes "struct_inv l" "payloads_ok l"
  shows "keeps_runs {rid} l (anchor_events rid n h l)"
  using anchor_events_effect [OF assms(1)] assms(2) option.map_id0
  by (auto simp: keeps_runs_def payloads_ok_def anchor_events_def upd_runs_def fetch_by_sql_update option.map_ident)

lemma keeps_runs_trans: "keeps_runs A l l1 \<Longrightarrow> keeps_runs B l1 l2 \<Longrightarrow> A \<subseteq> C \<Longrightarrow> B \<subseteq> C \<Longrightarrow> keeps_runs C l l2"
  unfolding keeps_runs_def by (metis subsetD)

lemma keeps_runs_fetch: "keeps_runs K l l' \<Longrightarrow> k \<notin> K \<Longrightarrow> fetch_run l' k = fetch_run l k \<and> run_events l' k = run_events l k"
  by (simp add: keeps_runs_def)

lemma rechain_anchor:
  assumes "struct_inv l" "payloads_ok l" "rechain None (run_events l rid) l = Inr (q, l1)" "fetch_run l rid \<noteq> None"
  shows "keeps_runs {rid} l (anchor_events rid (length (run_events l rid)) q l1)
    \<and> verify_event_chain (anchor_events rid (length (run_events l rid)) q l1) rid = Inr True"
proof -
  let ?l2 = "anchor_events rid (length (run_events l rid)) q l1"
  from rechain_run [OF assms(1-3)] have k: "keeps_runs {rid} l l1" and v: "fetch_run l1 rid = fetch_run l rid"
    "length (run_events l1 rid) = length (run_events l rid)" "verify_loop rid None (run_events l1 rid) = Inr (Some q)" by auto
  have str: "struct_inv l1" "payloads_ok l1" using k by (simp_all add: keeps_runs_def)
  note a = anchor_events_effect [OF str(1), where rid = rid and n = "length (run_events l rid)" and h = q]
  have "keeps_runs {rid} l ?l2" by (rule keeps_runs_trans [OF k anchor_keeps [OF str]]) simp_all
  moreover obtain r where "fetch_run l rid = Some r" using assms(4) by auto
  then have "\<exists>r. fetch_run ?l2 rid = Some r \<and> chain_ok rid r (run_events ?l2 rid)"
    using v by (simp add: a(2,3) chain_ok_def)
  ultimately show ?thesis by (simp add: verify_event_chain_iff)
qed

lemma verify_event_chain_cong:
  "fetch_run l' rid = fetch_run l rid \<Longrightarrow> run_events l' rid = run_events l rid \<Longrightarrow>
     verify_event_chain l' rid = verify_event_chain l rid"
  by (simp add: verify_event_chain_def cong: option.case_cong)

lemma backfill_chains_effect:
  assumes "backfill_chains rs l = Inr l'" "struct_inv l" "payloads_ok l" "distinct (map r_run_id rs)"
    "\<forall>r \<in> set rs. fetch_run l (r_run_id r) \<noteq> None"
  shows "keeps_runs (r_run_id ` set rs) l l' \<and> (\<forall>r \<in> set rs. (\<exists>e \<in> set (run_events l (r_run_id r)). e_hash e = None)
    \<longrightarrow> verify_event_chain l' (r_run_id r) = Inr True)"
  using assms
proof (induction rs arbitrary: l)
  case Nil
  then show ?case by (simp add: keeps_runs_def)
next
  case (Cons r rs)
  let ?rid = "r_run_id r"
  let ?unhashed = "\<exists>e \<in> set (run_events l ?rid). e_hash e = None"
  have step: "\<exists>l1. backfill_chains rs l1 = Inr l' \<and> keeps_runs {?rid} l l1 \<and> (?unhashed \<longrightarrow> verify_event_chain l1 ?rid = Inr True)"
  proof (cases ?unhashed)
    case True
    with Cons.prems(1) obtain q l0 where q: "rechain None (run_events l ?rid) l = Inr (q, l0)"
      "backfill_chains rs (anchor_events ?rid (length (run_events l ?rid)) q l0) = Inr l'" by (auto simp: Let_def)
    have "fetch_run l ?rid \<noteq> None" using Cons.prems(5) by simp
    from rechain_anchor [OF Cons.prems(2,3) q(1) this] q(2) show ?thesis by blast
  next
    case False
    have "keeps_runs {?rid} l l" using Cons.prems(2,3) by (simp add: keeps_runs_def)
    moreover have "backfill_chains rs l = Inr l' \<or> (\<exists>n h. backfill_chains rs (anchor_events ?rid n h l) = Inr l')"
      using Cons.prems(1) False by (auto simp: Let_def split: if_splits)
    ultimately show ?thesis using False anchor_keeps [OF Cons.prems(2,3)] by blast
  qed
  then obtain l1 where l1: "backfill_chains rs l1 = Inr l'" "keeps_runs {?rid} l l1"
    "?unhashed \<longrightarrow> verify_event_chain l1 ?rid = Inr True" by blast
  have same: "fetch_run l1 (r_run_id x) = fetch_run l (r_run_id x) \<and> run_events l1 (r_run_id x) = run_events l (r_run_id x)"
    if "x \<in> set rs" for x using that Cons.prems(4) by (intro keeps_runs_fetch [OF l1(2)]) (auto, metis imageI)
  have "struct_inv l1" "payloads_ok l1" using l1(2) by (simp_all add: keeps_runs_def)
  with Cons.IH [OF l1(1)] Cons.prems(4,5) same have ih: "keeps_runs (r_run_id ` set rs) l1 l'"
    "\<forall>r \<in> set rs. (\<exists>e \<in> set (run_events l1 (r_run_id r)). e_hash e = None) \<longrightarrow> verify_event_chain l' (r_run_id r) = Inr True"
    by simp_all
  have "keeps_runs (r_run_id ` set (r # rs)) l l'" by (rule keeps_runs_trans [OF l1(2) ih(1)]) auto
  moreover have "?unhashed \<longrightarrow> verify_event_chain l' ?rid = Inr True"
  proof -
    have "?rid \<notin> r_run_id ` set rs" using Cons.prems(4) by simp
    from keeps_runs_fetch [OF ih(1) this] l1(3) show ?thesis using verify_event_chain_cong by metis
  qed
  ultimately show ?case using ih(2) same by simp
qed

lemma backfill_runs_keeps:
  "backfill_runs rs l = Inr l' \<Longrightarrow> struct_inv l \<Longrightarrow> struct_inv l' \<and> l_events l' = l_events l"
proof (induction rs arbitrary: l)
  case (Cons r rs)
  from Cons.prems(1) obtain fingerprint where f: "backfill_runs rs
      (upd_runs (\<lambda>x. r_run_id x = r_run_id r) (\<lambda>x. x\<lparr>r_fingerprint := fingerprint\<rparr>) l) = Inr l'" (is "backfill_runs rs ?l1 = _")
    by auto
  have "struct_inv ?l1" by (rule struct_inv_upd_runs [OF _ _ Cons.prems(2)]) (simp_all add: run_key_def)
  with Cons.IH [OF f] show ?case by (simp add: upd_runs_def)
qed simp

lemma backfill_approvals_keeps:
  "backfill_approvals rows l = Inr l' \<Longrightarrow> struct_inv l \<Longrightarrow> struct_inv l' \<and> l_events l' = l_events l"
proof (induction rows arbitrary: l)
  case (Cons row rows)
  obtain a r where row: "row = (a, r)" by (cases row)
  from Cons.prems(1) obtain expires_at where f: "backfill_approvals rows
      (upd_approvals (\<lambda>x. a_run_id x = a_run_id a) (\<lambda>x. x\<lparr>a_fingerprint := r_fingerprint r,
        a_policy_version := legacy_version (r_policy_version r), a_policy_digest := r_policy_digest r,
        a_requested_actor := r_actor_id r, a_expires_at := expires_at\<rparr>) l) = Inr l'" (is "backfill_approvals rows ?l1 = _")
    by (auto simp: row)
  have "struct_inv ?l1" by (rule struct_inv_upd_approvals [OF _ Cons.prems(2)]) simp_all
  with Cons.IH [OF f] show ?case by (simp add: upd_approvals_def)
qed simp

text \<open>The migration chains what was not chained: after it, the hash chain of every run that had
  an event without a hash verifies. The events themselves are not checked, so this holds whatever
  they say; a run of the current schema one of whose hashes is lost is chained anew in the same
  way.\<close>

theorem unhashed_events_are_chained:
  assumes "struct_inv l" "payloads_ok l" "backfill_v1 l = Inr l'" "e \<in> set (l_events l)" "e_hash e = None"
  shows "verify_event_chain l' (e_run e) = Inr True"
proof -
  from assms(3) obtain l1 l2 where l1: "backfill_runs (filter (\<lambda>r. r_fingerprint r = []) (l_runs l)) l = Inr l1"
    and l2: "backfill_approvals (unbound_approvals l1) l1 = Inr l2" and l3: "backfill_chains (l_runs l2) l2 = Inr l'"
    by (auto simp: backfill_v1_def)
  from backfill_runs_keeps [OF l1 assms(1)] backfill_approvals_keeps [OF l2]
  have str: "struct_inv l2" and ev: "l_events l2 = l_events l" by simp_all
  then have "e_run e \<in> r_run_id ` set (l_runs l2)" using assms(4) by (auto simp: struct_inv_def)
  then obtain r where r: "r \<in> set (l_runs l2)" "r_run_id r = e_run e" by auto
  have "e \<in> set (run_events l2 (r_run_id r))" using assms(4) by (simp add: run_events_filter [OF str] ev r(2))
  with assms(5) have "\<exists>e \<in> set (run_events l2 (r_run_id r)). e_hash e = None" by blast
  moreover have "distinct (map r_run_id (l_runs l2))" using str by (simp add: struct_inv_def)
  moreover have "\<forall>r \<in> set (l_runs l2). fetch_run l2 (r_run_id r) \<noteq> None" using fetch_run_mem [OF str] by (metis option.distinct(1))
  moreover have "payloads_ok l2" using assms(2) by (simp add: payloads_ok_def ev)
  ultimately have "verify_event_chain l' (r_run_id r) = Inr True"
    using backfill_chains_effect [OF l3 str] r(1) by blast
  then show ?thesis by (simp add: r(2))
qed

text \<open>A run as the first schema left it: the event of its creation, and no hash.\<close>

definition unhashed_demo :: ledger where
  "unhashed_demo = (ledger_after demo_create)
     \<lparr>l_events := map (\<lambda>e :: event_row. e\<lparr>e_hash := None\<rparr>) (l_events (ledger_after demo_create))\<rparr>"

lemma unhashed_demo_backfilled: "is_ok (backfill_v1 unhashed_demo)"
  by (simp add: unhashed_demo_def created_simps backfill_v1_def unbound_approvals_def event_hash_eq anchor_events_def upd_events_def)

theorem unhashed_events_are_chained_witness:
  "\<exists>l'. backfill_v1 unhashed_demo = Inr l' \<and> verify_event_chain l' ''r1'' = Inr True"
proof -
  obtain l' where l': "backfill_v1 unhashed_demo = Inr l'" using unhashed_demo_backfilled by (cases "backfill_v1 unhashed_demo") simp_all
  obtain e where e: "e \<in> set (l_events unhashed_demo)" "e_hash e = None" "e_run e = ''r1''"
    by (simp add: unhashed_demo_def created_simps)
  have "struct_inv unhashed_demo" "payloads_ok unhashed_demo"
    by (simp_all add: unhashed_demo_def created_simps struct_inv_def payloads_ok_def)
  from unhashed_events_are_chained [OF this l' e(1,2)] l' e(3) show ?thesis by simp
qed

end
