(* ===== verification/PyValue.thy ===== *)
theory PyValue
  imports Digest "HOL-Library.Log_Nat"
begin

text \<open>
  What the package does with values of type \<open>Any\<close>: \<open>float(value)\<close> and the comparison of floats,
  \<open>int(value)\<close>, \<open>str(value)\<close>, truth values, \<open>set(value)\<close>, iteration and the access to items. A
  float is its exact value (IEEE 754 binary64, rounded to nearest with ties to even), an infinity
  or NaN; the two zeros compare equal and are one value.
\<close>

section \<open>Floats\<close>

datatype pyfloat = Fin rat | PosInf | NegInf | NaN

text \<open>Every comparison with NaN is false.\<close>

instantiation pyfloat :: ord
begin

fun less_eq_pyfloat :: "pyfloat \<Rightarrow> pyfloat \<Rightarrow> bool" where
  "less_eq_pyfloat NaN y = False"
| "less_eq_pyfloat x NaN = False"
| "less_eq_pyfloat NegInf y = True"
| "less_eq_pyfloat x PosInf = True"
| "less_eq_pyfloat (Fin a) (Fin b) = (a \<le> b)"
| "less_eq_pyfloat PosInf y = False"
| "less_eq_pyfloat x NegInf = False"

definition less_pyfloat :: "pyfloat \<Rightarrow> pyfloat \<Rightarrow> bool" where
  "less_pyfloat x y \<longleftrightarrow> x \<le> y \<and> \<not> y \<le> x"

instance ..

end

lemma float_compare [simp]:
  "Fin a \<le> Fin b \<longleftrightarrow> a \<le> b" "Fin a < Fin b \<longleftrightarrow> a < b" "\<not> NaN \<le> y" "\<not> x \<le> NaN" "\<not> NaN < y" "\<not> x < NaN"
  by (auto simp: less_pyfloat_def) (cases x; simp)+

text \<open>A comparison can be turned around exactly when no NaN is involved.\<close>

lemma not_less_float: "\<not> x < y \<longleftrightarrow> x = NaN \<or> y = NaN \<or> y \<le> (x :: pyfloat)"
  by (cases x; cases y) (auto simp: less_pyfloat_def)

lemma not_le_float: "\<not> x \<le> y \<longleftrightarrow> x = NaN \<or> y = NaN \<or> y < (x :: pyfloat)"
  by (cases x; cases y) (auto simp: less_pyfloat_def)

section \<open>Rounding to binary64\<close>

definition power_rat :: "rat \<Rightarrow> int \<Rightarrow> rat" where
  "power_rat b e = (if 0 \<le> e then b ^ nat e else 1 / b ^ nat (- e))"

definition round_half_even :: "rat \<Rightarrow> int" where
  "round_half_even x =
     (let f = \<lfloor>x\<rfloor>; r = x - of_int f in
      if r < 1 / 2 \<or> r = 1 / 2 \<and> even f then f else f + 1)"

text \<open>The exponent of the last bit of a positive value: 53 significant bits, as far as the
  smallest subnormal allows. The largest exponent is 971; \<open>2 ^ 53\<close> units of it are out of range.\<close>

definition last_bit :: "rat \<Rightarrow> int" where
  "last_bit x =
     (let (n, d) = quotient_of x; e = bitlen n - bitlen d - 53;
          e' = (if x / power_rat 2 e < 2 ^ 53 then e else e + 1)
      in max e' (- 1074))"

definition round_binary64 :: "rat \<Rightarrow> pyfloat" where
  "round_binary64 x =
     (if x = 0 then Fin 0
      else let e = last_bit \<bar>x\<bar>; m = round_half_even (\<bar>x\<bar> / power_rat 2 e) in
        if 971 < e \<or> e = 971 \<and> 2 ^ 53 \<le> m then (if x < 0 then NegInf else PosInf)
        else Fin (of_int (if x < 0 then - m else m) * power_rat 2 e))"

section \<open>The text of a float\<close>

text \<open>An underscore stands between two digits.\<close>

fun underscores_ok :: "bool \<Rightarrow> string \<Rightarrow> bool" where
  "underscores_ok after_digit [] = True"
| "underscores_ok after_digit (c # s) =
     (if c = CHR ''_'' then after_digit \<and> (case s of [] \<Rightarrow> False | d # _ \<Rightarrow> is_digit d) \<and> underscores_ok False s
      else underscores_ok (is_digit c) s)"

definition lower :: "char \<Rightarrow> char" where
  "lower c = (if 65 \<le> code_point c \<and> code_point c \<le> 90 then char_of (code_point c + 32) else c)"

definition exponent_of :: "string \<Rightarrow> int" where
  "exponent_of ep = (if ep = [] then 0 else int_of_text (startswith (tl ep) ''-'') (snd (scan_sign (tl ep))))"

definition digits_int :: "string \<Rightarrow> int" where
  "digits_int s = fold (\<lambda>c n. 10 * n + int (digit_val c)) s 0"

definition decimal_of_text :: "string \<Rightarrow> rat option" where
  "decimal_of_text s =
     (let ip = takeWhile is_digit s; r = dropWhile is_digit s;
          (fp, r1) = (if startswith r ''.'' then (takeWhile is_digit (tl r), dropWhile is_digit (tl r)) else ([], r));
          (ep, r2) = scan_exp r1 in
      if r2 = [] \<and> ip @ fp \<noteq> []
      then Some (of_int (digits_int (ip @ fp)) * power_rat 10 (exponent_of ep - int (length fp))) else None)"

definition float_of_text :: "string \<Rightarrow> pyfloat option" where
  "float_of_text text =
     (let s = strip text; (sign, body) = scan_sign (filter (\<lambda>c. c \<noteq> CHR ''_'') s); neg = (sign = ''-'') in
      if \<not> underscores_ok False s then None
      else if map lower body \<in> {''inf'', ''infinity''} then Some (if neg then NegInf else PosInf)
      else if map lower body = ''nan'' then Some NaN
      else map_option (\<lambda>x. round_binary64 (if neg then - x else x)) (decimal_of_text body))"

definition py_float :: "pyval \<Rightarrow> pyfloat res" where
  "py_float v =
     (case v of
        PBool b \<Rightarrow> Inr (Fin (if b then 1 else 0))
      | PInt i \<Rightarrow>
          (case round_binary64 (of_int i) of
             Fin x \<Rightarrow> Inr (Fin x)
           | _ \<Rightarrow> raise_exc OverflowError ''int too large to convert to float'')
      | PFloat s \<Rightarrow> (case float_of_text s of Some x \<Rightarrow> Inr x | None \<Rightarrow> raise_exc ValueError ''not a float'')
      | PStr s \<Rightarrow> (case float_of_text s of Some x \<Rightarrow> Inr x
           | None \<Rightarrow> raise_exc ValueError (''could not convert string to float: '' @ s))
      | _ \<Rightarrow> raise_exc TypeError ''float() argument must be a string or a real number'')"

text \<open>The value of a float given by its \<open>repr\<close>.\<close>

definition float_value :: "string \<Rightarrow> pyfloat" where
  "float_value s = (case float_of_text s of Some x \<Rightarrow> x | None \<Rightarrow> NaN)"

text \<open>\<open>{x:.2f}\<close> of a finite float.\<close>

definition fixed2 :: "pyfloat \<Rightarrow> string" where
  "fixed2 x = (case x of
     Fin q \<Rightarrow> (let n = round_half_even (\<bar>q\<bar> * 100) in
       (if q < 0 then ''-'' else []) @ int_str (n div 100) @ ''.'' @ padded 2 (nat (n mod 100)))
   | PosInf \<Rightarrow> ''inf'' | NegInf \<Rightarrow> ''-inf'' | NaN \<Rightarrow> ''nan'')"

section \<open>Text, truth and sets of values\<close>

text \<open>\<open>repr\<close> of a string: single quotes unless only they occur in it.\<close>

definition repr_char :: "char \<Rightarrow> char \<Rightarrow> string" where
  "repr_char q c = (let n = code_point c in
     if c = q \<or> c = backslash then [backslash, c]
     else if n = 10 then [backslash, CHR ''n'']
     else if n = 13 then [backslash, CHR ''r'']
     else if n = 9 then [backslash, CHR ''t'']
     else if n < 32 \<or> 127 \<le> n \<and> n \<le> 160 \<or> n = 173 then backslash # ''x'' @ hex_byte n
     else [c])"

definition repr_str :: "string \<Rightarrow> string" where
  "repr_str s = (let q = (if apostrophe \<in> set s \<and> quote_char \<notin> set s then quote_char else apostrophe) in
     q # concat (map (repr_char q) s) @ [q])"

primrec py_repr :: "pyval \<Rightarrow> string" where
  "py_repr PNone = ''None''"
| "py_repr (PBool b) = (if b then ''True'' else ''False'')"
| "py_repr (PInt i) = int_str i"
| "py_repr (PFloat s) = s"
| "py_repr (PStr s) = repr_str s"
| "py_repr (PList vs) = CHR ''['' # join '', '' (map py_repr vs) @ '']''"
| "py_repr (PTuple vs) = CHR ''('' # join '', '' (map py_repr vs) @ (if length vs = 1 then '',)'' else '')'')"
| "py_repr (PDict kvs) =
     CHR ''{'' # join '', '' (map (\<lambda>(k, t). repr_str k @ '': '' @ t) (map (map_prod id py_repr) kvs)) @ ''}''"
| "py_repr (PObject n) = ''<'' @ n @ '' object>''"

definition py_str :: "pyval \<Rightarrow> string" where
  "py_str v = (case v of PStr s \<Rightarrow> s | _ \<Rightarrow> py_repr v)"

definition py_truthy :: "pyval \<Rightarrow> bool" where
  "py_truthy v = (case v of
     PNone \<Rightarrow> False | PBool b \<Rightarrow> b | PInt i \<Rightarrow> i \<noteq> 0 | PFloat s \<Rightarrow> float_value s \<noteq> Fin 0 | PStr s \<Rightarrow> s \<noteq> []
   | PList vs \<Rightarrow> vs \<noteq> [] | PTuple vs \<Rightarrow> vs \<noteq> [] | PDict kvs \<Rightarrow> kvs \<noteq> [] | PObject n \<Rightarrow> True)"

primrec hashable :: "pyval \<Rightarrow> bool" where
  "hashable PNone = True"
| "hashable (PBool b) = True"
| "hashable (PInt i) = True"
| "hashable (PFloat s) = True"
| "hashable (PStr s) = True"
| "hashable (PList vs) = False"
| "hashable (PTuple vs) = list_all id (map hashable vs)"
| "hashable (PDict kvs) = False"
| "hashable (PObject n) = True"

text \<open>\<open>set(value)\<close>, as the list of its items.\<close>

definition py_set :: "pyval \<Rightarrow> pyval list res" where
  "py_set v =
     (case v of
        PList vs \<Rightarrow> if list_all hashable vs then Inr vs else raise_exc TypeError ''unhashable type''
      | PTuple vs \<Rightarrow> if list_all hashable vs then Inr vs else raise_exc TypeError ''unhashable type''
      | PStr s \<Rightarrow> Inr (map (\<lambda>c. PStr [c]) s)
      | PDict kvs \<Rightarrow> Inr (map (\<lambda>(k, _). PStr k) kvs)
      | _ \<Rightarrow> raise_exc TypeError ''object is not iterable'')"

section \<open>Reading a document\<close>

text \<open>\<open>document[key]\<close>, \<open>document.get(key, default)\<close>, iteration and \<open>int\<close>.\<close>

definition py_item :: "pyval \<Rightarrow> string \<Rightarrow> pyval res" where
  "py_item d k = (case d of
     PDict kvs \<Rightarrow> (case dict_get k kvs of None \<Rightarrow> raise_exc KeyError k | Some v \<Rightarrow> Inr v)
   | _ \<Rightarrow> raise_exc TypeError ''indices must be integers or object is not subscriptable'')"

definition py_get :: "pyval \<Rightarrow> string \<Rightarrow> pyval \<Rightarrow> pyval res" where
  "py_get d k default' = (case d of
     PDict kvs \<Rightarrow> Inr (case dict_get k kvs of None \<Rightarrow> default' | Some v \<Rightarrow> v)
   | _ \<Rightarrow> raise_exc (OtherError ''AttributeError'') ''object has no attribute get'')"

definition py_iter :: "pyval \<Rightarrow> pyval list res" where
  "py_iter v = (case v of
     PList vs \<Rightarrow> Inr vs | PTuple vs \<Rightarrow> Inr vs | PStr s \<Rightarrow> Inr (map (\<lambda>c. PStr [c]) s)
   | PDict kvs \<Rightarrow> Inr (map (\<lambda>(k, _). PStr k) kvs)
   | _ \<Rightarrow> raise_exc TypeError ''object is not iterable'')"

definition int_of_string :: "string \<Rightarrow> int option" where
  "int_of_string text =
     (let s = strip text; (sign, body) = scan_sign (filter (\<lambda>c. c \<noteq> CHR ''_'') s) in
      if underscores_ok False s \<and> body \<noteq> [] \<and> list_all is_digit body
      then Some (if sign = ''-'' then - digits_int body else digits_int body) else None)"

definition py_int :: "pyval \<Rightarrow> int res" where
  "py_int v = (case v of
     PBool b \<Rightarrow> Inr (if b then 1 else 0)
   | PInt i \<Rightarrow> Inr i
   | PFloat s \<Rightarrow> (case float_value s of
       Fin q \<Rightarrow> Inr (if q < 0 then - \<lfloor>- q\<rfloor> else \<lfloor>q\<rfloor>)
     | NaN \<Rightarrow> raise_exc ValueError ''cannot convert float NaN to integer''
     | _ \<Rightarrow> raise_exc OverflowError ''cannot convert float infinity to integer'')
   | PStr s \<Rightarrow> (case int_of_string s of Some i \<Rightarrow> Inr i | None \<Rightarrow> raise_exc ValueError ''invalid literal for int() with base 10'')
   | _ \<Rightarrow> raise_exc TypeError ''int() argument must be a string or a real number'')"

text \<open>\<open>value == n\<close> for an integer.\<close>

definition py_eq_int :: "pyval \<Rightarrow> int \<Rightarrow> bool" where
  "py_eq_int v n = (case v of
     PInt i \<Rightarrow> i = n | PBool b \<Rightarrow> (if b then 1 else 0) = n | PFloat s \<Rightarrow> float_value s = Fin (of_int n) | _ \<Rightarrow> False)"

text \<open>The strings a context is built from: anything else has no \<open>strip\<close>.\<close>

definition py_text :: "pyval \<Rightarrow> string res" where
  "py_text v = (case v of PStr s \<Rightarrow> Inr s | _ \<Rightarrow> raise_exc (OtherError ''AttributeError'') ''object has no attribute strip'')"

fun py_texts :: "pyval list \<Rightarrow> string list res" where
  "py_texts [] = Inr []"
| "py_texts (v # vs) = res_bind (py_text v) (\<lambda>s. res_bind (py_texts vs) (\<lambda>ss. Inr (s # ss)))"

lemma dict_get_order_items: "dict_get k (order_items srt kvs) = dict_get k kvs"
proof -
  have map_of_filter: "map_of xs k = (case filter (\<lambda>x. fst x = k) xs of [] \<Rightarrow> None | x # _ \<Rightarrow> Some (snd x))" for xs :: "(string \<times> 'v) list"
    by (induction xs) auto
  have "filter (\<lambda>x. fst x = k) (sort_key fst kvs) = filter (\<lambda>x. fst x = k) kvs" by (rule sort_key_stable)
  then show ?thesis by (simp add: dict_get_def order_items_def map_of_filter)
qed

lemma dict_get_map: "dict_get k (map (map_prod id f) kvs) = map_option f (dict_get k kvs)"
  by (induction kvs) (auto simp: dict_get_def)

lemma py_str_PStr [simp]: "py_str (PStr s) = s"
  by (simp add: py_str_def)

lemma float_texts:
  "float_of_text ''200.0'' = Some (Fin 200)" "float_of_text ''nan'' = Some NaN" "float_of_text ''12x'' = None"
  "float_of_text '' 1_2.5e-1 '' = Some (Fin (5 / 4))" "float_of_text ''-Infinity'' = Some NegInf"
  "float_of_text ''300.00000000000000001'' = Some (Fin 300)"
  by code_simp+

lemma float_of_large_int: "py_float (PInt 9007199254740993) = Inr (Fin 9007199254740992)"
  by code_simp

end
