(* ===== verification/Refunds.thy ===== *)
theory Refunds
  imports PyValue Runtime
begin

text \<open>
  The refund reference application (\<open>refund_ops.py\<close>): synthetic orders, the refund store with
  its uniqueness constraint, the policy and the governed action. What the code takes from
  SQLite is the text of a bound float in a TEXT column, the argument \<open>real_text\<close>.
\<close>

section \<open>Orders\<close>

type_synonym date = "nat \<times> nat \<times> nat"

definition date_le :: "date \<Rightarrow> date \<Rightarrow> bool" where
  "date_le d e = (case (d, e) of ((y, m, n), (y', m', n')) \<Rightarrow> y < y' \<or> y = y' \<and> (m < m' \<or> m = m' \<and> n \<le> n'))"

definition date_isoformat :: "date \<Rightarrow> string" where
  "date_isoformat d = (case d of (y, m, n) \<Rightarrow> padded 4 y @ ''-'' @ padded 2 m @ ''-'' @ padded 2 n)"

text \<open>Totals and limits are floats, given by their \<open>repr\<close>.\<close>

record Order =
  od_order_id :: string
  od_tenant_id :: string
  od_ordered_at :: date
  od_total :: string

record RefundPolicyVersion =
  rv_version :: string
  rv_effective_from :: date
  rv_auto_approve_limit :: string

type_synonym OrderStore = "(string \<times> Order) list"

definition OrderStore_init :: OrderStore where
  "OrderStore_init = [
     (''O-LOW'', \<lparr>od_order_id = ''O-LOW'', od_tenant_id = ''default'', od_ordered_at = (2026, 8, 1), od_total = ''200.0''\<rparr>),
     (''O-HIGH'', \<lparr>od_order_id = ''O-HIGH'', od_tenant_id = ''default'', od_ordered_at = (2026, 8, 1), od_total = ''800.0''\<rparr>),
     (''O-HIST'', \<lparr>od_order_id = ''O-HIST'', od_tenant_id = ''default'', od_ordered_at = (2026, 5, 20), od_total = ''400.0''\<rparr>),
     (''O-FOREIGN'', \<lparr>od_order_id = ''O-FOREIGN'', od_tenant_id = ''beta'', od_ordered_at = (2026, 8, 1), od_total = ''100.0''\<rparr>)]"

definition OrderStore_get :: "OrderStore \<Rightarrow> string \<Rightarrow> Order option" where
  "OrderStore_get orders order_id = dict_get order_id orders"

section \<open>The refund store\<close>

text \<open>A value bound to a statement, and the text a TEXT column holds of it.\<close>

datatype sql_value = SNull | SInt int | SReal string | SText string

definition sql_bind :: "pyval \<Rightarrow> sql_value res" where
  "sql_bind v =
     (case v of
        PNone \<Rightarrow> Inr SNull
      | PBool b \<Rightarrow> Inr (SInt (if b then 1 else 0))
      | PInt i \<Rightarrow> if - (2 ^ 63) \<le> i \<and> i < 2 ^ 63 then Inr (SInt i)
          else raise_exc OverflowError ''Python int too large to convert to SQLite INTEGER''
      | PFloat s \<Rightarrow> Inr (if s = ''nan'' then SNull else SReal s)
      | PStr s \<Rightarrow> Inr (SText s)
      | _ \<Rightarrow> raise_exc (OtherError ''ProgrammingError'') ''Error binding parameter: type is not supported'')"

definition text_of :: "(string \<Rightarrow> string) \<Rightarrow> sql_value \<Rightarrow> string option" where
  "text_of real_text v = (case v of
     SNull \<Rightarrow> None | SInt i \<Rightarrow> Some (int_str i) | SReal s \<Rightarrow> Some (real_text s) | SText s \<Rightarrow> Some s)"

record refund_row =
  rf_refund_id :: nat
  rf_order_id :: string
  rf_amount :: sql_value

record RefundStore =
  rs_refunds :: "refund_row list"
  rs_next_id :: nat

definition RefundStore_init :: RefundStore where
  "RefundStore_init = \<lparr>rs_refunds = [], rs_next_id = 1\<rparr>"

definition RefundStore_execute ::
  "(string \<Rightarrow> string) \<Rightarrow> pyval \<Rightarrow> pyval \<Rightarrow> RefundStore \<Rightarrow> (pyval \<times> RefundStore) res" where
  "RefundStore_execute real_text order_id amount store =
     res_bind (sql_bind order_id) (\<lambda>bound_id. res_bind (sql_bind amount) (\<lambda>bound_amount.
     case text_of real_text bound_id of
       None \<Rightarrow> raise_exc IntegrityError ''NOT NULL constraint failed: refunds.order_id''
     | Some key \<Rightarrow>
         if bound_amount = SNull then raise_exc IntegrityError ''NOT NULL constraint failed: refunds.amount''
         else if key \<in> rf_order_id ` set (rs_refunds store)
         then raise_exc IntegrityError ''UNIQUE constraint failed: refunds.order_id''
         else
           let row = \<lparr>rf_refund_id = rs_next_id store, rf_order_id = key, rf_amount = bound_amount\<rparr> in
           Inr (PDict [(''refund_id'', PInt (int (rs_next_id store))), (''order_id'', order_id), (''amount'', amount)],
             \<lparr>rs_refunds = rs_refunds store @ [row], rs_next_id = Suc (rs_next_id store)\<rparr>)))"

definition RefundStore_count :: "(string \<Rightarrow> string) \<Rightarrow> pyval \<Rightarrow> RefundStore \<Rightarrow> nat res" where
  "RefundStore_count real_text order_id store =
     (if order_id = PNone then Inr (length (rs_refunds store))
      else res_bind (sql_bind order_id) (\<lambda>v. case text_of real_text v of
        None \<Rightarrow> Inr 0
      | Some key \<Rightarrow> Inr (sql_count (\<lambda>r. rf_order_id r = key) (rs_refunds store))))"

section \<open>The policy\<close>

definition policy_versions :: "RefundPolicyVersion list" where
  "policy_versions = [
     \<lparr>rv_version = ''refund-v2026-01'', rv_effective_from = (2026, 1, 1), rv_auto_approve_limit = ''500.0''\<rparr>,
     \<lparr>rv_version = ''refund-v2026-07'', rv_effective_from = (2026, 7, 1), rv_auto_approve_limit = ''300.0''\<rparr>]"

record RefundPolicy =
  rp_orders :: OrderStore
  rp_config :: "(string \<times> pyval) list"
  rp_policy_digest :: string

definition policy_material :: "(string \<times> pyval) list \<Rightarrow> pyval" where
  "policy_material config = PDict [
     (''config'', PDict config),
     (''versions'', PList (map (\<lambda>v. PDict [
        (''version'', PStr (rv_version v)),
        (''effective_from'', PStr (date_isoformat (rv_effective_from v))),
        (''auto_approve_limit'', PFloat (rv_auto_approve_limit v))]) policy_versions))]"

text \<open>The constructor keeps a JSON copy of the configuration.\<close>

definition RefundPolicy_init :: "OrderStore \<Rightarrow> (string \<times> pyval) list \<Rightarrow> RefundPolicy res" where
  "RefundPolicy_init orders config =
     res_bind (json_dumps True True '', '' '': '' (PDict config)) (\<lambda>text.
     res_bind (json_loads text) (\<lambda>copy.
     case copy of
       PDict config' \<Rightarrow>
         res_bind (json_dumps True True '','' '':'' (policy_material config')) (\<lambda>encoded.
         Inr \<lparr>rp_orders = orders, rp_config = config', rp_policy_digest = digest_text encoded\<rparr>)
     | _ \<Rightarrow> raise_exc (OtherError ''AttributeError'') ''object has no attribute get''))"

text \<open>\<open>self.config.get(key, default)\<close>.\<close>

definition config_get :: "RefundPolicy \<Rightarrow> string \<Rightarrow> pyval \<Rightarrow> pyval" where
  "config_get p key default' = (case dict_get key (rp_config p) of None \<Rightarrow> default' | Some v \<Rightarrow> v)"

definition deny :: "RefundPolicy \<Rightarrow> string \<Rightarrow> string \<Rightarrow> (string \<times> pyval) list \<Rightarrow> PolicyDecision res" where
  "deny p reason policy_version facts =
     PolicyDecision_init DENY reason policy_version (PDict facts) (Some (rp_policy_digest p))"

definition select_policy :: "RefundPolicy \<Rightarrow> date \<Rightarrow> RefundPolicyVersion res" where
  "select_policy p ordered_at =
     (if config_get p ''selection_mode'' (PStr ''as_of_order'') = PStr ''latest'' then Inr (last policy_versions)
      else let eligible = filter (\<lambda>v. date_le (rv_effective_from v) ordered_at) policy_versions in
        if eligible = [] then raise_exc ValueError ''no refund policy is effective for the order date''
        else Inr (last eligible))"

definition policy_facts :: "Order \<Rightarrow> RefundPolicyVersion \<Rightarrow> (string \<times> pyval) list" where
  "policy_facts order policy = [
     (''order_date'', PStr (date_isoformat (od_ordered_at order))),
     (''selected_policy'', PStr (rv_version policy)),
     (''auto_approve_limit'', PFloat (rv_auto_approve_limit policy))]"

definition has_allowed_role :: "pyval list \<Rightarrow> ActionContext \<Rightarrow> bool" where
  "has_allowed_role allowed context \<longleftrightarrow> list_ex (\<lambda>role. PStr role \<in> set allowed) (cx_roles context)"

definition has_evidence :: "string \<Rightarrow> ActionContext \<Rightarrow> bool" where
  "has_evidence order_id context \<longleftrightarrow> ''ORDER:'' @ order_id \<in> set (cx_evidence context)
     \<and> ''LOGISTICS:'' @ order_id \<in> set (cx_evidence context)"

text \<open>\<open>float(arguments["amount"])\<close>, None for the exceptions the policy turns into a denial.\<close>

definition refund_amount :: "(string \<times> pyval) list \<Rightarrow> pyfloat option res" where
  "refund_amount arguments =
     (case dict_get ''amount'' arguments of
        None \<Rightarrow> Inr None
      | Some v \<Rightarrow> (case py_float v of
          Inr x \<Rightarrow> Inr (Some x)
        | Inl e \<Rightarrow> if exc_kind e \<in> {KeyError, TypeError, ValueError} then Inr None else Inl e))"

definition evaluate_order ::
  "RefundPolicy \<Rightarrow> Order \<Rightarrow> string \<Rightarrow> (string \<times> pyval) list \<Rightarrow> ActionContext \<Rightarrow> PolicyDecision res" where
  "evaluate_order p order order_id arguments context =
     res_bind (select_policy p (od_ordered_at order)) (\<lambda>policy.
     let facts = policy_facts order policy; version = rv_version policy in
     if od_tenant_id order \<noteq> cx_tenant_id context
     then deny p ''order is outside the tenant boundary'' version facts
     else res_bind (py_set (config_get p ''allowed_roles'' (PList [PStr ''refund_agent'', PStr ''refund_admin'']))) (\<lambda>allowed_roles.
     if py_truthy (config_get p ''enforce_roles'' (PBool True)) \<and> \<not> has_allowed_role allowed_roles context
     then deny p ''actor role is not allowed'' version facts
     else if py_truthy (config_get p ''require_evidence'' (PBool True)) \<and> \<not> has_evidence order_id context
     then deny p ''required order and logistics evidence is incomplete'' version facts
     else res_bind (refund_amount arguments) (\<lambda>value. case value of
       None \<Rightarrow> deny p ''refund amount is invalid'' version facts
     | Some amount \<Rightarrow>
         if amount \<le> Fin 0 \<or> float_value (od_total order) < amount
         then deny p ''refund amount exceeds the eligible order total'' version facts
         else if py_truthy (config_get p ''approval_enabled'' (PBool True)) \<and> float_value (rv_auto_approve_limit policy) < amount
         then PolicyDecision_init APPROVAL_REQUIRED
           (''amount exceeds '' @ fixed2 (float_value (rv_auto_approve_limit policy)) @ '' approval threshold'')
           version (PDict facts) (Some (rp_policy_digest p))
         else PolicyDecision_init ALLOW ''policy, identity, evidence, and amount checks passed'' version (PDict facts)
           (Some (rp_policy_digest p)))))"

definition RefundPolicy_evaluate :: "RefundPolicy \<Rightarrow> string \<Rightarrow> pyval \<Rightarrow> ActionContext \<Rightarrow> PolicyDecision res" where
  "RefundPolicy_evaluate p action_name arguments context =
     (case arguments of
        PDict kvs \<Rightarrow>
          let order_id = py_str (case dict_get ''order_id'' kvs of None \<Rightarrow> PStr [] | Some v \<Rightarrow> v) in
          (case OrderStore_get (rp_orders p) order_id of
             None \<Rightarrow> deny p ''order does not exist'' ''unresolved'' []
           | Some order \<Rightarrow>
               if action_name \<noteq> ''execute_refund'' then deny p ''order does not exist'' ''unresolved'' []
               else evaluate_order p order order_id kvs context)
      | _ \<Rightarrow> raise_exc (OtherError ''AttributeError'') ''object has no attribute get'')"

section \<open>The governed action\<close>

text \<open>The protected function, called with keyword arguments. The action has no context parameter,
  so every argument is a plain value.\<close>

definition execute_refund :: "(string \<Rightarrow> string) \<Rightarrow> kwargs \<Rightarrow> RefundStore \<Rightarrow> tool_result \<times> RefundStore" where
  "execute_refund real_text args store =
     (case (dict_get ''order_id'' args, dict_get ''amount'' args) of
        (Some (PlainArg order_id), Some (PlainArg amount)) \<Rightarrow>
          if length args \<noteq> 2 then (Failed ''TypeError'', store)
          else (case RefundStore_execute real_text order_id amount store of
             Inr (value, store') \<Rightarrow> (Returned value, store')
           | Inl e \<Rightarrow> (Failed (exc_name (exc_kind e)), store))
      | _ \<Rightarrow> (Failed ''TypeError'', store))"

definition refund_key :: "pyval \<Rightarrow> ActionContext \<Rightarrow> string res" where
  "refund_key arguments context =
     (case arguments of
        PDict kvs \<Rightarrow> (case dict_get ''order_id'' kvs of
            None \<Rightarrow> raise_exc KeyError ''order_id''
          | Some v \<Rightarrow> Inr (''refund:'' @ cx_tenant_id context @ '':'' @ py_str v))
      | _ \<Rightarrow> raise_exc TypeError ''object is not subscriptable'')"

definition build_refund_action ::
  "(string \<Rightarrow> string) \<Rightarrow> (string \<times> pyval) list \<Rightarrow> RefundStore TrustedAction res" where
  "build_refund_action real_text policy_config =
     res_bind (RefundPolicy_init OrderStore_init policy_config) (\<lambda>policy.
     TrustedAction_init
       \<lparr>pf_name = ''execute_refund'', pf_body = execute_refund real_text,
        pf_parameters = [(''order_id'', POSITIONAL_OR_KEYWORD), (''amount'', POSITIONAL_OR_KEYWORD)], pf_is_async = False\<rparr>
       (\<lambda>name arguments context. policy_outcome (RefundPolicy_evaluate policy name arguments context))
       refund_key ''financial'' None 60 3600 [''agenttrustops_approver''] [''agenttrustops_reconciler''] False None)"

end
