(* ===== verification/Runtime_Effects.thy ===== *)
theory Runtime_Effects
  imports Runtime_Results PyValue
begin

text \<open>
  What the methods of one action do to the systems outside: exactly what the calls in the log
  do, in their order. It is a third interpretation of \<open>world_preorder\<close>.
\<close>

section \<open>Replaying the log of calls\<close>

definition tool_effect :: "'w TrustedAction \<Rightarrow> tool_call \<Rightarrow> 'w \<Rightarrow> 'w" where
  "tool_effect act c e = snd (ta_function act (tc_arguments c) e)"

definition replayed_change :: "'w TrustedAction \<Rightarrow> 'w world \<Rightarrow> 'w world \<Rightarrow> bool" where
  "replayed_change act w w' \<longleftrightarrow> (\<exists>cs. w_log w' = w_log w @ cs \<and> (\<forall>c \<in> set cs. tc_action c = ta_name act)
     \<and> w_ext w' = fold (tool_effect act) cs (w_ext w))"

lemma replayed_refl: "replayed_change act w w"
  by (simp add: replayed_change_def)

lemma replayed_trans: "replayed_change act u v \<Longrightarrow> replayed_change act v w \<Longrightarrow> replayed_change act u w"
  unfolding replayed_change_def by (elim exE conjE) (rule exI [of _ "cs @ csa" for cs csa], auto)

interpretation replayed: world_preorder "replayed_change act" for act :: "'w TrustedAction"
  by unfold_locales (rule replayed_refl, erule replayed_trans)

lemma quiet_replayed: "quiet_change w w' \<Longrightarrow> replayed_change act w w'"
  by (auto simp: quiet_change_def replayed_change_def)

lemma replayed_if_quiet: "keeps quiet_change m \<Longrightarrow> keeps (replayed_change act) m"
  by (erule keeps_mono) (rule quiet_replayed)

lemma replayed_call_function: "keeps (replayed_change act) (call_function act rid owner args)"
  by (auto simp: keeps_def call_function_def replayed_change_def tool_effect_def split: prod.splits)

section \<open>The methods of an action\<close>

lemma replayed_execute:
  assumes "others_follow_protocol orc"
  shows "keeps (replayed_change act) (execute orc act is_async rid args)"
proof -
  have tool: "keeps (replayed_change act) (run_tool orc act rid owner args)" for owner
    unfolding run_tool_def
    by (intro replayed.keeps_intros replayed_call_function replayed_if_quiet [OF quiet_arguments [OF assms]])
  show ?thesis unfolding execute_def
    by (intro replayed.keeps_bind replayed.keeps_if replayed.keeps_fresh_id tool replayed_if_quiet [OF quiet_calls(6) [OF assms]]
        replayed_if_quiet [OF quiet_run_result [OF assms]] replayed_if_quiet [OF quiet_settle [OF assms]])
qed

lemma replayed_invoke_body:
  assumes "others_follow_protocol orc"
  shows "keeps (replayed_change act)
    (rt_bind (prepare_invoke orc act context args override) (run_prepared orc act is_async args))"
proof (rule replayed.keeps_bind [OF replayed_if_quiet [OF quiet_prepare_invoke [OF assms]]])
  show "keeps (replayed_change act) (run_prepared orc act is_async args p)" for p
    by (cases p) (simp_all add: run_prepared_def replayed_execute [OF assms] replayed.keeps_return)
qed

lemma replayed_resume_run:
  assumes "others_follow_protocol orc"
  shows "keeps (replayed_change act) (resume_run orc act is_async rid)"
  unfolding resume_run_def
proof (rule replayed.keeps_bind [OF replayed_if_quiet [OF quiet_prepare_resume [OF assms]]])
  show "keeps (replayed_change act) (case p of Inl r \<Rightarrow> execute orc act is_async rid (stored_arguments r) | Inr result \<Rightarrow> rt_return result)" for p
    by (intro replayed.keeps_sum replayed_execute assms replayed.keeps_return)
qed

text \<open>A plain argument a governed call carries, when it is JSON as it is, is the stored one.\<close>

lemma carried_argument:
  assumes "carries r kw" "dict_get k kw = Some (PlainArg v)" "json_norm True v = v"
  shows "\<exists>kvs. r_arguments r = PDict kvs \<and> dict_get k kvs = Some v"
proof -
  from assms(1) obtain args p ctxt where args: "json_norm True (PDict args) = r_arguments r"
    "kw = map (map_prod id PlainArg) args \<or> kw = dict_set p (ContextArg ctxt) (map (map_prod id PlainArg) args)"
    by (auto simp: carries_def)
  from args(2) assms(2) have "dict_get k (map (map_prod id PlainArg) args) = Some (PlainArg v)"
    by (auto simp: dict_get_set split: if_splits)
  then have "dict_get k args = Some v" by (auto simp: dict_get_map)
  moreover have "r_arguments r = PDict (order_items True (map (map_prod id (json_norm True)) args))"
    using args(1) by (simp add: order_items_map_prod del: map_map)
  ultimately show ?thesis using assms(3) by (simp add: dict_get_order_items dict_get_map)
qed

text \<open>The context a governed call carries is the one of its run.\<close>

lemma carried_context:
  assumes "carries r kw" "dict_get k kw = Some (ContextArg c)"
  shows "c = context_of r"
proof -
  from assms(1) obtain args p where "kw = map (map_prod id PlainArg) args
     \<or> kw = dict_set p (ContextArg (context_of r)) (map (map_prod id PlainArg) args)" by (auto simp: carries_def)
  with assms(2) show ?thesis by (auto simp: dict_get_set dict_get_map split: if_splits)
qed

text \<open>A call of a method of one action, except the lookup at a provider.\<close>

inductive action_step :: "'w TrustedAction \<Rightarrow> 'w world \<Rightarrow> 'w world \<Rightarrow> bool" for act where
  invoke: "others_follow_protocol orc \<Longrightarrow> invoke orc act context args w = (x, w') \<Longrightarrow> action_step act w w'"
| invoke_request: "others_follow_protocol orc \<Longrightarrow> invoke_request orc act context args key w = (x, w') \<Longrightarrow> action_step act w w'"
| invoke_async: "others_follow_protocol orc \<Longrightarrow> invoke_async orc act context args w = (x, w') \<Longrightarrow> action_step act w w'"
| invoke_request_async: "others_follow_protocol orc \<Longrightarrow> invoke_request_async orc act context args key w = (x, w') \<Longrightarrow> action_step act w w'"
| approve: "others_follow_protocol orc \<Longrightarrow> approve orc act rid approver reason w = (x, w') \<Longrightarrow> action_step act w w'"
| reject: "others_follow_protocol orc \<Longrightarrow> reject orc act rid approver reason w = (x, w') \<Longrightarrow> action_step act w w'"
| reconcile: "others_follow_protocol orc \<Longrightarrow> reconcile orc act rid outcome operator reason result w = (x, w') \<Longrightarrow> action_step act w w'"
| resume: "others_follow_protocol orc \<Longrightarrow> resume orc act rid w = (x, w') \<Longrightarrow> action_step act w w'"
| resume_async: "others_follow_protocol orc \<Longrightarrow> resume_async orc act rid w = (x, w') \<Longrightarrow> action_step act w w'"

lemma action_step_world: "action_step act w w' \<Longrightarrow> world_step w w'"
  by (induction rule: action_step.induct) (erule (1) world_step.intros)+

lemma action_step_replayed: "action_step act w w' \<Longrightarrow> replayed_change act w w'"
proof (induction rule: action_step.induct)
  case (approve orc rid approver reason w x w')
  then show ?case by (auto simp: approve_def intro: keepsD [OF replayed_if_quiet [OF quiet_decide]])
next
  case (reject orc rid approver reason w x w')
  then show ?case by (auto simp: reject_def intro: keepsD [OF replayed_if_quiet [OF quiet_decide]])
next
  case (reconcile orc rid outcome operator reason result w x w')
  then show ?case by (blast intro: keepsD [OF replayed_if_quiet [OF quiet_reconcile]])
qed (auto simp: invoke_def invoke_request_def invoke_async_def invoke_request_async_def resume_def resume_async_def
    split: if_splits intro: keepsD [OF replayed.keeps_raise] keepsD [OF replayed_invoke_body] keepsD [OF replayed_resume_run])

text \<open>The worlds the methods of one action reach, from some state of the systems outside.\<close>

abbreviation action_world :: "'w TrustedAction \<Rightarrow> 'w \<Rightarrow> 'w world \<Rightarrow> bool" where
  "action_world act e \<equiv> reach (\<lambda>w. fresh_world w \<and> w_ext w = e) (action_step act)"

lemma action_world_reachable: "action_world act e w \<Longrightarrow> reachable_world w"
  by (induction rule: reach.induct) (auto intro: reach.intros action_step_world)

lemma action_world_replays:
  "action_world act e w \<Longrightarrow> w_ext w = fold (tool_effect act) (w_log w) e \<and> (\<forall>c \<in> set (w_log w). tc_action c = ta_name act)"
proof (induction rule: reach.induct)
  case (step w w')
  from action_step_replayed [OF step.hyps(2)] step.IH show ?case by (auto simp: replayed_change_def)
qed (simp add: fresh_world_def)

end
