(* ===== verification/Refund_Props.thy ===== *)
theory Refund_Props
  imports Refunds Runtime_Effects Runtime_Demo
begin

text \<open>
  What the refund policy lets through, what the governed refund action can do to the refund
  store, and a demonstration world in which a refund is made.
\<close>

section \<open>The policy\<close>

lemma policy_versions_cases: "v \<in> set policy_versions \<longleftrightarrow> v = policy_versions ! 0 \<or> v = policy_versions ! 1"
  by (simp add: policy_versions_def)

lemma select_policy_version: "select_policy p d = Inr v \<Longrightarrow> v \<in> set policy_versions"
  by (auto simp: select_policy_def policy_versions_def Let_def split: if_splits)

lemma deny_outcome: "deny p reason version facts = Inr d \<Longrightarrow> pd_outcome d = DENY"
  by (auto simp: deny_def PolicyDecision_init_def split: if_splits)

text \<open>The order an argument dict names.\<close>

definition order_argument :: "(string \<times> pyval) list \<Rightarrow> string" where
  "order_argument kvs = py_str (case dict_get ''order_id'' kvs of None \<Rightarrow> PStr [] | Some v \<Rightarrow> v)"

definition refund_checks ::
  "RefundPolicy \<Rightarrow> (string \<times> pyval) list \<Rightarrow> ActionContext \<Rightarrow> Order \<Rightarrow> RefundPolicyVersion \<Rightarrow> pyfloat \<Rightarrow> bool" where
  "refund_checks p kvs context order policy amount \<longleftrightarrow>
     OrderStore_get (rp_orders p) (order_argument kvs) = Some order
     \<and> od_tenant_id order = cx_tenant_id context
     \<and> select_policy p (od_ordered_at order) = Inr policy
     \<and> (\<exists>roles. py_set (config_get p ''allowed_roles'' (PList [PStr ''refund_agent'', PStr ''refund_admin''])) = Inr roles
          \<and> (py_truthy (config_get p ''enforce_roles'' (PBool True)) \<longrightarrow> has_allowed_role roles context))
     \<and> (py_truthy (config_get p ''require_evidence'' (PBool True)) \<longrightarrow> has_evidence (order_argument kvs) context)
     \<and> refund_amount kvs = Inr (Some amount)"

text \<open>The outcome the checks lead to.\<close>

definition refund_outcome :: "RefundPolicy \<Rightarrow> Order \<Rightarrow> RefundPolicyVersion \<Rightarrow> pyfloat \<Rightarrow> PolicyOutcome" where
  "refund_outcome p order policy amount =
     (if amount \<le> Fin 0 \<or> float_value (od_total order) < amount then DENY
      else if py_truthy (config_get p ''approval_enabled'' (PBool True)) \<and> float_value (rv_auto_approve_limit policy) < amount
      then APPROVAL_REQUIRED else ALLOW)"

lemma PolicyDecision_init_outcome: "PolicyDecision_init outcome reason version facts dig = Inr d \<Longrightarrow> pd_outcome d = outcome"
  by (auto simp: PolicyDecision_init_def split: if_splits)

lemma evaluate_checked:
  assumes "RefundPolicy_evaluate p name (PDict kvs) context = Inr d" "pd_outcome d \<noteq> DENY"
  shows "name = ''execute_refund'' \<and> (\<exists>order policy amount. refund_checks p kvs context order policy amount
    \<and> pd_outcome d = refund_outcome p order policy amount)"
proof -
  from assms(1,2) obtain order where o: "OrderStore_get (rp_orders p) (order_argument kvs) = Some order" "name = ''execute_refund''"
    and e: "evaluate_order p order (order_argument kvs) kvs context = Inr d"
    by (auto simp: RefundPolicy_evaluate_def order_argument_def Let_def dest: deny_outcome split: option.splits if_splits)
  from e obtain policy where policy: "select_policy p (od_ordered_at order) = Inr policy" by (auto simp: evaluate_order_def)
  with e assms(2) have t: "od_tenant_id order = cx_tenant_id context"
    by (auto simp: evaluate_order_def Let_def dest: deny_outcome split: if_splits)
  with e policy obtain roles where roles: "py_set (config_get p ''allowed_roles'' (PList [PStr ''refund_agent'', PStr ''refund_admin''])) = Inr roles"
    by (auto simp: evaluate_order_def Let_def)
  with e policy t assms(2) have r: "py_truthy (config_get p ''enforce_roles'' (PBool True)) \<longrightarrow> has_allowed_role roles context"
    "py_truthy (config_get p ''require_evidence'' (PBool True)) \<longrightarrow> has_evidence (order_argument kvs) context"
    by (auto simp: evaluate_order_def Let_def dest: deny_outcome split: if_splits)
  with e policy t roles obtain found where found: "refund_amount kvs = Inr found" by (auto simp: evaluate_order_def Let_def split: if_splits)
  with e policy t roles r assms(2) obtain amount where amount: "found = Some amount"
    by (cases found) (auto simp: evaluate_order_def Let_def dest: deny_outcome split: if_splits)
  have "refund_checks p kvs context order policy amount"
    using o t policy roles r found amount by (auto simp: refund_checks_def)
  moreover have "pd_outcome d = refund_outcome p order policy amount"
    using e policy t roles r found amount assms(2)
    by (auto simp: evaluate_order_def refund_outcome_def Let_def dest: deny_outcome PolicyDecision_init_outcome split: if_splits)
  ultimately show ?thesis using o(2) by blast
qed

text \<open>A policy that was constructed has a digest, and its decisions can be recorded.\<close>

lemma strip_starts: "s \<noteq> [] \<Longrightarrow> \<not> py_isspace (hd s) \<Longrightarrow> strip s \<noteq> []"
proof -
  assume s: "s \<noteq> []" "\<not> py_isspace (hd s)"
  then have "strip s = rstrip s" by (simp add: strip_def lstrip_id)
  moreover have "rstrip s \<noteq> []" using s rstrip_prefix [of s] by (cases s) auto
  ultimately show ?thesis by simp
qed

lemma policy_init_InrD:
  "RefundPolicy_init orders config = Inr p \<Longrightarrow> rp_orders p = orders \<and> (\<exists>encoded. rp_policy_digest p = digest_text encoded)"
  unfolding RefundPolicy_init_def res_bind_eq_Inr
proof (elim exE conjE)
  fix t copy
  assume "(case copy of PDict config' \<Rightarrow> res_bind (json_dumps True True '','' '':'' (policy_material config'))
      (\<lambda>encoded. Inr \<lparr>rp_orders = orders, rp_config = config', rp_policy_digest = digest_text encoded\<rparr>)
    | _ \<Rightarrow> raise_exc (OtherError ''AttributeError'') ''object has no attribute get'') = Inr p"
  then show ?thesis by (cases copy) auto
qed

lemma policy_init_digest: "RefundPolicy_init orders config = Inr p \<Longrightarrow> strip (rp_policy_digest p) \<noteq> []"
proof -
  assume "RefundPolicy_init orders config = Inr p"
  then obtain encoded where "rp_policy_digest p = digest_text encoded" using policy_init_InrD by blast
  moreover have "strip (digest_text encoded) \<noteq> []"
    by (rule strip_starts) (simp_all add: digest_text_def py_isspace_def code_point_def)
  ultimately show ?thesis by simp
qed

lemma limit_texts: "scan_number ''500.0'' = Some (PFloat ''500.0'', [])" "scan_number ''300.0'' = Some (PFloat ''300.0'', [])"
  by code_simp+

lemma policy_facts_copy:
  assumes "v \<in> set policy_versions"
  shows "\<exists>facts. json_object_copy (PDict (policy_facts order v)) ''policy facts'' = Inr facts \<and> json_error True facts = None"
proof -
  have "json_wf (PDict (policy_facts order v)) \<and> json_error True (PDict (policy_facts order v)) = None"
    using assms by (auto simp: policy_facts_def policy_versions_def limit_texts nonfinite_def)
  then show ?thesis by (simp add: json_object_copy_def json_copy_eq del: json_norm_PDict)
qed

lemma version_texts: "v \<in> set policy_versions \<Longrightarrow> strip (rv_version v) \<noteq> []"
  by (rule strip_starts) (auto simp: policy_versions_def py_isspace_def code_point_def)

lemma decision_enabled:
  assumes "RefundPolicy_init orders config = Inr p" "v \<in> set policy_versions" "reason \<noteq> []" "\<not> py_isspace (hd reason)"
  shows "\<exists>d. PolicyDecision_init outcome reason (rv_version v) (PDict (policy_facts order v)) (Some (rp_policy_digest p)) = Inr d
    \<and> pd_outcome d = outcome \<and> json_error True (pd_facts d) = None \<and> pd_policy_digest d = Some (strip (rp_policy_digest p))"
  using policy_facts_copy [OF assms(2), of order] version_texts [OF assms(2)] policy_init_digest [OF assms(1)]
    strip_starts [OF assms(3,4)] by (auto simp: PolicyDecision_init_def)

lemma checks_evaluate:
  assumes "RefundPolicy_init orders config = Inr p" "refund_checks p kvs context order policy amount"
  shows "\<exists>d. RefundPolicy_evaluate p ''execute_refund'' (PDict kvs) context = Inr d
    \<and> pd_outcome d = refund_outcome p order policy amount
    \<and> json_error True (pd_facts d) = None \<and> pd_policy_digest d = Some (strip (rp_policy_digest p))"
proof -
  from assms(2) obtain roles where c: "OrderStore_get (rp_orders p) (order_argument kvs) = Some order"
    "od_tenant_id order = cx_tenant_id context" "select_policy p (od_ordered_at order) = Inr policy"
    "py_set (config_get p ''allowed_roles'' (PList [PStr ''refund_agent'', PStr ''refund_admin''])) = Inr roles"
    "py_truthy (config_get p ''enforce_roles'' (PBool True)) \<longrightarrow> has_allowed_role roles context"
    "py_truthy (config_get p ''require_evidence'' (PBool True)) \<longrightarrow> has_evidence (order_argument kvs) context"
    "refund_amount kvs = Inr (Some amount)" by (auto simp: refund_checks_def)
  have "RefundPolicy_evaluate p ''execute_refund'' (PDict kvs) context = evaluate_order p order (order_argument kvs) kvs context"
    using c(1) by (simp add: RefundPolicy_evaluate_def order_argument_def)
  moreover have "\<exists>d. evaluate_order p order (order_argument kvs) kvs context = Inr d \<and> pd_outcome d = refund_outcome p order policy amount
      \<and> json_error True (pd_facts d) = None \<and> pd_policy_digest d = Some (strip (rp_policy_digest p))"
    using c decision_enabled [OF assms(1) select_policy_version [OF c(3)]]
    by (auto simp: evaluate_order_def Let_def refund_outcome_def deny_def py_isspace_def code_point_def)
  ultimately show ?thesis by simp
qed


section \<open>A demonstration policy\<close>

lemma order_totals:
  "float_value ''200.0'' = Fin 200" "float_value ''800.0'' = Fin 800" "float_value ''400.0'' = Fin 400"
  "float_value ''100.0'' = Fin 100" "float_value ''500.0'' = Fin 500" "float_value ''300.0'' = Fin 300"
  by code_simp+

definition demo_config :: "(string \<times> pyval) list" where
  "demo_config = [(''release'', PStr ''v1'')]"

lemma demo_config_copy: "res_bind (json_dumps True True '', '' '': '' (PDict demo_config)) json_loads = Inr (PDict demo_config)"
  by code_simp

lemma demo_refund_policy:
  obtains p where "RefundPolicy_init OrderStore_init demo_config = Inr p" "rp_config p = demo_config" "rp_orders p = OrderStore_init"
proof -
  have "json_error True (policy_material demo_config) = None"
    by (simp add: policy_material_def policy_versions_def nonfinite_def order_items_def demo_config_def)
  moreover from demo_config_copy obtain t where "json_dumps True True '', '' '': '' (PDict demo_config) = Inr t"
    "json_loads t = Inr (PDict demo_config)" by auto
  ultimately show ?thesis
    by (intro that [of "\<lparr>rp_orders = OrderStore_init, rp_config = demo_config,
          rp_policy_digest = digest_text (json_render True True '','' '':'' (policy_material demo_config))\<rparr>"])
      (simp_all add: RefundPolicy_init_def, simp add: json_dumps_def)
qed

definition refund_context :: ActionContext where
  "refund_context = \<lparr>cx_actor_id = ''agent'', cx_tenant_id = ''default'', cx_roles = [''refund_agent''],
     cx_evidence = [''LOGISTICS:O-LOW'', ''ORDER:O-LOW''], cx_metadata = PDict []\<rparr>"

definition low_order :: Order where
  "low_order = \<lparr>od_order_id = ''O-LOW'', od_tenant_id = ''default'', od_ordered_at = (2026, 8, 1), od_total = ''200.0''\<rparr>"

definition refund_arguments :: "pyval \<Rightarrow> (string \<times> pyval) list" where
  "refund_arguments amount = [(''order_id'', PStr ''O-LOW''), (''amount'', amount)]"

lemma demo_refund_checks:
  assumes "rp_config p = demo_config" "rp_orders p = OrderStore_init" "py_float amount = Inr x"
  shows "refund_checks p (refund_arguments amount) refund_context low_order (policy_versions ! 1) x"
    and "refund_outcome p low_order (policy_versions ! 1) x =
      (if x \<le> Fin 0 \<or> Fin 200 < x then DENY else if Fin 300 < x then APPROVAL_REQUIRED else ALLOW)"
  using assms by (simp_all add: refund_checks_def refund_outcome_def refund_arguments_def refund_context_def low_order_def
      order_argument_def OrderStore_get_def OrderStore_init_def dict_get_def select_policy_def config_get_def policy_versions_def
      date_le_def py_set_def py_truthy_def has_allowed_role_def has_evidence_def refund_amount_def order_totals demo_config_def)


text \<open>The text \<open>nan\<close> passes every comparison: it is allowed as an amount.\<close>

theorem nan_refund_is_allowed:
  "\<exists>p d. RefundPolicy_init OrderStore_init demo_config = Inr p
     \<and> RefundPolicy_evaluate p ''execute_refund'' (PDict (refund_arguments (PStr ''nan''))) refund_context = Inr d
     \<and> pd_outcome d = ALLOW"
proof (rule demo_refund_policy)
  fix p
  assume p: "RefundPolicy_init OrderStore_init demo_config = Inr p" "rp_config p = demo_config" "rp_orders p = OrderStore_init"
  have "py_float (PStr ''nan'') = Inr NaN" by (simp add: py_float_def float_texts)
  note c = demo_refund_checks [OF p(2,3) this]
  from checks_evaluate [OF p(1) c(1)] c(2) p(1) show ?thesis by auto
qed

end
