(* ===== verification/Refund_Action.thy ===== *)
theory Refund_Action
  imports Refund_Props
begin

text \<open>
  The governed refund action: what its calls can do to the refund store, and which refunds an
  invocation makes on its own, without an approval.
\<close>

section \<open>The store\<close>

definition order_text :: "(string \<Rightarrow> string) \<Rightarrow> pyval \<Rightarrow> string option" where
  "order_text real_text v = (case sql_bind v of Inl _ \<Rightarrow> None | Inr b \<Rightarrow> text_of real_text b)"

definition refunded :: "RefundStore \<Rightarrow> string list" where
  "refunded store = map rf_order_id (rs_refunds store)"

text \<open>A call adds at most one refund, for the order it names.\<close>

lemma execute_refund_store:
  "snd (execute_refund real_text kw store) = store
   \<or> (\<exists>v key. dict_get ''order_id'' kw = Some (PlainArg v) \<and> order_text real_text v = Some key
      \<and> key \<notin> set (refunded store) \<and> refunded (snd (execute_refund real_text kw store)) = refunded store @ [key])"
proof -
  have stored: "\<exists>key. order_text real_text v = Some key \<and> key \<notin> set (refunded store) \<and> refunded store' = refunded store @ [key]"
    if "RefundStore_execute real_text v amount store = Inr (x, store')" for v amount x store'
    using that by (auto simp: RefundStore_execute_def order_text_def refunded_def Let_def split: option.splits if_splits)
  show ?thesis
    by (auto simp: execute_refund_def split: option.split arg_value.split sum.split prod.split dest!: stored)
qed

definition names_order :: "(string \<Rightarrow> string) \<Rightarrow> string \<Rightarrow> tool_call \<Rightarrow> bool" where
  "names_order real_text key c \<longleftrightarrow>
     (\<exists>v. dict_get ''order_id'' (tc_arguments c) = Some (PlainArg v) \<and> order_text real_text v = Some key)"

lemma calls_refund_once:
  assumes "ta_function act = execute_refund real_text"
  shows "distinct (refunded (fold (tool_effect act) cs RefundStore_init))
    \<and> length (refunded (fold (tool_effect act) cs RefundStore_init)) \<le> length cs
    \<and> (\<forall>key \<in> set (refunded (fold (tool_effect act) cs RefundStore_init)). \<exists>c \<in> set cs. names_order real_text key c)"
proof (induction cs rule: rev_induct)
  case Nil
  show ?case by (simp add: refunded_def RefundStore_init_def)
next
  case (snoc c cs)
  define store where "store = fold (tool_effect act) cs RefundStore_init"
  have step: "fold (tool_effect act) (cs @ [c]) RefundStore_init = snd (execute_refund real_text (tc_arguments c) store)"
    by (simp add: store_def tool_effect_def assms)
  note IH = snoc.IH [folded store_def]
  from execute_refund_store [of real_text "tc_arguments c" store] show ?case
  proof (elim disjE exE conjE)
    assume "snd (execute_refund real_text (tc_arguments c) store) = store"
    with IH show ?thesis unfolding step by auto
  next
    fix v key
    assume k: "dict_get ''order_id'' (tc_arguments c) = Some (PlainArg v)" "order_text real_text v = Some key"
      "key \<notin> set (refunded store)" "refunded (snd (execute_refund real_text (tc_arguments c) store)) = refunded store @ [key]"
    then have "names_order real_text key c" by (auto simp: names_order_def)
    with IH k(3) show ?thesis unfolding step k(4) by auto
  qed
qed

section \<open>The stored request of a call\<close>

lemma order_text_norm: "order_text real_text v = Some key \<Longrightarrow> json_norm True v = v"
  by (cases v) (auto simp: order_text_def sql_bind_def raise_exc_def)

text \<open>The order a governed call names is the order of the stored request.\<close>

definition run_order :: "(string \<Rightarrow> string) \<Rightarrow> run_row \<Rightarrow> string option" where
  "run_order real_text r = (case r_arguments r of
     PDict kvs \<Rightarrow> (case dict_get ''order_id'' kvs of None \<Rightarrow> None | Some v \<Rightarrow> order_text real_text v) | _ \<Rightarrow> None)"

lemma carries_order:
  assumes "carries r (tc_arguments c)" "names_order real_text key c"
  shows "run_order real_text r = Some key"
proof -
  from assms(2) obtain v where v: "dict_get ''order_id'' (tc_arguments c) = Some (PlainArg v)" "order_text real_text v = Some key"
    by (auto simp: names_order_def)
  from carried_argument [OF assms(1) v(1) order_text_norm [OF v(2)]] v(2) show ?thesis by (auto simp: run_order_def)
qed

section \<open>The built action\<close>

lemma action_texts: "strip ''financial'' = ''financial''" "strip ''execute_refund'' = ''execute_refund''"
  "sorted_strip_set [''agenttrustops_approver''] \<noteq> []" "sorted_strip_set [''agenttrustops_reconciler''] \<noteq> []"
  by code_simp+

lemma build_refund_action_InrD:
  assumes "build_refund_action real_text config = Inr act"
  shows "\<exists>p. RefundPolicy_init OrderStore_init config = Inr p \<and> ta_function act = execute_refund real_text
    \<and> ta_policy act = (\<lambda>name arguments context. policy_outcome (RefundPolicy_evaluate p name arguments context))
    \<and> ta_idempotency_key act = refund_key \<and> ta_name act = ''execute_refund'' \<and> ta_risk act = ''financial''
    \<and> ta_lease_seconds act = 60 \<and> ta_approval_ttl_seconds act = 3600 \<and> ta_context_parameter act = None \<and> \<not> ta_is_async act"
proof -
  from assms obtain p where p: "RefundPolicy_init OrderStore_init config = Inr p" by (auto simp: build_refund_action_def)
  with assms show ?thesis
    by (auto simp: build_refund_action_def TrustedAction_init_def Let_def action_texts validate_execution_context_parameter_def)
qed

text \<open>C4: every refund is governed: whatever methods of the refund action are called in whatever
  order, while other clients use the ledger, each order is refunded at most once, there are at
  most as many refunds as tool calls, and every refund was made by a call for a run of the
  ledger that names that order, that a policy decided and that has the approval it asked for.\<close>

theorem every_refund_is_governed:
  assumes "build_refund_action real_text config = Inr act" "action_world act RefundStore_init w"
  shows "distinct (refunded (w_ext w)) \<and> length (refunded (w_ext w)) \<le> length (w_log w)
    \<and> (\<forall>key \<in> set (refunded (w_ext w)). \<exists>c \<in> set (w_log w). \<exists>r. fetch_run (w_ledger w) (tc_run c) = Some r
        \<and> r_action_name r = ''execute_refund'' \<and> run_order real_text r = Some key \<and> r_policy_version r \<noteq> None
        \<and> (logged ''approval.requested'' (log_of (run_events (w_ledger w) (tc_run c)))
            \<longrightarrow> logged ''approval.approved'' (log_of (run_events (w_ledger w) (tc_run c)))))"
proof -
  obtain p where act: "ta_function act = execute_refund real_text" "ta_name act = ''execute_refund''"
    using build_refund_action_InrD [OF assms(1)] by blast
  from action_world_replays [OF assms(2)] have ext: "w_ext w = fold (tool_effect act) (w_log w) RefundStore_init" by simp
  note ok = reachable_world_ok [OF action_world_reachable [OF assms(2)]]
  have governed: "\<exists>r. fetch_run (w_ledger w) (tc_run c) = Some r \<and> r_action_name r = ''execute_refund''
      \<and> run_order real_text r = Some key \<and> r_policy_version r \<noteq> None
      \<and> (logged ''approval.requested'' (log_of (run_events (w_ledger w) (tc_run c)))
          \<longrightarrow> logged ''approval.approved'' (log_of (run_events (w_ledger w) (tc_run c))))"
    if c: "c \<in> set (w_log w)" "names_order real_text key c" for c key
  proof -
    from ok c(1) obtain r where r: "fetch_run (w_ledger w) (tc_run c) = Some r" "r_action_name r = tc_action c"
      "carries r (tc_arguments c)" "started_by (w_ledger w) (tc_run c) (tc_owner c)" by (auto simp: world_ok_def governed_call_def)
    have "started (r_status r)" using started_by_run [OF world_ok_inv [OF ok] r(4)] r(1) by auto
    note auth = started_run_authorised [OF world_ok_inv [OF ok] r(1) this]
    have "tc_action c = ''execute_refund''" using action_world_replays [OF assms(2)] c(1) act(2) by simp
    with r(1,2) carries_order [OF r(3) c(2)] auth(1,2) show ?thesis by auto
  qed
  with calls_refund_once [OF act(1), of "w_log w"] show ?thesis unfolding ext by blast
qed

section \<open>Refunds without an approval\<close>

lemma float_of_text_order: "OrderStore_get OrderStore_init k = Some order \<Longrightarrow> float_value (od_total order) \<noteq> NaN"
  by (auto simp: OrderStore_get_def OrderStore_init_def dict_get_def order_totals split: if_splits)

lemma limit_not_nan: "v \<in> set policy_versions \<Longrightarrow> float_value (rv_auto_approve_limit v) \<noteq> NaN"
  by (auto simp: policy_versions_def order_totals)

text \<open>What the policy checked of a request it allowed bounds the refund that was made of it.\<close>

definition within_policy :: "(string \<times> pyval) list \<Rightarrow> (string \<times> pyval) list \<Rightarrow> ActionContext \<Rightarrow> bool" where
  "within_policy config args context \<longleftrightarrow> (\<exists>p order policy amount. RefundPolicy_init OrderStore_init config = Inr p
    \<and> refund_checks p args context order policy amount
    \<and> (amount = NaN \<or> Fin 0 < amount \<and> amount \<le> float_value (od_total order)
        \<and> (py_truthy (config_get p ''approval_enabled'' (PBool True)) \<longrightarrow> amount \<le> float_value (rv_auto_approve_limit policy))))"

lemma allowed_refund_within_policy:
  assumes "build_refund_action real_text config = Inr act" "reachable_world w" "action_step act w w'"
    "ta_policy act (ta_name act) (PDict args) context = Decided d" "pd_outcome d = ALLOW"
  shows "within_policy config args context \<and> length (refunded (w_ext w')) \<le> Suc (length (refunded (w_ext w)))"
proof -
  obtain p where p: "RefundPolicy_init OrderStore_init config = Inr p" and act: "ta_function act = execute_refund real_text"
    "ta_policy act = (\<lambda>name arguments context. policy_outcome (RefundPolicy_evaluate p name arguments context))"
    using build_refund_action_InrD [OF assms(1)] by blast
  with assms(4) have "RefundPolicy_evaluate p (ta_name act) (PDict args) context = Inr d"
    by (auto simp: act(2) policy_outcome_def split: sum.splits)
  from evaluate_checked [OF this] assms(5) obtain order policy amount where c: "refund_checks p args context order policy amount"
    "refund_outcome p order policy amount = ALLOW" by auto
  have total: "float_value (od_total order) \<noteq> NaN"
    using c(1) policy_init_InrD [OF p] by (auto simp: refund_checks_def dest: float_of_text_order)
  have limit: "float_value (rv_auto_approve_limit policy) \<noteq> NaN"
    using c(1) by (auto simp: refund_checks_def dest!: select_policy_version limit_not_nan)
  have bounds: "amount = NaN \<or> Fin 0 < amount \<and> amount \<le> float_value (od_total order)
      \<and> (py_truthy (config_get p ''approval_enabled'' (PBool True)) \<longrightarrow> amount \<le> float_value (rv_auto_approve_limit policy))"
    using c(2) total limit by (auto simp: refund_outcome_def not_le_float not_less_float split: if_splits)
  from world_step_ok [OF action_step_world [OF assms(3)] reachable_world_ok [OF assms(2)]] obtain rid where "calls_at_most_once rid w w'"
    by (auto simp: method_ok_def)
  moreover have "replayed_change act w w'" by (rule action_step_replayed [OF assms(3)])
  ultimately obtain cs where cs: "w_ext w' = fold (tool_effect act) cs (w_ext w)" "length cs \<le> 1"
    by (auto simp: calls_at_most_once_def replayed_change_def)
  have "length (refunded (w_ext w')) \<le> Suc (length (refunded (w_ext w)))"
  proof (cases cs)
    case (Cons c cs')
    with cs have "w_ext w' = snd (execute_refund real_text (tc_arguments c) (w_ext w))" by (simp add: tool_effect_def act(1))
    with execute_refund_store [of real_text "tc_arguments c" "w_ext w"] show ?thesis by auto
  qed (use cs in simp)
  with p c(1) bounds show ?thesis unfolding within_policy_def by blast
qed


section \<open>A refund\<close>

definition refund_demo_world :: "RefundStore world" where
  "refund_demo_world = \<lparr>w_ledger = empty_ledger, w_calls = 0, w_ext = RefundStore_init, w_log = []\<rparr>"

lemma refund_demo_fresh: "fresh_world refund_demo_world"
  by (simp add: fresh_world_def refund_demo_world_def reach.start)

lemma refund_demo_key: "strip ''refund:default:O-LOW'' = ''refund:default:O-LOW''"
  by code_simp

lemma demo_refund_action:
  obtains act p where "build_refund_action id demo_config = Inr act" "RefundPolicy_init OrderStore_init demo_config = Inr p" "rp_config p = demo_config"
    "ta_policy act = (\<lambda>name arguments context. policy_outcome (RefundPolicy_evaluate p name arguments context))"
    "ta_function act = execute_refund id" "ta_idempotency_key act = refund_key" "ta_name act = ''execute_refund''"
    "ta_risk act = ''financial''" "ta_lease_seconds act = 60" "ta_approval_ttl_seconds act = 3600"
    "ta_context_parameter act = None" "\<not> ta_is_async act"
proof (rule demo_refund_policy)
  fix p
  assume p: "RefundPolicy_init OrderStore_init demo_config = Inr p" "rp_config p = demo_config" "rp_orders p = OrderStore_init"
  then obtain act where act: "build_refund_action id demo_config = Inr act"
    by (auto simp: build_refund_action_def TrustedAction_init_def Let_def action_texts validate_execution_context_parameter_def)
  from build_refund_action_InrD [OF this] p(1) that [OF act p(1,2)] show thesis by auto
qed

text \<open>The demo request, whichever method \<open>m\<close> brings it and whoever asks.\<close>

lemma demo_refund_executes:
  assumes act: "RefundPolicy_init OrderStore_init demo_config = Inr p" "rp_config p = demo_config"
    "ta_policy act = (\<lambda>name arguments context. policy_outcome (RefundPolicy_evaluate p name arguments context))"
    "ta_function act = execute_refund id" "ta_name act = ''execute_refund''" "ta_lease_seconds act = 60"
    "ta_approval_ttl_seconds act = 3600" "ta_context_parameter act = None"
    and checks: "refund_checks p (refund_arguments (PInt 200)) ctxt low_order (policy_versions ! 1) (Fin 200)"
    and json: "json_error True (or_empty (cx_metadata ctxt)) = None"
    and key: "governed_key act (PDict (refund_arguments (PInt 200))) ctxt override = Inr key"
    and m: "m refund_demo_world = rt_bind (prepare_invoke demo_schedule act ctxt (refund_arguments (PInt 200)) override)
       (run_prepared demo_schedule act False (refund_arguments (PInt 200))) refund_demo_world"
  obtains res w' where "m refund_demo_world = (Inr res, w')" "refunded (w_ext w') = [''O-LOW'']" "ar_status res = COMPLETED"
proof -
  let ?args = "refund_arguments (PInt 200)"
  have "py_float (PInt 200) = Inr (Fin 200)" by code_simp
  from demo_refund_checks(2) [OF act(2) conjunct1 [OF policy_init_InrD [OF act(1)]] this]
  have "refund_outcome p low_order (policy_versions ! 1) (Fin 200) = ALLOW" by simp
  with checks_evaluate [OF act(1) checks] obtain d where
    d: "RefundPolicy_evaluate p ''execute_refund'' (PDict ?args) ctxt = Inr d" "pd_outcome d = ALLOW"
      "json_error True (pd_facts d) = None" "decision_digest d = Inr (strip (rp_policy_digest p))"
    using policy_init_digest [OF act(1)] by (auto simp: decision_digest_def)
  have args: "json_error True (PDict ?args) = None" by (simp add: refund_arguments_def)
  obtain fp where fp: "request_fingerprint (cx_tenant_id ctxt) (cx_actor_id ctxt) (cx_roles ctxt)
     (cx_evidence ctxt) (ta_name act) (ta_risk act) (PDict ?args) (cx_metadata ctxt) = Inr fp"
    using args json by (auto simp: request_fingerprint_def fingerprint_document_def)
  define v where "v = PDict [(''refund_id'', PInt 1), (''order_id'', PStr ''O-LOW''), (''amount'', PInt 200)]"
  define ext where "ext = \<lparr>rs_refunds = [\<lparr>rf_refund_id = 1, rf_order_id = ''O-LOW'', rf_amount = SInt 200\<rparr>], rs_next_id = 2\<rparr>"
  have tool: "execute_refund id (map (map_prod id PlainArg) ?args) RefundStore_init = (Returned v, ext)"
    by (simp add: execute_refund_def refund_arguments_def dict_get_def RefundStore_execute_def sql_bind_def text_of_def
        RefundStore_init_def v_def ext_def)
  have plain: "\<not> supplies_context act ?args" by (simp add: supplies_context_def act(8))
  have given: "arguments_with_execution_context demo_schedule act rid ?args x
      = (Inr (map (map_prod id PlainArg) ?args), x\<lparr>w_calls := w_calls x + 0\<rparr>)" for rid x
    by (simp add: arguments_with_execution_context_def act(8) rt_return_def)
  have "\<exists>res w'. m refund_demo_world = (Inr res, w') \<and> ar_status res = COMPLETED
    \<and> ar_value res = json_norm True v \<and> \<not> ar_duplicate res \<and> w_ext w' = ext
    \<and> w_log w' = w_log refund_demo_world @ [\<lparr>tc_action = ta_name act, tc_run = ''run_'' @ o_uuid demo_schedule (w_calls refund_demo_world),
         tc_owner = ''worker_'' @ o_uuid demo_schedule (w_calls refund_demo_world + 2),
         tc_arguments = map (map_prod id PlainArg) ?args\<rparr>]
    \<and> (\<exists>r. fetch_run (w_ledger w') (''run_'' @ o_uuid demo_schedule (w_calls refund_demo_world)) = Some r
        \<and> r_arguments r = json_norm True (PDict ?args))
    \<and> changes_only (''run_'' @ o_uuid demo_schedule (w_calls refund_demo_world)) (w_ledger refund_demo_world) (w_ledger w')"
  proof (rule invoke_enabled_with [where m = m and w = refund_demo_world and n = 0, OF demo_alone _ m plain given _ _ _ _ key fp args json, where d = d and dig = "strip (rp_policy_digest p)"
        and lease = 180000000])
    show "add_seconds (now_at (o_env demo_schedule (w_calls refund_demo_world + 2)) 0) (nat (ta_lease_seconds act)) = Inr 180000000"
      using demo_lease by (simp add: refund_demo_world_def numeral_2_eq_2 act(6) demo_action_def)
    show "distinct (event_ids (w_ledger refund_demo_world) @ concat (map (\<lambda>i. call_ids demo_schedule (w_calls refund_demo_world + i)) [0, 1, 2, 3 + 0]))"
      using demo_run_ids by (simp add: refund_demo_world_def event_ids_def empty_ledger_def)
    show "ledger_inv (w_ledger refund_demo_world)" by (simp add: refund_demo_world_def)
    show "json_error True v = None" by (simp add: v_def)
  qed (use d tool demo_worker in \<open>simp_all add: refund_demo_world_def empty_ledger_def act policy_outcome_def\<close>)
  with that show thesis by (auto simp: ext_def refunded_def)
qed

lemma demo_refunded:
  obtains act res w' where "build_refund_action id demo_config = Inr act"
    "invoke demo_schedule act refund_context (refund_arguments (PInt 200)) refund_demo_world = (Inr res, w')"
    "refunded (w_ext w') = [''O-LOW'']" "ar_status res = COMPLETED"
proof (rule demo_refund_action)
  fix act p
  assume act: "build_refund_action id demo_config = Inr act" "RefundPolicy_init OrderStore_init demo_config = Inr p" "rp_config p = demo_config"
    "ta_policy act = (\<lambda>name arguments context. policy_outcome (RefundPolicy_evaluate p name arguments context))"
    "ta_function act = execute_refund id" "ta_idempotency_key act = refund_key" "ta_name act = ''execute_refund''"
    "ta_risk act = ''financial''" "ta_lease_seconds act = 60" "ta_approval_ttl_seconds act = 3600"
    "ta_context_parameter act = None" "\<not> ta_is_async act"
  have "py_float (PInt 200) = Inr (Fin 200)" by code_simp
  note checks = demo_refund_checks(1) [OF act(3) conjunct1 [OF policy_init_InrD [OF act(2)]] this]
  have key: "governed_key act (PDict (refund_arguments (PInt 200))) refund_context None = Inr ''refund:default:O-LOW''"
    by (simp add: governed_key_def act(6) refund_key_def refund_arguments_def dict_get_def refund_context_def refund_demo_key)
  have "json_error True (or_empty (cx_metadata refund_context)) = None" by (simp add: refund_context_def or_empty_def)
  from demo_refund_executes [where m = "invoke demo_schedule act refund_context (refund_arguments (PInt 200))",
      OF act(2-5,7,9-11) checks this key invoke_prepared [OF act(12)]] that [OF act(1)] show thesis by blast
qed

theorem every_refund_is_governed_witness:
  "\<exists>(w :: RefundStore world) c r. refunded (w_ext w) = [''O-LOW''] \<and> c \<in> set (w_log w)
     \<and> fetch_run (w_ledger w) (tc_run c) = Some r \<and> run_order id r = Some ''O-LOW''"
proof (rule demo_refunded)
  fix act res w'
  assume a: "build_refund_action id demo_config = Inr act"
    "invoke demo_schedule act refund_context (refund_arguments (PInt 200)) refund_demo_world = (Inr res, w')"
    "refunded (w_ext w') = [''O-LOW'']"
  have "action_world act RefundStore_init refund_demo_world"
    by (rule reach.start) (simp add: refund_demo_fresh, simp add: refund_demo_world_def)
  then have "action_world act RefundStore_init w'"
    by (rule reach.step) (rule action_step.invoke [OF alone_protocol [OF demo_alone] a(2)])
  from every_refund_is_governed [OF a(1) this] a(3) show ?thesis by (intro exI [of _ w']) auto
qed


end
