(* ===== verification/Runtime_Audit.thy ===== *)
theory Runtime_Audit
  imports Runtime Ledger_Reads
begin

text \<open>
  Reading the ledger from a world: a read transaction returns the tables it sees, and an audit
  trail is put together from four of them.
\<close>

definition read_ledger :: "schedule \<Rightarrow> ('w, ledger) rt" where
  "read_ledger orc = ledger_call orc (\<lambda>_ l. Inr (l, l))"

text \<open>\<open>audit_trail\<close> of the ledger, which the method of \<open>TrustedAction\<close> calls as it is.\<close>

definition action_audit_trail :: "schedule \<Rightarrow> string \<Rightarrow> VerifiedPrincipal option \<Rightarrow> ('w, pydict option) rt" where
  "action_audit_trail orc run_id viewer =
     rt_bind (read_ledger orc) (\<lambda>l0. rt_bind (read_ledger orc) (\<lambda>l1. rt_bind (read_ledger orc) (\<lambda>l2.
     rt_bind (read_ledger orc) (\<lambda>l3. rt_lift (audit_trail (\<lambda>i. [l0, l1, l2, l3] ! i) ''sqlite'' run_id viewer)))))"

end
