(* ===== verification/Release.thy ===== *)
theory Release
  imports Refund_Action Runtime_Audit
begin

text \<open>
  The release evaluation of the refund application (\<open>evaluate_release\<close>) and its walkthrough
  (\<open>run_refund_demo\<close>). Every scenario runs on a ledger and a refund store of its own; the
  documents are JSON values, and what a malformed one makes the code raise is kept.
\<close>

section \<open>One scenario\<close>

definition scenario_context :: "pyval \<Rightarrow> ActionContext res" where
  "scenario_context scenario =
     res_bind (py_get scenario ''actor_id'' (PStr ''synthetic-agent'')) (\<lambda>actor.
     res_bind (py_get scenario ''tenant_id'' (PStr ''default'')) (\<lambda>tenant.
     res_bind (res_bind (py_get scenario ''roles'' (PList [])) py_iter) (\<lambda>roles.
     res_bind (res_bind (py_get scenario ''evidence'' (PList [])) py_iter) (\<lambda>evidence.
     res_bind (py_text actor) (\<lambda>actor_id. res_bind (py_text tenant) (\<lambda>tenant_id.
     res_bind (py_texts roles) (\<lambda>role_texts. res_bind (py_texts evidence) (\<lambda>evidence_texts.
     ActionContext_init actor_id tenant_id role_texts evidence_texts (PDict [])))))))))"

text \<open>The invocations after the first: only the result of the last one counts.\<close>

fun invoke_again ::
  "schedule \<Rightarrow> 'w TrustedAction \<Rightarrow> ActionContext \<Rightarrow> (string \<times> pyval) list \<Rightarrow> nat \<Rightarrow> ActionResult \<Rightarrow> ('w, ActionResult) rt" where
  "invoke_again orc act context arguments 0 result = rt_return result"
| "invoke_again orc act context arguments (Suc n) result =
     rt_bind (invoke orc act context arguments) (invoke_again orc act context arguments n)"

definition scenario_world :: "RefundStore world" where
  "scenario_world = \<lparr>w_ledger = empty_ledger, w_calls = 0, w_ext = RefundStore_init, w_log = []\<rparr>"

definition run_scenario ::
  "(string \<Rightarrow> string) \<Rightarrow> schedule \<Rightarrow> (string \<times> pyval) list \<Rightarrow> pyval \<Rightarrow> (ActionResult \<times> nat) res" where
  "run_scenario real_text orc policy_config scenario =
     res_bind (build_refund_action real_text policy_config) (\<lambda>action.
     res_bind (scenario_context scenario) (\<lambda>context.
     res_bind (py_item scenario ''order_id'') (\<lambda>order_id. res_bind (py_item scenario ''amount'') (\<lambda>amount.
     let arguments = [(''order_id'', order_id), (''amount'', amount)];
         (outcome, world) = rt_bind (invoke orc action context arguments)
           (\<lambda>result. rt_bind (rt_lift (res_bind (py_get scenario ''repeat'' (PInt 1)) py_int)) (\<lambda>times.
             invoke_again orc action context arguments (nat (times - 1)) result)) scenario_world in
     res_bind outcome (\<lambda>result.
     res_bind (RefundStore_count real_text order_id (w_ext world)) (\<lambda>refund_count.
     Inr (result, refund_count)))))))"

section \<open>The evaluation\<close>

record scenario_result =
  sr_id :: pyval
  sr_expected_status :: pyval
  sr_actual_status :: string
  sr_expected_policy :: pyval
  sr_actual_policy :: "string option"
  sr_refund_count :: nat
  sr_passed :: bool

record release_metrics =
  rm_release :: pyval
  rm_scenarios :: nat
  rm_wrong_decisions :: nat
  rm_wrong_policy_decisions :: nat
  rm_approval_bypasses :: nat
  rm_duplicate_side_effects :: nat
  rm_results :: "scenario_result list"

definition record_scenario ::
  "pyval \<Rightarrow> pyval \<Rightarrow> pyval \<Rightarrow> ActionResult \<Rightarrow> nat \<Rightarrow> release_metrics \<Rightarrow> release_metrics" where
  "record_scenario id' wanted_status wanted_policy result refund_count m =
     (let decision_correct = (PStr (status_value (ar_status result)) = wanted_status);
          policy_correct = (wanted_policy = PNone \<or> opt_str (ar_policy_version result) = wanted_policy) in
      m\<lparr>rm_scenarios := rm_scenarios m + 1,
        rm_wrong_decisions := rm_wrong_decisions m + (if decision_correct then 0 else 1),
        rm_wrong_policy_decisions := rm_wrong_policy_decisions m + (if policy_correct then 0 else 1),
        rm_approval_bypasses := rm_approval_bypasses m
          + (if wanted_status = PStr (status_value PENDING_APPROVAL) \<and> ar_status result = COMPLETED then 1 else 0),
        rm_duplicate_side_effects := rm_duplicate_side_effects m + (if 1 < refund_count then refund_count - 1 else 0),
        rm_results := rm_results m @ [\<lparr>sr_id = id', sr_expected_status = wanted_status,
          sr_actual_status = status_value (ar_status result), sr_expected_policy = wanted_policy,
          sr_actual_policy = ar_policy_version result, sr_refund_count = refund_count,
          sr_passed = (decision_correct \<and> policy_correct \<and> refund_count \<le> 1)\<rparr>]\<rparr>)"

fun evaluate_scenarios ::
  "(string \<Rightarrow> string) \<Rightarrow> (nat \<Rightarrow> schedule) \<Rightarrow> (string \<times> pyval) list \<Rightarrow> nat \<Rightarrow> pyval list \<Rightarrow> release_metrics \<Rightarrow> release_metrics res" where
  "evaluate_scenarios real_text orcs policy_config index [] m = Inr m"
| "evaluate_scenarios real_text orcs policy_config index (scenario # scenarios) m =
     res_bind (run_scenario real_text (orcs index) policy_config scenario) (\<lambda>(result, refund_count).
     res_bind (py_item scenario ''expected_status'') (\<lambda>wanted_status.
     res_bind (py_get scenario ''expected_policy'' PNone) (\<lambda>wanted_policy.
     res_bind (py_item scenario ''id'') (\<lambda>id'.
     evaluate_scenarios real_text orcs policy_config (Suc index) scenarios
       (record_scenario id' wanted_status wanted_policy result refund_count m)))))"

definition empty_metrics :: "pyval \<Rightarrow> release_metrics" where
  "empty_metrics release = \<lparr>rm_release = release, rm_scenarios = 0, rm_wrong_decisions = 0, rm_wrong_policy_decisions = 0,
     rm_approval_bypasses = 0, rm_duplicate_side_effects = 0, rm_results = []\<rparr>"

definition release_allowed :: "release_metrics \<Rightarrow> bool" where
  "release_allowed m \<longleftrightarrow> rm_wrong_decisions m = 0 \<and> rm_wrong_policy_decisions m = 0
     \<and> rm_approval_bypasses m = 0 \<and> rm_duplicate_side_effects m = 0"

definition evaluate_release ::
  "(string \<Rightarrow> string) \<Rightarrow> (nat \<Rightarrow> schedule) \<Rightarrow> pyval \<Rightarrow> pyval \<Rightarrow> (release_metrics \<times> bool) res" where
  "evaluate_release real_text orcs scenarios_document policy_document =
     res_bind (py_item policy_document ''release'') (\<lambda>release.
     res_bind (res_bind (py_item scenarios_document ''scenarios'') py_iter) (\<lambda>scenarios.
     case policy_document of
       PDict policy_config \<Rightarrow>
         res_bind (evaluate_scenarios real_text orcs policy_config 0 scenarios (empty_metrics release)) (\<lambda>m.
         Inr (m, release_allowed m))
     | _ \<Rightarrow> raise_exc TypeError ''object is not subscriptable''))"

section \<open>The walkthrough\<close>

definition walkthrough_config :: "(string \<times> pyval) list" where
  "walkthrough_config = [
     (''release'', PStr ''refund-agent-safe-v0.3.0''), (''selection_mode'', PStr ''as_of_order''),
     (''approval_enabled'', PBool True), (''require_evidence'', PBool True), (''enforce_roles'', PBool True),
     (''allowed_roles'', PList [PStr ''refund_agent'', PStr ''refund_admin''])]"

definition trail_event_types :: "pydict \<Rightarrow> pyval list res" where
  "trail_event_types trail = res_bind (res_bind (py_item (PDict trail) ''events'') py_iter) (\<lambda>events.
     foldr (\<lambda>e acc. res_bind (py_item e ''event_type'') (\<lambda>t. res_bind acc (\<lambda>ts. Inr (t # ts)))) events (Inr []))"

record walkthrough =
  wt_run_id :: string
  wt_states :: "string list"
  wt_refund_count :: nat
  wt_events :: "pyval list"

definition run_refund_demo :: "(string \<Rightarrow> string) \<Rightarrow> schedule \<Rightarrow> walkthrough res" where
  "run_refund_demo real_text orc =
     res_bind (build_refund_action real_text walkthrough_config) (\<lambda>action.
     res_bind (ActionContext_init ''refund-agent'' ''default'' [''refund_agent''] [''ORDER:O-HIGH'', ''LOGISTICS:O-HIGH'']
       (PDict [])) (\<lambda>context.
     res_bind (VerifiedPrincipal_init ''finance-manager'' ''default'' [''agenttrustops_approver''] ''synthetic-demo-identity'') (\<lambda>manager.
     let (outcome, world) =
       rt_bind (invoke orc action context [(''order_id'', PStr ''O-HIGH''), (''amount'', PInt 800)]) (\<lambda>pending.
       rt_bind (approve orc action (ar_run_id pending) manager ''Approved after reviewing synthetic order evidence'') (\<lambda>approved.
       rt_bind (resume orc action (ar_run_id pending)) (\<lambda>completed.
       rt_bind (action_audit_trail orc (ar_run_id pending) None) (\<lambda>trail.
       rt_return (pending, approved, completed, trail))))) scenario_world in
     res_bind outcome (\<lambda>(pending, approved, completed, trail).
     case trail of
       None \<Rightarrow> raise_exc RuntimeError ''demo audit trail was not persisted''
     | Some t \<Rightarrow>
         res_bind (RefundStore_count real_text (PStr ''O-HIGH'') (w_ext world)) (\<lambda>refund_count.
         res_bind (trail_event_types t) (\<lambda>events.
         Inr \<lparr>wt_run_id = ar_run_id pending,
              wt_states = map (\<lambda>r. status_value (ar_status r)) [pending, approved, completed],
              wt_refund_count = refund_count, wt_events = events\<rparr>))))))"

section \<open>The release gate\<close>

lemma record_scenario_results:
  "rm_scenarios m = length (rm_results m) \<Longrightarrow> rm_scenarios (record_scenario i s p result n m) = length (rm_results (record_scenario i s p result n m))"
  by (simp add: record_scenario_def Let_def)

text \<open>A bypassed approval is a wrong decision, so the counters are zero exactly while all pass.\<close>

lemma record_scenario_gate:
  assumes "release_allowed m = (\<forall>r \<in> set (rm_results m). sr_passed r)"
  shows "release_allowed (record_scenario i s p result n m) = (\<forall>r \<in> set (rm_results (record_scenario i s p result n m)). sr_passed r)"
proof -
  have "status_value PENDING_APPROVAL \<noteq> status_value COMPLETED" by simp
  with assms show ?thesis by (auto simp: record_scenario_def release_allowed_def Let_def)
qed

lemma evaluate_scenarios_gate:
  assumes "evaluate_scenarios real_text orcs config index scenarios m = Inr m'"
    "release_allowed m = (\<forall>r \<in> set (rm_results m). sr_passed r)" "rm_scenarios m = length (rm_results m)"
  shows "release_allowed m' = (\<forall>r \<in> set (rm_results m'). sr_passed r) \<and> rm_scenarios m' = length (rm_results m')
    \<and> length (rm_results m') = length (rm_results m) + length scenarios"
  using assms
proof (induction scenarios arbitrary: index m)
  case (Cons scenario scenarios)
  from Cons.prems(1) obtain result n s p i where
    "evaluate_scenarios real_text orcs config (Suc index) scenarios (record_scenario i s p result n m) = Inr m'" by auto
  from Cons.IH [OF this record_scenario_gate [OF Cons.prems(2)] record_scenario_results [OF Cons.prems(3)]]
  show ?case by (simp add: record_scenario_def Let_def)
qed simp


section \<open>A scenario that passes\<close>

definition demo_scenario :: pyval where
  "demo_scenario = PDict [(''id'', PStr ''low''), (''order_id'', PStr ''O-LOW''), (''amount'', PInt 200),
     (''actor_id'', PStr ''agent''), (''roles'', PList [PStr ''refund_agent'']),
     (''evidence'', PList [PStr ''ORDER:O-LOW'', PStr ''LOGISTICS:O-LOW'']), (''expected_status'', PStr ''completed'')]"

lemma demo_scenario_context: "scenario_context demo_scenario = Inr refund_context"
  by code_simp

lemma demo_scenario_items:
  "py_item demo_scenario ''order_id'' = Inr (PStr ''O-LOW'')" "py_item demo_scenario ''amount'' = Inr (PInt 200)"
  "py_item demo_scenario ''id'' = Inr (PStr ''low'')" "py_item demo_scenario ''expected_status'' = Inr (PStr ''completed'')"
  "py_get demo_scenario ''expected_policy'' PNone = Inr PNone" "py_get demo_scenario ''repeat'' (PInt 1) = Inr (PInt 1)"
  by (simp_all add: py_item_def py_get_def demo_scenario_def dict_get_def)

lemma count_refunded: "sql_count (\<lambda>r. rf_order_id r = key) (rs_refunds store) = count_list (refunded store) key"
  by (simp add: sql_count_def refunded_def count_list_eq_length_filter filter_map comp_def eq_commute [of key])

lemma demo_scenario_run:
  obtains res where "run_scenario id demo_schedule demo_config demo_scenario = Inr (res, 1)" "ar_status res = COMPLETED"
proof (rule demo_refunded)
  fix act res w'
  assume a: "build_refund_action id demo_config = Inr act"
    "invoke demo_schedule act refund_context (refund_arguments (PInt 200)) refund_demo_world = (Inr res, w')"
    "refunded (w_ext w') = [''O-LOW'']" "ar_status res = COMPLETED"
  have "invoke demo_schedule act refund_context [(''order_id'', PStr ''O-LOW''), (''amount'', PInt 200)] scenario_world = (Inr res, w')"
    using a(2) by (simp add: refund_arguments_def scenario_world_def refund_demo_world_def)
  moreover have "RefundStore_count id (PStr ''O-LOW'') (w_ext w') = Inr 1"
    by (simp add: RefundStore_count_def sql_bind_def text_of_def count_refunded a(3))
  ultimately have "run_scenario id demo_schedule demo_config demo_scenario = Inr (res, 1)"
    by (simp add: run_scenario_def a(1) demo_scenario_context demo_scenario_items rt_bind_def rt_lift_def py_int_def rt_return_def)
  then show thesis using a(4) by (rule that)
qed


end
