(* ===== verification/Base64.thy ===== *)
theory Base64
  imports Sha256 PyValue
begin

text \<open>
  Base64 as \<open>base64.b64encode\<close> and \<open>base64.b64decode(..., validate=True)\<close> compute it: groups of
  three bytes as four characters, padded at the end only. The audit bundles carry keys and
  signatures in it.
\<close>

section \<open>Encoding\<close>

definition b64_char :: "nat \<Rightarrow> char" where
  "b64_char n = (if n < 26 then char_of (65 + n) else if n < 52 then char_of (71 + n)
     else if n < 62 then char_of (n - 4) else if n = 62 then CHR ''+'' else CHR ''/'')"

definition b64_val :: "char \<Rightarrow> nat option" where
  "b64_val c = (let n = code_point c in
     if 65 \<le> n \<and> n \<le> 90 then Some (n - 65)
     else if 97 \<le> n \<and> n \<le> 122 then Some (n - 71)
     else if 48 \<le> n \<and> n \<le> 57 then Some (n + 4)
     else if c = CHR ''+'' then Some 62 else if c = CHR ''/'' then Some 63 else None)"

definition pad_char :: char where "pad_char = CHR ''=''"

fun b64encode :: "u8 list \<Rightarrow> string" where
  "b64encode [] = []"
| "b64encode [a] = [b64_char (unat a div 4), b64_char (unat a mod 4 * 16), pad_char, pad_char]"
| "b64encode [a, b] = [b64_char (unat a div 4), b64_char (unat a mod 4 * 16 + unat b div 16), b64_char (unat b mod 16 * 4), pad_char]"
| "b64encode (a # b # c # bytes) =
     [b64_char (unat a div 4), b64_char (unat a mod 4 * 16 + unat b div 16), b64_char (unat b mod 16 * 4 + unat c div 64),
      b64_char (unat c mod 64)] @ b64encode bytes"

section \<open>Decoding\<close>

fun b64_groups :: "string \<Rightarrow> u8 list option" where
  "b64_groups [] = Some []"
| "b64_groups (p # q # r # s # rest) =
     (case (b64_val p, b64_val q) of
        (Some i, Some j) \<Rightarrow>
          if r = pad_char then
            (if s = pad_char \<and> rest = [] then Some [word_of_nat (i * 4 + j div 16)] else None)
          else if s = pad_char then
            (case b64_val r of
               Some k \<Rightarrow> if rest = [] then Some [word_of_nat (i * 4 + j div 16), word_of_nat (j mod 16 * 16 + k div 4)] else None
             | None \<Rightarrow> None)
          else
            (case (b64_val r, b64_val s, b64_groups rest) of
               (Some k, Some l, Some bytes) \<Rightarrow>
                 Some (word_of_nat (i * 4 + j div 16) # word_of_nat (j mod 16 * 16 + k div 4) # word_of_nat (k mod 4 * 64 + l) # bytes)
             | _ \<Rightarrow> None)
      | _ \<Rightarrow> None)"
| "b64_groups _ = None"

definition b64decode :: "pyval \<Rightarrow> u8 list res" where
  "b64decode v = (case v of
     PStr s \<Rightarrow> (case b64_groups s of Some bytes \<Rightarrow> Inr bytes | None \<Rightarrow> raise_exc ValueError ''Incorrect padding or character'')
   | _ \<Rightarrow> raise_exc TypeError ''argument should be a bytes-like object or ASCII string'')"

section \<open>Round trip\<close>

lemma b64_char_code: "n < 64 \<Longrightarrow> code_point (b64_char n) =
    (if n < 26 then 65 + n else if n < 52 then 71 + n else if n < 62 then n - 4 else if n = 62 then 43 else 47)"
  by (simp add: b64_char_def code_point_def)

lemma b64_val_char [simp]: "n < 64 \<Longrightarrow> b64_val (b64_char n) = Some n"
proof -
  assume n: "n < 64"
  consider "n < 26" | "26 \<le> n \<and> n < 52" | "52 \<le> n \<and> n < 62" | "n = 62" | "n = 63" using n by linarith
  then show ?thesis
  proof cases
    case 4 then show ?thesis by (simp add: b64_val_def b64_char_def code_point_def)
  next
    case 5 then show ?thesis by (simp add: b64_val_def b64_char_def code_point_def)
  qed (use n in \<open>auto simp: b64_val_def Let_def b64_char_code\<close>)
qed

lemma b64_char_pad [simp]: "n < 64 \<Longrightarrow> b64_char n \<noteq> pad_char"
proof
  assume "n < 64" "b64_char n = pad_char"
  then have "b64_val pad_char = Some n" by (metis b64_val_char)
  then show False by (simp add: b64_val_def pad_char_def code_point_def)
qed

lemma byte_bound [simp]: "unat (a :: u8) < 256"
  using unsigned_less [of a, where ?'a = nat] by simp

lemma sextet_parts:
  fixes a b c :: nat
  assumes "a < 256" "b < 256" "c < 256"
  shows "a div 4 < 64" "a mod 4 * 16 < 64" "a mod 4 * 16 + b div 16 < 64" "b mod 16 * 4 < 64" "b mod 16 * 4 + c div 64 < 64"
    "a div 4 * 4 + a mod 4 * 16 div 16 = a" "a div 4 * 4 + (a mod 4 * 16 + b div 16) div 16 = a"
    "(a mod 4 * 16 + b div 16) mod 16 * 16 + b mod 16 * 4 div 4 = b"
    "(a mod 4 * 16 + b div 16) mod 16 * 16 + (b mod 16 * 4 + c div 64) div 4 = b"
    "(b mod 16 * 4 + c div 64) mod 4 * 64 + c mod 64 = c"
proof -
  have d: "a div 4 < 64" "b div 16 < 16" "c div 64 < 4" using assms by (simp_all add: div_less_iff_less_mult)
  have m: "a mod 4 \<le> 3" "b mod 16 \<le> 15" using pos_mod_bound [of 4 a] by (simp_all add: Suc_leI [THEN order_trans] less_Suc_eq_le [symmetric])
  show "a div 4 < 64" "a mod 4 * 16 < 64" "a mod 4 * 16 + b div 16 < 64" "b mod 16 * 4 < 64" "b mod 16 * 4 + c div 64 < 64"
    using d m by linarith+
  show "a div 4 * 4 + a mod 4 * 16 div 16 = a" "a div 4 * 4 + (a mod 4 * 16 + b div 16) div 16 = a"
    "(a mod 4 * 16 + b div 16) mod 16 * 16 + b mod 16 * 4 div 4 = b"
    "(a mod 4 * 16 + b div 16) mod 16 * 16 + (b mod 16 * 4 + c div 64) div 4 = b"
    "(b mod 16 * 4 + c div 64) mod 4 * 64 + c mod 64 = c"
    using d by simp_all
qed

lemma b64_roundtrip [simp]: "b64_groups (b64encode bytes) = Some bytes"
proof (induction bytes rule: b64encode.induct)
  case (2 a)
  show ?case using sextet_parts [OF byte_bound [of a] byte_bound [of a] byte_bound [of a]] by simp
next
  case (3 a b)
  show ?case using sextet_parts [OF byte_bound [of a] byte_bound [of b] byte_bound [of b]] by simp
next
  case (4 a b c bytes)
  then show ?case using sextet_parts [OF byte_bound [of a] byte_bound [of b] byte_bound [of c]] by simp
qed simp

lemma b64decode_encode [simp]: "b64decode (PStr (b64encode bytes)) = Inr bytes"
  by (simp add: b64decode_def)

end
