(* ===== verification/Bundles.thy ===== *)
theory Bundles
  imports Base64 Ledger_Reports
begin

text \<open>
  Portable audit bundles (\<open>audit.py\<close>): the export of redacted trails, the digest and the optional
  signature of a bundle, and its verification. Ed25519 is the \<open>cryptography\<close> package's: its
  operations are a parameter. A key file is the result of loading it.
\<close>

section \<open>Keys and signatures\<close>

text \<open>Signing keys are of type \<open>'k\<close>; public keys and signatures are their raw bytes.\<close>

record 'k ed25519 =
  ed_public :: "'k \<Rightarrow> u8 list"
  ed_sign :: "'k \<Rightarrow> u8 list \<Rightarrow> u8 list"
  ed_accepts :: "u8 list \<Rightarrow> bool"
  ed_verify :: "u8 list \<Rightarrow> u8 list \<Rightarrow> u8 list \<Rightarrow> bool"

definition bundle_schema :: string where
  "bundle_schema = ''agenttrustops-audit-bundle-v1''"

definition canonical_json :: "pyval \<Rightarrow> u8 list res" where
  "canonical_json v = res_bind (json_dumps False True '','' '':'' v) (\<lambda>t. Inr (utf8_encode t))"

definition sha256_text :: "u8 list \<Rightarrow> string" where
  "sha256_text bytes = ''sha256:'' @ sha256_hexdigest bytes"

section \<open>Export\<close>

text \<open>The flags of a trail: whether it includes sensitive fields, and whether its chain failed.\<close>

definition trail_sensitive :: "pyval \<Rightarrow> bool res" where
  "trail_sensitive trail = res_bind (py_item trail ''sensitive_fields_included'') (\<lambda>v. Inr (py_truthy v))"

definition trail_failed :: "pyval \<Rightarrow> bool res" where
  "trail_failed trail = res_bind (res_bind (py_item trail ''integrity'') (\<lambda>d. py_item d ''chain_verified''))
     (\<lambda>v. Inr (\<not> py_truthy v))"

text \<open>The trails of the listed runs, each read in its own transactions.\<close>

definition exportable :: "string \<Rightarrow> pydict option \<Rightarrow> pydict res" where
  "exportable run_id found =
     (case found of
        None \<Rightarrow> raise_exc RuntimeError ''a listed run disappeared during audit export''
      | Some trail \<Rightarrow>
          res_bind (trail_sensitive (PDict trail)) (\<lambda>sensitive.
          if sensitive then raise_exc RuntimeError ''portable audit bundles must be redacted''
          else res_bind (trail_failed (PDict trail)) (\<lambda>failed.
          if failed then raise_exc ValueError (''source event chain failed for run '' @ run_id) else Inr trail)))"

fun export_trails :: "(nat \<Rightarrow> nat \<Rightarrow> ledger) \<Rightarrow> string \<Rightarrow> nat \<Rightarrow> pydict list \<Rightarrow> pydict list res" where
  "export_trails seen backend i [] = Inr []"
| "export_trails seen backend i (run # runs) =
     res_bind (res_bind (py_item (PDict run) ''run_id'') (\<lambda>v. Inr (py_str v))) (\<lambda>run_id.
     res_bind (audit_trail (seen i) backend run_id None) (\<lambda>found.
     res_bind (exportable run_id found) (\<lambda>trail.
     res_bind (export_trails seen backend (Suc i) runs) (\<lambda>trails. Inr (trail # trails)))))"

definition bundle_payload :: "datetime \<Rightarrow> string \<Rightarrow> string option \<Rightarrow> pydict list \<Rightarrow> pyval" where
  "bundle_payload now backend tenant trails = PDict [
     (''schema'', PStr bundle_schema),
     (''exported_at'', PStr (isoformat now)),
     (''source'', PDict [(''backend'', PStr backend), (''tenant_scope'', opt_str tenant)]),
     (''run_count'', PInt (int (length trails))),
     (''runs'', PList (map PDict trails))]"

definition bundle_signature :: "'k ed25519 \<Rightarrow> 'k \<Rightarrow> u8 list \<Rightarrow> pyval" where
  "bundle_signature crypto key canonical = PDict [
     (''algorithm'', PStr ''Ed25519''),
     (''value'', PStr (b64encode (ed_sign crypto key canonical))),
     (''public_key'', PStr (b64encode (ed_public crypto key))),
     (''public_key_fingerprint'', PStr (sha256_text (ed_public crypto key)))]"

definition export_audit_bundle ::
  "'k ed25519 \<Rightarrow> datetime \<Rightarrow> ledger \<Rightarrow> (nat \<Rightarrow> nat \<Rightarrow> ledger) \<Rightarrow> string \<Rightarrow> string option \<Rightarrow> int \<Rightarrow> 'k res option \<Rightarrow> pyval res" where
  "export_audit_bundle crypto now l seen backend tenant limit signing_key =
     res_bind (list_runs l tenant None limit) (\<lambda>runs.
     res_bind (export_trails seen backend 0 runs) (\<lambda>trails.
     let payload = bundle_payload now backend tenant trails in
     res_bind (canonical_json payload) (\<lambda>canonical.
     res_bind (case signing_key of
         None \<Rightarrow> Inr PNone
       | Some loaded \<Rightarrow> res_bind loaded (\<lambda>key. Inr (bundle_signature crypto key canonical))) (\<lambda>signature.
     Inr (PDict [(''payload'', payload),
       (''proof'', PDict [(''digest'', PStr (sha256_text canonical)), (''signature'', signature)])])))))"

section \<open>Verification\<close>

record bundle_report =
  br_run_count :: nat
  br_digest :: pyval
  br_signature_verified :: bool
  br_trust_mode :: string
  br_signer_fingerprint :: "string option"

text \<open>\<open>len(value)\<close>, and \<open>value == n\<close> for an int \<open>n\<close>.\<close>

definition py_len :: "pyval \<Rightarrow> nat res" where
  "py_len v = (case v of
     PStr s \<Rightarrow> Inr (length s) | PList vs \<Rightarrow> Inr (length vs) | PTuple vs \<Rightarrow> Inr (length vs) | PDict kvs \<Rightarrow> Inr (length kvs)
   | _ \<Rightarrow> raise_exc TypeError ''object has no len()'')"

text \<open>\<open>any(test(x) for x in values)\<close>, where the test may raise.\<close>

fun py_any :: "('a \<Rightarrow> bool res) \<Rightarrow> 'a list \<Rightarrow> bool res" where
  "py_any test [] = Inr False"
| "py_any test (x # xs) = res_bind (test x) (\<lambda>b. if b then Inr True else py_any test xs)"

text \<open>The signature part: the trust mode and the fingerprint of the signer.\<close>

definition verify_signature ::
  "'k ed25519 \<Rightarrow> u8 list \<Rightarrow> u8 list res option \<Rightarrow> pyval \<Rightarrow> (string \<times> string) res" where
  "verify_signature crypto canonical trusted_key signature =
     res_bind (py_get signature ''algorithm'' PNone) (\<lambda>algorithm.
     if algorithm \<noteq> PStr ''Ed25519'' then raise_exc ValueError ''unsupported audit signature algorithm''
     else res_bind (res_bind (py_item signature ''public_key'') b64decode) (\<lambda>embedded_raw.
     if \<not> ed_accepts crypto embedded_raw then raise_exc ValueError ''An Ed25519 public key is 32 bytes long''
     else res_bind (py_get signature ''public_key_fingerprint'' PNone) (\<lambda>fingerprint.
     if fingerprint \<noteq> PStr (sha256_text embedded_raw) then raise_exc ValueError ''audit signer fingerprint does not match''
     else res_bind (case trusted_key of
         None \<Rightarrow> Inr ''embedded-key''
       | Some loaded \<Rightarrow> res_bind loaded (\<lambda>trusted_raw.
           if trusted_raw \<noteq> embedded_raw then raise_exc ValueError ''audit signature does not use the trusted key''
           else Inr ''pinned-key'')) (\<lambda>trust_mode.
     res_bind (res_bind (py_item signature ''value'') b64decode) (\<lambda>value.
     if \<not> ed_verify crypto embedded_raw value canonical then raise_exc ValueError ''audit bundle signature is invalid''
     else Inr (trust_mode, sha256_text embedded_raw))))))"

text \<open>The report, once the payload has been checked.\<close>

definition bundle_verdict ::
  "'k ed25519 \<Rightarrow> u8 list \<Rightarrow> u8 list res option \<Rightarrow> nat \<Rightarrow> pyval \<Rightarrow> pyval \<Rightarrow> bundle_report res" where
  "bundle_verdict crypto canonical trusted_key n dig signature =
     (if signature \<noteq> PNone then
        res_bind (verify_signature crypto canonical trusted_key signature) (\<lambda>(trust_mode, fingerprint).
        Inr \<lparr>br_run_count = n, br_digest = dig, br_signature_verified = True, br_trust_mode = trust_mode,
             br_signer_fingerprint = Some fingerprint\<rparr>)
      else if trusted_key \<noteq> None then raise_exc ValueError ''a trusted key was supplied for an unsigned bundle''
      else Inr \<lparr>br_run_count = n, br_digest = dig, br_signature_verified = False, br_trust_mode = ''digest-only'',
                br_signer_fingerprint = None\<rparr>)"

definition verify_bundle_body :: "'k ed25519 \<Rightarrow> pyval \<Rightarrow> u8 list res option \<Rightarrow> bundle_report res" where
  "verify_bundle_body crypto document trusted_key =
     res_bind (py_item document ''payload'') (\<lambda>payload.
     res_bind (py_item document ''proof'') (\<lambda>proof'.
     res_bind (py_item payload ''schema'') (\<lambda>schema.
     if schema \<noteq> PStr bundle_schema then raise_exc ValueError ''unsupported audit bundle schema''
     else res_bind (canonical_json payload) (\<lambda>canonical.
     res_bind (py_item proof' ''digest'') (\<lambda>dig.
     if dig \<noteq> PStr (sha256_text canonical) then raise_exc ValueError ''audit bundle digest does not match its payload''
     else res_bind (py_item payload ''runs'') (\<lambda>runs.
     res_bind (py_item payload ''run_count'') (\<lambda>run_count.
     res_bind (py_len runs) (\<lambda>n.
     if \<not> py_eq_int run_count (int n) then raise_exc ValueError ''audit bundle run count does not match its payload''
     else res_bind (py_iter runs) (\<lambda>trails.
     res_bind (py_any trail_sensitive trails) (\<lambda>sensitive.
     if sensitive then raise_exc ValueError ''audit bundle contains sensitive audit fields''
     else res_bind (py_any trail_failed trails) (\<lambda>failed.
     if failed then raise_exc ValueError ''audit bundle records a failed source event chain''
     else res_bind (py_get proof' ''signature'' PNone) (\<lambda>signature.
     bundle_verdict crypto canonical trusted_key n dig signature))))))))))))"

text \<open>\<open>except (KeyError, TypeError, ValueError)\<close>: anything else escapes as it is.\<close>

definition bundle_error :: "exc \<Rightarrow> bool" where
  "bundle_error e \<longleftrightarrow> exc_kind e \<in> {KeyError, TypeError, ValueError, JSONDecodeError}"

definition verify_audit_bundle :: "'k ed25519 \<Rightarrow> pyval \<Rightarrow> u8 list res option \<Rightarrow> bundle_report res" where
  "verify_audit_bundle crypto document trusted_key =
     (case verify_bundle_body crypto document trusted_key of
        Inr report \<Rightarrow> Inr report
      | Inl e \<Rightarrow> if bundle_error e then raise_exc ValueError (''invalid audit bundle: '' @ exc_msg e) else Inl e)"

section \<open>Files\<close>

text \<open>The files of a directory, with their modes. \<open>_exclusive_write\<close> opens with \<open>O_EXCL\<close>.\<close>

type_synonym files = "(string \<times> (u8 list \<times> nat)) list"

definition exclusive_write :: "string \<Rightarrow> u8 list \<Rightarrow> nat \<Rightarrow> files \<Rightarrow> (unit \<times> files) res" where
  "exclusive_write path bytes mode fs =
     (if path \<in> fst ` set fs then raise_exc (OtherError ''FileExistsError'') path
      else Inr ((), fs @ [(path, (bytes, mode))]))"

definition write_audit_bundle :: "string \<Rightarrow> pyval \<Rightarrow> files \<Rightarrow> (unit \<times> files) res" where
  "write_audit_bundle path document fs =
     res_bind (json_dumps_indent False True document) (\<lambda>text.
     exclusive_write path (utf8_encode (text @ [newline])) 384 fs)"

text \<open>\<open>Path.read_text(encoding="utf-8")\<close>: the bytes decoded, with universal newlines.\<close>

definition carriage_return :: char where "carriage_return = CHR 0x0D"

fun universal_newlines :: "string \<Rightarrow> string" where
  "universal_newlines [] = []"
| "universal_newlines [c] = [if c = carriage_return then newline else c]"
| "universal_newlines (c # d # s) =
     (if c = carriage_return then newline # (if d = newline then universal_newlines s else universal_newlines (d # s))
      else c # universal_newlines (d # s))"

definition read_text :: "u8 list \<Rightarrow> string res" where
  "read_text bytes = (case utf8_decode bytes of
     None \<Rightarrow> raise_exc (OtherError ''UnicodeDecodeError'') ''invalid start byte'' | Some t \<Rightarrow> Inr (universal_newlines t))"

definition max_bundle_bytes :: nat where "max_bundle_bytes = 64 * 1024 * 1024"

definition read_audit_bundle :: "string \<Rightarrow> files \<Rightarrow> pyval res" where
  "read_audit_bundle path fs =
     (case map_of fs path of
        None \<Rightarrow> raise_exc (OtherError ''FileNotFoundError'') path
      | Some (bytes, mode) \<Rightarrow>
          if max_bundle_bytes < length bytes then raise_exc ValueError ''audit bundle exceeds the 64 MiB verification limit''
          else res_bind (res_bind (read_text bytes) json_loads) (\<lambda>v. case v of
            PDict _ \<Rightarrow> Inr v | _ \<Rightarrow> raise_exc TypeError ''audit bundle must be a JSON object''))"

text \<open>Key generation, given the encodings of the new key pair. Paths are resolved ones. When
  writing the public key fails the private key is removed again.\<close>

definition generate_ed25519_keypair ::
  "string \<Rightarrow> string \<Rightarrow> u8 list \<Rightarrow> u8 list \<Rightarrow> u8 list \<Rightarrow> files \<Rightarrow> string res \<times> files" where
  "generate_ed25519_keypair private_path public_path private_bytes public_bytes public_raw fs =
     (if private_path = public_path then (raise_exc ValueError ''private and public key paths must differ'', fs)
      else if private_path \<in> fst ` set fs \<or> public_path \<in> fst ` set fs
      then (raise_exc (OtherError ''FileExistsError'') ''refusing to overwrite an existing audit key'', fs)
      else case exclusive_write private_path private_bytes 384 fs of
        Inl e \<Rightarrow> (Inl e, fs)
      | Inr (_, fs1) \<Rightarrow>
          (case exclusive_write public_path public_bytes 420 fs1 of
             Inl e \<Rightarrow> (Inl e, filter (\<lambda>f. fst f \<noteq> private_path) fs1)
           | Inr (_, fs2) \<Rightarrow> (Inr (sha256_text public_raw), fs2)))"

end
