(* ===== verification/Bundle_Props.thy ===== *)
theory Bundle_Props
  imports Bundles
begin

text \<open>
  Audit bundles: what a verified bundle is evidence of, and that every exported bundle verifies
  after it was written and read back.
\<close>

section \<open>Digests of payloads\<close>

lemma canonical_json_Inr_iff:
  "canonical_json v = Inr c \<longleftrightarrow> json_error True v = None \<and> c = utf8_encode (canonical_text v)"
  by (auto simp: canonical_json_def json_dumps_def split: option.splits)

lemma sha256_text_digest: "sha256_text (utf8_encode t) = digest_text t"
  by (simp add: sha256_text_def digest_text_def)

section \<open>What verification establishes\<close>

lemma py_any_False: "py_any test xs = Inr False \<longleftrightarrow> (\<forall>x \<in> set xs. test x = Inr False)"
  by (induction xs) (auto split: if_splits)

lemma trail_sensitive_False: "trail_sensitive t = Inr False \<longleftrightarrow> (\<exists>v. py_item t ''sensitive_fields_included'' = Inr v \<and> \<not> py_truthy v)"
  by (auto simp: trail_sensitive_def)

lemma trail_failed_False:
  "trail_failed t = Inr False \<longleftrightarrow> (\<exists>d v. py_item t ''integrity'' = Inr d \<and> py_item d ''chain_verified'' = Inr v \<and> py_truthy v)"
  by (auto simp: trail_failed_def)

lemma verify_signature_InrD:
  assumes "verify_signature crypto canonical trusted_key signature = Inr (mode, fingerprint)"
  shows "\<exists>raw value. py_item signature ''public_key'' = Inr (PStr raw) \<and> py_item signature ''value'' = Inr value
    \<and> (\<exists>key sig. b64_groups raw = Some key \<and> b64decode value = Inr sig \<and> ed_verify crypto key sig canonical
        \<and> fingerprint = sha256_text key \<and> (\<forall>k. trusted_key = Some (Inr k) \<longrightarrow> k = key))
    \<and> mode = (if trusted_key = None then ''embedded-key'' else ''pinned-key'')"
proof -
  from assms obtain raw key encoded sig where r: "py_item signature ''public_key'' = Inr raw" "b64decode raw = Inr key"
    "py_item signature ''value'' = Inr encoded" "b64decode encoded = Inr sig" "ed_verify crypto key sig canonical"
    "fingerprint = sha256_text key" "(case trusted_key of None \<Rightarrow> Inr ''embedded-key''
       | Some loaded \<Rightarrow> res_bind loaded (\<lambda>trusted_raw. if trusted_raw \<noteq> key
           then raise_exc ValueError ''audit signature does not use the trusted key'' else Inr ''pinned-key'')) = Inr mode"
    by (auto simp: verify_signature_def split: if_splits)
  from r(2) obtain chars where chars: "raw = PStr chars" "b64_groups chars = Some key"
    by (auto simp: b64decode_def split: pyval.splits option.splits)
  have "(\<forall>k. trusted_key = Some (Inr k) \<longrightarrow> k = key) \<and> mode = (if trusted_key = None then ''embedded-key'' else ''pinned-key'')"
    using r(7) by (auto split: option.splits if_splits)
  with r chars show ?thesis by auto
qed

definition evidence :: "'k ed25519 \<Rightarrow> u8 list res option \<Rightarrow> pyval \<Rightarrow> bundle_report \<Rightarrow> pyval \<Rightarrow> bool" where
  "evidence crypto trusted_key document report payload \<longleftrightarrow>
     py_item document ''payload'' = Inr payload \<and> json_error True payload = None
     \<and> py_item payload ''schema'' = Inr (PStr bundle_schema)
     \<and> br_digest report = PStr (digest_text (canonical_text payload))
     \<and> (\<exists>runs trails. py_item payload ''runs'' = Inr runs \<and> py_iter runs = Inr trails \<and> br_run_count report = length trails
        \<and> (\<forall>t \<in> set trails. (\<exists>v. py_item t ''sensitive_fields_included'' = Inr v \<and> \<not> py_truthy v)
            \<and> (\<exists>d v. py_item t ''integrity'' = Inr d \<and> py_item d ''chain_verified'' = Inr v \<and> py_truthy v)))
     \<and> (br_signature_verified report \<longrightarrow> (\<exists>key sig. ed_verify crypto key sig (utf8_encode (canonical_text payload))
        \<and> br_signer_fingerprint report = Some (sha256_text key) \<and> (\<forall>k. trusted_key = Some (Inr k) \<longrightarrow> k = key)))
     \<and> (trusted_key \<noteq> None \<longrightarrow> br_signature_verified report \<and> br_trust_mode report = ''pinned-key'')"

lemma py_len_iter: "py_len v = Inr n \<Longrightarrow> py_iter v = Inr xs \<Longrightarrow> n = length xs"
  by (cases v) (auto simp: py_len_def py_iter_def)

lemma verify_audit_bundle_InrD:
  assumes "verify_audit_bundle crypto document trusted_key = Inr report"
  shows "\<exists>payload. evidence crypto trusted_key document report payload"
proof -
  from assms have "verify_bundle_body crypto document trusted_key = Inr report"
    by (auto simp: verify_audit_bundle_def split: sum.splits if_splits)
  then obtain payload p canonical dig runs n trails signature where b: "py_item document ''payload'' = Inr payload"
    "py_item document ''proof'' = Inr p" "py_item payload ''schema'' = Inr (PStr bundle_schema)"
    "canonical_json payload = Inr canonical" "dig = PStr (sha256_text canonical)"
    "py_item payload ''runs'' = Inr runs" "py_len runs = Inr n" "py_iter runs = Inr trails"
    "py_any trail_sensitive trails = Inr False" "py_any trail_failed trails = Inr False"
    and rest: "bundle_verdict crypto canonical trusted_key n dig signature = Inr report"
    unfolding verify_bundle_body_def res_bind_eq_Inr by (auto split: if_split_asm)
  from b(4) have c: "json_error True payload = None" "canonical = utf8_encode (canonical_text payload)"
    by (simp_all add: canonical_json_Inr_iff)
  have n: "n = length trails" by (rule py_len_iter [OF b(7,8)])
  have flags: "\<forall>t \<in> set trails. (\<exists>v. py_item t ''sensitive_fields_included'' = Inr v \<and> \<not> py_truthy v)
            \<and> (\<exists>d v. py_item t ''integrity'' = Inr d \<and> py_item d ''chain_verified'' = Inr v \<and> py_truthy v)"
    using b(9,10) unfolding py_any_False trail_sensitive_False trail_failed_False by blast
  have common: "br_run_count report = n" "br_digest report = dig" using rest by (auto simp: bundle_verdict_def split: if_splits)
  have sig: "(br_signature_verified report \<longrightarrow> (\<exists>key sig. ed_verify crypto key sig canonical
        \<and> br_signer_fingerprint report = Some (sha256_text key) \<and> (\<forall>k. trusted_key = Some (Inr k) \<longrightarrow> k = key)))
     \<and> (trusted_key \<noteq> None \<longrightarrow> br_signature_verified report \<and> br_trust_mode report = ''pinned-key'')"
  proof (cases "signature = PNone")
    case False
    with rest obtain mode fingerprint where v: "verify_signature crypto canonical trusted_key signature = Inr (mode, fingerprint)"
      "report = \<lparr>br_run_count = n, br_digest = dig, br_signature_verified = True, br_trust_mode = mode, br_signer_fingerprint = Some fingerprint\<rparr>"
      by (auto simp: bundle_verdict_def)
    from verify_signature_InrD [OF v(1)] v(2) show ?thesis by auto
  qed (use rest in \<open>auto simp: bundle_verdict_def split: if_splits\<close>)
  have "evidence crypto trusted_key document report payload"
    unfolding evidence_def using b(1,3,5,6,8) c n flags common sig by (simp add: sha256_text_digest)
  then show ?thesis ..
qed

text \<open>C19: a verified bundle is evidence of its payload: verification succeeds only if the digest is
  that of the payload, no trail includes sensitive fields or records a failed chain and, when a
  trusted key is given, that very key verifies the signature over the canonical payload; and two
  verified bundles with the same digest have the same payload or exhibit a SHA-256 collision.\<close>

theorem verified_bundle_is_evidence:
  assumes "verify_audit_bundle crypto document trusted_key = Inr report"
    "verify_audit_bundle crypto' document' trusted_key' = Inr report'" "br_digest report = br_digest report'"
  shows "\<exists>payload payload'. evidence crypto trusted_key document report payload
    \<and> evidence crypto' trusted_key' document' report' payload'
    \<and> (json_wf payload \<and> json_wf payload' \<longrightarrow> json_norm True payload = json_norm True payload'
       \<or> sha_collision (canonical_text payload) (canonical_text payload'))"
proof -
  obtain payload payload' where e: "evidence crypto trusted_key document report payload"
    "evidence crypto' trusted_key' document' report' payload'"
    using verify_audit_bundle_InrD [OF assms(1)] verify_audit_bundle_InrD [OF assms(2)] by blast
  then have d: "json_error True payload = None" "json_error True payload' = None"
    "digest_text (canonical_text payload) = digest_text (canonical_text payload')" using assms(3) by (simp_all add: evidence_def)
  have "json_wf payload \<and> json_wf payload' \<longrightarrow> json_norm True payload = json_norm True payload'
       \<or> sha_collision (canonical_text payload) (canonical_text payload')"
    using d json_render_inj [of payload True payload' False] by (auto simp: digest_text_eq)
  with e show ?thesis by blast
qed

section \<open>Round trip\<close>

text \<open>Writing a document and reading it back normalises it; items and truth values survive.\<close>

lemma py_item_norm: "py_item d k = Inr v \<Longrightarrow> py_item (json_norm True d) k = Inr (json_norm True v)"
  by (cases d) (auto simp: py_item_def dict_get_order_items dict_get_map order_items_map_prod [symmetric] simp del: map_map
      split: option.splits)

lemma py_truthy_norm [simp]: "py_truthy (json_norm True v) = py_truthy v"
proof -
  have "order_items True kvs = [] \<longleftrightarrow> kvs = []" for kvs :: "(string \<times> pyval) list"
    by (metis length_0_conv length_sort order_items_def)
  then show ?thesis by (cases v) (simp_all add: py_truthy_def)
qed

lemma trail_sensitive_norm: "trail_sensitive t = Inr b \<Longrightarrow> trail_sensitive (json_norm True t) = Inr b"
proof -
  assume "trail_sensitive t = Inr b"
  then obtain v where "py_item t ''sensitive_fields_included'' = Inr v" "b = py_truthy v" by (auto simp: trail_sensitive_def)
  with py_item_norm [OF this(1)] show ?thesis by (simp add: trail_sensitive_def)
qed

lemma trail_failed_norm: "trail_failed t = Inr b \<Longrightarrow> trail_failed (json_norm True t) = Inr b"
proof -
  assume "trail_failed t = Inr b"
  then obtain d v where "py_item t ''integrity'' = Inr d" "py_item d ''chain_verified'' = Inr v" "b = (\<not> py_truthy v)"
    by (auto simp: trail_failed_def)
  with py_item_norm [OF this(1)] py_item_norm [OF this(2)] show ?thesis by (simp add: trail_failed_def)
qed

lemma exportable_flags:
  "exportable run_id found = Inr t \<Longrightarrow> trail_sensitive (PDict t) = Inr False \<and> trail_failed (PDict t) = Inr False"
  by (auto simp: exportable_def split: option.split_asm if_split_asm)

lemma export_trails_flags:
  "export_trails seen backend i runs = Inr trails \<Longrightarrow> t \<in> set trails \<Longrightarrow>
     trail_sensitive (PDict t) = Inr False \<and> trail_failed (PDict t) = Inr False"
proof (induction runs arbitrary: i trails)
  case (Cons run runs)
  from Cons.prems(1) obtain run_id found trail rest where r: "exportable run_id found = Inr trail"
    "export_trails seen backend (Suc i) runs = Inr rest" "trails = trail # rest"
    unfolding export_trails.simps res_bind_eq_Inr by blast
  from Cons.IH [OF r(2)] exportable_flags [OF r(1)] Cons.prems(2) r(3) show ?case by auto
qed simp

lemma canonical_json_norm: "canonical_json v = Inr c \<Longrightarrow> canonical_json (json_norm True v) = Inr c"
  by (simp add: canonical_json_Inr_iff)

text \<open>What the parameter must satisfy for a key: the documented behaviour of Ed25519.\<close>

definition signs_correctly :: "'k ed25519 \<Rightarrow> 'k \<Rightarrow> bool" where
  "signs_correctly crypto key \<longleftrightarrow> ed_accepts crypto (ed_public crypto key)
     \<and> (\<forall>m. ed_verify crypto (ed_public crypto key) (ed_sign crypto key m) m)"

lemma bundle_signature_verifies:
  assumes "signs_correctly crypto key" "trusted_key = None \<or> trusted_key = Some (Inr (ed_public crypto key))"
  shows "\<exists>mode fingerprint. verify_signature crypto canonical trusted_key (json_norm True (bundle_signature crypto key canonical)) = Inr (mode, fingerprint)"
proof -
  let ?sig = "json_norm True (bundle_signature crypto key canonical)"
  have items: "py_get ?sig ''algorithm'' PNone = Inr (PStr ''Ed25519'')" "py_get ?sig ''public_key_fingerprint'' PNone = Inr (PStr (sha256_text (ed_public crypto key)))"
    "py_item ?sig ''public_key'' = Inr (PStr (b64encode (ed_public crypto key)))" "py_item ?sig ''value'' = Inr (PStr (b64encode (ed_sign crypto key canonical)))"
    by (simp_all add: bundle_signature_def py_item_def py_get_def order_items_def dict_get_def)
  show ?thesis using assms by (auto simp: verify_signature_def items signs_correctly_def simp del: json_norm_PDict)
qed

lemma exported_bundle_report:
  assumes "export_audit_bundle crypto now l seen backend tenant limit signing_key = Inr document"
    "\<forall>key. signing_key = Some (Inr key) \<longrightarrow> signs_correctly crypto key"
    "trusted_key = None \<or> (\<exists>key. signing_key = Some (Inr key) \<and> trusted_key = Some (Inr (ed_public crypto key)))"
  shows "\<exists>report. verify_audit_bundle crypto (json_norm True document) trusted_key = Inr report
    \<and> br_signature_verified report = (signing_key \<noteq> None)"
proof -
  from assms(1) obtain trails canonical signature where payload: "canonical_json (bundle_payload now backend tenant trails) = Inr canonical"
    and trails: "\<exists>runs. export_trails seen backend 0 runs = Inr trails"
    and sig: "(case signing_key of None \<Rightarrow> Inr PNone
        | Some loaded \<Rightarrow> res_bind loaded (\<lambda>key. Inr (bundle_signature crypto key canonical))) = Inr signature"
    and doc: "document = PDict [(''payload'', bundle_payload now backend tenant trails),
       (''proof'', PDict [(''digest'', PStr (sha256_text canonical)), (''signature'', signature)])]"
    by (auto simp: export_audit_bundle_def Let_def)
  define P where "P = json_norm True (bundle_payload now backend tenant trails)"
  let ?proof = "json_norm True (PDict [(''digest'', PStr (sha256_text canonical)), (''signature'', signature)])"
  have items: "py_item (json_norm True document) ''payload'' = Inr P" "py_item (json_norm True document) ''proof'' = Inr ?proof"
    unfolding doc P_def by (rule py_item_norm, simp add: py_item_def dict_get_def)+
  have payload_items: "py_item P ''schema'' = Inr (json_norm True (PStr bundle_schema))"
    "py_item P ''run_count'' = Inr (json_norm True (PInt (int (length trails))))"
    "py_item P ''runs'' = Inr (json_norm True (PList (map PDict trails)))"
    unfolding P_def by (rule py_item_norm, simp add: bundle_payload_def py_item_def dict_get_def)+
  have proof_items: "py_item ?proof ''digest'' = Inr (json_norm True (PStr (sha256_text canonical)))"
    "py_get ?proof ''signature'' PNone = Inr (json_norm True signature)"
    by (rule py_item_norm, simp add: py_item_def dict_get_def)
      (simp add: py_get_def dict_get_order_items dict_get_map order_items_map_prod [symmetric] dict_get_def order_items_def)
  have flags: "py_any trail_sensitive (map (json_norm True) (map PDict trails)) = Inr False"
    "py_any trail_failed (map (json_norm True) (map PDict trails)) = Inr False"
    using trails by (auto simp: py_any_False simp del: json_norm_PDict dest!: export_trails_flags intro: trail_sensitive_norm trail_failed_norm)
  have "verify_bundle_body crypto (json_norm True document) trusted_key
      = bundle_verdict crypto canonical trusted_key (length trails) (PStr (sha256_text canonical)) (json_norm True signature)"
    unfolding verify_bundle_body_def items payload_items proof_items
    using canonical_json_norm [OF payload] flags
    by (simp add: items payload_items proof_items P_def [symmetric] py_len_def py_iter_def py_eq_int_def del: json_norm_PDict map_map)
  moreover have "\<exists>report. bundle_verdict crypto canonical trusted_key (length trails) (PStr (sha256_text canonical)) (json_norm True signature) = Inr report
      \<and> br_signature_verified report = (signing_key \<noteq> None)"
  proof (cases signing_key)
    case None
    with sig assms(3) show ?thesis by (auto simp: bundle_verdict_def)
  next
    case (Some loaded)
    with sig obtain key where key: "loaded = Inr key" "signature = bundle_signature crypto key canonical" by auto
    with assms(2,3) Some have "signs_correctly crypto key" "trusted_key = None \<or> trusted_key = Some (Inr (ed_public crypto key))" by auto
    from bundle_signature_verifies [OF this, of canonical, folded key(2)] obtain mode fingerprint where
      v: "verify_signature crypto canonical trusted_key (json_norm True signature) = Inr (mode, fingerprint)" by blast
    have "json_norm True signature \<noteq> PNone" by (simp add: key(2) bundle_signature_def)
    with v show ?thesis by (auto simp: bundle_verdict_def Some)
  qed
  ultimately show ?thesis by (auto simp: verify_audit_bundle_def)
qed

text \<open>A bundle file reads back as the document that was written, in its JSON normal form.\<close>

lemma universal_newlines_id: "carriage_return \<notin> set s \<Longrightarrow> universal_newlines s = s"
  by (induction s rule: universal_newlines.induct) auto

lemma printable_read_text: "printable t \<Longrightarrow> read_text (utf8_encode t) = Inr t"
proof -
  have cr: "code_point carriage_return = 13" "carriage_return \<noteq> newline" by code_simp+
  assume "printable t"
  then have "carriage_return \<notin> set t" using cr by (auto simp: printable_def)
  then show ?thesis by (simp add: read_text_def utf8_roundtrip universal_newlines_id)
qed

lemma written_bundle_reads_back:
  assumes "write_audit_bundle path (PDict kvs) fs = Inr ((), fs')" "json_wf (PDict kvs)" "json_error True (PDict kvs) = None"
    "\<forall>bytes mode. (path, (bytes, mode)) \<in> set fs' \<longrightarrow> length bytes \<le> max_bundle_bytes"
  shows "read_audit_bundle path fs' = Inr (json_norm True (PDict kvs))"
proof -
  have "blank [newline]" by simp
  from json_loads_indented [OF assms(2,3) this, of False] obtain t where t: "json_dumps_indent False True (PDict kvs) = Inr t"
    "printable t" "json_loads (t @ [newline]) = Inr (json_norm True (PDict kvs))" by blast
  have "path \<notin> fst ` set fs" "fs' = fs @ [(path, (utf8_encode (t @ [newline]), 384))]"
    using assms(1) t(1) by (auto simp: write_audit_bundle_def exclusive_write_def split: if_splits)
  moreover from this have "map_of fs path = None" by (simp add: map_of_eq_None_iff)
  moreover have "read_text (utf8_encode (t @ [newline])) = Inr (t @ [newline])"
    by (rule printable_read_text) (simp add: t(2))
  moreover have "length (utf8_encode (t @ [newline])) \<le> max_bundle_bytes"
    using assms(4) calculation(2) by auto
  ultimately show ?thesis using t(3) by (simp add: read_audit_bundle_def map_add_def)
qed

text \<open>What an export consists of is JSON.\<close>

lemma export_json:
  assumes "export_audit_bundle crypto now l seen backend tenant limit signing_key = Inr document"
  shows "\<exists>kvs. document = PDict kvs \<and> json_error True document = None"
  using assms
  by (auto simp: export_audit_bundle_def Let_def canonical_json_Inr_iff bundle_signature_def split: option.splits)

text \<open>C18: exported bundles verify: a bundle that was exported, written to a new file and read back
  from it is accepted, signed or not, by its embedded key or by the pinned public key of its signer,
  provided that it keeps the size limit, its floats are spelled as Python spells them and its keys
  are distinct, as those of a dict are; and the report says whether it was signed.\<close>

theorem exported_bundle_verifies:
  assumes "export_audit_bundle crypto now l seen backend tenant limit signing_key = Inr document"
    "json_wf document" "write_audit_bundle path document fs = Inr ((), fs')"
    "\<forall>bytes mode. (path, (bytes, mode)) \<in> set fs' \<longrightarrow> length bytes \<le> max_bundle_bytes"
    "\<forall>key. signing_key = Some (Inr key) \<longrightarrow> signs_correctly crypto key"
    "trusted_key = None \<or> (\<exists>key. signing_key = Some (Inr key) \<and> trusted_key = Some (Inr (ed_public crypto key)))"
  shows "\<exists>read report. read_audit_bundle path fs' = Inr read \<and> verify_audit_bundle crypto read trusted_key = Inr report
    \<and> br_signature_verified report = (signing_key \<noteq> None)"
proof -
  from export_json [OF assms(1)] obtain kvs where kvs: "document = PDict kvs" "json_error True (PDict kvs) = None" by auto
  have "read_audit_bundle path fs' = Inr (json_norm True document)"
    using written_bundle_reads_back [OF _ _ kvs(2) assms(4)] assms(2,3) kvs(1) by (simp del: json_norm_PDict json_wf_PDict)
  with exported_bundle_report [OF assms(1,5,6)] show ?thesis by blast
qed

section \<open>Exporting a quiet ledger\<close>

text \<open>Redaction of a run with JSON columns succeeds and gives JSON.\<close>

lemma digest_enabled: "json_error True v = None \<Longrightarrow> \<exists>d. digest v = Inr d"
  by simp

lemma redacted_enabled: "json_error True v = None \<Longrightarrow> \<exists>x. redacted v = Inr x \<and> json_error True x = None"
  by (auto simp: redacted_def)

lemma redacted_option_enabled:
  "(case v of None \<Rightarrow> True | Some x \<Rightarrow> json_error True x = None) \<Longrightarrow> \<exists>x. redacted_option v = Inr x \<and> json_error True x = None"
  by (auto simp: redacted_option_def redacted_def split: option.splits)

lemma redacted_run_enabled:
  assumes "columns_ok r"
  shows "\<exists>d. redacted_run r = Inr d \<and> json_error True (PDict d) = None"
proof -
  have ok: "json_error True (r_arguments r) = None" "json_error True (r_metadata r) = None"
    "case r_result r of None \<Rightarrow> True | Some v \<Rightarrow> json_error True v = None" using assms by (auto simp: columns_ok_def)
  obtain a where a: "redacted (r_arguments r) = Inr a" "json_error True a = None" using redacted_enabled [OF ok(1)] by blast
  obtain m where m: "redacted (r_metadata r) = Inr m" "json_error True m = None" using redacted_enabled [OF ok(2)] by blast
  obtain v where v: "redacted_option (r_result r) = Inr v" "json_error True v = None" using redacted_option_enabled [OF ok(3)] by blast
  obtain b where b: "redacted_option (map_option PStr (r_reason r)) = Inr b" "json_error True b = None"
    using redacted_option_enabled [of "map_option PStr (r_reason r)"] by (cases "r_reason r") auto
  have "json_error True (str_tuple (r_evidence r)) = None" by (auto simp: str_tuple_def)
  then obtain e where e: "redacted_evidence (r_evidence r) = Inr e" "json_error True e = None" by (auto simp: redacted_evidence_def)
  have t: "json_error True (opt_time x) = None" for x by (simp add: opt_time_def split: option.split)
  show ?thesis by (simp add: redacted_run_def a m v b e dict_update_decode_run t)
qed

lemma redact_items_enabled:
  "\<forall>kv \<in> set kvs. json_error True (snd kv) = None \<Longrightarrow> \<exists>xs. redact_items kvs = Inr xs \<and> (\<forall>kv \<in> set xs. json_error True (snd kv) = None)"
proof (induction kvs)
  case (Cons kv kvs)
  obtain k v where kv: "kv = (k, v)" by (cases kv)
  from Cons obtain xs where xs: "redact_items kvs = Inr xs" "\<forall>kv \<in> set xs. json_error True (snd kv) = None" by auto
  have "json_error True v = None" using Cons.prems by (simp add: kv)
  then show ?case using redacted_enabled [of v] xs by (cases "k \<in> set sensitive_keys") (auto simp: kv)
qed simp

definition dict_payloads :: "ledger \<Rightarrow> bool" where
  "dict_payloads l \<longleftrightarrow> (\<forall>e \<in> set (l_events l). (\<exists>kvs. e_payload e = PDict kvs) \<and> json_error True (e_payload e) = None)"

lemma redacted_events_enabled:
  "\<forall>e \<in> set es. (\<exists>kvs. e_payload e = PDict kvs) \<and> json_error True (e_payload e) = None \<Longrightarrow>
     \<exists>ds. redacted_events es = Inr ds \<and> (\<forall>d \<in> set ds. json_error True (PDict d) = None)"
proof (induction es)
  case (Cons e es)
  then obtain ds kvs where ds: "redacted_events es = Inr ds" "\<forall>d \<in> set ds. json_error True (PDict d) = None"
    and kvs: "e_payload e = PDict kvs" "json_error True (PDict kvs) = None" by auto
  then obtain xs where "redact_items kvs = Inr xs" "\<forall>kv \<in> set xs. json_error True (snd kv) = None"
    using redact_items_enabled [of kvs] by auto
  then show ?case using ds by (auto simp: redact_event_def kvs dict_update_def event_dict_def)
qed simp

text \<open>A trail read while nobody writes is complete, redacted and verified.\<close>

lemma quiet_trail:
  assumes "reachable l" "dict_payloads l" "fetch_run l rid = Some r"
  shows "\<exists>t. audit_trail (\<lambda>_. l) backend rid None = Inr (Some t)
    \<and> trail_sensitive (PDict t) = Inr False \<and> trail_failed (PDict t) = Inr False \<and> json_error True (PDict t) = None"
proof -
  note inv = reachable_run [OF assms(1,3)]
  have str: "struct_inv l" by (rule ledger_inv_struct [OF reachable_inv [OF assms(1)]])
  obtain d where d: "redacted_run r = Inr d" "json_error True (PDict d) = None"
    using redacted_run_enabled inv by (auto simp: run_inv_def)
  have "\<forall>e \<in> set (run_events l rid). (\<exists>kvs. e_payload e = PDict kvs) \<and> json_error True (e_payload e) = None"
    using assms(2) by (simp add: dict_payloads_def run_events_filter [OF str])
  then obtain ds where ds: "redacted_events (run_events l rid) = Inr ds" "\<forall>d \<in> set ds. json_error True (PDict d) = None"
    using redacted_events_enabled by blast
  have "verify_event_chain_reads l l rid = Inr True"
    using run_inv_parts(1) [OF inv] assms(3) by (auto simp: verify_event_chain_reads_same verify_event_chain_iff)
  then have "audit_trail (\<lambda>_. l) backend rid None = Inr (Some [(''run'', PDict d), (''events'', PList (map PDict ds)),
      (''integrity'', PDict [(''chain_verified'', PBool True), (''mode'', PStr (''sha256_event_chain_'' @ backend)),
        (''immutable'', PBool False)]), (''sensitive_fields_included'', PBool False)])"
    by (simp add: audit_trail_def assms(3) may_see_sensitive_def d(1) ds(1) Let_def)
  with d(2) ds(2) show ?thesis by (simp add: trail_sensitive_def trail_failed_def py_item_def dict_get_def py_truthy_def)
qed

lemma quiet_export_trails:
  assumes "reachable l" "dict_payloads l" "\<forall>r \<in> set rows. r \<in> set (l_runs l)"
  shows "\<exists>trails. export_trails (\<lambda>_ _. l) backend i (map decode_run rows) = Inr trails
    \<and> (\<forall>t \<in> set trails. json_error True (PDict t) = None) \<and> length trails = length rows"
  using assms(3)
proof (induction rows arbitrary: i)
  case (Cons r rows)
  have str: "struct_inv l" by (rule ledger_inv_struct [OF reachable_inv [OF assms(1)]])
  then have "fetch_run l (r_run_id r) = Some r" using Cons.prems by (simp add: fetch_run_mem)
  from quiet_trail [OF assms(1,2) this, of backend] obtain t where t: "audit_trail (\<lambda>_. l) backend (r_run_id r) None = Inr (Some t)"
    "trail_sensitive (PDict t) = Inr False" "trail_failed (PDict t) = Inr False" "json_error True (PDict t) = None" by blast
  obtain trails where trails: "export_trails (\<lambda>_ _. l) backend (Suc i) (map decode_run rows) = Inr trails"
    "\<forall>t \<in> set trails. json_error True (PDict t) = None" "length trails = length rows"
    using Cons.IH [of "Suc i"] Cons.prems by auto
  have "py_item (PDict (decode_run r)) ''run_id'' = Inr (PStr (r_run_id r))" by (simp add: py_item_def decode_run_def dict_get_def)
  with t trails show ?case by (simp add: exportable_def)
qed simp

lemma quiet_export:
  assumes "reachable l" "dict_payloads l" "1 \<le> limit" "limit \<le> 1000"
    "\<forall>loaded. signing_key = Some loaded \<longrightarrow> is_ok loaded"
  shows "is_ok (export_audit_bundle crypto now l (\<lambda>_ _. l) backend tenant limit signing_key)"
proof -
  let ?rows = "newest (nat limit) (filter (of_tenant tenant) (l_runs l))"
  have "\<forall>r \<in> set ?rows. r \<in> set (l_runs l)" by (auto simp: newest_def dest!: in_set_takeD)
  from quiet_export_trails [OF assms(1,2) this, of backend 0] obtain trails where
    t: "export_trails (\<lambda>_ _. l) backend 0 (map decode_run ?rows) = Inr trails" "\<forall>t \<in> set trails. json_error True (PDict t) = None" by blast
  have runs: "list_runs l tenant None limit = Inr (map decode_run ?rows)" using assms(3,4) by (simp add: list_runs_def)
  have "canonical_json (bundle_payload now backend tenant trails)
      = Inr (utf8_encode (canonical_text (bundle_payload now backend tenant trails)))"
    using t(2) by (auto simp: canonical_json_Inr_iff bundle_payload_def)
  with assms(5) show ?thesis
    by (cases signing_key) (auto simp: export_audit_bundle_def runs t(1) Let_def is_ok_iff simp del: canonical_json_Inr_iff)
qed

section \<open>A bundle\<close>

text \<open>An instance of the parameter: signatures that carry the beginning of the message.\<close>

definition demo_crypto :: "unit ed25519" where
  "demo_crypto = \<lparr>ed_public = (\<lambda>_. [1]), ed_sign = (\<lambda>_ m. take 2 m), ed_accepts = (\<lambda>k. k = [1]), ed_verify = (\<lambda>k s m. k = [1] \<and> s = take 2 m)\<rparr>"

definition demo_export :: "pyval res" where
  "demo_export = export_audit_bundle demo_crypto 0 (ledger_after demo_create) (\<lambda>_ _. ledger_after demo_create) ''sqlite'' None 10 (Some (Inr ()))"

lemma demo_exported:
  obtains document where "demo_export = Inr document"
proof -
  have "dict_payloads (ledger_after demo_create)" by (simp add: dict_payloads_def created_simps)
  from quiet_export [OF reachable_create this, of 10 "Some (Inr ())" demo_crypto 0 "''sqlite''" None] that
  show thesis by (auto simp: demo_export_def is_ok_iff)
qed

lemma demo_signs: "signs_correctly demo_crypto ()"
  by (simp add: signs_correctly_def demo_crypto_def)

text \<open>The signed bundle of an empty ledger, whose digest and fingerprint need not be computed.\<close>

definition demo_signed :: "string \<Rightarrow> string \<Rightarrow> pyval" where
  "demo_signed dig fingerprint = PDict [(''payload'', bundle_payload 0 ''sqlite'' None []),
     (''proof'', PDict [(''digest'', PStr dig),
       (''signature'', PDict [(''algorithm'', PStr ''Ed25519''), (''value'', PStr ''eyI=''), (''public_key'', PStr ''AQ==''),
         (''public_key_fingerprint'', PStr fingerprint)])])]"

definition demo_document :: pyval where
  "demo_document = demo_signed (sha256_text (utf8_encode (canonical_text (bundle_payload 0 ''sqlite'' None [])))) (sha256_text [1])"

lemma length_sha256_text: "length (sha256_text c) \<le> 71"
  using length_hexdigest [of c] by (simp add: sha256_text_def)

lemma length_json_string: "length (json_string asc s) \<le> 6 * length s + 2"
proof -
  have "length (escape_char asc c) \<le> 6" for c by (simp add: escape_char_def Let_def hex_byte_def)
  then have "length (concat (map (escape_char asc) s)) \<le> 6 * length s"
    by (induction s) (auto simp: add_mono)
  then show ?thesis by (simp add: json_string_def)
qed

lemma demo_empty_export:
  "export_audit_bundle demo_crypto 0 empty_ledger (\<lambda>_ _. empty_ledger) ''sqlite'' None 10 (Some (Inr ())) = Inr demo_document"
proof -
  let ?p = "bundle_payload 0 ''sqlite'' None []"
  have c: "json_error True ?p = None" by (simp add: bundle_payload_def)
  have t: "take 2 (utf8_encode (canonical_text ?p)) = [123, 34]"
    by (simp add: bundle_payload_def utf8_encode_def utf8_char_def code_point_def json_string_def quote_char_def order_items_def)
  have b: "b64encode [123, 34] = ''eyI=''" "b64encode [1] = ''AQ==''" by code_simp+
  have "canonical_json ?p = Inr (utf8_encode (canonical_text ?p))" by (simp add: canonical_json_Inr_iff c)
  then show ?thesis
    by (simp add: export_audit_bundle_def list_runs_def newest_def empty_ledger_def 
        bundle_signature_def demo_crypto_def demo_document_def demo_signed_def Let_def t b del: b64encode.simps json_render.simps json_render_PDict)
qed

lemma length_isoformat: "length (isoformat t) \<le> 35"
  by (simp add: isoformat_parts iso_tail_def)

lemma demo_document_json: "json_wf demo_document" "json_error True demo_document = None"
  by (simp_all add: demo_document_def demo_signed_def bundle_payload_def)

lemma demo_signed_size:
  assumes "length dig \<le> 71" "length fingerprint \<le> 71"
  shows "length (json_indented False True (demo_signed dig fingerprint) 0) \<le> 10000"
proof -
  have b: "length (json_string asc s) \<le> 6 * n + 2" if "length s \<le> n" for asc s n
    using length_json_string [of asc s] that by linarith
  define i where "i = json_string False (isoformat 0)"
  have l: "length (json_string False s) \<le> 200" if "length s \<le> 33" for s using b [OF that] by simp
  have "length (json_string False dig) \<le> 428" "length (json_string False fingerprint) \<le> 428" "length i \<le> 212"
    using b [OF assms(1)] b [OF assms(2)] b [OF length_isoformat] by (simp_all add: i_def)
  then show ?thesis
    using l [of "''payload''"] l [of "''proof''"] l [of "''digest''"] l [of "''signature''"] l [of "''algorithm''"] l [of "''value''"]
      l [of "''public_key''"] l [of "''public_key_fingerprint''"] l [of "''Ed25519''"] l [of "''eyI=''"] l [of "''AQ==''"]
      l [of "''schema''"] l [of "''exported_at''"] l [of "''source''"] l [of "''backend''"] l [of "''tenant_scope''"] l [of "''sqlite''"]
      l [of "''run_count''"] l [of "''runs''"] l [of bundle_schema]
    by (simp add: demo_signed_def bundle_payload_def i_def [symmetric] indented_items_def newline_indent_def order_items_def
        bundle_schema_def opt_str_def int_str_def nat_str.simps)
qed

theorem exported_bundle_verifies_witness:
  "\<exists>fs' read report. write_audit_bundle ''bundle.json'' demo_document [] = Inr ((), fs')
     \<and> read_audit_bundle ''bundle.json'' fs' = Inr read
     \<and> verify_audit_bundle demo_crypto read (Some (Inr [1])) = Inr report \<and> br_signature_verified report"
proof -
  let ?t = "json_indented False True demo_document 0"
  let ?fs = "[(''bundle.json'', (utf8_encode (?t @ [newline]), 384))]"
  have w: "write_audit_bundle ''bundle.json'' demo_document [] = Inr ((), ?fs)"
    using demo_document_json
    by (simp add: write_audit_bundle_def json_dumps_indent_def javascript_floats_id exclusive_write_def)
  have "length ?t \<le> 10000"
    unfolding demo_document_def by (rule demo_signed_size [OF length_sha256_text length_sha256_text])
  then have "length (utf8_encode (?t @ [newline])) \<le> max_bundle_bytes"
    using length_utf8_encode [of "?t @ [newline]"] by (simp add: max_bundle_bytes_def)
  then have small: "\<forall>bytes mode. (''bundle.json'', (bytes, mode)) \<in> set ?fs \<longrightarrow> length bytes \<le> max_bundle_bytes" by simp
  have key: "Some (Inr [1]) = Some (Inr (ed_public demo_crypto ()))" by (simp add: demo_crypto_def)
  from exported_bundle_verifies [OF demo_empty_export demo_document_json(1) w small, of "Some (Inr [1])"] demo_signs key w
  show ?thesis by (auto simp del: json_norm_PDict)
qed

theorem verified_bundle_is_evidence_witness:
  "\<exists>document report payload. demo_export = Inr document
     \<and> evidence demo_crypto (Some (Inr [1])) (json_norm True document) report payload"
proof (rule demo_exported)
  fix document
  assume e: "demo_export = Inr document"
  have "Some (Inr [1]) = Some (Inr (ed_public demo_crypto ()))" by (simp add: demo_crypto_def)
  with exported_bundle_report [OF e [unfolded demo_export_def], of "Some (Inr [1])"] demo_signs obtain report where
    "verify_audit_bundle demo_crypto (json_norm True document) (Some (Inr [1])) = Inr report" by auto
  from verified_bundle_is_evidence [OF this this refl] e show ?thesis by blast
qed

end
