(* ===== verification/Registry.thy ===== *)
theory Registry
  imports Runtime
begin

text \<open>
  The registry of governed actions (\<open>registry.py\<close>): names mapped to actions that share one
  ledger, in the order of registration. Ledgers are compared by identity; a number names one.
\<close>

record 'w ActionRegistry =
  rg_ledger :: nat
  rg_actions :: "(string \<times> 'w TrustedAction) list"

definition register :: "nat \<Rightarrow> 'w TrustedAction \<Rightarrow> 'w ActionRegistry \<Rightarrow> ('w TrustedAction \<times> 'w ActionRegistry) res" where
  "register ledger_id act reg =
     (if ledger_id \<noteq> rg_ledger reg then raise_exc ValueError ''registered actions must share the registry ledger''
      else if ta_name act \<in> fst ` set (rg_actions reg)
      then raise_exc ValueError (''action is already registered: '' @ ta_name act)
      else Inr (act, reg\<lparr>rg_actions := rg_actions reg @ [(ta_name act, act)]\<rparr>))"

fun register_all :: "(nat \<times> 'w TrustedAction) list \<Rightarrow> 'w ActionRegistry \<Rightarrow> 'w ActionRegistry res" where
  "register_all [] reg = Inr reg"
| "register_all ((ledger_id, act) # acts) reg =
     res_bind (register ledger_id act reg) (\<lambda>(_, reg'). register_all acts reg')"

definition ActionRegistry_init :: "nat \<Rightarrow> (nat \<times> 'w TrustedAction) list \<Rightarrow> 'w ActionRegistry res" where
  "ActionRegistry_init ledger_id acts = register_all acts \<lparr>rg_ledger = ledger_id, rg_actions = []\<rparr>"

definition get_action :: "'w ActionRegistry \<Rightarrow> string \<Rightarrow> 'w TrustedAction res" where
  "get_action reg name = (case map_of (rg_actions reg) name of
     None \<Rightarrow> raise_exc KeyError (''unknown trusted action: '' @ name)
   | Some act \<Rightarrow> Inr act)"

definition action_names :: "'w ActionRegistry \<Rightarrow> string list" where
  "action_names reg = sort (map fst (rg_actions reg))"

definition iter_actions :: "'w ActionRegistry \<Rightarrow> 'w TrustedAction list" where
  "iter_actions reg = map snd (rg_actions reg)"

text \<open>Every name is registered once, for the action of that name.\<close>

definition registry_ok :: "'w ActionRegistry \<Rightarrow> bool" where
  "registry_ok reg \<longleftrightarrow> distinct (map fst (rg_actions reg)) \<and> (\<forall>(name, act) \<in> set (rg_actions reg). ta_name act = name)"

lemma register_InrD:
  assumes "register ledger_id act reg = Inr (act', reg')"
  shows "act' = act \<and> ledger_id = rg_ledger reg \<and> rg_ledger reg' = rg_ledger reg
    \<and> rg_actions reg' = rg_actions reg @ [(ta_name act, act)] \<and> (registry_ok reg \<longrightarrow> registry_ok reg')"
  using assms by (auto simp: register_def registry_ok_def image_iff split: if_splits)

lemma register_all_InrD:
  "register_all acts reg = Inr reg' \<Longrightarrow> registry_ok reg \<Longrightarrow>
     registry_ok reg' \<and> rg_ledger reg' = rg_ledger reg
     \<and> rg_actions reg' = rg_actions reg @ map (\<lambda>(_, act). (ta_name act, act)) acts
     \<and> (\<forall>(ledger_id, act) \<in> set acts. ledger_id = rg_ledger reg)"
proof (induction acts reg rule: register_all.induct)
  case (2 ledger_id act acts reg)
  from 2(2) obtain act' reg1 where r: "register ledger_id act reg = Inr (act', reg1)" "register_all acts reg1 = Inr reg'"
    by auto
  note one = register_InrD [OF r(1)]
  with 2(1) [OF r(2)] 2(3) show ?case by auto
qed simp

lemma get_action_name: "registry_ok reg \<Longrightarrow> get_action reg name = Inr act \<Longrightarrow> ta_name act = name"
  by (auto simp: get_action_def registry_ok_def dest!: map_of_SomeD split: option.splits)

text \<open>A registry that was built answers every name with the action of that name it was given.\<close>

lemma registered_action_found:
  assumes "ActionRegistry_init ledger_id acts = Inr reg"
  shows "get_action reg name = Inr act \<longleftrightarrow> act \<in> snd ` set acts \<and> ta_name act = name"
proof -
  have "registry_ok \<lparr>rg_ledger = ledger_id, rg_actions = ([] :: (string \<times> 'a TrustedAction) list)\<rparr>"
    by (simp add: registry_ok_def)
  from register_all_InrD [OF assms [unfolded ActionRegistry_init_def] this]
  have ok: "registry_ok reg" "rg_actions reg = map (\<lambda>(_, act). (ta_name act, act)) acts" by simp_all
  have "get_action reg name = Inr act \<longleftrightarrow> map_of (rg_actions reg) name = Some act"
    by (simp add: get_action_def split: option.splits)
  also have "\<dots> \<longleftrightarrow> (name, act) \<in> set (rg_actions reg)"
    using ok(1) by (intro map_of_eq_Some_iff) (simp add: registry_ok_def)
  also have "\<dots> \<longleftrightarrow> act \<in> snd ` set acts \<and> ta_name act = name" using ok(2) by force
  finally show ?thesis .
qed

end
