(* ===== verification/Auth.thy ===== *)
theory Auth
  imports Models PyValue "HOL-Library.AList"
begin

text \<open>
  Authentication (\<open>auth.py\<close>): the hashed static tokens and the OIDC verifier. The JWT package is
  a parameter: the look-up of the signing key and the decoding of a token with its checks, each
  of which may raise one of the package's exceptions. Of \<open>urllib.parse.urlparse\<close> the scheme and
  the errors are modelled; the syntax check of bracketed hosts (\<open>ipaddress\<close>) is a parameter.
\<close>

unbundle bit_operations_syntax

section \<open>Static tokens\<close>

text \<open>\<open>_digest\<close>: the bytes of the SHA-256 digest.\<close>

definition token_digest :: "string \<Rightarrow> u8 list" where
  "token_digest token = concat (map (\<lambda>w. be_bytes 4 (unat w)) (sha256_words (utf8_encode token)))"

type_synonym StaticTokenVerifier = "(u8 list \<times> VerifiedPrincipal) list"

fun token_records :: "(string \<times> VerifiedPrincipal) list \<Rightarrow> StaticTokenVerifier res" where
  "token_records [] = Inr []"
| "token_records ((token, identity) # identities) =
     (if length token < 16 then raise_exc ValueError ''static tokens must contain at least 16 characters''
      else res_bind (token_records identities) (\<lambda>records. Inr ((token_digest token, identity) # records)))"

definition StaticTokenVerifier_init :: "(string \<times> VerifiedPrincipal) list \<Rightarrow> StaticTokenVerifier res" where
  "StaticTokenVerifier_init identities =
     (if identities = [] then raise_exc ValueError ''at least one static identity is required''
      else token_records identities)"

text \<open>Every record is compared; the last that matches wins.\<close>

definition StaticTokenVerifier_verify :: "StaticTokenVerifier \<Rightarrow> string \<Rightarrow> VerifiedPrincipal res" where
  "StaticTokenVerifier_verify verifier credential =
     (let candidate = token_digest credential;
          matched = fold (\<lambda>(dig, identity) found. if candidate = dig then Some identity else found) verifier None
      in case matched of
        None \<Rightarrow> raise_exc AuthenticationError ''invalid bearer credential''
      | Some identity \<Rightarrow> Inr identity)"

text \<open>\<open>from_json\<close>, given the mode, the name and the text of the identity file.\<close>

definition identity_of_item :: "string \<Rightarrow> pyval \<Rightarrow> VerifiedPrincipal res" where
  "identity_of_item name item =
     res_bind (py_item item ''actor_id'') (\<lambda>actor.
     res_bind (py_item item ''tenant_id'') (\<lambda>tenant.
     res_bind (res_bind (py_item item ''roles'') py_iter) (\<lambda>roles.
     VerifiedPrincipal_init (py_str actor) (py_str tenant) (map py_str roles) (''static-file:'' @ name))))"

fun load_identities ::
  "string \<Rightarrow> (string \<times> VerifiedPrincipal) list \<Rightarrow> pyval list \<Rightarrow> (string \<times> VerifiedPrincipal) list res" where
  "load_identities name identities [] = Inr identities"
| "load_identities name identities (item # items) =
     res_bind (identity_of_item name item) (\<lambda>identity.
     res_bind (py_item item ''token'') (\<lambda>token.
     load_identities name (AList.update (py_str token) identity identities) items))"

definition StaticTokenVerifier_from_json :: "nat \<Rightarrow> string \<Rightarrow> string \<Rightarrow> StaticTokenVerifier res" where
  "StaticTokenVerifier_from_json mode name file_text =
     (if mode AND 0x3F \<noteq> 0
      then raise_exc ValueError ''identity file must not be readable by group or other users''
      else res_bind (json_loads file_text) (\<lambda>document.
      res_bind (res_bind (py_get document ''identities'' (PList [])) py_iter) (\<lambda>items.
      res_bind (load_identities name [] items) StaticTokenVerifier_init)))"

section \<open>OIDC\<close>

subsection \<open>\<open>urlparse\<close>\<close>

definition ascii_alpha :: "char \<Rightarrow> bool" where
  "ascii_alpha c \<longleftrightarrow> 97 \<le> code_point (lower c) \<and> code_point (lower c) \<le> 122"

definition scheme_char :: "char \<Rightarrow> bool" where
  "scheme_char c \<longleftrightarrow> ascii_alpha c \<or> is_digit c \<or> c \<in> set ''+-.''"

text \<open>Leading control characters and spaces go, and every tab and line break.\<close>

definition clean_url :: "string \<Rightarrow> string" where
  "clean_url url = filter (\<lambda>c. code_point c \<notin> {9, 10, 13}) (dropWhile (\<lambda>c. code_point c \<le> 32) url)"

definition split_scheme :: "string \<Rightarrow> string \<times> string" where
  "split_scheme url =
     (let scheme = takeWhile (\<lambda>c. c \<noteq> CHR '':'') url in
      if CHR '':'' \<in> set url \<and> scheme \<noteq> [] \<and> ascii_alpha (hd url) \<and> list_all scheme_char scheme
      then (map lower scheme, drop (Suc (length scheme)) url) else ([], url))"

definition url_netloc :: "string \<Rightarrow> string" where
  "url_netloc rest = (if startswith rest ''//'' then takeWhile (\<lambda>c. c \<notin> set ''/?#'') (drop 2 rest) else [])"

definition bracketed_host :: "string \<Rightarrow> string" where
  "bracketed_host netloc = takeWhile (\<lambda>c. c \<noteq> CHR '']'') (tl (dropWhile (\<lambda>c. c \<noteq> CHR ''['') netloc))"

definition url_scheme :: "(string \<Rightarrow> bool) \<Rightarrow> string \<Rightarrow> string res" where
  "url_scheme host_ok url =
     (let (scheme, rest) = split_scheme (clean_url url); netloc = url_netloc rest in
      if (CHR ''['' \<in> set netloc) \<noteq> (CHR '']'' \<in> set netloc) then raise_exc ValueError ''Invalid IPv6 URL''
      else if CHR ''['' \<in> set netloc \<and> \<not> host_ok (bracketed_host netloc)
      then raise_exc ValueError ''invalid bracketed host''
      else Inr scheme)"

subsection \<open>The verifier\<close>

record OIDCJWTVerifier =
  ov_issuer :: string
  ov_audience :: string
  ov_tenant_claim :: string
  ov_roles_claim :: string
  ov_algorithms :: "string list"
  ov_leeway_seconds :: int
  ov_jwks_url :: string

definition asymmetric_algorithms :: "string list" where
  "asymmetric_algorithms = [''RS256'', ''RS384'', ''RS512'', ''ES256'', ''ES384'', ''ES512'']"

fun require_https :: "(string \<Rightarrow> bool) \<Rightarrow> (string \<times> string) list \<Rightarrow> unit res" where
  "require_https host_ok [] = Inr ()"
| "require_https host_ok ((name, value) # urls) =
     res_bind (url_scheme host_ok value) (\<lambda>scheme.
     if scheme \<noteq> ''https'' then raise_exc ValueError (name @ '' must use https'')
     else require_https host_ok urls)"

definition rstrip_slashes :: "string \<Rightarrow> string" where
  "rstrip_slashes s = rev (dropWhile (\<lambda>c. c = CHR ''/'') (rev s))"

definition OIDCJWTVerifier_init ::
  "(string \<Rightarrow> bool) \<Rightarrow> bool \<Rightarrow> string \<Rightarrow> string \<Rightarrow> string \<Rightarrow> string \<Rightarrow> string \<Rightarrow> string list \<Rightarrow> int \<Rightarrow> bool \<Rightarrow> OIDCJWTVerifier res" where
  "OIDCJWTVerifier_init host_ok jwt_installed issuer audience jwks_url tenant_claim roles_claim algorithms
       leeway_seconds allow_insecure_http =
     (if \<not> jwt_installed then raise_exc RuntimeError (''OIDC support requires: pip install '' @ [apostrophe] @ ''agenttrustops[oidc]'' @ [apostrophe])
      else if strip issuer = [] \<or> strip audience = [] \<or> strip jwks_url = []
      then raise_exc ValueError ''issuer, audience, and jwks_url are required''
      else res_bind (if allow_insecure_http then Inr ()
          else require_https host_ok [(''issuer'', issuer), (''jwks_url'', jwks_url)]) (\<lambda>_.
      if algorithms = [] \<or> \<not> set algorithms \<subseteq> set asymmetric_algorithms
      then raise_exc ValueError ''only explicit asymmetric RSA or ECDSA algorithms are allowed''
      else if \<not> (0 \<le> leeway_seconds \<and> leeway_seconds \<le> 300)
      then raise_exc ValueError ''leeway_seconds must be between 0 and 300''
      else Inr \<lparr>ov_issuer = rstrip_slashes issuer, ov_audience = audience, ov_tenant_claim = tenant_claim,
                ov_roles_claim = roles_claim, ov_algorithms = algorithms, ov_leeway_seconds = leeway_seconds,
                ov_jwks_url = jwks_url\<rparr>))"

text \<open>What \<open>verify\<close> uses of the JWT package, for keys of type \<open>'k\<close>: \<open>jw_decode\<close> takes the
  credential, the key, the algorithms, the audience, the issuer, the leeway and the required
  claims; \<open>jw_error\<close> says which exceptions are a \<open>PyJWTError\<close>.\<close>

record 'k pyjwt =
  jw_signing_key :: "string \<Rightarrow> string \<Rightarrow> 'k res"
  jw_decode :: "string \<Rightarrow> 'k \<Rightarrow> string list \<Rightarrow> string \<Rightarrow> string \<Rightarrow> int \<Rightarrow> string list \<Rightarrow> (string \<times> pyval) list res"
  jw_error :: "exc \<Rightarrow> bool"

definition required_claims :: "string list" where
  "required_claims = [''exp'', ''iat'', ''iss'', ''aud'', ''sub'']"

definition is_str :: "pyval \<Rightarrow> bool" where
  "is_str v = (case v of PStr _ \<Rightarrow> True | _ \<Rightarrow> False)"

text \<open>The principal a set of claims stands for.\<close>

definition claimed_principal :: "OIDCJWTVerifier \<Rightarrow> (string \<times> pyval) list \<Rightarrow> VerifiedPrincipal res" where
  "claimed_principal verifier claims =
     res_bind (py_item (PDict claims) ''sub'') (\<lambda>subject.
     res_bind (py_item (PDict claims) (ov_tenant_claim verifier)) (\<lambda>tenant.
     res_bind (py_item (PDict claims) (ov_roles_claim verifier)) (\<lambda>roles.
     if \<not> is_str subject \<or> \<not> is_str tenant
     then raise_exc AuthenticationError ''OIDC subject and tenant claims must be strings''
     else (case roles of
        PList rs \<Rightarrow>
          if list_all is_str rs
          then VerifiedPrincipal_init (py_str subject) (py_str tenant) (map py_str rs) (''oidc:'' @ ov_issuer verifier)
          else raise_exc AuthenticationError ''OIDC roles claim must be a string array''
      | _ \<Rightarrow> raise_exc AuthenticationError ''OIDC roles claim must be a string array''))))"

definition decode_credential :: "'k pyjwt \<Rightarrow> OIDCJWTVerifier \<Rightarrow> string \<Rightarrow> (string \<times> pyval) list res" where
  "decode_credential jwt verifier credential =
     res_bind (jw_signing_key jwt (ov_jwks_url verifier) credential) (\<lambda>key.
     jw_decode jwt credential key (ov_algorithms verifier) (ov_audience verifier) (ov_issuer verifier)
       (ov_leeway_seconds verifier) required_claims)"

definition OIDCJWTVerifier_verify :: "'k pyjwt \<Rightarrow> OIDCJWTVerifier \<Rightarrow> string \<Rightarrow> VerifiedPrincipal res" where
  "OIDCJWTVerifier_verify jwt verifier credential =
     (case res_bind (decode_credential jwt verifier credential) (claimed_principal verifier) of
        Inr identity \<Rightarrow> Inr identity
      | Inl e \<Rightarrow>
          if exc_kind e = AuthenticationError then Inl e
          else if exc_kind e = KeyError \<or> jw_error jwt e
          then raise_exc AuthenticationError ''invalid OIDC bearer credential''
          else Inl e)"

section \<open>Properties\<close>

lemma token_records_InrD:
  "token_records identities = Inr verifier \<Longrightarrow>
     verifier = map (\<lambda>(token, identity). (token_digest token, identity)) identities
     \<and> (\<forall>token \<in> fst ` set identities. 16 \<le> length token)"
  by (induction identities arbitrary: verifier rule: token_records.induct) (auto split: if_splits)

lemma last_match:
  assumes "distinct (map fst identities)" "\<forall>token \<in> fst ` set identities. token_digest credential = token_digest token \<longrightarrow> credential = token"
  shows "fold (\<lambda>(dig, identity) found. if token_digest credential = dig then Some identity else found)
      (map (\<lambda>(token, identity). (token_digest token, identity)) identities) acc
    = (case map_of identities credential of None \<Rightarrow> acc | Some identity \<Rightarrow> Some identity)"
  using assms
proof (induction identities arbitrary: acc)
  case (Cons x identities)
  then show ?case
    by (cases x) (auto simp: map_of_eq_None_iff [symmetric] split: option.splits)
qed simp

text \<open>A static token verifier maps exactly the configured tokens to identities: a credential is
  accepted precisely when it is one of the tokens, as the identity configured for it, and every
  other credential raises \<open>AuthenticationError\<close>, unless the credential and a configured token are two texts
  with the same SHA-256 digest.\<close>

theorem static_tokens_authenticate:
  assumes "StaticTokenVerifier_init identities = Inr verifier" "distinct (map fst identities)"
  shows "StaticTokenVerifier_verify verifier credential
      = (case map_of identities credential of
           None \<Rightarrow> raise_exc AuthenticationError ''invalid bearer credential'' | Some identity \<Rightarrow> Inr identity)
    \<or> (\<exists>token \<in> fst ` set identities. token \<noteq> credential \<and> token_digest token = token_digest credential)"
proof (cases "\<exists>token \<in> fst ` set identities. token \<noteq> credential \<and> token_digest token = token_digest credential")
  case False
  from assms(1) have "token_records identities = Inr verifier"
    by (auto simp: StaticTokenVerifier_init_def split: if_splits)
  then have verifier: "verifier = map (\<lambda>(token, identity). (token_digest token, identity)) identities"
    using token_records_InrD by blast
  have "\<forall>token \<in> fst ` set identities. token_digest credential = token_digest token \<longrightarrow> credential = token"
    using False by metis
  note last_match [OF assms(2) this, of None]
  then show ?thesis
    unfolding StaticTokenVerifier_verify_def Let_def verifier by (simp split: option.splits)
qed simp

definition demo_identity :: VerifiedPrincipal where
  "demo_identity = \<lparr>vp_actor_id = ''manager'', vp_tenant_id = ''acme'', vp_roles = [''refund_approver''],
     vp_auth_source = ''static''\<rparr>"

theorem static_tokens_authenticate_witness:
  "StaticTokenVerifier_verify [(token_digest ''0123456789abcdef'', demo_identity)] ''0123456789abcdef'' = Inr demo_identity"
  using static_tokens_authenticate [of "[(''0123456789abcdef'', demo_identity)]"
      "[(token_digest ''0123456789abcdef'', demo_identity)]" "''0123456789abcdef''"]
  by (simp add: StaticTokenVerifier_init_def)

lemma OIDC_init_InrD:
  assumes "OIDCJWTVerifier_init host_ok installed issuer audience jwks_url tenant_claim roles_claim algorithms leeway insecure = Inr verifier"
  shows "installed \<and> algorithms \<noteq> [] \<and> set algorithms \<subseteq> set asymmetric_algorithms \<and> 0 \<le> leeway \<and> leeway \<le> 300
    \<and> (\<not> insecure \<longrightarrow> url_scheme host_ok issuer = Inr ''https'' \<and> url_scheme host_ok jwks_url = Inr ''https'')
    \<and> verifier = \<lparr>ov_issuer = rstrip_slashes issuer, ov_audience = audience, ov_tenant_claim = tenant_claim,
         ov_roles_claim = roles_claim, ov_algorithms = algorithms, ov_leeway_seconds = leeway, ov_jwks_url = jwks_url\<rparr>"
  using assms unfolding OIDCJWTVerifier_init_def by (auto split: if_splits)

lemma py_item_dict [simp]: "py_item (PDict kvs) k = (case dict_get k kvs of None \<Rightarrow> raise_exc KeyError k | Some v \<Rightarrow> Inr v)"
  by (simp add: py_item_def)

lemma is_str_iff: "is_str v \<longleftrightarrow> (\<exists>s. v = PStr s)"
  by (cases v) (simp_all add: is_str_def)

lemma claimed_principal_InrD:
  assumes "claimed_principal verifier claims = Inr identity"
  obtains subject tenant roles where "dict_get ''sub'' claims = Some (PStr subject)"
    "dict_get (ov_tenant_claim verifier) claims = Some (PStr tenant)"
    "dict_get (ov_roles_claim verifier) claims = Some (PList (map PStr roles))"
    "VerifiedPrincipal_init subject tenant roles (''oidc:'' @ ov_issuer verifier) = Inr identity"
proof -
  from assms obtain subject tenant roles where got: "dict_get ''sub'' claims = Some subject"
    "dict_get (ov_tenant_claim verifier) claims = Some tenant" "dict_get (ov_roles_claim verifier) claims = Some roles"
    and rest: "is_str subject" "is_str tenant"
    "(case roles of PList rs \<Rightarrow>
          if list_all is_str rs
          then VerifiedPrincipal_init (py_str subject) (py_str tenant) (map py_str rs) (''oidc:'' @ ov_issuer verifier)
          else raise_exc AuthenticationError ''OIDC roles claim must be a string array''
      | _ \<Rightarrow> raise_exc AuthenticationError ''OIDC roles claim must be a string array'') = Inr identity"
    unfolding claimed_principal_def by (auto split: option.splits if_splits)
  from rest(3) obtain rs where rs: "roles = PList rs" "list_all is_str rs"
    "VerifiedPrincipal_init (py_str subject) (py_str tenant) (map py_str rs) (''oidc:'' @ ov_issuer verifier) = Inr identity"
    by (cases roles) (auto split: if_splits)
  from rs(2) have "map (PStr \<circ> py_str) rs = rs" by (intro map_idI) (auto simp: list_all_iff is_str_iff)
  moreover obtain s t where "subject = PStr s" "tenant = PStr t" using rest(1,2) by (auto simp: is_str_iff)
  ultimately show thesis
    using that [of s t "map py_str rs"] got rs by (simp add: comp_def)
qed

text \<open>C28: An OIDC verifier makes an identity only from a token the JWT package accepted: a token
  decoded with the fetched key under the configured algorithms, all of them asymmetric, for the
  configured audience and issuer, with a leeway of at most five minutes and with expiry, issue
  time, issuer, audience and subject required; and the identity is the token's subject, tenant
  and roles, stripped, in the name of that issuer. With \<open>https\<close> enforced, issuer and key set are
  \<open>https\<close> URLs.\<close>

theorem oidc_identity_is_the_tokens:
  assumes "OIDCJWTVerifier_init host_ok installed issuer audience jwks_url tenant_claim roles_claim algorithms leeway insecure = Inr verifier"
    and "OIDCJWTVerifier_verify jwt verifier credential = Inr identity"
  shows "\<exists>key claims subject tenant roles.
    jw_signing_key jwt jwks_url credential = Inr key
    \<and> jw_decode jwt credential key algorithms audience (rstrip_slashes issuer) leeway
        [''exp'', ''iat'', ''iss'', ''aud'', ''sub''] = Inr claims
    \<and> algorithms \<noteq> [] \<and> set algorithms \<subseteq> {''RS256'', ''RS384'', ''RS512'', ''ES256'', ''ES384'', ''ES512''}
    \<and> 0 \<le> leeway \<and> leeway \<le> 300
    \<and> (insecure \<or> url_scheme host_ok issuer = Inr ''https'' \<and> url_scheme host_ok jwks_url = Inr ''https'')
    \<and> dict_get ''sub'' claims = Some (PStr subject)
    \<and> dict_get tenant_claim claims = Some (PStr tenant)
    \<and> dict_get roles_claim claims = Some (PList (map PStr roles))
    \<and> identity = \<lparr>vp_actor_id = strip subject, vp_tenant_id = strip tenant, vp_roles = sorted_strip_set roles,
         vp_auth_source = strip (''oidc:'' @ rstrip_slashes issuer)\<rparr>"
proof -
  note init = OIDC_init_InrD [OF assms(1)]
  from assms(2) obtain claims where claims: "decode_credential jwt verifier credential = Inr claims"
    "claimed_principal verifier claims = Inr identity"
    by (auto simp: OIDCJWTVerifier_verify_def split: sum.splits if_splits)
  from claims(1) obtain key where key: "jw_signing_key jwt (ov_jwks_url verifier) credential = Inr key"
    "jw_decode jwt credential key (ov_algorithms verifier) (ov_audience verifier) (ov_issuer verifier)
       (ov_leeway_seconds verifier) required_claims = Inr claims" by (auto simp: decode_credential_def)
  from claims(2) obtain subject tenant roles where got: "dict_get ''sub'' claims = Some (PStr subject)"
    "dict_get (ov_tenant_claim verifier) claims = Some (PStr tenant)"
    "dict_get (ov_roles_claim verifier) claims = Some (PList (map PStr roles))"
    "VerifiedPrincipal_init subject tenant roles (''oidc:'' @ ov_issuer verifier) = Inr identity"
    by (rule claimed_principal_InrD)
  from VerifiedPrincipal_init_InrD [OF got(4)] have "identity = \<lparr>vp_actor_id = strip subject, vp_tenant_id = strip tenant,
      vp_roles = sorted_strip_set roles, vp_auth_source = strip (''oidc:'' @ ov_issuer verifier)\<rparr>" by blast
  with init key got(1-3) show ?thesis
    by (intro exI [of _ key] exI [of _ claims] exI [of _ subject] exI [of _ tenant] exI [of _ roles])
      (auto simp: asymmetric_algorithms_def required_claims_def)
qed

text \<open>A JWT package that accepts one credential, as a check of the hypotheses.\<close>

definition demo_claims :: "(string \<times> pyval) list" where
  "demo_claims = [(''sub'', PStr ''alice''), (''tenant_id'', PStr ''acme''), (''roles'', PList [PStr ''viewer''])]"

definition demo_jwt :: "(string \<times> pyval) list \<Rightarrow> unit pyjwt" where
  "demo_jwt claims = \<lparr>jw_signing_key = (\<lambda>_ _. Inr ()),
     jw_decode = (\<lambda>credential _ _ _ _ _ _. if credential = ''token'' then Inr claims else raise_exc (OtherError ''InvalidTokenError'') []),
     jw_error = (\<lambda>e. exc_kind e = OtherError ''InvalidTokenError'')\<rparr>"

definition demo_oidc :: "OIDCJWTVerifier res" where
  "demo_oidc = OIDCJWTVerifier_init (\<lambda>_. False) True ''https://id.example/'' ''api'' ''https://id.example/keys''
     ''tenant_id'' ''roles'' [''RS256''] 30 False"

definition demo_verifier :: OIDCJWTVerifier where
  "demo_verifier = \<lparr>ov_issuer = ''https://id.example'', ov_audience = ''api'', ov_tenant_claim = ''tenant_id'',
     ov_roles_claim = ''roles'', ov_algorithms = [''RS256''], ov_leeway_seconds = 30,
     ov_jwks_url = ''https://id.example/keys''\<rparr>"

lemma demo_oidc_ok: "demo_oidc = Inr demo_verifier"
  by code_simp

lemma demo_oidc_verifies: "is_ok (OIDCJWTVerifier_verify (demo_jwt demo_claims) demo_verifier ''token'')"
  by code_simp

theorem oidc_identity_is_the_tokens_witness:
  "\<exists>identity. OIDCJWTVerifier_verify (demo_jwt demo_claims) demo_verifier ''token'' = Inr identity
     \<and> vp_tenant_id identity = ''acme''"
proof -
  from demo_oidc_verifies obtain identity where v: "OIDCJWTVerifier_verify (demo_jwt demo_claims) demo_verifier ''token'' = Inr identity"
    by (auto simp: is_ok_iff)
  from oidc_identity_is_the_tokens [OF demo_oidc_ok [unfolded demo_oidc_def] v]
  have "vp_tenant_id identity = strip ''acme''" by (auto simp: demo_jwt_def demo_claims_def dict_get_def)
  moreover have "strip ''acme'' = ''acme''" by code_simp
  ultimately show ?thesis using v by simp
qed

text \<open>Claims the package accepts and no identity can be made of raise a \<open>ValueError\<close>, which
  \<open>verify\<close> does not turn into an \<open>AuthenticationError\<close>.\<close>

theorem roleless_token_escapes:
  assumes "decode_credential jwt verifier credential = Inr claims" "dict_get ''sub'' claims = Some (PStr subject)"
    "dict_get (ov_tenant_claim verifier) claims = Some (PStr tenant)"
    "dict_get (ov_roles_claim verifier) claims = Some (PList [])" "\<And>e. exc_kind e = ValueError \<Longrightarrow> \<not> jw_error jwt e"
  shows "\<exists>message. OIDCJWTVerifier_verify jwt verifier credential = raise_exc ValueError message"
  using assms by (auto simp: OIDCJWTVerifier_verify_def claimed_principal_def is_str_def VerifiedPrincipal_init_def
      sorted_strip_set_def raise_exc_def)

end
