(* ===== verification/Observability.thy ===== *)
theory Observability
  imports Ledger_Reads PyValue
begin

text \<open>
  Operational metrics (\<open>observability.py\<close>): the snapshot of a ledger's counts and its rendering
  in the Prometheus text format. A reference reader of that format shows that the text says
  exactly what the snapshot says, whatever tenants are called.
\<close>

section \<open>The snapshot\<close>

record OperationalSnapshot =
  os_backend :: string
  os_schema_version :: "int option"
  os_tenant_id :: "string option"
  os_status_counts :: "(string \<times> nat) list"
  os_event_counts :: "(string \<times> nat) list"
  os_approval_counts :: "(string \<times> nat) list"
  os_duplicate_retries :: nat
  os_integrity :: "chain_report option"

definition counts_dict :: "(string \<times> nat) list \<Rightarrow> pyval" where
  "counts_dict counts = PDict (map (map_prod id (\<lambda>n. PInt (int n))) counts)"

definition report_dict :: "chain_report \<Rightarrow> pyval" where
  "report_dict r = PDict [(''checked'', PInt (int (cr_checked r))), (''invalid'', PInt (int (cr_invalid r))),
     (''invalid_run_ids'', PList (map PStr (cr_invalid_run_ids r))), (''truncated'', PBool (cr_truncated r))]"

definition snapshot_to_dict :: "OperationalSnapshot \<Rightarrow> pyval" where
  "snapshot_to_dict s = PDict [
     (''backend'', PStr (os_backend s)),
     (''schema_version'', (case os_schema_version s of None \<Rightarrow> PNone | Some v \<Rightarrow> PInt v)),
     (''tenant_id'', opt_str (os_tenant_id s)),
     (''status_counts'', counts_dict (os_status_counts s)),
     (''event_counts'', counts_dict (os_event_counts s)),
     (''approval_counts'', counts_dict (os_approval_counts s)),
     (''duplicate_retries'', PInt (int (os_duplicate_retries s))),
     (''integrity'', (case os_integrity s of None \<Rightarrow> PNone | Some r \<Rightarrow> report_dict r))]"

text \<open>\<open>seen i\<close> is the ledger the \<open>i\<close>-th query finds, \<open>scans j\<close> the two reads for the \<open>j\<close>-th run of
  the integrity scan, \<open>now\<close> the clock of the approval counts and \<open>schema\<close> the stored version.\<close>

definition collect_operational_snapshot ::
  "string \<Rightarrow> int option \<Rightarrow> datetime \<Rightarrow> (nat \<Rightarrow> ledger) \<Rightarrow> (nat \<Rightarrow> ledger \<times> ledger) \<Rightarrow> string option \<Rightarrow> bool \<Rightarrow> int
    \<Rightarrow> OperationalSnapshot res" where
  "collect_operational_snapshot backend schema now seen scans tenant verify_integrity limit =
     res_bind (if verify_integrity
         then res_bind (verify_all_event_chains (seen 0) scans tenant limit) (\<lambda>r. Inr (Some r)) else Inr None) (\<lambda>integrity.
     Inr \<lparr>os_backend = backend, os_schema_version = schema, os_tenant_id = tenant,
          os_status_counts = status_counts (seen 1) tenant, os_event_counts = event_counts (seen 2) tenant,
          os_approval_counts = approval_counts now (seen 3) tenant,
          os_duplicate_retries = duplicate_retry_count (seen 4) tenant, os_integrity = integrity\<rparr>)"

section \<open>Rendering\<close>

definition replace_char :: "char \<Rightarrow> string \<Rightarrow> string \<Rightarrow> string" where
  "replace_char c new s = concat (map (\<lambda>x. if x = c then new else [x]) s)"

text \<open>\<open>_label\<close>.\<close>

definition label :: "string \<Rightarrow> string" where
  "label s = replace_char quote_char [backslash, quote_char]
     (replace_char newline [backslash, CHR ''n''] (replace_char backslash [backslash, backslash] s))"

definition label_text :: "string \<times> string \<Rightarrow> string" where
  "label_text kv = fst kv @ ''='' @ [quote_char] @ label (snd kv) @ [quote_char]"

definition sample_line :: "string \<Rightarrow> (string \<times> string) list \<Rightarrow> nat \<Rightarrow> string" where
  "sample_line metric labels n = metric @ ''{'' @ join '','' (map label_text labels) @ ''} '' @ nat_str n"

definition tenant_label :: "OperationalSnapshot \<Rightarrow> string" where
  "tenant_label s = (case os_tenant_id s of None \<Rightarrow> ''all'' | Some t \<Rightarrow> if t = [] then ''all'' else t)"

definition count_lines :: "string \<Rightarrow> string \<Rightarrow> string \<Rightarrow> (string \<times> nat) list \<Rightarrow> string list" where
  "count_lines metric key tenant counts =
     map (\<lambda>(k, n). sample_line metric [(key, k), (''tenant'', tenant)] n) (sort_key fst counts)"

definition metric_lines :: "OperationalSnapshot \<Rightarrow> string list" where
  "metric_lines s = (let tenant = tenant_label s in
     [''# HELP agenttrustops_runs Current governed action runs by status.'', ''# TYPE agenttrustops_runs gauge'']
     @ count_lines ''agenttrustops_runs'' ''status'' tenant (os_status_counts s)
     @ [''# HELP agenttrustops_events_total Durable action events by type.'', ''# TYPE agenttrustops_events_total counter'']
     @ count_lines ''agenttrustops_events_total'' ''event_type'' tenant (os_event_counts s)
     @ [''# HELP agenttrustops_approvals Approval records by decision state.'', ''# TYPE agenttrustops_approvals gauge'']
     @ count_lines ''agenttrustops_approvals'' ''status'' tenant (os_approval_counts s)
     @ [''# HELP agenttrustops_duplicate_retries_total Duplicate invocations suppressed without regenerating the event chain.'',
        ''# TYPE agenttrustops_duplicate_retries_total counter'',
        sample_line ''agenttrustops_duplicate_retries_total'' [(''tenant'', tenant)] (os_duplicate_retries s)]
     @ (case os_integrity s of None \<Rightarrow> [] | Some r \<Rightarrow>
        [''# HELP agenttrustops_event_chains_invalid Invalid event chains found by the latest scan.'',
         ''# TYPE agenttrustops_event_chains_invalid gauge'',
         sample_line ''agenttrustops_event_chains_invalid'' [(''tenant'', tenant)] (cr_invalid r)]))"

definition render_prometheus :: "OperationalSnapshot \<Rightarrow> string" where
  "render_prometheus s = join [newline] (metric_lines s) @ [newline]"

section \<open>A reader of the format\<close>

type_synonym sample = "string \<times> (string \<times> string) list \<times> nat"

text \<open>A label value up to its closing quote, with the three escapes of the format.\<close>

fun scan_label :: "string \<Rightarrow> (string \<times> string) option" where
  "scan_label [] = None"
| "scan_label (c # s) =
     (if c = quote_char then Some ([], s)
      else if c = backslash then
        (case s of [] \<Rightarrow> None
         | e # s' \<Rightarrow>
           if e = backslash \<or> e = quote_char then cons_fst e (scan_label s')
           else if e = CHR ''n'' then cons_fst newline (scan_label s') else None)
      else cons_fst c (scan_label s))"

fun scan_labels :: "nat \<Rightarrow> string \<Rightarrow> ((string \<times> string) list \<times> string) option" where
  "scan_labels 0 s = None"
| "scan_labels (Suc n) s =
     (let key = takeWhile (\<lambda>c. c \<noteq> CHR ''='') s; r = drop 2 (dropWhile (\<lambda>c. c \<noteq> CHR ''='') s) in
      case scan_label r of
        None \<Rightarrow> None
      | Some (v, r') \<Rightarrow>
          if startswith r' '','' then cons_fst (key, v) (scan_labels n (tl r'))
          else if startswith r' ''}'' then Some ([(key, v)], tl r') else None)"

definition read_sample :: "string \<Rightarrow> sample option" where
  "read_sample line =
     (let metric = takeWhile (\<lambda>c. c \<noteq> CHR ''{'') line; r = tl (dropWhile (\<lambda>c. c \<noteq> CHR ''{'') line) in
      case scan_labels (length r) r of
        None \<Rightarrow> None
      | Some (labels, r') \<Rightarrow>
          if startswith r' '' '' \<and> tl r' \<noteq> [] \<and> list_all is_digit (tl r') then Some (metric, labels, digits_val (tl r')) else None)"

fun split_lines :: "string \<Rightarrow> string list" where
  "split_lines [] = []"
| "split_lines (c # s) =
     (if c = newline then [] # split_lines s
      else case split_lines s of [] \<Rightarrow> [[c]] | l # ls \<Rightarrow> (c # l) # ls)"

definition read_metrics :: "string \<Rightarrow> sample option list" where
  "read_metrics s = map read_sample (filter (\<lambda>line. \<not> startswith line ''#'') (split_lines s))"

text \<open>What the snapshot says, as samples.\<close>

definition count_samples :: "string \<Rightarrow> string \<Rightarrow> string \<Rightarrow> (string \<times> nat) list \<Rightarrow> sample list" where
  "count_samples metric key tenant counts = map (\<lambda>(k, n). (metric, [(key, k), (''tenant'', tenant)], n)) (sort_key fst counts)"

definition snapshot_samples :: "OperationalSnapshot \<Rightarrow> sample list" where
  "snapshot_samples s = (let tenant = tenant_label s in
     count_samples ''agenttrustops_runs'' ''status'' tenant (os_status_counts s)
     @ count_samples ''agenttrustops_events_total'' ''event_type'' tenant (os_event_counts s)
     @ count_samples ''agenttrustops_approvals'' ''status'' tenant (os_approval_counts s)
     @ [(''agenttrustops_duplicate_retries_total'', [(''tenant'', tenant)], os_duplicate_retries s)]
     @ (case os_integrity s of None \<Rightarrow> [] | Some r \<Rightarrow> [(''agenttrustops_event_chains_invalid'', [(''tenant'', tenant)], cr_invalid r)]))"

section \<open>Reading back\<close>

definition escape_label :: "char \<Rightarrow> string" where
  "escape_label c = (if c = backslash then [backslash, backslash] else if c = newline then [backslash, CHR ''n'']
     else if c = quote_char then [backslash, quote_char] else [c])"

lemma label_chars: "quote_char \<noteq> backslash" "newline \<noteq> backslash" "newline \<noteq> quote_char" "CHR ''n'' \<noteq> newline"
  "CHR ''n'' \<noteq> quote_char" "CHR ''n'' \<noteq> backslash"
  by (simp_all add: quote_char_def backslash_def newline_def)

lemma replace_char_append: "replace_char c new (s @ t) = replace_char c new s @ replace_char c new t"
  by (simp add: replace_char_def)

lemma label_Cons: "label (c # s) = escape_label c @ label s"
proof -
  have split: "label (c # s) = replace_char quote_char [backslash, quote_char]
     (replace_char newline [backslash, CHR ''n''] (replace_char backslash [backslash, backslash] [c])) @ label s"
    using replace_char_append [of _ _ "[c]" s] by (simp add: label_def replace_char_append)
  have "replace_char quote_char [backslash, quote_char]
     (replace_char newline [backslash, CHR ''n''] (replace_char backslash [backslash, backslash] [c])) = escape_label c"
    using label_chars by (auto simp: replace_char_def escape_label_def)
  with split show ?thesis by simp
qed

lemma label_Nil [simp]: "label [] = []"
  by (simp add: label_def replace_char_def)

lemma scan_label_label: "scan_label (label s @ quote_char # rest) = Some (s, rest)"
proof (induction s)
  case (Cons c s)
  then show ?case using label_chars by (auto simp: label_Cons escape_label_def cons_fst_def)
qed simp

lemma label_no_newline: "newline \<notin> set (label s)"
  by (induction s) (use label_chars in \<open>auto simp: label_Cons escape_label_def\<close>)

text \<open>Keys without the characters of the syntax.\<close>

definition plain_key :: "string \<Rightarrow> bool" where
  "plain_key k \<longleftrightarrow> (\<forall>c \<in> set k. c \<noteq> CHR ''='' \<and> c \<noteq> CHR ''{'' \<and> c \<noteq> newline)"

lemma takeWhile_stop: "\<forall>c \<in> set k. P c \<Longrightarrow> \<not> P d \<Longrightarrow> takeWhile P (k @ d # r) = k \<and> dropWhile P (k @ d # r) = d # r"
  by (induction k) auto

lemma scan_labels_texts:
  assumes "labels \<noteq> []" "\<forall>kv \<in> set labels. plain_key (fst kv)" "length labels \<le> n"
  shows "scan_labels n (join '','' (map label_text labels) @ CHR ''}'' # rest) = Some (labels, rest)"
  using assms
proof (induction labels arbitrary: n)
  case (Cons kv labels)
  obtain k v where kv: "kv = (k, v)" by (cases kv)
  obtain m where n: "n = Suc m" using Cons.prems(3) by (cases n) auto
  define tail where "tail = (if labels = [] then CHR ''}'' # rest
    else CHR '','' # join '','' (map label_text labels) @ CHR ''}'' # rest)"
  have "join '','' (map label_text (kv # labels)) @ CHR ''}'' # rest = k @ CHR ''='' # quote_char # label v @ quote_char # tail"
    by (cases labels) (simp_all add: kv label_text_def tail_def)
  moreover have "\<forall>c \<in> set k. c \<noteq> CHR ''=''" using Cons.prems(2) by (simp add: kv plain_key_def)
  note takeWhile_stop [OF this, of "CHR ''=''" "quote_char # label v @ quote_char # tail"]
  ultimately have "scan_labels n (join '','' (map label_text (kv # labels)) @ CHR ''}'' # rest)
      = (if startswith tail '','' then cons_fst (k, v) (scan_labels m (tl tail))
         else if startswith tail ''}'' then Some ([(k, v)], tl tail) else None)"
    by (simp add: n scan_label_label)
  then show ?case
    using Cons by (cases labels) (auto simp: tail_def kv n cons_fst_def)
qed simp

lemma label_text_length: "labels \<noteq> [] \<Longrightarrow> length labels \<le> length (join '','' (map label_text labels) @ r)"
proof (induction labels rule: induct_list012)
  case (3 x y zs)
  then show ?case by (simp add: label_text_def)
qed (simp_all add: label_text_def)

lemma read_sample_line:
  assumes "\<forall>c \<in> set metric. c \<noteq> CHR ''{''" "labels \<noteq> []" "\<forall>kv \<in> set labels. plain_key (fst kv)"
  shows "read_sample (sample_line metric labels n) = Some (metric, labels, n)"
proof -
  let ?r = "join '','' (map label_text labels) @ CHR ''}'' # '' '' @ nat_str n"
  have "sample_line metric labels n = metric @ CHR ''{'' # ?r" by (simp add: sample_line_def)
  moreover note takeWhile_stop [OF assms(1), of "CHR ''{''" ?r]
  moreover have "scan_labels (length ?r) ?r = Some (labels, '' '' @ nat_str n)"
    by (rule scan_labels_texts [OF assms(2,3) label_text_length [OF assms(2)]])
  ultimately show ?thesis by (simp add: read_sample_def nat_str_digits list_all_iff)
qed

lemma split_lines_line: "newline \<notin> set l \<Longrightarrow> split_lines (l @ newline # s) = l # split_lines s"
  by (induction l) auto

lemma split_join_lines: "\<forall>l \<in> set ls. newline \<notin> set l \<Longrightarrow> ls \<noteq> [] \<Longrightarrow> split_lines (join [newline] ls @ [newline]) = ls"
proof (induction ls rule: induct_list012)
  case (3 x y zs)
  then show ?case using split_lines_line [of x "join [newline] (y # zs) @ [newline]"] by simp
qed (simp_all add: split_lines_line)

definition plain_metric :: "string \<Rightarrow> bool" where
  "plain_metric m \<longleftrightarrow> m \<noteq> [] \<and> hd m \<noteq> CHR ''#'' \<and> list_all (\<lambda>c. c \<noteq> CHR ''{'' \<and> c \<noteq> newline) m"

fun plain_sample :: "sample \<Rightarrow> bool" where
  "plain_sample (m, labels, n) \<longleftrightarrow> plain_metric m \<and> labels \<noteq> [] \<and> (\<forall>kv \<in> set labels. plain_key (fst kv))"

fun line_of :: "sample \<Rightarrow> string" where
  "line_of (m, labels, n) = sample_line m labels n"

lemma set_join: "set (join sep xs) \<subseteq> set sep \<union> \<Union> (set ` set xs)"
  by (induction sep xs rule: join.induct) auto

lemma newline_no_digit: "\<not> is_digit newline"
  by code_simp

lemma line_of_no_newline:
  assumes "plain_sample x"
  shows "newline \<notin> set (line_of x)"
proof -
  obtain m labels n where x: "x = (m, labels, n)" by (cases x)
  have digits: "newline \<notin> set (nat_str n)"
    using nat_str_digits [of newline n] newline_no_digit by blast
  have "newline \<notin> set (label_text kv)" if "kv \<in> set labels" for kv
    using assms that label_no_newline [of "snd kv"]
    by (auto simp: x label_text_def plain_key_def newline_def quote_char_def)
  then have "newline \<notin> set (join '','' (map label_text labels))"
    using set_join [of "'',''" "map label_text labels"] by (auto simp: newline_def)
  with digits show ?thesis
    using assms by (auto simp: x sample_line_def plain_metric_def list_all_iff newline_def)
qed

lemma read_line_of: "plain_sample x \<Longrightarrow> read_sample (line_of x) = Some x"
  by (cases x) (simp add: read_sample_line plain_metric_def list_all_iff)

lemma line_of_sample: "plain_sample x \<Longrightarrow> \<not> startswith (line_of x) ''#''"
  by (cases x) (auto simp: sample_line_def plain_metric_def startswith_iff neq_Nil_conv)

lemma filter_samples:
  "\<forall>x \<in> set xs. plain_sample x \<Longrightarrow> filter (\<lambda>l. \<not> startswith l ''#'') (map line_of xs) = map line_of xs"
  by (simp add: filter_id_conv line_of_sample)

lemma count_lines_samples: "count_lines m k t counts = map line_of (count_samples m k t counts)"
  by (auto simp: count_lines_def count_samples_def)

lemma metric_names:
  "plain_metric ''agenttrustops_runs''" "plain_metric ''agenttrustops_events_total''"
  "plain_metric ''agenttrustops_approvals''" "plain_metric ''agenttrustops_duplicate_retries_total''"
  "plain_metric ''agenttrustops_event_chains_invalid''"
  "plain_key ''status''" "plain_key ''event_type''" "plain_key ''tenant''"
  by (simp_all add: plain_metric_def plain_key_def newline_def)

lemma plain_count_samples:
  assumes "plain_metric m" "plain_key k"
  shows "\<forall>x \<in> set (count_samples m k t counts). plain_sample x"
proof
  fix x assume "x \<in> set (count_samples m k t counts)"
  then obtain a n where "x = (m, [(k, a), (''tenant'', t)], n)" by (auto simp: count_samples_def)
  then show "plain_sample x" using assms metric_names(8) by simp
qed

lemma plain_samples: "\<forall>x \<in> set (snapshot_samples s). plain_sample x"
  unfolding snapshot_samples_def Let_def set_append ball_Un
  using metric_names(4,5,8) plain_count_samples [OF metric_names(1) metric_names(6)]
    plain_count_samples [OF metric_names(2) metric_names(7)] plain_count_samples [OF metric_names(3) metric_names(6)]
  by (intro conjI) (simp_all split: option.splits)

text \<open>A line that starts with a hash is a comment of one line.\<close>

definition comment_line :: "string \<Rightarrow> bool" where
  "comment_line l \<longleftrightarrow> startswith l ''#'' \<and> newline \<notin> set l"

definition line_items :: "OperationalSnapshot \<Rightarrow> (string + sample) list" where
  "line_items s = (let tenant = tenant_label s in
     map Inl [''# HELP agenttrustops_runs Current governed action runs by status.'', ''# TYPE agenttrustops_runs gauge'']
     @ map Inr (count_samples ''agenttrustops_runs'' ''status'' tenant (os_status_counts s))
     @ map Inl [''# HELP agenttrustops_events_total Durable action events by type.'', ''# TYPE agenttrustops_events_total counter'']
     @ map Inr (count_samples ''agenttrustops_events_total'' ''event_type'' tenant (os_event_counts s))
     @ map Inl [''# HELP agenttrustops_approvals Approval records by decision state.'', ''# TYPE agenttrustops_approvals gauge'']
     @ map Inr (count_samples ''agenttrustops_approvals'' ''status'' tenant (os_approval_counts s))
     @ map Inl [''# HELP agenttrustops_duplicate_retries_total Duplicate invocations suppressed without regenerating the event chain.'',
        ''# TYPE agenttrustops_duplicate_retries_total counter'']
     @ [Inr (''agenttrustops_duplicate_retries_total'', [(''tenant'', tenant)], os_duplicate_retries s)]
     @ (case os_integrity s of None \<Rightarrow> [] | Some r \<Rightarrow>
        map Inl [''# HELP agenttrustops_event_chains_invalid Invalid event chains found by the latest scan.'',
         ''# TYPE agenttrustops_event_chains_invalid gauge'']
        @ [Inr (''agenttrustops_event_chains_invalid'', [(''tenant'', tenant)], cr_invalid r)]))"

definition item_line :: "string + sample \<Rightarrow> string" where
  "item_line = case_sum id line_of"

definition item_samples :: "(string + sample) list \<Rightarrow> sample list" where
  "item_samples xs = concat (map (case_sum (\<lambda>_. []) (\<lambda>x. [x])) xs)"

lemma item_maps [simp]:
  "map item_line (map Inl ls) = ls" "map item_line (map Inr xs) = map line_of xs"
  "item_samples (map Inl ls) = []" "item_samples (map Inr xs) = xs" "item_samples (xs' @ ys') = item_samples xs' @ item_samples ys'"
  "item_samples [] = []" "item_samples [Inr x] = [x]" "item_line (Inr x) = line_of x" "item_line (Inl l) = l"
  by (simp_all add: item_line_def item_samples_def comp_def)

lemma metric_lines_items: "metric_lines s = map item_line (line_items s)"
  unfolding metric_lines_def line_items_def Let_def count_lines_samples
  by (cases "os_integrity s") (simp_all only: map_append item_maps option.case line_of.simps list.map append_Cons append_Nil)

lemma snapshot_samples_items: "item_samples (line_items s) = snapshot_samples s"
  unfolding snapshot_samples_def line_items_def Let_def
  by (cases "os_integrity s") (simp_all only: option.case item_maps append_Nil append_Nil2)

lemma comments: "list_all (case_sum comment_line (\<lambda>_. True)) (line_items s)"
  unfolding line_items_def Let_def list_all_append list_all_iff
  by (auto simp: comment_line_def newline_def split: option.splits)

lemma read_items:
  assumes "list_all (case_sum comment_line plain_sample) xs"
  shows "map read_sample (filter (\<lambda>l. \<not> startswith l ''#'') (map item_line xs)) = map Some (item_samples xs)
    \<and> (\<forall>l \<in> set (map item_line xs). newline \<notin> set l)"
  using assms
proof (induction xs)
  case (Cons x xs)
  then show ?case
    by (cases x) (simp_all add: comment_line_def line_of_sample read_line_of line_of_no_newline item_samples_def)
qed (simp add: item_samples_def)

lemma items_fine: "list_all (case_sum comment_line plain_sample) (line_items s)"
  using comments [of s] plain_samples [of s] unfolding snapshot_samples_items [symmetric]
  by (auto simp: list_all_iff item_samples_def split: sum.splits)

section \<open>The property\<close>

text \<open>C33: Whatever the counts are keyed by and whatever tenants are called (quotes, backslashes and line
  breaks included), a reader of the Prometheus text format gets exactly the samples of the snapshot
  from the rendered metrics: no line is malformed, none is lost and none can be forged by a name.\<close>

theorem rendered_metrics_read_back: "read_metrics (render_prometheus s) = map Some (snapshot_samples s)"
proof -
  have "metric_lines s \<noteq> []" by (simp add: metric_lines_def Let_def)
  then have "split_lines (render_prometheus s) = metric_lines s"
    unfolding render_prometheus_def
    using split_join_lines [of "metric_lines s"] read_items [OF items_fine [of s]] by (simp add: metric_lines_items)
  then show ?thesis
    using read_items [OF items_fine [of s]] by (simp add: read_metrics_def metric_lines_items snapshot_samples_items)
qed

end
