(* ===== verification/Api.thy ===== *)
theory Api
  imports Registry Auth Observability Runtime_Audit
begin

text \<open>
  The HTTP control plane (\<open>api.py\<close>): the application \<open>create_app\<close> builds, one definition per
  endpoint, with the authentication, the role and tenant checks and the exception handlers
  around them. FastAPI's part is taken as documented: it solves the dependencies of an endpoint
  (authentication) before it validates the body, answers 422 to what does not fit the declared
  types, and 500 to an exception no handler is declared for. A body is its decoded JSON.
\<close>

section \<open>Requests\<close>

definition no_other_keys :: "string list \<Rightarrow> (string \<times> pyval) list \<Rightarrow> bool" where
  "no_other_keys allowed kvs \<longleftrightarrow> set (map fst kvs) \<subseteq> set allowed"

definition str_between :: "nat \<Rightarrow> nat \<Rightarrow> pyval \<Rightarrow> bool" where
  "str_between lo hi v = (case v of PStr s \<Rightarrow> lo \<le> length s \<and> length s \<le> hi | _ \<Rightarrow> False)"

record InvokeRequest =
  iq_arguments :: "(string \<times> pyval) list"
  iq_evidence_refs :: "string list"

definition InvokeRequest_parse :: "pyval \<Rightarrow> InvokeRequest option" where
  "InvokeRequest_parse body =
     (case body of
        PDict kvs \<Rightarrow>
          (case (dict_get ''arguments'' kvs, dict_get ''evidence_refs'' kvs) of
             (arguments, refs) \<Rightarrow>
               (case (case arguments of None \<Rightarrow> PDict [] | Some v \<Rightarrow> v, case refs of None \<Rightarrow> PList [] | Some v \<Rightarrow> v) of
                  (PDict args, PList rs) \<Rightarrow>
                    if no_other_keys [''arguments'', ''evidence_refs''] kvs \<and> length rs \<le> 100
                       \<and> list_all (str_between 1 255) rs
                    then Some \<lparr>iq_arguments = args, iq_evidence_refs = map py_str rs\<rparr> else None
                | _ \<Rightarrow> None))
      | _ \<Rightarrow> None)"

definition DecisionRequest_parse :: "pyval \<Rightarrow> string option" where
  "DecisionRequest_parse body =
     (case body of
        PDict kvs \<Rightarrow>
          (case dict_get ''note'' kvs of
             Some v \<Rightarrow> if no_other_keys [''note''] kvs \<and> str_between 3 2000 v then Some (py_str v) else None
           | None \<Rightarrow> None)
      | _ \<Rightarrow> None)"

record ReconcileRequest =
  rq_outcome :: string
  rq_note :: string
  rq_result :: pyval

definition ReconcileRequest_parse :: "pyval \<Rightarrow> ReconcileRequest option" where
  "ReconcileRequest_parse body =
     (case body of
        PDict kvs \<Rightarrow>
          (case (dict_get ''note'' kvs, dict_get ''outcome'' kvs) of
             (Some note', Some outcome) \<Rightarrow>
               if no_other_keys [''note'', ''outcome'', ''result''] kvs \<and> str_between 3 2000 note'
                  \<and> (outcome = PStr ''completed'' \<or> outcome = PStr ''failed'')
               then Some \<lparr>rq_outcome = py_str outcome, rq_note = py_str note',
                      rq_result = (case dict_get ''result'' kvs of None \<Rightarrow> PNone | Some v \<Rightarrow> v)\<rparr> else None
           | _ \<Rightarrow> None)
      | _ \<Rightarrow> None)"

section \<open>Handlers\<close>

text \<open>A handler returns, raises \<open>HTTPException\<close>, or raises another exception.\<close>

record http_error =
  he_status :: nat
  he_detail :: string
  he_headers :: "(string \<times> string) list"

type_synonym ('w, 'a) handler = "('w, http_error + 'a) rt"

definition h_return :: "'a \<Rightarrow> ('w, 'a) handler" where
  "h_return x = rt_return (Inr x)"

definition h_bind :: "('w, 'a) handler \<Rightarrow> ('a \<Rightarrow> ('w, 'b) handler) \<Rightarrow> ('w, 'b) handler" where
  "h_bind m f = rt_bind m (\<lambda>x. case x of Inl err \<Rightarrow> rt_return (Inl err) | Inr v \<Rightarrow> f v)"

definition h_call :: "('w, 'a) rt \<Rightarrow> ('w, 'a) handler" where
  "h_call m = rt_bind m h_return"

definition http_exception :: "nat \<Rightarrow> string \<Rightarrow> ('w, 'a) handler" where
  "http_exception status detail = rt_return (Inl \<lparr>he_status = status, he_detail = detail, he_headers = []\<rparr>)"

definition unauthorized :: "string \<Rightarrow> ('w, 'a) handler" where
  "unauthorized detail =
     rt_return (Inl \<lparr>he_status = 401, he_detail = detail, he_headers = [(''WWW-Authenticate'', ''Bearer'')]\<rparr>)"

text \<open>\<open>str(error)\<close>: a \<open>KeyError\<close> shows the \<open>repr\<close> of its argument.\<close>

definition exc_text :: "exc \<Rightarrow> string" where
  "exc_text e = (if exc_kind e = KeyError then repr_str (exc_msg e) else exc_msg e)"

definition is_value_error :: "exc \<Rightarrow> bool" where
  "is_value_error e \<longleftrightarrow> exc_kind e = ValueError \<or> exc_kind e = JSONDecodeError"

text \<open>What \<open>create_app\<close> is given. The verifier and the resolver are interfaces; \<open>ac_schema\<close> is the
  stored schema version, \<open>ac_asset\<close> the text of a packaged file.\<close>

record 'w app_config =
  ac_registry :: "'w ActionRegistry"
  ac_verify :: "string \<Rightarrow> VerifiedPrincipal res"
  ac_resolver :: "(VerifiedPrincipal \<Rightarrow> string \<Rightarrow> (string \<times> pyval) list \<Rightarrow> string list \<Rightarrow> ActionContext res) option"
  ac_probes :: "(string \<times> 'w ProviderProbe) list"
  ac_invoker_role :: string
  ac_viewer_role :: string
  ac_executor_role :: string
  ac_observer_role :: string
  ac_operator_role :: string
  ac_schema :: "int option"
  ac_asset :: "string \<Rightarrow> string"

definition PrincipalContextResolver ::
  "VerifiedPrincipal \<Rightarrow> string \<Rightarrow> (string \<times> pyval) list \<Rightarrow> string list \<Rightarrow> ActionContext res" where
  "PrincipalContextResolver identity action_name arguments evidence_refs =
     (if evidence_refs \<noteq> []
      then raise_exc ValueError ''evidence_refs require a server-side InvocationContextResolver''
      else ActionContext_init (vp_actor_id identity) (vp_tenant_id identity) (vp_roles identity) []
             (PDict [(''identity_source'', PStr (vp_auth_source identity))]))"

definition resolve_context ::
  "'w app_config \<Rightarrow> VerifiedPrincipal \<Rightarrow> string \<Rightarrow> (string \<times> pyval) list \<Rightarrow> string list \<Rightarrow> ActionContext res" where
  "resolve_context cfg = (case ac_resolver cfg of None \<Rightarrow> PrincipalContextResolver | Some f \<Rightarrow> f)"

definition validate_resolved_context :: "VerifiedPrincipal \<Rightarrow> ActionContext \<Rightarrow> unit res" where
  "validate_resolved_context identity context =
     (if cx_actor_id context \<noteq> vp_actor_id identity \<or> cx_tenant_id context \<noteq> vp_tenant_id identity
      then raise_exc ValueError ''context resolver changed verified actor or tenant''
      else if \<not> set (cx_roles context) \<subseteq> set (vp_roles identity)
      then raise_exc ValueError ''context resolver added an unverified role''
      else Inr ())"

text \<open>The dependency \<open>principal\<close>.\<close>

definition authenticate :: "'w app_config \<Rightarrow> string option \<Rightarrow> ('w, VerifiedPrincipal) handler" where
  "authenticate cfg authorization =
     (case authorization of
        None \<Rightarrow> unauthorized ''bearer credential required''
      | Some header \<Rightarrow>
          if header = [] \<or> \<not> startswith header ''Bearer '' then unauthorized ''bearer credential required''
          else (case ac_verify cfg (strip (drop (length ''Bearer '') header)) of
             Inr identity \<Rightarrow> h_return identity
           | Inl e \<Rightarrow> if exc_kind e = AuthenticationError then unauthorized (exc_text e) else rt_lift (Inl e)))"

definition require_role :: "VerifiedPrincipal \<Rightarrow> string \<Rightarrow> ('w, unit) handler" where
  "require_role identity role =
     (if role \<notin> set (vp_roles identity)
      then http_exception 403 (''verified principal lacks required role: '' @ role) else h_return ())"

definition load_tenant_run :: "schedule \<Rightarrow> string \<Rightarrow> VerifiedPrincipal \<Rightarrow> ('w, run_row) handler" where
  "load_tenant_run orc run_id identity =
     rt_bind (get_run orc run_id) (\<lambda>run. case run of
       None \<Rightarrow> http_exception 404 ''run not found''
     | Some r \<Rightarrow> if r_tenant_id r \<noteq> vp_tenant_id identity then http_exception 404 ''run not found'' else h_return r)"

definition visible_run :: "schedule \<Rightarrow> string \<Rightarrow> VerifiedPrincipal \<Rightarrow> ('w, pyval) handler" where
  "visible_run orc run_id identity =
     rt_bind (action_audit_trail orc run_id (Some identity)) (\<lambda>trail. case trail of
       None \<Rightarrow> http_exception 404 ''run not found''
     | Some t \<Rightarrow> h_call (rt_lift (py_item (PDict t) ''run'')))"

fun visible_runs :: "schedule \<Rightarrow> VerifiedPrincipal \<Rightarrow> pydict list \<Rightarrow> ('w, pyval list) handler" where
  "visible_runs orc identity [] = h_return []"
| "visible_runs orc identity (run # runs) =
     rt_bind (rt_lift (py_item (PDict run) ''run_id'')) (\<lambda>run_id.
     h_bind (visible_run orc (py_str run_id) identity) (\<lambda>shown.
     h_bind (visible_runs orc identity runs) (\<lambda>rest. h_return (shown # rest))))"

section \<open>Endpoints\<close>

datatype reply = JsonReply pyval | TextReply string string

definition schema_info :: "'w app_config \<Rightarrow> pydict" where
  "schema_info cfg = [(''backend'', PStr ''sqlite''),
     (''schema_version'', (case ac_schema cfg of None \<Rightarrow> PNone | Some v \<Rightarrow> PInt v)), (''writable'', PBool True)]"

definition health :: "('w, reply) handler" where
  "health = h_return (JsonReply (PDict [(''status'', PStr ''ok'')]))"

definition readiness :: "'w app_config \<Rightarrow> ('w, reply) handler" where
  "readiness cfg = h_return (JsonReply (PDict [(''status'', PStr ''ready''), (''ledger'', PDict (schema_info cfg))]))"

definition static_asset :: "'w app_config \<Rightarrow> string \<Rightarrow> string \<Rightarrow> ('w, reply) handler" where
  "static_asset cfg name media_type = h_return (TextReply media_type (ac_asset cfg name))"

definition actions_endpoint :: "'w app_config \<Rightarrow> VerifiedPrincipal \<Rightarrow> ('w, reply) handler" where
  "actions_endpoint cfg identity =
     h_bind (require_role identity (ac_viewer_role cfg)) (\<lambda>_.
     h_return (JsonReply (PDict [(''actions'', str_tuple (action_names (ac_registry cfg)))])))"

definition public_result :: "('w, ActionResult) rt \<Rightarrow> ('w, reply) handler" where
  "public_result m = rt_bind m (\<lambda>result. h_return (JsonReply (ActionResult_to_public_dict result)))"

text \<open>The body of the \<open>try\<close> of the invocation.\<close>

definition resolve_and_invoke ::
  "'w app_config \<Rightarrow> schedule \<Rightarrow> 'w TrustedAction \<Rightarrow> string \<Rightarrow> InvokeRequest \<Rightarrow> VerifiedPrincipal \<Rightarrow> string
    \<Rightarrow> ('w, ActionResult) rt" where
  "resolve_and_invoke cfg orc act action_name body identity key =
     rt_bind (rt_lift (resolve_context cfg identity action_name (iq_arguments body) (iq_evidence_refs body))) (\<lambda>context.
     rt_bind (rt_lift (validate_resolved_context identity context)) (\<lambda>_.
     if ta_is_async act then invoke_request_async orc act context (iq_arguments body) key
     else invoke_request orc act context (iq_arguments body) key))"

definition invoke_endpoint ::
  "'w app_config \<Rightarrow> schedule \<Rightarrow> string \<Rightarrow> InvokeRequest \<Rightarrow> VerifiedPrincipal \<Rightarrow> string option \<Rightarrow> ('w, reply) handler" where
  "invoke_endpoint cfg orc action_name body identity idempotency_key =
     h_bind (require_role identity (ac_invoker_role cfg)) (\<lambda>_.
     case idempotency_key of
       None \<Rightarrow> http_exception 400 ''Idempotency-Key must contain between 8 and 255 characters''
     | Some key \<Rightarrow>
         if \<not> (8 \<le> length (strip key) \<and> length (strip key) \<le> 255)
         then http_exception 400 ''Idempotency-Key must contain between 8 and 255 characters''
         else (case get_action (ac_registry cfg) action_name of
             Inl e \<Rightarrow> http_exception 404 (exc_text e)
           | Inr act \<Rightarrow>
               rt_catch (public_result (resolve_and_invoke cfg orc act action_name body identity key))
                 is_value_error (\<lambda>e. http_exception 400 (exc_text e))))"

definition runs_endpoint ::
  "'w app_config \<Rightarrow> schedule \<Rightarrow> VerifiedPrincipal \<Rightarrow> ActionStatus option \<Rightarrow> int \<Rightarrow> ('w, reply) handler" where
  "runs_endpoint cfg orc identity run_status limit =
     h_bind (require_role identity (ac_viewer_role cfg)) (\<lambda>_.
     rt_bind (read_ledger orc) (\<lambda>l.
     rt_bind (rt_lift (list_runs l (Some (vp_tenant_id identity)) run_status limit)) (\<lambda>listed.
     h_bind (visible_runs orc identity listed) (\<lambda>shown.
     h_return (JsonReply (PDict [(''runs'', PList shown)]))))))"

definition audit_endpoint :: "'w app_config \<Rightarrow> schedule \<Rightarrow> string \<Rightarrow> VerifiedPrincipal \<Rightarrow> ('w, reply) handler" where
  "audit_endpoint cfg orc run_id identity =
     h_bind (require_role identity (ac_viewer_role cfg)) (\<lambda>_.
     h_bind (load_tenant_run orc run_id identity) (\<lambda>_.
     rt_bind (action_audit_trail orc run_id (Some identity)) (\<lambda>trail. case trail of
       None \<Rightarrow> http_exception 404 ''run not found''
     | Some t \<Rightarrow> h_return (JsonReply (PDict t)))))"

definition approvals_endpoint :: "'w app_config \<Rightarrow> schedule \<Rightarrow> VerifiedPrincipal \<Rightarrow> ('w, reply) handler" where
  "approvals_endpoint cfg orc identity =
     h_bind (require_role identity (ac_viewer_role cfg)) (\<lambda>_.
     rt_bind (read_ledger orc) (\<lambda>l.
     rt_bind (rt_lift (list_runs l (Some (vp_tenant_id identity)) (Some PENDING_APPROVAL) 1000)) (\<lambda>pending.
     h_bind (visible_runs orc identity pending) (\<lambda>shown.
     h_return (JsonReply (PDict [(''approvals'', PList shown)]))))))"

text \<open>What the endpoints about one run share: the run is loaded and its action looked up.\<close>

definition run_action ::
  "'w app_config \<Rightarrow> schedule \<Rightarrow> string \<Rightarrow> VerifiedPrincipal \<Rightarrow> (run_row \<Rightarrow> 'w TrustedAction \<Rightarrow> ('w, reply) handler)
    \<Rightarrow> ('w, reply) handler" where
  "run_action cfg orc run_id identity f =
     h_bind (load_tenant_run orc run_id identity) (\<lambda>run.
     rt_bind (rt_lift (get_action (ac_registry cfg) (r_action_name run))) (f run))"

definition approve_endpoint :: "'w app_config \<Rightarrow> schedule \<Rightarrow> string \<Rightarrow> string \<Rightarrow> VerifiedPrincipal \<Rightarrow> ('w, reply) handler" where
  "approve_endpoint cfg orc run_id note' identity =
     run_action cfg orc run_id identity (\<lambda>run act. public_result (approve orc act run_id identity note'))"

definition reject_endpoint :: "'w app_config \<Rightarrow> schedule \<Rightarrow> string \<Rightarrow> string \<Rightarrow> VerifiedPrincipal \<Rightarrow> ('w, reply) handler" where
  "reject_endpoint cfg orc run_id note' identity =
     run_action cfg orc run_id identity (\<lambda>run act. public_result (reject orc act run_id identity note'))"

definition resume_endpoint :: "'w app_config \<Rightarrow> schedule \<Rightarrow> string \<Rightarrow> VerifiedPrincipal \<Rightarrow> ('w, reply) handler" where
  "resume_endpoint cfg orc run_id identity =
     h_bind (require_role identity (ac_executor_role cfg)) (\<lambda>_.
     run_action cfg orc run_id identity (\<lambda>run act.
       public_result (if ta_is_async act then resume_async orc act run_id else resume orc act run_id)))"

definition reconcile_endpoint ::
  "'w app_config \<Rightarrow> schedule \<Rightarrow> string \<Rightarrow> ReconcileRequest \<Rightarrow> VerifiedPrincipal \<Rightarrow> ('w, reply) handler" where
  "reconcile_endpoint cfg orc run_id body identity =
     run_action cfg orc run_id identity (\<lambda>run act.
       public_result (reconcile orc act run_id (rq_outcome body) identity (rq_note body) (rq_result body)))"

definition reconcile_from_provider_endpoint ::
  "'w app_config \<Rightarrow> schedule \<Rightarrow> string \<Rightarrow> VerifiedPrincipal \<Rightarrow> ('w, reply) handler" where
  "reconcile_from_provider_endpoint cfg orc run_id identity =
     run_action cfg orc run_id identity (\<lambda>run act.
       if set (ta_reconciliation_roles act) \<inter> set (vp_roles identity) = {}
       then rt_raise ApprovalDenied ''principal lacks a required reconciliation role''
       else case map_of (ac_probes cfg) (r_action_name run) of
         None \<Rightarrow> http_exception 409 ''no provider reconciliation probe is configured for this action''
       | Some probe \<Rightarrow>
           rt_catch (public_result (reconcile_from_provider orc act run_id probe identity))
             (\<lambda>e. exc_kind e = ProviderLookupError)
             (\<lambda>_. http_exception 502 ''provider lookup failed; run remains unknown''))"

definition recover_endpoint :: "'w app_config \<Rightarrow> schedule \<Rightarrow> VerifiedPrincipal \<Rightarrow> ('w, reply) handler" where
  "recover_endpoint cfg orc identity =
     h_bind (require_role identity (ac_operator_role cfg)) (\<lambda>_.
     rt_bind (ledger_call orc (\<lambda>env. expire_approvals env (Some (vp_tenant_id identity)))) (\<lambda>expired.
     rt_bind (ledger_call orc (\<lambda>env. recover_expired_executions env (Some (vp_tenant_id identity)))) (\<lambda>recovered.
     h_return (JsonReply (PDict [
       (''recovered_executions'', PInt (int (length recovered))),
       (''execution_run_ids'', PList (map PStr recovered)),
       (''expired_approvals'', PInt (int (length expired))),
       (''approval_run_ids'', PList (map PStr expired))])))))"

text \<open>A read transaction with the clock of the call.\<close>

definition read_now :: "schedule \<Rightarrow> ('w, datetime \<times> ledger) rt" where
  "read_now orc = ledger_call orc (\<lambda>env l. Inr ((now_at env 0, l), l))"

definition metrics_endpoint :: "'w app_config \<Rightarrow> schedule \<Rightarrow> VerifiedPrincipal \<Rightarrow> ('w, reply) handler" where
  "metrics_endpoint cfg orc identity =
     h_bind (require_role identity (ac_observer_role cfg)) (\<lambda>_.
     rt_bind (read_ledger orc) (\<lambda>l1. rt_bind (read_ledger orc) (\<lambda>l2. rt_bind (read_now orc) (\<lambda>(now, l3).
     rt_bind (read_ledger orc) (\<lambda>l4.
     rt_bind (rt_lift (collect_operational_snapshot ''sqlite'' (ac_schema cfg) now (\<lambda>i. [l1, l1, l2, l3, l4] ! i)
       (\<lambda>_. (l4, l4)) (Some (vp_tenant_id identity)) False 10000)) (\<lambda>snapshot.
     h_return (TextReply ''text/plain; version=0.0.4; charset=utf-8'' (render_prometheus snapshot))))))))"

section \<open>The application\<close>

text \<open>The routes with the parameters FastAPI extracts; a body is the decoded JSON.\<close>

datatype route =
    Healthz
  | Readyz
  | Ui string string
  | ListActions
  | Invoke string pyval "string option"
  | ListRuns "ActionStatus option" int
  | Audit string
  | Approvals
  | Approve string pyval
  | Reject string pyval
  | Resume string
  | Reconcile string pyval
  | ReconcileFromProvider string
  | Recover
  | Metrics

text \<open>422 unless the body fits.\<close>

definition with_body :: "'b option \<Rightarrow> ('b \<Rightarrow> ('w, reply) handler) \<Rightarrow> ('w, reply) handler" where
  "with_body body f = (case body of None \<Rightarrow> http_exception 422 ''request validation failed'' | Some b \<Rightarrow> f b)"

definition endpoint :: "'w app_config \<Rightarrow> schedule \<Rightarrow> route \<Rightarrow> VerifiedPrincipal \<Rightarrow> ('w, reply) handler" where
  "endpoint cfg orc route identity =
     (case route of
        Healthz \<Rightarrow> health
      | Readyz \<Rightarrow> readiness cfg
      | Ui name media_type \<Rightarrow> static_asset cfg name media_type
      | ListActions \<Rightarrow> actions_endpoint cfg identity
      | Invoke name body key \<Rightarrow> with_body (InvokeRequest_parse body) (\<lambda>b. invoke_endpoint cfg orc name b identity key)
      | ListRuns status limit \<Rightarrow>
          with_body (if 1 \<le> limit \<and> limit \<le> 1000 then Some limit else None) (runs_endpoint cfg orc identity status)
      | Audit run_id \<Rightarrow> audit_endpoint cfg orc run_id identity
      | Approvals \<Rightarrow> approvals_endpoint cfg orc identity
      | Approve run_id body \<Rightarrow> with_body (DecisionRequest_parse body) (\<lambda>b. approve_endpoint cfg orc run_id b identity)
      | Reject run_id body \<Rightarrow> with_body (DecisionRequest_parse body) (\<lambda>b. reject_endpoint cfg orc run_id b identity)
      | Resume run_id \<Rightarrow> resume_endpoint cfg orc run_id identity
      | Reconcile run_id body \<Rightarrow>
          with_body (ReconcileRequest_parse body) (\<lambda>b. reconcile_endpoint cfg orc run_id b identity)
      | ReconcileFromProvider run_id \<Rightarrow> reconcile_from_provider_endpoint cfg orc run_id identity
      | Recover \<Rightarrow> recover_endpoint cfg orc identity
      | Metrics \<Rightarrow> metrics_endpoint cfg orc identity)"

fun is_public :: "route \<Rightarrow> bool" where
  "is_public Healthz = True"
| "is_public Readyz = True"
| "is_public (Ui name media_type) = True"
| "is_public _ = False"

definition nobody :: VerifiedPrincipal where
  "nobody = \<lparr>vp_actor_id = [], vp_tenant_id = [], vp_roles = [], vp_auth_source = []\<rparr>"

definition handle_route :: "'w app_config \<Rightarrow> schedule \<Rightarrow> string option \<Rightarrow> route \<Rightarrow> ('w, reply) handler" where
  "handle_route cfg orc authorization route =
     (if is_public route then endpoint cfg orc route nobody
      else h_bind (authenticate cfg authorization) (endpoint cfg orc route))"

record http_response =
  hr_status :: nat
  hr_headers :: "(string \<times> string) list"
  hr_body :: reply

definition detail_response :: "nat \<Rightarrow> (string \<times> string) list \<Rightarrow> string \<Rightarrow> http_response" where
  "detail_response status headers detail =
     \<lparr>hr_status = status, hr_headers = headers, hr_body = JsonReply (PDict [(''detail'', PStr detail)])\<rparr>"

text \<open>The exception handlers; \<open>None\<close> is an exception that leaves the application.\<close>

definition respond :: "(http_error + reply) res \<Rightarrow> http_response option" where
  "respond outcome =
     (case outcome of
        Inr (Inr r) \<Rightarrow> Some \<lparr>hr_status = 200, hr_headers = [], hr_body = r\<rparr>
      | Inr (Inl err) \<Rightarrow> Some (detail_response (he_status err) (he_headers err) (he_detail err))
      | Inl e \<Rightarrow>
          if exc_kind e = IdempotencyConflict \<or> exc_kind e = InvalidTransition then Some (detail_response 409 [] (exc_text e))
          else if exc_kind e = ApprovalDenied then Some (detail_response 403 [] (exc_text e))
          else None)"

text \<open>The middleware \<open>request_identity\<close>.\<close>

definition request_id_char :: "char \<Rightarrow> bool" where
  "request_id_char c \<longleftrightarrow> ascii_alpha c \<or> is_digit c \<or> c \<in> set ''._:-''"

definition valid_request_id :: "string \<Rightarrow> bool" where
  "valid_request_id s \<longleftrightarrow> 1 \<le> length s \<and> length s \<le> 128 \<and> list_all request_id_char s"

definition content_security_policy :: string where
  "content_security_policy = (let q = [apostrophe] in
     ''default-src '' @ q @ ''none'' @ q @ ''; style-src '' @ q @ ''self'' @ q @ ''; script-src '' @ q @ ''self'' @ q
     @ ''; connect-src '' @ q @ ''self'' @ q @ ''; img-src '' @ q @ ''self'' @ q @ '' data:; base-uri '' @ q @ ''none'' @ q
     @ ''; frame-ancestors '' @ q @ ''none'' @ q @ ''; form-action '' @ q @ ''none'' @ q)"

definition identity_headers :: "string \<Rightarrow> string \<Rightarrow> string \<Rightarrow> (string \<times> string) list" where
  "identity_headers path supplied fresh =
     [(''X-Request-ID'', if valid_request_id supplied then supplied else ''req_'' @ fresh),
      (''Cache-Control'', ''no-store''), (''X-Content-Type-Options'', ''nosniff''), (''Referrer-Policy'', ''no-referrer'')]
     @ (if path = ''/ui'' \<or> startswith path ''/ui/'' then [(''Content-Security-Policy'', content_security_policy)] else [])"

record http_request =
  hq_route :: route
  hq_path :: string
  hq_authorization :: "string option"
  hq_request_id :: string

text \<open>A server error is answered by the server itself, without the headers of the middleware.\<close>

definition server_error :: http_response where
  "server_error = \<lparr>hr_status = 500, hr_headers = [], hr_body = TextReply ''text/plain'' ''Internal Server Error''\<rparr>"

definition serve :: "'w app_config \<Rightarrow> schedule \<Rightarrow> string \<Rightarrow> http_request \<Rightarrow> 'w world \<Rightarrow> http_response \<times> 'w world" where
  "serve cfg orc fresh request w =
     (let (outcome, w') = handle_route cfg orc (hq_authorization request) (hq_route request) w in
      case respond outcome of
        None \<Rightarrow> (server_error, w')
      | Some response \<Rightarrow>
          (response\<lparr>hr_headers := hr_headers response @ identity_headers (hq_path request) (hq_request_id request) fresh\<rparr>, w'))"

end
