(* ===== verification/Api_Tenants.thy ===== *)
theory Api_Tenants
  imports Api Runtime_Reconcile
begin

text \<open>
  What a request may touch: every transaction of a method about one run is confined to the
  tenant of the run. Other clients may act between the transactions, so a change of the ledger
  is a sequence of steps of the request and of steps of the others.
\<close>

section \<open>Confined steps\<close>

definition owned :: "string \<Rightarrow> string \<Rightarrow> ledger \<Rightarrow> bool" where
  "owned tenant rid l \<longleftrightarrow> (\<exists>r. fetch_run l rid = Some r \<and> r_tenant_id r = tenant)"

definition foreign_run :: "string \<Rightarrow> string \<Rightarrow> ledger \<Rightarrow> bool" where
  "foreign_run tenant rid l \<longleftrightarrow> (\<exists>r. fetch_run l rid = Some r \<and> r_tenant_id r \<noteq> tenant)"

text \<open>The row, the events and the approval of every run of another tenant stay as they are, and
  no run of another tenant appears.\<close>

definition confined :: "string \<Rightarrow> ledger \<Rightarrow> ledger \<Rightarrow> bool" where
  "confined tenant l l' \<longleftrightarrow> (\<forall>rid. foreign_run tenant rid l \<or> foreign_run tenant rid l' \<longrightarrow> view l' rid = view l rid)"

definition own_step :: "string \<Rightarrow> ledger \<Rightarrow> ledger \<Rightarrow> bool" where
  "own_step tenant l l' \<longleftrightarrow> confined tenant l l' \<and> ledger_inv l' \<and> (\<forall>rid. owned tenant rid l \<longrightarrow> owned tenant rid l')"

lemma extends_owned: "view_extends (view l rid) (view l' rid) \<Longrightarrow> owned tenant rid l \<Longrightarrow> owned tenant rid l'"
  by (auto simp: view_extends_def view_def owned_def request_of_def run_key_def split: option.splits)

lemma confined_refl [simp]: "confined tenant l l"
  by (simp add: confined_def)

lemma view_run: "view l' rid = view l rid \<Longrightarrow> fetch_run l' rid = fetch_run l rid"
  by (simp add: view_def)

lemma confined_trans: "confined tenant l l1 \<Longrightarrow> confined tenant l1 l' \<Longrightarrow> confined tenant l l'"
  unfolding confined_def foreign_run_def by (metis view_run)

lemma own_step_refl: "ledger_inv l \<Longrightarrow> own_step tenant l l"
  by (simp add: own_step_def)

lemma own_step_trans: "own_step tenant l l1 \<Longrightarrow> own_step tenant l1 l' \<Longrightarrow> own_step tenant l l'"
  unfolding own_step_def using confined_trans by blast

lemma good_change_inv: "good_change rid l l' \<Longrightarrow> ledger_inv l \<Longrightarrow> ledger_inv l'"
  using good_change_changes by (auto simp: good_changes_def)

lemma good_change_own:
  assumes "good_change rid l l'" "ledger_inv l" "owned tenant rid l'"
  shows "own_step tenant l l'"
proof -
  from assms(1) have ext: "view_extends (view l rid) (view l' rid)" and only: "\<And>k. k \<noteq> rid \<Longrightarrow> view l' k = view l k"
    by (auto simp: good_change_def changes_only_view)
  have not_foreign: "\<not> foreign_run tenant rid l" "\<not> foreign_run tenant rid l'"
    using assms(3) ext
    by (auto simp: foreign_run_def owned_def view_extends_def view_def request_of_def run_key_def split: option.splits)
  then have "confined tenant l l'" unfolding confined_def using only by metis
  moreover have "owned tenant k l \<Longrightarrow> owned tenant k l'" for k
    using only [of k] extends_owned [OF ext] by (cases "k = rid") (auto simp: owned_def dest: view_run)
  ultimately show ?thesis using good_change_inv [OF assms(1,2)] by (simp add: own_step_def)
qed

lemma good_change_owned:
  "good_change rid l l' \<Longrightarrow> ledger_inv l \<Longrightarrow> owned tenant rid l \<Longrightarrow> own_step tenant l l'"
  using good_change_own extends_owned by (metis good_change_def)

section \<open>The operations of a tenant\<close>

lemma expire_loop_own:
  assumes "expire_loop env now k rows l = Inr (expired, l')" "ledger_inv l" "\<forall>row \<in> set rows. owned tenant (fst row) l"
  shows "own_step tenant l l'"
  using assms
proof (induction rows arbitrary: k l expired)
  case Nil
  then show ?case by (simp add: own_step_refl)
next
  case (Cons row rows)
  obtain rid t where row: "row = (rid, t)" by (cases row)
  with Cons.prems(1) obtain hit l1 rest where
    one: "expire_one now (isoformat (now_at env (Suc k))) (uuid_at env k) rid t l = Inr (hit, l1)"
    and loop: "expire_loop env now (if hit then Suc k else k) rows l1 = Inr (rest, l')" by auto
  have step: "own_step tenant l l1"
    using Cons.prems(3) row by (intro good_change_owned [OF expire_one_good [OF one Cons.prems(2)] Cons.prems(2)]) simp
  then have "own_step tenant l1 l'"
    using Cons.prems(3) by (intro Cons.IH [OF loop]) (auto simp: own_step_def)
  with step show ?case by (rule own_step_trans)
qed

lemma expire_approvals_own:
  assumes "expire_approvals env (Some tenant) l = Inr (expired, l')" "ledger_inv l"
  shows "own_step tenant l l'"
proof -
  have "\<forall>row \<in> set (overdue_approvals (now_at env 0) (Some tenant) l). owned tenant (fst row) l"
    by (auto simp: overdue_approvals_def owned_def split: option.splits)
  with assms expire_loop_own show ?thesis by (simp add: expire_approvals_def Let_def)
qed

lemma recover_loop_own:
  assumes "recover_loop env now k rids l = Inr (recovered, l')" "ledger_inv l" "\<forall>rid \<in> set rids. owned tenant rid l"
  shows "own_step tenant l l'"
  using assms
proof (induction rids arbitrary: k l recovered)
  case Nil
  then show ?case by (simp add: own_step_refl)
next
  case (Cons rid rids)
  from Cons.prems(1) obtain hit l1 rest where
    one: "mark_expired_execution (isoformat (now_at env (Suc k))) (uuid_at env k) rid now l = Inr (hit, l1)"
    and loop: "recover_loop env now (if hit then Suc k else k) rids l1 = Inr (rest, l')" by auto
  have step: "own_step tenant l l1"
    using Cons.prems(3) by (intro good_change_owned [OF mark_expired_execution_good [OF one Cons.prems(2)] Cons.prems(2)]) simp
  then have "own_step tenant l1 l'"
    using Cons.prems(3) by (intro Cons.IH [OF loop]) (auto simp: own_step_def)
  with step show ?case by (rule own_step_trans)
qed

lemma recover_executions_own:
  assumes "recover_expired_executions env (Some tenant) l = Inr (recovered, l')" "ledger_inv l"
  shows "own_step tenant l l'"
proof -
  have "\<forall>rid \<in> set (overdue_executions (now_at env 0) (Some tenant) l). owned tenant rid l"
    using fetch_run_mem [OF ledger_inv_struct [OF assms(2)]] by (auto simp: overdue_executions_def owned_def)
  with assms recover_loop_own show ?thesis by (simp add: recover_expired_executions_def Let_def)
qed

section \<open>Changes of a world\<close>

text \<open>A step of the request, confined to its tenant, or of another client of the ledger.\<close>

definition own_or_other :: "schedule \<Rightarrow> string \<Rightarrow> ledger \<Rightarrow> ledger \<Rightarrow> bool" where
  "own_or_other orc tenant l l' \<longleftrightarrow> own_step tenant l l' \<or> (\<exists>i. l' = o_others orc i l)"

definition tenant_change :: "schedule \<Rightarrow> string \<Rightarrow> 'w world \<Rightarrow> 'w world \<Rightarrow> bool" where
  "tenant_change orc tenant w w' \<longleftrightarrow> (ledger_inv (w_ledger w) \<longrightarrow>
     (own_or_other orc tenant)\<^sup>*\<^sup>* (w_ledger w) (w_ledger w') \<and> ledger_inv (w_ledger w')
     \<and> (\<forall>rid. owned tenant rid (w_ledger w) \<longrightarrow> owned tenant rid (w_ledger w'))
     \<and> (\<exists>calls. w_log w' = w_log w @ calls \<and> (\<forall>c \<in> set calls. owned tenant (tc_run c) (w_ledger w'))))"

text \<open>The same, for the methods about a run of the tenant.\<close>

definition run_change :: "schedule \<Rightarrow> string \<Rightarrow> string \<Rightarrow> 'w world \<Rightarrow> 'w world \<Rightarrow> bool" where
  "run_change orc tenant rid w w' \<longleftrightarrow> (owned tenant rid (w_ledger w) \<longrightarrow> tenant_change orc tenant w w')"

lemma tenant_refl: "tenant_change orc tenant w w"
  by (simp add: tenant_change_def)

lemma tenant_trans:
  assumes "tenant_change orc tenant u v" "tenant_change orc tenant v w"
  shows "tenant_change orc tenant u w"
  unfolding tenant_change_def
proof (intro impI conjI)
  assume inv: "ledger_inv (w_ledger u)"
  from assms(1) inv have uv: "(own_or_other orc tenant)\<^sup>*\<^sup>* (w_ledger u) (w_ledger v)" "ledger_inv (w_ledger v)"
    "\<forall>rid. owned tenant rid (w_ledger u) \<longrightarrow> owned tenant rid (w_ledger v)" by (simp_all add: tenant_change_def)
  from assms(2) uv(2) have vw: "(own_or_other orc tenant)\<^sup>*\<^sup>* (w_ledger v) (w_ledger w)" "ledger_inv (w_ledger w)"
    "\<forall>rid. owned tenant rid (w_ledger v) \<longrightarrow> owned tenant rid (w_ledger w)" by (simp_all add: tenant_change_def)
  show "(own_or_other orc tenant)\<^sup>*\<^sup>* (w_ledger u) (w_ledger w)" using uv(1) vw(1) by (rule rtranclp_trans)
  show "ledger_inv (w_ledger w)" by (rule vw(2))
  show "\<forall>rid. owned tenant rid (w_ledger u) \<longrightarrow> owned tenant rid (w_ledger w)" using uv(3) vw(3) by blast
  from assms(1) inv obtain c1 where c1: "w_log v = w_log u @ c1" "\<forall>c \<in> set c1. owned tenant (tc_run c) (w_ledger v)"
    by (auto simp: tenant_change_def)
  from assms(2) uv(2) obtain c2 where c2: "w_log w = w_log v @ c2" "\<forall>c \<in> set c2. owned tenant (tc_run c) (w_ledger w)"
    by (auto simp: tenant_change_def)
  from c1 c2 vw(3) show "\<exists>calls. w_log w = w_log u @ calls \<and> (\<forall>c \<in> set calls. owned tenant (tc_run c) (w_ledger w))"
    by (intro exI [of _ "c1 @ c2"]) auto
qed

interpretation tenant: world_preorder "tenant_change orc tenant" for orc tenant
  by unfold_locales (rule tenant_refl, rule tenant_trans)

lemma tenant_change_owned:
  "tenant_change orc tenant w w' \<Longrightarrow> ledger_inv (w_ledger w) \<Longrightarrow> owned tenant rid (w_ledger w) \<Longrightarrow> owned tenant rid (w_ledger w')"
  by (simp add: tenant_change_def)

interpretation run: world_preorder "run_change orc tenant rid" for orc tenant rid
proof unfold_locales
  show "run_change orc tenant rid w w" for w by (simp add: run_change_def tenant_refl)
  show "run_change orc tenant rid u w" if "run_change orc tenant rid u v" "run_change orc tenant rid v w" for u v w
    unfolding run_change_def
  proof
    assume own: "owned tenant rid (w_ledger u)"
    with that(1) have uv: "tenant_change orc tenant u v" by (simp add: run_change_def)
    show "tenant_change orc tenant u w"
    proof (cases "ledger_inv (w_ledger u)")
      case True
      from tenant_change_owned [OF uv True own] that(2) have "tenant_change orc tenant v w" by (simp add: run_change_def)
      with uv show ?thesis by (rule tenant_trans)
    qed (simp add: tenant_change_def)
  qed
qed

lemma run_if_tenant: "keeps (tenant_change orc tenant) m \<Longrightarrow> keeps (run_change orc tenant rid) m"
  by (erule keeps_mono) (simp add: run_change_def)

text \<open>One transaction: what the others did before it, and the operation.\<close>

lemma others_keep:
  assumes "others_follow_protocol orc" "ledger_inv l"
  shows "ledger_inv (o_others orc i l)" "owned tenant rid l \<Longrightarrow> owned tenant rid (o_others orc i l)"
proof -
  note steps = others_steps [OF assms(1), of l i]
  show "ledger_inv (o_others orc i l)" by (rule ledger_exec.steps_inv [OF steps assms(2)])
  assume "owned tenant rid l"
  then obtain r where r: "fetch_run l rid = Some r" "r_tenant_id r = tenant" by (auto simp: owned_def)
  from steps_run [OF steps assms(2) r(1)] obtain r' es where "fetch_run (o_others orc i l) rid = Some r'"
    "request_of r' = request_of r" by metis
  with r(2) show "owned tenant rid (o_others orc i l)" by (auto simp: owned_def request_of_def run_key_def)
qed

lemma ledger_call_tenant:
  assumes "others_follow_protocol orc" "ledger_call orc operation w = (x, w')"
    "\<And>env l y l'. operation env l = Inr (y, l') \<Longrightarrow> ledger_inv l \<Longrightarrow>
       (\<And>rid. owned tenant rid (w_ledger w) \<Longrightarrow> owned tenant rid l) \<Longrightarrow> own_step tenant l l'"
  shows "tenant_change orc tenant w w'"
  unfolding tenant_change_def
proof
  assume inv: "ledger_inv (w_ledger w)"
  let ?l = "o_others orc (w_calls w) (w_ledger w)"
  have other: "own_or_other orc tenant (w_ledger w) ?l" by (auto simp: own_or_other_def)
  note keep = others_keep [OF assms(1) inv, where i = "w_calls w"]
  have "w_log w' = w_log w" and step: "w_ledger w' = ?l \<or> own_step tenant ?l (w_ledger w')"
    using assms(2) assms(3) [of "o_env orc (w_calls w)" ?l] keep
    by (auto simp: ledger_call_def Let_def split: sum.splits)
  moreover have "(own_or_other orc tenant)\<^sup>*\<^sup>* (w_ledger w) (w_ledger w')"
  proof -
    have "(own_or_other orc tenant)\<^sup>*\<^sup>* ?l (w_ledger w')"
      using step by (metis own_or_other_def r_into_rtranclp rtranclp.rtrancl_refl)
    with other show ?thesis by (rule converse_rtranclp_into_rtranclp)
  qed
  moreover have "ledger_inv (w_ledger w')" using step keep(1) by (auto simp: own_step_def)
  moreover have "\<forall>rid. owned tenant rid (w_ledger w) \<longrightarrow> owned tenant rid (w_ledger w')"
    using step keep(2) by (auto simp: own_step_def)
  ultimately show "(own_or_other orc tenant)\<^sup>*\<^sup>* (w_ledger w) (w_ledger w') \<and> ledger_inv (w_ledger w')
     \<and> (\<forall>rid. owned tenant rid (w_ledger w) \<longrightarrow> owned tenant rid (w_ledger w'))
     \<and> (\<exists>calls. w_log w' = w_log w @ calls \<and> (\<forall>c \<in> set calls. owned tenant (tc_run c) (w_ledger w')))" by simp
qed

lemma tenant_call:
  assumes "others_follow_protocol orc" "\<And>env l y l'. operation env l = Inr (y, l') \<Longrightarrow> ledger_inv l \<Longrightarrow> own_step tenant l l'"
  shows "keeps (tenant_change orc tenant) (ledger_call orc operation :: ('w, 'a) rt)"
  unfolding keeps_def
proof
  fix w :: "'w world"
  obtain x w' where "ledger_call orc operation w = (x, w')" by (cases "ledger_call orc operation w")
  with ledger_call_tenant [OF assms(1) this assms(2)] show "tenant_change orc tenant w (snd (ledger_call orc operation w))" by simp
qed

lemma run_call:
  assumes "others_follow_protocol orc" "\<And>env l y l'. operation env l = Inr (y, l') \<Longrightarrow> ledger_inv l \<Longrightarrow> good_change rid l l'"
  shows "keeps (run_change orc tenant rid) (ledger_call orc operation :: ('w, 'a) rt)"
  unfolding keeps_def
proof
  fix w :: "'w world"
  obtain x w' where call: "ledger_call orc operation w = (x, w')" by (cases "ledger_call orc operation w")
  show "run_change orc tenant rid w (snd (ledger_call orc operation w))"
    unfolding run_change_def call snd_conv
  proof
    assume "owned tenant rid (w_ledger w)"
    then show "tenant_change orc tenant w w'"
      by (intro ledger_call_tenant [OF assms(1) call]) (blast intro: good_change_owned assms(2))
  qed
qed

section \<open>Methods about a run of the tenant\<close>

lemma run_calls:
  assumes "others_follow_protocol orc"
  shows "keeps (run_change orc tenant rid) (ledger_call orc (\<lambda>_. record_duplicate rid))"
    and "keeps (run_change orc tenant rid) (ledger_call orc (\<lambda>env. record_policy_decision env rid d ttl))"
    and "keeps (run_change orc tenant rid) (ledger_call orc (\<lambda>env. decide_approval env rid approved approver reason roles self))"
    and "keeps (run_change orc tenant rid) (ledger_call orc (\<lambda>env. claim_execution env rid owner secs))"
    and "keeps (run_change orc tenant rid) (ledger_call orc (\<lambda>env. complete_execution env rid owner v))"
    and "keeps (run_change orc tenant rid) (ledger_call orc (\<lambda>env. fail_execution env rid owner err))"
    and "keeps (run_change orc tenant rid) (ledger_call orc (\<lambda>env. mark_execution_unknown env rid owner err))"
    and "keeps (run_change orc tenant rid) (ledger_call orc (\<lambda>env. reconcile_run env rid s reason v operator))"
    and "keeps (run_change orc tenant rid) (ledger_call orc (\<lambda>env. apply_provider_observation env rid pr oc sm rf st v operator))"
proof -
  note call = run_call [OF assms]
  show "keeps (run_change orc tenant rid) (ledger_call orc (\<lambda>_. record_duplicate rid))"
    by (rule call) (auto intro: record_duplicate_good)
  show "keeps (run_change orc tenant rid) (ledger_call orc (\<lambda>env. record_policy_decision env rid d ttl))"
    by (rule call) (auto intro: record_policy_decision_good)
  show "keeps (run_change orc tenant rid) (ledger_call orc (\<lambda>env. decide_approval env rid approved approver reason roles self))"
    by (rule call) (auto intro: decide_approval_good)
  show "keeps (run_change orc tenant rid) (ledger_call orc (\<lambda>env. claim_execution env rid owner secs))"
    by (rule call) (auto intro: claim_execution_good)
  show "keeps (run_change orc tenant rid) (ledger_call orc (\<lambda>env. complete_execution env rid owner v))"
    by (rule call) (auto intro: complete_execution_good)
  show "keeps (run_change orc tenant rid) (ledger_call orc (\<lambda>env. fail_execution env rid owner err))"
    by (rule call) (auto intro: fail_execution_good)
  show "keeps (run_change orc tenant rid) (ledger_call orc (\<lambda>env. mark_execution_unknown env rid owner err))"
    by (rule call) (auto intro: mark_execution_unknown_good)
  show "keeps (run_change orc tenant rid) (ledger_call orc (\<lambda>env. reconcile_run env rid s reason v operator))"
    by (rule call) (auto intro: reconcile_run_good)
  show "keeps (run_change orc tenant rid) (ledger_call orc (\<lambda>env. apply_provider_observation env rid pr oc sm rf st v operator))"
    by (rule call) (auto intro: apply_provider_observation_good)
qed

lemma tenant_calls:
  assumes "others_follow_protocol orc"
  shows "keeps (tenant_change orc tenant) (get_run orc rid)"
    and "keeps (tenant_change orc tenant) (read_ledger orc)"
    and "keeps (tenant_change orc tenant) (read_now orc)"
    and "keeps (tenant_change orc tenant) (ledger_call orc (\<lambda>env. expire_approvals env (Some tenant)))"
    and "keeps (tenant_change orc tenant) (ledger_call orc (\<lambda>env. recover_expired_executions env (Some tenant)))"
  unfolding get_run_def read_ledger_def read_now_def
  by (rule tenant_call [OF assms], auto intro: own_step_refl expire_approvals_own recover_executions_own)+

lemma tenant_run_result: "others_follow_protocol orc \<Longrightarrow> keeps (tenant_change orc tenant) (run_result orc rid duplicate)"
  unfolding run_result_def by (intro tenant.keeps_intros tenant_calls)

lemma run_reads:
  assumes "others_follow_protocol orc"
  shows "keeps (run_change orc tenant rid) (get_run orc rid')"
    and "keeps (run_change orc tenant rid) (run_result orc rid' duplicate)"
    and "keeps (run_change orc tenant rid) (ledger_call orc (\<lambda>env. expire_approvals env (Some tenant)))"
    and "keeps (run_change orc tenant rid) (ledger_call orc (\<lambda>env. recover_expired_executions env (Some tenant)))"
  by (rule run_if_tenant, rule tenant_calls tenant_run_result, rule assms)+

lemmas run_intros = run.keeps_intros run_calls run_reads

lemma run_decide: "others_follow_protocol orc \<Longrightarrow> keeps (run_change orc tenant rid) (decide orc act approved message rid approver reason)"
  unfolding decide_def by (intro run_intros)

lemma run_reconcile: "others_follow_protocol orc \<Longrightarrow> keeps (run_change orc tenant rid) (reconcile orc act rid outcome operator reason result)"
  unfolding reconcile_def by (intro run_intros)

lemma run_probe: "keeps (run_change orc tenant rid) (probe_provider probe request)"
  by (simp add: keeps_def probe_provider_def run_change_def tenant_change_def split: prod.splits)

lemma run_reconcile_from_provider:
  "others_follow_protocol orc \<Longrightarrow> keeps (run_change orc tenant rid) (reconcile_from_provider orc act rid probe operator)"
  unfolding reconcile_from_provider_def load_reconcilable_run_def by (intro run_intros run_probe)

lemma run_mark_unknown: "others_follow_protocol orc \<Longrightarrow> keeps (run_change orc tenant rid) (mark_unknown orc rid owner err)"
  unfolding mark_unknown_def by (intro run_intros)

lemma run_settle: "others_follow_protocol orc \<Longrightarrow> keeps (run_change orc tenant rid) (settle orc is_async rid owner outcome)"
  unfolding settle_def by (cases outcome) (auto intro!: run_intros run_mark_unknown)

lemma run_call_function: "keeps (run_change orc tenant rid) (call_function act rid owner args)"
  by (simp add: keeps_def call_function_def run_change_def tenant_change_def split: prod.splits)

lemma run_execute: "others_follow_protocol orc \<Longrightarrow> keeps (run_change orc tenant rid) (execute orc act is_async rid arguments)"
  unfolding execute_def run_tool_def arguments_with_execution_context_def Let_def
  by (intro run_intros run_settle run_call_function)

lemma run_resume_run: "others_follow_protocol orc \<Longrightarrow> keeps (run_change orc tenant rid) (resume_run orc act is_async rid)"
  unfolding resume_run_def prepare_resume_def by (intro run_intros run_execute)

lemma run_methods:
  assumes "others_follow_protocol orc"
  shows "keeps (run_change orc tenant rid) (approve orc act rid approver reason)"
    and "keeps (run_change orc tenant rid) (reject orc act rid approver reason)"
    and "keeps (run_change orc tenant rid) (resume orc act rid)"
    and "keeps (run_change orc tenant rid) (resume_async orc act rid)"
  unfolding approve_def reject_def resume_def resume_async_def
  by (intro run_intros run_decide run_resume_run assms)+

section \<open>Invocations for the tenant\<close>

lemma run_answer_duplicate:
  "others_follow_protocol orc \<Longrightarrow> keeps (run_change orc tenant rid) (answer_duplicate orc tenant rid)"
  unfolding answer_duplicate_def by (intro run_intros)

lemma run_govern_new_run:
  "others_follow_protocol orc \<Longrightarrow> keeps (run_change orc tenant rid) (govern_new_run orc act context arguments rid)"
  unfolding govern_new_run_def record_decision_def by (intro run_intros)

context world_preorder
begin

text \<open>What the first part did may be used for the second.\<close>

lemma keeps_bind_after:
  assumes "keeps R m" "\<And>w x w'. m w = (Inr x, w') \<Longrightarrow> R w (snd (f x w'))"
  shows "keeps R (rt_bind m f)"
  unfolding keeps_def
proof
  fix w
  obtain x w1 where m: "m w = (x, w1)" by (cases "m w")
  then show "R w (snd (rt_bind m f w))"
    using assms(2) [of w] keepsD [OF assms(1) m] by (cases x) (auto simp: rt_bind_def)
qed

end

text \<open>A run that was created, or found under the key, is the tenant's.\<close>

lemma create_owned:
  assumes "create_or_get_run env rid tenant actor roles evidence name risk key fp args meta l = Inr ((row, created), l')" "struct_inv l"
  shows "owned tenant (if created then rid else r_run_id row) l'"
proof (cases created)
  case True
  with create_effect [of env rid tenant actor roles evidence name risk key fp args meta l row l'] assms show ?thesis
    by (auto simp: owned_def run_key_def)
next
  case False
  with assms(1) have l': "l' = l" and row: "find (\<lambda>r. r_tenant_id r = tenant \<and> r_action_name r = name \<and> r_idempotency_key r = key) (l_runs l) = Some row"
    by (auto simp: create_or_get_run_def Let_def split: option.splits if_splits)
  from row have "row \<in> set (l_runs l)" "r_tenant_id row = tenant" by (auto simp: find_Some_iff)
  with fetch_run_mem [OF assms(2)] False l' show ?thesis by (auto simp: owned_def)
qed

lemma create_own_step:
  assumes "create_or_get_run env rid tenant actor roles evidence name risk key fp args meta l = Inr ((row, created), l')" "ledger_inv l"
  shows "own_step tenant l l'"
proof (cases created)
  case True
  with create_owned [OF assms(1) ledger_inv_struct [OF assms(2)]] show ?thesis
    by (intro good_change_own [OF create_or_get_run_good [OF assms] assms(2)]) simp
next
  case False
  with assms(1) have "l' = l" by (auto simp: create_or_get_run_def Let_def split: option.splits if_splits)
  with assms(2) show ?thesis by (simp add: own_step_refl)
qed

abbreviation create_call ::
  "schedule \<Rightarrow> 'w TrustedAction \<Rightarrow> ActionContext \<Rightarrow> (string \<times> pyval) list \<Rightarrow> string \<Rightarrow> string \<Rightarrow> string \<Rightarrow> ('w, run_row \<times> bool) rt" where
  "create_call orc act context arguments run_id key fp \<equiv> ledger_call orc (\<lambda>env. create_or_get_run env run_id
     (cx_tenant_id context) (cx_actor_id context) (cx_roles context) (cx_evidence context) (ta_name act) (ta_risk act)
     key fp arguments (cx_metadata context))"

lemma create_call_owned:
  assumes "others_follow_protocol orc" "ledger_inv (w_ledger w)"
    "create_call orc act context arguments rid key fp w = (Inr (row, created), w')"
  shows "owned (cx_tenant_id context) (if created then rid else r_run_id row) (w_ledger w')"
proof (rule ledger_call_InrD [OF assms(3)])
  fix l assume l: "l = o_others orc (w_calls w) (w_ledger w)"
    and op: "create_or_get_run (o_env orc (w_calls w)) rid (cx_tenant_id context) (cx_actor_id context) (cx_roles context)
       (cx_evidence context) (ta_name act) (ta_risk act) key fp arguments (cx_metadata context) l
      = Inr ((row, created), w_ledger w')"
  have "struct_inv l" unfolding l by (rule ledger_inv_struct [OF others_keep(1) [OF assms(1,2)]])
  with op show ?thesis by (rule create_owned)
qed

lemma tenant_create_call:
  assumes "others_follow_protocol orc"
  shows "keeps (tenant_change orc (cx_tenant_id context)) (create_call orc act context arguments rid key fp)"
  by (rule tenant_call [OF assms]) (metis create_own_step surj_pair)

text \<open>After a transaction that made a run the tenant's, a method about that run.\<close>

lemma tenant_then_run:
  assumes "tenant_change orc tenant w w'" "ledger_inv (w_ledger w) \<Longrightarrow> owned tenant rid (w_ledger w')"
    "keeps (run_change orc tenant rid) m"
  shows "tenant_change orc tenant w (snd (m w'))"
proof (cases "ledger_inv (w_ledger w)")
  case True
  from assms(3) assms(2) [OF True] have "tenant_change orc tenant w' (snd (m w'))" by (simp add: keeps_def run_change_def)
  with assms(1) show ?thesis by (rule tenant_trans)
qed (simp add: tenant_change_def)

lemma tenant_prepare_invoke:
  assumes "others_follow_protocol orc"
  shows "keeps (tenant_change orc (cx_tenant_id context)) (prepare_invoke orc act context arguments override)"
  unfolding prepare_invoke_def
proof (intro tenant.keeps_if tenant.keeps_raise tenant.keeps_bind [OF tenant.keeps_lift] tenant.keeps_bind [OF tenant.keeps_fresh_id]
    tenant.keeps_bind_after [OF tenant_create_call [OF assms]])
  fix key fp rid w and x :: "run_row \<times> bool" and w'
  assume call: "create_call orc act context arguments rid key fp w = (Inr x, w')"
  obtain row created where x: "x = (row, created)" by (cases x)
  have change: "tenant_change orc (cx_tenant_id context) w w'" by (rule keepsD [OF tenant_create_call [OF assms] call])
  have own: "ledger_inv (w_ledger w) \<Longrightarrow> owned (cx_tenant_id context) (if created then rid else r_run_id row) (w_ledger w')"
    using create_call_owned [OF assms _ call [unfolded x]] .
  show "tenant_change orc (cx_tenant_id context) w (snd ((case x of (run, created) \<Rightarrow>
      if \<not> created then answer_duplicate orc (cx_tenant_id context) (r_run_id run)
      else govern_new_run orc act context arguments rid) w'))"
  proof (cases created)
    case True
    with tenant_then_run [OF change _ run_govern_new_run [OF assms], of rid] own show ?thesis by (simp add: x)
  next
    case False
    with tenant_then_run [OF change _ run_answer_duplicate [OF assms], of "r_run_id row"] own show ?thesis by (simp add: x)
  qed
qed

lemma prepare_invoke_owned:
  assumes "others_follow_protocol orc" "ledger_inv (w_ledger w)"
    "prepare_invoke orc act context arguments override w = (Inr (Execute rid), w')"
  shows "owned (cx_tenant_id context) rid (w_ledger w')"
proof (rule prepare_invoke_InrD [OF assms(3)])
  fix rid' key fp row created w0 w1
  assume w0: "w_ledger w0 = w_ledger w"
    and create: "create_call orc act context arguments rid' key fp w0 = (Inr (row, created), w1)"
    and rest: "(if \<not> created then answer_duplicate orc (cx_tenant_id context) (r_run_id row)
      else govern_new_run orc act context arguments rid') w1 = (Inr (Execute rid), w')"
  from rest have c: created using answer_duplicate_InrD by (metis prepared.distinct(1))
  with rest have g: "govern_new_run orc act context arguments rid' w1 = (Inr (Execute rid), w')" by simp
  have inv: "ledger_inv (w_ledger w0)" using assms(2) w0 by simp
  have own: "owned (cx_tenant_id context) rid' (w_ledger w1)" using create_call_owned [OF assms(1) inv create] c by simp
  have inv1: "ledger_inv (w_ledger w1)"
    using keepsD [OF tenant_create_call [OF assms(1)] create] inv by (simp add: tenant_change_def)
  have "tenant_change orc (cx_tenant_id context) w1 w'"
    using keepsD [OF run_govern_new_run [OF assms(1)] g] own by (simp add: run_change_def)
  from tenant_change_owned [OF this inv1 own] govern_new_run_Execute [OF g] show ?thesis by simp
qed

lemma tenant_invoke_body:
  assumes "others_follow_protocol orc"
  shows "keeps (tenant_change orc (cx_tenant_id context))
    (rt_bind (prepare_invoke orc act context arguments override) (run_prepared orc act is_async arguments))"
proof (rule tenant.keeps_bind_after [OF tenant_prepare_invoke [OF assms]])
  fix w w' and p :: prepared
  assume prep: "prepare_invoke orc act context arguments override w = (Inr p, w')"
  have change: "tenant_change orc (cx_tenant_id context) w w'" by (rule keepsD [OF tenant_prepare_invoke [OF assms] prep])
  show "tenant_change orc (cx_tenant_id context) w (snd (run_prepared orc act is_async arguments p w'))"
  proof (cases p)
    case (Finished result)
    with change show ?thesis by (simp add: run_prepared_def rt_return_def)
  next
    case (Execute rid)
    from tenant_then_run [OF change prepare_invoke_owned [OF assms _ prep [unfolded Execute]] run_execute [OF assms]] Execute
    show ?thesis by (simp add: run_prepared_def)
  qed
qed

lemma tenant_invoke_request:
  assumes "others_follow_protocol orc"
  shows "keeps (tenant_change orc (cx_tenant_id context)) (invoke_request orc act context arguments key)"
    and "keeps (tenant_change orc (cx_tenant_id context)) (invoke_request_async orc act context arguments key)"
  unfolding invoke_request_def invoke_request_async_def
  by (intro tenant.keeps_if tenant.keeps_raise tenant_invoke_body assms)+

section \<open>Endpoints\<close>

context world_preorder
begin

lemma keeps_handler:
  "keeps R (h_return x)" "keeps R (http_exception status detail)" "keeps R (unauthorized detail)"
  by (simp_all add: h_return_def http_exception_def unauthorized_def keeps_return)

lemma keeps_h_bind: "keeps R m \<Longrightarrow> (\<And>x. keeps R (f x)) \<Longrightarrow> keeps R (h_bind m f)"
  unfolding h_bind_def by (intro keeps_bind keeps_sum keeps_return)

lemma keeps_h_call: "keeps R m \<Longrightarrow> keeps R (h_call m)"
  unfolding h_call_def by (intro keeps_bind keeps_handler)

lemma keeps_public_result: "keeps R m \<Longrightarrow> keeps R (public_result m)"
  unfolding public_result_def by (intro keeps_bind keeps_handler)

lemma keeps_require_role: "keeps R (require_role identity role)"
  unfolding require_role_def by (intro keeps_if keeps_handler)

lemma keeps_with_body: "(\<And>b. keeps R (f b)) \<Longrightarrow> keeps R (with_body body f)"
  unfolding with_body_def by (intro keeps_option keeps_handler)

lemma keeps_authenticate: "keeps R (authenticate cfg authorization)"
  unfolding authenticate_def by (intro keeps_option keeps_if keeps_sum keeps_handler keeps_lift)

lemmas keeps_endpoint = keeps_handler keeps_h_bind keeps_h_call keeps_public_result keeps_require_role keeps_with_body

end

lemma tenant_audit_trail: "others_follow_protocol orc \<Longrightarrow> keeps (tenant_change orc tenant) (action_audit_trail orc rid viewer)"
  unfolding action_audit_trail_def by (intro tenant.keeps_intros tenant_calls)

lemma tenant_visible_runs:
  "others_follow_protocol orc \<Longrightarrow> keeps (tenant_change orc tenant) (visible_runs orc identity runs)"
  by (induction runs) (auto simp: visible_run_def
      intro!: tenant.keeps_intros tenant.keeps_endpoint tenant_audit_trail)

text \<open>A run that was loaded is of the tenant of the identity.\<close>

lemma load_tenant_run_owned:
  assumes "load_tenant_run orc rid identity w = (Inr (Inr r), w')"
  shows "owned (vp_tenant_id identity) rid (w_ledger w')"
proof -
  from assms obtain run w1 where run: "get_run orc rid w = (Inr run, w1)" "(case run of
       None \<Rightarrow> http_exception 404 ''run not found''
     | Some r \<Rightarrow> if r_tenant_id r \<noteq> vp_tenant_id identity then http_exception 404 ''run not found'' else h_return r) w1
       = (Inr (Inr r), w')"
    unfolding load_tenant_run_def by (rule rt_bind_InrD)
  then have "run = Some r" "r_tenant_id r = vp_tenant_id identity" "w' = w1"
    by (auto simp: http_exception_def h_return_def rt_return_def split: option.splits if_splits)
  with get_run_InrD [OF run(1)] show ?thesis by (auto simp: owned_def dest: sym)
qed

lemma tenant_load_run: "others_follow_protocol orc \<Longrightarrow> keeps (tenant_change orc tenant) (load_tenant_run orc rid identity)"
  unfolding load_tenant_run_def by (intro tenant.keeps_intros tenant.keeps_endpoint tenant_calls)

lemma tenant_run_action:
  assumes "others_follow_protocol orc" "\<And>r act. keeps (run_change orc (vp_tenant_id identity) rid) (f r act)"
  shows "keeps (tenant_change orc (vp_tenant_id identity)) (run_action (cfg :: 'w app_config) orc rid identity f)"
  unfolding run_action_def h_bind_def
proof (rule tenant.keeps_bind_after [OF tenant_load_run [OF assms(1)]])
  fix w w' :: "'w world" and x :: "http_error + run_row"
  assume load: "load_tenant_run orc rid identity w = (Inr x, w')"
  have change: "tenant_change orc (vp_tenant_id identity) w w'" by (rule keepsD [OF tenant_load_run [OF assms(1)] load])
  show "tenant_change orc (vp_tenant_id identity) w (snd ((case x of Inl err \<Rightarrow> rt_return (Inl err)
      | Inr r \<Rightarrow> rt_bind (rt_lift (get_action (ac_registry cfg) (r_action_name r))) (f r)) w'))"
  proof (cases x)
    case (Inl err)
    with change show ?thesis by (simp add: rt_return_def)
  next
    case (Inr r)
    have "keeps (run_change orc (vp_tenant_id identity) rid) (rt_bind (rt_lift (get_action (ac_registry cfg) (r_action_name r))) (f r))"
      by (intro run.keeps_intros assms(2))
    from tenant_then_run [OF change load_tenant_run_owned [OF load [unfolded Inr]] this] Inr show ?thesis by simp
  qed
qed

lemma tenant_resolve_and_invoke:
  assumes "others_follow_protocol orc"
  shows "keeps (tenant_change orc (vp_tenant_id identity)) (resolve_and_invoke (cfg :: 'w app_config) orc act name body identity key)"
  unfolding resolve_and_invoke_def
proof (rule tenant.keeps_bind [OF tenant.keeps_lift], rule tenant.keeps_bind_after [OF tenant.keeps_lift])
  fix ctxt x and w w' :: "'w world"
  assume valid: "rt_lift (validate_resolved_context identity ctxt) w = (Inr (x :: unit), w')"
  then have tenant: "vp_tenant_id identity = cx_tenant_id ctxt" "w' = w"
    by (auto simp: rt_lift_def validate_resolved_context_def split: if_splits)
  show "tenant_change orc (vp_tenant_id identity) w (snd ((if ta_is_async act
      then invoke_request_async orc act ctxt (iq_arguments body) key
      else invoke_request orc act ctxt (iq_arguments body) key) w'))"
    unfolding tenant by (simp add: tenant_invoke_request [OF assms, unfolded keeps_def])
qed

lemma tenant_endpoint:
  assumes "others_follow_protocol orc"
  shows "keeps (tenant_change orc (vp_tenant_id identity)) (endpoint cfg orc route identity)"
proof -
  note intros = tenant.keeps_endpoint tenant.keeps_intros tenant_calls [OF assms] tenant_audit_trail [OF assms]
    tenant_visible_runs [OF assms] tenant_load_run [OF assms] tenant_run_action [OF assms] tenant_resolve_and_invoke [OF assms]
    run.keeps_endpoint run.keeps_intros run_methods [OF assms] run_reconcile [OF assms] run_reconcile_from_provider [OF assms]
  have runs: "keeps (tenant_change orc (vp_tenant_id identity)) (runs_endpoint cfg orc identity status limit)" for status limit
    unfolding runs_endpoint_def by (intro intros)
  show ?thesis
    by (cases route; simp only: endpoint_def route.case health_def readiness_def static_asset_def actions_endpoint_def
        audit_endpoint_def approvals_endpoint_def approve_endpoint_def reject_endpoint_def
        resume_endpoint_def reconcile_endpoint_def recover_endpoint_def metrics_endpoint_def invoke_endpoint_def
        reconcile_from_provider_endpoint_def; intro intros runs)
qed

end
