(* ===== verification/Api_Props.thy ===== *)
theory Api_Props
  imports Api_Tenants Runtime_Props
begin

text \<open>
  What holds of requests served over HTTP: tenants do not reach each other, no identity no
  effect, and the guarantees of the runtime carry over to any sequence of requests.
\<close>

section \<open>The worlds requests reach\<close>

definition ok_change :: "'w world \<Rightarrow> 'w world \<Rightarrow> bool" where
  "ok_change w w' \<longleftrightarrow> (world_ok w \<longrightarrow> world_ok w' \<and> world_extends w w')"

interpretation ok: world_preorder ok_change
  by unfold_locales (auto simp: ok_change_def world_extends_def intro: rtranclp_trans prefix_order.trans)

lemma ok_if_quiet: "keeps quiet_change m \<Longrightarrow> keeps ok_change m"
  by (erule keeps_mono) (auto simp: ok_change_def world_extends_def quiet_change_def intro: world_ok_quiet)

lemma ok_if_step: "(\<And>w x w'. m w = (x, w') \<Longrightarrow> world_step w w') \<Longrightarrow> keeps ok_change m"
  unfolding keeps_def ok_change_def using world_step_ok method_ok_extends by (metis method_ok_def prod.collapse)

lemma ok_methods:
  assumes "others_follow_protocol orc"
  shows "keeps ok_change (invoke_request orc act ctxt arguments key)"
    and "keeps ok_change (invoke_request_async orc act ctxt arguments key)"
    and "keeps ok_change (approve orc act rid approver reason)"
    and "keeps ok_change (reject orc act rid approver reason)"
    and "keeps ok_change (reconcile orc act rid outcome operator reason result)"
    and "keeps ok_change (reconcile_from_provider orc act rid probe operator)"
    and "keeps ok_change (resume orc act rid)"
    and "keeps ok_change (resume_async orc act rid)"
  by (rule ok_if_step, erule world_step.intros [OF assms])+

lemma ok_reads:
  assumes "others_follow_protocol orc"
  shows "keeps ok_change (get_run orc rid)" "keeps ok_change (read_ledger orc)" "keeps ok_change (read_now orc)"
    "keeps ok_change (ledger_call orc (\<lambda>env. expire_approvals env tenant))"
    "keeps ok_change (ledger_call orc (\<lambda>env. recover_expired_executions env tenant))"
proof -
  show "keeps ok_change (read_ledger orc)" "keeps ok_change (read_now orc)"
    unfolding read_ledger_def read_now_def by (rule ok_if_quiet, rule quiet_ledger_call [OF assms], auto)+
qed (intro ok_if_quiet quiet_get_run quiet_calls assms)+

lemma ok_audit_trail: "others_follow_protocol orc \<Longrightarrow> keeps ok_change (action_audit_trail orc rid viewer)"
  unfolding action_audit_trail_def by (intro ok.keeps_intros ok_reads)

lemma ok_visible_runs: "others_follow_protocol orc \<Longrightarrow> keeps ok_change (visible_runs orc identity runs)"
  by (induction runs) (auto simp: visible_run_def intro!: ok.keeps_intros ok.keeps_endpoint ok_audit_trail)

lemma ok_load_run: "others_follow_protocol orc \<Longrightarrow> keeps ok_change (load_tenant_run orc rid identity)"
  unfolding load_tenant_run_def by (intro ok.keeps_intros ok.keeps_endpoint ok_reads)

lemma ok_endpoint:
  assumes "others_follow_protocol orc"
  shows "keeps ok_change (endpoint cfg orc route identity)"
proof -
  note intros = ok.keeps_endpoint ok.keeps_intros ok_reads [OF assms] ok_audit_trail [OF assms]
    ok_visible_runs [OF assms] ok_load_run [OF assms] ok_methods [OF assms]
  have runs: "keeps ok_change (runs_endpoint cfg orc identity status limit)" for status limit
    unfolding runs_endpoint_def by (intro intros)
  have run: "(\<And>r act. keeps ok_change (f r act)) \<Longrightarrow> keeps ok_change (run_action cfg orc rid identity f)" for f rid
    unfolding run_action_def by (intro intros)
  have inv: "keeps ok_change (resolve_and_invoke cfg orc act name body identity key)" for act name body key
    unfolding resolve_and_invoke_def by (intro intros)
  show ?thesis
    by (cases route; simp only: endpoint_def route.case health_def readiness_def static_asset_def actions_endpoint_def
        audit_endpoint_def approvals_endpoint_def approve_endpoint_def reject_endpoint_def
        resume_endpoint_def reconcile_endpoint_def recover_endpoint_def metrics_endpoint_def invoke_endpoint_def
        reconcile_from_provider_endpoint_def; intro intros runs run inv)
qed

lemma serve_handled:
  assumes "serve cfg orc fresh request w = (response, w')"
  shows "\<exists>outcome. handle_route cfg orc (hq_authorization request) (hq_route request) w = (outcome, w')"
  using assms by (auto simp: serve_def Let_def split: prod.splits option.splits)

lemma ok_serve:
  assumes "others_follow_protocol orc" "serve cfg orc fresh request w = (response, w')"
  shows "ok_change w w'"
proof -
  have "keeps ok_change (handle_route cfg orc (hq_authorization request) (hq_route request))"
    unfolding handle_route_def by (intro ok.keeps_if ok.keeps_h_bind ok.keeps_authenticate ok_endpoint assms)
  with serve_handled [OF assms(2)] keepsD show ?thesis by blast
qed

text \<open>A request served by any application, with any other clients at the same ledger.\<close>

inductive http_step :: "'w world \<Rightarrow> 'w world \<Rightarrow> bool" where
  served: "others_follow_protocol orc \<Longrightarrow> serve cfg orc fresh request w = (response, w') \<Longrightarrow> http_step w w'"

lemma http_step_ok: "http_step w w' \<Longrightarrow> world_ok w \<Longrightarrow> world_ok w' \<and> world_extends w w'"
  by (induction rule: http_step.induct) (metis ok_serve ok_change_def)

interpretation service: transition_system fresh_world http_step world_ok world_extends
proof
  show "fresh_world w \<Longrightarrow> world_ok w" for w :: "'a world" by (rule worlds.init_inv)
  show "world_ok w \<Longrightarrow> http_step w w' \<Longrightarrow> world_ok w'" for w w' :: "'a world" using http_step_ok by blast
  show "world_ok w \<Longrightarrow> http_step w w' \<Longrightarrow> world_extends w w'" for w w' :: "'a world" using http_step_ok by blast
  show "world_extends w w" for w :: "'a world" by (simp add: world_extends_def)
  show "world_extends u v \<Longrightarrow> world_extends v w \<Longrightarrow> world_extends u w" for u v w :: "'a world"
    by (auto simp: world_extends_def intro: rtranclp_trans prefix_order.trans)
qed

text \<open>C2: Over any sequence of HTTP requests, from any callers, to any applications, with any other
  clients of the ledger acting in between, a protected function is called at most once per run
  and at most once per tenant, action and idempotency key.\<close>

theorem http_calls_tool_at_most_once:
  assumes "reach fresh_world http_step w"
  shows "distinct (map tc_run (w_log w)) \<and> distinct (map (call_key (w_ledger w)) (w_log w))"
  by (rule world_ok_calls_once [OF service.reach_inv [OF assms]])

section \<open>Tenants\<close>

lemma tenant_serve:
  assumes "others_follow_protocol orc" "hq_authorization request = Some (''Bearer '' @ credential)"
    "ac_verify cfg (strip credential) = Inr identity" "serve cfg orc fresh request w = (response, w')"
  shows "tenant_change orc (vp_tenant_id identity) w w'"
proof -
  from serve_handled [OF assms(4)] obtain outcome where
    handled: "handle_route cfg orc (hq_authorization request) (hq_route request) w = (outcome, w')" by blast
  show ?thesis
  proof (cases "is_public (hq_route request)")
    case True
    with handled have "w' = w"
      by (cases "hq_route request") (auto simp: handle_route_def endpoint_def health_def readiness_def static_asset_def
          h_return_def rt_return_def)
    then show ?thesis by (simp add: tenant_refl)
  next
    case False
    have "authenticate cfg (Some (''Bearer '' @ credential)) w = (Inr (Inr identity), w)"
      by (simp add: authenticate_def assms(3) h_return_def rt_return_def)
    with handled False have "endpoint cfg orc (hq_route request) identity w = (outcome, w')"
      by (simp add: handle_route_def assms(2) h_bind_def rt_bind_def)
    then show ?thesis by (rule keepsD [OF tenant_endpoint [OF assms(1)]])
  qed
qed

text \<open>C5: A request acts only for the tenant of its verified identity: whatever it asks for, each
  step it takes in the ledger leaves the row, the events and the approval of every run of
  another tenant as they are and creates none there (everything else was done by the other
  clients of the ledger), and every tool call it makes is for a run of its tenant.\<close>

theorem requests_stay_in_their_tenant:
  assumes "others_follow_protocol orc" "ledger_inv (w_ledger w)"
    "hq_authorization request = Some (''Bearer '' @ credential)" "ac_verify cfg (strip credential) = Inr identity"
    "serve cfg orc fresh request w = (response, w')"
  shows "(\<lambda>l l'. confined (vp_tenant_id identity) l l' \<or> (\<exists>i. l' = o_others orc i l))\<^sup>*\<^sup>* (w_ledger w) (w_ledger w')
    \<and> (\<exists>calls. w_log w' = w_log w @ calls \<and> (\<forall>c \<in> set calls. owned (vp_tenant_id identity) (tc_run c) (w_ledger w')))"
proof -
  from tenant_serve [OF assms(1,3-5)] assms(2) have steps: "(own_or_other orc (vp_tenant_id identity))\<^sup>*\<^sup>* (w_ledger w) (w_ledger w')"
    and calls: "\<exists>calls. w_log w' = w_log w @ calls \<and> (\<forall>c \<in> set calls. owned (vp_tenant_id identity) (tc_run c) (w_ledger w'))"
    by (auto simp: tenant_change_def)
  have "own_or_other orc (vp_tenant_id identity) \<le> (\<lambda>l l'. confined (vp_tenant_id identity) l l' \<or> (\<exists>i. l' = o_others orc i l))"
    by (auto simp: own_or_other_def own_step_def)
  from rtranclp_mono [OF this] steps calls show ?thesis by blast
qed

section \<open>Runs of other tenants, and callers without an identity\<close>

text \<open>The run a route names.\<close>

fun route_run :: "route \<Rightarrow> string option" where
  "route_run (Audit rid) = Some rid"
| "route_run (Approve rid body) = Some rid"
| "route_run (Reject rid body) = Some rid"
| "route_run (Resume rid) = Some rid"
| "route_run (Reconcile rid body) = Some rid"
| "route_run (ReconcileFromProvider rid) = Some rid"
| "route_run _ = None"

definition not_found :: "http_error + reply" where
  "not_found = Inl \<lparr>he_status = 404, he_detail = ''run not found'', he_headers = []\<rparr>"

lemma load_foreign_run:
  assumes "alone orc" "\<not> owned (vp_tenant_id identity) rid (w_ledger w)"
  shows "load_tenant_run orc rid identity w
    = (Inr (Inl \<lparr>he_status = 404, he_detail = ''run not found'', he_headers = []\<rparr>), w\<lparr>w_calls := Suc (w_calls w)\<rparr>)"
  using assms by (auto simp: load_tenant_run_def rt_bind_def alone_get_run http_exception_def rt_return_def owned_def
      split: option.splits)

lemma foreign_run_action:
  assumes "alone orc" "\<not> owned (vp_tenant_id identity) rid (w_ledger w)"
  shows "run_action cfg orc rid identity f w = (Inr not_found, w\<lparr>w_calls := Suc (w_calls w)\<rparr>)"
  by (simp add: run_action_def h_bind_def rt_bind_def load_foreign_run [OF assms] rt_return_def not_found_def)

text \<open>Every route about a run first loads it; what comes before depends on neither run nor ledger.\<close>

definition refuses :: "VerifiedPrincipal \<Rightarrow> string \<Rightarrow> ('w, reply) handler \<Rightarrow> bool" where
  "refuses identity rid m \<longleftrightarrow> (\<exists>outcome k. \<forall>w. \<not> owned (vp_tenant_id identity) rid (w_ledger w) \<longrightarrow>
     m w = (outcome, w\<lparr>w_calls := w_calls w + k\<rparr>))"

lemma refuses_http: "refuses identity rid (http_exception status detail)"
  unfolding refuses_def http_exception_def rt_return_def
  by (rule exI [of _ "Inr (Inl \<lparr>he_status = status, he_detail = detail, he_headers = []\<rparr>)"], rule exI [of _ 0]) simp

lemma refuses_calls:
  assumes "\<And>w. \<not> owned (vp_tenant_id identity) rid (w_ledger w) \<Longrightarrow> m w = (Inr not_found, w\<lparr>w_calls := Suc (w_calls w)\<rparr>)"
  shows "refuses identity rid m"
  unfolding refuses_def by (rule exI [of _ "Inr not_found"], rule exI [of _ "Suc 0"]) (simp add: assms)

lemma bind_require_role:
  "h_bind (require_role identity role) f = (if role \<in> set (vp_roles identity) then f ()
     else http_exception 403 (''verified principal lacks required role: '' @ role))"
  by (rule ext) (simp add: h_bind_def rt_bind_def require_role_def http_exception_def h_return_def rt_return_def)

lemma refuses_role: "refuses identity rid (f ()) \<Longrightarrow> refuses identity rid (h_bind (require_role identity role) f)"
  by (simp only: bind_require_role refuses_http split: if_split) simp

lemma refuses_body: "(\<And>b. refuses identity rid (g b)) \<Longrightarrow> refuses identity rid (with_body body g)"
  unfolding with_body_def by (cases body) (simp_all only: option.case refuses_http)

lemma refuses_run_action: "alone orc \<Longrightarrow> refuses identity rid (run_action cfg orc rid identity f)"
  by (rule refuses_calls) (rule foreign_run_action)

lemma refuses_audit: "alone orc \<Longrightarrow> refuses identity rid (audit_endpoint cfg orc rid identity)"
  unfolding audit_endpoint_def
  by (intro refuses_role refuses_calls) (simp add: h_bind_def rt_bind_def load_foreign_run rt_return_def not_found_def)

lemma endpoint_foreign:
  assumes "alone orc" "route_run route = Some rid"
  shows "refuses identity rid (endpoint cfg orc route identity)"
  using assms(2)
  by (cases route; simp; simp only: endpoint_def route.case approve_endpoint_def reject_endpoint_def resume_endpoint_def
      reconcile_endpoint_def reconcile_from_provider_endpoint_def;
      intro refuses_role refuses_body refuses_audit refuses_run_action assms(1))

lemma serve_foreign:
  assumes "alone orc" "route_run (hq_route request) = Some rid"
    "hq_authorization request = Some (''Bearer '' @ credential)" "ac_verify cfg (strip credential) = Inr identity"
  shows "\<exists>response k. \<forall>w. \<not> owned (vp_tenant_id identity) rid (w_ledger w) \<longrightarrow>
    serve cfg orc fresh request w = (response, w\<lparr>w_calls := w_calls w + k\<rparr>)"
proof -
  from endpoint_foreign [OF assms(1,2), of identity cfg, unfolded refuses_def] obtain outcome k where
    out: "\<And>w. \<not> owned (vp_tenant_id identity) rid (w_ledger w) \<Longrightarrow>
      endpoint cfg orc (hq_route request) identity w = (outcome, w\<lparr>w_calls := w_calls w + k\<rparr>)" by blast
  have "authenticate cfg (Some (''Bearer '' @ credential)) w = (Inr (Inr identity), w)" for w
    by (simp add: authenticate_def assms(4) h_return_def rt_return_def)
  moreover have "\<not> is_public (hq_route request)" using assms(2) by (cases "hq_route request") auto
  ultimately have "handle_route cfg orc (hq_authorization request) (hq_route request) w
      = endpoint cfg orc (hq_route request) identity w" for w
    by (simp add: handle_route_def assms(3) h_bind_def rt_bind_def)
  then have "\<exists>response. \<forall>w. \<not> owned (vp_tenant_id identity) rid (w_ledger w) \<longrightarrow>
      serve cfg orc fresh request w = (response, w\<lparr>w_calls := w_calls w + k\<rparr>)"
    using out by (cases "respond outcome") (auto simp: serve_def)
  then show ?thesis by blast
qed

text \<open>A caller cannot tell a run of another tenant from a run that does not exist: every request
  that names the run (its audit trail, approval, rejection, resumption, reconciliation) is
  answered the same in both cases, and changes neither the ledger nor anything outside.\<close>

theorem foreign_runs_look_missing:
  assumes "alone orc" "route_run (hq_route request) = Some rid"
    "hq_authorization request = Some (''Bearer '' @ credential)" "ac_verify cfg (strip credential) = Inr identity"
    "fetch_run (w_ledger w) rid = Some r" "r_tenant_id r \<noteq> vp_tenant_id identity" "fetch_run (w_ledger v) rid = None"
  shows "fst (serve cfg orc fresh request w) = fst (serve cfg orc fresh request v)
    \<and> w_ledger (snd (serve cfg orc fresh request w)) = w_ledger w \<and> w_log (snd (serve cfg orc fresh request w)) = w_log w
    \<and> w_ext (snd (serve cfg orc fresh request w)) = w_ext w"
proof -
  from serve_foreign [OF assms(1-4), of fresh] obtain response k where
    all: "\<And>w. \<not> owned (vp_tenant_id identity) rid (w_ledger w) \<Longrightarrow>
      serve cfg orc fresh request w = (response, w\<lparr>w_calls := w_calls w + k\<rparr>)" by blast
  have "\<not> owned (vp_tenant_id identity) rid (w_ledger w)" "\<not> owned (vp_tenant_id identity) rid (w_ledger v)"
    using assms(5-7) by (auto simp: owned_def)
  from all [OF this(1)] all [OF this(2)] show ?thesis by simp
qed

text \<open>C20: Without a verified identity nothing happens: a request for anything but the public pages
  whose credential is missing, is not a bearer credential or is not accepted by the verifier is
  answered with 401, and the ledger, the external systems and the log of calls stay as they are.\<close>

theorem unauthenticated_requests_are_refused:
  assumes "\<not> is_public (hq_route request)"
    "\<And>credential. hq_authorization request = Some (''Bearer '' @ credential) \<Longrightarrow>
      \<exists>message. ac_verify cfg (strip credential) = raise_exc AuthenticationError message"
  shows "hr_status (fst (serve cfg orc fresh request w)) = 401 \<and> snd (serve cfg orc fresh request w) = w"
proof -
  have "\<exists>detail. authenticate cfg (hq_authorization request) = unauthorized detail"
  proof (cases "hq_authorization request")
    case (Some header)
    show ?thesis
    proof (cases "startswith header ''Bearer ''")
      case True
      then obtain credential where header: "header = ''Bearer '' @ credential" by (auto simp only: startswith_iff)
      with assms(2) Some obtain message where "ac_verify cfg (strip credential) = raise_exc AuthenticationError message" by blast
      then have "authenticate cfg (Some (''Bearer '' @ credential)) = unauthorized message"
        by (simp add: authenticate_def raise_exc_def exc_text_def)
      with Some header show ?thesis by (simp only:) (rule exI, rule refl)
    qed (use Some in \<open>auto simp: authenticate_def\<close>)
  qed (auto simp: authenticate_def)
  then obtain detail where "authenticate cfg (hq_authorization request) = unauthorized detail" by blast
  then have "handle_route cfg orc (hq_authorization request) (hq_route request) w
      = (Inr (Inl \<lparr>he_status = 401, he_detail = detail, he_headers = [(''WWW-Authenticate'', ''Bearer'')]\<rparr>), w)"
    using assms(1) by (simp add: handle_route_def h_bind_def rt_bind_def unauthorized_def rt_return_def)
  then show ?thesis by (simp add: serve_def respond_def detail_response_def)
qed

section \<open>A service\<close>

text \<open>Two callers with static tokens: an executor of the tenant of the demo run, and a viewer of
  another tenant.\<close>

definition demo_executor :: VerifiedPrincipal where
  "demo_executor = \<lparr>vp_actor_id = ''dave'', vp_tenant_id = ''acme'', vp_roles = [''agenttrustops_executor''], vp_auth_source = ''static''\<rparr>"

definition demo_outsider :: VerifiedPrincipal where
  "demo_outsider = \<lparr>vp_actor_id = ''mallory'', vp_tenant_id = ''globex'', vp_roles = [''agenttrustops_viewer''], vp_auth_source = ''static''\<rparr>"

definition demo_config :: "VerifiedPrincipal \<Rightarrow> nat app_config" where
  "demo_config identity = \<lparr>ac_registry = \<lparr>rg_ledger = 0, rg_actions = [(''refund'', demo_action)]\<rparr>,
     ac_verify = StaticTokenVerifier_verify [(token_digest ''0123456789abcdef'', identity)], ac_resolver = None, ac_probes = [],
     ac_invoker_role = ''agenttrustops_invoker'', ac_viewer_role = ''agenttrustops_viewer'',
     ac_executor_role = ''agenttrustops_executor'', ac_observer_role = ''agenttrustops_observer'',
     ac_operator_role = ''agenttrustops_operator'', ac_schema = Some 1, ac_asset = (\<lambda>_. [])\<rparr>"

definition demo_request_for :: "route \<Rightarrow> http_request" where
  "demo_request_for route = \<lparr>hq_route = route, hq_path = ''/v1'', hq_authorization = Some (''Bearer '' @ ''0123456789abcdef''),
     hq_request_id = []\<rparr>"

lemma demo_verified: "ac_verify (demo_config identity) (strip ''0123456789abcdef'') = Inr identity"
proof -
  have "strip ''0123456789abcdef'' = ''0123456789abcdef''" by code_simp
  then show ?thesis by (simp add: demo_config_def StaticTokenVerifier_verify_def)
qed

lemma demo_authorized: "hq_authorization (demo_request_for route) = Some (''Bearer '' @ ''0123456789abcdef'')"
  by (simp add: demo_request_for_def)

lemma demo_approved_world:
  obtains r where "reachable (w_ledger demo_world)" "fetch_run (w_ledger demo_world) ''r1'' = Some r" "r_status r = APPROVED"
    "r_tenant_id r = ''acme''" "r_action_name r = ''refund''" "r_policy_version r = Some ''v1''"
    "r_arguments r = PDict [(''amount'', PInt 5)]" "event_ids (w_ledger demo_world) = [''e1'', ''e2'', ''e3'', ''e4'']"
proof (rule demo_approved)
  fix l r
  assume l: "demo_approve = Inr (True, l)" "reachable l" "fetch_run l ''r1'' = Some r" "r_status r = APPROVED"
    "r_policy_version r = Some ''v1''" "event_ids l = [''e1'', ''e2'', ''e3'', ''e4'']"
    "r_action_name r = ''refund''" "r_arguments r = PDict [(''amount'', PInt 5)]"
  from demo_request_ok obtain r0 where r0: "fetch_run (ledger_after demo_request) ''r1'' = Some r0" "r_tenant_id r0 = ''acme''"
    by (auto simp: demo_pending_ok_def split: option.splits)
  have "ledger_step\<^sup>*\<^sup>* (ledger_after demo_request) l"
    using ledger_step.decide [OF l(1) [unfolded demo_approve_def]] by (rule r_into_rtranclp)
  from steps_run [OF this reachable_inv [OF reachable_request] r0(1)] l(3) have "request_of r = request_of r0"
    by (metis option.inject)
  with r0(2) have "r_tenant_id r = ''acme''" by (simp add: request_of_def run_key_def)
  with l that show thesis by (simp add: demo_world_def ledger_after_Inr [OF l(1)])
qed

text \<open>A request of the executor resumes the approved run: the tool is called once.\<close>

lemma demo_served:
  obtains response w' where "serve (demo_config demo_executor) demo_schedule [] (demo_request_for (Resume ''r1'')) demo_world = (response, w')"
    "hr_status response = 200"
    "w_log w' = [\<lparr>tc_action = ''refund'', tc_run = ''r1'', tc_owner = ''worker_9'', tc_arguments = [(''amount'', PlainArg (PInt 5))]\<rparr>]"
proof (rule demo_approved_world)
  fix r
  let ?w = "demo_world\<lparr>w_calls := 2\<rparr>"
  assume r: "reachable (w_ledger demo_world)" "fetch_run (w_ledger demo_world) ''r1'' = Some r" "r_status r = APPROVED"
    "r_tenant_id r = ''acme''" "r_action_name r = ''refund''" "r_policy_version r = Some ''v1''"
    "r_arguments r = PDict [(''amount'', PInt 5)]" "event_ids (w_ledger demo_world) = [''e1'', ''e2'', ''e3'', ''e4'']"
  have w: "w_calls demo_world = 0" "w_log demo_world = []" by (simp_all add: demo_world_def)
  have names: "ta_name demo_action = ''refund''" "\<And>i. o_uuid demo_schedule i = ''9''" "\<not> ta_is_async demo_action"
    by (simp_all add: demo_action_def demo_schedule_def)
  have "\<exists>res w'. execute demo_schedule demo_action False ''r1'' [(''amount'', PInt 5)] ?w = (Inr res, w') \<and> ar_status res = COMPLETED
    \<and> ar_value res = json_norm True (PStr ''done'') \<and> \<not> ar_duplicate res \<and> w_ext w' = Suc (w_ext ?w)
    \<and> w_log w' = w_log ?w @ [\<lparr>tc_action = ta_name demo_action, tc_run = ''r1'',
         tc_owner = ''worker_'' @ o_uuid demo_schedule (w_calls ?w),
         tc_arguments = map (map_prod id PlainArg) [(''amount'', PInt 5)]\<rparr>]
    \<and> (\<exists>r'. fetch_run (w_ledger w') ''r1'' = Some r' \<and> r_status r' = COMPLETED)"
  proof (rule execute_enabled [where r = r and lease = 180000000])
    show "add_seconds (now_at (o_env demo_schedule (w_calls ?w)) 0) (nat (ta_lease_seconds demo_action)) = Inr 180000000"
      using demo_lease by simp
    show "distinct (event_ids (w_ledger ?w) @ call_ids demo_schedule (w_calls ?w) @ call_ids demo_schedule (Suc (w_calls ?w)))"
      by (simp add: r(8) call_ids_def demo_schedule_def demo_env_def)
    show "strip (''worker_'' @ o_uuid demo_schedule (w_calls ?w)) \<noteq> []" by (rule demo_worker)
  qed (use r demo_alone in \<open>simp_all add: reachable_inv claimable_def demo_action_def\<close>)
  then obtain res w' where ex: "execute demo_schedule demo_action False ''r1'' [(''amount'', PInt 5)] ?w = (Inr res, w')"
    "w_log w' = [\<lparr>tc_action = ''refund'', tc_run = ''r1'', tc_owner = ''worker_9'', tc_arguments = [(''amount'', PlainArg (PInt 5))]\<rparr>]"
    by (auto simp: names w)
  have get: "get_run demo_schedule ''r1'' demo_world = (Inr (Some r), demo_world\<lparr>w_calls := 1\<rparr>)"
    "get_run demo_schedule ''r1'' (demo_world\<lparr>w_calls := 1\<rparr>) = (Inr (Some r), ?w)"
    using alone_get_run [OF demo_alone, of "''r1''" demo_world]
      alone_get_run [OF demo_alone, of "''r1''" "demo_world\<lparr>w_calls := 1\<rparr>"] r(2) w by (simp_all add: numeral_2_eq_2)
  have "stored_arguments r = [(''amount'', PInt 5)]" by (simp add: stored_arguments_def r(7))
  with ex get(2) have resumed: "resume demo_schedule demo_action ''r1'' (demo_world\<lparr>w_calls := 1\<rparr>) = (Inr res, w')"
    by (simp add: resume_def resume_run_def prepare_resume_def rt_bind_def names r rt_return_def)
  have role: "ac_executor_role (demo_config demo_executor) \<in> set (vp_roles demo_executor)"
    by (simp add: demo_config_def demo_executor_def)
  have tenant: "r_tenant_id r = vp_tenant_id demo_executor" by (simp add: demo_executor_def r(4))
  have action: "get_action (ac_registry (demo_config demo_executor)) (r_action_name r) = Inr demo_action"
    by (simp add: demo_config_def get_action_def r(5))
  have "run_action (demo_config demo_executor) demo_schedule ''r1'' demo_executor (\<lambda>run act. public_result (if ta_is_async act
        then resume_async demo_schedule act ''r1'' else resume demo_schedule act ''r1'')) demo_world
      = (Inr (Inr (JsonReply (ActionResult_to_public_dict res))), w')"
    using resumed get(1) action tenant
    by (simp add: run_action_def load_tenant_run_def h_bind_def rt_bind_def h_return_def rt_return_def rt_lift_def
        public_result_def names)
  then have "endpoint (demo_config demo_executor) demo_schedule (Resume ''r1'') demo_executor demo_world
      = (Inr (Inr (JsonReply (ActionResult_to_public_dict res))), w')"
    by (simp only: endpoint_def route.case resume_endpoint_def bind_require_role role if_True)
  then have "handle_route (demo_config demo_executor) demo_schedule (Some (''Bearer '' @ ''0123456789abcdef'')) (Resume ''r1'') demo_world
      = (Inr (Inr (JsonReply (ActionResult_to_public_dict res))), w')"
    using demo_verified [of demo_executor]
    by (simp add: handle_route_def authenticate_def h_bind_def rt_bind_def h_return_def rt_return_def)
  then show thesis
    using that ex(2) by (simp add: serve_def demo_request_for_def respond_def)
qed

theorem http_calls_tool_at_most_once_witness:
  "\<exists>w :: nat world. length (w_log w) = 1 \<and> distinct (map (call_key (w_ledger w)) (w_log w))"
proof (rule demo_served)
  fix response and w' :: "nat world"
  assume served: "serve (demo_config demo_executor) demo_schedule [] (demo_request_for (Resume ''r1'')) demo_world = (response, w')"
    and log: "w_log w' = [\<lparr>tc_action = ''refund'', tc_run = ''r1'', tc_owner = ''worker_9'', tc_arguments = [(''amount'', PlainArg (PInt 5))]\<rparr>]"
  have "reach fresh_world http_step w'"
    using reach.step [OF reach.start [of fresh_world demo_world http_step, OF demo_world_fresh]
      http_step.served [OF alone_protocol [OF demo_alone] served]] .
  from http_calls_tool_at_most_once [OF this] log show ?thesis by (intro exI [of _ w']) simp
qed

theorem requests_stay_in_their_tenant_witness:
  "\<exists>response w'. serve (demo_config demo_executor) demo_schedule [] (demo_request_for (Resume ''r1'')) demo_world = (response, w')
     \<and> hr_status response = 200 \<and> owned ''acme'' ''r1'' (w_ledger w')"
proof (rule demo_served)
  fix response w'
  assume served: "serve (demo_config demo_executor) demo_schedule [] (demo_request_for (Resume ''r1'')) demo_world = (response, w')"
    "hr_status response = 200"
    and log: "w_log w' = [\<lparr>tc_action = ''refund'', tc_run = ''r1'', tc_owner = ''worker_9'', tc_arguments = [(''amount'', PlainArg (PInt 5))]\<rparr>]"
  have inv: "ledger_inv (w_ledger demo_world)" using demo_world_fresh by (simp add: fresh_world_def reachable_inv)
  from requests_stay_in_their_tenant [OF alone_protocol [OF demo_alone] inv demo_authorized demo_verified served(1)] log
  have "owned ''acme'' ''r1'' (w_ledger w')" by (simp add: demo_world_def demo_executor_def)
  with served show ?thesis by blast
qed

theorem foreign_runs_look_missing_witness:
  "fst (serve (demo_config demo_outsider) demo_schedule [] (demo_request_for (Audit ''r1'')) demo_world)
     = fst (serve (demo_config demo_outsider) demo_schedule [] (demo_request_for (Audit ''r1'')) demo_empty)"
proof (rule demo_approved_world)
  fix r assume r: "fetch_run (w_ledger demo_world) ''r1'' = Some r" "r_tenant_id r = ''acme''"
  have route: "route_run (hq_route (demo_request_for (Audit ''r1''))) = Some ''r1''" by (simp add: demo_request_for_def)
  have other: "r_tenant_id r \<noteq> vp_tenant_id demo_outsider" by (simp add: r(2) demo_outsider_def)
  have none: "fetch_run (w_ledger demo_empty) ''r1'' = None" by (simp add: demo_empty_def empty_ledger_def)
  from foreign_runs_look_missing [OF demo_alone route demo_authorized demo_verified r(1) other none] show ?thesis by simp
qed

theorem unauthenticated_requests_are_refused_witness:
  "hr_status (fst (serve (demo_config demo_executor) demo_schedule [] \<lparr>hq_route = Recover, hq_path = ''/v1'',
      hq_authorization = None, hq_request_id = []\<rparr> demo_world)) = 401"
  by (rule conjunct1 [OF unauthenticated_requests_are_refused]) simp_all

end
