(* ===== verification/Cli.thy ===== *)
theory Cli
  imports Bundles Release Api Ledger_Migrate
begin

text \<open>
  The command line (\<open>cli.py\<close>): one definition per handler, from the parsed arguments to the text
  on standard output and the exit code. The ledger of the world is the one the arguments name,
  opened (and migrated) by the command; a file is its bytes and its mode; paths are normal ones.
  \<open>SystemExit\<close> is an exception. The arguments are parsed in \<open>Cli_Main\<close>.
\<close>

section \<open>Output and files\<close>

type_synonym exit_result = "string \<times> int"

definition line :: "string \<Rightarrow> string" where "line s = s @ [newline]"

definition print_json :: "bool \<Rightarrow> pyval \<Rightarrow> string res" where
  "print_json asc v = res_bind (json_dumps_indent asc False v) (\<lambda>t. Inr (line t))"

definition system_exit :: "string \<Rightarrow> 'a res" where
  "system_exit message = raise_exc (OtherError ''SystemExit'') message"

definition load_json :: "string \<Rightarrow> files \<Rightarrow> pyval res" where
  "load_json path fs =
     (case map_of fs path of
        None \<Rightarrow> raise_exc (OtherError ''FileNotFoundError'') path
      | Some (bytes, mode) \<Rightarrow> res_bind (read_text bytes) json_loads)"

text \<open>Opening a ledger migrates it, in one transaction.\<close>

definition open_ledger :: "schedule \<Rightarrow> ('w, unit) rt" where
  "open_ledger orc = ledger_call orc (\<lambda>env l. res_bind (backfill_v1 l) (\<lambda>l'. Inr ((), l')))"

fun read_ledgers :: "schedule \<Rightarrow> nat \<Rightarrow> ('w, ledger list) rt" where
  "read_ledgers orc 0 = rt_return []"
| "read_ledgers orc (Suc n) =
     rt_bind (read_ledger orc) (\<lambda>l. rt_bind (read_ledgers orc n) (\<lambda>ls. rt_return (l # ls)))"

section \<open>Release evaluation and walkthrough\<close>

definition scenario_dict :: "scenario_result \<Rightarrow> pyval" where
  "scenario_dict r = PDict [
     (''id'', sr_id r), (''expected_status'', sr_expected_status r), (''actual_status'', PStr (sr_actual_status r)),
     (''expected_policy'', sr_expected_policy r), (''actual_policy'', opt_str (sr_actual_policy r)),
     (''refund_count'', PInt (int (sr_refund_count r))), (''passed'', PBool (sr_passed r))]"

definition release_report :: "release_metrics \<Rightarrow> bool \<Rightarrow> pyval" where
  "release_report m allowed = PDict [
     (''release'', rm_release m), (''scenarios'', PInt (int (rm_scenarios m))),
     (''wrong_decisions'', PInt (int (rm_wrong_decisions m))),
     (''wrong_policy_decisions'', PInt (int (rm_wrong_policy_decisions m))),
     (''approval_bypasses'', PInt (int (rm_approval_bypasses m))),
     (''duplicate_side_effects'', PInt (int (rm_duplicate_side_effects m))),
     (''results'', PList (map scenario_dict (rm_results m))), (''release_allowed'', PBool allowed)]"

definition eval_text :: "release_metrics \<Rightarrow> bool \<Rightarrow> string" where
  "eval_text m allowed =
     line (''Release: '' @ py_str (rm_release m)) @ line (''Scenarios: '' @ nat_str (rm_scenarios m))
     @ line (''Wrong decisions: '' @ nat_str (rm_wrong_decisions m))
     @ line (''Wrong policy decisions: '' @ nat_str (rm_wrong_policy_decisions m))
     @ line (''Duplicate side effects: '' @ nat_str (rm_duplicate_side_effects m))
     @ line (''Approval bypasses: '' @ nat_str (rm_approval_bypasses m))
     @ line [] @ line (if allowed then ''RELEASE ALLOWED'' else ''RELEASE BLOCKED'')"

definition eval_command ::
  "(string \<Rightarrow> string) \<Rightarrow> (nat \<Rightarrow> schedule) \<Rightarrow> string \<Rightarrow> string \<Rightarrow> bool \<Rightarrow> files \<Rightarrow> exit_result res" where
  "eval_command real_text orcs scenarios policy json fs =
     res_bind (load_json scenarios fs) (\<lambda>scenarios_document. res_bind (load_json policy fs) (\<lambda>policy_document.
     res_bind (evaluate_release real_text orcs scenarios_document policy_document) (\<lambda>(m, allowed).
     res_bind (if json then print_json False (release_report m allowed) else Inr (eval_text m allowed)) (\<lambda>out.
     Inr (out, if allowed then 0 else 1)))))"

definition walkthrough_report :: "string \<Rightarrow> walkthrough \<Rightarrow> pyval" where
  "walkthrough_report demo_dir r = PDict [
     (''run_id'', PStr (wt_run_id r)), (''states'', PList (map PStr (wt_states r))),
     (''refund_count'', PInt (int (wt_refund_count r))), (''events'', PList (wt_events r)),
     (''ledger'', PStr (demo_dir @ ''/action-ledger.db'')), (''refund_store'', PStr (demo_dir @ ''/refunds.db''))]"

definition walkthrough_text :: "string \<Rightarrow> walkthrough \<Rightarrow> string" where
  "walkthrough_text demo_dir r =
     line ''RefundOps approval walkthrough'' @ line (''Run ID: '' @ wt_run_id r)
     @ line (''States: '' @ join '' -> '' (wt_states r)) @ line (''Refund side effects: '' @ nat_str (wt_refund_count r))
     @ line (''Events: '' @ join '' -> '' (map py_str (wt_events r)))
     @ line (''Ledger: '' @ demo_dir @ ''/action-ledger.db'') @ line []
     @ line (''Replay: agenttrust replay '' @ wt_run_id r @ '' --ledger '' @ demo_dir @ ''/action-ledger.db'')"

text \<open>\<open>demo_dir\<close> is the new directory of the walkthrough.\<close>

definition demo_command :: "(string \<Rightarrow> string) \<Rightarrow> schedule \<Rightarrow> string \<Rightarrow> bool \<Rightarrow> exit_result res" where
  "demo_command real_text orc demo_dir json =
     res_bind (run_refund_demo real_text orc) (\<lambda>r.
     res_bind (if json then print_json False (walkthrough_report demo_dir r) else Inr (walkthrough_text demo_dir r)) (\<lambda>out.
     Inr (out, 0)))"

section \<open>Operations on a ledger\<close>

definition replay_command :: "schedule \<Rightarrow> string \<Rightarrow> ('w, exit_result) rt" where
  "replay_command orc run_id =
     rt_bind (open_ledger orc) (\<lambda>_. rt_bind (action_audit_trail orc run_id None) (\<lambda>trail.
     case trail of
       None \<Rightarrow> rt_return (line ''Run not found'', 1)
     | Some t \<Rightarrow> rt_bind (rt_lift (print_json False (PDict t))) (\<lambda>out. rt_return (out, 0))))"

text \<open>The runs an integrity scan checks; each takes two reads.\<close>

definition scanned_runs :: "ledger \<Rightarrow> string option \<Rightarrow> int \<Rightarrow> nat" where
  "scanned_runs l tenant limit =
     (if 1 \<le> limit \<and> limit \<le> 100000 then length (newest (nat limit) (filter (of_tenant tenant) (l_runs l))) else 0)"

definition take_snapshot ::
  "schedule \<Rightarrow> int option \<Rightarrow> string option \<Rightarrow> bool \<Rightarrow> int \<Rightarrow> ('w, OperationalSnapshot) rt" where
  "take_snapshot orc schema tenant verify_integrity limit =
     rt_bind (read_ledger orc) (\<lambda>l0.
     rt_bind (read_ledgers orc (if verify_integrity then 2 * scanned_runs l0 tenant limit else 0)) (\<lambda>scans.
     rt_bind (read_ledger orc) (\<lambda>l1. rt_bind (read_ledger orc) (\<lambda>l2. rt_bind (read_now orc) (\<lambda>(now, l3).
     rt_bind (read_ledger orc) (\<lambda>l4.
     rt_lift (collect_operational_snapshot ''sqlite'' schema now (\<lambda>i. [l0, l1, l2, l3, l4] ! i)
       (\<lambda>j. (scans ! (2 * j), scans ! (2 * j + 1))) tenant verify_integrity limit)))))))"

definition integrity_healthy :: "OperationalSnapshot \<Rightarrow> bool" where
  "integrity_healthy s \<longleftrightarrow> (case os_integrity s of None \<Rightarrow> False | Some r \<Rightarrow> cr_invalid r = 0)"

definition doctor_report :: "OperationalSnapshot \<Rightarrow> pyval" where
  "doctor_report s = (case snapshot_to_dict s of
     PDict kvs \<Rightarrow> PDict (kvs @ [(''healthy'', PBool (integrity_healthy s))]) | v \<Rightarrow> v)"

definition doctor_command :: "schedule \<Rightarrow> int option \<Rightarrow> string option \<Rightarrow> int \<Rightarrow> ('w, exit_result) rt" where
  "doctor_command orc schema tenant limit =
     rt_bind (open_ledger orc) (\<lambda>_. rt_bind (take_snapshot orc schema tenant True limit) (\<lambda>s.
     rt_bind (rt_lift (print_json False (doctor_report s))) (\<lambda>out.
     rt_return (out, if integrity_healthy s then 0 else 2))))"

definition metrics_command :: "schedule \<Rightarrow> int option \<Rightarrow> string option \<Rightarrow> bool \<Rightarrow> ('w, exit_result) rt" where
  "metrics_command orc schema tenant verify_integrity =
     rt_bind (open_ledger orc) (\<lambda>_. rt_bind (take_snapshot orc schema tenant verify_integrity 10000) (\<lambda>s.
     rt_return (render_prometheus s, 0)))"

definition recover_command :: "schedule \<Rightarrow> string option \<Rightarrow> ('w, exit_result) rt" where
  "recover_command orc tenant =
     rt_bind (open_ledger orc) (\<lambda>_.
     rt_bind (ledger_call orc (\<lambda>env. expire_approvals env tenant)) (\<lambda>expired.
     rt_bind (ledger_call orc (\<lambda>env. recover_expired_executions env tenant)) (\<lambda>recovered.
     rt_bind (rt_lift (print_json True (PDict [
       (''recovered_executions'', PInt (int (length recovered))),
       (''execution_run_ids'', PList (map PStr recovered)),
       (''expired_approvals'', PInt (int (length expired))),
       (''approval_run_ids'', PList (map PStr expired))]))) (\<lambda>out.
     rt_return (out, 0)))))"

section \<open>Audit bundles\<close>

definition keygen_command :: "string \<Rightarrow> string \<Rightarrow> u8 list \<Rightarrow> u8 list \<Rightarrow> u8 list \<Rightarrow> files \<Rightarrow> exit_result res \<times> files" where
  "keygen_command private_path public_path private_bytes public_bytes public_raw fs =
     (let (outcome, fs') = generate_ed25519_keypair private_path public_path private_bytes public_bytes public_raw fs in
      (res_bind outcome (\<lambda>fingerprint.
       res_bind (print_json True (PDict [(''private_key'', PStr private_path), (''public_key'', PStr public_path),
         (''public_key_fingerprint'', PStr fingerprint)])) (\<lambda>out. Inr (out, 0))), fs'))"

datatype ledger_choice = PostgresLedger string | SqliteLedger string

primrec choice_backend :: "ledger_choice \<Rightarrow> string" where
  "choice_backend (PostgresLedger dsn) = ''postgresql''"
| "choice_backend (SqliteLedger path) = ''sqlite''"

definition open_operational_ledger :: "(string \<Rightarrow> string option) \<Rightarrow> string \<Rightarrow> string option \<Rightarrow> ledger_choice res" where
  "open_operational_ledger getenv postgres_dsn_env ledger =
     (case getenv postgres_dsn_env of
        Some (c # dsn) \<Rightarrow> Inr (PostgresLedger (c # dsn))
      | _ \<Rightarrow> (case ledger of
            Some path \<Rightarrow> Inr (SqliteLedger path)
          | None \<Rightarrow> system_exit ''command requires --ledger or the PostgreSQL DSN environment variable''))"

text \<open>The reads of an export: the listing and four for each trail. \<open>now\<close> is its clock.\<close>

definition export_ledger ::
  "'k ed25519 \<Rightarrow> datetime \<Rightarrow> schedule \<Rightarrow> string \<Rightarrow> string option \<Rightarrow> int \<Rightarrow> 'k res option \<Rightarrow> ('w, pyval) rt" where
  "export_ledger crypto now orc backend tenant limit signing_key =
     rt_bind (read_ledger orc) (\<lambda>l.
     rt_bind (read_ledgers orc (case list_runs l tenant None limit of Inl e \<Rightarrow> 0 | Inr runs \<Rightarrow> 4 * length runs)) (\<lambda>ls.
     rt_lift (export_audit_bundle crypto now l (\<lambda>i j. ls ! (4 * i + j)) backend tenant limit signing_key)))"

definition export_summary :: "string \<Rightarrow> pyval \<Rightarrow> pyval res" where
  "export_summary output document =
     res_bind (res_bind (py_item document ''payload'') (\<lambda>p. py_item p ''run_count'')) (\<lambda>run_count.
     res_bind (py_item document ''proof'') (\<lambda>evidence.
     res_bind (py_item evidence ''digest'') (\<lambda>dig. res_bind (py_item evidence ''signature'') (\<lambda>signature.
     Inr (PDict [(''output'', PStr output), (''run_count'', run_count), (''digest'', dig),
       (''signed'', PBool (signature \<noteq> PNone))])))))"

definition write_and_report :: "string \<Rightarrow> pyval \<Rightarrow> files \<Rightarrow> exit_result res \<times> files" where
  "write_and_report output document fs =
     (case write_audit_bundle output document fs of
        Inl e \<Rightarrow> (Inl e, fs)
      | Inr (_, fs') \<Rightarrow>
          (res_bind (export_summary output document) (\<lambda>summary. res_bind (print_json True summary) (\<lambda>out. Inr (out, 0))), fs'))"

definition audit_export_command ::
  "'k ed25519 \<Rightarrow> datetime \<Rightarrow> schedule \<Rightarrow> (string \<Rightarrow> string option) \<Rightarrow> string \<Rightarrow> string option \<Rightarrow> string option \<Rightarrow> int
    \<Rightarrow> 'k res option \<Rightarrow> string \<Rightarrow> files \<Rightarrow> 'w world \<Rightarrow> exit_result res \<times> files \<times> 'w world" where
  "audit_export_command crypto now orc getenv postgres_dsn_env ledger tenant limit signing_key output fs w =
     (case open_operational_ledger getenv postgres_dsn_env ledger of
        Inl e \<Rightarrow> (Inl e, fs, w)
      | Inr choice \<Rightarrow>
          (case rt_bind (open_ledger orc) (\<lambda>_.
              export_ledger crypto now orc (choice_backend choice) tenant limit signing_key) w of
             (Inl e, w') \<Rightarrow> (Inl e, fs, w')
           | (Inr document, w') \<Rightarrow>
               (let (outcome, fs') = write_and_report output document fs in (outcome, fs', w'))))"

text \<open>\<open>UnicodeDecodeError\<close> and \<open>JSONDecodeError\<close> are subclasses of \<open>ValueError\<close>.\<close>

definition reported_error :: "exc \<Rightarrow> bool" where
  "reported_error e \<longleftrightarrow> is_value_error e \<or> exc_kind e = OtherError ''UnicodeDecodeError''"

definition bundle_report_dict :: "bundle_report \<Rightarrow> pyval" where
  "bundle_report_dict r = PDict [
     (''valid'', PBool True), (''schema'', PStr bundle_schema), (''run_count'', PInt (int (br_run_count r))),
     (''digest'', br_digest r), (''signature_verified'', PBool (br_signature_verified r)),
     (''trust_mode'', PStr (br_trust_mode r)), (''signer_fingerprint'', opt_str (br_signer_fingerprint r))]"

definition audit_verify_command :: "'k ed25519 \<Rightarrow> string \<Rightarrow> u8 list res option \<Rightarrow> files \<Rightarrow> exit_result res" where
  "audit_verify_command crypto bundle trusted_key fs =
     (case res_bind (read_audit_bundle bundle fs) (\<lambda>document. verify_audit_bundle crypto document trusted_key) of
        Inl e \<Rightarrow>
          if reported_error e
          then res_bind (print_json True (PDict [(''valid'', PBool False), (''error'', PStr (exc_text e))])) (\<lambda>out. Inr (out, 2))
          else Inl e
      | Inr report \<Rightarrow> res_bind (print_json True (bundle_report_dict report)) (\<lambda>out. Inr (out, 0)))"

end
