(* ===== verification/Cli_Serve.thy ===== *)
theory Cli_Serve
  imports Cli
begin

text \<open>
  The server of the command line (\<open>_build_identity_verifier\<close> and \<open>_serve\<close> of \<open>cli.py\<close>): which
  verifier the arguments and the environment configure, the evidence the server itself resolves
  for the refund action, and the application it runs. The refunds such a server makes without an
  approval were asked for by a verified identity of the order's tenant.
\<close>

section \<open>The identity verifier\<close>

record auth_args =
  au_identities :: "string option"
  au_oidc_issuer :: "string option"
  au_oidc_audience :: "string option"
  au_oidc_jwks_url :: "string option"
  au_oidc_tenant_claim :: string
  au_oidc_roles_claim :: string
  au_oidc_allow_insecure_http :: bool

datatype identity_verifier = StaticVerifier StaticTokenVerifier | OidcVerifier OIDCJWTVerifier

text \<open>Truthiness of an optional string, and \<open>argument or os.getenv(name)\<close>.\<close>

definition given :: "string option \<Rightarrow> bool" where
  "given v \<longleftrightarrow> (case v of None \<Rightarrow> False | Some s \<Rightarrow> s \<noteq> [])"

definition or_getenv :: "(string \<Rightarrow> string option) \<Rightarrow> string option \<Rightarrow> string \<Rightarrow> string option" where
  "or_getenv getenv argument name = (if given argument then argument else getenv name)"

definition oidc_settings :: "(string \<Rightarrow> string option) \<Rightarrow> auth_args \<Rightarrow> (string \<times> string option) list" where
  "oidc_settings getenv args = [
     (''issuer'', or_getenv getenv (au_oidc_issuer args) ''AGENTTRUSTOPS_OIDC_ISSUER''),
     (''audience'', or_getenv getenv (au_oidc_audience args) ''AGENTTRUSTOPS_OIDC_AUDIENCE''),
     (''jwks_url'', or_getenv getenv (au_oidc_jwks_url args) ''AGENTTRUSTOPS_OIDC_JWKS_URL'')]"

definition path_name :: "string \<Rightarrow> string" where
  "path_name path = rev (takeWhile (\<lambda>c. c \<noteq> CHR ''/'') (rev path))"

text \<open>The mode of the file is checked before it is read.\<close>

definition static_from_file :: "string \<Rightarrow> files \<Rightarrow> StaticTokenVerifier res" where
  "static_from_file path fs =
     (case map_of fs path of
        None \<Rightarrow> raise_exc (OtherError ''FileNotFoundError'') path
      | Some (bytes, mode) \<Rightarrow>
          (case read_text bytes of
             Inr t \<Rightarrow> StaticTokenVerifier_from_json mode (path_name path) t
           | Inl e \<Rightarrow> if mode AND 0x3F \<noteq> 0 then StaticTokenVerifier_from_json mode (path_name path) [] else Inl e))"

definition setting_text :: "(string \<times> string option) list \<Rightarrow> string \<Rightarrow> string" where
  "setting_text settings name = (case map_of settings name of Some (Some s) \<Rightarrow> s | _ \<Rightarrow> ''None'')"

definition build_identity_verifier ::
  "(string \<Rightarrow> bool) \<Rightarrow> bool \<Rightarrow> (string \<Rightarrow> string option) \<Rightarrow> auth_args \<Rightarrow> files \<Rightarrow> identity_verifier res" where
  "build_identity_verifier host_ok jwt_installed getenv args fs =
     (let oidc = oidc_settings getenv args; configured = filter (\<lambda>(name, value). given value) oidc in
      case au_identities args of
        Some path \<Rightarrow>
          if configured \<noteq> [] then system_exit ''choose exactly one auth mode: --identities or OIDC''
          else res_bind (static_from_file path fs) (\<lambda>v. Inr (StaticVerifier v))
      | None \<Rightarrow>
          if configured \<noteq> [] \<and> length configured \<noteq> length oidc
          then system_exit (''incomplete OIDC configuration; missing: ''
            @ join '', '' (map fst (filter (\<lambda>(name, value). \<not> given value) oidc)))
          else if configured \<noteq> []
          then res_bind (OIDCJWTVerifier_init host_ok jwt_installed (setting_text oidc ''issuer'')
              (setting_text oidc ''audience'') (setting_text oidc ''jwks_url'') (au_oidc_tenant_claim args)
              (au_oidc_roles_claim args) [''RS256'', ''ES256''] 30 (au_oidc_allow_insecure_http args))
            (\<lambda>v. Inr (OidcVerifier v))
          else system_exit ''authentication is required: use --identities for a local demo or configure OIDC'')"

definition verify_identity :: "'k pyjwt \<Rightarrow> identity_verifier \<Rightarrow> string \<Rightarrow> VerifiedPrincipal res" where
  "verify_identity jwt v credential =
     (case v of StaticVerifier s \<Rightarrow> StaticTokenVerifier_verify s credential
      | OidcVerifier p \<Rightarrow> OIDCJWTVerifier_verify jwt p credential)"

section \<open>Evidence\<close>

text \<open>\<open>str(arguments.get("order_id", ""))\<close>.\<close>

definition requested_order :: "(string \<times> pyval) list \<Rightarrow> string" where
  "requested_order arguments = py_str (case dict_get ''order_id'' arguments of None \<Rightarrow> PStr [] | Some v \<Rightarrow> v)"

definition order_evidence :: "VerifiedPrincipal \<Rightarrow> string \<Rightarrow> string list \<Rightarrow> string list" where
  "order_evidence identity order_id evidence_refs =
     (case OrderStore_get OrderStore_init order_id of
        None \<Rightarrow> []
      | Some order \<Rightarrow>
          if od_tenant_id order \<noteq> vp_tenant_id identity then []
          else map snd (filter (\<lambda>(reference, claim). reference \<in> set evidence_refs)
            [(''order-record'', ''ORDER:'' @ order_id), (''logistics-record'', ''LOGISTICS:'' @ order_id)]))"

definition resolve_refund_evidence ::
  "VerifiedPrincipal \<Rightarrow> string \<Rightarrow> (string \<times> pyval) list \<Rightarrow> string list \<Rightarrow> ActionContext res" where
  "resolve_refund_evidence identity action_name arguments evidence_refs =
     (if action_name \<noteq> ''execute_refund'' then raise_exc ValueError ''unsupported action''
      else if \<not> set evidence_refs \<subseteq> {''order-record'', ''logistics-record''}
      then raise_exc ValueError ''unknown evidence reference''
      else ActionContext_init (vp_actor_id identity) (vp_tenant_id identity) (vp_roles identity)
             (order_evidence identity (requested_order arguments) evidence_refs)
             (PDict [(''evidence_source'', PStr ''synthetic-refund-demo'')]))"

section \<open>The application\<close>

definition default_policy :: "(string \<times> pyval) list" where
  "default_policy = [
     (''release'', PStr ''refund-control-plane-v0.3''), (''selection_mode'', PStr ''as_of_order''),
     (''approval_enabled'', PBool True), (''require_evidence'', PBool True), (''enforce_roles'', PBool True),
     (''allowed_roles'', PList [PStr ''refund_agent'', PStr ''refund_admin''])]"

text \<open>A policy file holds an object, as the annotation of \<open>load_json\<close> says.\<close>

definition served_policy :: "string option \<Rightarrow> files \<Rightarrow> (string \<times> pyval) list res" where
  "served_policy policy fs =
     (case policy of
        None \<Rightarrow> Inr default_policy
      | Some path \<Rightarrow> res_bind (load_json path fs) (\<lambda>v. case v of
          PDict kvs \<Rightarrow> Inr kvs | _ \<Rightarrow> raise_exc TypeError ''policy must be an object''))"

record serve_args =
  sv_auth :: auth_args
  sv_policy :: "string option"
  sv_ledger :: "string option"
  sv_postgres_dsn_env :: string

text \<open>\<open>create_app\<close> with its default roles, no probes and the resolver above.\<close>

definition refund_app ::
  "'k pyjwt \<Rightarrow> identity_verifier \<Rightarrow> RefundStore ActionRegistry \<Rightarrow> int option \<Rightarrow> (string \<Rightarrow> string) \<Rightarrow> RefundStore app_config" where
  "refund_app jwt verifier registry schema asset =
     \<lparr>ac_registry = registry, ac_verify = verify_identity jwt verifier, ac_resolver = Some resolve_refund_evidence,
      ac_probes = [], ac_invoker_role = ''agenttrustops_invoker'', ac_viewer_role = ''agenttrustops_viewer'',
      ac_executor_role = ''agenttrustops_executor'', ac_observer_role = ''agenttrustops_observer'',
      ac_operator_role = ''agenttrustops_operator'', ac_schema = schema, ac_asset = asset\<rparr>"

definition serve_app ::
  "'k pyjwt \<Rightarrow> (string \<Rightarrow> bool) \<Rightarrow> bool \<Rightarrow> bool \<Rightarrow> (string \<Rightarrow> string) \<Rightarrow> (string \<Rightarrow> string option) \<Rightarrow> serve_args \<Rightarrow> files
    \<Rightarrow> int option \<Rightarrow> (string \<Rightarrow> string) \<Rightarrow> (ledger_choice \<times> RefundStore app_config) res" where
  "serve_app jwt host_ok jwt_installed uvicorn_installed real_text getenv args fs schema asset =
     (if \<not> uvicorn_installed
      then system_exit (''The API extra is required: pip install '' @ quoted ''agenttrustops[api]'')
      else res_bind (build_identity_verifier host_ok jwt_installed getenv (sv_auth args) fs) (\<lambda>verifier.
      res_bind (served_policy (sv_policy args) fs) (\<lambda>policy.
      res_bind (open_operational_ledger getenv (sv_postgres_dsn_env args) (sv_ledger args)) (\<lambda>choice.
      res_bind (build_refund_action real_text policy) (\<lambda>action.
      res_bind (ActionRegistry_init 0 [(0, action)]) (\<lambda>registry.
      Inr (choice, refund_app jwt verifier registry schema asset)))))))"

end
