(* ===== verification/Cli_Props.thy ===== *)
theory Cli_Props
  imports Cli_Serve Api_Props Ledger_Reports
begin

text \<open>
  What holds of the command line: how the server authenticates, which refunds it makes by
  itself, and what the exit codes of the operator's commands say.
\<close>

section \<open>Authentication of the server\<close>

lemma system_exit_neq_Inr [simp]: "system_exit m \<noteq> Inr x"
  by (simp add: system_exit_def)

lemma oidc_init_fields:
  assumes "OIDCJWTVerifier_init host_ok jwt_installed issuer audience jwks_url tenant_claim roles_claim algorithms leeway insecure = Inr p"
  shows "ov_audience p = audience \<and> ov_jwks_url p = jwks_url \<and> ov_issuer p = rstrip_slashes issuer \<and> ov_algorithms p = algorithms
    \<and> (\<not> insecure \<longrightarrow> require_https host_ok [(''issuer'', issuer), (''jwks_url'', jwks_url)] = Inr ())"
  using assms by (auto simp: OIDCJWTVerifier_init_def split: if_splits)

lemma all_configured: "length (filter P xs) = length xs \<longleftrightarrow> (\<forall>x \<in> set xs. P x)"
  by (metis filter_id_conv length_filter_less less_irrefl)

lemma length_oidc_settings [simp]: "length (oidc_settings getenv args) = 3"
  by (simp add: oidc_settings_def)


section \<open>Refunds over HTTP\<close>

lemma authenticate_state: "authenticate cfg a w = (x, w') \<Longrightarrow> w' = w"
  by (auto simp: authenticate_def unauthorized_def h_return_def rt_return_def rt_lift_def split: option.splits if_splits sum.splits)

text \<open>A request that changes something outside through the invocation endpoint runs the named
  action, in the resolved and validated context of a verified identity.\<close>

lemma invoke_endpoint_runs:
  assumes "invoke_endpoint cfg orc name body identity key w = (x, w')" "w' \<noteq> w"
  shows "ac_invoker_role cfg \<in> set (vp_roles identity) \<and> (\<exists>act ctxt k y. get_action (ac_registry cfg) name = Inr act
    \<and> resolve_context cfg identity name (iq_arguments body) (iq_evidence_refs body) = Inr ctxt
    \<and> validate_resolved_context identity ctxt = Inr ()
    \<and> (if ta_is_async act then invoke_request_async orc act ctxt (iq_arguments body) k
        else invoke_request orc act ctxt (iq_arguments body) k) w = (y, w'))"
proof -
  have role: "ac_invoker_role cfg \<in> set (vp_roles identity)"
    using assms by (auto simp: invoke_endpoint_def h_bind_def require_role_def http_exception_def rt_bind_def rt_return_def split: if_splits)
  then have "require_role identity (ac_invoker_role cfg) w = (Inr (Inr ()), w)"
    by (simp add: require_role_def h_return_def rt_return_def)
  with assms(1) have rest: "(case key of
       None \<Rightarrow> http_exception 400 ''Idempotency-Key must contain between 8 and 255 characters''
     | Some key \<Rightarrow>
         if \<not> (8 \<le> length (strip key) \<and> length (strip key) \<le> 255)
         then http_exception 400 ''Idempotency-Key must contain between 8 and 255 characters''
         else (case get_action (ac_registry cfg) name of
             Inl e \<Rightarrow> http_exception 404 (exc_text e)
           | Inr act \<Rightarrow>
               rt_catch (public_result (resolve_and_invoke cfg orc act name body identity key))
                 is_value_error (\<lambda>e. http_exception 400 (exc_text e)))) w = (x, w')"
    by (simp add: invoke_endpoint_def h_bind_def rt_bind_def)
  with assms(2) obtain k act where k: "get_action (ac_registry cfg) name = Inr act"
    and c: "rt_catch (public_result (resolve_and_invoke cfg orc act name body identity k)) is_value_error
        (\<lambda>e. http_exception 400 (exc_text e)) w = (x, w')"
    by (auto simp: http_exception_def rt_return_def split: option.splits if_splits sum.splits)
  obtain y where y: "resolve_and_invoke cfg orc act name body identity k w = (y, w')"
    using c by (auto simp: rt_catch_def public_result_def rt_bind_def h_return_def rt_return_def http_exception_def
        split: prod.splits sum.splits if_splits)
  from y assms(2) obtain ctxt where "resolve_context cfg identity name (iq_arguments body) (iq_evidence_refs body) = Inr ctxt"
    "validate_resolved_context identity ctxt = Inr ()"
    "(if ta_is_async act then invoke_request_async orc act ctxt (iq_arguments body) k
        else invoke_request orc act ctxt (iq_arguments body) k) w = (y, w')"
    by (auto simp: resolve_and_invoke_def rt_bind_def rt_lift_def split: sum.splits)
  with role k show ?thesis by blast
qed

text \<open>What the server is built of.\<close>

lemma serve_app_InrD:
  assumes "serve_app jwt host_ok jwt_installed uvicorn_installed real_text getenv args fs schema asset = Inr (choice, cfg)"
  shows "\<exists>verifier policy act. build_identity_verifier host_ok jwt_installed getenv (sv_auth args) fs = Inr verifier
    \<and> served_policy (sv_policy args) fs = Inr policy \<and> build_refund_action real_text policy = Inr act
    \<and> ac_verify cfg = verify_identity jwt verifier \<and> ac_resolver cfg = Some resolve_refund_evidence
    \<and> rg_actions (ac_registry cfg) = [(ta_name act, act)] \<and> ac_invoker_role cfg = ''agenttrustops_invoker''"
  using assms by (auto simp: serve_app_def refund_app_def ActionRegistry_init_def register_def split: if_splits)

lemma resolved_refund_context:
  assumes "resolve_refund_evidence identity name args refs = Inr ctxt"
  shows "name = ''execute_refund'' \<and> set refs \<subseteq> {''order-record'', ''logistics-record''}
    \<and> ActionContext_init (vp_actor_id identity) (vp_tenant_id identity) (vp_roles identity)
        (order_evidence identity (requested_order args) refs) (PDict [(''evidence_source'', PStr ''synthetic-refund-demo'')]) = Inr ctxt"
  using assms by (auto simp: resolve_refund_evidence_def split: if_splits)


section \<open>A server\<close>

definition demo_auth :: auth_args where
  "demo_auth = \<lparr>au_identities = None, au_oidc_issuer = Some ''https://id.example/'', au_oidc_audience = Some ''api'',
     au_oidc_jwks_url = None, au_oidc_tenant_claim = ''tenant_id'', au_oidc_roles_claim = ''roles'',
     au_oidc_allow_insecure_http = False\<rparr>"

definition demo_getenv :: "string \<Rightarrow> string option" where
  "demo_getenv name = (if name = ''AGENTTRUSTOPS_OIDC_JWKS_URL'' then Some ''https://id.example/keys'' else None)"

definition served_verifier :: OIDCJWTVerifier where
  "served_verifier = demo_verifier\<lparr>ov_algorithms := [''RS256'', ''ES256'']\<rparr>"

lemma demo_build_verifier: "build_identity_verifier (\<lambda>_. False) True demo_getenv demo_auth [] = Inr (OidcVerifier served_verifier)"
  by code_simp


definition demo_serve_args :: serve_args where
  "demo_serve_args = \<lparr>sv_auth = demo_auth, sv_policy = Some ''policy.json'', sv_ledger = Some ''ledger.db'',
     sv_postgres_dsn_env = ''AGENTTRUSTOPS_POSTGRES_DSN''\<rparr>"

definition demo_policy_files :: files where
  "demo_policy_files = [(''policy.json'', (utf8_encode (json_render True False '','' '':'' (PDict Refund_Props.demo_config)), 420))]"

lemma demo_served_policy: "served_policy (Some ''policy.json'') demo_policy_files = Inr Refund_Props.demo_config"
  by code_simp

lemma demo_build_verifier_files: "build_identity_verifier host_ok jwt_installed getenv demo_auth fs = build_identity_verifier host_ok jwt_installed getenv demo_auth []"
  by (simp add: build_identity_verifier_def demo_auth_def Let_def)

definition served_claims :: "(string \<times> pyval) list" where
  "served_claims = [(''sub'', PStr ''agent''), (''tenant_id'', PStr ''default''),
     (''roles'', PList [PStr ''refund_agent'', PStr ''agenttrustops_invoker''])]"

definition served_identity :: VerifiedPrincipal where
  "served_identity = \<lparr>vp_actor_id = ''agent'', vp_tenant_id = ''default'', vp_roles = [''agenttrustops_invoker'', ''refund_agent''],
     vp_auth_source = ''oidc:https://id.example''\<rparr>"

lemma served_token: "OIDCJWTVerifier_verify (demo_jwt served_claims) served_verifier ''token'' = Inr served_identity"
  by code_simp

definition served_refs :: "string list" where "served_refs = [''order-record'', ''logistics-record'']"

definition served_context :: ActionContext where
  "served_context = \<lparr>cx_actor_id = ''agent'', cx_tenant_id = ''default'', cx_roles = [''agenttrustops_invoker'', ''refund_agent''],
     cx_evidence = [''LOGISTICS:O-LOW'', ''ORDER:O-LOW''],
     cx_metadata = PDict [(''evidence_source'', PStr ''synthetic-refund-demo'')]\<rparr>"

lemma served_resolved:
  "resolve_refund_evidence served_identity ''execute_refund'' (refund_arguments (PInt 200)) served_refs = Inr served_context"
  by code_simp

definition served_body :: pyval where
  "served_body = PDict [(''arguments'', PDict (refund_arguments (PInt 200))),
     (''evidence_refs'', PList [PStr ''order-record'', PStr ''logistics-record''])]"

definition served_request :: http_request where
  "served_request = \<lparr>hq_route = Invoke ''execute_refund'' served_body (Some ''request-1''), hq_path = ''/v1/actions/execute_refund/invoke'',
     hq_authorization = Some ''Bearer token'', hq_request_id = ''r''\<rparr>"

lemma served_parses: "InvokeRequest_parse served_body = Some \<lparr>iq_arguments = refund_arguments (PInt 200), iq_evidence_refs = served_refs\<rparr>"
  by code_simp

lemma served_checks:
  assumes "rp_config p = Refund_Props.demo_config" "rp_orders p = OrderStore_init"
  shows "refund_checks p (refund_arguments (PInt 200)) served_context low_order (policy_versions ! 1) (Fin 200)"
proof -
  have "py_float (PInt 200) = Inr (Fin 200)" by code_simp
  with assms show ?thesis
    by (simp add: refund_checks_def refund_arguments_def served_context_def low_order_def order_argument_def OrderStore_get_def
        OrderStore_init_def dict_get_def select_policy_def config_get_def policy_versions_def date_le_def py_set_def py_truthy_def
        has_allowed_role_def has_evidence_def refund_amount_def Refund_Props.demo_config_def)
qed

lemma served_refund_runs:
  assumes "RefundPolicy_init OrderStore_init Refund_Props.demo_config = Inr p" "rp_config p = Refund_Props.demo_config"
    "ta_policy act = (\<lambda>name arguments context. policy_outcome (RefundPolicy_evaluate p name arguments context))"
    "ta_function act = execute_refund id" "ta_name act = ''execute_refund''" "ta_lease_seconds act = 60"
    "ta_approval_ttl_seconds act = 3600" "ta_context_parameter act = None" "\<not> ta_is_async act"
  obtains res w' where "invoke_request demo_schedule act served_context (refund_arguments (PInt 200)) ''request-1'' refund_demo_world = (Inr res, w')"
    "refunded (w_ext w') = [''O-LOW'']"
proof -
  have key: "strip ''request-1'' = ''request-1''" by code_simp
  have gkey: "governed_key act (PDict (refund_arguments (PInt 200))) served_context (Some ''request-1'') = Inr ''request-1''"
    by (simp add: governed_key_def key)
  have json: "json_error True (or_empty (cx_metadata served_context)) = None" by (simp add: served_context_def or_empty_def)
  show thesis
    using that demo_refund_executes [where m = "invoke_request demo_schedule act served_context (refund_arguments (PInt 200)) ''request-1''",
        OF assms(1-8) served_checks [OF assms(2) conjunct1 [OF policy_init_InrD [OF assms(1)]]] json gkey invoke_request_prepared [OF assms(9)]]
    by blast
qed

lemma demo_refund_served:
  obtains cfg response w' where
    "serve_app (demo_jwt served_claims) (\<lambda>_. False) True True id demo_getenv demo_serve_args demo_policy_files (Some 2) (\<lambda>_. [])
       = Inr (SqliteLedger ''ledger.db'', cfg)"
    "serve cfg demo_schedule [] served_request refund_demo_world = (response, w')" "refunded (w_ext w') = [''O-LOW'']"
proof (rule demo_refund_action)
  fix act p
  assume act: "build_refund_action id Refund_Props.demo_config = Inr act" "RefundPolicy_init OrderStore_init Refund_Props.demo_config = Inr p" "rp_config p = Refund_Props.demo_config"
    "ta_policy act = (\<lambda>name arguments context. policy_outcome (RefundPolicy_evaluate p name arguments context))"
    "ta_function act = execute_refund id" "ta_idempotency_key act = refund_key" "ta_name act = ''execute_refund''"
    "ta_risk act = ''financial''" "ta_lease_seconds act = 60" "ta_approval_ttl_seconds act = 3600"
    "ta_context_parameter act = None" "\<not> ta_is_async act"
  define cfg where "cfg = refund_app (demo_jwt served_claims) (OidcVerifier served_verifier)
     \<lparr>rg_ledger = 0, rg_actions = [(''execute_refund'', act)]\<rparr> (Some 2) (\<lambda>_. [])"
  have env: "demo_getenv ''AGENTTRUSTOPS_POSTGRES_DSN'' = None" by (simp add: demo_getenv_def)
  have app: "serve_app (demo_jwt served_claims) (\<lambda>_. False) True True id demo_getenv demo_serve_args demo_policy_files (Some 2) (\<lambda>_. [])
       = Inr (SqliteLedger ''ledger.db'', cfg)"
    by (simp add: serve_app_def demo_serve_args_def demo_build_verifier_files [of _ _ _ demo_policy_files] demo_build_verifier
        demo_served_policy open_operational_ledger_def env act(1,7) ActionRegistry_init_def register_def cfg_def)
  have key: "strip ''request-1'' = ''request-1''" "length ''request-1'' = 9" by code_simp+
  obtain res w' where run: "invoke_request demo_schedule act served_context (refund_arguments (PInt 200)) ''request-1'' refund_demo_world = (Inr res, w')"
    "refunded (w_ext w') = [''O-LOW'']"
    using served_refund_runs [OF act(2-5,7,9-12)] by blast
  have token: "strip (drop (length ''Bearer '') ''Bearer token'') = ''token''" by code_simp
  have auth: "authenticate cfg (Some ''Bearer token'') w = (Inr (Inr served_identity), w)" for w
    using token served_token by (simp add: authenticate_def cfg_def refund_app_def verify_identity_def h_return_def rt_return_def)
  have valid: "validate_resolved_context served_identity served_context = Inr ()" by code_simp
  have role: "''agenttrustops_invoker'' \<in> set (vp_roles served_identity)" by (simp add: served_identity_def)
  have "resolve_and_invoke cfg demo_schedule act ''execute_refund'' \<lparr>iq_arguments = refund_arguments (PInt 200), iq_evidence_refs = served_refs\<rparr>
      served_identity ''request-1'' refund_demo_world = (Inr res, w')"
    using run(1) act(12) valid served_resolved
    by (simp add: resolve_and_invoke_def resolve_context_def cfg_def refund_app_def rt_bind_def rt_lift_def)
  moreover have "get_action (ac_registry cfg) ''execute_refund'' = Inr act" by (simp add: get_action_def cfg_def refund_app_def)
  ultimately have "\<exists>x. endpoint cfg demo_schedule (Invoke ''execute_refund'' served_body (Some ''request-1'')) served_identity refund_demo_world = (x, w')"
    using role
    by (simp add: endpoint_def with_body_def served_parses invoke_endpoint_def h_bind_def rt_bind_def require_role_def cfg_def refund_app_def
        h_return_def rt_return_def key rt_catch_def public_result_def)
  then have "\<exists>response. serve cfg demo_schedule [] served_request refund_demo_world = (response, w')"
    by (auto simp: serve_def served_request_def handle_route_def h_bind_def rt_bind_def auth Let_def split: option.split)
  with app run(2) that show thesis by blast
qed


section \<open>The doctor\<close>

lemma alone_read: "alone orc \<Longrightarrow> read_ledger orc w = (Inr (w_ledger w), w\<lparr>w_calls := Suc (w_calls w)\<rparr>)"
  by (simp add: read_ledger_def ledger_call_def alone_def Let_def)

lemma alone_read_now: "alone orc \<Longrightarrow> read_now orc w = (Inr (now_at (o_env orc (w_calls w)) 0, w_ledger w), w\<lparr>w_calls := Suc (w_calls w)\<rparr>)"
  by (simp add: read_now_def ledger_call_def alone_def Let_def)

lemma alone_reads: "alone orc \<Longrightarrow> read_ledgers orc n w = (Inr (replicate n (w_ledger w)), w\<lparr>w_calls := w_calls w + n\<rparr>)"
  by (induction n arbitrary: w) (simp_all add: rt_return_def rt_bind_def alone_read)

lemma alone_open:
  assumes "alone orc" "reachable (w_ledger w)" "\<forall>r \<in> set (l_runs (w_ledger w)). r_fingerprint r \<noteq> []"
  shows "open_ledger orc w = (Inr (), w\<lparr>w_calls := Suc (w_calls w)\<rparr>)"
  using assms by (simp add: open_ledger_def ledger_call_def alone_def Let_def reachable_backfill)

lemma invalid_chains_reads:
  "(\<And>j. i \<le> j \<Longrightarrow> j < i + length rids \<Longrightarrow> seen j = seen' j) \<Longrightarrow> invalid_chains seen i rids = invalid_chains seen' i rids"
proof (induction rids arbitrary: i)
  case (Cons rid rids)
  have "invalid_chains seen (Suc i) rids = invalid_chains seen' (Suc i) rids" using Cons.prems by (intro Cons.IH) auto
  moreover have "seen i = seen' i" using Cons.prems [of i] by simp
  ultimately show ?case by simp
qed simp

lemma alone_snapshot:
  assumes "alone orc" "reachable (w_ledger w)" "1 \<le> limit" "limit \<le> 100000"
  shows "\<exists>s report. take_snapshot orc schema tenant True limit w = (Inr s, w\<lparr>w_calls := w_calls w + (2 * scanned_runs (w_ledger w) tenant limit + 5)\<rparr>)
    \<and> os_integrity s = Some report \<and> cr_invalid report = 0
    \<and> cr_checked report = min (nat limit) (length (filter (of_tenant tenant) (l_runs (w_ledger w))))"
proof -
  let ?l = "w_ledger w"
  let ?n = "scanned_runs ?l tenant limit"
  let ?scans = "\<lambda>j. (replicate (2 * ?n) ?l ! (2 * j), replicate (2 * ?n) ?l ! Suc (2 * j))"
  have "verify_all_event_chains ?l ?scans tenant limit = verify_all_event_chains ?l (\<lambda>_. (?l, ?l)) tenant limit"
    unfolding verify_all_event_chains_def Let_def
    by (intro if_cong arg_cong2 [where f = res_bind] invalid_chains_reads refl)
      (use assms(3,4) in \<open>simp add: scanned_runs_def\<close>)
  note report = this [unfolded chain_report_is_clean [OF assms(2-4)]]
  show ?thesis
    by (simp add: take_snapshot_def rt_bind_def alone_read [OF assms(1)] alone_reads [OF assms(1)] alone_read_now [OF assms(1)] rt_lift_def
        collect_operational_snapshot_def report)
qed

lemma doctor_runD:
  fixes w :: "'w world"
  assumes "doctor_command orc schema tenant limit w = (Inr (out, code), w')"
  obtains w1 :: "'w world" and s w2 where "take_snapshot orc schema tenant True limit w1 = (Inr s, w2)" "print_json False (doctor_report s) = Inr out"
    "code = (if integrity_healthy s then 0 else 2)"
  using assms unfolding doctor_command_def by (elim rt_bind_InrD) (auto simp: rt_lift_def rt_return_def intro: that)

lemma snapshot_scanned:
  assumes "take_snapshot orc schema tenant True limit w = (Inr s, w')"
  obtains report where "os_integrity s = Some report"
  using assms unfolding take_snapshot_def
  by (elim rt_bind_InrD) (auto simp: rt_lift_def collect_operational_snapshot_def split: prod.splits sum.splits elim!: rt_bind_InrD intro: that)

text \<open>What a report of the doctor consists of prints as JSON.\<close>

lemma counts_json: "json_error srt (javascript_floats (counts_dict counts)) = None"
  by (auto simp: counts_dict_def)

lemma doctor_report_prints: "\<exists>out. print_json False (doctor_report s) = Inr out"
proof -
  have "json_error False (javascript_floats (doctor_report s)) = None"
    using counts_json [of False]
    by (cases "os_schema_version s"; cases "os_tenant_id s"; cases "os_integrity s")
      (auto simp: doctor_report_def snapshot_to_dict_def opt_str_def report_dict_def)
  then show ?thesis by (simp add: print_json_def json_dumps_indent_def)
qed



end
