(* ===== verification/Adapters.thy ===== *)
theory Adapters
  imports Api_Props
begin

text \<open>
  The adapters for agent frameworks (\<open>integrations/mcp.py\<close>, \<open>langgraph.py\<close> and
  \<open>openai_agents.py\<close>): handlers that take a model's arguments, resolve identity and the
  idempotency key from the host, and make one governed request. A resolver is the host's
  function; it may raise, and \<open>None\<close> stands for an answer that is no \<open>ActionContext\<close>.
  \<open>asyncio.to_thread\<close> runs the call of a synchronous action and returns its result.
\<close>

section \<open>The governed request\<close>

definition governed_request ::
  "schedule \<Rightarrow> 'w TrustedAction \<Rightarrow> ActionContext \<Rightarrow> (string \<times> pyval) list \<Rightarrow> string \<Rightarrow> ('w, ActionResult) rt" where
  "governed_request orc act context arguments key =
     (if ta_is_async act then invoke_request_async orc act context arguments key
      else invoke_request orc act context arguments key)"

text \<open>What the MCP and the OpenAI handler share: the answer of the context resolver is checked,
  then the key is resolved and checked, then the request is made.\<close>

definition resolve_and_request ::
  "schedule \<Rightarrow> 'w TrustedAction \<Rightarrow> ActionContext option res \<Rightarrow> string res \<Rightarrow> (string \<times> pyval) list \<Rightarrow> ('w, ActionResult) rt" where
  "resolve_and_request orc act context idempotency_key arguments =
     rt_bind (rt_lift context) (\<lambda>resolved. case resolved of
       None \<Rightarrow> rt_raise TypeError ''context resolver must return ActionContext''
     | Some resolved_context \<Rightarrow>
         rt_bind (rt_lift idempotency_key) (\<lambda>key.
         if strip key = [] then rt_raise ValueError ''trusted idempotency resolver returned an empty key''
         else governed_request orc act resolved_context arguments (strip key)))"

section \<open>MCP\<close>

text \<open>The handler \<open>as_mcp_tool_handler\<close> returns.\<close>

definition mcp_handler ::
  "schedule \<Rightarrow> 'w TrustedAction \<Rightarrow> ActionContext option res \<Rightarrow> ((string \<times> pyval) list \<Rightarrow> string res) \<Rightarrow> pyval \<Rightarrow> ('w, pyval) rt" where
  "mcp_handler orc act context idempotency_key arguments =
     (case arguments of
        PDict copied_arguments \<Rightarrow>
          rt_bind (resolve_and_request orc act context (idempotency_key copied_arguments) copied_arguments)
            (\<lambda>result. rt_return (ActionResult_to_public_dict result))
      | _ \<Rightarrow> rt_raise TypeError ''MCP action arguments must be a mapping'')"

text \<open>What a server is told when a handler is registered (\<open>add_tool\<close>). \<open>doc\<close> is the docstring of
  the protected function.\<close>

record tool_registration =
  tr_name :: string
  tr_description :: string
  tr_structured_output :: bool

definition text_or :: "string option \<Rightarrow> string \<Rightarrow> string" where
  "text_or given other = (case given of None \<Rightarrow> other | Some s \<Rightarrow> if s = [] then other else s)"

definition handler_doc :: "string option \<Rightarrow> string" where
  "handler_doc doc = text_or doc ''Governed MCP action''"

definition register_fastmcp_action ::
  "bool \<Rightarrow> 'w TrustedAction \<Rightarrow> string option \<Rightarrow> string option \<Rightarrow> string option \<Rightarrow> tool_registration res" where
  "register_fastmcp_action can_add_tool act doc name description =
     (if \<not> can_add_tool then raise_exc TypeError ''server must provide a callable add_tool method''
      else Inr \<lparr>tr_name = text_or name (ta_name act), tr_description = text_or description (handler_doc doc),
                tr_structured_output = True\<rparr>)"

section \<open>OpenAI Agents\<close>

record function_tool =
  ft_name :: string
  ft_description :: string
  ft_params_json_schema :: "(string \<times> pyval) list"

definition as_openai_agents_tool ::
  "bool \<Rightarrow> 'w TrustedAction \<Rightarrow> string option \<Rightarrow> (string \<times> pyval) list \<Rightarrow> string option \<Rightarrow> string option \<Rightarrow> function_tool res" where
  "as_openai_agents_tool agents_installed act doc schema name description =
     (if \<not> agents_installed
      then raise_exc (OtherError ''ModuleNotFoundError'')
        (''OpenAI Agents integration requires: pip install '' @ quoted ''agenttrustops[openai]'')
      else if dict_get ''type'' schema \<noteq> Some (PStr ''object'')
      then raise_exc ValueError ''params_json_schema must describe a JSON object''
      else if strip (text_or name (ta_name act)) = [] then raise_exc ValueError ''tool name cannot be empty''
      else Inr \<lparr>ft_name = text_or name (ta_name act),
                ft_description = text_or description (strip (text_or doc ''Governed action'')),
                ft_params_json_schema = schema\<rparr>)"

text \<open>The tool's callback: JSON text in, JSON text out.\<close>

definition openai_invoke ::
  "schedule \<Rightarrow> 'w TrustedAction \<Rightarrow> ((string \<times> pyval) list \<Rightarrow> ActionContext option res) \<Rightarrow> ((string \<times> pyval) list \<Rightarrow> string res)
    \<Rightarrow> string \<Rightarrow> ('w, string) rt" where
  "openai_invoke orc act context idempotency_key raw_arguments =
     rt_bind (rt_lift (json_loads raw_arguments)) (\<lambda>parsed. case parsed of
       PDict arguments \<Rightarrow>
         rt_bind (resolve_and_request orc act (context arguments) (idempotency_key arguments) arguments) (\<lambda>result.
         rt_lift (json_dumps False True '','' '':'' (javascript_floats (ActionResult_to_public_dict result))))
     | _ \<Rightarrow> rt_raise TypeError ''tool arguments must decode to a JSON object'')"

section \<open>LangGraph\<close>

type_synonym graph_state = "(string \<times> pyval) list"

definition default_arguments :: "graph_state \<Rightarrow> (string \<times> pyval) list res" where
  "default_arguments state =
     (case dict_get ''arguments'' state of
        Some (PDict kvs) \<Rightarrow> Inr kvs
      | _ \<Rightarrow> raise_exc TypeError (''state['' @ quoted ''arguments'' @ ''] must be a mapping''))"

text \<open>The node: the factories are called in the order of the keyword arguments.\<close>

definition langgraph_node ::
  "schedule \<Rightarrow> 'w TrustedAction \<Rightarrow> (graph_state \<Rightarrow> ActionContext res) \<Rightarrow> (graph_state \<Rightarrow> string res)
    \<Rightarrow> (graph_state \<Rightarrow> (string \<times> pyval) list res) \<Rightarrow> string \<Rightarrow> graph_state \<Rightarrow> ('w, graph_state) rt" where
  "langgraph_node orc act context idempotency_key arguments result_key state =
     rt_bind (rt_lift (context state)) (\<lambda>ctxt.
     rt_bind (rt_lift (arguments state)) (\<lambda>args.
     rt_bind (rt_lift (idempotency_key state)) (\<lambda>key.
     rt_bind (governed_request orc act ctxt args key) (\<lambda>result.
     rt_return [(result_key, ActionResult_to_public_dict result)]))))"

definition as_langgraph_node ::
  "schedule \<Rightarrow> 'w TrustedAction \<Rightarrow> (graph_state \<Rightarrow> ActionContext res) \<Rightarrow> (graph_state \<Rightarrow> string res)
    \<Rightarrow> (graph_state \<Rightarrow> (string \<times> pyval) list res) option \<Rightarrow> string \<Rightarrow> (graph_state \<Rightarrow> ('w, graph_state) rt) res" where
  "as_langgraph_node orc act context idempotency_key arguments result_key =
     (if strip result_key = [] then raise_exc ValueError ''result_key cannot be empty''
      else Inr (langgraph_node orc act context idempotency_key
             (case arguments of None \<Rightarrow> default_arguments | Some factory \<Rightarrow> factory) result_key))"

section \<open>Agents act for the tenant their host resolves\<close>

text \<open>A call of an adapter, with anything a model may write, by a host whose resolvers name one
  tenant.\<close>

inductive adapter_step :: "string \<Rightarrow> 'w world \<Rightarrow> 'w world \<Rightarrow> bool" for tenant where
  mcp: "others_follow_protocol orc \<Longrightarrow> (\<And>c. context = Inr (Some c) \<Longrightarrow> cx_tenant_id c = tenant)
    \<Longrightarrow> mcp_handler orc act context key_of arguments w = (x, w') \<Longrightarrow> adapter_step tenant w w'"
| openai: "others_follow_protocol orc \<Longrightarrow> (\<And>args c. contexts args = Inr (Some c) \<Longrightarrow> cx_tenant_id c = tenant)
    \<Longrightarrow> openai_invoke orc act contexts key_of raw w = (y, w') \<Longrightarrow> adapter_step tenant w w'"
| langgraph: "others_follow_protocol orc \<Longrightarrow> (\<And>s c. state_context s = Inr c \<Longrightarrow> cx_tenant_id c = tenant)
    \<Longrightarrow> as_langgraph_node orc act state_context state_key factory result_key = Inr node
    \<Longrightarrow> node state w = (z, w') \<Longrightarrow> adapter_step tenant w w'"

lemma tenant_governed_request:
  assumes "others_follow_protocol orc" "cx_tenant_id ctxt = tenant"
  shows "keeps (tenant_change orc tenant) (governed_request orc act ctxt args key)"
  using tenant_invoke_request [OF assms(1), of ctxt act args key] assms(2) by (simp add: governed_request_def)

lemma ok_governed_request:
  "others_follow_protocol orc \<Longrightarrow> keeps ok_change (governed_request orc act ctxt args key)"
  unfolding governed_request_def by (intro ok.keeps_if ok_methods)

text \<open>What every request keeps, the handlers keep.\<close>

context world_preorder
begin

lemma keeps_lifted: "(\<And>x. m = Inr x \<Longrightarrow> keeps R (f x)) \<Longrightarrow> keeps R (rt_bind (rt_lift m) f)"
  by (cases m) (simp_all add: rt_bind_def rt_lift_def keeps_def refl)

lemma keeps_resolve:
  assumes "\<And>c args key. context = Inr (Some c) \<Longrightarrow> keeps R (governed_request orc act c args key)"
  shows "keeps R (resolve_and_request orc act context key arguments)"
  unfolding resolve_and_request_def
  by (rule keeps_lifted) (auto split: option.split intro!: keeps_raise keeps_lifted keeps_if assms)

lemma keeps_mcp:
  assumes "\<And>c args key. context = Inr (Some c) \<Longrightarrow> keeps R (governed_request orc act c args key)"
  shows "keeps R (mcp_handler orc act context key_of arguments)"
  unfolding mcp_handler_def
  by (auto split: pyval.split intro!: keeps_raise keeps_bind keeps_return keeps_resolve assms)

lemma keeps_openai:
  assumes "\<And>c args key a. contexts a = Inr (Some c) \<Longrightarrow> keeps R (governed_request orc act c args key)"
  shows "keeps R (openai_invoke orc act contexts key_of raw)"
  unfolding openai_invoke_def
  by (rule keeps_lifted) (auto split: pyval.split intro!: keeps_raise keeps_bind keeps_lift keeps_resolve assms)

lemma keeps_langgraph:
  assumes "\<And>c args key s. context s = Inr c \<Longrightarrow> keeps R (governed_request orc act c args key)"
    and "as_langgraph_node orc act context key_of factory result_key = Inr node"
  shows "keeps R (node state)"
  using assms(2) unfolding as_langgraph_node_def langgraph_node_def
  by (auto split: if_splits intro!: keeps_lifted keeps_bind keeps_return assms(1))

end

lemma adapter_step_ok:
  assumes "adapter_step tenant w w'" "world_ok w"
  shows "world_ok w' \<and> world_extends w w' \<and> (\<exists>orc. tenant_change orc tenant w w')"
proof -
  have "ok_change w w' \<and> (\<exists>orc. tenant_change orc tenant w w')"
    using assms(1)
  proof cases
    case (mcp orc ctxt act key_of arguments x)
    have "ok_change w w'"
      by (rule keepsD [OF ok.keeps_mcp mcp(3)]) (rule ok_governed_request [OF mcp(1)])
    moreover have "tenant_change orc tenant w w'"
      by (rule keepsD [OF tenant.keeps_mcp mcp(3)]) (rule tenant_governed_request [OF mcp(1) mcp(2)])
    ultimately show ?thesis by blast
  next
    case (openai orc contexts act key_of raw y)
    have "ok_change w w'"
      by (rule keepsD [OF ok.keeps_openai openai(3)]) (rule ok_governed_request [OF openai(1)])
    moreover have "tenant_change orc tenant w w'"
      by (rule keepsD [OF tenant.keeps_openai openai(3)]) (rule tenant_governed_request [OF openai(1) openai(2)])
    ultimately show ?thesis by blast
  next
    case (langgraph orc state_context act state_key factory result_key node state z)
    have "ok_change w w'"
      by (rule keepsD [OF ok.keeps_langgraph [OF _ langgraph(3)] langgraph(4)]) (rule ok_governed_request [OF langgraph(1)])
    moreover have "tenant_change orc tenant w w'"
      by (rule keepsD [OF tenant.keeps_langgraph [OF _ langgraph(3)] langgraph(4)])
        (rule tenant_governed_request [OF langgraph(1) langgraph(2)])
    ultimately show ?thesis by blast
  qed
  with assms(2) show ?thesis by (simp add: ok_change_def)
qed

definition log_owned :: "string \<Rightarrow> 'w world \<Rightarrow> bool" where
  "log_owned tenant w \<longleftrightarrow> world_ok w \<and> (\<forall>c \<in> set (w_log w). owned tenant (tc_run c) (w_ledger w))"

lemma adapter_step_owned: "adapter_step tenant w w' \<Longrightarrow> log_owned tenant w \<Longrightarrow> log_owned tenant w'"
  using adapter_step_ok [of tenant w w']
  by (fastforce simp: log_owned_def tenant_change_def world_ok_def)

interpretation agents: transition_system fresh_world "adapter_step tenant" "log_owned tenant" world_extends for tenant
proof
  show "fresh_world w \<Longrightarrow> log_owned tenant w" for w :: "'a world"
    using worlds.init_inv by (auto simp: log_owned_def fresh_world_def)
  show "log_owned tenant w \<Longrightarrow> adapter_step tenant w w' \<Longrightarrow> log_owned tenant w'" for w w' :: "'a world"
    by (rule adapter_step_owned)
  show "log_owned tenant w \<Longrightarrow> adapter_step tenant w w' \<Longrightarrow> world_extends w w'" for w w' :: "'a world"
    using adapter_step_ok by (auto simp: log_owned_def)
  show "world_extends w w" for w :: "'a world" by (simp add: world_extends_def)
  show "world_extends u v \<Longrightarrow> world_extends v w \<Longrightarrow> world_extends u w" for u v w :: "'a world"
    by (auto simp: world_extends_def intro: rtranclp_trans prefix_order.trans)
qed

end
