(* ===== verification/Adapter_Props.thy ===== *)
theory Adapter_Props
  imports Adapters Cli_Props
begin

text \<open>The guarantee of the adapters, applied to the refund action behind the MCP handler.\<close>

text \<open>C34: an agent behind an adapter acts only for the tenant its host resolves: after any calls
  of MCP, OpenAI or LangGraph tools, with whatever arguments the model writes and with other
  clients at the same ledger, every tool call was made for a run of that tenant, and no run and
  no tenant, action and key was called twice.\<close>

theorem adapters_call_for_the_resolved_tenant:
  assumes "reach fresh_world (adapter_step tenant) w"
  shows "(\<forall>c \<in> set (w_log w). owned tenant (tc_run c) (w_ledger w))
    \<and> distinct (map tc_run (w_log w)) \<and> distinct (map (call_key (w_ledger w)) (w_log w))"
  using agents.reach_inv [OF assms] world_ok_calls_once [of w] by (simp add: log_owned_def)

theorem adapters_call_for_the_resolved_tenant_witness:
  "\<exists>w. reach fresh_world (adapter_step ''default'') w \<and> refunded (w_ext w) = [''O-LOW'']
     \<and> distinct (map (call_key (w_ledger w)) (w_log w))"
proof (rule demo_refund_action)
  fix act p
  assume act: "build_refund_action id Refund_Props.demo_config = Inr act" "RefundPolicy_init OrderStore_init Refund_Props.demo_config = Inr p" "rp_config p = Refund_Props.demo_config"
    "ta_policy act = (\<lambda>name arguments context. policy_outcome (RefundPolicy_evaluate p name arguments context))"
    "ta_function act = execute_refund id" "ta_idempotency_key act = refund_key" "ta_name act = ''execute_refund''"
    "ta_risk act = ''financial''" "ta_lease_seconds act = 60" "ta_approval_ttl_seconds act = 3600"
    "ta_context_parameter act = None" "\<not> ta_is_async act"
  obtain res w' where run: "invoke_request demo_schedule act served_context (refund_arguments (PInt 200)) ''request-1'' refund_demo_world = (Inr res, w')"
    "refunded (w_ext w') = [''O-LOW'']"
    using served_refund_runs [OF act(2-5,7,9-12)] by blast
  have key: "strip ''request-1'' = ''request-1''" by code_simp
  have "mcp_handler demo_schedule act (Inr (Some served_context)) (\<lambda>_. Inr ''request-1'') (PDict (refund_arguments (PInt 200))) refund_demo_world
      = (Inr (ActionResult_to_public_dict res), w')"
    by (simp add: mcp_handler_def resolve_and_request_def governed_request_def rt_bind_def rt_lift_def rt_return_def key act(12) run(1))
  moreover have "cx_tenant_id c = ''default''" if "Inr (Some served_context) = Inr (Some c)" for c
    using that by (simp add: served_context_def) (metis ActionContext.select_convs(2))
  ultimately have "adapter_step ''default'' refund_demo_world w'"
    using adapter_step.mcp [OF alone_protocol [OF demo_alone]] by blast
  then have "reach fresh_world (adapter_step ''default'') w'" by (rule reach.step [OF reach.start [of fresh_world, OF refund_demo_fresh]])
  with adapters_call_for_the_resolved_tenant [OF this] run(2) show ?thesis by blast
qed

end
