(* ===== verification/Stripe.thy ===== *)
theory Stripe
  imports PyValue Runtime
begin

text \<open>
  The Stripe sandbox adapter and its reconciliation probe
  (\<open>integrations/stripe_sandbox.py\<close>), and the governed payment that
  \<open>examples/stripe_sandbox/run_evaluation.py\<close> builds from them. Stripe's client is an argument:
  what \<open>create\<close> replies to parameters and an idempotency key, and what it does to Stripe's state.
\<close>

section \<open>The client\<close>

text \<open>A reply is a mapping or an object with attributes; \<open>_field\<close> reads both.\<close>

datatype intent = MappingIntent "(string \<times> pyval) list" | ObjectIntent "(string \<times> pyval) list"

definition intent_field :: "intent \<Rightarrow> string \<Rightarrow> pyval" where
  "intent_field intent name =
     (case (case intent of MappingIntent kvs \<Rightarrow> dict_get name kvs | ObjectIntent kvs \<Rightarrow> dict_get name kvs) of
        None \<Rightarrow> PNone | Some v \<Rightarrow> v)"

type_synonym 'w create_intent = "pyval \<Rightarrow> string \<Rightarrow> 'w \<Rightarrow> intent res \<times> 'w"

record 'w StripeSandboxPaymentAdapter =
  sa_create :: "'w create_intent"
  sa_ambiguous :: "exc_class \<Rightarrow> bool"
  sa_payment_method :: string
  sa_return_url :: string

text \<open>\<open>_stripe_payment_intents\<close>, where \<open>None\<close> is a missing package; otherwise the client of a key
  and the errors after which Stripe may or may not have acted.\<close>

definition stripe_payment_intents ::
  "((string \<Rightarrow> 'w create_intent) \<times> (exc_class \<Rightarrow> bool)) option \<Rightarrow> string \<Rightarrow> ('w create_intent \<times> (exc_class \<Rightarrow> bool)) res" where
  "stripe_payment_intents stripe secret_key =
     (case stripe of
        None \<Rightarrow> raise_exc RuntimeError (''Stripe Sandbox support requires: pip install '' @ quoted ''agenttrustops[stripe]'')
      | Some (client, ambiguous) \<Rightarrow> Inr (client secret_key, ambiguous))"

definition StripeSandboxPaymentAdapter_init ::
  "((string \<Rightarrow> 'w create_intent) \<times> (exc_class \<Rightarrow> bool)) option \<Rightarrow> string \<Rightarrow> string \<Rightarrow> string
    \<Rightarrow> 'w create_intent option \<Rightarrow> (exc_class \<Rightarrow> bool) option \<Rightarrow> 'w StripeSandboxPaymentAdapter res" where
  "StripeSandboxPaymentAdapter_init stripe secret_key payment_method return_url payment_intents ambiguous_types =
     (let key = strip secret_key in
      if \<not> (startswith key ''sk_test_'' \<or> startswith key ''rk_test_'')
      then raise_exc ValueError ''Stripe Sandbox integration requires a test-mode key''
      else if \<not> startswith (strip payment_method) ''pm_''
      then raise_exc ValueError ''Stripe Sandbox payment_method must be a PaymentMethod ID''
      else if \<not> startswith (strip return_url) ''https://''
      then raise_exc ValueError ''Stripe Sandbox return_url must use HTTPS''
      else res_bind
        (case payment_intents of
           Some create \<Rightarrow> Inr (create, ambiguous_types)
         | None \<Rightarrow> res_bind (stripe_payment_intents stripe key) (\<lambda>(create, discovered).
             Inr (create, Some (case ambiguous_types of None \<Rightarrow> discovered | Some types \<Rightarrow> types))))
        (\<lambda>(create, ambiguous).
         Inr \<lparr>sa_create = create, sa_ambiguous = (case ambiguous of None \<Rightarrow> \<lambda>_. False | Some types \<Rightarrow> types),
              sa_payment_method = strip payment_method, sa_return_url = strip return_url\<rparr>))"

section \<open>The request\<close>

text \<open>\<open>str.lower\<close> and \<open>str.isalpha\<close> on the characters up to U+00FF.\<close>

definition lower_char :: "char \<Rightarrow> char" where
  "lower_char c = (let n = code_point c in
     if 65 \<le> n \<and> n \<le> 90 \<or> 192 \<le> n \<and> n \<le> 222 \<and> n \<noteq> 215 then char_of (n + 32) else c)"

definition alpha_char :: "char \<Rightarrow> bool" where
  "alpha_char c \<longleftrightarrow> (let n = code_point c in
     65 \<le> n \<and> n \<le> 90 \<or> 97 \<le> n \<and> n \<le> 122 \<or> n = 170 \<or> n = 181 \<or> n = 186 \<or> 192 \<le> n \<and> n \<noteq> 215 \<and> n \<noteq> 247)"

text \<open>The parameters of a payment, with what the code fills in as constants.\<close>

record payment_params =
  sp_amount :: int
  sp_currency :: string
  sp_payment_method :: string
  sp_return_url :: string
  sp_run_id :: string
  sp_invoice_id :: string

definition params_dict :: "payment_params \<Rightarrow> pyval" where
  "params_dict p = PDict [
     (''amount'', PInt (sp_amount p)),
     (''currency'', PStr (sp_currency p)),
     (''payment_method'', PStr (sp_payment_method p)),
     (''payment_method_types'', PList [PStr ''card'']),
     (''confirm'', PBool True),
     (''capture_method'', PStr ''automatic''),
     (''return_url'', PStr (sp_return_url p)),
     (''metadata'', PDict [
        (''agenttrustops_run_id'', PStr (sp_run_id p)),
        (''synthetic_invoice_id'', PStr (sp_invoice_id p))])]"

definition payment_request ::
  "'w StripeSandboxPaymentAdapter \<Rightarrow> string \<Rightarrow> pyval \<Rightarrow> pyval \<Rightarrow> pyval \<Rightarrow> payment_params res" where
  "payment_request a run_id invoice_id amount currency =
     res_bind (py_text invoice_id) (\<lambda>invoice_text. res_bind (py_text currency) (\<lambda>currency_text.
     let invoice = strip invoice_text; normalized = map lower_char (strip currency_text) in
     if invoice = [] \<or> 100 < length invoice
     then raise_exc ValueError ''synthetic invoice_id must contain 1 to 100 characters''
     else case amount of
       PInt n \<Rightarrow>
         if n < 50 then raise_exc ValueError ''Stripe Sandbox amount must be an integer of at least 50''
         else if length normalized \<noteq> 3 \<or> \<not> list_all alpha_char normalized
         then raise_exc ValueError ''currency must be a three-letter code''
         else Inr \<lparr>sp_amount = n, sp_currency = normalized, sp_payment_method = sa_payment_method a,
                   sp_return_url = sa_return_url a, sp_run_id = run_id, sp_invoice_id = invoice\<rparr>
     | _ \<Rightarrow> raise_exc ValueError ''Stripe Sandbox amount must be an integer of at least 50''))"

definition stripe_idempotency_key :: "string \<Rightarrow> string res" where
  "stripe_idempotency_key value =
     (let key = strip value in
      if \<not> (1 \<le> length key \<and> length key \<le> 255)
      then raise_exc ValueError ''Stripe idempotency key must contain 1 to 255 characters''
      else Inr key)"

section \<open>The reply\<close>

record payment_intent =
  pi_id :: pyval
  pi_status :: pyval
  pi_amount :: pyval
  pi_currency :: pyval

text \<open>\<open>metadata.get(key) != value\<close> for a value that is a text.\<close>

definition has_entry :: "(string \<times> pyval) list \<Rightarrow> string \<Rightarrow> string \<Rightarrow> bool" where
  "has_entry kvs key value \<longleftrightarrow> dict_get key kvs = Some (PStr value)"

definition validated_intent :: "intent \<Rightarrow> payment_params \<Rightarrow> payment_intent res" where
  "validated_intent intent p =
     (if intent_field intent ''livemode'' \<noteq> PBool False
      then raise_exc RuntimeError ''Stripe response was not from Sandbox mode''
      else if \<not> py_eq_int (intent_field intent ''amount'') (sp_amount p)
      then raise_exc RuntimeError ''Stripe response amount does not match the governed request''
      else if intent_field intent ''currency'' \<noteq> PStr (sp_currency p)
      then raise_exc RuntimeError ''Stripe response currency does not match the governed request''
      else if \<not> (case intent_field intent ''metadata'' of
            PDict metadata \<Rightarrow> has_entry metadata ''agenttrustops_run_id'' (sp_run_id p)
              \<and> has_entry metadata ''synthetic_invoice_id'' (sp_invoice_id p)
          | _ \<Rightarrow> False)
      then raise_exc RuntimeError ''Stripe response metadata does not match the governed run''
      else if \<not> startswith (py_str (intent_field intent ''id'')) ''pi_''
      then raise_exc RuntimeError ''Stripe response has no valid PaymentIntent ID''
      else Inr \<lparr>pi_id = intent_field intent ''id'', pi_status = intent_field intent ''status'',
                pi_amount = intent_field intent ''amount'', pi_currency = intent_field intent ''currency''\<rparr>)"

definition safe_result :: "payment_intent \<Rightarrow> pyval res" where
  "safe_result i =
     res_bind (py_int (pi_amount i)) (\<lambda>amount.
     Inr (PDict [
       (''payment_intent_id'', PStr (py_str (pi_id i))),
       (''status'', PStr (py_str (pi_status i))),
       (''amount'', PInt amount),
       (''currency'', PStr (py_str (pi_currency i))),
       (''livemode'', PBool False)]))"

text \<open>What a status says about the payment.\<close>

definition status_outcome :: "string \<Rightarrow> ProviderOutcome option" where
  "status_outcome status =
     (if status = ''succeeded'' then Some COMMITTED
      else if status \<in> {''canceled'', ''requires_payment_method''} then Some NOT_COMMITTED
      else if status \<in> {''processing'', ''requires_action'', ''requires_capture'', ''requires_confirmation''} then Some PENDING
      else None)"

section \<open>Charging and inspecting\<close>

text \<open>\<open>except Exception\<close>: of the exceptions of the model only a cancellation is none.\<close>

definition is_exception :: "exc \<Rightarrow> bool" where
  "is_exception e \<longleftrightarrow> exc_kind e \<noteq> CancelledError"

definition PaymentFailed :: exc_class where
  "PaymentFailed = OtherError ''StripeSandboxPaymentFailed''"

text \<open>The POST both operations send: the key is checked first.\<close>

definition create_payment ::
  "'w StripeSandboxPaymentAdapter \<Rightarrow> payment_params \<Rightarrow> string \<Rightarrow> 'w \<Rightarrow> intent res \<times> 'w" where
  "create_payment a p idempotency_key w =
     (case stripe_idempotency_key idempotency_key of
        Inl e \<Rightarrow> (Inl e, w)
      | Inr key \<Rightarrow> sa_create a (params_dict p) key w)"

definition charge_error :: "'w StripeSandboxPaymentAdapter \<Rightarrow> exc \<Rightarrow> pyval res" where
  "charge_error a e =
     (if sa_ambiguous a (exc_kind e) then raise_exc IndeterminateOutcome ''Stripe Sandbox response was uncertain''
      else if is_exception e
      then raise_exc PaymentFailed (''Stripe Sandbox rejected the request: '' @ exc_name (exc_kind e))
      else Inl e)"

definition charge_reply :: "payment_params \<Rightarrow> intent \<Rightarrow> pyval res" where
  "charge_reply p intent =
     (case validated_intent intent p of
        Inl e \<Rightarrow> raise_exc IndeterminateOutcome ''Stripe Sandbox response could not be verified''
      | Inr i \<Rightarrow>
          (case status_outcome (py_str (pi_status i)) of
             Some COMMITTED \<Rightarrow> safe_result i
           | Some PENDING \<Rightarrow> raise_exc IndeterminateOutcome ''Stripe Sandbox payment remains pending''
           | Some NOT_COMMITTED \<Rightarrow>
               raise_exc PaymentFailed (''Stripe Sandbox payment did not commit: '' @ py_str (pi_status i))
           | None \<Rightarrow> raise_exc IndeterminateOutcome ''Stripe Sandbox returned an unknown payment status''))"

definition charge ::
  "'w StripeSandboxPaymentAdapter \<Rightarrow> pyval \<Rightarrow> pyval \<Rightarrow> pyval \<Rightarrow> ActionExecutionContext \<Rightarrow> 'w \<Rightarrow> pyval res \<times> 'w" where
  "charge a invoice_id amount currency execution w =
     (case payment_request a (xc_run_id execution) invoice_id amount currency of
        Inl e \<Rightarrow> (Inl e, w)
      | Inr p \<Rightarrow>
          (case create_payment a p (xc_idempotency_key execution) w of
             (Inl e, w') \<Rightarrow> (charge_error a e, w')
           | (Inr intent, w') \<Rightarrow> (charge_reply p intent, w')))"

text \<open>23 hours, in microseconds: Stripe keeps idempotency keys for at least 24.\<close>

definition max_safe_replay_age :: nat where
  "max_safe_replay_age = 23 * 3600 * 1000000"

text \<open>The parameters of the replay, from the stored request.\<close>

definition lookup_params :: "'w StripeSandboxPaymentAdapter \<Rightarrow> datetime \<Rightarrow> ProviderLookup \<Rightarrow> payment_params res" where
  "lookup_params a now request =
     (case pl_created_at request of
        None \<Rightarrow> raise_exc ProviderLookupError ''Stripe lookup requires a run creation time''
      | Some created_at \<Rightarrow>
          if now < created_at \<or> max_safe_replay_age \<le> now - created_at
          then raise_exc ProviderLookupError ''Stripe idempotency replay window is no longer safe''
          else res_bind (py_item (pl_arguments request) ''invoice_id'') (\<lambda>invoice_id.
            res_bind (res_bind (py_item (pl_arguments request) ''amount'') py_int) (\<lambda>amount.
            res_bind (py_item (pl_arguments request) ''currency'') (\<lambda>currency.
            payment_request a (pl_run_id request) (PStr (py_str invoice_id)) (PInt amount) (PStr (py_str currency))))))"

definition lookup_error :: "exc \<Rightarrow> 'a res" where
  "lookup_error e =
     (if exc_kind e = ProviderLookupError \<or> \<not> is_exception e then Inl e
      else raise_exc ProviderLookupError ''Stripe Sandbox could not return an authoritative result'')"

definition observe_intent :: "payment_intent \<Rightarrow> ProviderObservation res" where
  "observe_intent i =
     (case status_outcome (py_str (pi_status i)) of
        None \<Rightarrow> raise_exc ProviderLookupError ''Stripe Sandbox returned an unknown status''
      | Some outcome \<Rightarrow> res_bind (safe_result i) (\<lambda>result.
          ProviderObservation_init outcome (''Stripe Sandbox PaymentIntent status is '' @ py_str (pi_status i))
            (Some (py_str (pi_id i))) result))"

definition inspect ::
  "'w StripeSandboxPaymentAdapter \<Rightarrow> datetime \<Rightarrow> ProviderLookup \<Rightarrow> 'w \<Rightarrow> ProviderObservation res \<times> 'w" where
  "inspect a now request w =
     (case lookup_params a now request of
        Inl e \<Rightarrow> (lookup_error e, w)
      | Inr p \<Rightarrow>
          (case create_payment a p (pl_idempotency_key request) w of
             (Inl e, w') \<Rightarrow> (lookup_error e, w')
           | (Inr intent, w') \<Rightarrow>
               (case validated_intent intent p of Inl e \<Rightarrow> lookup_error e | Inr i \<Rightarrow> observe_intent i, w')))"

text \<open>The probe, with the clock of its lookup.\<close>

definition StripeSandboxPaymentProbe :: "'w StripeSandboxPaymentAdapter \<Rightarrow> datetime \<Rightarrow> 'w ProviderProbe" where
  "StripeSandboxPaymentProbe a now = \<lparr>pp_name = ''stripe-sandbox'', pp_lookup = inspect a now\<rparr>"

section \<open>The governed payment of the evaluation\<close>

text \<open>A keyword argument as a value; the execution context is an object of its class.\<close>

definition plain_value :: "arg_value \<Rightarrow> pyval" where
  "plain_value v = (case v of PlainArg x \<Rightarrow> x | ContextArg _ \<Rightarrow> PObject ''ActionExecutionContext'')"

definition charge_payment :: "'w StripeSandboxPaymentAdapter \<Rightarrow> bool \<Rightarrow> kwargs \<Rightarrow> 'w \<Rightarrow> tool_result \<times> 'w" where
  "charge_payment a inject_response_loss kw w =
     (case (dict_get ''invoice_id'' kw, dict_get ''amount'' kw, dict_get ''currency'' kw, dict_get ''execution'' kw) of
        (Some invoice_id, Some amount, Some currency, Some (ContextArg execution)) \<Rightarrow>
          if length kw \<noteq> 4 then (Failed ''TypeError'', w)
          else
            let (result, w') = charge a (plain_value invoice_id) (plain_value amount) (plain_value currency) execution w in
            (tool_outcome (if inject_response_loss
               then res_bind result (\<lambda>_. raise_exc IndeterminateOutcome ''evaluation fault after provider response'')
               else result), w')
      | (Some _, Some _, Some _, Some (PlainArg _)) \<Rightarrow>
          (Failed (if length kw \<noteq> 4 then ''TypeError'' else ''AttributeError''), w)
      | _ \<Rightarrow> (Failed ''TypeError'', w))"

definition AllowSandboxPayment :: "string \<Rightarrow> pyval \<Rightarrow> ActionContext \<Rightarrow> policy_result" where
  "AllowSandboxPayment name arguments context =
     (case PolicyDecision_init ALLOW ''synthetic Stripe Sandbox payment allowed'' ''stripe-sandbox-evaluation-v1''
         (PDict []) None of
        Inr d \<Rightarrow> Decided d | Inl e \<Rightarrow> PolicyRaised (exc_name (exc_kind e)))"

definition payment_key :: "string \<Rightarrow> pyval \<Rightarrow> ActionContext \<Rightarrow> string res" where
  "payment_key evaluation_id arguments context =
     res_bind (py_item arguments ''invoice_id'') (\<lambda>invoice_id.
     Inr (''stripe-sandbox:'' @ cx_tenant_id context @ '':'' @ evaluation_id @ '':'' @ py_str invoice_id))"

definition build_payment_action ::
  "'w StripeSandboxPaymentAdapter \<Rightarrow> string \<Rightarrow> string \<Rightarrow> bool \<Rightarrow> 'w TrustedAction res" where
  "build_payment_action a name evaluation_id inject_response_loss =
     TrustedAction_init
       \<lparr>pf_name = ''charge'', pf_body = charge_payment a inject_response_loss,
        pf_parameters = [(''invoice_id'', POSITIONAL_OR_KEYWORD), (''amount'', POSITIONAL_OR_KEYWORD),
          (''currency'', POSITIONAL_OR_KEYWORD), (''execution'', KEYWORD_ONLY)], pf_is_async = False\<rparr>
       AllowSandboxPayment (payment_key evaluation_id) ''sandbox-payment'' (Some name) 60 3600
       [''agenttrustops_approver''] [''agenttrustops_reconciler''] False (Some ''execution'')"

end
