(* ===== verification/Stripe_Props.thy ===== *)
theory Stripe_Props
  imports Stripe Runtime_Effects Runtime_Reconcile
begin

text \<open>
  What the Stripe adapter guarantees: a payment is reported as made only when Stripe confirmed
  exactly the governed request, as failed only when nothing was paid, and everything else stays
  uncertain; a lookup replays the request of its run; and, under Stripe's idempotency contract,
  a run is paid at most once.
\<close>

section \<open>A single charge\<close>

text \<open>The reply belongs to the sandbox and to exactly the request that was sent.\<close>

definition confirms :: "intent \<Rightarrow> payment_params \<Rightarrow> bool" where
  "confirms intent p \<longleftrightarrow> intent_field intent ''livemode'' = PBool False
     \<and> py_eq_int (intent_field intent ''amount'') (sp_amount p)
     \<and> intent_field intent ''currency'' = PStr (sp_currency p)
     \<and> (\<exists>metadata. intent_field intent ''metadata'' = PDict metadata
        \<and> dict_get ''agenttrustops_run_id'' metadata = Some (PStr (sp_run_id p))
        \<and> dict_get ''synthetic_invoice_id'' metadata = Some (PStr (sp_invoice_id p)))
     \<and> startswith (py_str (intent_field intent ''id'')) ''pi_''"

lemma validated_intent_Inr:
  "validated_intent intent p = Inr i \<longleftrightarrow> confirms intent p \<and> i = \<lparr>pi_id = intent_field intent ''id'',
     pi_status = intent_field intent ''status'', pi_amount = intent_field intent ''amount'', pi_currency = PStr (sp_currency p)\<rparr>"
  by (auto simp: validated_intent_def confirms_def has_entry_def split: pyval.splits if_splits)

lemma py_eq_int_int: "py_eq_int v n \<Longrightarrow> py_int v = Inr n"
  by (auto simp: py_eq_int_def py_int_def split: pyval.splits)

definition status_text :: "intent \<Rightarrow> string" where
  "status_text intent = py_str (intent_field intent ''status'')"

lemma charge_reply_eq:
  "charge_reply p intent =
     (if confirms intent p then (case status_outcome (status_text intent) of
          Some COMMITTED \<Rightarrow> Inr (PDict [
            (''payment_intent_id'', PStr (py_str (intent_field intent ''id''))), (''status'', PStr (status_text intent)),
            (''amount'', PInt (sp_amount p)), (''currency'', PStr (sp_currency p)), (''livemode'', PBool False)])
        | Some NOT_COMMITTED \<Rightarrow> raise_exc PaymentFailed (''Stripe Sandbox payment did not commit: '' @ status_text intent)
        | Some PENDING \<Rightarrow> raise_exc IndeterminateOutcome ''Stripe Sandbox payment remains pending''
        | None \<Rightarrow> raise_exc IndeterminateOutcome ''Stripe Sandbox returned an unknown payment status'')
      else raise_exc IndeterminateOutcome ''Stripe Sandbox response could not be verified'')"
proof (cases "validated_intent intent p")
  case (Inl e)
  then have "\<not> confirms intent p" using validated_intent_Inr [of intent p] by auto
  with Inl show ?thesis by (simp add: charge_reply_def)
next
  case (Inr i)
  then have i: "confirms intent p" "i = \<lparr>pi_id = intent_field intent ''id'', pi_status = intent_field intent ''status'',
      pi_amount = intent_field intent ''amount'', pi_currency = PStr (sp_currency p)\<rparr>" by (simp_all add: validated_intent_Inr)
  then have "py_int (intent_field intent ''amount'') = Inr (sp_amount p)" by (simp add: confirms_def py_eq_int_int)
  with i show ?thesis
    by (auto simp: charge_reply_def Inr status_text_def safe_result_def split: option.split ProviderOutcome.split)
qed

lemma PaymentFailed_neq [simp]: "PaymentFailed \<noteq> IndeterminateOutcome" "PaymentFailed \<noteq> CancelledError"
  "IndeterminateOutcome \<noteq> PaymentFailed"
  by (simp_all add: PaymentFailed_def)

text \<open>What reached Stripe: parameters and key of a valid request.\<close>

definition sends ::
  "'w StripeSandboxPaymentAdapter \<Rightarrow> pyval \<Rightarrow> pyval \<Rightarrow> pyval \<Rightarrow> ActionExecutionContext \<Rightarrow> payment_params \<Rightarrow> string \<Rightarrow> bool" where
  "sends a invoice_id amount currency execution p key \<longleftrightarrow>
     payment_request a (xc_run_id execution) invoice_id amount currency = Inr p
     \<and> stripe_idempotency_key (xc_idempotency_key execution) = Inr key"

lemma charge_cases:
  "(\<exists>e. charge a invoice_id amount currency execution w = (Inl e, w)
      \<and> (\<forall>p key. \<not> sends a invoice_id amount currency execution p key))
   \<or> (\<exists>p key. sends a invoice_id amount currency execution p key
      \<and> charge a invoice_id amount currency execution w =
         (case sa_create a (params_dict p) key w of
            (Inl e, w') \<Rightarrow> (charge_error a e, w') | (Inr intent, w') \<Rightarrow> (charge_reply p intent, w')))"
proof (cases "payment_request a (xc_run_id execution) invoice_id amount currency")
  case (Inl e)
  then show ?thesis by (simp add: charge_def sends_def)
next
  case p: (Inr p)
  show ?thesis
  proof (cases "stripe_idempotency_key (xc_idempotency_key execution)")
    case (Inl e)
    then have "exc_kind e = ValueError" by (auto simp: stripe_idempotency_key_def raise_exc_def Let_def split: if_splits)
    then have "\<exists>e'. charge_error a e = Inl e'" by (auto simp: charge_error_def raise_exc_def)
    with p Inl show ?thesis by (auto simp: charge_def create_payment_def sends_def)
  next
    case (Inr key)
    with p have "sends a invoice_id amount currency execution p key" by (simp add: sends_def)
    with p Inr show ?thesis by (auto simp: charge_def create_payment_def)
  qed
qed

text \<open>The verdict a charge owes its caller: paid, not paid, or uncertain.\<close>

definition payment_confirmed :: "payment_params \<Rightarrow> intent res \<Rightarrow> pyval \<Rightarrow> bool" where
  "payment_confirmed p reply v \<longleftrightarrow> (\<exists>intent. reply = Inr intent \<and> confirms intent p
     \<and> status_text intent = ''succeeded''
     \<and> v = PDict [(''payment_intent_id'', PStr (py_str (intent_field intent ''id''))), (''status'', PStr ''succeeded''),
          (''amount'', PInt (sp_amount p)), (''currency'', PStr (sp_currency p)), (''livemode'', PBool False)])"

definition payment_denied :: "'w StripeSandboxPaymentAdapter \<Rightarrow> payment_params \<Rightarrow> intent res \<Rightarrow> bool" where
  "payment_denied a p reply \<longleftrightarrow>
     (\<exists>e. reply = Inl e \<and> \<not> sa_ambiguous a (exc_kind e) \<and> is_exception e)
     \<or> (\<exists>intent. reply = Inr intent \<and> confirms intent p
         \<and> status_text intent \<in> {''canceled'', ''requires_payment_method''})"

lemma status_outcomes:
  "status_outcome s = Some COMMITTED \<longleftrightarrow> s = ''succeeded''"
  "status_outcome s = Some NOT_COMMITTED \<longleftrightarrow> s \<in> {''canceled'', ''requires_payment_method''}"
  by (auto simp: status_outcome_def)

lemma charge_reply_Inr: "charge_reply p intent = Inr v \<longleftrightarrow> payment_confirmed p (Inr intent) v"
  using status_outcomes(1) [of "status_text intent"]
  by (auto simp: charge_reply_eq payment_confirmed_def split: option.splits ProviderOutcome.splits)

lemma charge_reply_Inl:
  assumes "charge_reply p intent = Inl e" "exc_kind e \<noteq> IndeterminateOutcome"
  shows "payment_denied a p (Inr intent)"
  using assms status_outcomes(2) [of "status_text intent"]
  by (auto simp: charge_reply_eq payment_denied_def raise_exc_def split: option.splits ProviderOutcome.splits if_splits)

text \<open>C14: A charge reports what Stripe verifiably did: it returns a result only when Stripe answered
  the request of this run with a succeeded sandbox intent of the same amount, currency, run and
  invoice, and the result shows that intent; and it fails definitely only when nothing was sent,
  when Stripe refused the request with an error that is not ambiguous, or when the verified intent
  was canceled or needs another payment method. Everything else is uncertain (\<open>IndeterminateOutcome\<close>, or the cancellation of the call).\<close>

theorem charges_report_what_stripe_did:
  assumes "charge a invoice_id amount currency execution w = (outcome, w')"
  shows "(\<forall>v. outcome = Inr v \<longrightarrow> (\<exists>p key reply. sends a invoice_id amount currency execution p key
        \<and> sa_create a (params_dict p) key w = (reply, w') \<and> payment_confirmed p reply v))
    \<and> (\<forall>e. outcome = Inl e \<longrightarrow> exc_kind e \<in> {IndeterminateOutcome, CancelledError} \<or> w' = w \<and> (\<forall>p key. \<not> sends a invoice_id amount currency execution p key)
        \<or> (\<exists>p key reply. sends a invoice_id amount currency execution p key
            \<and> sa_create a (params_dict p) key w = (reply, w') \<and> payment_denied a p reply))"
  using charge_cases [of a invoice_id amount currency execution w]
proof (elim disjE exE conjE)
  fix e assume "charge a invoice_id amount currency execution w = (Inl e, w)"
    "\<forall>p key. \<not> sends a invoice_id amount currency execution p key"
  with assms show ?thesis by auto
next
  fix p key
  assume sent: "sends a invoice_id amount currency execution p key"
    and eq: "charge a invoice_id amount currency execution w =
         (case sa_create a (params_dict p) key w of
            (Inl e, w') \<Rightarrow> (charge_error a e, w') | (Inr intent, w') \<Rightarrow> (charge_reply p intent, w'))"
  obtain reply v where r: "sa_create a (params_dict p) key w = (reply, v)" by fastforce
  show ?thesis
  proof (cases reply)
    case (Inl e)
    with eq r assms have "w' = v" "outcome = charge_error a e" by auto
    moreover have "\<exists>e'. charge_error a e = Inl e' \<and> (exc_kind e' \<in> {IndeterminateOutcome, CancelledError}
        \<or> \<not> sa_ambiguous a (exc_kind e) \<and> is_exception e)"
      by (auto simp: charge_error_def raise_exc_def is_exception_def)
    ultimately show ?thesis using r sent Inl by (auto simp: payment_denied_def)
  next
    case (Inr intent)
    with eq r assms have "w' = v" "outcome = charge_reply p intent" by auto
    with r sent Inr charge_reply_Inr charge_reply_Inl show ?thesis by (metis insertI1)
  qed
qed

section \<open>The request of a run\<close>

text \<open>What a run asks Stripe for: the parameters of its stored arguments, under its key.\<close>

definition run_payment :: "'w StripeSandboxPaymentAdapter \<Rightarrow> run_row \<Rightarrow> (payment_params \<times> string) option" where
  "run_payment a r =
     (case (res_bind (py_item (r_arguments r) ''invoice_id'') (\<lambda>invoice_id.
            res_bind (res_bind (py_item (r_arguments r) ''amount'') py_int) (\<lambda>amount.
            res_bind (py_item (r_arguments r) ''currency'') (\<lambda>currency.
            payment_request a (r_run_id r) (PStr (py_str invoice_id)) (PInt amount) (PStr (py_str currency))))),
          stripe_idempotency_key (r_idempotency_key r)) of
        (Inr p, Inr key) \<Rightarrow> Some (p, key)
      | _ \<Rightarrow> None)"

lemma run_payment_request:
  assumes "request_of r' = request_of r" "r_run_id r' = r_run_id r"
  shows "run_payment a r' = run_payment a r"
  using assms by (simp add: run_payment_def request_of_def run_key_def)

lemma run_payment_id: "run_payment a r = Some (p, key) \<Longrightarrow> sp_run_id p = r_run_id r"
  by (auto simp: run_payment_def payment_request_def py_text_def Let_def split: sum.splits pyval.splits if_splits)

text \<open>The texts and the amount a request was made from.\<close>

lemma payment_request_InrD:
  assumes "payment_request a rid invoice_id amount currency = Inr p"
  shows "\<exists>i n c. invoice_id = PStr i \<and> amount = PInt n \<and> currency = PStr c"
  using assms by (auto simp: payment_request_def py_text_def Let_def split: pyval.splits if_splits)

lemma plain_value_JSON: "plain_value v = PStr s \<longleftrightarrow> v = PlainArg (PStr s)" "plain_value v = PInt n \<longleftrightarrow> v = PlainArg (PInt n)"
  by (cases v; simp add: plain_value_def)+

lemma charge_payment_effect:
  "snd (charge_payment a loss kw e) = e
   \<or> (\<exists>invoice_id amount currency execution. dict_get ''invoice_id'' kw = Some invoice_id \<and> dict_get ''amount'' kw = Some amount
       \<and> dict_get ''currency'' kw = Some currency \<and> dict_get ''execution'' kw = Some (ContextArg execution)
       \<and> snd (charge_payment a loss kw e) = snd (charge a (plain_value invoice_id) (plain_value amount) (plain_value currency) execution e))"
  by (auto simp: charge_payment_def split: option.split arg_value.split prod.split)

lemma charge_effect:
  "snd (charge a invoice_id amount currency execution e) = e
   \<or> (\<exists>p key. sends a invoice_id amount currency execution p key
       \<and> snd (charge a invoice_id amount currency execution e) = snd (sa_create a (params_dict p) key e))"
  using charge_cases [of a invoice_id amount currency execution e]
proof (elim disjE exE conjE)
  fix p key
  assume sent: "sends a invoice_id amount currency execution p key" and eq: "charge a invoice_id amount currency execution e =
    (case sa_create a (params_dict p) key e of (Inl x, e') \<Rightarrow> (charge_error a x, e') | (Inr intent, e') \<Rightarrow> (charge_reply p intent, e'))"
  have "snd (charge a invoice_id amount currency execution e) = snd (sa_create a (params_dict p) key e)"
    unfolding eq by (simp split: prod.split sum.split)
  with sent show ?thesis by blast
qed simp

text \<open>Ids without surrounding white space and columns that are JSON, as the code writes them.\<close>

definition plain_run :: "run_row \<Rightarrow> bool" where
  "plain_run r \<longleftrightarrow> strip (r_run_id r) = r_run_id r \<and> json_wf (r_arguments r)"

definition pays_for :: "'w StripeSandboxPaymentAdapter \<Rightarrow> run_row \<Rightarrow> 'w \<Rightarrow> 'w \<Rightarrow> bool" where
  "pays_for a r e e' \<longleftrightarrow> e' = e \<or> (\<exists>p key. run_payment a r = Some (p, key) \<and> e' = snd (sa_create a (params_dict p) key e))"

lemma call_pays_for_run:
  assumes "ta_function act = charge_payment a loss" "carries r (tc_arguments c)" "plain_run r"
  shows "pays_for a r e (tool_effect act c e)"
proof (cases "tool_effect act c e = e")
  case False
  let ?kw = "tc_arguments c"
  from False obtain invoice_id amount currency execution p key where kw: "dict_get ''invoice_id'' ?kw = Some invoice_id"
    "dict_get ''amount'' ?kw = Some amount" "dict_get ''currency'' ?kw = Some currency"
    "dict_get ''execution'' ?kw = Some (ContextArg execution)"
    and sent: "sends a (plain_value invoice_id) (plain_value amount) (plain_value currency) execution p key"
    and e': "tool_effect act c e = snd (sa_create a (params_dict p) key e)"
    using charge_payment_effect [of a loss ?kw e] charge_effect unfolding tool_effect_def assms(1) by metis
  have ctxt: "execution = context_of r" by (rule carried_context [OF assms(2) kw(4)])
  from sent obtain i n cur where args: "invoice_id = PlainArg (PStr i)" "amount = PlainArg (PInt n)" "currency = PlainArg (PStr cur)"
    unfolding sends_def by (auto dest!: payment_request_InrD simp: plain_value_JSON)
  from carried_argument [OF assms(2) kw(1) [unfolded args(1)]] carried_argument [OF assms(2) kw(2) [unfolded args(2)]]
    carried_argument [OF assms(2) kw(3) [unfolded args(3)]]
  have "py_item (r_arguments r) ''invoice_id'' = Inr (PStr i)" "py_item (r_arguments r) ''amount'' = Inr (PInt n)"
    "py_item (r_arguments r) ''currency'' = Inr (PStr cur)" by (auto simp: py_item_def)
  with sent ctxt args assms(3) have "run_payment a r = Some (p, key)"
    by (auto simp: run_payment_def sends_def context_of_def plain_run_def plain_value_def py_int_def stripe_idempotency_key_def)
  with e' show ?thesis by (auto simp: pays_for_def)
qed (simp add: pays_for_def)

text \<open>A lookup sends the request of its run, too: amounts and texts that were not sent as such by
  the payment are converted.\<close>

lemma lookup_pays_for_run:
  assumes "ProviderLookup_init (r_run_id r) action_name tenant (r_idempotency_key r) (r_arguments r) created = Inr request"
    "plain_run r" "columns_ok r"
  shows "pays_for a r e (snd (inspect a now request e))"
proof (cases "lookup_params a now request")
  case (Inl x)
  then show ?thesis by (simp add: inspect_def pays_for_def)
next
  case (Inr p)
  from assms have req: "pl_run_id request = r_run_id r" "pl_idempotency_key request = r_idempotency_key r"
    "pl_arguments request = r_arguments r"
    by (auto simp: ProviderLookup_init_def provider_json_copy_def json_copy_eq plain_run_def columns_ok_def split: if_splits)
  show ?thesis
  proof (cases "stripe_idempotency_key (r_idempotency_key r)")
    case (Inl x)
    with Inr req show ?thesis by (simp add: inspect_def create_payment_def pays_for_def)
  next
    case key: (Inr key)
    with Inr req have "run_payment a r = Some (p, key)"
      by (auto simp: lookup_params_def run_payment_def split: option.splits if_splits)
    moreover have "snd (inspect a now request e) = snd (sa_create a (params_dict p) key e)"
      using Inr key req by (simp add: inspect_def create_payment_def split: prod.split sum.split)
    ultimately show ?thesis by (auto simp: pays_for_def)
  qed
qed

section \<open>Worlds of a governed payment\<close>

text \<open>A call of a method of the payment action, or a reconciliation with the probe of its adapter.\<close>

inductive payment_step :: "'w StripeSandboxPaymentAdapter \<Rightarrow> 'w TrustedAction \<Rightarrow> 'w world \<Rightarrow> 'w world \<Rightarrow> bool" for a act where
  call: "action_step act w w' \<Longrightarrow> payment_step a act w w'"
| look: "others_follow_protocol orc \<Longrightarrow>
    reconcile_from_provider orc act rid (StripeSandboxPaymentProbe a now) operator w = (x, w') \<Longrightarrow> payment_step a act w w'"

abbreviation payment_world :: "'w StripeSandboxPaymentAdapter \<Rightarrow> 'w TrustedAction \<Rightarrow> 'w \<Rightarrow> 'w world \<Rightarrow> bool" where
  "payment_world a act e \<equiv> reach (\<lambda>w. fresh_world w \<and> w_ext w = e) (payment_step a act)"

lemma payment_step_world: "payment_step a act w w' \<Longrightarrow> world_step w w'"
  by (induction rule: payment_step.induct) (auto intro: action_step_world world_step.reconcile_from_provider)

lemma payment_world_ok: "payment_world a act e w \<Longrightarrow> world_ok w"
proof -
  assume "payment_world a act e w"
  then have "reachable_world w" by (induction rule: reach.induct) (auto intro: reach.intros payment_step_world)
  then show "world_ok w" by (rule reachable_world_ok)
qed

definition plain_runs :: "ledger \<Rightarrow> bool" where
  "plain_runs l \<longleftrightarrow> (\<forall>rid r. fetch_run l rid = Some r \<longrightarrow> plain_run r)"

lemma plain_run_request: "request_of r' = request_of r \<Longrightarrow> r_run_id r' = r_run_id r \<Longrightarrow> plain_run r' = plain_run r"
  by (simp add: plain_run_def request_of_def)

text \<open>The outside changes only by payments for runs of the ledger.\<close>

definition run_pays :: "'w StripeSandboxPaymentAdapter \<Rightarrow> ledger \<Rightarrow> 'w \<Rightarrow> 'w \<Rightarrow> bool" where
  "run_pays a l e e' \<longleftrightarrow> (\<exists>rid r. fetch_run l rid = Some r \<and> pays_for a r e e')"

lemma calls_pay_for_runs:
  assumes "ta_function act = charge_payment a loss" "plain_runs l" "\<forall>c \<in> set cs. governed_call l c"
  shows "(run_pays a l)\<^sup>*\<^sup>* e (fold (tool_effect act) cs e)"
  using assms(3)
proof (induction cs arbitrary: e)
  case (Cons c cs)
  then obtain r where "fetch_run l (tc_run c) = Some r" "carries r (tc_arguments c)" by (auto simp: governed_call_def)
  then have "run_pays a l e (tool_effect act c e)"
    using call_pays_for_run [OF assms(1)] assms(2) unfolding run_pays_def plain_runs_def by blast
  with Cons show ?case by (auto intro: converse_rtranclp_into_rtranclp)
qed simp

text \<open>A lookup asks about the request of a stored run.\<close>

lemma reconciliation_lookup:
  assumes "others_follow_protocol orc" "ledger_inv (w_ledger w)"
    "reconcile_from_provider orc act rid probe operator w = (x, w')"
  shows "w_ext w' = w_ext w \<or> (\<exists>r r' request. fetch_run (w_ledger w') rid = Some r' \<and> request_of r' = request_of r
    \<and> r_run_id r' = r_run_id r \<and> columns_ok r
    \<and> ProviderLookup_init (r_run_id r) (ta_name act) (r_tenant_id r) (r_idempotency_key r) (r_arguments r) (Some (r_created_at r)) = Inr request
    \<and> w_ext w' = snd (pp_lookup probe request (w_ext w)))"
proof -
  have load: "keeps quiet_change (load_reconcilable_run orc act rid operator :: ('a, run_row) rt)"
    unfolding load_reconcilable_run_def by (intro quiet_intros assms)
  have loaded: "fetch_run (w_ledger w1) rid = Some r"
    if "load_reconcilable_run orc act rid operator w = (Inr r, w1)" for r w1
    using that by (auto simp: load_reconcilable_run_def rt_raise_def raise_exc_def rt_return_def elim!: rt_bind_InrD
        dest!: get_run_InrD split: option.splits if_splits)
  note settled = quiet_calls(13) [OF assms(1)] quiet_run_result [OF assms(1)]
  from assms(3) show ?thesis unfolding reconcile_from_provider_def
  proof (cases rule: rt_bind_cases)
    case (raised e)
    with keepsD [OF load] show ?thesis by (auto simp: quiet_change_def)
  next
    case (went_on r w1)
    have q1: "quiet_change w w1" by (rule keepsD [OF load went_on(1)])
    have r: "fetch_run (w_ledger w1) rid = Some r" by (rule loaded [OF went_on(1)])
    from q1 assms(2) have inv1: "ledger_inv (w_ledger w1)" using ledger_exec.steps_inv by (auto simp: quiet_change_def)
    from went_on(2) show ?thesis
    proof (cases rule: rt_bind_cases)
      case (raised e)
      with q1 show ?thesis by (auto simp: rt_lift_def quiet_change_def)
    next
      case (went_on provider w2)
      then have w2: "w2 = w1" by (simp add: rt_lift_def)
      from went_on(2) show ?thesis
      proof (cases rule: rt_bind_cases)
        case (raised e)
        with q1 w2 show ?thesis by (auto simp: rt_lift_def quiet_change_def)
      next
        case (went_on request w3)
        then have w3: "w3 = w1" "ProviderLookup_init rid (ta_name act) (r_tenant_id r) (r_idempotency_key r) (r_arguments r)
            (Some (r_created_at r)) = Inr request" using w2 by (simp_all add: rt_lift_def)
        let ?R = "\<lambda>w w'. ledger_step\<^sup>*\<^sup>* (w_ledger w) (w_ledger w')"
        have end': "?R w3 w' \<and> w_ext w' = snd (pp_lookup probe request (w_ext w3))"
          using went_on(2)
        proof (cases rule: rt_bind_cases)
          case (raised e)
          then show ?thesis by (auto simp: probe_provider_def split: prod.splits)
        next
          case (went_on ob w4)
          have "keeps quiet_change (rt_bind (ledger_call orc (\<lambda>env. apply_provider_observation env rid provider
              (provider_outcome_value (po_outcome ob)) (po_summary ob) (po_reference ob)
              (observed_status (po_outcome ob)) (observed_result provider ob) operator))
              (\<lambda>applied. run_result orc rid (\<not> applied)) :: ('a, ActionResult) rt)"
            by (intro quiet.keeps_bind settled)
          from keepsD [OF this went_on(2)] went_on(1) show ?thesis
            by (auto simp: quiet_change_def probe_provider_def split: prod.splits)
        qed
        obtain r' where r': "fetch_run (w_ledger w') rid = Some r'" "request_of r' = request_of r"
          using steps_run [OF _ inv1 r] end' w3(1) by metis
        have "columns_ok r" using run_inv_parts(5) [OF ledger_inv_run [OF inv1 r]] .
        with r' w3 end' q1 show ?thesis
          using fetch_run_id [OF r'(1)] fetch_run_id [OF r] by (auto simp: quiet_change_def)
      qed
    qed
  qed
qed

section \<open>A run is paid at most once\<close>

text \<open>Stripe's documented contract for idempotency keys: a request under a used key creates no
  payment; one under a fresh key creates at most the payment it asks for, and the key is used
  from then on.\<close>

definition idempotent_payments :: "'w create_intent \<Rightarrow> ('w \<Rightarrow> pyval list) \<Rightarrow> ('w \<Rightarrow> string set) \<Rightarrow> bool" where
  "idempotent_payments create payments used \<longleftrightarrow> (\<forall>params key e. let e' = snd (create params key e) in
     used e \<subseteq> used e'
     \<and> (payments e' = payments e \<or> key \<notin> used e \<and> key \<in> used e' \<and> payments e' = payments e @ [params]))"

text \<open>The payments are those of different runs, under different keys.\<close>

definition paid_runs :: "'w StripeSandboxPaymentAdapter \<Rightarrow> ('w \<Rightarrow> pyval list) \<Rightarrow> ('w \<Rightarrow> string set) \<Rightarrow> ledger \<Rightarrow> 'w \<Rightarrow> bool" where
  "paid_runs a payments used l e \<longleftrightarrow> (\<exists>qs. payments e = map (params_dict \<circ> fst) qs \<and> distinct (map snd qs)
     \<and> set (map snd qs) \<subseteq> used e
     \<and> (\<forall>q \<in> set qs. \<exists>r. fetch_run l (sp_run_id (fst q)) = Some r \<and> run_payment a r = Some q))"

lemma paid_runs_steps:
  assumes "paid_runs a payments used l e" "ledger_step\<^sup>*\<^sup>* l l'" "ledger_inv l"
  shows "paid_runs a payments used l' e"
proof -
  have "\<exists>r'. fetch_run l' rid = Some r' \<and> run_payment a r' = Some q"
    if r: "fetch_run l rid = Some r" "run_payment a r = Some q" for rid r q
  proof -
    obtain r' where r': "fetch_run l' rid = Some r'" "request_of r' = request_of r"
      using steps_run [OF assms(2,3) r(1)] by metis
    with r show ?thesis
      using run_payment_request [OF r'(2), of a] fetch_run_id [OF r'(1)] fetch_run_id [OF r(1)] by simp
  qed
  with assms(1) show ?thesis unfolding paid_runs_def by metis
qed

lemma paid_runs_pay:
  assumes "idempotent_payments (sa_create a) payments used" "run_pays a l e e'" "paid_runs a payments used l e"
  shows "paid_runs a payments used l e'"
proof (cases "payments e' = payments e \<and> used e \<subseteq> used e'")
  case True
  with assms(3) show ?thesis unfolding paid_runs_def by auto
next
  case False
  from assms(2) obtain rid r where r: "fetch_run l rid = Some r" "pays_for a r e e'" by (auto simp: run_pays_def)
  with False obtain p key where p: "run_payment a r = Some (p, key)" "e' = snd (sa_create a (params_dict p) key e)"
    by (auto simp: pays_for_def)
  with assms(1) False have new: "used e \<subseteq> used e'" "key \<notin> used e" "key \<in> used e'" "payments e' = payments e @ [params_dict p]"
    unfolding idempotent_payments_def Let_def by metis+
  from assms(3) obtain qs where qs: "payments e = map (params_dict \<circ> fst) qs" "distinct (map snd qs)"
    "set (map snd qs) \<subseteq> used e" "\<forall>q \<in> set qs. \<exists>r. fetch_run l (sp_run_id (fst q)) = Some r \<and> run_payment a r = Some q"
    by (auto simp: paid_runs_def)
  have "sp_run_id p = rid" using run_payment_id [OF p(1)] fetch_run_id [OF r(1)] by simp
  then have "\<forall>q \<in> set (qs @ [(p, key)]). \<exists>r. fetch_run l (sp_run_id (fst q)) = Some r \<and> run_payment a r = Some q"
    using qs(4) r(1) p(1) by auto
  moreover have "payments e' = map (params_dict \<circ> fst) (qs @ [(p, key)])" "distinct (map snd (qs @ [(p, key)]))"
    "set (map snd (qs @ [(p, key)])) \<subseteq> used e'" using qs(1-3) new by auto
  ultimately show ?thesis unfolding paid_runs_def by blast
qed

lemma paid_runs_pays:
  assumes "idempotent_payments (sa_create a) payments used" "(run_pays a l)\<^sup>*\<^sup>* e e'" "paid_runs a payments used l e"
  shows "paid_runs a payments used l e'"
  using assms(2,3) by (induction rule: rtranclp_induct) (auto intro: paid_runs_pay [OF assms(1)])

text \<open>Keys that differ belong to runs that differ.\<close>

lemma paid_runs_distinct:
  assumes "paid_runs a payments used l e"
  shows "\<exists>ps. payments e = map params_dict ps \<and> distinct (map sp_run_id ps)
    \<and> (\<forall>p \<in> set ps. \<exists>r key. fetch_run l (sp_run_id p) = Some r \<and> run_payment a r = Some (p, key))"
proof -
  from assms obtain qs where qs: "payments e = map (params_dict \<circ> fst) qs" "distinct (map snd qs)"
    "\<forall>q \<in> set qs. \<exists>r. fetch_run l (sp_run_id (fst q)) = Some r \<and> run_payment a r = Some q"
    by (auto simp: paid_runs_def)
  have "inj_on (\<lambda>q. sp_run_id (fst q)) (set qs)"
  proof (rule inj_onI)
    fix q q' assume q: "q \<in> set qs" "q' \<in> set qs" "sp_run_id (fst q) = sp_run_id (fst q')"
    from qs(3) q(1) obtain r where "fetch_run l (sp_run_id (fst q)) = Some r" "run_payment a r = Some q" by blast
    moreover from qs(3) q(2) obtain r' where "fetch_run l (sp_run_id (fst q')) = Some r'" "run_payment a r' = Some q'" by blast
    ultimately show "q = q'" using q(3) by simp
  qed
  with qs(2) have "distinct (map (\<lambda>q. sp_run_id (fst q)) qs)" by (simp add: distinct_map)
  then show ?thesis using qs(1,3) by (intro exI [of _ "map fst qs"]) (force simp: comp_def)
qed

lemma plain_runs_steps:
  assumes "ledger_step\<^sup>*\<^sup>* l l'" "ledger_inv l" "plain_runs l'"
  shows "plain_runs l"
  unfolding plain_runs_def
proof (intro allI impI)
  fix rid r assume r: "fetch_run l rid = Some r"
  obtain r' where r': "fetch_run l' rid = Some r'" "request_of r' = request_of r" using steps_run [OF assms(1,2) r] by metis
  with assms(3) have "plain_run r'" by (auto simp: plain_runs_def)
  then show "plain_run r" using plain_run_request [OF r'(2)] fetch_run_id [OF r] fetch_run_id [OF r'(1)] by simp
qed

lemma payment_step_pays:
  assumes "payment_step a act w w'" "ta_function act = charge_payment a loss" "world_ok w" "world_ok w'" "plain_runs (w_ledger w')"
  shows "(run_pays a (w_ledger w'))\<^sup>*\<^sup>* (w_ext w) (w_ext w')"
  using assms(1)
proof cases
  case call
  from action_step_replayed [OF call] obtain cs where cs: "w_log w' = w_log w @ cs" "w_ext w' = fold (tool_effect act) cs (w_ext w)"
    by (auto simp: replayed_change_def)
  then have "\<forall>c \<in> set cs. governed_call (w_ledger w') c" using assms(4) by (auto simp: world_ok_def)
  from calls_pay_for_runs [OF assms(2,5) this, of "w_ext w"] cs(2) show ?thesis by simp
next
  case (look orc rid now operator x)
  show ?thesis
  proof (cases "w_ext w' = w_ext w")
    case False
    with reconciliation_lookup [OF look(1) world_ok_inv [OF assms(3)] look(2)] obtain r r' request where
      r: "fetch_run (w_ledger w') rid = Some r'" "request_of r' = request_of r" "r_run_id r' = r_run_id r" "columns_ok r"
        "ProviderLookup_init (r_run_id r) (ta_name act) (r_tenant_id r) (r_idempotency_key r) (r_arguments r) (Some (r_created_at r)) = Inr request"
      and ext: "w_ext w' = snd (inspect a now request (w_ext w))" by (auto simp: StripeSandboxPaymentProbe_def)
    have plain: "plain_run r" using assms(5) r(1) plain_run_request [OF r(2,3)] by (auto simp: plain_runs_def)
    have "pays_for a r' (w_ext w) (w_ext w')"
      using lookup_pays_for_run [OF r(5) plain r(4)] run_payment_request [OF r(2,3), of a] by (simp add: ext pays_for_def)
    then have "run_pays a (w_ledger w') (w_ext w) (w_ext w')" using r(1) unfolding run_pays_def by blast
    then show ?thesis by (rule r_into_rtranclp)
  qed simp
qed

lemma payment_world_paid:
  assumes "payment_world a act e w" "ta_function act = charge_payment a loss"
    "idempotent_payments (sa_create a) payments used" "payments e = []" "plain_runs (w_ledger w)"
  shows "paid_runs a payments used (w_ledger w) (w_ext w)"
  using assms(1,5)
proof (induction rule: reach.induct)
  case (start w)
  with assms(4) show ?case by (simp add: paid_runs_def)
next
  case (step w w')
  have ok: "world_ok w" "world_ok w'" using step.hyps by (auto intro: payment_world_ok reach.intros)
  have "world_extends w w'"
    by (rule method_ok_extends [OF world_step_ok [OF payment_step_world [OF step.hyps(2)] ok(1)]])
  then have steps: "ledger_step\<^sup>*\<^sup>* (w_ledger w) (w_ledger w')" by (simp add: world_extends_def)
  note inv = world_ok_inv [OF ok(1)]
  have "paid_runs a payments used (w_ledger w) (w_ext w)" by (rule step.IH [OF plain_runs_steps [OF steps inv step.prems]])
  from paid_runs_steps [OF this steps inv]
  show ?case by (rule paid_runs_pays [OF assms(3) payment_step_pays [OF step.hyps(2) assms(2) ok step.prems]])
qed

lemma build_payment_action_InrD:
  assumes "build_payment_action a name evaluation_id loss = Inr act"
  shows "ta_function act = charge_payment a loss \<and> ta_policy act = AllowSandboxPayment \<and> ta_idempotency_key act = payment_key evaluation_id
    \<and> ta_lease_seconds act = 60 \<and> ta_approval_ttl_seconds act = 3600 \<and> \<not> ta_is_async act
    \<and> ta_context_parameter act = Some ''execution''"
proof -
  have "strip ''execution'' = ''execution''" by code_simp
  with assms show ?thesis
    by (auto simp: build_payment_action_def TrustedAction_init_def validate_execution_context_parameter_def Let_def
        split: if_splits)
qed


section \<open>Reconciliation with Stripe\<close>

lemma inspect_InrD:
  assumes "inspect a now request e = (Inr ob, e')"
  shows "\<exists>p key intent. lookup_params a now request = Inr p \<and> stripe_idempotency_key (pl_idempotency_key request) = Inr key
    \<and> sa_create a (params_dict p) key e = (Inr intent, e') \<and> confirms intent p
    \<and> status_outcome (status_text intent) = Some (po_outcome ob)"
proof -
  have err: "lookup_error x \<noteq> Inr (ob :: ProviderObservation)" for x by (auto simp: lookup_error_def)
  from assms err obtain p where p: "lookup_params a now request = Inr p" by (auto simp: inspect_def split: sum.splits)
  from assms p err obtain intent i where i: "create_payment a p (pl_idempotency_key request) e = (Inr intent, e')"
    "validated_intent intent p = Inr i" "observe_intent i = Inr ob" by (auto simp: inspect_def split: sum.splits prod.splits)
  from i(1) obtain key where key: "stripe_idempotency_key (pl_idempotency_key request) = Inr key"
    "sa_create a (params_dict p) key e = (Inr intent, e')" by (auto simp: create_payment_def split: sum.splits)
  from i(3) have "status_outcome (py_str (pi_status i)) = Some (po_outcome ob)"
    by (auto simp: observe_intent_def ProviderObservation_init_def Let_def split: option.splits if_splits)
  with i(2) have "confirms intent p" "status_outcome (status_text intent) = Some (po_outcome ob)"
    by (auto simp: validated_intent_Inr status_text_def)
  with p key show ?thesis by blast
qed

text \<open>Reconciling a payment with Stripe believes only a verified replay of the run's own
  request: when \<open>reconcile_from_provider\<close> with the probe returns, for a client alone with its
  ledger, the run is younger than 23 hours, Stripe answered exactly the request of its stored
  arguments under its key with an intent that confirms it, and the run is COMPLETED, FAILED or
  still UNKNOWN as the status of that intent says.\<close>

lemma reconciliation_believes_verified_replays:
  assumes "alone orc" "reachable (w_ledger w)" "plain_runs (w_ledger w)"
    "reconcile_from_provider orc act rid (StripeSandboxPaymentProbe a now) operator w = (Inr res, w')"
  shows "\<exists>r p key intent ext outcome. fetch_run (w_ledger w) rid = Some r \<and> run_payment a r = Some (p, key)
    \<and> r_created_at r \<le> now \<and> now - r_created_at r < 23 * 3600 * 1000000
    \<and> sa_create a (params_dict p) key (w_ext w) = (Inr intent, ext) \<and> confirms intent p
    \<and> status_outcome (status_text intent) = Some outcome \<and> ar_status res = answered_status outcome"
proof -
  from provider_answer_settles [OF assms(1,2,4)] obtain r request ob ext where
    r: "fetch_run (w_ledger w) rid = Some r" and req: "pl_run_id request = rid" "pl_idempotency_key request = r_idempotency_key r"
      "json_wf (r_arguments r) \<longrightarrow> pl_arguments request = r_arguments r" "pl_created_at request = Some (r_created_at r)"
    and ob: "inspect a now request (w_ext w) = (Inr ob, ext)" "ar_status res = answered_status (po_outcome ob)"
    by (auto simp: StripeSandboxPaymentProbe_def)
  from inspect_InrD [OF ob(1)] obtain p key intent where
    p: "lookup_params a now request = Inr p" "stripe_idempotency_key (r_idempotency_key r) = Inr key"
      "sa_create a (params_dict p) key (w_ext w) = (Inr intent, ext)" "confirms intent p"
      "status_outcome (status_text intent) = Some (po_outcome ob)" unfolding req(2) by blast
  have "pl_arguments request = r_arguments r" using req(3) assms(3) r by (auto simp: plain_runs_def plain_run_def)
  with p(1,2) req fetch_run_id [OF r] have "run_payment a r = Some (p, key)"
    "r_created_at r \<le> now" "now - r_created_at r < 23 * 3600 * 1000000"
    by (auto simp: lookup_params_def run_payment_def max_safe_replay_age_def split: if_splits)
  with r p(3-5) ob(2) show ?thesis by blast
qed

section \<open>A payment\<close>

text \<open>A Stripe that keeps the parameters of every key and answers with a succeeded intent.\<close>

type_synonym stripe_state = "(string \<times> pyval) list"

definition demo_intent :: "pyval \<Rightarrow> intent" where
  "demo_intent params = ObjectIntent ([(''id'', PStr ''pi_1''), (''status'', PStr ''succeeded''), (''livemode'', PBool False)]
     @ (case params of PDict kvs \<Rightarrow> kvs | _ \<Rightarrow> []))"

definition demo_create :: "stripe_state create_intent" where
  "demo_create params key s = (case map_of s key of
     None \<Rightarrow> (Inr (demo_intent params), s @ [(key, params)])
   | Some known \<Rightarrow> if known = params then (Inr (demo_intent params), s)
       else (raise_exc (OtherError ''IdempotencyError'') ''key was used with other parameters'', s))"

definition demo_adapter :: "stripe_state StripeSandboxPaymentAdapter" where
  "demo_adapter = \<lparr>sa_create = demo_create, sa_ambiguous = (\<lambda>_. False), sa_payment_method = ''pm_card_visa'',
     sa_return_url = ''https://example.invalid/return''\<rparr>"

lemma demo_adapter_init:
  "StripeSandboxPaymentAdapter_init None ''sk_test_1'' ''pm_card_visa'' ''https://example.invalid/return'' (Some demo_create) None
     = Inr demo_adapter"
proof -
  have "strip ''sk_test_1'' = ''sk_test_1''" "strip ''pm_card_visa'' = ''pm_card_visa''"
    "strip ''https://example.invalid/return'' = ''https://example.invalid/return''" by code_simp+
  then show ?thesis by (simp add: StripeSandboxPaymentAdapter_init_def demo_adapter_def)
qed

lemma demo_stripe_idempotent: "idempotent_payments demo_create (map snd) (\<lambda>s. fst ` set s)"
  by (auto simp: idempotent_payments_def demo_create_def Let_def map_of_eq_None_iff split: option.splits)

definition demo_payment :: "(string \<times> pyval) list" where
  "demo_payment = [(''invoice_id'', PStr ''INV-1''), (''amount'', PInt 1250), (''currency'', PStr ''hkd'')]"

definition demo_execution :: ActionExecutionContext where
  "demo_execution = \<lparr>xc_run_id = ''run_9'', xc_action_name = ''pay'', xc_tenant_id = ''acme'',
     xc_idempotency_key = ''stripe-sandbox:acme:ev:INV-1'', xc_attempt = 1\<rparr>"

definition demo_params :: payment_params where
  "demo_params = \<lparr>sp_amount = 1250, sp_currency = ''hkd'', sp_payment_method = ''pm_card_visa'',
     sp_return_url = ''https://example.invalid/return'', sp_run_id = ''run_9'', sp_invoice_id = ''INV-1''\<rparr>"

definition demo_receipt :: pyval where
  "demo_receipt = PDict [(''payment_intent_id'', PStr ''pi_1''), (''status'', PStr ''succeeded''), (''amount'', PInt 1250),
     (''currency'', PStr ''hkd''), (''livemode'', PBool False)]"

lemma demo_charge:
  "charge demo_adapter (PStr ''INV-1'') (PInt 1250) (PStr ''hkd'') demo_execution []
     = (Inr demo_receipt, [(''stripe-sandbox:acme:ev:INV-1'', params_dict demo_params)])"
proof -
  have p: "payment_request demo_adapter ''run_9'' (PStr ''INV-1'') (PInt 1250) (PStr ''hkd'') = Inr demo_params" by code_simp
  have k: "stripe_idempotency_key ''stripe-sandbox:acme:ev:INV-1'' = Inr ''stripe-sandbox:acme:ev:INV-1''" by code_simp
  have "charge_reply demo_params (demo_intent (params_dict demo_params)) = Inr demo_receipt" by code_simp
  with p k show ?thesis
    by (simp add: charge_def create_payment_def demo_execution_def demo_adapter_def demo_create_def)
qed

theorem charges_report_what_stripe_did_witness:
  "\<exists>p key reply. sends demo_adapter (PStr ''INV-1'') (PInt 1250) (PStr ''hkd'') demo_execution p key
     \<and> sa_create demo_adapter (params_dict p) key [] = (reply, [(''stripe-sandbox:acme:ev:INV-1'', params_dict demo_params)])
     \<and> payment_confirmed p reply demo_receipt"
  using charges_report_what_stripe_did [OF demo_charge] by simp

definition payment_demo_world :: "stripe_state world" where
  "payment_demo_world = \<lparr>w_ledger = empty_ledger, w_calls = 0, w_ext = [], w_log = []\<rparr>"

lemma demo_payment_action:
  obtains act where "build_payment_action demo_adapter ''pay'' ''ev'' False = Inr act" "ta_name act = ''pay''" "ta_risk act = ''sandbox-payment''"
proof -
  have texts: "strip ''sandbox-payment'' = ''sandbox-payment''" "strip ''pay'' = ''pay''" "strip ''execution'' = ''execution''"
    "sorted_strip_set [''agenttrustops_approver''] \<noteq> []" "sorted_strip_set [''agenttrustops_reconciler''] \<noteq> []"
    by code_simp+
  from that show thesis
    by (simp add: build_payment_action_def TrustedAction_init_def Let_def texts validate_execution_context_parameter_def)
qed

lemma demo_payment_policy:
  obtains d where "AllowSandboxPayment name arguments context = Decided d" "pd_outcome d = ALLOW"
    "json_error True (pd_facts d) = None" "\<exists>dig. decision_digest d = Inr dig"
proof -
  have "strip ''synthetic Stripe Sandbox payment allowed'' = ''synthetic Stripe Sandbox payment allowed''"
    "strip ''stripe-sandbox-evaluation-v1'' = ''stripe-sandbox-evaluation-v1''" by code_simp+
  then have "AllowSandboxPayment name arguments context = Decided \<lparr>pd_outcome = ALLOW,
      pd_reason = ''synthetic Stripe Sandbox payment allowed'', pd_policy_version = ''stripe-sandbox-evaluation-v1'',
      pd_facts = PDict [], pd_policy_digest = None\<rparr>"
    by (simp add: AllowSandboxPayment_def PolicyDecision_init_def json_object_copy_def json_copy_eq)
  then show thesis by (rule that) (simp_all add: decision_digest_def)
qed

lemma demo_paid:
  obtains act res w' where "build_payment_action demo_adapter ''pay'' ''ev'' False = Inr act"
    "invoke demo_schedule act demo_context demo_payment payment_demo_world = (Inr res, w')" "ar_status res = COMPLETED"
    "w_ext w' = [(''stripe-sandbox:acme:ev:INV-1'', params_dict demo_params)]" "plain_runs (w_ledger w')"
proof (rule demo_payment_action)
  fix act
  assume build: "build_payment_action demo_adapter ''pay'' ''ev'' False = Inr act" "ta_name act = ''pay''" "ta_risk act = ''sandbox-payment''"
  from build_payment_action_InrD [OF build(1)] have act: "ta_function act = charge_payment demo_adapter False"
    "ta_policy act = AllowSandboxPayment" "ta_idempotency_key act = payment_key ''ev''" "ta_lease_seconds act = 60"
    "ta_approval_ttl_seconds act = 3600" "\<not> ta_is_async act" "ta_context_parameter act = Some ''execution''" by simp_all
  obtain d dig where d: "AllowSandboxPayment ''pay'' (PDict demo_payment) demo_context = Decided d" "pd_outcome d = ALLOW"
    "json_error True (pd_facts d) = None" "decision_digest d = Inr dig" by (rule demo_payment_policy) blast
  let ?key = "''stripe-sandbox:acme:ev:INV-1''" and ?kw = "dict_set ''execution'' (ContextArg demo_execution) (map (map_prod id PlainArg) demo_payment)"
  have "strip ?key = ?key" by code_simp
  then have key: "governed_key act (PDict demo_payment) demo_context None = Inr ?key"
    by (simp add: governed_key_def act(3) payment_key_def demo_payment_def py_item_def dict_get_def demo_context_def)
  have json: "json_error True (PDict demo_payment) = None" by (simp add: demo_payment_def)
  obtain fp where fp: "request_fingerprint (cx_tenant_id demo_context) (cx_actor_id demo_context) (cx_roles demo_context)
     (cx_evidence demo_context) (ta_name act) (ta_risk act) (PDict demo_payment) (cx_metadata demo_context) = Inr fp"
    using json by (simp add: request_fingerprint_def fingerprint_document_def demo_context_def or_empty_def)
  have tool: "ta_function act ?kw (w_ext payment_demo_world) = (Returned demo_receipt, [(?key, params_dict demo_params)])"
  proof -
    have "dict_get ''invoice_id'' ?kw = Some (PlainArg (PStr ''INV-1''))" "dict_get ''amount'' ?kw = Some (PlainArg (PInt 1250))"
      "dict_get ''currency'' ?kw = Some (PlainArg (PStr ''hkd''))" "dict_get ''execution'' ?kw = Some (ContextArg demo_execution)"
      "length ?kw = 4" by (simp_all add: demo_payment_def dict_get_def)
    then show ?thesis
      by (simp add: act(1) charge_payment_def plain_value_def demo_charge payment_demo_world_def tool_outcome_def)
  qed
  have given: "arguments_with_execution_context demo_schedule act (''run_'' @ o_uuid demo_schedule (w_calls payment_demo_world)) demo_payment v
      = (Inr ?kw, v\<lparr>w_calls := w_calls v + 1\<rparr>)"
    if "fetch_run (w_ledger v) (''run_'' @ o_uuid demo_schedule (w_calls payment_demo_world)) = Some r1"
      "run_key r1 = (cx_tenant_id demo_context, ta_name act, ?key)" "r_attempt r1 = 1" for v :: "stripe_state world" and r1
  proof (rule alone_context_arguments [OF demo_alone act(7) that(1)])
    have "ActionExecutionContext_init ''run_9'' ''pay'' ''acme'' ?key 1 = Inr demo_execution" by code_simp
    then show "ActionExecutionContext_init (r_run_id r1) (r_action_name r1) (r_tenant_id r1) (r_idempotency_key r1) (int (r_attempt r1))
        = Inr demo_execution"
      using fetch_run_id [OF that(1)] that(2,3) by (simp add: run_key_def build(2) demo_context_def demo_schedule_def)
  qed
  have inv: "ledger_inv (w_ledger payment_demo_world)" by (simp add: payment_demo_world_def)
  have plain: "\<not> supplies_context act demo_payment" by (simp add: supplies_context_def act(7) demo_payment_def)
  have lease: "add_seconds (now_at (o_env demo_schedule (w_calls payment_demo_world + 2)) 0) (nat (ta_lease_seconds act)) = Inr 180000000"
    using demo_lease by (simp add: payment_demo_world_def numeral_2_eq_2 act(4) demo_action_def)
  have ids: "distinct (event_ids (w_ledger payment_demo_world) @ concat (map (\<lambda>i. call_ids demo_schedule (w_calls payment_demo_world + i)) [0, 1, 2, 3 + 1]))"
    by (simp add: payment_demo_world_def event_ids_def empty_ledger_def call_ids_def demo_schedule_def demo_env_def)
  have "\<exists>res w'. invoke demo_schedule act demo_context demo_payment payment_demo_world = (Inr res, w') \<and> ar_status res = COMPLETED
    \<and> ar_value res = json_norm True demo_receipt \<and> \<not> ar_duplicate res \<and> w_ext w' = [(?key, params_dict demo_params)]
    \<and> w_log w' = w_log payment_demo_world @ [\<lparr>tc_action = ta_name act, tc_run = ''run_'' @ o_uuid demo_schedule (w_calls payment_demo_world),
         tc_owner = ''worker_'' @ o_uuid demo_schedule (w_calls payment_demo_world + 2), tc_arguments = ?kw\<rparr>]
    \<and> (\<exists>r. fetch_run (w_ledger w') (''run_'' @ o_uuid demo_schedule (w_calls payment_demo_world)) = Some r
         \<and> r_arguments r = json_norm True (PDict demo_payment))
    \<and> changes_only (''run_'' @ o_uuid demo_schedule (w_calls payment_demo_world)) (w_ledger payment_demo_world) (w_ledger w')"
    by (rule invoke_enabled_with [where m = "invoke demo_schedule act demo_context demo_payment" and w = payment_demo_world,
          OF demo_alone inv invoke_prepared [OF act(6)] plain given _ _ _ _ key fp json _ _ _ _ d(2) d(4,3) ids _ lease tool])
      (use d(1) demo_worker in \<open>simp_all add: payment_demo_world_def empty_ledger_def act build(2) demo_context_def or_empty_def demo_receipt_def\<close>)
  then obtain res w' r where w': "invoke demo_schedule act demo_context demo_payment payment_demo_world = (Inr res, w')"
    "ar_status res = COMPLETED" "w_ext w' = [(?key, params_dict demo_params)]"
    "fetch_run (w_ledger w') ''run_9'' = Some r" "r_arguments r = json_norm True (PDict demo_payment)"
    "changes_only ''run_9'' empty_ledger (w_ledger w')"
    by (auto simp: demo_schedule_def payment_demo_world_def simp del: json_norm_PDict)
  have "plain_runs (w_ledger w')"
    unfolding plain_runs_def
  proof (intro allI impI)
    fix rid r' assume r': "fetch_run (w_ledger w') rid = Some r'"
    have "rid = ''run_9''"
    proof (rule ccontr)
      assume "rid \<noteq> ''run_9''"
      from changes_only_view [OF w'(6) this] r' show False by (simp add: view_def empty_ledger_def)
    qed
    with r' w'(4) have "r' = r" by simp
    moreover have "strip ''run_9'' = ''run_9''" "json_wf (json_norm True (PDict demo_payment))" by code_simp+
    ultimately show "plain_run r'" using fetch_run_id [OF w'(4)] w'(5) by (simp add: plain_run_def del: json_norm_PDict)
  qed
  with that [OF build(1) w'(1-3)] show thesis .
qed


end
