(* ===== verification/Opa.thy ===== *)
theory Opa
  imports Auth PyValue Runtime_Demo
begin

text \<open>
  The Open Policy Agent adapter (\<open>integrations/opa.py\<close>). What \<open>urlopen\<close> does with a request is an
  argument: it raises, or gives the size of the body and its text, \<open>None\<close> when the bytes are not
  UTF-8.
\<close>

section \<open>The policy object\<close>

record OPAPolicy =
  op_url :: string
  op_timeout :: pyfloat
  op_headers :: "(string \<times> string) list"
  op_max_response_bytes :: int

definition strip_slashes :: "string \<Rightarrow> string" where
  "strip_slashes s = rstrip_slashes (dropWhile (\<lambda>c. c = CHR ''/'') s)"

text \<open>\<open>s.split("/")\<close>, and \<open>quote(s, safe="")\<close>: what is not unreserved is percent-encoded, byte by
  byte.\<close>

function split_slash :: "string \<Rightarrow> string list" where
  "split_slash s =
     (let first = takeWhile (\<lambda>c. c \<noteq> CHR ''/'') s in
      if length first = length s then [s] else first # split_slash (drop (Suc (length first)) s))"
  by pat_completeness auto
termination
proof (relation "measure length")
  show "(drop (Suc (length first)) s, s) \<in> measure length"
    if "first = takeWhile (\<lambda>c. c \<noteq> CHR ''/'') s" "length first \<noteq> length s" for first s
    using that by (cases s) auto
qed simp

definition unreserved :: "char \<Rightarrow> bool" where
  "unreserved c \<longleftrightarrow> ascii_alpha c \<or> is_digit c \<or> c \<in> set ''_.-~''"

definition upper_hex :: "nat \<Rightarrow> char" where
  "upper_hex n = ''0123456789ABCDEF'' ! n"

definition quote_text :: "string \<Rightarrow> string" where
  "quote_text s = concat (map (\<lambda>c. if unreserved c then [c]
     else concat (map (\<lambda>b. let n = unat b in [CHR ''%'', upper_hex (n div 16), upper_hex (n mod 16)]) (utf8_char c))) s)"

definition OPAPolicy_init ::
  "(string \<Rightarrow> bool) \<Rightarrow> string \<Rightarrow> string \<Rightarrow> pyfloat \<Rightarrow> (string \<times> string) list \<Rightarrow> bool \<Rightarrow> int \<Rightarrow> OPAPolicy res" where
  "OPAPolicy_init host_ok base_url decision_path timeout_seconds headers allow_insecure_http max_response_bytes =
     res_bind (url_scheme host_ok base_url) (\<lambda>scheme.
     let netloc = url_netloc (snd (split_scheme (clean_url base_url))); path = strip_slashes decision_path in
     if scheme \<notin> {''http'', ''https''} \<or> netloc = []
     then raise_exc ValueError ''base_url must be an absolute HTTP(S) URL''
     else if scheme \<noteq> ''https'' \<and> \<not> allow_insecure_http
     then raise_exc ValueError ''OPA requires HTTPS unless allow_insecure_http=True''
     else if path = [] then raise_exc ValueError ''decision_path cannot be empty''
     else if \<not> (float_value ''0.05'' \<le> timeout_seconds \<and> timeout_seconds \<le> Fin 30)
     then raise_exc ValueError ''timeout_seconds must be between 0.05 and 30''
     else if \<not> (1024 \<le> max_response_bytes \<and> max_response_bytes \<le> 16777216)
     then raise_exc ValueError ''max_response_bytes must be between 1024 and 16777216''
     else Inr \<lparr>op_url = rstrip_slashes base_url @ ''/v1/data/'' @ join ''/'' (map quote_text (split_slash path)),
               op_timeout = timeout_seconds, op_headers = headers, op_max_response_bytes = max_response_bytes\<rparr>)"

section \<open>The request\<close>

definition opa_payload :: "string \<Rightarrow> pyval \<Rightarrow> ActionContext \<Rightarrow> pyval" where
  "opa_payload action_name arguments context = PDict [
     (''input'', PDict [
        (''action_name'', PStr action_name),
        (''arguments'', arguments),
        (''context'', PDict [
           (''actor_id'', PStr (cx_actor_id context)),
           (''tenant_id'', PStr (cx_tenant_id context)),
           (''roles'', PList (map PStr (cx_roles context))),
           (''evidence'', PList (map PStr (cx_evidence context))),
           (''metadata'', cx_metadata context)])])]"

record http_post =
  hp_url :: string
  hp_data :: "u8 list"
  hp_headers :: "(string \<times> string) list"
  hp_timeout :: pyfloat

definition opa_request :: "OPAPolicy \<Rightarrow> string \<Rightarrow> pyval \<Rightarrow> ActionContext \<Rightarrow> http_post res" where
  "opa_request p action_name arguments context =
     res_bind (json_dumps False False '', '' '': '' (javascript_floats (opa_payload action_name arguments context))) (\<lambda>text.
     Inr \<lparr>hp_url = op_url p, hp_data = utf8_encode text,
          hp_headers = fold (\<lambda>(k, v). dict_set k v) (op_headers p) [(''Content-Type'', ''application/json'')],
          hp_timeout = op_timeout p\<rparr>)"

section \<open>The reply\<close>

type_synonym opa_fetch = "http_post \<Rightarrow> (nat \<times> string option) res"

definition unavailable :: "exc \<Rightarrow> bool" where
  "unavailable e \<longleftrightarrow> exc_kind e \<in> OtherError ` {''HTTPError'', ''URLError'', ''TimeoutError''}"

text \<open>The envelope of a body: an object whose result is an object.\<close>

definition opa_result :: "OPAPolicy \<Rightarrow> nat \<times> string option \<Rightarrow> (string \<times> pyval) list res" where
  "opa_result p reply =
     (case reply of (len, text) \<Rightarrow>
        if op_max_response_bytes p < int len then raise_exc ValueError ''OPA response exceeded max_response_bytes''
        else (case res_bind (case text of None \<Rightarrow> raise_exc (OtherError ''UnicodeDecodeError'') ''invalid start byte'' | Some t \<Rightarrow> Inr t)
            json_loads of
          Inl e \<Rightarrow> raise_exc ValueError ''OPA returned invalid JSON''
        | Inr envelope \<Rightarrow>
            (case envelope of
               PDict kvs \<Rightarrow> (case dict_get ''result'' kvs of
                   Some (PDict result) \<Rightarrow> Inr result
                 | _ \<Rightarrow> raise_exc TypeError ''OPA response must contain an object result'')
             | _ \<Rightarrow> raise_exc TypeError ''OPA response must contain an object result'')))"

text \<open>\<open>PolicyOutcome(value)\<close>.\<close>

definition outcome_of_value :: "pyval \<Rightarrow> PolicyOutcome res" where
  "outcome_of_value v =
     (case find (\<lambda>oc. v = PStr (outcome_value oc)) [ALLOW, DENY, APPROVAL_REQUIRED] of
        None \<Rightarrow> raise_exc ValueError ''value is not a valid PolicyOutcome'' | Some oc \<Rightarrow> Inr oc)"

definition opa_decision :: "(string \<times> pyval) list \<Rightarrow> PolicyDecision res" where
  "opa_decision result =
     (case (res_bind (res_bind (py_item (PDict result) ''outcome'') outcome_of_value) (\<lambda>outcome.
            res_bind (py_item (PDict result) ''reason'') (\<lambda>reason.
            res_bind (py_item (PDict result) ''policy_version'') (\<lambda>version. Inr (outcome, py_str reason, py_str version))))) of
        Inl e \<Rightarrow> raise_exc ValueError ''OPA result has an invalid decision contract''
      | Inr (outcome, reason, version) \<Rightarrow>
          (case (case dict_get ''facts'' result of None \<Rightarrow> PDict [] | Some v \<Rightarrow> v) of
             PDict facts \<Rightarrow>
               (case dict_get ''policy_digest'' result of
                  None \<Rightarrow> PolicyDecision_init outcome reason version (PDict facts) None
                | Some PNone \<Rightarrow> PolicyDecision_init outcome reason version (PDict facts) None
                | Some (PStr dig) \<Rightarrow> PolicyDecision_init outcome reason version (PDict facts) (Some dig)
                | Some _ \<Rightarrow> raise_exc ValueError ''OPA policy_digest must be a string'')
           | _ \<Rightarrow> raise_exc TypeError ''OPA decision facts must be an object''))"

definition OPAPolicy_evaluate :: "opa_fetch \<Rightarrow> OPAPolicy \<Rightarrow> string \<Rightarrow> pyval \<Rightarrow> ActionContext \<Rightarrow> PolicyDecision res" where
  "OPAPolicy_evaluate fetch p action_name arguments context =
     res_bind (opa_request p action_name arguments context) (\<lambda>request.
     case fetch request of
       Inl e \<Rightarrow> if unavailable e
           then raise_exc RuntimeError (''OPA evaluation unavailable: '' @ exc_name (exc_kind e)) else Inl e
     | Inr reply \<Rightarrow> res_bind (opa_result p reply) opa_decision)"

section \<open>OPA fails closed\<close>

lemma outcome_of_value_Inr: "outcome_of_value v = Inr oc \<longleftrightarrow> v = PStr (outcome_value oc)"
  by (cases oc) (auto simp: outcome_of_value_def)

lemma opa_decision_InrD:
  assumes "opa_decision result = Inr d"
  shows "dict_get ''outcome'' result = Some (PStr (outcome_value (pd_outcome d)))
    \<and> (\<exists>v. dict_get ''reason'' result = Some v \<and> pd_reason d = strip (py_str v))
    \<and> (\<exists>v. dict_get ''policy_version'' result = Some v \<and> pd_policy_version d = strip (py_str v))"
  using assms by (auto simp: opa_decision_def py_item_def outcome_of_value_Inr PolicyDecision_init_def
      split: sum.splits option.splits pyval.splits if_splits)

lemma opa_result_InrD:
  assumes "opa_result p (len, text) = Inr result"
  shows "int len \<le> op_max_response_bytes p \<and> (\<exists>t kvs. text = Some t \<and> json_loads t = Inr (PDict kvs)
    \<and> dict_get ''result'' kvs = Some (PDict result))"
  using assms by (auto simp: opa_result_def split: sum.splits option.splits pyval.splits if_splits)

text \<open>The decision that stands for a failed evaluation always exists, and denies.\<close>

lemma policy_error_denies:
  assumes "strip message \<noteq> []"
  shows "\<exists>d. policy_error_decision message error_type = Inr d \<and> pd_outcome d = DENY"
proof -
  have "strip (message @ error_type) \<noteq> []"
    using assms by (auto simp: strip_eq_Nil)
  moreover have "strip ''policy-error'' \<noteq> []" by code_simp
  ultimately show ?thesis
    by (simp add: policy_error_decision_def PolicyDecision_init_def json_object_copy_def json_copy_eq)
qed

text \<open>C15: OPA fails closed: for an action whose policy is an OPA document, the evaluation of the
  policy always gives a decision, and one that is not a denial only if OPA answered the request
  made from exactly these arguments and this context, within the size limit, with a JSON object
  whose result states that outcome, a reason and a policy version. An unreachable server, a
  malformed, oversized or incomplete answer and an exception of the adapter are denials.\<close>

theorem opa_fails_closed:
  assumes "ta_policy act = (\<lambda>name arguments context. policy_outcome (OPAPolicy_evaluate fetch p name arguments context))"
  shows "\<exists>d. evaluate_policy act arguments context = Inr d \<and> (pd_outcome d = DENY
    \<or> (\<exists>request len text kvs result. opa_request p (ta_name act) arguments context = Inr request
        \<and> fetch request = Inr (len, Some text) \<and> int len \<le> op_max_response_bytes p
        \<and> json_loads text = Inr (PDict kvs) \<and> dict_get ''result'' kvs = Some (PDict result)
        \<and> dict_get ''outcome'' result = Some (PStr (outcome_value (pd_outcome d)))
        \<and> (\<exists>v. dict_get ''reason'' result = Some v \<and> pd_reason d = strip (py_str v))
        \<and> (\<exists>v. dict_get ''policy_version'' result = Some v \<and> pd_policy_version d = strip (py_str v))))"
proof (cases "OPAPolicy_evaluate fetch p (ta_name act) arguments context")
  case (Inl e)
  have "strip ''policy evaluation failed: '' \<noteq> []" by code_simp
  from policy_error_denies [OF this] obtain d where
    "policy_error_decision ''policy evaluation failed: '' (exc_name (exc_kind e)) = Inr d" "pd_outcome d = DENY" by blast
  with Inl assms show ?thesis by (simp add: evaluate_policy_def policy_outcome_def)
next
  case (Inr d)
  then obtain request where q: "opa_request p (ta_name act) arguments context = Inr request"
    and e: "(case fetch request of
       Inl e \<Rightarrow> if unavailable e then raise_exc RuntimeError (''OPA evaluation unavailable: '' @ exc_name (exc_kind e)) else Inl e
     | Inr reply \<Rightarrow> res_bind (opa_result p reply) opa_decision) = Inr d"
    unfolding OPAPolicy_evaluate_def res_bind_eq_Inr by blast
  obtain len body where f: "fetch request = Inr (len, body)"
    using e by (cases "fetch request") (auto split: if_splits)
  note r = q f
  from e f have "res_bind (opa_result p (len, body)) opa_decision = Inr d" by simp
  then obtain result where "opa_result p (len, body) = Inr result" "opa_decision result = Inr d" by auto
  from opa_result_InrD [OF this(1)] opa_decision_InrD [OF this(2)] r(1,2) Inr assms show ?thesis
    by (auto simp: evaluate_policy_def policy_outcome_def)
qed

definition demo_opa :: OPAPolicy where
  "demo_opa = \<lparr>op_url = ''https://opa/v1/data/payments'', op_timeout = Fin 3, op_headers = [], op_max_response_bytes = 1048576\<rparr>"

definition demo_opa_result :: "(string \<times> pyval) list" where
  "demo_opa_result = [(''outcome'', PStr ''allow''), (''reason'', PStr ''within limits''), (''policy_version'', PStr ''v3'')]"

definition demo_opa_text :: string where
  "demo_opa_text = json_render True False '','' '':'' (PDict [(''result'', PDict demo_opa_result)])"

definition demo_fetch :: opa_fetch where
  "demo_fetch request = Inr (length demo_opa_text, Some demo_opa_text)"

definition demo_opa_action :: "nat TrustedAction" where
  "demo_opa_action = demo_action\<lparr>ta_policy := (\<lambda>name arguments context. policy_outcome (OPAPolicy_evaluate demo_fetch demo_opa name arguments context))\<rparr>"

lemma demo_opa_allows: "\<exists>d. evaluate_policy demo_opa_action (PDict [(''amount'', PInt 5)]) demo_context = Inr d \<and> pd_outcome d = ALLOW"
proof -
  have "json_error False (javascript_floats (opa_payload ''refund'' (PDict [(''amount'', PInt 5)]) demo_context)) = None" by code_simp
  then have "\<exists>request. opa_request demo_opa ''refund'' (PDict [(''amount'', PInt 5)]) demo_context = Inr request"
    by (simp add: opa_request_def json_dumps_def)
  moreover have "opa_result demo_opa (length demo_opa_text, Some demo_opa_text) = Inr demo_opa_result" by code_simp
  moreover have "strip ''within limits'' = ''within limits''" "strip ''v3'' = ''v3''" by code_simp+
  ultimately show ?thesis
    by (auto simp: evaluate_policy_def demo_opa_action_def demo_action_def OPAPolicy_evaluate_def demo_fetch_def policy_outcome_def
        opa_decision_def demo_opa_result_def py_item_def dict_get_def outcome_of_value_def PolicyDecision_init_def
        json_object_copy_def json_copy_eq)
qed

theorem opa_fails_closed_witness:
  "\<exists>d request text kvs result. evaluate_policy demo_opa_action (PDict [(''amount'', PInt 5)]) demo_context = Inr d \<and> pd_outcome d = ALLOW
     \<and> demo_fetch request = Inr (length demo_opa_text, Some text) \<and> json_loads text = Inr (PDict kvs)
     \<and> dict_get ''result'' kvs = Some (PDict result) \<and> dict_get ''outcome'' result = Some (PStr ''allow'')"
proof -
  have "ta_policy demo_opa_action = (\<lambda>name arguments context. policy_outcome (OPAPolicy_evaluate demo_fetch demo_opa name arguments context))"
    by (simp add: demo_opa_action_def)
  from opa_fails_closed [OF this, of "PDict [(''amount'', PInt 5)]" demo_context] demo_opa_allows show ?thesis
    by (fastforce simp: demo_fetch_def)
qed

end
