(* ===== verification/Postgres.thy ===== *)
theory Postgres
  imports Observability Ledger_Steps2
begin

text \<open>
  The PostgreSQL ledger (\<open>postgres.py\<close>): its constructor, the translation of a statement's text,
  the anchoring of old chains by its migration, and the operations it inherits. There
  \<open>BEGIN IMMEDIATE\<close> is a no-op and PostgreSQL runs a transaction at READ COMMITTED: each statement
  sees what was committed when it starts, and the first statement that writes or locks a run's
  row holds it until the end. A \<open>SELECT\<close> before that statement therefore reads a ledger \<open>seen\<close>
  that may be older than the ledger \<open>l\<close> the writes meet; the operations below have both.
  (psycopg's exception for a violated constraint is modelled by the one of SQLite.)
\<close>

section \<open>Opening the ledger\<close>

definition PostgresActionLedger_init :: "bool \<Rightarrow> string \<Rightarrow> string res" where
  "PostgresActionLedger_init psycopg_installed dsn =
     (if strip dsn = [] then raise_exc ValueError ''PostgreSQL DSN cannot be empty''
      else if \<not> psycopg_installed
      then raise_exc RuntimeError
        (''PostgreSQL support requires: pip install '' @ quoted ''agenttrustops[postgres]'')
      else Inr dsn)"

text \<open>The \<open>UPDATE\<close> of \<open>_migrate\<close>: a run without a count takes the number and the last hash of the
  events it has.\<close>

definition anchor_unanchored :: "ledger \<Rightarrow> ledger" where
  "anchor_unanchored l =
     upd_runs (\<lambda>r. r_event_count r = 0 \<and> run_events l (r_run_id r) \<noteq> [])
       (\<lambda>r. r\<lparr>r_event_count := length (run_events l (r_run_id r)),
             r_event_head_hash := e_hash (last (run_events l (r_run_id r)))\<rparr>) l"

text \<open>\<open>schema_info\<close>, from the value of the metadata row.\<close>

definition postgres_schema_info :: "int option \<Rightarrow> pyval" where
  "postgres_schema_info version = PDict [
     (''backend'', PStr ''postgresql''),
     (''schema_version'', case version of None \<Rightarrow> PNone | Some v \<Rightarrow> PInt v),
     (''writable'', PBool True)]"

section \<open>Statements\<close>

text \<open>A cursor that does nothing, or the text sent to psycopg with the same values.\<close>

datatype pg_call = NoopCursor | RawExecute string

definition insert_or_ignore :: string where "insert_or_ignore = ''INSERT OR IGNORE INTO''"

definition conflict_syntax :: "string \<Rightarrow> string" where
  "conflict_syntax normalized =
     (if startswith normalized insert_or_ignore
      then ''INSERT INTO'' @ drop (length insert_or_ignore) normalized @ '' ON CONFLICT DO NOTHING''
      else normalized)"

definition pg_execute :: "string \<Rightarrow> pg_call" where
  "pg_execute sql =
     (let normalized = strip sql in
      if normalized = ''BEGIN IMMEDIATE'' then NoopCursor
      else RawExecute (replace_char (CHR 0x3F) ''%s'' (conflict_syntax normalized)))"

text \<open>\<open>__exit__\<close>: commit without an exception, roll back with one; the exception goes on.\<close>

definition pg_exit :: "('a \<times> ledger) res \<Rightarrow> ledger \<Rightarrow> 'a res \<times> ledger" where
  "pg_exit outcome l = (case outcome of Inl e \<Rightarrow> (Inl e, l) | Inr (x, l') \<Rightarrow> (Inr x, l'))"

section \<open>Inherited operations with an unlocked read\<close>

definition pg_record_policy_decision ::
  "env \<Rightarrow> string \<Rightarrow> PolicyDecision \<Rightarrow> int \<Rightarrow> ledger \<Rightarrow> ledger \<Rightarrow> (unit \<times> ledger) res" where
  "pg_record_policy_decision env run_id d ttl seen l =
     (if \<not> (1 \<le> ttl \<and> ttl \<le> 604800)
      then raise_exc ValueError ''approval_ttl_seconds must be between 1 and 604800''
      else res_bind (decision_digest d) (\<lambda>dig.
      let now = now_at env 0 in
      case fetch_run seen run_id of
        None \<Rightarrow> raise_exc KeyError ''run not found''
      | Some run \<Rightarrow>
          if r_status run \<noteq> CREATED
          then raise_exc InvalidTransition ''policy can only decide a newly created run''
          else
            let next_status = outcome_status (pd_outcome d);
                l1 = upd_runs (\<lambda>r. r_run_id r = run_id \<and> r_status r = CREATED)
                  (\<lambda>r. r\<lparr>r_status := next_status, r_policy_version := Some (pd_policy_version d),
                       r_policy_digest := Some dig, r_reason := Some (pd_reason d),
                       r_updated_at := now\<rparr>) l in
            res_bind (append_event run_id ''policy.checked'' (policy_checked_payload d dig)
              (isoformat (now_at env 1)) (uuid_at env 0) l1) (\<lambda>l2.
            if next_status = DENIED then
              res_bind (append_event run_id ''run.denied'' (PDict [(''reason'', PStr (pd_reason d))])
                (isoformat (now_at env 2)) (uuid_at env 1) l2) (\<lambda>l3. Inr ((), l3))
            else if next_status = PENDING_APPROVAL then
              res_bind (add_seconds now (nat ttl)) (\<lambda>expires_at.
              res_bind (insert_approval (pending_approval_row run d dig now expires_at) l2) (\<lambda>l3.
              res_bind (append_event run_id ''approval.requested''
                (approval_requested_payload d dig (r_fingerprint run) expires_at)
                (isoformat (now_at env 2)) (uuid_at env 1) l3) (\<lambda>l4. Inr ((), l4))))
            else Inr ((), l2))))"

definition pg_decide_approval ::
  "env \<Rightarrow> string \<Rightarrow> bool \<Rightarrow> VerifiedPrincipal \<Rightarrow> string \<Rightarrow> string list \<Rightarrow> bool \<Rightarrow> ledger \<Rightarrow> ledger
    \<Rightarrow> (bool \<times> ledger) res" where
  "pg_decide_approval env run_id approved approver note required_roles allow_self_approval seen l =
     (let next_status = (if approved then APPROVED else REJECTED); now = now_at env 0 in
      case (fetch_run seen run_id, fetch_approval seen run_id) of
        (Some run, Some a) \<Rightarrow>
          if vp_tenant_id approver \<noteq> r_tenant_id run
          then raise_exc ApprovalDenied ''approver belongs to a different tenant''
          else if \<not> list_ex (\<lambda>role. role \<in> set (vp_roles approver)) required_roles
          then raise_exc ApprovalDenied ''approver lacks a required approval role''
          else if \<not> allow_self_approval \<and> vp_actor_id approver = a_requested_actor a
          then raise_exc ApprovalDenied ''self-approval is not permitted''
          else if a_status a \<noteq> PENDING_APPROVAL then Inr (False, l)
          else if r_status run \<noteq> PENDING_APPROVAL
          then raise_exc InvalidTransition ''run and approval states are inconsistent''
          else if a_expires_at a \<le> now then
            res_bind (append_event run_id ''approval.expired'' (approval_expired_payload (a_expires_at a))
              (isoformat (now_at env 1)) (uuid_at env 0)
              (upd_runs (\<lambda>r. r_run_id r = run_id) (expire_run_row now)
                (upd_approvals (\<lambda>a. a_run_id a = run_id) (expire_approval_row now) l)))
              (\<lambda>l'. Inr (False, l'))
          else if \<not> binding_matches run a
          then raise_exc ApprovalDenied ''approval binding no longer matches the governed run''
          else if sql_count (\<lambda>a. a_run_id a = run_id \<and> a_status a = PENDING_APPROVAL) (l_approvals l) \<noteq> 1
          then Inr (False, upd_approvals (\<lambda>a. a_run_id a = run_id \<and> a_status a = PENDING_APPROVAL)
                             (decide_approval_row now next_status approver note) l)
          else
            res_bind (append_event run_id
              (if approved then ''approval.approved'' else ''approval.rejected'')
              (approval_decided_payload approver note run)
              (isoformat (now_at env 1)) (uuid_at env 0)
              (upd_runs (\<lambda>r. r_run_id r = run_id \<and> r_status r = PENDING_APPROVAL)
                (decide_run_row now next_status note)
                (upd_approvals (\<lambda>a. a_run_id a = run_id \<and> a_status a = PENDING_APPROVAL)
                  (decide_approval_row now next_status approver note) l)))
              (\<lambda>l'. Inr (True, l'))
      | _ \<Rightarrow> raise_exc KeyError ''run or approval not found'')"

text \<open>Each iteration of the two loops locks its own run.\<close>

definition pg_expire_approvals :: "env \<Rightarrow> string option \<Rightarrow> ledger \<Rightarrow> ledger \<Rightarrow> (string list \<times> ledger) res" where
  "pg_expire_approvals env tenant seen l =
     (let now = now_at env 0 in expire_loop env now 0 (overdue_approvals now tenant seen) l)"

definition pg_recover_expired_executions ::
  "env \<Rightarrow> string option \<Rightarrow> ledger \<Rightarrow> ledger \<Rightarrow> (string list \<times> ledger) res" where
  "pg_recover_expired_executions env tenant seen l =
     (let now = now_at env 0 in recover_loop env now 0 (overdue_executions now tenant seen) l)"

definition pg_claim_execution ::
  "env \<Rightarrow> string \<Rightarrow> string \<Rightarrow> int \<Rightarrow> ledger \<Rightarrow> ledger \<Rightarrow> (bool \<times> ledger) res" where
  "pg_claim_execution env run_id owner lease_seconds seen l =
     (if strip owner = [] then raise_exc ValueError ''execution owner cannot be empty''
      else if \<not> (1 \<le> lease_seconds \<and> lease_seconds \<le> 86400)
      then raise_exc ValueError ''lease_seconds must be between 1 and 86400''
      else
        let now = now_at env 0 in
        res_bind (add_seconds now (nat lease_seconds)) (\<lambda>lease_expires_at.
        case fetch_run seen run_id of
          None \<Rightarrow> raise_exc KeyError ''run not found''
        | Some row \<Rightarrow>
            if lease_over now row then
              res_bind (mark_expired_execution (isoformat (now_at env 1)) (uuid_at env 0) run_id now l)
                (\<lambda>(_, l'). Inr (False, l'))
            else
              let l1 = upd_runs (\<lambda>r. r_run_id r = run_id \<and> claimable r)
                         (claim_run_row now owner lease_expires_at) l in
              if sql_count (\<lambda>r. r_run_id r = run_id \<and> claimable r) (l_runs l) \<noteq> 1 then Inr (False, l1)
              else case fetch_run l1 run_id of
                None \<Rightarrow> raise_exc TypeError (quoted ''NoneType'' @ '' object is not subscriptable'')
              | Some row' \<Rightarrow>
                  res_bind (append_events env 1 0 run_id
                    ((if r_status row = APPROVED then [(''run.resumed'', PDict [])] else [])
                      @ [(''tool.execution.started'',
                          started_payload owner (r_attempt row') lease_expires_at)]) l1)
                    (\<lambda>l2. Inr (True, l2))))"

definition pg_reconcile_run ::
  "env \<Rightarrow> string \<Rightarrow> ActionStatus \<Rightarrow> string \<Rightarrow> pyval \<Rightarrow> VerifiedPrincipal \<Rightarrow> ledger \<Rightarrow> ledger
    \<Rightarrow> (bool \<times> ledger) res" where
  "pg_reconcile_run env run_id status reason result operator seen l =
     (if status \<noteq> COMPLETED \<and> status \<noteq> FAILED
      then raise_exc ValueError ''reconciliation status must be completed or failed''
      else res_bind (result_json result) (\<lambda>_.
      case fetch_run seen run_id of
        None \<Rightarrow> raise_exc KeyError ''run not found''
      | Some run \<Rightarrow>
          if vp_tenant_id operator \<noteq> r_tenant_id run
          then raise_exc ApprovalDenied ''reconciliation operator belongs to a different tenant''
          else
            let l1 = upd_runs (\<lambda>r. r_run_id r = run_id \<and> r_status r = UNKNOWN)
                       (reconcile_run_row (now_at env 0) status reason result) l in
            if sql_count (\<lambda>r. r_run_id r = run_id \<and> r_status r = UNKNOWN) (l_runs l) \<noteq> 1
            then Inr (False, l1)
            else res_bind (append_event run_id ''run.reconciled'' (reconciled_payload operator status reason)
                   (isoformat (now_at env 1)) (uuid_at env 0) l1) (\<lambda>l2. Inr (True, l2))))"

section \<open>A database in use\<close>

text \<open>A transaction that commits. The other operations start with a statement that writes or
  locks, so what they read is what they write to.\<close>

inductive pg_commit :: "ledger \<Rightarrow> ledger \<Rightarrow> ledger \<Rightarrow> bool" for seen l where
  create: "create_or_get_run env rid tenant actor roles evidence name risk key fp args meta l = Inr (x, l')
    \<Longrightarrow> pg_commit seen l l'"
| duplicate: "record_duplicate rid l = Inr (u, l') \<Longrightarrow> pg_commit seen l l'"
| policy: "pg_record_policy_decision env rid d ttl seen l = Inr (u, l') \<Longrightarrow> pg_commit seen l l'"
| decide: "pg_decide_approval env rid approved approver reason roles self seen l = Inr (b, l') \<Longrightarrow> pg_commit seen l l'"
| expire: "pg_expire_approvals env tenant_filter seen l = Inr (rids, l') \<Longrightarrow> pg_commit seen l l'"
| claim: "pg_claim_execution env rid owner secs seen l = Inr (b, l') \<Longrightarrow> pg_commit seen l l'"
| heartbeat: "heartbeat_execution env rid owner secs l = Inr (b, l') \<Longrightarrow> pg_commit seen l l'"
| complete: "complete_execution env rid owner result l = Inr (u, l') \<Longrightarrow> pg_commit seen l l'"
| fail: "fail_execution env rid owner err l = Inr (u, l') \<Longrightarrow> pg_commit seen l l'"
| unknown: "mark_execution_unknown env rid owner err l = Inr (u, l') \<Longrightarrow> pg_commit seen l l'"
| recover: "pg_recover_expired_executions env tenant_filter seen l = Inr (rids, l') \<Longrightarrow> pg_commit seen l l'"
| reconcile: "pg_reconcile_run env rid status reason result operator seen l = Inr (b, l') \<Longrightarrow> pg_commit seen l l'"
| observe: "apply_provider_observation env rid provider outcome summary reference st result operator l = Inr (b, l')
    \<Longrightarrow> pg_commit seen l l'"

text \<open>The committed ledgers of a database, oldest first: an unlocked read sees any of them.\<close>

inductive pg_history :: "ledger list \<Rightarrow> bool" where
  empty: "pg_history [empty_ledger]"
| commit: "pg_history h \<Longrightarrow> seen \<in> set h \<Longrightarrow> pg_commit seen (last h) l' \<Longrightarrow> pg_history (h @ [l'])"

end
