(* ===== verification/Postgres_Props.thy ===== *)
theory Postgres_Props
  imports Postgres Ledger_Approvals
begin

text \<open>
  What the inherited operations still guarantee on PostgreSQL, where an unlocked read may be
  stale: every chain verifies and a run is claimed once, because the updates repeat the guard.
  A read that is not stale makes them the reference operations. The one update without a guard,
  the expiry of \<open>decide_approval\<close>, overwrites whatever status the run has by then.
\<close>

section \<open>What a commit keeps\<close>

text \<open>Statuses from which no operation leads back to a claim.\<close>

definition past_claiming :: "run_row \<Rightarrow> bool" where
  "past_claiming r \<longleftrightarrow> r_status r \<notin> {CREATED, PENDING_APPROVAL, APPROVED}"

definition chains_ok :: "ledger \<Rightarrow> bool" where
  "chains_ok l \<longleftrightarrow> struct_inv l \<and> (\<forall>rid r. fetch_run l rid = Some r \<longrightarrow> chain_ok rid r (run_events l rid))"

definition keeps_runs_past :: "ledger \<Rightarrow> ledger \<Rightarrow> bool" where
  "keeps_runs_past l l' \<longleftrightarrow> (\<forall>rid r. fetch_run l rid = Some r \<longrightarrow>
     (\<exists>r'. fetch_run l' rid = Some r' \<and> (past_claiming r \<longrightarrow> past_claiming r')))"

definition sound_change :: "ledger \<Rightarrow> ledger \<Rightarrow> bool" where
  "sound_change l l' \<longleftrightarrow> (chains_ok l \<longrightarrow> chains_ok l' \<and> keeps_runs_past l l')"

lemma sound_refl [simp]: "sound_change l l"
  by (simp add: sound_change_def keeps_runs_past_def)

lemma sound_trans: "sound_change l l1 \<Longrightarrow> sound_change l1 l2 \<Longrightarrow> sound_change l l2"
  unfolding sound_change_def keeps_runs_past_def by metis

lemma sound_upd_runs:
  assumes "\<And>r. r_run_id (f r) = r_run_id r" "\<And>r. run_key (f r) = run_key r"
    "\<And>r. r_event_count (f r) = r_event_count r" "\<And>r. r_event_head_hash (f r) = r_event_head_hash r"
    "\<And>r. P r \<Longrightarrow> past_claiming r \<Longrightarrow> past_claiming (f r)"
  shows "sound_change l (upd_runs P f l)"
proof -
  note view = view_upd_runs [of f P l, OF assms(1), unfolded view_eq]
  have "chain_ok rid (f r) es = chain_ok rid r es" for rid r es by (rule chain_ok_cong) (rule assms)+
  moreover have "fetch_run (upd_runs P f l) k = map_option (\<lambda>r. if P r then f r else r) (fetch_run l k)"
    "run_events (upd_runs P f l) k = run_events l k" for k
    using view [of k] by simp_all
  ultimately show ?thesis
    using struct_inv_upd_runs [OF assms(1,2)] assms(5)
    by (auto simp: sound_change_def chains_ok_def keeps_runs_past_def)
qed

lemma sound_upd_approvals:
  assumes "\<And>a. a_run_id (f a) = a_run_id a"
  shows "sound_change l (upd_approvals P f l)"
proof -
  note view = view_upd_approvals [of f P l, OF assms, unfolded view_eq]
  show ?thesis
    using struct_inv_upd_approvals [OF assms] view
    by (simp add: sound_change_def chains_ok_def keeps_runs_past_def)
qed

lemma sound_one_run:
  assumes "changes_only rid l l'" "fetch_run l rid = Some r \<or> fetch_run l rid = None" "fetch_run l' rid = Some r'"
    "chains_ok l \<Longrightarrow> chain_ok rid r' (run_events l' rid)" "fetch_run l rid = Some r \<Longrightarrow> past_claiming r \<Longrightarrow> past_claiming r'"
  shows "sound_change l l'"
  unfolding sound_change_def
proof (intro impI conjI)
  assume ok: "chains_ok l"
  have other: "fetch_run l' k = fetch_run l k" "run_events l' k = run_events l k" if "k \<noteq> rid" for k
    using changes_only_view [OF assms(1) that] by (simp_all add: view_def)
  have "chain_ok k r0 (run_events l' k)" if "fetch_run l' k = Some r0" for k r0
    using that other ok assms(3,4) by (cases "k = rid") (auto simp: chains_ok_def)
  with changes_only_struct [OF assms(1)] ok show "chains_ok l'" by (simp add: chains_ok_def)
  have "\<exists>r1. fetch_run l' k = Some r1 \<and> (past_claiming r0 \<longrightarrow> past_claiming r1)" if "fetch_run l k = Some r0" for k r0
    using that other assms(2,3,5) by (cases "k = rid") auto
  then show "keeps_runs_past l l'" by (simp add: keeps_runs_past_def)
qed

lemma sound_append_event:
  assumes "append_event rid t p ts eid l = Inr l'"
  shows "sound_change l l'"
proof (cases "struct_inv l")
  case True
  from append_event_InrD [OF assms True] obtain r h where a: "fetch_run l rid = Some r" "json_error True p = None"
    "event_hash rid t (json_norm True p) (last_hash l rid) ts = Inr h" "changes_only rid l l'"
    "view l' rid = (Some (anchor_run_row h r), run_events l rid @ [appended l rid t p ts eid h], fetch_approval l rid)"
    by auto
  have "chain_ok rid (anchor_run_row h r) (run_events l' rid)" if "chains_ok l"
    using chain_ok_appended [OF _ refl a(2,3), of r eid] that a(1,5) by (auto simp: chains_ok_def view_eq)
  then show ?thesis
    using a by (intro sound_one_run [OF a(4), of r "anchor_run_row h r"]) (auto simp: view_eq past_claiming_def anchor_run_row_def)
qed (simp add: sound_change_def chains_ok_def)

lemma sound_append_events: "append_events env i k rid evs l = Inr l' \<Longrightarrow> sound_change l l'"
proof (induction evs arbitrary: i k l)
  case (Cons ev evs)
  obtain t p where ev: "ev = (t, p)" by (cases ev)
  with Cons.prems obtain l1 where "append_event rid t p (isoformat (now_at env i)) (uuid_at env k) l = Inr l1"
    "append_events env (Suc i) (Suc k) rid evs l1 = Inr l'" by auto
  with sound_append_event Cons.IH sound_trans show ?case by blast
qed simp

lemma sound_insert_approval:
  assumes "insert_approval a l = Inr l'"
  shows "sound_change l l'"
proof -
  from assms have "l' = l\<lparr>l_approvals := l_approvals l @ [a]\<rparr>" by (auto simp: insert_approval_def split: if_splits)
  moreover have "struct_inv l \<Longrightarrow> struct_inv l'" using insert_approval_InrD [OF assms] changes_only_struct by blast
  ultimately show ?thesis by (simp add: sound_change_def chains_ok_def keeps_runs_past_def run_events_def)
qed

lemma sound_insert_run:
  assumes "rid = r_run_id new" "rid \<notin> r_run_id ` set (l_runs l)" "run_key new \<notin> run_key ` set (l_runs l)"
    "r_event_count new = 0" "r_event_head_hash new = None"
  shows "sound_change l (l\<lparr>l_runs := l_runs l @ [new]\<rparr>)"
proof (cases "struct_inv l")
  case True
  have "fetch_run l rid = None" using assms(2) by (simp add: fetch_by_None_iff)
  moreover note view_insert_run [OF True assms(1) [symmetric] assms(2)]
  ultimately show ?thesis
    using assms(4,5)
    by (intro sound_one_run [OF changes_only_insert_run [OF assms(1) [symmetric] assms(2,3)], of undefined new])
      (auto simp: view_eq chain_ok_Nil)
qed (simp add: sound_change_def chains_ok_def)

section \<open>Every operation keeps it\<close>

lemma sound_create:
  assumes "create_or_get_run env run_id tenant actor roles evidence name risk key fp args meta l = Inr (x, l')"
  shows "sound_change l l'"
proof -
  let ?new = "\<lparr>r_run_id = run_id, r_tenant_id = tenant, r_actor_id = actor,
    r_action_name = name, r_risk = risk, r_idempotency_key = key, r_fingerprint = fp, r_status = CREATED,
    r_arguments = json_norm True (PDict args), r_roles = roles, r_evidence = evidence,
    r_metadata = json_norm True (or_empty meta), r_policy_version = None, r_policy_digest = None,
    r_reason = None, r_result = None, r_execution_owner = None, r_lease_expires_at = None,
    r_attempt = 0, r_duplicate_count = 0, r_event_count = 0, r_event_head_hash = None,
    r_created_at = now_at env 0, r_updated_at = now_at env 0\<rparr>"
  show ?thesis
  proof (cases "list_ex (\<lambda>r. r_run_id r = run_id \<or>
      (r_tenant_id r = tenant \<and> r_action_name r = name \<and> r_idempotency_key r = key)) (l_runs l)")
    case True
    with assms have "l' = l" unfolding create_or_get_run_def by (auto simp: Let_def split: option.splits if_splits)
    then show ?thesis by simp
  next
    case False
    with assms obtain p where "append_event run_id ''run.created'' p (isoformat (now_at env 0)) (uuid_at env 0)
        (l\<lparr>l_runs := l_runs l @ [?new]\<rparr>) = Inr l'"
      unfolding create_or_get_run_def by (auto simp: Let_def split: option.splits if_splits)
    moreover have "run_id \<notin> r_run_id ` set (l_runs l)" "run_key ?new \<notin> run_key ` set (l_runs l)"
      using False by (auto simp: list_ex_iff run_key_def)
    then have "sound_change l (l\<lparr>l_runs := l_runs l @ [?new]\<rparr>)" by (intro sound_insert_run) simp_all
    ultimately show ?thesis using sound_append_event sound_trans by blast
  qed
qed

lemmas sound_rules = sound_append_event sound_append_events sound_insert_approval

text \<open>An operation is a chain of such changes; \<open>sound_after\<close> appends one to what is known.\<close>

lemma sound_after: "sound_change l1 l' \<Longrightarrow> sound_change l l1 \<Longrightarrow> sound_change l l'"
  by (rule sound_trans)

lemma sound_row_updates:
  "sound_change l (upd_runs (\<lambda>r. r_run_id r = rid) (expire_run_row now) l)"
  "sound_change l (upd_runs (\<lambda>r. r_run_id r = rid \<and> r_status r = PENDING_APPROVAL) (expire_run_row now) l)"
  "sound_change l (upd_runs (\<lambda>r. r_run_id r = rid \<and> r_status r = PENDING_APPROVAL) (decide_run_row now st note) l)"
  "sound_change l (upd_runs (\<lambda>r. r_run_id r = rid \<and> r_status r = EXECUTING) (unknown_run_row now) l)"
  "sound_change l (upd_runs (\<lambda>r. r_run_id r = rid \<and> claimable r) (claim_run_row now owner lease) l)"
  "st \<in> {COMPLETED, FAILED} \<Longrightarrow>
     sound_change l (upd_runs (\<lambda>r. r_run_id r = rid \<and> r_status r = UNKNOWN) (reconcile_run_row now st reason res) l)"
  "st \<in> {COMPLETED, FAILED, UNKNOWN} \<Longrightarrow>
     sound_change l (upd_runs (\<lambda>r. r_run_id r = rid \<and> r_status r = EXECUTING \<and> r_execution_owner r = Some owner)
       (finish_run_row now st why res) l)"
  "sound_change l (upd_runs (\<lambda>r. r_run_id r = rid) (\<lambda>r. r\<lparr>r_duplicate_count := Suc (r_duplicate_count r)\<rparr>) l)"
  by (rule sound_upd_runs; auto simp: row_defs run_key_def past_claiming_def)+

lemma sound_approval_updates:
  "sound_change l (upd_approvals P (expire_approval_row now) l)"
  "sound_change l (upd_approvals P (decide_approval_row now st approver note) l)"
  by (rule sound_upd_approvals; simp add: row_defs)+

lemma sound_policy:
  assumes "pg_record_policy_decision env rid d ttl seen l = Inr (u, l')"
  shows "sound_change l l'"
proof -
  let ?l1 = "\<lambda>dig. upd_runs (\<lambda>r. r_run_id r = rid \<and> r_status r = CREATED)
      (\<lambda>r. r\<lparr>r_status := outcome_status (pd_outcome d), r_policy_version := Some (pd_policy_version d),
        r_policy_digest := Some dig, r_reason := Some (pd_reason d), r_updated_at := now_at env 0\<rparr>) l"
  from assms obtain run where run: "fetch_run seen rid = Some run"
    unfolding pg_record_policy_decision_def by (cases "fetch_run seen rid") (auto simp: Let_def split: if_splits)
  from assms obtain dig l2 where "append_event rid ''policy.checked'' (policy_checked_payload d dig) (isoformat (now_at env 1))
      (uuid_at env 0) (?l1 dig) = Inr l2" "sound_change l2 l'"
    unfolding pg_record_policy_decision_def run option.case
    by (auto simp: Let_def split: if_splits dest!: sound_append_event [of rid "''run.denied''"]
        sound_append_event [of rid "''approval.requested''"] sound_insert_approval intro: sound_trans)
  then have "sound_change (?l1 dig) l'" using sound_append_event sound_trans by blast
  moreover have "sound_change l (upd_runs (\<lambda>r. r_run_id r = rid \<and> r_status r = CREATED)
      (\<lambda>r. r\<lparr>r_status := outcome_status (pd_outcome d), r_policy_version := Some (pd_policy_version d),
        r_policy_digest := Some dig, r_reason := Some (pd_reason d), r_updated_at := now_at env 0\<rparr>) l)"
    by (rule sound_upd_runs) (auto simp: run_key_def past_claiming_def)
  ultimately show ?thesis by (rule sound_after)
qed

lemma sound_decide:
  assumes "pg_decide_approval env rid approved approver reason roles self seen l = Inr (b, l')"
  shows "sound_change l l'"
  using assms unfolding pg_decide_approval_def
  by (auto simp: Let_def split: if_splits option.splits dest!: sound_append_event
      intro: sound_trans [OF sound_trans [OF sound_approval_updates(1) sound_row_updates(1)]]
        sound_trans [OF sound_trans [OF sound_approval_updates(2) sound_row_updates(3)]] sound_approval_updates)

lemma sound_mark_expired: "mark_expired_execution ts eid rid now l = Inr (b, l') \<Longrightarrow> sound_change l l'"
  unfolding mark_expired_execution_def
  by (auto simp: Let_def split: if_splits dest!: sound_append_event intro: sound_row_updates sound_trans [OF sound_row_updates(4)])

lemma sound_recover_loop: "recover_loop env now k rids l = Inr (out, l') \<Longrightarrow> sound_change l l'"
  by (induction env now k rids l arbitrary: out rule: recover_loop.induct)
    (auto split: prod.splits dest!: sound_mark_expired intro: sound_trans)

lemma sound_expire_loop: "expire_loop env now k rows l = Inr (out, l') \<Longrightarrow> sound_change l l'"
proof (induction env now k rows l arbitrary: out rule: expire_loop.induct)
  case (2 env now k rid expires rows l)
  have "sound_change l l1" if "expire_one now ts eid rid expires l = Inr (hit, l1)" for ts eid hit l1
    using that unfolding expire_one_def
    by (auto simp: Let_def split: if_splits dest!: sound_append_event
        intro: sound_trans [OF sound_approval_updates(1) sound_row_updates(2)]
          sound_trans [OF sound_trans [OF sound_approval_updates(1) sound_row_updates(2)]])
  then have one: "sound_change l l1" if "expire_one now (isoformat (now_at env (Suc k))) (uuid_at env k) rid expires l = Inr (hit, l1)" for hit l1
    using that by blast
  from 2(2) obtain hit l1 out' where "expire_one now (isoformat (now_at env (Suc k))) (uuid_at env k) rid expires l = Inr (hit, l1)"
    "expire_loop env now (if hit then Suc k else k) rows l1 = Inr (out', l')" by (auto split: prod.splits)
  with one 2(1) sound_trans show ?case by blast
qed simp

lemma sound_claim:
  assumes "pg_claim_execution env rid owner secs seen l = Inr (b, l')"
  shows "sound_change l l'"
proof -
  from assms obtain row where row: "fetch_run seen rid = Some row"
    unfolding pg_claim_execution_def by (cases "fetch_run seen rid") (auto simp: Let_def split: if_splits)
  from assms show ?thesis
    unfolding pg_claim_execution_def row option.case
    by (auto simp: Let_def simp del: append_events.simps split: if_split_asm option.split_asm prod.splits
        dest!: sound_mark_expired sound_append_events
        intro: sound_row_updates sound_trans [OF sound_row_updates(5)])
qed

lemma sound_heartbeat:
  assumes "heartbeat_execution env rid owner secs l = Inr (b, l')"
  shows "sound_change l l'"
proof -
  from assms obtain held expires where "l' = upd_runs held (\<lambda>r. r\<lparr>r_lease_expires_at := Some expires, r_updated_at := now_at env 0\<rparr>) l"
    unfolding heartbeat_execution_def by (auto simp: Let_def split: if_splits)
  then show ?thesis by (simp, intro sound_upd_runs) (auto simp: run_key_def past_claiming_def)
qed

lemma sound_finish:
  "finish_execution env rid owner st why res evs l = Inr (u, l') \<Longrightarrow> st \<in> {COMPLETED, FAILED, UNKNOWN} \<Longrightarrow> sound_change l l'"
  unfolding finish_execution_def
  by (auto simp: Let_def split: if_splits dest!: sound_append_events intro: sound_trans [OF sound_row_updates(7)])

lemma sound_reconcile: "pg_reconcile_run env rid st reason res operator seen l = Inr (b, l') \<Longrightarrow> sound_change l l'"
  unfolding pg_reconcile_run_def
  by (auto simp: Let_def split: if_splits option.splits dest!: sound_append_event
      intro: sound_row_updates sound_trans [OF sound_row_updates(6)])

lemma expected_status_final: "expected_status outcome = Some (Some st) \<Longrightarrow> st \<in> {COMPLETED, FAILED}"
  by (auto simp: expected_status_def split: if_splits)

lemma sound_observe:
  "apply_provider_observation env rid provider outcome summary reference st res operator l = Inr (b, l') \<Longrightarrow> sound_change l l'"
  unfolding apply_provider_observation_def
  by (auto simp: Let_def split: if_splits option.splits dest!: sound_append_event expected_status_final
      intro: sound_trans [OF sound_trans [OF _ sound_row_updates(6)]] sound_trans)

lemma sound_commit: "pg_commit seen l l' \<Longrightarrow> sound_change l l'"
  by (induction rule: pg_commit.induct)
    (auto simp: record_duplicate_def complete_execution_def fail_execution_def mark_execution_unknown_def Let_def
        pg_expire_approvals_def pg_recover_expired_executions_def split: if_splits
      intro: sound_create sound_policy sound_decide sound_claim sound_heartbeat sound_finish sound_reconcile sound_observe
        sound_expire_loop sound_recover_loop sound_row_updates)

section \<open>Histories\<close>

lemma keeps_past_refl: "keeps_runs_past l l"
  by (simp add: keeps_runs_past_def)

lemma keeps_past_trans: "keeps_runs_past l l1 \<Longrightarrow> keeps_runs_past l1 l2 \<Longrightarrow> keeps_runs_past l l2"
  unfolding keeps_runs_past_def by metis

lemma chains_ok_empty: "chains_ok empty_ledger"
  by (simp add: chains_ok_def empty_ledger_def struct_inv_def)

lemma history_sound: "pg_history h \<Longrightarrow> h \<noteq> [] \<and> (\<forall>l \<in> set h. chains_ok l \<and> keeps_runs_past l (last h))"
proof (induction rule: pg_history.induct)
  case (commit h seen l')
  then have "chains_ok (last h)" by simp
  with sound_commit [OF commit.hyps(3)] have "chains_ok l'" "keeps_runs_past (last h) l'" by (simp_all add: sound_change_def)
  with commit.IH keeps_past_trans keeps_past_refl show ?case by fastforce
qed (simp add: chains_ok_empty keeps_past_refl)

text \<open>An unlocked read of the current ledger makes an operation the reference one.\<close>

lemmas pg_defs = pg_record_policy_decision_def pg_decide_approval_def pg_expire_approvals_def
  pg_recover_expired_executions_def pg_claim_execution_def pg_reconcile_run_def

lemmas reference_defs = record_policy_decision_def decide_approval_def expire_approvals_def
  recover_expired_executions_def claim_execution_def reconcile_run_def

text \<open>The domain transitions are the inherited ones: where no other transaction commits between
  an unlocked read and the first write, every operation on PostgreSQL is the operation of the
  SQLite ledger, its result, its error and its effect.\<close>

theorem postgres_refines_the_reference:
  "pg_record_policy_decision env rid d ttl l l = record_policy_decision env rid d ttl l
   \<and> pg_decide_approval env rid approved approver note roles self l l = decide_approval env rid approved approver note roles self l
   \<and> pg_claim_execution env rid owner secs l l = claim_execution env rid owner secs l
   \<and> pg_reconcile_run env rid status reason result operator l l = reconcile_run env rid status reason result operator l
   \<and> pg_expire_approvals env tenant l l = expire_approvals env tenant l
   \<and> pg_recover_expired_executions env tenant l l = recover_expired_executions env tenant l"
  by (intro conjI) (simp_all only: pg_defs reference_defs)

lemma step_commits: "ledger_step l l' \<Longrightarrow> pg_commit l l l'"
proof (induction rule: ledger_step.induct)
  case (create env rid tenant actor roles evidence name risk key fp args meta l x l')
  then show ?case by (rule pg_commit.create)
next
  case (policy env rid d ttl l u l')
  then show ?case by (intro pg_commit.policy) (simp only: pg_defs reference_defs)
next
  case (decide env rid approved approver reason roles self l b l')
  then show ?case by (intro pg_commit.decide) (simp only: pg_defs reference_defs)
next
  case (expire env tenant_filter l rids l')
  then show ?case by (intro pg_commit.expire) (simp only: pg_defs reference_defs)
next
  case (claim env rid owner secs l b l')
  then show ?case by (intro pg_commit.claim) (simp only: pg_defs reference_defs)
next
  case (recover env tenant_filter l rids l')
  then show ?case by (intro pg_commit.recover) (simp only: pg_defs reference_defs)
next
  case (reconcile env rid status reason result operator l b l')
  then show ?case by (intro pg_commit.reconcile) (simp only: pg_defs reference_defs)
qed (fact pg_commit.intros)+

lemma history_steps: "ledger_step\<^sup>*\<^sup>* l l' \<Longrightarrow> pg_history h \<Longrightarrow> last h = l \<Longrightarrow> \<exists>h'. pg_history (h @ h') \<and> last (h @ h') = l'"
proof (induction rule: rtranclp_induct)
  case base
  then show ?case by (intro exI [of _ "[]"]) simp
next
  case (step l1 l2)
  then obtain h' where h': "pg_history (h @ h')" "last (h @ h') = l1" by blast
  moreover from this history_sound have "last (h @ h') \<in> set (h @ h')" by (intro last_in_set) blast
  ultimately have "pg_history ((h @ h') @ [l2])" using step_commits [OF step.hyps(2)] by (intro pg_history.commit) auto
  then show ?case by (intro exI [of _ "h' @ [l2]"]) simp
qed

lemma history_reachable: "reachable l \<Longrightarrow> \<exists>h. pg_history h \<and> last h = l"
proof (induction rule: reach.induct)
  case (start l)
  then show ?case by (intro exI [of _ "[empty_ledger]"]) (simp add: pg_history.empty)
next
  case (step l l')
  then obtain h where "pg_history h" "last h = l" by blast
  with history_steps [OF r_into_rtranclp [of ledger_step, OF step.hyps(2)]] show ?case by blast
qed

text \<open>C36: on PostgreSQL too every event chain verifies, in every committed ledger, whatever the
  unlocked reads of the transactions saw.\<close>

theorem postgres_chains_verify:
  assumes "pg_history h" "l \<in> set h" "fetch_run l rid = Some r"
  shows "verify_event_chain l rid = Inr True"
  using history_sound [OF assms(1)] assms(2,3) by (auto simp: verify_event_chain_iff chains_ok_def)

theorem postgres_chains_verify_witness: "verify_event_chain (ledger_after demo_claim) ''r1'' = Inr True"
proof -
  obtain r where r: "fetch_run (ledger_after demo_claim) ''r1'' = Some r" by (rule demo_run_claimed)
  from history_reachable [OF reachable_claim] obtain h where h: "pg_history h" "last h = ledger_after demo_claim" by blast
  with history_sound last_in_set have "ledger_after demo_claim \<in> set h" by metis
  from postgres_chains_verify [OF h(1) this r] show ?thesis .
qed

section \<open>Claims\<close>

lemma pg_claimed:
  assumes "pg_claim_execution env rid owner secs seen l = Inr (True, l')" "chains_ok l"
  obtains r r' where "fetch_run l rid = Some r" "claimable r" "fetch_run l' rid = Some r'" "past_claiming r'"
proof -
  from assms(1) obtain row where row: "fetch_run seen rid = Some row"
    unfolding pg_claim_execution_def by (cases "fetch_run seen rid") (auto simp: Let_def split: if_splits)
  from assms(1) obtain lease evs where one: "sql_count (\<lambda>r. r_run_id r = rid \<and> claimable r) (l_runs l) = 1"
    and app: "append_events env 1 0 rid evs (upd_runs (\<lambda>r. r_run_id r = rid \<and> claimable r) (claim_run_row (now_at env 0) owner lease) l) = Inr l'"
    unfolding pg_claim_execution_def row option.case
    by (auto simp: Let_def simp del: append_events.simps split: if_split_asm option.split_asm prod.splits)
  let ?f = "claim_run_row (now_at env 0) owner lease" and ?l1 = "upd_runs (\<lambda>r. r_run_id r = rid \<and> claimable r) (claim_run_row (now_at env 0) owner lease) l"
  have str: "struct_inv l" using assms(2) by (simp add: chains_ok_def)
  with one obtain r where r: "fetch_run l rid = Some r" "claimable r"
    by (auto simp: sql_count_fetch_run split: option.splits if_splits)
  have "view ?l1 rid = (Some (?f r), run_events l rid, fetch_approval l rid)"
    using upd_runs_one(2) [OF str, where f = ?f and rid = rid and Q = claimable] r by (simp add: view_def claim_run_row_def run_key_def)
  then have f1: "fetch_run ?l1 rid = Some (?f r)" by (simp add: view_eq)
  have "past_claiming (?f r)" by (simp add: claim_run_row_def past_claiming_def)
  moreover have "keeps_runs_past ?l1 l'"
    using sound_append_events [OF app] sound_row_updates(5) assms(2) unfolding sound_change_def by blast
  ultimately obtain r' where "fetch_run l' rid = Some r'" "past_claiming r'" using f1 by (auto simp: keeps_runs_past_def)
  with r that show thesis by blast
qed

text \<open>C35: an execution is claimed once on PostgreSQL: after a claim that returned True, no later
  claim of the run returns True, whatever was committed in between and whatever older ledger
  the unlocked read of either claim saw.\<close>

theorem postgres_claims_are_exclusive:
  assumes "pg_history h" "pg_claim_execution env rid owner secs seen (last h) = Inr (True, l')"
    "pg_history (h @ l' # later)"
    "pg_claim_execution env' rid owner' secs' seen' (last (h @ l' # later)) = Inr (b, l'')"
  shows "\<not> b"
proof
  assume b
  let ?l = "last (h @ l' # later)"
  from history_sound [OF assms(1)] have "chains_ok (last h)" by simp
  with assms(2) obtain r' where r': "fetch_run l' rid = Some r'" "past_claiming r'" by (rule pg_claimed)
  have later: "keeps_runs_past l' ?l" "chains_ok ?l" using history_sound [OF assms(3)] by auto
  with r' obtain r'' where r'': "fetch_run ?l rid = Some r''" "past_claiming r''" unfolding keeps_runs_past_def by blast
  have "pg_claim_execution env' rid owner' secs' seen' ?l = Inr (True, l'')" using assms(4) \<open>b\<close> by simp
  then obtain r where "fetch_run ?l rid = Some r" "claimable r" using later(2) by (rule pg_claimed)
  with r'' show False by (auto simp: claimable_def past_claiming_def)
qed

theorem postgres_claims_are_exclusive_witness:
  "\<exists>l. demo_claim = Inr (True, l) \<and>
     pg_claim_execution (demo_env 50 [''e9'']) ''r1'' ''w2'' 60 (ledger_after demo_request) l \<noteq> Inr (True, empty_ledger)"
proof (rule demo_claimed)
  fix l assume l: "demo_claim = Inr (True, l)"
  have "reachable (ledger_after demo_approve)" by (rule demo_approved) (simp add: ledger_after_Inr)
  from history_reachable [OF this] obtain h where h: "pg_history h" "last h = ledger_after demo_approve" by blast
  have claim: "pg_claim_execution (demo_env 30 [''e5'', ''e6'']) ''r1'' ''w1'' 60 (last h) (last h) = Inr (True, l)"
    using l h(2) by (simp only: demo_claim_def pg_defs reference_defs)
  have "last h \<in> set h" using history_sound [OF h(1)] by simp
  from pg_history.commit [OF h(1) this pg_commit.claim [OF claim]] have "pg_history (h @ l # [])" .
  from postgres_claims_are_exclusive [OF h(1) claim this] l show ?thesis by fastforce
qed

section \<open>A deadline that passes while a decision is made\<close>

text \<open>C39: the expiry path of \<open>decide_approval\<close> updates the run without comparing its status. On
  PostgreSQL a transaction that read a pending approval, and whose clock is past the deadline,
  therefore overwrites what was committed since: from any later ledger, whether the run was
  approved, is executing or has completed by then, it can commit a ledger in which the run is
  \<open>approval_expired\<close>. (On SQLite the operation starts with \<open>BEGIN IMMEDIATE\<close>, and a terminal run is final.)\<close>

theorem postgres_expiry_overwrites_the_outcome:
  assumes "reachable seen" "ledger_step\<^sup>*\<^sup>* seen l" "fetch_run seen rid = Some r" "fetch_approval seen rid = Some a"
    "r_status r = PENDING_APPROVAL" "a_expires_at a \<le> now_at env 0" "uuid_at env 0 \<notin> set (event_ids l)"
    "vp_tenant_id approver = r_tenant_id r" "list_ex (\<lambda>role. role \<in> set (vp_roles approver)) roles"
    "self \<or> vp_actor_id approver \<noteq> r_actor_id r"
  shows "\<exists>h l' r'. pg_history (h @ [l']) \<and> seen \<in> set h \<and> last h = l
    \<and> pg_decide_approval env rid approved approver note roles self seen l = Inr (False, l')
    \<and> fetch_run l' rid = Some r' \<and> r_status r' = APPROVAL_EXPIRED"
proof -
  from history_reachable [OF assms(1)] obtain h0 where h0: "pg_history h0" "last h0 = seen" by blast
  with history_steps [OF assms(2)] obtain h1 where h: "pg_history (h0 @ h1)" "last (h0 @ h1) = l" by blast
  have seen: "seen \<in> set (h0 @ h1)" using h0 history_sound [OF h0(1)] last_in_set by fastforce
  have inv: "ledger_inv l" and str: "struct_inv l"
    using ledger_system.steps_extend [OF assms(2) reachable_inv [OF assms(1)]] ledger_inv_struct by blast+
  from steps_run [OF assms(2) reachable_inv [OF assms(1)] assms(3)] obtain rl where rl: "fetch_run l rid = Some rl" by metis
  have appr: "approval_ok r (Some a)" using run_inv_parts(3) [OF reachable_run [OF assms(1,3)]] assms(4) by simp
  let ?now = "now_at env 0"
  let ?l1 = "upd_runs (\<lambda>r. r_run_id r = rid) (expire_run_row ?now) (upd_approvals (\<lambda>a. a_run_id a = rid) (expire_approval_row ?now) l)"
  have fields: "r_run_id (expire_run_row ?now r) = r_run_id r" "run_key (expire_run_row ?now r) = run_key r"
    "a_run_id (expire_approval_row ?now a) = a_run_id a" for r a by (simp_all add: row_defs run_key_def)
  have l1: "fetch_run ?l1 rid = Some (expire_run_row ?now rl)" "struct_inv ?l1"
    using view_upd_runs [of "expire_run_row ?now"] view_upd_approvals [of "expire_approval_row ?now"] rl fetch_run_id [OF rl]
    by (simp_all add: fields view_eq struct_inv_upd_runs struct_inv_upd_approvals str)
  have "json_error True (approval_expired_payload (a_expires_at a)) = None" by (simp add: approval_expired_payload_def)
  from append_event_enabled [OF this l1(1) _ l1(2), of "uuid_at env 0" "''approval.expired''" "isoformat (now_at env 1)"] assms(7)
  obtain l' x where l': "append_event rid ''approval.expired'' (approval_expired_payload (a_expires_at a))
      (isoformat (now_at env 1)) (uuid_at env 0) ?l1 = Inr l'" "fetch_run l' rid = Some (anchor_run_row x (expire_run_row ?now rl))"
    by auto
  have decided: "pg_decide_approval env rid approved approver note roles self seen l = Inr (False, l')"
    using assms(3-10) appr l'(1) by (simp add: pg_decide_approval_def approval_ok_def started_def Let_def)
  have "pg_history ((h0 @ h1) @ [l'])"
    using h seen decided by (intro pg_history.commit [OF h(1) seen] pg_commit.decide) (simp only: h(2))
  with seen h(2) decided l'(2) show ?thesis
    by (intro exI [of _ "h0 @ h1"] exI [of _ l'] exI [of _ "anchor_run_row x (expire_run_row ?now rl)"])
      (simp add: anchor_run_row_def expire_run_row_def)
qed

theorem postgres_expiry_overwrites_the_outcome_witness:
  "\<exists>h l' r r'. pg_history (h @ [l']) \<and> fetch_run (last h) ''r1'' = Some r \<and> r_status r = EXECUTING
     \<and> fetch_run l' ''r1'' = Some r' \<and> r_status r' = APPROVAL_EXPIRED"
proof -
  from demo_request_ok obtain r a where ra: "fetch_run (ledger_after demo_request) ''r1'' = Some r"
      "fetch_approval (ledger_after demo_request) ''r1'' = Some a" "r_actor_id r = ''alice''" "r_tenant_id r = ''acme''"
      "r_status r = PENDING_APPROVAL" "a_expires_at a = 3610000000"
    by (auto simp: demo_pending_ok_def split: option.splits)
  obtain rc where rc: "fetch_run (ledger_after demo_claim) ''r1'' = Some rc" "r_status rc = EXECUTING" by (rule demo_run_claimed)
  have ids: "event_ids (ledger_after demo_claim) = [''e1'', ''e2'', ''e3'', ''e4'', ''e5'', ''e6'']"
    by (rule demo_claimed) (simp add: ledger_after_Inr)
  have "\<exists>h l' r'. pg_history (h @ [l']) \<and> ledger_after demo_request \<in> set h \<and> last h = ledger_after demo_claim
    \<and> pg_decide_approval (demo_env 4000 [''e9'']) ''r1'' True demo_approver ''late'' [''manager''] False
        (ledger_after demo_request) (ledger_after demo_claim) = Inr (False, l')
    \<and> fetch_run l' ''r1'' = Some r' \<and> r_status r' = APPROVAL_EXPIRED"
    by (rule postgres_expiry_overwrites_the_outcome [OF reachable_request demo_request_claims ra(1,2,5)])
      (simp_all add: ra ids demo_env_def demo_approver_def)
  with rc show ?thesis by metis
qed

end
