(* ===== verification/Postgres_Migrate.thy ===== *)
theory Postgres_Migrate
  imports Postgres_Props
begin

text \<open>
  The migration of the PostgreSQL ledger and the text of its statements: what anchoring a run
  without a count accepts, and that a translated statement has the parameters of the original.
\<close>

section \<open>The migration and the anchors\<close>

lemma verify_loop_last_hash:
  "verify_loop rid p es = Inr (Some q) \<Longrightarrow> es \<noteq> [] \<Longrightarrow> e_hash (last es) = q"
proof (induction es arbitrary: p)
  case (Cons e es)
  then obtain h where h: "e_hash e = Some h" "verify_loop rid (Some h) es = Inr (Some q)"
    by (auto simp: str_opt_def split: if_splits)
  show ?case
  proof (cases "es = []")
    case True
    with h show ?thesis by simp
  next
    case False
    with Cons.IH [OF h(2)] show ?thesis by simp
  qed
qed simp

lemma verify_loop_take: "verify_loop rid p es = Inr (Some q) \<Longrightarrow> \<exists>q'. verify_loop rid p (take n es) = Inr (Some q')"
  using verify_loop_append [of rid p "take n es" "drop n es"]
  by (cases "verify_loop rid p (take n es)") (auto split: option.splits)

text \<open>The migration of the PostgreSQL ledger anchors a run whose count is zero to whatever
  events it has: a log from which the last events were deleted, together with a zeroed count,
  verifies once the ledger has been opened again. A ledger whose chains verify is left as it is.\<close>

theorem postgres_reanchors_truncated_logs:
  assumes "chains_ok l" "fetch_run l rid = Some r" "0 < n" "n \<le> length (run_events l rid)"
    "fetch_run l' rid = Some r'" "r_event_count r' = 0" "run_events l' rid = take n (run_events l rid)"
  shows "verify_event_chain (anchor_unanchored l') rid = Inr True \<and> anchor_unanchored l = l"
proof
  from assms(1,2) obtain q where "verify_loop rid None (run_events l rid) = Inr (Some q)" by (auto simp: chains_ok_def chain_ok_def)
  from verify_loop_take [OF this] obtain q' where q': "verify_loop rid None (run_events l' rid) = Inr (Some q')"
    unfolding assms(7) by blast
  have es: "run_events l' rid \<noteq> []" using assms(3,4,7) by auto
  let ?r = "r'\<lparr>r_event_count := length (run_events l' rid), r_event_head_hash := e_hash (last (run_events l' rid))\<rparr>"
  have "view (anchor_unanchored l') rid = (Some ?r, run_events l' rid, fetch_approval l' rid)"
    unfolding anchor_unanchored_def using es assms(5,6) fetch_run_id [OF assms(5)] by (subst view_upd_runs) simp_all
  then have v: "fetch_run (anchor_unanchored l') rid = Some ?r" "run_events (anchor_unanchored l') rid = run_events l' rid"
    by (simp_all add: view_eq)
  show "verify_event_chain (anchor_unanchored l') rid = Inr True"
    unfolding verify_event_chain_iff using v q' verify_loop_last_hash [OF q' es] by (simp add: chain_ok_def)
  have none: "\<not> (r_event_count x = 0 \<and> run_events l (r_run_id x) \<noteq> [])" if "x \<in> set (l_runs l)" for x
  proof -
    from that assms(1) have "fetch_run l (r_run_id x) = Some x" by (simp add: chains_ok_def fetch_run_mem)
    with assms(1) have "r_event_count x = length (run_events l (r_run_id x))" by (simp add: chains_ok_def chain_ok_def)
    then show ?thesis by simp
  qed
  then have "sql_update (\<lambda>x. r_event_count x = 0 \<and> run_events l (r_run_id x) \<noteq> []) f (l_runs l) = l_runs l" for f
    by (intro sql_update_none) simp
  then show "anchor_unanchored l = l" by (simp add: anchor_unanchored_def upd_runs_def)
qed

lemma chains_ok_reachable: "reachable l \<Longrightarrow> chains_ok l"
  using history_reachable history_sound last_in_set by metis

text \<open>The pending demo run without its last event and without its count.\<close>

definition demo_truncated :: ledger where
  "demo_truncated = (ledger_after demo_request)\<lparr>
     l_events := take 2 (l_events (ledger_after demo_request)),
     l_runs := map (\<lambda>r. r\<lparr>r_event_count := 0\<rparr>) (l_runs (ledger_after demo_request))\<rparr>"

theorem postgres_reanchors_truncated_logs_witness:
  "verify_event_chain (anchor_unanchored demo_truncated) ''r1'' = Inr True \<and> length (run_events demo_truncated ''r1'') = 2
     \<and> length (run_events (ledger_after demo_request) ''r1'') = 3"
proof -
  let ?l = "ledger_after demo_request"
  obtain r where r: "fetch_run ?l ''r1'' = Some r" using demo_request_ok by (auto simp: demo_pending_ok_def split: option.splits)
  have three: "length (run_events ?l ''r1'') = 3" and two: "run_events demo_truncated ''r1'' = take 2 (run_events ?l ''r1'')"
    by (simp_all add: demo_truncated_def created_simps requested_simps)
  have "fetch_run demo_truncated ''r1'' = Some (r\<lparr>r_event_count := 0\<rparr>)"
    using r fetch_by_sql_update [of r_run_id "\<lambda>r. r\<lparr>r_event_count := 0\<rparr>" "''r1''" "\<lambda>_. True" "l_runs ?l"]
    by (simp add: demo_truncated_def sql_update_def)
  from postgres_reanchors_truncated_logs [OF chains_ok_reachable [OF reachable_request] r _ _ this _ two] three two
  show ?thesis by simp
qed

section \<open>The text of a statement\<close>

definition cons_part :: "char \<Rightarrow> string list \<Rightarrow> string list" where
  "cons_part c parts = (case parts of [] \<Rightarrow> [[c]] | p # ps \<Rightarrow> (c # p) # ps)"

text \<open>The text between the parameters, as SQLite reads \<open>?\<close> and as psycopg reads \<open>%s\<close> (and \<open>%%\<close>).\<close>

fun qmark_parts :: "string \<Rightarrow> string list" where
  "qmark_parts [] = [[]]"
| "qmark_parts (c # cs) = (if c = CHR 0x3F then [] # qmark_parts cs else cons_part c (qmark_parts cs))"

fun pyformat_parts :: "string \<Rightarrow> string list option" where
  "pyformat_parts [] = Some [[]]"
| "pyformat_parts (c # cs) =
     (if c \<noteq> CHR 0x25 then map_option (cons_part c) (pyformat_parts cs)
      else case cs of
        [] \<Rightarrow> None
      | d # ds \<Rightarrow>
          if d = CHR ''s'' then map_option ((#) []) (pyformat_parts ds)
          else if d = CHR 0x25 then map_option (cons_part d) (pyformat_parts ds)
          else None)"

lemma qmark_parts_neq_Nil: "qmark_parts s \<noteq> []"
  by (cases s) (auto simp: cons_part_def split: list.split)

lemma length_cons_part: "ps \<noteq> [] \<Longrightarrow> length (cons_part c ps) = length ps"
  by (cases ps) (simp_all add: cons_part_def)

lemma length_qmark_parts: "length (qmark_parts s) = Suc (length (filter (\<lambda>c. c = CHR 0x3F) s))"
  by (induction s) (simp_all add: length_cons_part qmark_parts_neq_Nil)

lemma translated_parts:
  "CHR 0x25 \<notin> set s \<Longrightarrow> pyformat_parts (replace_char (CHR 0x3F) ''%s'' s) = Some (qmark_parts s)"
  by (induction s) (auto simp: replace_char_def)

lemma filter_strip: "(\<And>c. py_isspace c \<Longrightarrow> \<not> P c) \<Longrightarrow> filter P (strip s) = filter P s"
proof -
  assume space: "\<And>c. py_isspace c \<Longrightarrow> \<not> P c"
  have drop: "filter P (dropWhile py_isspace t) = filter P t" for t
    by (induction t) (auto simp: space)
  have "filter P (rev (dropWhile py_isspace (rev t))) = filter P t" for t
    using drop [of "rev t"] by (simp add: rev_filter [symmetric])
  with drop show ?thesis by (simp add: strip_def lstrip_def rstrip_def)
qed

text \<open>The PostgreSQL text of a statement is the SQLite text with its parameters in the same
  places: for a statement without a percent sign psycopg reads, between the parameters, exactly
  the text SQLite reads (up to the surrounding space and the conflict clause), and as many
  parameters; only \<open>BEGIN IMMEDIATE\<close> is dropped.\<close>

theorem postgres_text_has_the_same_parameters:
  assumes "CHR 0x25 \<notin> set sql"
  shows "pg_execute sql = (if strip sql = ''BEGIN IMMEDIATE'' then NoopCursor
      else RawExecute (replace_char (CHR 0x3F) ''%s'' (conflict_syntax (strip sql))))
    \<and> pyformat_parts (replace_char (CHR 0x3F) ''%s'' (conflict_syntax (strip sql))) = Some (qmark_parts (conflict_syntax (strip sql)))
    \<and> length (qmark_parts (conflict_syntax (strip sql))) = length (qmark_parts sql)"
proof (intro conjI)
  let ?s = "strip sql"
  have plain: "CHR 0x25 \<notin> set (conflict_syntax ?s)"
    using assms set_strip [of sql] set_drop_subset [of "length insert_or_ignore" ?s] by (auto simp: conflict_syntax_def)
  then show "pyformat_parts (replace_char (CHR 0x3F) ''%s'' (conflict_syntax ?s)) = Some (qmark_parts (conflict_syntax ?s))"
    by (rule translated_parts)
  let ?q = "filter (\<lambda>c. c = CHR 0x3F)"
  have "?q (conflict_syntax ?s) = ?q ?s"
  proof (cases "startswith ?s insert_or_ignore")
    case True
    then obtain rest where rest: "?s = insert_or_ignore @ rest" by (auto simp: startswith_iff)
    show ?thesis unfolding conflict_syntax_def if_P [OF True] unfolding rest by (simp add: insert_or_ignore_def)
  qed (simp add: conflict_syntax_def)
  moreover have "?q ?s = ?q sql" by (rule filter_strip) (auto simp: py_isspace_def code_point_def)
  ultimately show "length (qmark_parts (conflict_syntax ?s)) = length (qmark_parts sql)" by (simp add: length_qmark_parts)
qed (simp add: pg_execute_def Let_def)

theorem postgres_text_has_the_same_parameters_witness:
  "pg_execute '' INSERT OR IGNORE INTO action_runs (run_id, tenant_id) VALUES (?, ?) ''
     = RawExecute ''INSERT INTO action_runs (run_id, tenant_id) VALUES (%s, %s) ON CONFLICT DO NOTHING''"
proof -
  let ?sql = "'' INSERT OR IGNORE INTO action_runs (run_id, tenant_id) VALUES (?, ?) ''"
  have "CHR 0x25 \<notin> set ?sql" by simp
  from postgres_text_has_the_same_parameters [OF this] show ?thesis
    by (simp add: strip_def lstrip_def rstrip_def py_isspace_def code_point_def conflict_syntax_def insert_or_ignore_def replace_char_def)
qed

end
