(* ===== verification/Schema.thy ===== *)
theory Schema
  imports Postgres Ledger_Migrate
begin

text \<open>
  The schema migrations (\<open>_migrate\<close>, \<open>_columns\<close> and \<open>_add_column\<close> of the SQLite ledger, \<open>_migrate\<close> of the
  PostgreSQL ledger). A catalog has the column definitions of each table, as the text between
  the commas, and the stored schema version; table constraints and indexes are left out.
  Statements are idempotent: \<open>IF NOT EXISTS\<close>, or a look at the columns first.
\<close>

record catalog =
  cat_tables :: "(string \<times> string list) list"
  cat_version :: "string option"

text \<open>\<open>definition.split()[0]\<close>.\<close>

definition column_name :: "string \<Rightarrow> string" where
  "column_name column = takeWhile (\<lambda>c. \<not> py_isspace c) (lstrip column)"

definition columns_of :: "catalog \<Rightarrow> string \<Rightarrow> string list" where
  "columns_of cat table = (case map_of (cat_tables cat) table of None \<Rightarrow> [] | Some cols \<Rightarrow> map column_name cols)"

definition create_table :: "string \<times> string list \<Rightarrow> catalog \<Rightarrow> catalog" where
  "create_table t cat =
     (if fst t \<in> fst ` set (cat_tables cat) then cat else cat\<lparr>cat_tables := cat_tables cat @ [t]\<rparr>)"

definition extend_table :: "string \<Rightarrow> string \<Rightarrow> (string \<times> string list) list \<Rightarrow> (string \<times> string list) list" where
  "extend_table table column = map (\<lambda>(t, cols). (t, if t = table then cols @ [column] else cols))"

definition add_column :: "string \<times> string \<Rightarrow> catalog \<Rightarrow> catalog" where
  "add_column tc cat =
     (if column_name (snd tc) \<in> set (columns_of cat (fst tc)) then cat
      else cat\<lparr>cat_tables := extend_table (fst tc) (snd tc) (cat_tables cat)\<rparr>)"

definition set_version :: "string \<Rightarrow> catalog \<Rightarrow> catalog" where
  "set_version v cat = cat\<lparr>cat_version := Some v\<rparr>"

definition schema_version :: int where "schema_version = 2"

section \<open>SQLite\<close>

definition metadata_table :: "string \<times> string list" where
  "metadata_table = (''ledger_metadata'', [''key TEXT PRIMARY KEY'', ''value TEXT NOT NULL''])"

definition run_columns :: "string \<Rightarrow> string list" where
  "run_columns counter = [
     ''run_id TEXT PRIMARY KEY'', ''tenant_id TEXT NOT NULL'', ''actor_id TEXT NOT NULL'', ''action_name TEXT NOT NULL'',
     ''risk TEXT NOT NULL'', ''idempotency_key TEXT NOT NULL'', ''request_fingerprint TEXT NOT NULL'', ''status TEXT NOT NULL'',
     ''arguments_json TEXT NOT NULL'', ''roles_json TEXT NOT NULL'', ''evidence_json TEXT NOT NULL'',
     ''metadata_json TEXT NOT NULL DEFAULT '' @ quoted ''{}'', ''policy_version TEXT'', ''policy_digest TEXT'', ''reason TEXT'',
     ''result_json TEXT'', ''execution_owner TEXT'', ''lease_expires_at TEXT'', ''attempt '' @ counter,
     ''duplicate_count '' @ counter, ''event_count '' @ counter, ''event_head_hash TEXT'', ''created_at TEXT NOT NULL'',
     ''updated_at TEXT NOT NULL'']"

definition event_columns :: "string \<Rightarrow> string \<Rightarrow> string list" where
  "event_columns sequence run_id = [sequence, ''event_id TEXT NOT NULL UNIQUE'', run_id, ''event_type TEXT NOT NULL'',
     ''payload_json TEXT NOT NULL'', ''previous_hash TEXT'', ''event_hash TEXT'', ''created_at TEXT NOT NULL'']"

definition approval_columns :: "string \<Rightarrow> string list" where
  "approval_columns run_id = [run_id, ''status TEXT NOT NULL'', ''request_fingerprint TEXT NOT NULL'',
     ''policy_version TEXT NOT NULL'', ''policy_digest TEXT'', ''requested_actor_id TEXT NOT NULL'', ''approver_id TEXT'',
     ''approver_auth_source TEXT'', ''note TEXT'', ''requested_at TEXT NOT NULL'', ''expires_at TEXT NOT NULL'', ''decided_at TEXT'']"

definition sqlite_tables :: "(string \<times> string list) list" where
  "sqlite_tables = [metadata_table, (''action_runs'', run_columns ''INTEGER NOT NULL DEFAULT 0''),
     (''action_events'', event_columns ''sequence INTEGER PRIMARY KEY AUTOINCREMENT'' ''run_id TEXT NOT NULL''),
     (''approvals'', approval_columns ''run_id TEXT PRIMARY KEY'')]"

definition sqlite_added_columns :: "(string \<times> string) list" where
  "sqlite_added_columns = [
     (''action_runs'', ''request_fingerprint TEXT''), (''action_runs'', ''policy_digest TEXT''),
     (''action_runs'', ''metadata_json TEXT NOT NULL DEFAULT '' @ quoted ''{}''), (''action_runs'', ''execution_owner TEXT''),
     (''action_runs'', ''lease_expires_at TEXT''), (''action_runs'', ''attempt INTEGER NOT NULL DEFAULT 0''),
     (''action_runs'', ''duplicate_count INTEGER NOT NULL DEFAULT 0''),
     (''action_runs'', ''event_count INTEGER NOT NULL DEFAULT 0''), (''action_runs'', ''event_head_hash TEXT''),
     (''action_events'', ''previous_hash TEXT''), (''action_events'', ''event_hash TEXT''),
     (''approvals'', ''request_fingerprint TEXT''), (''approvals'', ''policy_version TEXT''), (''approvals'', ''policy_digest TEXT''),
     (''approvals'', ''requested_actor_id TEXT''), (''approvals'', ''approver_auth_source TEXT''), (''approvals'', ''expires_at TEXT'')]"

definition migrate_catalog :: "(string \<times> string list) list \<Rightarrow> (string \<times> string) list \<Rightarrow> catalog \<Rightarrow> catalog" where
  "migrate_catalog tables added cat = fold add_column added (fold create_table tables cat)"

text \<open>Opening a SQLite ledger: the schema, the backfill of the rows, the version.\<close>

definition sqlite_migrate :: "catalog \<Rightarrow> ledger \<Rightarrow> (catalog \<times> ledger) res" where
  "sqlite_migrate cat l =
     (let cat' = migrate_catalog sqlite_tables sqlite_added_columns cat in
      res_bind (backfill_v1 l) (\<lambda>l'. Inr (set_version (int_str schema_version) cat', l')))"

section \<open>PostgreSQL\<close>

definition postgres_tables :: "(string \<times> string list) list" where
  "postgres_tables = [metadata_table, (''action_runs'', run_columns ''BIGINT NOT NULL DEFAULT 0''),
     (''action_events'', event_columns ''sequence BIGSERIAL PRIMARY KEY'' ''run_id TEXT NOT NULL REFERENCES action_runs(run_id)''),
     (''approvals'', approval_columns ''run_id TEXT PRIMARY KEY REFERENCES action_runs(run_id)'')]"

definition postgres_added_columns :: "(string \<times> string) list" where
  "postgres_added_columns = [
     (''action_runs'', ''duplicate_count BIGINT NOT NULL DEFAULT 0''),
     (''action_runs'', ''metadata_json TEXT NOT NULL DEFAULT '' @ quoted ''{}''),
     (''action_runs'', ''event_count BIGINT NOT NULL DEFAULT 0''), (''action_runs'', ''event_head_hash TEXT'')]"

definition postgres_migrate :: "catalog \<Rightarrow> ledger \<Rightarrow> catalog \<times> ledger" where
  "postgres_migrate cat l =
     (set_version ''2'' (migrate_catalog postgres_tables postgres_added_columns cat), anchor_unanchored l)"

section \<open>What a migration does to an older catalog\<close>

definition has_columns :: "catalog \<Rightarrow> string \<times> string list \<Rightarrow> bool" where
  "has_columns cat t \<longleftrightarrow> fst t \<in> fst ` set (cat_tables cat) \<and> set (map column_name (snd t)) \<subseteq> set (columns_of cat (fst t))"

definition cat_le :: "catalog \<Rightarrow> catalog \<Rightarrow> bool" where
  "cat_le c c' \<longleftrightarrow> (\<forall>t cols. map_of (cat_tables c) t = Some cols \<longrightarrow> (\<exists>more. map_of (cat_tables c') t = Some (cols @ more)))"

text \<open>A catalog an earlier version left: of a table it has, only columns the migration adds are missing.\<close>

definition older_catalog :: "(string \<times> string list) list \<Rightarrow> (string \<times> string) list \<Rightarrow> catalog \<Rightarrow> bool" where
  "older_catalog tables added cat \<longleftrightarrow> list_all (\<lambda>(t, cols). map_of (cat_tables cat) t = None
     \<or> list_all (\<lambda>col. column_name col \<in> set (columns_of cat t)
         \<or> (t, column_name col) \<in> set (map (map_prod id column_name) added)) cols) tables"

lemma cat_le_refl [simp]: "cat_le c c"
  by (simp add: cat_le_def)

lemma cat_le_trans: "cat_le c c1 \<Longrightarrow> cat_le c1 c2 \<Longrightarrow> cat_le c c2"
  unfolding cat_le_def by (metis append.assoc)

lemma cat_le_columns:
  assumes "cat_le c c'"
  shows "set (columns_of c t) \<subseteq> set (columns_of c' t)"
proof (cases "map_of (cat_tables c) t")
  case (Some cols)
  with assms obtain more where "map_of (cat_tables c') t = Some (cols @ more)" by (auto simp: cat_le_def)
  with Some show ?thesis by (simp add: columns_of_def)
qed (simp add: columns_of_def)

lemma cat_le_tables: "cat_le c c' \<Longrightarrow> fst ` set (cat_tables c) \<subseteq> fst ` set (cat_tables c')"
  unfolding cat_le_def by (metis (no_types) dom_map_of_conv_image_fst domD domI subsetI)

lemma cat_le_create: "cat_le c (create_table t c)"
  by (cases t) (auto simp: cat_le_def create_table_def map_of_append map_add_Some_iff dest: map_of_SomeD)

lemma map_of_extend:
  "map_of (extend_table t col tabs) u = map_option (\<lambda>cols. if u = t then cols @ [col] else cols) (map_of tabs u)"
  by (induction tabs) (auto simp: extend_table_def)

lemma cat_le_add: "cat_le c (add_column tc c)"
  by (auto simp: cat_le_def add_column_def map_of_extend)

lemma created: "fst t \<in> fst ` set (cat_tables (create_table t c))"
  by (auto simp: create_table_def)

lemma added: "fst tc \<in> fst ` set (cat_tables c) \<Longrightarrow> column_name (snd tc) \<in> set (columns_of (add_column tc c) (fst tc))"
  by (cases "map_of (cat_tables c) (fst tc)")
    (auto simp: add_column_def columns_of_def map_of_extend map_of_eq_None_iff)

lemma fold_le:
  assumes "\<And>x c. cat_le c (f x c)"
  shows "cat_le c (fold f xs c)"
proof (induction xs arbitrary: c)
  case (Cons x xs)
  from cat_le_trans [OF assms Cons.IH] show ?case by simp
qed simp

lemma fold_reaches:
  assumes "\<And>x c. cat_le c (f x c)" "\<And>c. Q c \<Longrightarrow> P (f x c)" "\<And>c c'. cat_le c c' \<Longrightarrow> P c \<Longrightarrow> P c'"
    "\<And>c c'. cat_le c c' \<Longrightarrow> Q c \<Longrightarrow> Q c'" "x \<in> set xs" "Q c"
  shows "P (fold f xs c)"
  using assms(5,6)
proof (induction xs arbitrary: c)
  case (Cons y ys)
  show ?case
  proof (cases "x = y")
    case True
    with assms(2) Cons.prems(2) have "P (f y c)" by simp
    with assms(3) [OF fold_le [of f "f y c" ys, OF assms(1)]] show ?thesis by simp
  next
    case False
    with Cons.IH [of "f y c"] Cons.prems assms(4) [OF assms(1)] show ?thesis by simp
  qed
qed simp

lemma migrate_le: "cat_le cat (migrate_catalog tables added cat)"
  unfolding migrate_catalog_def
  using cat_le_trans [OF fold_le [of create_table] fold_le [of add_column]] cat_le_create cat_le_add by blast

lemma migrated_table: "t \<in> set tables \<Longrightarrow> fst t \<in> fst ` set (cat_tables (fold create_table tables cat))"
  by (rule fold_reaches [where f = create_table and x = t and Q = "\<lambda>_. True"])
    (use cat_le_create created cat_le_tables in blast)+

lemma migrated_column:
  assumes "tc \<in> set added" "fst tc \<in> fst ` set tables"
  shows "column_name (snd tc) \<in> set (columns_of (migrate_catalog tables added cat) (fst tc))"
  unfolding migrate_catalog_def
proof (rule fold_reaches [where f = add_column and x = tc and Q = "\<lambda>c. fst tc \<in> fst ` set (cat_tables c)"])
  from assms(2) migrated_table show "fst tc \<in> fst ` set (cat_tables (fold create_table tables cat))" by fastforce
qed (use assms(1) cat_le_add cat_le_tables cat_le_columns Schema.added in blast)+

lemma created_columns:
  assumes "distinct (map fst tables)" "(t, cols) \<in> set tables" "map_of (cat_tables cat) t = None"
  shows "map_of (cat_tables (fold create_table tables cat)) t = Some cols"
  using assms
proof (induction tables arbitrary: cat)
  case (Cons u us)
  show ?case
  proof (cases "u = (t, cols)")
    case True
    with Cons.prems(3) have one: "map_of (cat_tables (create_table u cat)) t = Some cols"
      by (auto simp: create_table_def map_of_append map_of_eq_None_iff map_add_Some_iff)
    have same: "map_of (cat_tables (fold create_table vs c)) t = map_of (cat_tables c) t" if "t \<notin> fst ` set vs" for vs c
      using that by (induction vs arbitrary: c) (auto simp: create_table_def map_of_append map_add_def split: option.split)
    from Cons.prems(1) True have "t \<notin> fst ` set us" by auto
    with same [of us "create_table u cat"] one show ?thesis by simp
  next
    case False
    with Cons.prems have "fst u \<noteq> t" "(t, cols) \<in> set us" by (auto simp: image_iff)
    then have "map_of (cat_tables (create_table u cat)) t = None"
      using Cons.prems(3) by (auto simp: create_table_def map_of_append map_add_def)
    with Cons.IH [OF _ \<open>(t, cols) \<in> set us\<close> this] Cons.prems(1) show ?thesis by simp
  qed
qed simp

lemma migrated_has_columns:
  assumes "distinct (map fst tables)" "fst ` set added \<subseteq> fst ` set tables" "older_catalog tables added cat" "t \<in> set tables"
  shows "has_columns (migrate_catalog tables added cat) t"
proof -
  let ?m = "migrate_catalog tables added cat"
  obtain u cols where t: "t = (u, cols)" by (cases t)
  have le: "cat_le (fold create_table tables cat) ?m" unfolding migrate_catalog_def by (rule fold_le) (rule cat_le_add)
  have "column_name col \<in> set (columns_of ?m u)" if col: "col \<in> set cols" for col
  proof (cases "map_of (cat_tables cat) u")
    case None
    from created_columns [OF assms(1) assms(4) [unfolded t] None] col
    have "column_name col \<in> set (columns_of (fold create_table tables cat) u)" by (simp add: columns_of_def)
    with cat_le_columns [OF le] show ?thesis by blast
  next
    case (Some old)
    have "(u, cols) \<in> set tables" using assms(4) t by simp
    with assms(3) have "map_of (cat_tables cat) u = None \<or> list_all (\<lambda>col. column_name col \<in> set (columns_of cat u)
        \<or> (u, column_name col) \<in> set (map (map_prod id column_name) added)) cols"
      unfolding older_catalog_def list_all_iff by blast
    with Some col have "column_name col \<in> set (columns_of cat u) \<or> (u, column_name col) \<in> map_prod id column_name ` set added"
      by (simp add: list_all_iff)
    then show ?thesis
    proof
      assume "column_name col \<in> set (columns_of cat u)"
      with cat_le_columns [OF migrate_le] show ?thesis by blast
    next
      assume "(u, column_name col) \<in> map_prod id column_name ` set added"
      then obtain c where c: "(u, c) \<in> set added" "column_name c = column_name col" by auto
      have "fst (u, c) \<in> fst ` set tables" using imageI [OF c(1), of fst] assms(2) by (rule rev_subsetD)
      from migrated_column [OF c(1) this] c(2) show ?thesis by simp
    qed
  qed
  then have "set (map column_name cols) \<subseteq> set (columns_of ?m u)" by (simp add: image_subset_iff)
  moreover have "fst t \<in> fst ` set (cat_tables ?m)" using cat_le_tables [OF le] migrated_table [OF assms(4)] by (rule subsetD)
  ultimately show ?thesis by (simp add: has_columns_def t)
qed

lemma fold_stays: "(\<And>x. x \<in> set xs \<Longrightarrow> f x c = c) \<Longrightarrow> fold f xs c = c"
  by (induction xs) auto

lemma migrated_again:
  assumes "fst ` set added \<subseteq> fst ` set tables"
  shows "migrate_catalog tables added (migrate_catalog tables added cat) = migrate_catalog tables added cat"
proof -
  let ?m = "migrate_catalog tables added cat"
  have le: "cat_le (fold create_table tables cat) ?m" unfolding migrate_catalog_def by (rule fold_le) (rule cat_le_add)
  have "create_table t ?m = ?m" if "t \<in> set tables" for t
  proof -
    have "fst t \<in> fst ` set (cat_tables ?m)" using cat_le_tables [OF le] migrated_table [OF that] by (rule subsetD)
    then show ?thesis unfolding create_table_def by (rule if_P)
  qed
  then have create: "fold create_table tables ?m = ?m" by (rule fold_stays)
  have "add_column tc ?m = ?m" if tc: "tc \<in> set added" for tc
  proof -
    have "fst tc \<in> fst ` set tables" using imageI [OF tc, of fst] assms by (rule rev_subsetD)
    from migrated_column [OF tc this, of cat] show ?thesis unfolding add_column_def by (rule if_P)
  qed
  then have "fold add_column added ?m = ?m" by (rule fold_stays)
  with create show ?thesis by (simp only: migrate_catalog_def [of tables added ?m])
qed

lemma schema_facts:
  "distinct (map fst sqlite_tables)" "fst ` set sqlite_added_columns \<subseteq> fst ` set sqlite_tables"
  "distinct (map fst postgres_tables)" "fst ` set postgres_added_columns \<subseteq> fst ` set postgres_tables"
  by (simp_all add: sqlite_tables_def postgres_tables_def metadata_table_def sqlite_added_columns_def postgres_added_columns_def)

lemma version_columns: "columns_of (set_version v c) t = columns_of c t"
  by (simp add: columns_of_def set_version_def)

lemma version_create: "create_table t (set_version v c) = set_version v (create_table t c)"
  by (simp add: create_table_def set_version_def)

lemma version_add: "add_column t (set_version v c) = set_version v (add_column t c)"
  unfolding add_column_def version_columns by (simp add: set_version_def)

lemma version_migrate: "migrate_catalog tables added (set_version v c) = set_version v (migrate_catalog tables added c)"
proof -
  have "fold create_table ts (set_version v d) = set_version v (fold create_table ts d)" for ts d
    by (induction ts arbitrary: d) (simp_all add: version_create)
  moreover have "fold add_column ts (set_version v d) = set_version v (fold add_column ts d)" for ts d
    by (induction ts arbitrary: d) (simp_all add: version_add)
  ultimately show ?thesis by (simp add: migrate_catalog_def)
qed

lemma version_le: "cat_le c (set_version v d) \<longleftrightarrow> cat_le c d"
  by (simp add: cat_le_def set_version_def)

text \<open>Opening a ledger completes its schema: after the migration of either backend every table has
  every column its operations use, the tables and columns that were there are still there, and
  a second migration changes nothing.\<close>

theorem migrations_complete_the_schema:
  assumes "tables = sqlite_tables \<and> added = sqlite_added_columns \<or> tables = postgres_tables \<and> added = postgres_added_columns"
    "older_catalog tables added cat"
  shows "(\<forall>t \<in> set tables. has_columns (set_version v (migrate_catalog tables added cat)) t)
    \<and> cat_le cat (set_version v (migrate_catalog tables added cat))
    \<and> migrate_catalog tables added (set_version v (migrate_catalog tables added cat)) = set_version v (migrate_catalog tables added cat)"
proof -
  have names: "distinct (map fst tables)" "fst ` set added \<subseteq> fst ` set tables" using assms(1) schema_facts by auto
  have "has_columns (migrate_catalog tables added cat) t" if "t \<in> set tables" for t
    by (rule migrated_has_columns [OF names assms(2) that])
  then have "\<forall>t \<in> set tables. has_columns (set_version v (migrate_catalog tables added cat)) t"
    by (auto simp: has_columns_def version_columns) (auto simp: set_version_def)
  then show ?thesis by (simp add: version_le migrate_le version_migrate migrated_again [OF names(2)])
qed

end
