(* ===== verification/Ledger_Types.thy ===== *)
theory Ledger_Types
  imports Ledger_Approvals
begin

text \<open>
  The type of what the tables hold: the form of digests, and the columns of a run that go
  together whatever operations wrote them.
\<close>

section \<open>Digests\<close>

definition hex_digits :: string where "hex_digits = ''0123456789abcdef''"

definition is_digest :: "string \<Rightarrow> bool" where
  "is_digest s \<longleftrightarrow> startswith s ''sha256:'' \<and> length s = 71 \<and> set (drop 7 s) \<subseteq> set hex_digits"

lemma length_rounds: "length (rounds kws abc) = 8"
  by (induction kws abc rule: rounds.induct) (simp_all add: Let_def del: split_paired_All)

lemma length_compress_eight:
  assumes "length hs = 8"
  shows "length (compress hs block) = 8"
proof -
  from assms obtain a b c d e f g h where "hs = [a, b, c, d, e, f, g, h]"
    by (auto simp: length_Suc_conv eval_nat_numeral)
  then show ?thesis by (simp only: compress.simps length_map length_zip length_rounds) simp
qed

lemma length_blocks_eight: "length hs = 8 \<Longrightarrow> length (sha256_blocks hs ws) = 8"
proof (induction hs ws rule: sha256_blocks.induct)
  case (1 hs ws)
  with length_compress_eight show ?case
    by (subst sha256_blocks.simps) (cases "length ws < 16"; simp del: sha256_blocks.simps compress.simps)
qed

lemma digit_char_hex: "d < 16 \<Longrightarrow> digit_char d \<in> set hex_digits"
proof -
  assume "d < 16"
  then have "d \<in> set [0..<16]" by simp
  moreover have "list_all (\<lambda>d. digit_char d \<in> set hex_digits) [0..<16]" by code_simp
  ultimately show ?thesis unfolding list_all_iff by blast
qed

lemma word_hex_form: "length (word_hex w) = 8 \<and> set (word_hex w) \<subseteq> set hex_digits"
  by (auto simp: word_hex_def hex_byte_def Let_def intro!: digit_char_hex)

lemma digest_text_form: "is_digest (digest_text t)"
proof -
  have "length (concat (map word_hex ws)) = 8 * length ws \<and> set (concat (map word_hex ws)) \<subseteq> set hex_digits" for ws
    using word_hex_form by (induction ws) auto
  moreover have "length (sha256_words m) = 8" for m
    unfolding sha256_words_def by (rule length_blocks_eight) (simp add: sha256_H0_def)
  ultimately show ?thesis by (auto simp: is_digest_def digest_text_def sha256_hexdigest_def)
qed

section \<open>Rows\<close>

lemma verified_hashes:
  "verify_loop rid p es = Inr (Some q) \<Longrightarrow> e \<in> set es \<Longrightarrow> \<exists>h. e_hash e = Some h \<and> is_digest h"
proof (induction es arbitrary: p)
  case (Cons x es)
  from Cons.prems(1) have x: "e_hash x = Some (digest_text (canonical_text (event_document rid (e_type x) (json_norm True (e_payload x)) p (e_created x))))"
    and rest: "verify_loop rid (Some (str_opt (e_hash x))) es = Inr (Some q)"
    by (auto simp: event_hash_def split: if_splits)
  show ?case
  proof (cases "e = x")
    case True
    with x digest_text_form show ?thesis by blast
  next
    case False
    with Cons.prems(2) Cons.IH [OF rest] show ?thesis by simp
  qed
qed simp

definition optional_iff :: "bool \<Rightarrow> 'a option \<Rightarrow> bool" where
  "optional_iff b v \<longleftrightarrow> (b \<longleftrightarrow> v \<noteq> None)"

text \<open>C38: what the tables hold is well-formed, whatever operations wrote them: the arguments of a
  run are a JSON object in canonical form and its JSON columns can be digested; an owner and a
  lease exist exactly while the run executes; its attempt says whether it was started; an
  approval exists exactly if the status implies one was requested, up to a started run; its
  event count is the number of its events, at least one, every event carries a SHA-256 digest,
  and the anchor is the digest of the last.\<close>

theorem stored_rows_are_well_formed:
  assumes "reachable l" "fetch_run l rid = Some r"
  shows "(\<exists>kvs. r_arguments r = PDict kvs) \<and> json_norm True (r_arguments r) = r_arguments r
    \<and> json_error True (r_arguments r) = None \<and> json_error True (r_metadata r) = None
    \<and> optional_iff (r_status r = EXECUTING) (r_execution_owner r) \<and> optional_iff (r_status r = EXECUTING) (r_lease_expires_at r)
    \<and> r_attempt r = (if r_status r \<in> {EXECUTING, UNKNOWN, COMPLETED, FAILED} then 1 else 0)
    \<and> (started (r_status r) \<or> optional_iff (r_status r \<in> {PENDING_APPROVAL, APPROVED, REJECTED, APPROVAL_EXPIRED}) (fetch_approval l rid))
    \<and> r_event_count r = length (run_events l rid) \<and> run_events l rid \<noteq> []
    \<and> list_all (\<lambda>e. e_run e = rid \<and> map_option is_digest (e_hash e) = Some True) (run_events l rid)
    \<and> r_event_head_hash r = e_hash (last (run_events l rid))"
proof -
  note inv = reachable_run [OF assms]
  from run_inv_parts(1) [OF inv] have loop: "verify_loop rid None (run_events l rid) = Inr (Some (r_event_head_hash r))"
    and count: "r_event_count r = length (run_events l rid)" by (simp_all add: chain_ok_def)
  have some: "run_events l rid \<noteq> []" using run_inv_replay [OF inv] by (auto simp: log_of_def replay_def)
  have "map_option is_digest (e_hash e) = Some True" if "e \<in> set (run_events l rid)" for e
    using verified_hashes [OF loop that] by auto
  moreover have "e_run e = rid" if "e \<in> set (run_events l rid)" for e
    using that ledger_inv_struct [OF reachable_inv [OF assms(1)]] by (auto simp: run_events_filter)
  ultimately have events: "list_all (\<lambda>e. e_run e = rid \<and> map_option is_digest (e_hash e) = Some True) (run_events l rid)"
    by (simp add: list_all_iff)
  have head: "r_event_head_hash r = e_hash (last (run_events l rid))"
    using verify_loop_None_head [OF loop] some verified_hashes [OF loop last_in_set [OF some]]
    by (auto simp: head_hash_def str_opt_def)
  have "started (r_status r) \<or> optional_iff (r_status r \<in> {PENDING_APPROVAL, APPROVED, REJECTED, APPROVAL_EXPIRED}) (fetch_approval l rid)"
    using run_inv_parts(3) [OF inv] by (cases "r_status r") (auto simp: approval_ok_def started_def optional_iff_def split: option.splits)
  moreover have "r_attempt r = (if r_status r \<in> {EXECUTING, UNKNOWN, COMPLETED, FAILED} then 1 else 0)"
    using attempt_of_status [OF inv] by (simp add: started_def)
  ultimately show ?thesis
    using run_inv_parts(4,5) [OF inv] count some events head
    by (auto simp: columns_ok_def lease_ok_def optional_iff_def simp del: json_norm_PDict)
qed

theorem stored_rows_are_well_formed_witness:
  "\<exists>r. fetch_run (ledger_after demo_claim) ''r1'' = Some r \<and> r_attempt r = 1 \<and> r_execution_owner r = Some ''w1''
     \<and> map_option is_digest (r_event_head_hash r) = Some True"
proof -
  obtain r where r: "fetch_run (ledger_after demo_claim) ''r1'' = Some r" "r_status r = EXECUTING" "r_execution_owner r = Some ''w1''"
    by (rule demo_run_claimed)
  from stored_rows_are_well_formed [OF reachable_claim r(1)] r show ?thesis by (auto simp: list_all_iff)
qed

end
