(* ===== verification/Runtime_Bounds.thy ===== *)
theory Runtime_Bounds
  imports Runtime_Props
begin

text \<open>
  How long a method can take: the transactions it makes and the tool calls it makes are bounded,
  whatever the other clients of the ledger do in between, so no method waits for another
  client and none retries without end. The bounds compose along the code.
\<close>

text \<open>From any world the method ends at most n transactions and k calls of a protected function later.\<close>

definition within :: "nat \<Rightarrow> nat \<Rightarrow> ('w, 'a) rt \<Rightarrow> bool" where
  "within n k m \<longleftrightarrow> (\<forall>w. w_calls (snd (m w)) \<le> w_calls w + n \<and> length (w_log (snd (m w))) \<le> length (w_log w) + k)"

lemma within_mono: "within n k m \<Longrightarrow> n \<le> n' \<Longrightarrow> k \<le> k' \<Longrightarrow> within n' k' m"
  unfolding within_def by (meson add_left_mono order_trans)

lemma within_return: "within n k (rt_return x)"
  and within_raise: "within n k (rt_raise c msg)"
  and within_lift: "within n k (rt_lift m)"
  and within_fresh_id: "within n k (fresh_id orc pre)"
  by (simp_all add: within_def rt_return_def rt_raise_def rt_lift_def fresh_id_def)

lemma within_ledger_call: "within (Suc n) k (ledger_call orc f)"
  by (auto simp: within_def ledger_call_def Let_def split: sum.splits prod.splits)

lemma within_bind:
  assumes "within n k m" "\<And>x. within n' k' (f x)"
  shows "within (n + n') (k + k') (rt_bind m f)"
  unfolding within_def
proof (intro allI conjI)
  fix w
  obtain x w1 where m: "m w = (x, w1)" by (cases "m w")
  with assms(1) have one: "w_calls w1 \<le> w_calls w + n" "length (w_log w1) \<le> length (w_log w) + k"
    by (auto simp: within_def dest: spec [of _ w])
  have two: "w_calls (snd (f y w1)) \<le> w_calls w + (n + n')" "length (w_log (snd (f y w1))) \<le> length (w_log w) + (k + k')" for y
    using one assms(2) [of y] by (auto simp: within_def dest!: spec [of _ w1])
  show "w_calls (snd (rt_bind m f w)) \<le> w_calls w + (n + n')"
    using one two by (cases x) (simp_all add: rt_bind_def m trans_le_add1)
  show "length (w_log (snd (rt_bind m f w))) \<le> length (w_log w) + (k + k')"
    using one two by (cases x) (simp_all add: rt_bind_def m trans_le_add1)
qed

lemma within_catch:
  assumes "within n k m" "\<And>e. within n' k' (h e)"
  shows "within (n + n') (k + k') (rt_catch m caught h)"
  unfolding within_def
proof (intro allI conjI)
  fix w
  obtain x w1 where m: "m w = (x, w1)" by (cases "m w")
  with assms(1) have one: "w_calls w1 \<le> w_calls w + n" "length (w_log w1) \<le> length (w_log w) + k"
    by (auto simp: within_def dest: spec [of _ w])
  have two: "w_calls (snd (h y w1)) \<le> w_calls w + (n + n')" "length (w_log (snd (h y w1))) \<le> length (w_log w) + (k + k')" for y
    using one assms(2) [of y] by (auto simp: within_def dest!: spec [of _ w1])
  show "w_calls (snd (rt_catch m caught h w)) \<le> w_calls w + (n + n')"
    using one two by (cases x) (simp_all add: rt_catch_def m trans_le_add1)
  show "length (w_log (snd (rt_catch m caught h w))) \<le> length (w_log w) + (k + k')"
    using one two by (cases x) (simp_all add: rt_catch_def m trans_le_add1)
qed

lemma within_if: "(b \<Longrightarrow> within n k m) \<Longrightarrow> (\<not> b \<Longrightarrow> within n k m') \<Longrightarrow> within n k (if b then m else m')"
  by simp

lemma within_option: "within n k m \<Longrightarrow> (\<And>x. within n k (f x)) \<Longrightarrow> within n k (case v of None \<Rightarrow> m | Some x \<Rightarrow> f x)"
  by (cases v) simp_all

lemma within_sum: "(\<And>x. within n k (f x)) \<Longrightarrow> (\<And>y. within n k (g y)) \<Longrightarrow> within n k (case v of Inl x \<Rightarrow> f x | Inr y \<Rightarrow> g y)"
  by (cases v) simp_all

lemma within_prod: "(\<And>x y. within n k (f x y)) \<Longrightarrow> within n k (case v of (x, y) \<Rightarrow> f x y)"
  by (cases v) simp

text \<open>Binding with the bound of the first part named, or free.\<close>

lemma within_seq: "within a b m \<Longrightarrow> (\<And>x. within n k (f x)) \<Longrightarrow> a + n \<le> N \<Longrightarrow> b + k \<le> K \<Longrightarrow> within N K (rt_bind m f)"
  using within_bind within_mono by blast

lemma within_pure: "(\<And>x. within n k (f x)) \<Longrightarrow> within n k (rt_bind (rt_lift m) f)"
  using within_bind [OF within_lift [of 0 0 m], of n k f] by simp

lemma within_id: "(\<And>x. within n k (f x)) \<Longrightarrow> within n k (rt_bind (fresh_id orc pre) f)"
  using within_bind [OF within_fresh_id [of 0 0 orc pre], of n k f] by simp

lemma within_call: "(\<And>x. within n k (f x)) \<Longrightarrow> within (Suc n) k (rt_bind (ledger_call orc g) f)"
  using within_bind [OF within_ledger_call [of 0 0 orc g], of n k f] by simp

lemma within_get_run: "(\<And>x. within n k (f x)) \<Longrightarrow> within (Suc n) k (rt_bind (get_run orc rid) f)"
  unfolding get_run_def by (rule within_call)

lemmas within_basic = within_return within_raise within_lift within_pure within_id within_call within_get_run within_ledger_call
  within_if within_option within_sum within_prod

section \<open>The parts of a method\<close>

lemma within_run_result: "within (Suc n) k (run_result orc rid dup)"
  unfolding run_result_def by (intro within_basic)

lemma within_answer_duplicate: "within 4 0 (answer_duplicate orc tenant rid)"
proof -
  have "within (1 + 0) 0 (rt_bind (run_result orc rid True) (\<lambda>result. rt_return (Finished result)))"
    by (rule within_seq [OF within_run_result [of 0 0] within_return]) simp_all
  then have "within (Suc (Suc (Suc (1 + 0)))) 0 (answer_duplicate orc tenant rid)"
    unfolding answer_duplicate_def by (intro within_call)
  then show ?thesis by (simp add: eval_nat_numeral)
qed

lemma within_record_decision: "within 2 0 (record_decision orc act rid d)"
proof -
  have "within (1 + 1) (0 + 0) (record_decision orc act rid d)"
    unfolding record_decision_def by (intro within_catch) (intro within_basic | simp only: One_nat_def)+
  then show ?thesis by (simp only: one_add_one add_0)
qed

lemma within_govern_new_run: "within 3 0 (govern_new_run orc act ctxt args rid)"
  unfolding govern_new_run_def
proof (rule within_pure, rule within_seq [OF within_record_decision])
  show "within 1 0 (if pd_outcome recorded \<noteq> ALLOW
      then rt_bind (run_result orc rid False) (\<lambda>result. rt_return (Finished result)) else rt_return (Execute rid))" for recorded
    by (intro within_if within_return within_seq [OF within_run_result [of 0 0] within_return [of 0 0]]) simp_all
qed simp_all

lemma within_prepare_invoke: "within 5 0 (prepare_invoke orc act ctxt args override)"
proof -
  have "within (Suc 4) 0 (prepare_invoke orc act ctxt args override)"
    unfolding prepare_invoke_def
    by (intro within_if within_raise within_pure within_id within_call within_prod within_answer_duplicate
        within_mono [OF within_govern_new_run]) simp_all
  then show ?thesis by simp
qed

lemma within_call_function: "within 0 1 (call_function act rid owner args)"
  by (auto simp: within_def call_function_def Let_def split: prod.splits)

lemma within_run_tool: "within 1 1 (run_tool orc act rid owner args)"
proof -
  have "within (Suc 0) 0 (arguments_with_execution_context orc act rid args)"
    unfolding arguments_with_execution_context_def Let_def by (intro within_option within_return within_get_run within_raise within_pure)
  from within_catch [OF within_bind [OF this within_call_function] within_return [of 0 0]]
  show ?thesis by (simp add: run_tool_def)
qed

lemma within_mark_unknown: "within 2 0 (mark_unknown orc rid owner err)"
  unfolding mark_unknown_def numeral_2_eq_2 by (intro within_call within_run_result)

lemma within_settle: "within 3 0 (settle orc is_async rid owner outcome)"
proof (cases outcome)
  case (Returned v)
  have "within (1 + 0) (0 + 0) (rt_catch (rt_bind (ledger_call orc (\<lambda>env. complete_execution env rid owner v)) (\<lambda>_. rt_return True))
      value_or_type_error (\<lambda>_. rt_return False))"
    unfolding One_nat_def by (intro within_catch within_call within_return)
  moreover have "within 2 0 (if stored then run_result orc rid False else mark_unknown orc rid owner ''ResultSerializationError'')" for stored
    using within_mark_unknown within_run_result [of 1 0] by (intro within_if) (simp_all add: numeral_2_eq_2)
  ultimately show ?thesis unfolding Returned settle_def tool_result.case by (rule within_seq) simp_all
next
  case (Failed name)
  have "within (Suc (Suc 1)) 0 (rt_bind (ledger_call orc (\<lambda>env. fail_execution env rid owner name)) (\<lambda>_. run_result orc rid False))"
    by (intro within_call within_run_result)
  then show ?thesis by (simp add: Failed settle_def eval_nat_numeral)
next
  case Cancelled
  show ?thesis
    unfolding Cancelled settle_def tool_result.case
    by (intro within_if within_raise within_seq [OF within_mark_unknown within_raise [of 0 0]]) simp_all
qed (use within_raise within_mono [OF within_mark_unknown, of 3 0] in \<open>simp_all add: settle_def\<close>)

lemma within_execute: "within 5 1 (execute orc act is_async rid args)"
proof -
  have "within 4 1 (rt_bind (run_tool orc act rid owner args) (settle orc is_async rid owner))" for owner
    by (rule within_seq [OF within_run_tool within_settle]) simp_all
  then have "within 4 1 (if \<not> claimed then run_result orc rid True
      else rt_bind (run_tool orc act rid owner args) (settle orc is_async rid owner))" for claimed owner
    using within_run_result [of 3 1] by (intro within_if) (simp_all add: eval_nat_numeral)
  then have "within (Suc 4) 1 (execute orc act is_async rid args)" unfolding execute_def by (intro within_id within_call)
  then show ?thesis by simp
qed

lemma within_invocation: "within 10 1 (rt_bind (prepare_invoke orc act ctxt args override) (run_prepared orc act is_async args))"
proof (rule within_seq [OF within_prepare_invoke])
  show "within 5 1 (run_prepared orc act is_async args p)" for p
    using within_execute within_return by (cases p) (simp_all add: run_prepared_def)
qed simp_all

lemma within_resume_run: "within 6 1 (resume_run orc act is_async rid)"
  unfolding resume_run_def
proof (rule within_seq)
  show "within (Suc 0) 0 (prepare_resume orc act rid)"
    unfolding prepare_resume_def by (intro within_get_run within_option within_raise within_if within_pure within_return)
  show "within 5 1 (case p of Inl r \<Rightarrow> execute orc act is_async rid (stored_arguments r) | Inr result \<Rightarrow> rt_return result)" for p
    by (intro within_sum within_execute within_return)
qed simp_all

lemma within_decide: "within 2 0 (decide orc act approved message rid approver reason)"
  unfolding decide_def numeral_2_eq_2
  by (intro within_if within_raise within_call within_get_run within_run_result)

lemma within_reconcile: "within 3 0 (reconcile orc act rid outcome operator reason result)"
  unfolding reconcile_def numeral_3_eq_3
  by (intro within_if within_option within_raise within_call within_get_run within_run_result)

lemma within_probe: "within 0 0 (probe_provider probe request)"
  by (auto simp: within_def probe_provider_def Let_def split: prod.splits)

lemma within_reconcile_from_provider: "within 3 0 (reconcile_from_provider orc act rid probe operator)"
  unfolding reconcile_from_provider_def
proof (rule within_seq)
  show "within (Suc 0) 0 (load_reconcilable_run orc act rid operator)"
    unfolding load_reconcilable_run_def by (intro within_if within_get_run within_option within_raise within_return)
  have "within (Suc (Suc 0)) 0 (rt_bind (probe_provider probe request) (\<lambda>ob.
     rt_bind (ledger_call orc (\<lambda>env. apply_provider_observation env rid provider
       (provider_outcome_value (po_outcome ob)) (po_summary ob) (po_reference ob)
       (observed_status (po_outcome ob)) (observed_result provider ob) operator))
       (\<lambda>applied. run_result orc rid (\<not> applied))))" for request provider
    by (rule within_seq [OF within_probe within_call [OF within_run_result [of 0 0]]]) simp_all
  then show "within 2 0 (rt_bind (rt_lift (validate_provider_name (pp_name probe))) (\<lambda>provider.
     rt_bind (rt_lift (ProviderLookup_init rid (ta_name act) (r_tenant_id run) (r_idempotency_key run)
       (r_arguments run) (Some (r_created_at run)))) (\<lambda>request.
     rt_bind (probe_provider probe request) (\<lambda>ob.
     rt_bind (ledger_call orc (\<lambda>env. apply_provider_observation env rid provider
       (provider_outcome_value (po_outcome ob)) (po_summary ob) (po_reference ob)
       (observed_status (po_outcome ob)) (observed_result provider ob) operator))
       (\<lambda>applied. run_result orc rid (\<not> applied))))))" for run
    unfolding numeral_2_eq_2 by (intro within_pure)
qed simp_all


end
