(* ===== verification/Argparse.thy ===== *)
theory Argparse
  imports PyValue
begin

text \<open>
  Command lines as \<open>argparse\<close> of CPython 3.11 reads them, for parsers of the shape \<open>cli.py\<close> builds:
  sub-commands with at most one positional argument, and options with two dashes that take one
  value or none. Options may be abbreviated and may carry their value after an equals sign. The
  word \<open>--\<close> is outside the model; the text of help and of a usage error is not modelled.
\<close>

datatype option_kind = TextOption | IntOption | FlagOption

record option_spec =
  op_flag :: string
  op_kind :: option_kind
  op_required :: bool
  op_default :: pyval

record command_spec =
  cs_name :: string
  cs_positional :: "string option"
  cs_options :: "option_spec list"

type_synonym parsed_args = "(string \<times> pyval) list"

datatype 'a parsed = Parsed 'a | HelpShown | UsageError

section \<open>Words\<close>

datatype word_class =
    Positional
  | Known string "string option"
  | HelpCluster string
  | Ambiguous
  | Unrecognized

definition dash :: char where "dash = CHR ''-''"
definition equals :: char where "equals = CHR ''=''"

definition help_flags :: "string list" where "help_flags = [''-h'', ''--help'']"

definition flags_of :: "command_spec \<Rightarrow> string list" where
  "flags_of cs = help_flags @ map op_flag (cs_options cs)"

text \<open>\<open>partition('=')\<close>.\<close>

definition split_equals :: "string \<Rightarrow> string \<times> string option" where
  "split_equals w =
     (let name = takeWhile (\<lambda>c. c \<noteq> equals) w in
      (name, if name = w then None else Some (drop (Suc (length name)) w)))"

text \<open>The pattern \<open>-\d+\<close> or \<open>-\d*.\d+\<close>, whose end may be before a last newline.\<close>

definition negative_number :: "string \<Rightarrow> bool" where
  "negative_number w =
     (let body = tl (if w \<noteq> [] \<and> last w = newline then butlast w else w);
          fraction = dropWhile is_digit body in
      w \<noteq> [] \<and> hd w = dash
      \<and> (body \<noteq> [] \<and> fraction = []
         \<or> fraction \<noteq> [] \<and> hd fraction = CHR ''.'' \<and> tl fraction \<noteq> [] \<and> list_all is_digit (tl fraction)))"

definition unmatched :: "string \<Rightarrow> word_class" where
  "unmatched w = (if negative_number w \<or> CHR '' '' \<in> set w then Positional else Unrecognized)"

text \<open>\<open>_parse_optional\<close> with \<open>_get_option_tuples\<close>: exact options, options before an equals sign,
  prefixes of one option, and a single dash with the letter of a short option and more.\<close>

definition classify :: "string list \<Rightarrow> string \<Rightarrow> word_class" where
  "classify flags w =
     (if w = [] \<or> hd w \<noteq> dash then Positional
      else if w \<in> set flags then Known w None
      else if length w = 1 then Positional
      else let (name, explicit) = split_equals w in
        if explicit \<noteq> None \<and> name \<in> set flags then Known name explicit
        else if w ! 1 = dash then
          (case filter (\<lambda>f. startswith f name) flags of
             [] \<Rightarrow> unmatched w
           | [f] \<Rightarrow> Known f explicit
           | _ \<Rightarrow> Ambiguous)
        else if take 2 w \<in> set flags then HelpCluster (drop 2 w)
        else unmatched w)"

text \<open>What follows \<open>-h\<close> in its word: more letters. Help is shown unless an explicit value is found.\<close>

fun help_cluster :: "string \<Rightarrow> bool" where
  "help_cluster [] = True"
| "help_cluster (c # rest) =
     (if c = dash then False
      else if c = CHR ''h'' then (if rest \<noteq> [] \<and> hd rest = equals then False else help_cluster rest)
      else True)"

section \<open>Commands\<close>

text \<open>The attribute of an option: its flag without dashes in front, the others underscores.\<close>

definition dest :: "string \<Rightarrow> string" where
  "dest flag = map (\<lambda>c. if c = dash then CHR ''_'' else c) (dropWhile (\<lambda>c. c = dash) flag)"

definition convert :: "option_kind \<Rightarrow> string \<Rightarrow> pyval option" where
  "convert kind text = (case kind of
     IntOption \<Rightarrow> map_option PInt (int_of_string text)
   | _ \<Rightarrow> Some (PStr text))"

definition find_option :: "command_spec \<Rightarrow> string \<Rightarrow> option_spec option" where
  "find_option cs flag = find (\<lambda>p. op_flag p = flag) (cs_options cs)"

definition required_names :: "command_spec \<Rightarrow> string list" where
  "required_names cs =
     (case cs_positional cs of None \<Rightarrow> [] | Some p \<Rightarrow> [p])
     @ map (\<lambda>p. dest (op_flag p)) (filter op_required (cs_options cs))"

text \<open>The namespace: the last value given for each name, or its default.\<close>

definition namespace_of :: "command_spec \<Rightarrow> parsed_args \<Rightarrow> parsed_args" where
  "namespace_of cs vals =
     map (\<lambda>(name, default_value). (name, case map_of vals name of Some v \<Rightarrow> v | None \<Rightarrow> default_value))
       ((case cs_positional cs of None \<Rightarrow> [] | Some p \<Rightarrow> [(p, PNone)])
        @ map (\<lambda>p. (dest (op_flag p), op_default p)) (cs_options cs))"

text \<open>The words of a sub-command, left to right; \<open>vals\<close> has the values so far, newest first.\<close>

fun parse_words :: "command_spec \<Rightarrow> string list \<Rightarrow> parsed_args \<Rightarrow> bool \<Rightarrow> parsed_args parsed" where
  "parse_words cs [] vals extras =
     (if \<not> set (required_names cs) \<subseteq> fst ` set vals \<or> extras then UsageError
      else Parsed (namespace_of cs vals))"
| "parse_words cs (w # ws) vals extras =
     (case classify (flags_of cs) w of
        Positional \<Rightarrow>
          (case cs_positional cs of
             None \<Rightarrow> parse_words cs ws vals True
           | Some p \<Rightarrow>
               if p \<in> fst ` set vals then parse_words cs ws vals True
               else parse_words cs ws ((p, PStr w) # vals) extras)
      | Unrecognized \<Rightarrow> parse_words cs ws vals True
      | Ambiguous \<Rightarrow> UsageError
      | HelpCluster rest \<Rightarrow> if help_cluster rest then HelpShown else UsageError
      | Known flag explicit \<Rightarrow>
          (if flag \<in> set help_flags then (if explicit = None then HelpShown else UsageError)
           else case find_option cs flag of
             None \<Rightarrow> UsageError
           | Some p \<Rightarrow>
               if op_kind p = FlagOption then
                 (if explicit = None then parse_words cs ws ((dest flag, PBool True) # vals) extras else UsageError)
               else (case explicit of
                   Some text \<Rightarrow>
                     (case convert (op_kind p) text of
                        None \<Rightarrow> UsageError
                      | Some v \<Rightarrow> parse_words cs ws ((dest flag, v) # vals) extras)
                 | None \<Rightarrow>
                     (case ws of
                        [] \<Rightarrow> UsageError
                      | text # ws' \<Rightarrow>
                          if classify (flags_of cs) text \<noteq> Positional then UsageError
                          else (case convert (op_kind p) text of
                              None \<Rightarrow> UsageError
                            | Some v \<Rightarrow> parse_words cs ws' ((dest flag, v) # vals) extras)))))"

text \<open>Ambiguous words are errors before any word is acted on.\<close>

definition parse_command :: "command_spec \<Rightarrow> string list \<Rightarrow> parsed_args parsed" where
  "parse_command cs ws =
     (if list_ex (\<lambda>w. classify (flags_of cs) w = Ambiguous) ws then UsageError else parse_words cs ws [] False)"

text \<open>The main parser knows only help; its first positional word names the sub-command, which takes
  the rest. An unknown word before it is an error once the sub-command has been parsed.\<close>

fun parse_args :: "command_spec list \<Rightarrow> string list \<Rightarrow> (string \<times> parsed_args) parsed" where
  "parse_args specs [] = UsageError"
| "parse_args specs (w # ws) =
     (case classify help_flags w of
        Positional \<Rightarrow>
          (case find (\<lambda>cs. cs_name cs = w) specs of
             None \<Rightarrow> UsageError
           | Some cs \<Rightarrow> (case parse_command cs ws of
               Parsed ns \<Rightarrow> Parsed (cs_name cs, ns) | HelpShown \<Rightarrow> HelpShown | UsageError \<Rightarrow> UsageError))
      | Unrecognized \<Rightarrow> (case parse_args specs ws of HelpShown \<Rightarrow> HelpShown | _ \<Rightarrow> UsageError)
      | Ambiguous \<Rightarrow> UsageError
      | HelpCluster rest \<Rightarrow> if help_cluster rest then HelpShown else UsageError
      | Known flag explicit \<Rightarrow> if explicit = None then HelpShown else UsageError)"

end
