(* ===== verification/Cli_Main.thy ===== *)
theory Cli_Main
  imports Argparse Cli_Serve
begin

text \<open>
  The command line of \<open>agenttrust\<close> (\<open>build_parser\<close> and \<open>main\<close> in \<open>cli.py\<close>): the table of its
  sub-commands, and the call of the handler with the parsed arguments. The world of a command is
  the one of the ledger its arguments name; paths are normal, as \<open>pathlib\<close> would leave them.
\<close>

section \<open>The parsers\<close>

definition required_text :: "string \<Rightarrow> option_spec" where
  "required_text flag = \<lparr>op_flag = flag, op_kind = TextOption, op_required = True, op_default = PNone\<rparr>"

definition text_option :: "string \<Rightarrow> pyval \<Rightarrow> option_spec" where
  "text_option flag d = \<lparr>op_flag = flag, op_kind = TextOption, op_required = False, op_default = d\<rparr>"

definition int_option :: "string \<Rightarrow> int \<Rightarrow> option_spec" where
  "int_option flag n = \<lparr>op_flag = flag, op_kind = IntOption, op_required = False, op_default = PInt n\<rparr>"

definition flag_option :: "string \<Rightarrow> option_spec" where
  "flag_option flag = \<lparr>op_flag = flag, op_kind = FlagOption, op_required = False, op_default = PBool False\<rparr>"

definition dsn_option :: option_spec where
  "dsn_option = text_option ''--postgres-dsn-env'' (PStr ''AGENTTRUSTOPS_POSTGRES_DSN'')"

definition build_parser :: "command_spec list" where
  "build_parser = [
     \<lparr>cs_name = ''eval'', cs_positional = Some ''scenarios'',
      cs_options = [required_text ''--policy'', flag_option ''--json'']\<rparr>,
     \<lparr>cs_name = ''replay'', cs_positional = Some ''run_id'', cs_options = [required_text ''--ledger'']\<rparr>,
     \<lparr>cs_name = ''demo'', cs_positional = None,
      cs_options = [text_option ''--output-dir'' (PStr ''demo-runs''), flag_option ''--json'']\<rparr>,
     \<lparr>cs_name = ''audit-keygen'', cs_positional = None,
      cs_options = [required_text ''--private-key'', required_text ''--public-key'']\<rparr>,
     \<lparr>cs_name = ''audit-export'', cs_positional = None,
      cs_options = [text_option ''--ledger'' PNone, dsn_option, text_option ''--tenant'' PNone,
        int_option ''--limit'' 1000, text_option ''--signing-key'' PNone, required_text ''--output'']\<rparr>,
     \<lparr>cs_name = ''audit-verify'', cs_positional = Some ''bundle'', cs_options = [text_option ''--public-key'' PNone]\<rparr>,
     \<lparr>cs_name = ''doctor'', cs_positional = None,
      cs_options = [required_text ''--ledger'', text_option ''--tenant'' PNone, int_option ''--limit'' 10000]\<rparr>,
     \<lparr>cs_name = ''metrics'', cs_positional = None,
      cs_options = [required_text ''--ledger'', text_option ''--tenant'' PNone, flag_option ''--verify-integrity'']\<rparr>,
     \<lparr>cs_name = ''recover'', cs_positional = None,
      cs_options = [required_text ''--ledger'', text_option ''--tenant'' PNone]\<rparr>,
     \<lparr>cs_name = ''serve'', cs_positional = None,
      cs_options = [text_option ''--ledger'' PNone, dsn_option, required_text ''--refunds'',
        text_option ''--identities'' PNone, text_option ''--oidc-issuer'' PNone, text_option ''--oidc-audience'' PNone,
        text_option ''--oidc-jwks-url'' PNone, text_option ''--oidc-tenant-claim'' (PStr ''tenant_id''),
        text_option ''--oidc-roles-claim'' (PStr ''roles''), flag_option ''--oidc-allow-insecure-http'',
        text_option ''--policy'' PNone, text_option ''--host'' (PStr ''127.0.0.1''), int_option ''--port'' 8787]\<rparr>]"

section \<open>Attributes of a namespace\<close>

definition text_arg :: "parsed_args \<Rightarrow> string \<Rightarrow> string" where
  "text_arg ns name = (case map_of ns name of Some (PStr s) \<Rightarrow> s | _ \<Rightarrow> [])"

definition optional_arg :: "parsed_args \<Rightarrow> string \<Rightarrow> string option" where
  "optional_arg ns name = (case map_of ns name of Some (PStr s) \<Rightarrow> Some s | _ \<Rightarrow> None)"

definition int_arg :: "parsed_args \<Rightarrow> string \<Rightarrow> int" where
  "int_arg ns name = (case map_of ns name of Some (PInt i) \<Rightarrow> i | _ \<Rightarrow> 0)"

definition flag_arg :: "parsed_args \<Rightarrow> string \<Rightarrow> bool" where
  "flag_arg ns name \<longleftrightarrow> map_of ns name = Some (PBool True)"

definition serve_arguments :: "parsed_args \<Rightarrow> serve_args" where
  "serve_arguments ns =
     \<lparr>sv_auth = \<lparr>au_identities = optional_arg ns ''identities'', au_oidc_issuer = optional_arg ns ''oidc_issuer'',
        au_oidc_audience = optional_arg ns ''oidc_audience'', au_oidc_jwks_url = optional_arg ns ''oidc_jwks_url'',
        au_oidc_tenant_claim = text_arg ns ''oidc_tenant_claim'', au_oidc_roles_claim = text_arg ns ''oidc_roles_claim'',
        au_oidc_allow_insecure_http = flag_arg ns ''oidc_allow_insecure_http''\<rparr>,
      sv_policy = optional_arg ns ''policy'', sv_ledger = optional_arg ns ''ledger'',
      sv_postgres_dsn_env = text_arg ns ''postgres_dsn_env''\<rparr>"

section \<open>Running a command\<close>

text \<open>What a command finds on its host: clocks and other clients, the environment, the key files
  and the packages it calls.\<close>

record ('k, 'j) cli_host =
  ch_real_text :: "string \<Rightarrow> string"
  ch_scenario_schedules :: "nat \<Rightarrow> schedule"
  ch_schedule :: schedule
  ch_schema :: "int option"
  ch_now :: datetime
  ch_getenv :: "string \<Rightarrow> string option"
  ch_crypto :: "'k ed25519"
  ch_new_keys :: "u8 list \<times> u8 list \<times> u8 list"
  ch_private_key :: "string \<Rightarrow> 'k res"
  ch_public_key :: "string \<Rightarrow> u8 list res"
  ch_jwt :: "'j pyjwt"
  ch_host_ok :: "string \<Rightarrow> bool"
  ch_jwt_installed :: bool
  ch_uvicorn_installed :: bool
  ch_asset :: "string \<Rightarrow> string"

text \<open>The process exits with its output and status, or with a status argparse chose, or it serves an
  application on a ledger, host and port until it is stopped.\<close>

datatype cli_outcome =
    Exits "exit_result res"
  | ParserExit int
  | Serves ledger_choice "RefundStore app_config" string int

definition run_command ::
  "('k, 'j) cli_host \<Rightarrow> string \<Rightarrow> parsed_args \<Rightarrow> files \<Rightarrow> 'w world \<Rightarrow> cli_outcome \<times> files \<times> 'w world" where
  "run_command host name ns fs w =
     (let pure = (\<lambda>r. (Exits r, fs, w));
          on_ledger = (\<lambda>m. case m w of (r, w') \<Rightarrow> (Exits r, fs, w')) in
      if name = ''eval'' then
        pure (eval_command (ch_real_text host) (ch_scenario_schedules host) (text_arg ns ''scenarios'')
          (text_arg ns ''policy'') (flag_arg ns ''json'') fs)
      else if name = ''replay'' then on_ledger (replay_command (ch_schedule host) (text_arg ns ''run_id''))
      else if name = ''demo'' then
        pure (demo_command (ch_real_text host) (ch_schedule host) (text_arg ns ''output_dir'') (flag_arg ns ''json''))
      else if name = ''audit-keygen'' then
        (case ch_new_keys host of (private_bytes, public_bytes, public_raw) \<Rightarrow>
          case keygen_command (text_arg ns ''private_key'') (text_arg ns ''public_key'') private_bytes public_bytes public_raw fs of
            (r, fs') \<Rightarrow> (Exits r, fs', w))
      else if name = ''audit-export'' then
        (case audit_export_command (ch_crypto host) (ch_now host) (ch_schedule host) (ch_getenv host)
            (text_arg ns ''postgres_dsn_env'') (optional_arg ns ''ledger'') (optional_arg ns ''tenant'') (int_arg ns ''limit'')
            (map_option (ch_private_key host) (optional_arg ns ''signing_key'')) (text_arg ns ''output'') fs w of
          (r, fs', w') \<Rightarrow> (Exits r, fs', w'))
      else if name = ''audit-verify'' then
        pure (audit_verify_command (ch_crypto host) (text_arg ns ''bundle'')
          (map_option (ch_public_key host) (optional_arg ns ''public_key'')) fs)
      else if name = ''doctor'' then
        on_ledger (doctor_command (ch_schedule host) (ch_schema host) (optional_arg ns ''tenant'') (int_arg ns ''limit''))
      else if name = ''metrics'' then
        on_ledger (metrics_command (ch_schedule host) (ch_schema host) (optional_arg ns ''tenant'') (flag_arg ns ''verify_integrity''))
      else if name = ''recover'' then on_ledger (recover_command (ch_schedule host) (optional_arg ns ''tenant''))
      else (case serve_app (ch_jwt host) (ch_host_ok host) (ch_jwt_installed host) (ch_uvicorn_installed host)
          (ch_real_text host) (ch_getenv host) (serve_arguments ns) fs (ch_schema host) (ch_asset host) of
          Inl e \<Rightarrow> pure (Inl e)
        | Inr (choice, app) \<Rightarrow> (Serves choice app (text_arg ns ''host'') (int_arg ns ''port''), fs, w)))"

definition main_command ::
  "('k, 'j) cli_host \<Rightarrow> string list \<Rightarrow> files \<Rightarrow> 'w world \<Rightarrow> cli_outcome \<times> files \<times> 'w world" where
  "main_command host argv fs w =
     (case parse_args build_parser argv of
        HelpShown \<Rightarrow> (ParserExit 0, fs, w)
      | UsageError \<Rightarrow> (ParserExit 2, fs, w)
      | Parsed (name, ns) \<Rightarrow> run_command host name ns fs w)"

end
