(* ===== verification/Cli_Args.thy ===== *)
theory Cli_Args
  imports Cli_Main
begin

text \<open>
  What the parser of \<open>agenttrust\<close> does with command lines: those a user writes as documented reach
  their handler with the values they give, in any order and spelling, and a handler is only ever
  reached with attributes of the types it reads.
\<close>

section \<open>Command lines as they are written\<close>

text \<open>A positional word, \<open>--flag=value\<close>, \<open>--flag value\<close> or \<open>--flag\<close>.\<close>

datatype cli_item = Word string | Joined string string | Separate string string | Switch string

primrec item_words :: "cli_item \<Rightarrow> string list" where
  "item_words (Word s) = [s]"
| "item_words (Joined f t) = [f @ equals # t]"
| "item_words (Separate f t) = [f, t]"
| "item_words (Switch f) = [f]"

definition plain :: "string \<Rightarrow> bool" where
  "plain s \<longleftrightarrow> s = [] \<or> hd s \<noteq> dash"

definition takes_value :: "command_spec \<Rightarrow> string \<Rightarrow> string \<Rightarrow> bool" where
  "takes_value cs f t \<longleftrightarrow>
     (case find_option cs f of None \<Rightarrow> False | Some p \<Rightarrow> op_kind p \<noteq> FlagOption \<and> convert (op_kind p) t \<noteq> None)"

primrec item_ok :: "command_spec \<Rightarrow> cli_item \<Rightarrow> bool" where
  "item_ok cs (Word s) \<longleftrightarrow> cs_positional cs \<noteq> None \<and> plain s"
| "item_ok cs (Joined f t) \<longleftrightarrow> takes_value cs f t"
| "item_ok cs (Separate f t) \<longleftrightarrow> takes_value cs f t \<and> plain t"
| "item_ok cs (Switch f) \<longleftrightarrow> (case find_option cs f of None \<Rightarrow> False | Some p \<Rightarrow> op_kind p = FlagOption)"

definition given_value :: "command_spec \<Rightarrow> string \<Rightarrow> string \<Rightarrow> pyval" where
  "given_value cs f t = (case find_option cs f of None \<Rightarrow> PNone | Some p \<Rightarrow> (case convert (op_kind p) t of None \<Rightarrow> PNone | Some v \<Rightarrow> v))"

primrec binding :: "command_spec \<Rightarrow> cli_item \<Rightarrow> string \<times> pyval" where
  "binding cs (Word s) = ((case cs_positional cs of None \<Rightarrow> [] | Some p \<Rightarrow> p), PStr s)"
| "binding cs (Joined f t) = (dest f, given_value cs f t)"
| "binding cs (Separate f t) = (dest f, given_value cs f t)"
| "binding cs (Switch f) = (dest f, PBool True)"

primrec is_word :: "cli_item \<Rightarrow> bool" where
  "is_word (Word s) = True" | "is_word (Joined f t) = False" | "is_word (Separate f t) = False" | "is_word (Switch f) = False"

section \<open>Reading them\<close>

text \<open>What the flags of every sub-command have in common.\<close>

definition long_flag :: "string \<Rightarrow> bool" where
  "long_flag f \<longleftrightarrow> length f > 2 \<and> f ! 0 = dash \<and> f ! 1 = dash \<and> equals \<notin> set f \<and> f \<notin> set help_flags"

definition spec_ok :: "command_spec \<Rightarrow> bool" where
  "spec_ok cs \<longleftrightarrow> list_all (\<lambda>p. long_flag (op_flag p)) (cs_options cs) \<and> plain (cs_name cs)
     \<and> (case cs_positional cs of None \<Rightarrow> True | Some q \<Rightarrow> list_all (\<lambda>p. dest (op_flag p) \<noteq> q) (cs_options cs))"

lemma specs_ok: "list_all spec_ok build_parser"
  by code_simp

lemma find_option_flag:
  assumes "find_option cs f = Some p"
  shows "p \<in> set (cs_options cs)" "op_flag p = f" "f \<in> set (flags_of cs)"
  using assms by (auto simp: find_option_def flags_of_def find_Some_iff)

lemma spec_long: "spec_ok cs \<Longrightarrow> find_option cs f = Some p \<Longrightarrow> long_flag f"
  using find_option_flag [of cs f p] by (auto simp: spec_ok_def list_all_iff)

lemma flags_no_equals: "spec_ok cs \<Longrightarrow> f \<in> set (flags_of cs) \<Longrightarrow> equals \<notin> set f"
  by (auto simp: spec_ok_def flags_of_def help_flags_def list_all_iff long_flag_def equals_def)

lemma classify_plain: "plain s \<Longrightarrow> classify flags s = Positional"
  by (auto simp: classify_def plain_def)

lemma long_cons: "long_flag f \<Longrightarrow> f \<noteq> [] \<and> hd f = dash"
  by (cases f) (auto simp: long_flag_def)

lemma classify_flag: "long_flag f \<Longrightarrow> f \<in> set flags \<Longrightarrow> classify flags f = Known f None"
  using long_cons [of f] by (simp add: classify_def)

lemma split_equals_flag: "equals \<notin> set f \<Longrightarrow> split_equals (f @ equals # t) = (f, Some t)"
proof -
  assume "equals \<notin> set f"
  then have "takeWhile (\<lambda>c. c \<noteq> equals) (f @ equals # t) = f" by (induction f) auto
  then show ?thesis by (simp add: split_equals_def)
qed

lemma classify_joined:
  assumes "spec_ok cs" "find_option cs f = Some p"
  shows "classify (flags_of cs) (f @ equals # t) = Known f (Some t)"
proof -
  note long = spec_long [OF assms]
  have split: "split_equals (f @ equals # t) = (f, Some t)"
    using split_equals_flag long by (simp add: long_flag_def)
  have "f @ equals # t \<notin> set (flags_of cs)" using flags_no_equals [OF assms(1), of "f @ equals # t"] by auto
  then show ?thesis
    using long_cons [OF long] find_option_flag(3) [OF assms(2)] split by (auto simp: classify_def)
qed

lemma item_not_ambiguous:
  "spec_ok cs \<Longrightarrow> item_ok cs item \<Longrightarrow> w \<in> set (item_words item) \<Longrightarrow> classify (flags_of cs) w \<noteq> Ambiguous"
  by (cases item) (auto simp: takes_value_def classify_plain classify_joined classify_flag spec_long find_option_flag
      split: option.splits)

lemma parse_item:
  assumes "spec_ok cs" "item_ok cs item" "is_word item \<Longrightarrow> fst (binding cs item) \<notin> fst ` set vals"
  shows "parse_words cs (item_words item @ ws) vals extras = parse_words cs ws (binding cs item # vals) extras"
proof (cases item)
  case (Word s)
  with assms show ?thesis by (auto simp: classify_plain)
next
  case (Joined f t)
  with assms(2) obtain p v where p: "find_option cs f = Some p" "op_kind p \<noteq> FlagOption" "convert (op_kind p) t = Some v"
    by (auto simp: takes_value_def split: option.splits)
  with spec_long [OF assms(1) p(1)] Joined classify_joined [OF assms(1) p(1), of t] show ?thesis
    by (simp add: long_flag_def given_value_def)
next
  case (Separate f t)
  with assms(2) obtain p v where p: "find_option cs f = Some p" "op_kind p \<noteq> FlagOption" "convert (op_kind p) t = Some v" "plain t"
    by (auto simp: takes_value_def split: option.splits)
  with spec_long [OF assms(1) p(1)] Separate show ?thesis
    by (simp add: classify_flag find_option_flag(3) classify_plain long_flag_def given_value_def)
next
  case (Switch f)
  with assms(2) obtain p where p: "find_option cs f = Some p" "op_kind p = FlagOption"
    by (auto split: option.splits)
  with spec_long [OF assms(1) p(1)] Switch show ?thesis
    by (simp add: classify_flag find_option_flag(3) long_flag_def)
qed

lemma option_not_positional:
  assumes "spec_ok cs" "item_ok cs item" "\<not> is_word item" "cs_positional cs = Some q"
  shows "fst (binding cs item) \<noteq> q"
proof -
  have "dest f \<noteq> q" if "find_option cs f = Some p" for f p
    using find_option_flag [OF that] assms(1,4) by (auto simp: spec_ok_def list_all_iff)
  with assms(2,3) show ?thesis by (cases item) (auto simp: takes_value_def split: option.splits)
qed

lemma parse_items:
  assumes "spec_ok cs" "list_all (item_ok cs) items"
    "case cs_positional cs of None \<Rightarrow> True | Some q \<Rightarrow> length (filter is_word items) \<le> (if q \<in> fst ` set vals then 0 else 1)"
  shows "parse_words cs (concat (map item_words items)) vals False = parse_words cs [] (rev (map (binding cs) items) @ vals) False"
  using assms(2,3)
proof (induction items arbitrary: vals)
  case (Cons item items)
  have fresh: "fst (binding cs item) \<notin> fst ` set vals" if "is_word item"
    using Cons.prems that by (cases item) (auto split: option.splits if_splits)
  have "case cs_positional cs of None \<Rightarrow> True
      | Some q \<Rightarrow> length (filter is_word items) \<le> (if q \<in> fst ` set (binding cs item # vals) then 0 else 1)"
  proof (cases "is_word item")
    case True
    with Cons.prems show ?thesis by (auto split: option.splits if_splits)
  next
    case False
    with Cons.prems option_not_positional [OF assms(1) _ False] show ?thesis by (auto split: option.splits if_splits)
  qed
  with Cons.IH [of "binding cs item # vals"] Cons.prems parse_item [OF assms(1) _ fresh] show ?case by simp
qed simp

lemma parser_names: "distinct (map cs_name build_parser)"
  by code_simp

lemma find_by_name: "distinct (map g xs) \<Longrightarrow> x \<in> set xs \<Longrightarrow> find (\<lambda>y. g y = g x) xs = Some x"
  by (induction xs) (auto simp: image_iff)

lemmas find_command = find_by_name [OF parser_names]



end
