(* ===== verification/Examples.thy ===== *)
theory Examples
  imports Stripe Cli_Props
begin

text \<open>
  The example programs (\<open>examples/provider_reconciliation.py\<close>, \<open>async_reconciliation.py\<close> and
  \<open>stripe_sandbox/run_evaluation.py\<close>) as compositions of the operations modelled before. The ledger
  is a new one in the directory of the program; the new output directory of the evaluation has
  no files, and \<open>evaluation_id\<close> is its random identifier.
\<close>

section \<open>An uncertain payment settled by its provider\<close>

definition AllowSyntheticPayment :: "string \<Rightarrow> pyval \<Rightarrow> ActionContext \<Rightarrow> policy_result" where
  "AllowSyntheticPayment name arguments context =
     policy_outcome (PolicyDecision_init ALLOW ''synthetic payment is allowed'' ''example-v1'' (PDict []) None)"

definition synthetic_lookup :: "ProviderLookup \<Rightarrow> 'w \<Rightarrow> ProviderObservation res \<times> 'w" where
  "synthetic_lookup request w =
     (if pl_idempotency_key request \<noteq> ''payment:demo:INV-42'' then (raise_exc (OtherError ''AssertionError'') [], w)
      else (ProviderObservation_init COMMITTED ''provider found one settled operation for the stable key''
              (Some ''synthetic_receipt_42'') (PDict [(''receipt_state'', PStr ''settled'')]), w))"

definition SyntheticPaymentProbe :: "'w ProviderProbe" where
  "SyntheticPaymentProbe = \<lparr>pp_name = ''synthetic-payments'', pp_lookup = synthetic_lookup\<rparr>"

text \<open>A function that takes exactly the named arguments and then loses the response.\<close>

definition losing_function :: "string list \<Rightarrow> ('w \<Rightarrow> 'w) \<Rightarrow> kwargs \<Rightarrow> 'w \<Rightarrow> tool_result \<times> 'w" where
  "losing_function names effect kw w =
     (if set (map fst kw) = set names then (Indeterminate ''IndeterminateOutcome'', effect w) else (Failed ''TypeError'', w))"

definition keyed_by :: "string \<Rightarrow> string \<Rightarrow> pyval \<Rightarrow> ActionContext \<Rightarrow> string res" where
  "keyed_by kind name arguments context =
     res_bind (py_item arguments name) (\<lambda>v. Inr (kind @ '':'' @ cx_tenant_id context @ '':'' @ py_str v))"

definition charge_invoice :: "'w TrustedAction res" where
  "charge_invoice = trusted_action AllowSyntheticPayment (keyed_by ''payment'' ''invoice_id'') ''payment'' default_options
     \<lparr>pf_name = ''charge_invoice'', pf_body = losing_function [''invoice_id'', ''amount''] id,
      pf_parameters = [(''invoice_id'', POSITIONAL_OR_KEYWORD), (''amount'', POSITIONAL_OR_KEYWORD)], pf_is_async = False\<rparr>"

definition provider_report :: "ActionResult \<Rightarrow> ActionResult \<Rightarrow> ledger \<Rightarrow> pyval" where
  "provider_report uncertain reconciled l = PDict [
     (''before'', PStr (status_value (ar_status uncertain))), (''after'', PStr (status_value (ar_status reconciled))),
     (''attempts'', PInt (ar_attempt reconciled)), (''result'', ar_value reconciled),
     (''events'', PList (map (\<lambda>e. PStr (e_type e)) (run_events l (ar_run_id uncertain))))]"

definition provider_example :: "schedule \<Rightarrow> ('w, string) rt" where
  "provider_example orc =
     rt_bind (rt_lift charge_invoice) (\<lambda>act.
     rt_bind (rt_lift (ActionContext_init ''demo-agent'' ''demo'' [] [] (PDict []))) (\<lambda>ctxt.
     rt_bind (invoke orc act ctxt [(''invoice_id'', PStr ''INV-42''), (''amount'', PInt 1250)]) (\<lambda>uncertain.
     rt_bind (rt_lift (VerifiedPrincipal_init ''demo-reconciler'' ''demo'' [''agenttrustops_reconciler''] ''synthetic-example'')) (\<lambda>operator.
     rt_bind (reconcile_from_provider orc act (ar_run_id uncertain) SyntheticPaymentProbe operator) (\<lambda>reconciled.
     rt_bind (read_ledger orc) (\<lambda>l.
     rt_lift (print_json True (provider_report uncertain reconciled l))))))))"

section \<open>The same with an asynchronous tool\<close>

definition AllowPolicy :: "string \<Rightarrow> pyval \<Rightarrow> ActionContext \<Rightarrow> policy_result" where
  "AllowPolicy name arguments context =
     policy_outcome (PolicyDecision_init ALLOW ''Synthetic demo action allowed'' ''demo-v1'' (PDict []) None)"

text \<open>The outside counts the calls of the provider.\<close>

definition async_charge :: "nat TrustedAction res" where
  "async_charge = trusted_action AllowPolicy (keyed_by ''charge'' ''order_id'') ''financial'' default_options
     \<lparr>pf_name = ''charge'', pf_body = losing_function [''order_id'', ''amount''] Suc,
      pf_parameters = [(''order_id'', POSITIONAL_OR_KEYWORD), (''amount'', POSITIONAL_OR_KEYWORD)], pf_is_async = True\<rparr>"

text \<open>The call of \<open>reconcile\<close> has a keyword argument the method does not take.\<close>

definition async_example :: "schedule \<Rightarrow> (nat, string) rt" where
  "async_example orc =
     rt_bind (rt_lift async_charge) (\<lambda>act.
     rt_bind (rt_lift (ActionContext_init ''demo-agent'' ''demo'' [] [] (PDict []))) (\<lambda>ctxt.
     rt_bind (invoke_async orc act ctxt [(''order_id'', PStr ''O-001''), (''amount'', PInt 800)]) (\<lambda>unknown.
     rt_bind (invoke_async orc act ctxt [(''order_id'', PStr ''O-001''), (''amount'', PInt 800)]) (\<lambda>retry.
     rt_raise TypeError (''TrustedAction.reconcile() got an unexpected keyword argument '' @ quoted ''operator_id'')))))"

section \<open>The evaluation against Stripe\<close>

definition payment_arguments :: "string \<Rightarrow> int \<Rightarrow> string \<Rightarrow> (string \<times> pyval) list" where
  "payment_arguments invoice amount currency =
     [(''invoice_id'', PStr invoice), (''amount'', PInt amount), (''currency'', PStr currency)]"

primrec retry :: "('w, 'a) rt \<Rightarrow> nat \<Rightarrow> ('w, 'a list) rt" where
  "retry m 0 = rt_return []"
| "retry m (Suc n) = rt_bind m (\<lambda>x. rt_bind (retry m n) (\<lambda>xs. rt_return (x # xs)))"

text \<open>What the governed part of the evaluation observed.\<close>

record evaluation =
  ev_normal :: ActionResult
  ev_unknown :: ActionResult
  ev_retries :: "ActionResult list"
  ev_blocked :: bool
  ev_reconciled :: ActionResult
  ev_pending :: ActionResult
  ev_pending_after :: ActionResult

definition evaluate_payments ::
  "schedule \<Rightarrow> datetime \<Rightarrow> 'w StripeSandboxPaymentAdapter \<Rightarrow> 'w StripeSandboxPaymentAdapter \<Rightarrow> 'w StripeSandboxPaymentAdapter
    \<Rightarrow> string \<Rightarrow> int \<Rightarrow> string \<Rightarrow> ('w, evaluation) rt" where
  "evaluate_payments orc now normal_adapter fault_adapter pending_adapter evaluation_id amount currency =
     (let invoice = (\<lambda>kind. ''ATOPS-'' @ evaluation_id @ ''-'' @ kind) in
      rt_bind (rt_lift (ActionContext_init ''sandbox-evaluator'' ''sandbox'' [] [] (PDict []))) (\<lambda>ctxt.
      rt_bind (rt_lift (VerifiedPrincipal_init ''sandbox-reconciler'' ''sandbox'' [''agenttrustops_reconciler'']
        ''local-sandbox-evaluation'')) (\<lambda>operator.
      rt_bind (rt_lift (build_payment_action normal_adapter ''stripe_sandbox_normal'' evaluation_id False)) (\<lambda>normal_action.
      rt_bind (rt_lift (build_payment_action fault_adapter ''stripe_sandbox_ambiguous'' evaluation_id True)) (\<lambda>fault_action.
      rt_bind (rt_lift (build_payment_action pending_adapter ''stripe_sandbox_pending'' evaluation_id False)) (\<lambda>pending_action.
      let faulty = (\<lambda>n. invoke orc fault_action ctxt (payment_arguments (invoice ''AMBIGUOUS'') n currency)) in
      rt_bind (invoke orc normal_action ctxt (payment_arguments (invoice ''NORMAL'') amount currency)) (\<lambda>normal.
      rt_bind (faulty amount) (\<lambda>unknown.
      rt_bind (retry (faulty amount) 10) (\<lambda>retries.
      rt_bind (rt_catch (rt_bind (faulty (amount + 50)) (\<lambda>_. rt_return False))
        (\<lambda>e. exc_kind e = IdempotencyConflict) (\<lambda>_. rt_return True)) (\<lambda>blocked.
      rt_bind (reconcile_from_provider orc fault_action (ar_run_id unknown) (StripeSandboxPaymentProbe fault_adapter now) operator) (\<lambda>reconciled.
      rt_bind (invoke orc pending_action ctxt (payment_arguments (invoice ''PENDING'') amount currency)) (\<lambda>pending.
      rt_bind (reconcile_from_provider orc pending_action (ar_run_id pending) (StripeSandboxPaymentProbe pending_adapter now) operator) (\<lambda>after_probe.
      rt_return \<lparr>ev_normal = normal, ev_unknown = unknown, ev_retries = retries, ev_blocked = blocked,
        ev_reconciled = reconciled, ev_pending = pending, ev_pending_after = after_probe\<rparr>)))))))))))))"

definition evaluation_scenarios :: "evaluation \<Rightarrow> (string \<times> bool) list" where
  "evaluation_scenarios e = [
     (''normal_payment_completed'', ar_status (ev_normal e) = COMPLETED),
     (''fault_became_unknown'', ar_status (ev_unknown e) = UNKNOWN),
     (''ten_retries_same_run'', list_all (\<lambda>r. ar_duplicate r \<and> ar_run_id r = ar_run_id (ev_unknown e)) (ev_retries e)),
     (''changed_amount_blocked'', ev_blocked e),
     (''provider_reconciliation_completed'', ar_status (ev_reconciled e) = COMPLETED \<and> ar_attempt (ev_reconciled e) = 1),
     (''pending_remained_unknown'', ar_status (ev_pending_after e) = UNKNOWN)]"

definition scenarios_dict :: "evaluation \<Rightarrow> pyval" where
  "scenarios_dict e = PDict (map (\<lambda>(name, ok). (name, PBool ok)) (evaluation_scenarios e))"

definition evaluation_result :: "string \<Rightarrow> evaluation \<Rightarrow> bundle_report \<Rightarrow> pyval res" where
  "evaluation_result evaluation_id e verification =
     res_bind (py_item (ar_value (ev_normal e)) ''payment_intent_id'') (\<lambda>normal.
     res_bind (res_bind (py_item (ar_value (ev_reconciled e)) ''safe_result'') (\<lambda>safe. py_item safe ''payment_intent_id'')) (\<lambda>ambiguous.
     Inr (PDict [
       (''schema'', PStr ''agenttrustops-stripe-sandbox-evaluation-v1''), (''evaluation_id'', PStr evaluation_id),
       (''provider'', PStr ''Stripe Sandbox''), (''livemode'', PBool False), (''scenarios'', scenarios_dict e),
       (''run_ids'', PDict [(''normal'', PStr (ar_run_id (ev_normal e))), (''ambiguous'', PStr (ar_run_id (ev_unknown e))),
          (''pending'', PStr (ar_run_id (ev_pending e)))]),
       (''safe_provider_references'', PDict [(''normal'', normal), (''ambiguous'', ambiguous)]),
       (''audit_verification'', bundle_report_dict verification),
       (''dashboard_search_values'', PList (map (\<lambda>kind. PStr (''ATOPS-'' @ evaluation_id @ ''-'' @ kind))
          [''NORMAL'', ''AMBIGUOUS'', ''PENDING''])),
       (''claim_boundary'', PStr ''Sandbox integration evidence only; not production adoption or real money.'')])))"

text \<open>The keys, the signed bundle and its verification with the pinned key; the private key is
  removed whatever happens.\<close>

definition sign_evidence ::
  "'k ed25519 \<Rightarrow> datetime \<Rightarrow> schedule \<Rightarrow> 'k \<Rightarrow> u8 list \<times> u8 list \<times> u8 list \<Rightarrow> 'w world
    \<Rightarrow> (bundle_report \<times> files) res \<times> 'w world" where
  "sign_evidence crypto now orc key new_keys w =
     (let private_key = ''.temporary-audit-private.pem''; public_key = ''audit-public-key.pem'' in
      case new_keys of (private_bytes, public_bytes, public_raw) \<Rightarrow>
      case generate_ed25519_keypair private_key public_key private_bytes public_bytes public_raw [] of
        (Inl e, _) \<Rightarrow> (Inl e, w)
      | (Inr _, fs) \<Rightarrow>
          (case export_ledger crypto now orc ''sqlite'' (Some ''sandbox'') 1000 (Some (Inr key)) w of
             (Inl e, w') \<Rightarrow> (Inl e, w')
           | (Inr bundle, w') \<Rightarrow>
               (res_bind (write_audit_bundle ''audit-bundle.json'' bundle (filter (\<lambda>f. fst f \<noteq> private_key) fs)) (\<lambda>(_, fs').
                res_bind (verify_audit_bundle crypto bundle (Some (Inr public_raw))) (\<lambda>verification.
                Inr (verification, fs'))), w')))"

definition evaluation_files :: "string \<Rightarrow> evaluation \<Rightarrow> bundle_report \<Rightarrow> files \<Rightarrow> (string \<times> files) res" where
  "evaluation_files evaluation_id e verification fs =
     res_bind (evaluation_result evaluation_id e verification) (\<lambda>result.
     res_bind (json_dumps_indent True True result) (\<lambda>result_text.
     res_bind (json_dumps_indent True True (bundle_report_dict verification)) (\<lambda>verification_text.
     Inr (line result_text,
       fs @ [(''sanitized-result.json'', utf8_encode (line result_text), 420),
             (''verification.txt'', utf8_encode (line verification_text), 420)]))))"

text \<open>The program, after its command line: what it prints and the files it leaves.\<close>

definition stripe_evaluation ::
  "'k ed25519 \<Rightarrow> datetime \<Rightarrow> schedule \<Rightarrow> 'k \<Rightarrow> u8 list \<times> u8 list \<times> u8 list
    \<Rightarrow> (string \<Rightarrow> string \<Rightarrow> 'w StripeSandboxPaymentAdapter res) \<Rightarrow> string \<Rightarrow> string \<Rightarrow> int \<Rightarrow> string \<Rightarrow> ('w, string \<times> files) rt" where
  "stripe_evaluation crypto now orc key new_keys adapter secret_key evaluation_id amount currency =
     (if secret_key = []
      then rt_lift (system_exit ''Set STRIPE_SECRET_KEY to a Stripe test key; never paste it into GitHub.'')
      else rt_bind (rt_lift (adapter secret_key ''pm_card_visa'')) (\<lambda>normal_adapter.
        rt_bind (rt_lift (adapter secret_key ''pm_card_visa'')) (\<lambda>fault_adapter.
        rt_bind (rt_lift (adapter secret_key ''pm_card_authenticationRequired'')) (\<lambda>pending_adapter.
        rt_bind (evaluate_payments orc now normal_adapter fault_adapter pending_adapter evaluation_id amount currency) (\<lambda>e.
        if \<not> list_all snd (evaluation_scenarios e)
        then rt_raise RuntimeError (''Stripe Sandbox evaluation failed: '' @ py_repr (scenarios_dict e))
        else rt_bind (sign_evidence crypto now orc key new_keys) (\<lambda>(verification, fs).
          rt_lift (evaluation_files evaluation_id e verification fs)))))))"

section \<open>What the examples promise\<close>

lemma ok_invoke:
  assumes "others_follow_protocol orc"
  shows "keeps ok_change (invoke orc act ctxt args)" "keeps ok_change (invoke_async orc act ctxt args)"
  by (rule ok_if_step, erule world_step.intros [OF assms])+

lemma ok_retry: "keeps ok_change m \<Longrightarrow> keeps ok_change (retry m n)"
  by (induction n) (auto intro!: ok.keeps_intros)

lemma ok_read_ledgers: "others_follow_protocol orc \<Longrightarrow> keeps ok_change (read_ledgers orc n)"
  by (induction n) (auto intro!: ok.keeps_intros ok_reads)

lemma ok_export: "others_follow_protocol orc \<Longrightarrow> keeps ok_change (export_ledger crypto now orc backend tenant limit signing_key)"
  unfolding export_ledger_def by (intro ok.keeps_intros ok_reads ok_read_ledgers)

lemma ok_sign:
  assumes "others_follow_protocol orc"
  shows "keeps ok_change (sign_evidence crypto now orc key new_keys)"
  unfolding keeps_def
proof
  fix w
  obtain a b c where keys: "new_keys = (a, b, c)" by (cases new_keys)
  obtain x w1 where e: "export_ledger crypto now orc ''sqlite'' (Some ''sandbox'') 1000 (Some (Inr key)) w = (x, w1)"
    by (cases "export_ledger crypto now orc ''sqlite'' (Some ''sandbox'') 1000 (Some (Inr key)) w")
  have "ok_change w w1" by (rule keepsD [OF ok_export [OF assms] e])
  then show "ok_change w (snd (sign_evidence crypto now orc key new_keys w))"
    using ok.refl [of w] by (simp add: sign_evidence_def keys e Let_def split: prod.split sum.split)
qed

lemmas ok_example = ok.keeps_intros ok_invoke ok_retry ok_reads ok_methods ok_sign

lemma ok_evaluate_payments:
  "others_follow_protocol orc \<Longrightarrow> keeps ok_change (evaluate_payments orc now n f p evaluation_id amount currency)"
  unfolding evaluate_payments_def Let_def by (intro ok_example)

text \<open>Whatever other clients of the ledger do, the protected function of each example is called at
  most once for a run and for an idempotency key: the ten retries and the changed amount of the
  evaluation and the second invocation of the asynchronous example make no payment.\<close>

theorem examples_pay_once:
  assumes "others_follow_protocol orc" "fresh_world w" "fresh_world v"
    "provider_example orc w = (x, w') \<or> stripe_evaluation crypto now orc key new_keys adapter secret_key evaluation_id amount currency w = (y, w')"
    "async_example orc v = (z, v')"
  shows "distinct (map (call_key (w_ledger w')) (w_log w')) \<and> distinct (map (call_key (w_ledger v')) (w_log v'))"
proof -
  have "keeps ok_change (provider_example orc)" "keeps ok_change (async_example orc)"
    unfolding provider_example_def async_example_def by (intro ok_example assms(1))+
  moreover have "keeps ok_change (stripe_evaluation crypto now orc key new_keys adapter secret_key evaluation_id amount currency)"
    unfolding stripe_evaluation_def by (intro ok_example ok_evaluate_payments assms(1))
  ultimately have "ok_change w w'" "ok_change v v'" using assms(4,5) by (auto dest: keepsD)
  moreover have "world_ok w" "world_ok v" using assms(2,3) by (auto intro: worlds.init_inv)
  ultimately show ?thesis by (simp add: ok_change_def world_ok_calls_once)
qed

text \<open>The asynchronous example never prints its result.\<close>

theorem async_example_fails: "\<exists>e w'. async_example orc w = (Inl e, w')"
  by (auto simp: async_example_def rt_bind_def rt_raise_def raise_exc_def split: sum.split prod.split)

end
