(* ===== verification/Spec2Isabelle.thy ===== *)
theory Spec2Isabelle
  imports Ledger_Props Ledger_Approvals Ledger_Integrity Runtime_Props Runtime_Reconcile Ledger_Reports Ledger_Migrate Refund_Action
    Release Bundle_Props Api_Props Cli_Props Adapter_Props Stripe_Props Opa
    Postgres_Migrate Schema Ledger_Types Runtime_Bounds Cli_Args Examples
begin

text \<open>
  A verification development for AgentTrustOps: a library that puts policy, human approval,
  idempotency and an evidence log between an agent and the tools it calls. File names are those
  of \<open>src/agenttrustops/\<close>; each definition has the name of the function, method or class it
  translates wherever that name is free.

  \<^bold>\<open>How the parts interact.\<close> An agent reaches a governed function through a
  \<open>TrustedAction\<close> (\<open>runtime.py\<close>), directly, through the HTTP API, through a framework adapter or
  from the command line. The action fixes an idempotency key, stores the request in the ledger
  (\<open>ledger.py\<close>), asks the policy, records its decision there, may wait for an approval, claims the
  execution under a lease, calls the function once and stores how it ended; what is uncertain stays
  \<open>unknown\<close> until an operator or a provider lookup settles it. The ledger is the only shared state.
  It keeps one row per run, one row per requested approval and a hash-chained log of events, and
  every operation is one transaction. Reports, metrics, audit trails and bundles are read from it.

  \<^bold>\<open>Conventions.\<close>
  \<^item> A call that may raise is a value of type \<open>'a res\<close>, an exception or a result (\<open>Prelude\<close>); every
    raise and early return of the source is a branch. A raising transaction has no new tables.
  \<^item> Strings are lists of characters U+0000 to U+00FF; \<open>str\<close> methods are modelled on these. Integers
    are unbounded as in Python; SHA-256 is on 32-bit words. A float is its \<open>repr\<close>, and its exact value
    (binary64) where the code computes with it. Python's limit on the digits of an int is not modelled.
  \<^item> A table is the list of its rows in insertion order, which is the order SQLite's scans have. A JSON
    column is the value it reads back as. A time is a number of microseconds, and its \<open>isoformat\<close> text
    where SQL compares or hashes it; comparing the texts is shown to compare the times.
  \<^item> Clock readings and random identifiers are arguments (\<open>env\<close>, \<open>schedule\<close>). A method runs on a
    \<open>world\<close>: the ledger, the state of the outside systems, and the log of tool calls. Between two of its
    transactions the other clients of the ledger do what the schedule says; \<open>others_follow_protocol\<close>
    says that they use the operations of the ledger, \<open>alone\<close> that there are none. The heartbeat thread of
    a running tool is such a client (\<open>renew\<close>). Values passed to a function are not mutated by it.

  \<^bold>\<open>Theories and what their lemmas show.\<close>
  \<^item> \<open>Prelude\<close>, \<open>PyStr\<close>, \<open>Json\<close>, \<open>Json_Roundtrip\<close>, \<open>PyValue\<close>, \<open>Timestamps\<close>, \<open>Sha256\<close>, \<open>Digest\<close>, \<open>Base64\<close>: what the
    package uses of Python: strings, \<open>json.dumps\<close> and \<open>json.loads\<close>, numbers, \<open>datetime\<close>, \<open>hashlib\<close>, \<open>_json\<close>
    and \<open>_digest\<close>. The parser of JSON has fuel; twice the length of the text is enough
    (\<open>parse_value_fuel\<close>), and what is stored reads back as its normal form. SHA-256 is computed, but no
    proof unfolds it: statements about hashes exhibit the collision they exclude.
  \<^item> \<open>Models\<close>, \<open>Providers\<close> (\<open>models.py\<close>, \<open>errors.py\<close>, \<open>providers.py\<close>): the dataclasses with their validation.
  \<^item> \<open>Ledger\<close>, \<open>Ledger_Ops\<close>, \<open>Ledger_Reads\<close> (\<open>ledger.py\<close>): the tables, every operation that changes them,
    and the reports. \<open>Ledger_Chain\<close> has the verification of a chain; \<open>Ledger_View\<close> and \<open>Ledger_Effects\<close> what an
    operation does to one run; \<open>Ledger_Replay\<close> the abstract run, a state machine driven by event types;
    \<open>Ledger_Inv\<close>, \<open>Ledger_Steps\<close>, \<open>Ledger_Steps2\<close> the invariant (keys, chains, replay, approvals, leases) and
    that every operation keeps it; \<open>Ledger_Reach\<close> the reachable ledgers; \<open>Ledger_Live\<close> that operations
    succeed unless the code refuses. \<open>Ledger_Props\<close>, \<open>Ledger_Approvals\<close>, \<open>Ledger_Integrity\<close>, \<open>Ledger_Reports\<close>
    and \<open>Ledger_Types\<close> state the properties, \<open>Ledger_Demo\<close> is the run they are exercised on, \<open>Ledger_Migrate\<close>
    and \<open>Schema\<close> are the migration of rows and of the schema.
  \<^item> \<open>Postgres\<close>, \<open>Postgres_Props\<close>, \<open>Postgres_Migrate\<close> (\<open>postgres.py\<close>): the inherited operations where a read
    is not locked, so that it may be older than the rows the writes meet. Chains and exclusive claims
    survive this; the expiry of an approval does not.
  \<^item> \<open>Runtime\<close>, \<open>Runtime_Audit\<close> (\<open>runtime.py\<close>): every method of \<open>TrustedAction\<close> as a state-passing program.
    \<open>Runtime_Logic\<close> has the rules for relations that methods keep, \<open>Runtime_Exec\<close> and \<open>Runtime_Invoke\<close> what an
    execution is allowed by and the reachable worlds, \<open>Runtime_Results\<close> and \<open>Runtime_Effects\<close> what methods
    return and do outside, \<open>Runtime_Bounds\<close> how many transactions they take; \<open>Runtime_Props\<close> and
    \<open>Runtime_Reconcile\<close> state the properties, \<open>Runtime_Demo\<close> is the world they are exercised in.
  \<^item> \<open>Refunds\<close>, \<open>Refund_Props\<close>, \<open>Refund_Action\<close>, \<open>Release\<close> (\<open>refund_ops.py\<close>): orders, the refund store and its
    uniqueness constraint, the policy, the governed action, and the release gate.
  \<^item> \<open>Registry\<close>, \<open>Auth\<close>, \<open>Api\<close>, \<open>Api_Tenants\<close>, \<open>Api_Props\<close> (\<open>registry.py\<close>, \<open>auth.py\<close>, \<open>api.py\<close>): the endpoints of
    \<open>create_app\<close> around the registered actions; tenants do not reach each other.
  \<^item> \<open>Observability\<close>, \<open>Bundles\<close>, \<open>Bundle_Props\<close> (\<open>observability.py\<close>, \<open>audit.py\<close>): metrics and their text, which
    a reference reader reads back; audit bundles, their signature, files and verification.
  \<^item> \<open>Opa\<close>, \<open>Stripe\<close>, \<open>Stripe_Props\<close>, \<open>Adapters\<close>, \<open>Adapter_Props\<close> (\<open>integrations/\<close>): the policy server, the payment
    adapter with its lookup, and the adapters for MCP, OpenAI Agents and LangGraph.
  \<^item> \<open>Argparse\<close>, \<open>Cli\<close>, \<open>Cli_Serve\<close>, \<open>Cli_Main\<close>, \<open>Cli_Args\<close>, \<open>Cli_Props\<close> (\<open>cli.py\<close>): the parsers, each handler from
    parsed arguments to output and exit code, and the application that \<open>serve\<close> builds. \<open>Examples\<close> has the
    programs of \<open>examples/\<close>.

  \<^bold>\<open>Interfaces.\<close> \<open>transition_system\<close> is a state machine with an invariant and a preorder its steps stay
  in (the ledger, the worlds, the HTTP service, the agents behind an adapter); \<open>execution_ledger\<close> is what
  the runtime relies on of a ledger to call a tool once; \<open>world_preorder\<close> is a relation that methods
  keep, with the rules for every construct they are built from (it is interpreted for being
  silent, making no call, staying in a tenant, replaying calls, and keeping the invariant);
  \<open>hash_chain\<close> is a linked hash with its collisions.

  \<^bold>\<open>Parameters and hypotheses.\<close> Code outside the repository is an argument: Ed25519 and its key files
  (a signature verifies under its key), the JWT package, the text SQLite gives a float, the syntax check
  of bracketed hosts, what \<open>urlopen\<close> answers, Stripe's client (its idempotency contract is the
  hypothesis \<open>idempotent_payments\<close>), FastAPI's order of validation as documented. PostgreSQL is taken
  at READ COMMITTED. Payments are stated for ledgers of \<open>plain_runs\<close>, whose run identifiers have no
  outer spaces and whose arguments are JSON, as those of an action are. On the command line the
  ledger of the world is the one the arguments name, paths are normal, and a policy file holds an object;
  \<open>argparse\<close> is that of CPython 3.11 without the word \<open>--\<close>.

  \<^bold>\<open>Not modelled.\<close> Connections, pragmas and closing of databases, and the SQL engines below a
  statement; threads and event loops themselves (their interleavings are the schedules); the text of
  help, of usage errors and of FastAPI's validation errors; routing and the content of the static files of the control
  plane; uvicorn; logging; the registration inside the agent frameworks; \<open>benchmark_sqlite.py\<close>, which
  measures time, and \<open>__init__.py\<close>, which re-exports names.
\<close>

end
